(* ===== verification/Js_Prelude.thy ===== *)
theory Js_Prelude
  imports
    Main
    "HOL-Library.AList"
    "HOL-Library.Char_ord"
    "HOL-Library.List_Lexorder"
begin

text \<open>
  The part of the TypeScript language and of its standard library that the modelled packages use,
  and the lemmas on it that every component shares.

  \<^item> Strings are HOL strings: a character is a code unit between 0 and 255, so the model covers
    the Latin-1 part of the UTF-16 strings of the source. The whitespace class and the JSON
    escapes below are the ones of that range.
  \<^item> A \<^verbatim>\<open>Map\<close> is an association list in insertion order: \<^verbatim>\<open>set\<close> overwrites in place or appends,
    as the library function \<open>AList.update\<close> does.
  \<^item> A value of type \<^verbatim>\<open>unknown\<close> is a \<open>js_value\<close>; a symbol or a function is represented by its
    \<^verbatim>\<open>String(value)\<close> rendering, an object by its own members in enumeration order. A finite number is an integer that prints in plain decimal notation (\<open>JInt\<close>) or is
    represented by its \<^verbatim>\<open>Number::toString\<close> rendering (\<open>JDec\<close>); 0 and -0 are one value, as they
    are for \<^verbatim>\<open>===\<close> and \<^verbatim>\<open>JSON.stringify\<close>. Version counters and timestamps are \<open>int\<close>, exact below
    \<open>2 ^ 53\<close> like the numbers of the source; a \<^verbatim>\<open>bigint\<close> is an \<open>int\<close>.
  \<^item> A computation that may throw returns \<open>Returned\<close> or \<open>Thrown\<close>; a stateful one is a \<open>step\<close>,
    chained with \<open>andThen\<close>, which stops at the first throw.
\<close>

named_theorems step_simps \<open>unfolding rules for steps\<close>
named_theorems js_defs \<open>definitions of small language helpers\<close>

section \<open>Values, errors and results\<close>

datatype js_number = JInt int | JDec string | JNaN | JInfinity bool

datatype js_value =
    JUndefined
  | JNull
  | JBool bool
  | JNumber js_number
  | JString string
  | JArray "js_value list"
  | JObject "(string \<times> js_value) list"
  | JBigInt int
  | JSymbol string
  | JFunction string

type_synonym js_object = "(string \<times> js_value) list"
type_synonym js_date = int

datatype domain_error = DomainError (err_code: string) (err_message: string) (err_details: "js_object option")

type_synonym 'a result = "domain_error + 'a"

abbreviation ok :: "'a \<Rightarrow> 'a result" where
  "ok x \<equiv> Inr x"

abbreviation err :: "domain_error \<Rightarrow> 'a result" where
  "err e \<equiv> Inl e"

definition failure :: "string \<Rightarrow> string \<Rightarrow> domain_error" where
  "failure code message = DomainError code message None"

lemma failure_sel [simp]:
  "err_code (failure c m) = c" "err_message (failure c m) = m"
  by (simp_all add: failure_def)

section \<open>Maps in insertion order\<close>

type_synonym ('k, 'v) js_map = "('k \<times> 'v) list"

abbreviation map_get :: "('k, 'v) js_map \<Rightarrow> 'k \<Rightarrow> 'v option" where
  "map_get m k \<equiv> map_of m k"

abbreviation map_set :: "'k \<Rightarrow> 'v \<Rightarrow> ('k, 'v) js_map \<Rightarrow> ('k, 'v) js_map" where
  "map_set k v m \<equiv> AList.update k v m"

abbreviation map_remove :: "'k \<Rightarrow> ('k, 'v) js_map \<Rightarrow> ('k, 'v) js_map" where
  "map_remove k m \<equiv> AList.delete k m"

abbreviation map_values :: "('k, 'v) js_map \<Rightarrow> 'v list" where
  "map_values m \<equiv> map snd m"

abbreviation keys_distinct :: "('k, 'v) js_map \<Rightarrow> bool" where
  "keys_distinct m \<equiv> distinct (map fst m)"

lemma map_get_set [simp]: "map_get (map_set k v m) j = (if j = k then Some v else map_get m j)"
  by (simp add: AList.update_conv')

lemma map_get_remove [simp]: "map_get (map_remove k m) j = (if j = k then None else map_get m j)"
  by (simp add: AList.delete_conv')

lemma keys_distinct_set [simp]: "keys_distinct m \<Longrightarrow> keys_distinct (map_set k v m)"
  by (rule AList.distinct_update)

lemma keys_distinct_remove [simp]: "keys_distinct m \<Longrightarrow> keys_distinct (map_remove k m)"
  by (rule AList.distinct_delete)

lemma map_set_mem_iff:
  assumes "keys_distinct m"
  shows "(j, x) \<in> set (map_set k v m) \<longleftrightarrow> (if j = k then x = v else (j, x) \<in> set m)"
  using assms
  by (metis AList.distinct_update map_get_set map_of_eq_Some_iff option.inject)

lemma map_values_set_subset:
  "x \<in> set (map_values (map_set k v m)) \<Longrightarrow> x = v \<or> x \<in> set (map_values m)"
  by (induction m) (auto split: if_splits)

lemma map_set_fresh: "map_get m k = None \<Longrightarrow> map_set k v m = m @ [(k, v)]"
  by (induction m) (auto split: if_splits)

lemma fst_set_map_set: "fst ` set (map_set k v m) = insert k (fst ` set m)"
  by (simp add: AList.dom_update)

text \<open>Keys already present keep their place.\<close>

lemma map_fst_map_set_present: "k \<in> fst ` set m \<Longrightarrow> map fst (map_set k v m) = map fst m"
  by (induction m) auto

text \<open>\<^verbatim>\<open>{ ...base, ...extra }\<close>\<close>

definition spread :: "js_object \<Rightarrow> js_object \<Rightarrow> js_object" where
  "spread base extra = fold (\<lambda>(k, v) o'. map_set k v o') extra base"

locale keyed_map =
  fixes get :: "'m \<Rightarrow> 'k \<Rightarrow> 'v option"
    and put :: "'k \<Rightarrow> 'v \<Rightarrow> 'm \<Rightarrow> 'm"
    and remove :: "'k \<Rightarrow> 'm \<Rightarrow> 'm"
    and invar :: "'m \<Rightarrow> bool"
  assumes get_put: "invar m \<Longrightarrow> get (put k v m) j = (if j = k then Some v else get m j)"
    and get_remove: "invar m \<Longrightarrow> get (remove k m) j = (if j = k then None else get m j)"
    and invar_put: "invar m \<Longrightarrow> invar (put k v m)"
    and invar_remove: "invar m \<Longrightarrow> invar (remove k m)"
begin

lemma put_put_commute:
  "invar m \<Longrightarrow> k \<noteq> j \<Longrightarrow> get (put k v (put j u m)) i = get (put j u (put k v m)) i"
  by (simp add: get_put invar_put)

lemma dom_put: "invar m \<Longrightarrow> dom (get (put k v m)) = insert k (dom (get m))"
  by (auto simp: get_put split: if_splits)

lemma dom_remove: "invar m \<Longrightarrow> dom (get (remove k m)) = dom (get m) - {k}"
  by (auto simp: get_remove split: if_splits)

end

interpretation js_map: keyed_map map_of AList.update AList.delete "\<lambda>m. distinct (map fst m)"
  by unfold_locales simp_all

section \<open>Sorting and searching arrays\<close>

text \<open>
  \<^verbatim>\<open>Array.prototype.sort\<close> with a comparator is a stable sort; for a consistent comparator its
  result is the one of stable insertion.
\<close>

fun insort_by :: "('a \<Rightarrow> 'a \<Rightarrow> int) \<Rightarrow> 'a \<Rightarrow> 'a list \<Rightarrow> 'a list" where
  "insort_by cmp x [] = [x]"
| "insort_by cmp x (y # ys) = (if cmp x y \<le> 0 then x # y # ys else y # insort_by cmp x ys)"

definition array_sort :: "('a \<Rightarrow> 'a \<Rightarrow> int) \<Rightarrow> 'a list \<Rightarrow> 'a list" where
  "array_sort cmp xs = foldr (insort_by cmp) xs []"

lemma set_insort_by [simp]: "set (insort_by cmp x xs) = insert x (set xs)"
  by (induction xs) auto

lemma length_insort_by [simp]: "length (insort_by cmp x xs) = Suc (length xs)"
  by (induction xs) auto

lemma array_sort_Nil [simp]: "array_sort cmp [] = []"
  by (simp add: array_sort_def)

lemma array_sort_Cons [simp]: "array_sort cmp (x # xs) = insort_by cmp x (array_sort cmp xs)"
  by (simp add: array_sort_def)

lemma set_array_sort [simp]: "set (array_sort cmp xs) = set xs"
  by (induction xs) simp_all

lemma length_array_sort [simp]: "length (array_sort cmp xs) = length xs"
  by (induction xs) simp_all

lemma distinct_insort_by: "distinct (insort_by cmp x xs) = (x \<notin> set xs \<and> distinct xs)"
  by (induction xs) auto

lemma distinct_array_sort [simp]: "distinct (array_sort cmp xs) = distinct xs"
  by (induction xs) (simp_all add: distinct_insort_by)

text \<open>A list that the comparator orders strictly is the sort of each of its permutations.\<close>

lemma insort_by_sorted:
  assumes "sorted_wrt (\<lambda>a b. cmp a b < 0) (as @ x # bs)"
    and "\<And>a. a \<in> set as \<Longrightarrow> cmp x a > 0"
  shows "insort_by cmp x (as @ bs) = as @ x # bs"
  using assms
proof (induction as)
  case Nil
  then show ?case by (cases bs) auto
next
  case (Cons a as)
  then show ?case by force
qed

lemma array_sort_unique:
  assumes "sorted_wrt (\<lambda>a b. cmp a b < 0) ys" and "distinct xs" and "set xs = set ys"
    and anti: "\<And>a b. a \<in> set ys \<Longrightarrow> b \<in> set ys \<Longrightarrow> cmp a b < 0 \<Longrightarrow> cmp b a > 0"
  shows "array_sort cmp xs = ys"
  using assms
proof (induction xs arbitrary: ys)
  case Nil
  then show ?case by simp
next
  case (Cons x xs)
  then have "x \<in> set ys" by auto
  then obtain as bs where ys: "ys = as @ x # bs" by (meson split_list)
  have dist: "distinct ys"
  proof -
    have irrefl: "\<not> cmp a a < 0" if "a \<in> set ys" for a
      using Cons.prems(4)[OF that that] by linarith
    then show ?thesis using Cons.prems(1)
      by (induction ys) (auto simp: sorted_wrt.simps(2))
  qed
  have "array_sort cmp xs = as @ bs"
  proof (rule Cons.IH)
    show "sorted_wrt (\<lambda>a b. cmp a b < 0) (as @ bs)"
      using Cons.prems(1) by (auto simp: ys sorted_wrt_append)
    show "distinct xs" using Cons.prems(2) by simp
    show "set xs = set (as @ bs)" using Cons.prems(2,3) dist ys by auto
    show "\<And>a b. a \<in> set (as @ bs) \<Longrightarrow> b \<in> set (as @ bs) \<Longrightarrow> cmp a b < 0 \<Longrightarrow> 0 < cmp b a"
      using Cons.prems(4) ys by auto
  qed
  moreover have "insort_by cmp x (as @ bs) = as @ x # bs"
  proof (rule insort_by_sorted)
    show "sorted_wrt (\<lambda>a b. cmp a b < 0) (as @ x # bs)" using Cons.prems(1) ys by simp
    fix a assume "a \<in> set as"
    then show "cmp x a > 0" using Cons.prems(1,4) ys by (auto simp: sorted_wrt_append)
  qed
  ultimately show ?case by (simp add: ys)
qed

text \<open>\<^verbatim>\<open>[...new Set(xs)]\<close>: the first occurrence of each element, in order.\<close>

fun js_set :: "'a list \<Rightarrow> 'a list" where
  "js_set [] = []"
| "js_set (x # xs) = x # js_set (filter (\<lambda>y. y \<noteq> x) xs)"

lemma set_js_set [simp]: "set (js_set xs) = set xs"
  by (induction xs rule: js_set.induct) auto

lemma distinct_js_set [simp]: "distinct (js_set xs)"
  by (induction xs rule: js_set.induct) auto

lemma js_set_id [simp]: "distinct xs \<Longrightarrow> js_set xs = xs"
proof (induction xs)
  case (Cons x xs)
  then have "filter (\<lambda>y. y \<noteq> x) xs = xs" by (auto simp: filter_id_conv)
  with Cons show ?case by simp
qed simp

lemma length_js_set_eq_iff: "length (js_set xs) = length xs \<longleftrightarrow> distinct xs"
  by (metis distinct_card distinct_js_set card_distinct set_js_set)

section \<open>Strings\<close>

definition js_space :: "char \<Rightarrow> bool" where
  "js_space c \<longleftrightarrow> (of_char c :: nat) \<in> {9, 10, 11, 12, 13, 32, 160}"

definition trim :: "string \<Rightarrow> string" where
  "trim s = rev (dropWhile js_space (rev (dropWhile js_space s)))"

text \<open>\<^verbatim>\<open>s.replace(/\s+/g, " ")\<close>: each maximal run of whitespace becomes one blank.\<close>

function collapse_spaces :: "string \<Rightarrow> string" where
  "collapse_spaces [] = []"
| "collapse_spaces (c # cs) =
     (if js_space c then CHR '' '' # collapse_spaces (dropWhile js_space cs)
      else c # collapse_spaces cs)"
  by pat_completeness auto
termination
  by (relation "measure length") (auto simp: le_imp_less_Suc length_dropWhile_le)

definition squish :: "string \<Rightarrow> string" where
  "squish s = collapse_spaces (trim s)"

text \<open>
  The strings that \<open>squish\<close> produces: no whitespace at either end, blanks only, never two in a row.
\<close>

fun squished_tail :: "string \<Rightarrow> bool" where
  "squished_tail [] = True"
| "squished_tail [c] = (\<not> js_space c)"
| "squished_tail (c # d # cs) =
     ((js_space c \<longrightarrow> c = CHR '' '' \<and> \<not> js_space d) \<and> squished_tail (d # cs))"

definition squished :: "string \<Rightarrow> bool" where
  "squished s \<longleftrightarrow> squished_tail s \<and> (\<forall>c cs. s = c # cs \<longrightarrow> \<not> js_space c)"

lemma js_space_blank [simp]: "js_space (CHR '' '')"
  by (simp add: js_space_def)

lemma dropWhile_hd: "dropWhile P xs = y # ys \<Longrightarrow> \<not> P y"
  by (induction xs) (auto split: if_splits)

lemma collapse_spaces_id: "squished_tail s \<Longrightarrow> collapse_spaces s = s"
  by (induction s rule: squished_tail.induct) auto

lemma collapse_spaces_hd:
  "collapse_spaces s = d # ds \<Longrightarrow> s = c # cs \<Longrightarrow> js_space d = js_space c"
  by (auto split: if_splits)

lemma collapse_spaces_eq_Nil [simp]: "collapse_spaces s = [] \<longleftrightarrow> s = []"
  by (cases s) auto

lemma last_dropWhile: "dropWhile P xs \<noteq> [] \<Longrightarrow> last (dropWhile P xs) = last xs"
  by (induction xs) auto

lemma squished_tail_collapse:
  "s = [] \<or> \<not> js_space (last s) \<Longrightarrow> squished_tail (collapse_spaces s)"
proof (induction s rule: collapse_spaces.induct)
  case 1
  then show ?case by simp
next
  case (2 c cs)
  show ?case
  proof (cases "js_space c")
    case True
    with "2.prems" have "cs \<noteq> [] \<and> \<not> js_space (last cs)" by (auto split: if_splits)
    then have ne: "dropWhile js_space cs \<noteq> []" using last_in_set by (auto simp: dropWhile_eq_Nil_conv)
    then have "squished_tail (collapse_spaces (dropWhile js_space cs))"
      using "2.IH"(1)[OF True] "2.prems" True by (auto simp: last_dropWhile split: if_splits)
    moreover obtain d ds where d: "dropWhile js_space cs = d # ds" using ne by (cases "dropWhile js_space cs") auto
    ultimately show ?thesis using True dropWhile_hd[OF d] by auto
  next
    case False
    have "squished_tail (collapse_spaces cs)"
      using "2.IH"(2)[OF False] "2.prems" by (cases "cs = []") auto
    then show ?thesis using False by (cases "collapse_spaces cs") auto
  qed
qed

lemma trim_hd: "trim s = c # cs \<Longrightarrow> \<not> js_space c"
proof -
  assume t: "trim s = c # cs"
  let ?u = "dropWhile js_space s"
  have "\<exists>zs. ?u = trim s @ zs"
    unfolding trim_def by (metis rev_append rev_rev_ident takeWhile_dropWhile_id)
  then show ?thesis using t dropWhile_hd[of js_space s c] by auto
qed

lemma trim_last: "trim s \<noteq> [] \<Longrightarrow> \<not> js_space (last (trim s))"
  unfolding trim_def by (simp add: last_rev hd_dropWhile)

lemma trim_id: "s = [] \<or> (\<not> js_space (hd s) \<and> \<not> js_space (last s)) \<Longrightarrow> trim s = s"
proof -
  assume a: "s = [] \<or> (\<not> js_space (hd s) \<and> \<not> js_space (last s))"
  have "dropWhile js_space s = s" using a by (cases s) auto
  moreover have "dropWhile js_space (rev s) = rev s"
    using a by (cases "rev s") (auto simp flip: hd_rev)
  ultimately show ?thesis by (simp add: trim_def)
qed

lemma trim_idem [simp]: "trim (trim s) = trim s"
proof (rule trim_id, cases "trim s")
  case (Cons c cs)
  then show "trim s = [] \<or> (\<not> js_space (hd (trim s)) \<and> \<not> js_space (last (trim s)))"
    using trim_hd[OF Cons] trim_last[of s] by auto
qed simp

lemma squished_squish: "squished (squish s)"
  unfolding squished_def squish_def
proof (intro conjI allI impI)
  show "squished_tail (collapse_spaces (trim s))"
    using squished_tail_collapse trim_last by blast
  fix c cs assume c: "collapse_spaces (trim s) = c # cs"
  then obtain d ds where "trim s = d # ds" by (cases "trim s") auto
  then show "\<not> js_space c" using trim_hd collapse_spaces_hd[OF c] by blast
qed

lemma squished_tail_last: "squished_tail s \<Longrightarrow> s \<noteq> [] \<Longrightarrow> \<not> js_space (last s)"
  by (induction s rule: squished_tail.induct) auto

lemma squish_id: "squished s \<Longrightarrow> squish s = s"
proof -
  assume sq: "squished s"
  have "trim s = s"
    using sq squished_tail_last[of s] by (intro trim_id) (cases s, auto simp: squished_def)
  with sq show ?thesis by (simp add: squish_def squished_def collapse_spaces_id)
qed

lemma squish_idem [simp]: "squish (squish s) = squish s"
  by (rule squish_id) (rule squished_squish)

lemma length_trim: "length (trim s) \<le> length s"
  unfolding trim_def by (metis length_dropWhile_le length_rev order_trans)

lemma length_collapse: "length (collapse_spaces s) \<le> length s"
proof (induction s rule: collapse_spaces.induct)
  case (2 c cs)
  then show ?case by (auto intro: order_trans[OF _ length_dropWhile_le])
qed simp

text \<open>\<^verbatim>\<open>toLowerCase\<close> on code units 0 to 255.\<close>

definition lower_char :: "char \<Rightarrow> char" where
  "lower_char c = (let n = (of_char c :: nat) in
     if 65 \<le> n \<and> n \<le> 90 \<or> (192 \<le> n \<and> n \<le> 222 \<and> n \<noteq> 215) then char_of (n + 32) else c)"

definition to_lower :: "string \<Rightarrow> string" where
  "to_lower s = map lower_char s"

text \<open>Decimal rendering of integers.\<close>

definition digit_char :: "nat \<Rightarrow> char" where
  "digit_char d = char_of (48 + d)"

fun nat_to_string :: "nat \<Rightarrow> string" where
  "nat_to_string n =
     (if n < 10 then [digit_char n] else nat_to_string (n div 10) @ [digit_char (n mod 10)])"

declare nat_to_string.simps [simp del]

definition int_to_string :: "int \<Rightarrow> string" where
  "int_to_string n = (if n < 0 then CHR ''-'' # nat_to_string (nat (- n)) else nat_to_string (nat n))"

definition is_digit :: "char \<Rightarrow> bool" where
  "is_digit c \<longleftrightarrow> 48 \<le> (of_char c :: nat) \<and> (of_char c :: nat) \<le> 57"

lemma of_digit_char: "d < 10 \<Longrightarrow> of_char (digit_char d) = 48 + d"
  by (simp add: digit_char_def)

lemma digit_char_inj: "d < 10 \<Longrightarrow> e < 10 \<Longrightarrow> digit_char d = digit_char e \<Longrightarrow> d = e"
  by (metis add_left_cancel of_digit_char)

lemma nat_to_string_digits: "c \<in> set (nat_to_string n) \<Longrightarrow> is_digit c"
proof (induction n rule: nat_to_string.induct)
  case (1 n)
  then show ?case
    by (subst (asm) (2) nat_to_string.simps) (auto simp: is_digit_def of_digit_char split: if_splits)
qed

lemma nat_to_string_ne [simp]: "nat_to_string n \<noteq> []" "[] \<noteq> nat_to_string n"
  by (subst nat_to_string.simps, simp)+

lemma nat_to_string_inj: "nat_to_string m = nat_to_string n \<Longrightarrow> m = n"
proof (induction m arbitrary: n rule: nat_to_string.induct)
  case (1 m)
  note eq = "1.prems"[unfolded nat_to_string.simps[of m] nat_to_string.simps[of n]]
  show ?case
  proof (cases "m < 10")
    case True
    with eq have "n < 10" by (auto split: if_splits)
    with True eq show ?thesis by (auto intro: digit_char_inj)
  next
    case False
    with eq have n: "\<not> n < 10" by (auto split: if_splits)
    with False eq have "nat_to_string (m div 10) = nat_to_string (n div 10)"
      and "digit_char (m mod 10) = digit_char (n mod 10)" by auto
    then have "m div 10 = n div 10" "m mod 10 = n mod 10"
      using "1.IH"[OF False] by (auto intro: digit_char_inj)
    then show ?thesis by (metis div_mult_mod_eq)
  qed
qed

lemma int_to_string_inj: "int_to_string m = int_to_string n \<Longrightarrow> m = n"
proof -
  assume eq: "int_to_string m = int_to_string n"
  have no_minus: "nat_to_string a \<noteq> CHR ''-'' # s" for a s
    using nat_to_string_digits[of "CHR ''-''" a] by (auto simp: is_digit_def)
  then have sg: "(m < 0) = (n < 0)" using eq no_minus by (auto simp: int_to_string_def split: if_splits) metis
  show ?thesis
  proof (cases "m < 0")
    case True
    then have "nat (- m) = nat (- n)" using eq sg by (auto simp: int_to_string_def dest: nat_to_string_inj)
    then show ?thesis using True sg by simp
  next
    case False
    then have "nat m = nat n" using eq sg by (auto simp: int_to_string_def dest: nat_to_string_inj)
    then show ?thesis using False sg by simp
  qed
qed

definition is_safe_integer :: "int \<Rightarrow> bool" where
  "is_safe_integer n \<longleftrightarrow> \<bar>n\<bar> \<le> 2 ^ 53 - 1"

section \<open>String enumerations\<close>

text \<open>
  The source keeps an enumeration as a constant array of strings and parses a value by membership.
  \<open>parseEnum\<close> is that test over a datatype whose constructors are named by \<open>show_enum\<close>.
\<close>

definition parseEnum :: "('a \<Rightarrow> string) \<Rightarrow> 'a list \<Rightarrow> domain_error \<Rightarrow> js_value \<Rightarrow> 'a result" where
  "parseEnum show_enum values e v =
     (case v of
        JString s \<Rightarrow> (case find (\<lambda>x. show_enum x = s) values of Some x \<Rightarrow> ok x | None \<Rightarrow> err e)
      | _ \<Rightarrow> err e)"

locale string_enum =
  fixes show_enum :: "'a \<Rightarrow> string"
    and members :: "'a list"
  assumes show_inj: "show_enum x = show_enum y \<Longrightarrow> x = y"
    and members_all: "x \<in> set members"
begin

lemma parse_show: "parseEnum show_enum members e (JString (show_enum x)) = ok x"
proof -
  obtain y where "find (\<lambda>y. show_enum y = show_enum x) members = Some y"
    using members_all[of x] by (cases "find (\<lambda>y. show_enum y = show_enum x) members") (auto simp: find_None_iff)
  moreover from this have "y = x" by (auto simp: find_Some_iff intro: show_inj)
  ultimately show ?thesis by (simp add: parseEnum_def)
qed

lemma parse_ok_iff: "parseEnum show_enum members e v = ok x \<longleftrightarrow> v = JString (show_enum x)"
proof
  assume "parseEnum show_enum members e v = ok x"
  then show "v = JString (show_enum x)"
    by (auto simp: parseEnum_def find_Some_iff split: js_value.splits option.splits)
qed (simp add: parse_show)

lemma parse_err_iff: "parseEnum show_enum members e v = err d \<longleftrightarrow> d = e \<and> (\<forall>x. v \<noteq> JString (show_enum x))"
proof (cases "parseEnum show_enum members e v")
  case (Inl d')
  then have "d' = e" by (auto simp: parseEnum_def split: js_value.splits option.splits)
  moreover have "v \<noteq> JString (show_enum x)" for x using Inl parse_show by (metis Inl_Inr_False)
  ultimately show ?thesis using Inl by auto
next
  case (Inr y)
  then show ?thesis using parse_ok_iff[of e v y] by auto
qed

end

section \<open>Computations that may throw\<close>

datatype public_database_error =
    ForbiddenError
  | TenantContextMissingError
  | RuntimeDatabaseRoleError
  | ConflictError
  | DatabaseOperationError

text \<open>
  What the modelled code throws: a plain object with a SQLSTATE, a \<^verbatim>\<open>DomainError\<close>, an
  \<^verbatim>\<open>Error\<close>, a \<^verbatim>\<open>TypeError\<close>, the local sentinel error that a command compares by identity,
  the public database errors, and the error that carries a domain error out of a transaction to roll it back.
\<close>

datatype js_error =
    SqlState string
  | DomainThrow domain_error
  | PlainError string
  | TypeErr string
  | DriftSentinel string
  | PublicDatabase public_database_error
  | RollbackError domain_error

datatype 'a js_result = Returned 'a | Thrown js_error

type_synonym ('s, 'a) step = "'s \<Rightarrow> 'a js_result \<times> 's"

definition ret :: "'a \<Rightarrow> ('s, 'a) step" where
  [step_simps]: "ret x s = (Returned x, s)"

definition throw :: "js_error \<Rightarrow> ('s, 'a) step" where
  [step_simps]: "throw e s = (Thrown e, s)"

definition andThen :: "('s, 'a) step \<Rightarrow> ('a \<Rightarrow> ('s, 'b) step) \<Rightarrow> ('s, 'b) step" where
  [step_simps]: "andThen m k s =
     (case m s of (Returned x, s') \<Rightarrow> k x s' | (Thrown e, s') \<Rightarrow> (Thrown e, s'))"

text \<open>A read of the state, and the rest of the computation with what was read.\<close>

definition reading :: "('s \<Rightarrow> 'a) \<Rightarrow> ('a \<Rightarrow> ('s, 'b) step) \<Rightarrow> ('s, 'b) step" where
  [step_simps]: "reading f k s = k (f s) s"

lemma andThen_ret: "andThen (ret x) k = k x"
  by (rule ext) (simp add: step_simps)

lemma andThen_assoc: "andThen (andThen m k) h = andThen m (\<lambda>x. andThen (k x) h)"
  by (rule ext) (simp add: step_simps split: prod.splits js_result.splits)

text \<open>
  A step keeps a relation between the state before and after: the relations of interest are
  reflexive and transitive, so the rules compose along the code.
\<close>

definition keeps :: "('s \<Rightarrow> 's \<Rightarrow> bool) \<Rightarrow> ('s, 'a) step \<Rightarrow> bool" where
  "keeps R m \<longleftrightarrow> (\<forall>s. R s (snd (m s)))"

named_theorems keeps_intros \<open>composition rules for steps that keep a relation\<close>

locale frame_relation =
  fixes R :: "'s \<Rightarrow> 's \<Rightarrow> bool"
  assumes frame_refl: "R s s"
    and frame_trans: "R s t \<Longrightarrow> R t u \<Longrightarrow> R s u"
begin

lemma keeps_ret: "keeps R (ret x)"
  by (simp add: keeps_def step_simps frame_refl)

lemma keeps_throw: "keeps R (throw e)"
  by (simp add: keeps_def step_simps frame_refl)

lemma keeps_andThen: "keeps R m \<Longrightarrow> (\<And>x. keeps R (k x)) \<Longrightarrow> keeps R (andThen m k)"
  unfolding keeps_def
  by (auto simp: step_simps split: prod.splits js_result.splits) (metis frame_trans snd_conv)+

lemma keeps_reading: "(\<And>x. keeps R (k x)) \<Longrightarrow> keeps R (reading f k)"
  by (simp add: keeps_def step_simps)

lemma keeps_if: "(b \<Longrightarrow> keeps R m) \<Longrightarrow> (\<not> b \<Longrightarrow> keeps R m') \<Longrightarrow> keeps R (if b then m else m')"
  by simp

lemma keeps_case_option:
  "keeps R m \<Longrightarrow> (\<And>x. keeps R (k x)) \<Longrightarrow> keeps R (case v of None \<Rightarrow> m | Some x \<Rightarrow> k x)"
  by (cases v) simp_all

lemma keeps_case_sum:
  "(\<And>x. keeps R (h x)) \<Longrightarrow> (\<And>x. keeps R (k x)) \<Longrightarrow> keeps R (case v of Inl x \<Rightarrow> h x | Inr x \<Rightarrow> k x)"
  by (cases v) simp_all

lemma keeps_case_prod: "(\<And>x y. keeps R (k x y)) \<Longrightarrow> keeps R (case v of (x, y) \<Rightarrow> k x y)"
  by (cases v) simp

lemmas keeps_rules =
  keeps_ret keeps_throw keeps_andThen keeps_reading keeps_if keeps_case_option keeps_case_sum
  keeps_case_prod

end

end
