(* ===== verification/Shared_Kernel.thy ===== *)
theory Shared_Kernel
  imports Js_Prelude
begin

text \<open>
  The shared kernel (\<^verbatim>\<open>packages/shared-kernel\<close>): opaque identifiers, money in minor units and
  opaque external references. Each constructor throws a \<^verbatim>\<open>DomainError\<close>, each parser returns a
  \<^verbatim>\<open>Result\<close>; a throwing constructor is modelled by its result, \<open>Inl\<close> being the thrown error.
\<close>

section \<open>Opaque identifiers\<close>

definition id_start_char :: "char \<Rightarrow> bool" where
  "id_start_char c \<longleftrightarrow> (let n = (of_char c :: nat) in
     (97 \<le> n \<and> n \<le> 122) \<or> (65 \<le> n \<and> n \<le> 90) \<or> (48 \<le> n \<and> n \<le> 57))"

definition id_char :: "char \<Rightarrow> bool" where
  "id_char c \<longleftrightarrow> id_start_char c \<or> c = CHR ''_'' \<or> c = CHR ''-''"

text \<open>The pattern \<^verbatim>\<open>/^[a-zA-Z0-9][a-zA-Z0-9_-]{1,127}$/\<close>.\<close>

fun opaqueIdPattern :: "string \<Rightarrow> bool" where
  "opaqueIdPattern [] = False"
| "opaqueIdPattern (c # cs) =
     (id_start_char c \<and> 1 \<le> length cs \<and> length cs \<le> 127 \<and> list_all id_char cs)"

datatype id_kind = TenantId | OrgId | WorkspaceId | ProjectId | UserId | AgentEmployeeId | TaskId

fun id_kind_name :: "id_kind \<Rightarrow> string" where
  "id_kind_name TenantId = ''TenantId''"
| "id_kind_name OrgId = ''OrgId''"
| "id_kind_name WorkspaceId = ''WorkspaceId''"
| "id_kind_name ProjectId = ''ProjectId''"
| "id_kind_name UserId = ''UserId''"
| "id_kind_name AgentEmployeeId = ''AgentEmployeeId''"
| "id_kind_name TaskId = ''TaskId''"

definition invalidIdError :: "string \<Rightarrow> js_value \<Rightarrow> domain_error" where
  "invalidIdError name v = DomainError ''sharedKernel.invalidId''
     (name @ '' must be a non-empty opaque identifier containing only letters, numbers, underscores, and hyphens.'')
     (Some [(''name'', JString name), (''value'', v)])"

definition parseOpaqueId :: "string \<Rightarrow> js_value \<Rightarrow> string result" where
  "parseOpaqueId name v =
     (case v of
        JString s \<Rightarrow> if opaqueIdPattern s then ok s else err (invalidIdError name v)
      | _ \<Rightarrow> err (invalidIdError name v))"

definition makeOpaqueId :: "string \<Rightarrow> string \<Rightarrow> string result" where
  "makeOpaqueId name s = (case parseOpaqueId name (JString s) of Inl e \<Rightarrow> err e | Inr x \<Rightarrow> ok x)"

definition parseId :: "id_kind \<Rightarrow> js_value \<Rightarrow> string result" where
  "parseId k v = parseOpaqueId (id_kind_name k) v"

definition makeId :: "id_kind \<Rightarrow> string \<Rightarrow> string result" where
  "makeId k s = makeOpaqueId (id_kind_name k) s"

lemma parseOpaqueId_ok_iff: "parseOpaqueId name v = ok s \<longleftrightarrow> v = JString s \<and> opaqueIdPattern s"
  by (auto simp: parseOpaqueId_def split: js_value.splits if_splits)

lemma opaqueIdPattern_length: "opaqueIdPattern s \<Longrightarrow> 2 \<le> length s \<and> length s \<le> 128"
  by (cases s) auto

lemma opaqueIdPattern_no_colon: "opaqueIdPattern s \<Longrightarrow> CHR '':'' \<notin> set s"
  by (cases s) (auto simp: list_all_iff id_char_def id_start_char_def)

section \<open>Money\<close>

text \<open>
  The sum of two integers below \<open>2 ^ 53\<close> in double precision: exact up to \<open>2 ^ 53\<close>, then rounded to
  the nearest even integer, ties going to the multiple of 4.
\<close>

definition double_of_int :: "int \<Rightarrow> int" where
  "double_of_int s =
     (if \<bar>s\<bar> \<le> 2 ^ 53 \<or> even s then s else if (s - 1) mod 4 = 0 then s - 1 else s + 1)"

definition ascii_upper :: "char \<Rightarrow> bool" where
  "ascii_upper c \<longleftrightarrow> 65 \<le> (of_char c :: nat) \<and> (of_char c :: nat) \<le> 90"

text \<open>
  \<^verbatim>\<open>toUpperCase\<close> on code units 0 to 255. The sharp s becomes two letters; the upper case of the
  micro sign and of y with diaeresis lies outside the range, is not an ASCII letter, and is
  represented by the character itself.
\<close>

definition char_to_upper :: "char \<Rightarrow> string" where
  "char_to_upper c = (let n = (of_char c :: nat) in
     if (97 \<le> n \<and> n \<le> 122) \<or> (224 \<le> n \<and> n \<le> 254 \<and> n \<noteq> 247) then [char_of (n - 32)]
     else if n = 223 then ''SS'' else [c])"

definition toUpperCase :: "string \<Rightarrow> string" where
  "toUpperCase s = concat (map char_to_upper s)"

definition currencyPattern :: "string \<Rightarrow> bool" where
  "currencyPattern s \<longleftrightarrow> length s = 3 \<and> list_all ascii_upper s"

definition makeCurrencyCode :: "string \<Rightarrow> string result" where
  "makeCurrencyCode v =
     (let normalized = toUpperCase (trim v) in
      if \<not> currencyPattern normalized
      then err (DomainError ''sharedKernel.invalidCurrency''
             ''Currency must be an ISO 4217 three-letter code.'' (Some [(''currency'', JString v)]))
      else ok normalized)"

record money =
  amountMinor :: int
  currency :: string

text \<open>\<^verbatim>\<open>Number.isSafeInteger\<close> on any number.\<close>

fun number_safe_integer :: "js_number \<Rightarrow> int option" where
  "number_safe_integer (JInt n) = (if is_safe_integer n then Some n else None)"
| "number_safe_integer _ = None"

fun number_negative :: "js_number \<Rightarrow> bool" where
  "number_negative (JInt n) = (n < 0)"
| "number_negative (JDec s) = (s \<noteq> [] \<and> hd s = CHR ''-'')"
| "number_negative JNaN = False"
| "number_negative (JInfinity neg) = neg"

definition money_create :: "js_number \<Rightarrow> string \<Rightarrow> money result" where
  "money_create a c =
     (case number_safe_integer a of
        None \<Rightarrow> err (DomainError ''sharedKernel.invalidMoneyAmount''
                  ''Money amountMinor must be a safe integer.'' (Some [(''amountMinor'', JNumber a)]))
      | Some n \<Rightarrow>
          (case makeCurrencyCode c of
             Inl e \<Rightarrow> err e
           | Inr code \<Rightarrow> ok \<lparr>amountMinor = n, currency = code\<rparr>))"

definition money_parse :: "js_value \<Rightarrow> money result" where
  "money_parse v =
     (case v of
        JObject kvs \<Rightarrow>
          (case (map_get kvs ''amountMinor'', map_get kvs ''currency'') of
             (Some a, Some c) \<Rightarrow>
               (case (a, c) of
                  (JNumber n, JString s) \<Rightarrow>
                    if number_negative n
                    then err (DomainError ''sharedKernel.invalidMoneyAmount''
                           ''Money amountMinor must be non-negative.'' (Some [(''amountMinor'', a)]))
                    else money_create n s
                | _ \<Rightarrow> err (failure ''sharedKernel.invalidMoneyInput''
                         ''Money amountMinor must be a number and currency must be a string.''))
           | _ \<Rightarrow> err (failure ''sharedKernel.invalidMoneyInput''
                    ''Money must be an object with amountMinor and currency.''))
      | _ \<Rightarrow> err (failure ''sharedKernel.invalidMoneyInput''
               ''Money must be an object with amountMinor and currency.''))"

definition money_zero :: "string \<Rightarrow> money result" where
  "money_zero c = money_create (JInt 0) c"

definition assertSameCurrency :: "money \<Rightarrow> money \<Rightarrow> unit result" where
  "assertSameCurrency a b =
     (if currency a \<noteq> currency b
      then err (DomainError ''sharedKernel.currencyMismatch''
             ''Money values with different currencies cannot be combined.''
             (Some [(''left'', JString (currency a)), (''right'', JString (currency b))]))
      else ok ())"

definition money_add :: "money \<Rightarrow> money \<Rightarrow> money result" where
  "money_add a b =
     (case assertSameCurrency a b of
        Inl e \<Rightarrow> err e
      | Inr _ \<Rightarrow> money_create (JInt (double_of_int (amountMinor a + amountMinor b))) (currency a))"

definition money_subtract :: "money \<Rightarrow> money \<Rightarrow> money result" where
  "money_subtract a b =
     (case assertSameCurrency a b of
        Inl e \<Rightarrow> err e
      | Inr _ \<Rightarrow> money_create (JInt (double_of_int (amountMinor a - amountMinor b))) (currency a))"

definition money_equals :: "money \<Rightarrow> money \<Rightarrow> bool" where
  "money_equals a b \<longleftrightarrow> amountMinor a = amountMinor b \<and> currency a = currency b"

definition money_toJSON :: "money \<Rightarrow> js_value" where
  "money_toJSON m = JObject [(''amountMinor'', JNumber (JInt (amountMinor m))), (''currency'', JString (currency m))]"

text \<open>What every value the private constructor builds satisfies.\<close>

definition money_wf :: "money \<Rightarrow> bool" where
  "money_wf m \<longleftrightarrow> is_safe_integer (amountMinor m) \<and> currencyPattern (currency m)"

lemma ascii_upper_id: "ascii_upper c \<Longrightarrow> char_to_upper c = [c]"
  by (simp add: ascii_upper_def char_to_upper_def Let_def)

lemma toUpperCase_id: "list_all ascii_upper s \<Longrightarrow> toUpperCase s = s"
  by (induction s) (simp_all add: toUpperCase_def ascii_upper_id)

lemma trim_upper_id: "list_all ascii_upper s \<Longrightarrow> trim s = s"
proof (rule trim_id)
  assume "list_all ascii_upper s"
  then have "\<not> js_space c" if "c \<in> set s" for c
    using that by (auto simp: list_all_iff ascii_upper_def js_space_def)
  then show "s = [] \<or> (\<not> js_space (hd s) \<and> \<not> js_space (last s))" by (cases "s = []") auto
qed

lemma makeCurrencyCode_id: "currencyPattern s \<Longrightarrow> makeCurrencyCode s = ok s"
  by (simp add: makeCurrencyCode_def currencyPattern_def toUpperCase_id trim_upper_id)

lemma makeCurrencyCode_pattern: "makeCurrencyCode v = ok s \<Longrightarrow> currencyPattern s"
  by (auto simp: makeCurrencyCode_def Let_def split: if_splits)

lemma money_create_wf: "money_create a c = ok m \<Longrightarrow> money_wf m"
  by (cases a) (auto simp: money_create_def money_wf_def makeCurrencyCode_pattern
      split: option.splits sum.splits if_splits)

text \<open>Rounding never turns an unsafe exact sum into a safe one.\<close>

lemma double_safe_iff: "is_safe_integer (double_of_int s) \<longleftrightarrow> is_safe_integer s"
  by (auto simp: double_of_int_def is_safe_integer_def)

lemma double_exact: "is_safe_integer s \<Longrightarrow> double_of_int s = s"
  by (simp add: double_of_int_def is_safe_integer_def)

lemma money_create_exact:
  "currencyPattern c \<Longrightarrow> is_safe_integer n \<Longrightarrow> money_create (JInt (double_of_int n)) c = ok \<lparr>amountMinor = n, currency = c\<rparr>"
  by (simp add: money_create_def double_exact makeCurrencyCode_id)

lemma money_create_unsafe:
  "\<not> is_safe_integer n \<Longrightarrow> \<exists>e. money_create (JInt (double_of_int n)) c = err e"
  by (simp add: money_create_def double_safe_iff)

section \<open>Opaque external references\<close>

record opaque_external_ref =
  ref_system :: string
  ref_kind :: string
  ref_value :: string

definition normalizePart :: "string \<Rightarrow> string \<Rightarrow> string result" where
  "normalizePart fld v =
     (if length (trim v) = 0
      then err (DomainError ''sharedKernel.invalidOpaqueExternalRef''
             ''OpaqueExternalRef parts must be non-empty.'' (Some [(''field'', JString fld)]))
      else ok (trim v))"

definition makeOpaqueExternalRef :: "string \<Rightarrow> string \<Rightarrow> string \<Rightarrow> opaque_external_ref result" where
  "makeOpaqueExternalRef s k v =
     (case normalizePart ''system'' s of Inl e \<Rightarrow> err e | Inr s' \<Rightarrow>
       (case normalizePart ''kind'' k of Inl e \<Rightarrow> err e | Inr k' \<Rightarrow>
         (case normalizePart ''value'' v of Inl e \<Rightarrow> err e | Inr v' \<Rightarrow>
            ok \<lparr>ref_system = s', ref_kind = k', ref_value = v'\<rparr>)))"

definition parseOpaqueExternalRef :: "js_value \<Rightarrow> opaque_external_ref result" where
  "parseOpaqueExternalRef input =
     (case input of
        JObject kvs \<Rightarrow>
          (case (map_get kvs ''system'', map_get kvs ''kind'', map_get kvs ''value'') of
             (Some s, Some k, Some v) \<Rightarrow>
               (case (s, k, v) of
                  (JString s', JString k', JString v') \<Rightarrow> makeOpaqueExternalRef s' k' v'
                | _ \<Rightarrow> err (failure ''sharedKernel.invalidOpaqueExternalRef''
                         ''OpaqueExternalRef system, kind, and value must be strings.''))
           | _ \<Rightarrow> err (failure ''sharedKernel.invalidOpaqueExternalRef''
                    ''OpaqueExternalRef must be an object with system, kind, and value.''))
      | _ \<Rightarrow> err (failure ''sharedKernel.invalidOpaqueExternalRef''
               ''OpaqueExternalRef must be an object with system, kind, and value.''))"

definition ref_toObject :: "opaque_external_ref \<Rightarrow> js_value" where
  "ref_toObject r = JObject [(''system'', JString (ref_system r)), (''kind'', JString (ref_kind r)), (''value'', JString (ref_value r))]"

lemma normalizePart_ok_iff: "normalizePart f v = ok s \<longleftrightarrow> s = trim v \<and> s \<noteq> []"
  by (auto simp: normalizePart_def)

lemma makeOpaqueExternalRef_trimmed:
  "makeOpaqueExternalRef s k v = ok r \<Longrightarrow>
     trim (ref_system r) = ref_system r \<and> trim (ref_kind r) = ref_kind r \<and> trim (ref_value r) = ref_value r \<and>
     ref_system r \<noteq> [] \<and> ref_kind r \<noteq> [] \<and> ref_value r \<noteq> []"
  by (auto simp: makeOpaqueExternalRef_def normalizePart_ok_iff split: sum.splits)

section \<open>Properties\<close>

text \<open>
  Adding two well-formed amounts of one currency returns the exact, well-formed sum when it is a
  safe integer and the \<^verbatim>\<open>invalidMoneyAmount\<close> error otherwise, so no rounded double sum is ever
  returned; subtracting the second amount from a sum gives the first one back.
\<close>

theorem money_arith_exact_or_error:
  assumes "money_wf a" and "money_wf b" and "currency a = currency b"
  shows "money_add a b =
      (if is_safe_integer (amountMinor a + amountMinor b)
       then ok \<lparr>amountMinor = amountMinor a + amountMinor b, currency = currency a\<rparr>
       else err (DomainError ''sharedKernel.invalidMoneyAmount'' ''Money amountMinor must be a safe integer.''
              (Some [(''amountMinor'', JNumber (JInt (double_of_int (amountMinor a + amountMinor b))))]))) \<and>
    (\<forall>m. money_add a b = ok m \<longrightarrow> money_wf m \<and> money_subtract m b = ok a)"
proof (cases "is_safe_integer (amountMinor a + amountMinor b)")
  case True
  have cp: "currencyPattern (currency a)" using assms by (simp add: money_wf_def)
  have "money_subtract \<lparr>amountMinor = amountMinor a + amountMinor b, currency = currency a\<rparr> b = ok a"
    using assms cp by (simp add: money_subtract_def assertSameCurrency_def money_create_exact money_wf_def)
  moreover have "money_add a b = ok \<lparr>amountMinor = amountMinor a + amountMinor b, currency = currency a\<rparr>"
    using True cp assms by (simp add: money_add_def assertSameCurrency_def money_create_exact)
  ultimately show ?thesis using True cp by (simp add: money_wf_def)
next
  case False
  then show ?thesis using assms
    by (simp add: money_add_def assertSameCurrency_def money_create_def double_safe_iff)
qed

theorem money_arith_exact_or_error_witness:
  "money_add \<lparr>amountMinor = 250, currency = ''USD''\<rparr> \<lparr>amountMinor = 50, currency = ''USD''\<rparr>
     = ok \<lparr>amountMinor = 300, currency = ''USD''\<rparr>"
proof -
  have wf: "money_wf \<lparr>amountMinor = 250, currency = ''USD''\<rparr>" "money_wf \<lparr>amountMinor = 50, currency = ''USD''\<rparr>"
    by (simp_all add: money_wf_def is_safe_integer_def currencyPattern_def ascii_upper_def)
  show ?thesis using money_arith_exact_or_error[OF wf] by (simp add: is_safe_integer_def)
qed

text \<open>
  The JSON form of a well-formed amount parses back to the same amount exactly when the amount
  is not negative: a negative balance, which \<^verbatim>\<open>subtract\<close> can produce, is refused by \<^verbatim>\<open>parse\<close>.
\<close>

theorem money_json_roundtrip:
  "money_wf m \<Longrightarrow> money_parse (money_toJSON m) = ok m \<longleftrightarrow> 0 \<le> amountMinor m"
  by (auto simp: money_parse_def money_toJSON_def money_create_def money_wf_def makeCurrencyCode_id)

theorem money_json_roundtrip_witness:
  "money_parse (money_toJSON \<lparr>amountMinor = 7, currency = ''EUR''\<rparr>) = ok \<lparr>amountMinor = 7, currency = ''EUR''\<rparr>"
  using money_json_roundtrip[of "\<lparr>amountMinor = 7, currency = ''EUR''\<rparr>"]
  by (simp add: money_wf_def is_safe_integer_def currencyPattern_def ascii_upper_def)

text \<open>
  External references: whatever \<^verbatim>\<open>makeOpaqueExternalRef\<close> accepts is trimmed and non-empty in
  every part, and its object form parses back to itself.
\<close>

theorem external_ref_roundtrip:
  assumes "makeOpaqueExternalRef s k v = ok r"
  shows "parseOpaqueExternalRef (ref_toObject r) = ok r \<and>
    ref_system r \<noteq> [] \<and> ref_kind r \<noteq> [] \<and> ref_value r \<noteq> []"
  using makeOpaqueExternalRef_trimmed[OF assms]
  by (simp add: parseOpaqueExternalRef_def ref_toObject_def makeOpaqueExternalRef_def normalizePart_def)

theorem external_ref_roundtrip_witness:
  "parseOpaqueExternalRef (ref_toObject \<lparr>ref_system = ''github'', ref_kind = ''issue'', ref_value = ''12''\<rparr>)
     = ok \<lparr>ref_system = ''github'', ref_kind = ''issue'', ref_value = ''12''\<rparr>"
proof -
  have "makeOpaqueExternalRef '' github'' ''issue '' ''12'' = ok \<lparr>ref_system = ''github'', ref_kind = ''issue'', ref_value = ''12''\<rparr>"
    by (simp add: makeOpaqueExternalRef_def normalizePart_def trim_def js_space_def)
  from external_ref_roundtrip[OF this] show ?thesis by simp
qed

text \<open>
  An identifier parser accepts exactly the strings of 2 to 128 characters over letters, digits,
  underscore and hyphen that start with a letter or digit; in particular it refuses every
  one-character string, although the error text only asks for a non-empty identifier.
\<close>

theorem parse_id_characterised:
  "(parseId k v = ok s \<longleftrightarrow>
     v = JString s \<and> 2 \<le> length s \<and> length s \<le> 128 \<and> id_start_char (hd s) \<and> list_all id_char s) \<and>
   (length s = 1 \<longrightarrow> parseId k (JString s) = err (invalidIdError (id_kind_name k) (JString s)))"
  unfolding parseId_def parseOpaqueId_ok_iff
  by (cases s) (auto simp: id_char_def parseOpaqueId_def)

theorem parse_id_characterised_witness:
  "parseId UserId (JString ''a'') = err (invalidIdError ''UserId'' (JString ''a'')) \<and> length ''a'' = 1"
  using parse_id_characterised[of UserId "JString ''a''" "''a''"] by simp

end
