(* ===== verification/Tenant.thy ===== *)
theory Tenant
  imports Js_Prelude
begin

text \<open>
  The tenant boundary of the database adapter (\<^verbatim>\<open>packages/adapters/src/postgres/tenant-context.ts\<close> and
  \<^verbatim>\<open>errors.ts\<close>): the format check of the organization id, the two session assertions, the transaction
  and the translation of errors. The answers of the database to the session queries, and whether it
  undoes the writes of a transaction that throws, are parameters.
\<close>

section \<open>Translation of errors\<close>

definition sqlstate_char :: "char \<Rightarrow> bool" where
  "sqlstate_char c \<longleftrightarrow> is_digit c \<or> (65 \<le> (of_char c :: nat) \<and> (of_char c :: nat) \<le> 90)"

definition is_sqlstate :: "string \<Rightarrow> bool" where
  "is_sqlstate s \<longleftrightarrow> length s = 5 \<and> list_all sqlstate_char s"

text \<open>The \<^verbatim>\<open>code\<close> an error carries; none of the modelled errors has a \<^verbatim>\<open>cause\<close>.\<close>

definition error_code :: "js_error \<Rightarrow> string option" where
  "error_code e =
     (case e of
        SqlState c \<Rightarrow> Some c
      | DomainThrow d \<Rightarrow> Some (err_code d)
      | PublicDatabase p \<Rightarrow> Some (case p of
            ForbiddenError \<Rightarrow> ''postgres.forbidden''
          | TenantContextMissingError \<Rightarrow> ''postgres.tenantContextMissing''
          | RuntimeDatabaseRoleError \<Rightarrow> ''postgres.runtimeDatabaseRoleMismatch''
          | ConflictError \<Rightarrow> ''postgres.conflict''
          | DatabaseOperationError \<Rightarrow> ''postgres.databaseOperationFailed'')
      | _ \<Rightarrow> None)"

definition findSqlState :: "js_error \<Rightarrow> string option" where
  "findSqlState e = (case error_code e of None \<Rightarrow> None | Some c \<Rightarrow> if is_sqlstate c then Some c else None)"

definition isPublicDatabaseError :: "js_error \<Rightarrow> bool" where
  "isPublicDatabaseError e = (case e of PublicDatabase _ \<Rightarrow> True | _ \<Rightarrow> False)"

definition is_error_instance :: "js_error \<Rightarrow> bool" where
  "is_error_instance e = (case e of SqlState _ \<Rightarrow> False | _ \<Rightarrow> True)"

definition mapDatabaseError :: "js_error \<Rightarrow> js_error" where
  "mapDatabaseError e =
     (if isPublicDatabaseError e then e
      else case findSqlState e of
        None \<Rightarrow> if is_error_instance e then e else PublicDatabase DatabaseOperationError
      | Some s \<Rightarrow>
          if s \<in> {''42501'', ''23503''} then PublicDatabase ForbiddenError
          else if s \<in> {''23502'', ''23505'', ''23514'', ''23P01''} \<or> take 2 s = ''23'' then PublicDatabase ConflictError
          else PublicDatabase DatabaseOperationError)"

section \<open>The tenant id\<close>

definition hex_digit :: "char \<Rightarrow> bool" where
  "hex_digit c \<longleftrightarrow> c \<in> set ''0123456789abcdefABCDEF''"

definition dash :: "char \<Rightarrow> bool" where
  "dash c \<longleftrightarrow> c = CHR ''-''"

definition uuidPattern :: "(char \<Rightarrow> bool) list" where
  "uuidPattern = replicate 8 hex_digit @ [dash] @ replicate 4 hex_digit @ [dash] @
     [\<lambda>c. c \<in> set ''12345''] @ replicate 3 hex_digit @ [dash] @
     [\<lambda>c. c \<in> set ''89abAB''] @ replicate 3 hex_digit @ [dash] @ replicate 12 hex_digit"

definition is_uuid :: "string \<Rightarrow> bool" where
  "is_uuid s \<longleftrightarrow> list_all2 (\<lambda>p c. p c) uuidPattern s"

definition assertValidTenantUuid :: "string \<Rightarrow> ('s, unit) step" where
  "assertValidTenantUuid orgId = (if is_uuid orgId then ret () else throw (PublicDatabase TenantContextMissingError))"

section \<open>Session assertions\<close>

record database =
  db_executeRole :: "js_value js_result"
  db_executeSetConfig :: "string \<Rightarrow> unit js_result"
  db_executeTenant :: "string \<Rightarrow> js_value js_result"
  db_rollsBack :: bool

definition rowsFromExecuteResult :: "js_value \<Rightarrow> js_value list" where
  "rowsFromExecuteResult v =
     (case v of
        JArray xs \<Rightarrow> xs
      | JObject fs \<Rightarrow> (case map_get fs ''rows'' of Some (JArray xs) \<Rightarrow> xs | _ \<Rightarrow> [])
      | _ \<Rightarrow> [])"

text \<open>\<^verbatim>\<open>row?.[name]\<close> of the first row.\<close>

definition first_row_field :: "js_value \<Rightarrow> string \<Rightarrow> js_value" where
  "first_row_field v name =
     (case rowsFromExecuteResult v of
        JObject fs # _ \<Rightarrow> (case map_get fs name of Some x \<Rightarrow> x | None \<Rightarrow> JUndefined)
      | _ \<Rightarrow> JUndefined)"

definition from_query :: "'a js_result \<Rightarrow> ('a \<Rightarrow> ('s, 'b) step) \<Rightarrow> ('s, 'b) step" where
  "from_query q k s = (case q of Returned x \<Rightarrow> k x s | Thrown e \<Rightarrow> (Thrown (mapDatabaseError e), s))"

definition assertCurrentTenant :: "database \<Rightarrow> string \<Rightarrow> ('s, unit) step" where
  "assertCurrentTenant db expectedOrgId =
     andThen (assertValidTenantUuid expectedOrgId) (\<lambda>_.
       from_query (db_executeTenant db expectedOrgId) (\<lambda>answer.
         case first_row_field answer ''current_org_id'' of
           JString org \<Rightarrow>
             if to_lower org \<noteq> to_lower expectedOrgId then throw (PublicDatabase TenantContextMissingError) else ret ()
         | _ \<Rightarrow> throw (PublicDatabase TenantContextMissingError)))"

definition assertRuntimeDatabaseRole :: "database \<Rightarrow> ('s, unit) step" where
  "assertRuntimeDatabaseRole db =
     from_query (db_executeRole db) (\<lambda>answer.
       if first_row_field answer ''session_role'' \<noteq> JString ''opzava_app'' \<or>
          first_row_field answer ''is_super'' = JBool True \<or> first_row_field answer ''bypass_rls'' = JBool True
       then throw (PublicDatabase RuntimeDatabaseRoleError) else ret ())"

section \<open>The tenant transaction\<close>

text \<open>
  \<open>undo before after\<close> gives the state after a rollback: what the database held before, and the rest
  (clock, random source) as it is.
\<close>

definition transaction :: "database \<Rightarrow> ('s \<Rightarrow> 's \<Rightarrow> 's) \<Rightarrow> ('s, 'a) step \<Rightarrow> ('s, 'a) step" where
  "transaction db undo body s =
     (case body s of
        (Returned x, s') \<Rightarrow> (Returned x, s')
      | (Thrown e, s') \<Rightarrow> (Thrown e, if db_rollsBack db then undo s s' else s'))"

definition raw :: "'a js_result \<Rightarrow> ('s, 'a) step" where
  "raw q s = (q, s)"

definition withTenant :: "database \<Rightarrow> ('s \<Rightarrow> 's \<Rightarrow> 's) \<Rightarrow> string \<Rightarrow> ('s, 'a) step \<Rightarrow> ('s, 'a) step" where
  "withTenant db undo orgId fn =
     andThen (assertValidTenantUuid orgId) (\<lambda>_ s.
       case transaction db undo
              (andThen (assertRuntimeDatabaseRole db) (\<lambda>_.
               andThen (raw (db_executeSetConfig db orgId)) (\<lambda>_.
               andThen (assertCurrentTenant db orgId) (\<lambda>_. fn)))) s of
         (Returned x, s') \<Rightarrow> (Returned x, s')
       | (Thrown e, s') \<Rightarrow> (Thrown (mapDatabaseError e), s'))"

section \<open>Properties\<close>

text \<open>The session is fit for the tenant: the role and the tenant setting are the expected ones.\<close>

definition session_ok :: "database \<Rightarrow> string \<Rightarrow> bool" where
  "session_ok db org \<longleftrightarrow>
     fst (andThen (assertRuntimeDatabaseRole db) (\<lambda>_. andThen (raw (db_executeSetConfig db org))
        (\<lambda>_. assertCurrentTenant db org)) ()) = Returned ()"

lemma assert_role_state: "assertRuntimeDatabaseRole db s = (fst (assertRuntimeDatabaseRole db ()), s)"
  by (auto simp: assertRuntimeDatabaseRole_def from_query_def step_simps split: js_result.splits)

lemma assert_tenant_state: "assertCurrentTenant db org s = (fst (assertCurrentTenant db org ()), s)"
  by (auto simp: assertCurrentTenant_def assertValidTenantUuid_def from_query_def step_simps
      split: js_result.splits js_value.splits)

lemma withTenant_entry:
  assumes "is_uuid org" "session_ok db org"
  shows "withTenant db undo org fn s =
    (case fn s of (Returned x, s') \<Rightarrow> (Returned x, s')
     | (Thrown e, s') \<Rightarrow> (Thrown (mapDatabaseError e), if db_rollsBack db then undo s s' else s'))"
proof -
  have role: "fst (assertRuntimeDatabaseRole db ()) = Returned ()" and cfg: "db_executeSetConfig db org = Returned ()"
    and ten: "fst (assertCurrentTenant db org ()) = Returned ()"
    using assms(2) assert_role_state[of db "()"] assert_tenant_state[of db org "()"]
    by (auto simp: session_ok_def step_simps raw_def split: js_result.splits prod.splits)
  then show ?thesis using assms(1)
    by (simp add: withTenant_def transaction_def assertValidTenantUuid_def step_simps raw_def
        assert_role_state[of db s] assert_tenant_state[of db org s] split: js_result.splits prod.splits)
qed

text \<open>Nothing of the callback runs for an ill-formed id or an unfit session.\<close>

lemma withTenant_refused:
  assumes "\<not> (is_uuid org \<and> session_ok db org)"
  obtains e where "withTenant db undo org fn s = (Thrown e, if is_uuid org \<and> db_rollsBack db then undo s s else s)"
proof (cases "is_uuid org")
  case False
  then have "withTenant db undo org fn s = (Thrown (PublicDatabase TenantContextMissingError), s)"
    by (simp add: withTenant_def assertValidTenantUuid_def andThen_def throw_def)
  with False that show ?thesis by simp
next
  case True
  let ?body = "andThen (assertRuntimeDatabaseRole db) (\<lambda>_. andThen (raw (db_executeSetConfig db org))
      (\<lambda>_. andThen (assertCurrentTenant db org) (\<lambda>_. fn)))"
  let ?role = "fst (assertRuntimeDatabaseRole db ())" and ?ten = "fst (assertCurrentTenant db org ())"
  have "(\<exists>e. ?role = Thrown e) \<or> (?role = Returned () \<and> (\<exists>e. db_executeSetConfig db org = Thrown e)) \<or>
      (?role = Returned () \<and> db_executeSetConfig db org = Returned () \<and> (\<exists>e. ?ten = Thrown e))"
    using assms True assert_role_state[of db "()"] assert_tenant_state[of db org "()"]
    by (cases ?role; cases "db_executeSetConfig db org"; cases ?ten)
      (auto simp: session_ok_def step_simps raw_def)
  then obtain e where "?body s = (Thrown e, s)"
    by (auto simp: andThen_def raw_def assert_role_state[of db s] assert_tenant_state[of db org s])
  then have "withTenant db undo org fn s = (Thrown (mapDatabaseError e), if db_rollsBack db then undo s s else s)"
    using True by (simp add: withTenant_def transaction_def assertValidTenantUuid_def ret_def andThen_def[of "ret ()"])
  with True that show ?thesis by simp
qed

lemma is_uuid_length: "is_uuid s \<Longrightarrow> length s = 36"
  by (auto simp: is_uuid_def uuidPattern_def dest: list_all2_lengthD)

lemma is_uuid_chars: "is_uuid s \<Longrightarrow> c \<in> set s \<Longrightarrow> hex_digit c \<or> c = CHR ''-''"
proof -
  assume "is_uuid s" "c \<in> set s"
  then obtain p where "p \<in> set uuidPattern" "p c"
    unfolding is_uuid_def by (metis in_set_conv_nth list_all2_conv_all_nth nth_mem)
  then show ?thesis by (auto simp: uuidPattern_def hex_digit_def dash_def)
qed

end
