(* ===== verification/Canonical_Json.thy ===== *)
theory Canonical_Json
  imports Js_Prelude
begin

text \<open>
  The canonical JSON text that every content hash of the Dev Board is computed from
  (\<^verbatim>\<open>canonicalJson\<close> in \<^verbatim>\<open>packages/dev-board/src/domain/dev-ticket.ts\<close>). The text of a value
  determines the value up to the order of object keys, so two contents with the same canonical
  text are the same JSON content.
\<close>

section \<open>Quoting\<close>

definition hex_char :: "nat \<Rightarrow> char" where
  "hex_char d = (if d < 10 then char_of (48 + d) else char_of (87 + d))"

definition json_escape :: "char \<Rightarrow> string" where
  "json_escape c = (let n = (of_char c :: nat) in
     if n = 34 then [CHR 0x5C, CHR 0x22] else if n = 92 then [CHR 0x5C, CHR 0x5C]
     else if n = 8 then [CHR 0x5C, CHR ''b''] else if n = 9 then [CHR 0x5C, CHR ''t'']
     else if n = 10 then [CHR 0x5C, CHR ''n''] else if n = 12 then [CHR 0x5C, CHR ''f'']
     else if n = 13 then [CHR 0x5C, CHR ''r'']
     else if n < 32 then CHR 0x5C # ''u00'' @ [hex_char (n div 16), hex_char (n mod 16)]
     else [c])"

definition json_quote :: "string \<Rightarrow> string" where
  "json_quote s = CHR 0x22 # concat (map json_escape s) @ [CHR 0x22]"

text \<open>Escapes are read back one at a time, so a quoted string followed by anything is unambiguous.\<close>

definition unhex :: "char \<Rightarrow> nat" where
  "unhex c = (let n = of_char c in if n < 58 then n - 48 else n - 87)"

fun unescape_one :: "string \<Rightarrow> (char \<times> string) option" where
  "unescape_one [] = None"
| "unescape_one (c # cs) =
     (if c \<noteq> CHR 0x5C then Some (c, cs)
      else case cs of
        [] \<Rightarrow> None
      | d # ds \<Rightarrow>
          if d = CHR ''b'' then Some (char_of (8::nat), ds) else if d = CHR ''t'' then Some (char_of (9::nat), ds)
          else if d = CHR ''n'' then Some (char_of (10::nat), ds) else if d = CHR ''f'' then Some (char_of (12::nat), ds)
          else if d = CHR ''r'' then Some (char_of (13::nat), ds)
          else if d = CHR ''u'' then (case ds of _ # _ # a # b # r \<Rightarrow> Some (char_of (16 * unhex a + unhex b), r) | _ \<Rightarrow> None)
          else Some (d, ds))"

lemma unhex_hex: "d < 16 \<Longrightarrow> unhex (hex_char d) = d"
  by (simp add: unhex_def hex_char_def Let_def)

lemma unescape_escape: "unescape_one (json_escape c @ x) = Some (c, x)"
proof -
  let ?n = "of_char c :: nat"
  have lit: "?n = 92 \<longleftrightarrow> c = CHR 0x5C" "?n = 34 \<longleftrightarrow> c = CHR 0x22"
    using of_char_eq_iff[of c "CHR 0x5C", where 'a = nat] of_char_eq_iff[of c "CHR 0x22", where 'a = nat]
    by simp_all
  have code: "char_of k = c" if "?n = k" for k using that by auto
  consider "c = CHR 0x5C" | "c = CHR 0x22" | "?n \<in> {8, 9, 10, 12, 13}"
    | "?n < 32" "?n \<notin> {8, 9, 10, 12, 13}" | "\<not> ?n < 32" "c \<noteq> CHR 0x5C" "c \<noteq> CHR 0x22"
    by blast
  then show ?thesis
  proof cases
    case 3
    then show ?thesis by (auto simp: json_escape_def Let_def intro: code)
  next
    case 4
    have "16 * unhex (hex_char (?n div 16)) + unhex (hex_char (?n mod 16)) = ?n"
      using 4 by (simp add: unhex_hex)
    with 4 show ?thesis using code[OF refl] lit by (simp add: json_escape_def Let_def)
  qed (use lit in \<open>auto simp: json_escape_def Let_def\<close>)
qed

lemma json_escape_inj: "json_escape c @ x = json_escape d @ y \<Longrightarrow> c = d \<and> x = y"
  by (metis Pair_inject option.inject unescape_escape)

lemma json_escape_hd: "json_escape c @ x \<noteq> CHR 0x22 # y"
  by (auto simp: json_escape_def Let_def split: if_splits)

lemma quote_body_unique:
  "concat (map json_escape s) @ CHR 0x22 # r = concat (map json_escape t) @ CHR 0x22 # r' \<Longrightarrow> s = t \<and> r = r'"
proof (induction s arbitrary: t)
  case Nil
  then show ?case using json_escape_hd by (cases t) (auto dest: sym)
next
  case (Cons c s)
  then obtain d t' where t: "t = d # t'" using json_escape_hd by (cases t) auto
  with Cons.prems have "c = d \<and> concat (map json_escape s) @ CHR 0x22 # r = concat (map json_escape t') @ CHR 0x22 # r'"
    using json_escape_inj by force
  with Cons.IH t show ?case by blast
qed

lemma json_quote_unique: "json_quote s @ r = json_quote t @ r' \<Longrightarrow> s = t \<and> r = r'"
  by (rule quote_body_unique) (simp add: json_quote_def)

lemma json_quote_inj: "json_quote s = json_quote t \<Longrightarrow> s = t"
  using json_quote_unique[of s "[]" t "[]"] by simp

section \<open>Joining\<close>

fun join :: "string \<Rightarrow> string list \<Rightarrow> string" where
  "join sep [] = []"
| "join sep [x] = x"
| "join sep (x # y # ys) = x @ sep @ join sep (y # ys)"

definition stops :: "string \<Rightarrow> bool" where
  "stops r \<longleftrightarrow> r = [] \<or> hd r \<in> {CHR '','', CHR '']'', CHR ''}''}"

lemma stops_Cons [simp]: "stops (c # r) = (c \<in> {CHR '','', CHR '']'', CHR ''}''})"
  by (simp add: stops_def)

text \<open>
  A list of pieces that can each be read back is read back as a whole: the shared argument for
  arrays and objects.
\<close>

lemma join_unique:
  assumes piece: "\<And>a b r r'. a \<in> A \<Longrightarrow> b \<in> B \<Longrightarrow> P a @ r = Q b @ r' \<Longrightarrow> stops r \<Longrightarrow> stops r' \<Longrightarrow> N a = M b \<and> r = r'"
    and ne: "\<And>a. a \<in> A \<Longrightarrow> \<not> stops (P a)" "\<And>b. b \<in> B \<Longrightarrow> \<not> stops (Q b)"
    and cl: "cl \<in> {CHR '']'', CHR ''}''}"
    and sub: "set xs \<subseteq> A" "set ys \<subseteq> B"
    and eq: "join '','' (map P xs) @ cl # r = join '','' (map Q ys) @ cl # r'"
  shows "map N xs = map M ys \<and> r = r'"
  using sub eq
proof (induction xs arbitrary: ys)
  case Nil
  then show ?case
  proof (cases ys)
    case (Cons b bs)
    then have "\<not> stops (Q b)" using ne(2) Nil.prems(2) by auto
    then have "Q b \<noteq> []" "hd (Q b) \<noteq> cl" using cl by (auto simp: stops_def)
    with Nil.prems Cons show ?thesis by (cases "Q b"; cases bs) auto
  qed auto
next
  case (Cons a as)
  have a: "a \<in> A" "\<not> stops (P a)" using Cons.prems ne by auto
  show ?case
  proof (cases ys)
    case Nil
    from a cl have "P a \<noteq> []" "hd (P a) \<noteq> cl" by (auto simp: stops_def)
    with Cons.prems Nil show ?thesis by (cases "P a"; cases as) auto
  next
    case ys: (Cons b bs)
    let ?rest = "\<lambda>f zs q. (if zs = [] then cl # q else CHR '','' # join '','' (map f zs) @ cl # q)"
    have "P a @ ?rest P as r = Q b @ ?rest Q bs r'"
      using Cons.prems(3) ys by (cases as; cases bs) auto
    moreover have "stops (?rest P as r)" "stops (?rest Q bs r')" using cl by auto
    moreover have "b \<in> B" using Cons.prems(2) ys by simp
    ultimately have "N a = M b \<and> ?rest P as r = ?rest Q bs r'"
      using piece[OF a(1)] by blast
    then have N: "N a = M b" and rest: "?rest P as r = ?rest Q bs r'" by (rule conjunct1, rule conjunct2)
    have "map N as = map M bs \<and> r = r'"
    proof (cases "as = []")
      case True
      with rest cl have "bs = []" by (auto split: if_splits)
      with True rest show ?thesis by simp
    next
      case False
      with rest cl have "bs \<noteq> []" by (auto split: if_splits)
      with False rest have "join '','' (map P as) @ cl # r = join '','' (map Q bs) @ cl # r'" by simp
      then show ?thesis using Cons.IH[of bs] Cons.prems ys by simp
    qed
    with N ys show ?thesis by simp
  qed
qed

section \<open>Canonical text\<close>

definition number_json :: "js_number \<Rightarrow> string option" where
  "number_json n = (case n of JInt i \<Rightarrow> Some (int_to_string i) | JDec s \<Rightarrow> Some s | _ \<Rightarrow> None)"

definition canon_array :: "string option list \<Rightarrow> string option" where
  "canon_array xs = map_option (\<lambda>ss. ''['' @ join '','' ss @ '']'') (those xs)"

definition canon_members :: "(string \<times> string) list \<Rightarrow> string" where
  "canon_members ms = ''{'' @ join '','' (map (\<lambda>m. json_quote (fst m) @ '':'' @ snd m) (sort_key fst ms)) @ ''}''"

definition canon_object :: "(string \<times> string option) list \<Rightarrow> string option" where
  "canon_object ms = map_option (\<lambda>vs. canon_members (zip (map fst ms) vs)) (those (map snd ms))"

text \<open>\<open>None\<close> is the \<^verbatim>\<open>TypeError\<close> thrown for a value that JSON cannot carry.\<close>

primrec canonicalJson :: "js_value \<Rightarrow> string option" where
  "canonicalJson JUndefined = None"
| "canonicalJson JNull = Some ''null''"
| "canonicalJson (JBool b) = Some (if b then ''true'' else ''false'')"
| "canonicalJson (JNumber n) = number_json n"
| "canonicalJson (JString s) = Some (json_quote s)"
| "canonicalJson (JArray xs) = canon_array (map canonicalJson xs)"
| "canonicalJson (JObject kvs) = canon_object (map (map_prod (\<lambda>k. k) canonicalJson) kvs)"
| "canonicalJson (JBigInt _) = None"
| "canonicalJson (JSymbol _) = None"
| "canonicalJson (JFunction _) = None"

text \<open>Objects compared up to the order of their keys: the same value with every key list sorted.\<close>

primrec sort_keys :: "js_value \<Rightarrow> js_value" where
  "sort_keys JUndefined = JUndefined"
| "sort_keys JNull = JNull"
| "sort_keys (JBool b) = JBool b"
| "sort_keys (JNumber n) = JNumber n"
| "sort_keys (JString s) = JString s"
| "sort_keys (JArray xs) = JArray (map sort_keys xs)"
| "sort_keys (JObject kvs) = JObject (sort_key fst (map (map_prod (\<lambda>k. k) sort_keys) kvs))"
| "sort_keys (JBigInt n) = JBigInt n"
| "sort_keys (JSymbol s) = JSymbol s"
| "sort_keys (JFunction s) = JFunction s"

text \<open>
  A non-integer rendering uses the characters of a decimal literal and is not the rendering of an
  integer.
\<close>

definition number_chars :: "string \<Rightarrow> bool" where
  "number_chars s \<longleftrightarrow> s \<noteq> [] \<and> list_all (\<lambda>c. is_digit c \<or> c \<in> set ''+-.e'') s"

definition number_wf :: "js_number \<Rightarrow> bool" where
  "number_wf n = (case n of JDec s \<Rightarrow> number_chars s \<and> (\<forall>i. s \<noteq> int_to_string i) | _ \<Rightarrow> True)"

primrec value_wf :: "js_value \<Rightarrow> bool" where
  "value_wf JUndefined = True"
| "value_wf JNull = True"
| "value_wf (JBool b) = True"
| "value_wf (JNumber n) = number_wf n"
| "value_wf (JString s) = True"
| "value_wf (JArray xs) = list_all (\<lambda>b. b) (map value_wf xs)"
| "value_wf (JObject kvs) = (distinct (map fst kvs) \<and> list_all snd (map (map_prod (\<lambda>k. k) value_wf) kvs))"
| "value_wf (JBigInt _) = True"
| "value_wf (JSymbol _) = True"
| "value_wf (JFunction _) = True"

lemma those_eq_Some_iff: "those xs = Some ys \<longleftrightarrow> xs = map Some ys"
  by (induction xs arbitrary: ys) (auto split: option.splits simp: Cons_eq_map_conv)

lemma those_map_Some: "those (map f xs) = Some ys \<longleftrightarrow> (\<forall>x\<in>set xs. f x = Some (the (f x))) \<and> ys = map (the \<circ> f) xs"
  by (induction xs arbitrary: ys) (auto split: option.splits)

lemma sort_key_fst_map: "sort_key fst (map (map_prod (\<lambda>k. k) f) kvs) = map (map_prod (\<lambda>k. k) f) (sort_key fst kvs)"
proof (induction kvs)
  case (Cons kv kvs)
  have "insort_key fst (map_prod (\<lambda>k. k) f kv) (map (map_prod (\<lambda>k. k) f) ms) = map (map_prod (\<lambda>k. k) f) (insort_key fst kv ms)" for ms
    by (induction ms) auto
  with Cons show ?case by simp
qed simp

lemma canonicalJson_array:
  "canonicalJson (JArray xs) = Some s \<longleftrightarrow>
     (\<forall>x\<in>set xs. canonicalJson x = Some (the (canonicalJson x))) \<and> s = ''['' @ join '','' (map (the \<circ> canonicalJson) xs) @ '']''"
  by (auto simp: canon_array_def those_map_Some)

lemma canonicalJson_object:
  "canonicalJson (JObject kvs) = Some s \<longleftrightarrow>
     (\<forall>kv\<in>set kvs. canonicalJson (snd kv) = Some (the (canonicalJson (snd kv)))) \<and>
     s = ''{'' @ join '','' (map (\<lambda>kv. json_quote (fst kv) @ '':'' @ the (canonicalJson (snd kv))) (sort_key fst kvs)) @ ''}''"
proof -
  have "zip (map fst kvs) (map (\<lambda>kv. the (canonicalJson (snd kv))) kvs) = map (map_prod (\<lambda>k. k) (the \<circ> canonicalJson)) kvs"
    by (induction kvs) auto
  then have zip: "sort_key fst (zip (map fst kvs) (map (\<lambda>kv. the (canonicalJson (snd kv))) kvs)) = map (map_prod (\<lambda>k. k) (the \<circ> canonicalJson)) (sort_key fst kvs)"
    by (simp add: sort_key_fst_map)
  have "canonicalJson (JObject kvs) = map_option (\<lambda>vs. canon_members (zip (map fst kvs) vs)) (those (map (\<lambda>kv. canonicalJson (snd kv)) kvs))"
    by (simp add: canon_object_def comp_def)
  then show ?thesis
    by (auto simp: those_map_Some zip canon_members_def comp_def)
qed

lemma number_json_chars: "number_wf n \<Longrightarrow> number_json n = Some s \<Longrightarrow> number_chars s"
proof (cases n)
  case (JInt i)
  have "number_chars (int_to_string i)"
    unfolding number_chars_def int_to_string_def list_all_iff using nat_to_string_digits by auto
  then show "number_json n = Some s \<Longrightarrow> number_chars s" using JInt by (simp add: number_json_def)
qed (auto simp: number_json_def number_wf_def)

lemma number_prefix_unique:
  assumes "number_chars s" "number_chars t" "s @ r = t @ r'" "stops r" "stops r'"
  shows "s = t \<and> r = r'"
proof -
  have stop: "takeWhile (\<lambda>c. is_digit c \<or> c \<in> set ''+-.e'') (u @ q) = u" if "number_chars u" "stops q" for u q
    using that by (cases q) (auto simp: number_chars_def list_all_iff stops_def is_digit_def takeWhile_append)
  have "s = t" using stop[OF assms(1,4)] stop[OF assms(2,5)] assms(3) by simp
  with assms(3) show ?thesis by simp
qed

lemma number_json_inj:
  "number_wf m \<Longrightarrow> number_wf n \<Longrightarrow> number_json m = Some s \<Longrightarrow> number_json n = Some s \<Longrightarrow> m = n"
  by (cases m; cases n) (auto simp: number_json_def number_wf_def dest: int_to_string_inj)

text \<open>The first character of a canonical text tells which kind of value it is.\<close>

lemma canonical_first:
  "canonicalJson v = Some s \<Longrightarrow> value_wf v \<Longrightarrow> s \<noteq> [] \<and>
     (case v of JNull \<Rightarrow> hd s = CHR ''n'' | JBool b \<Rightarrow> hd s = (if b then CHR ''t'' else CHR ''f'')
      | JNumber n \<Rightarrow> is_digit (hd s) \<or> hd s \<in> set ''+-.e'' | JString _ \<Rightarrow> hd s = CHR 0x22
      | JArray _ \<Rightarrow> hd s = CHR ''['' | JObject _ \<Rightarrow> hd s = CHR ''{'' | _ \<Rightarrow> False)"
  by (cases v) (use number_json_chars in \<open>auto simp: json_quote_def canon_array_def canon_object_def canon_members_def
      number_chars_def list_all_iff\<close>)

lemma canonical_not_stops: "canonicalJson v = Some s \<Longrightarrow> value_wf v \<Longrightarrow> \<not> stops s"
  using canonical_first[of v s] by (cases v) (auto simp: stops_def is_digit_def split: if_splits)

section \<open>The text determines the value\<close>

lemma number_canonical_unique:
  assumes "number_wf m" "number_wf n" "number_json m = Some s" "number_json n = Some t"
    and "s @ r = t @ r'" "stops r" "stops r'"
  shows "m = n \<and> r = r'"
  using number_prefix_unique[OF number_json_chars number_json_chars, of m s n t r r'] assms number_json_inj by blast

lemma value_wf_array: "value_wf (JArray xs) \<longleftrightarrow> (\<forall>x\<in>set xs. value_wf x)"
  by (auto simp: list_all_iff)

lemma value_wf_object: "value_wf (JObject kvs) \<longleftrightarrow> distinct (map fst kvs) \<and> (\<forall>kv\<in>set kvs. value_wf (snd kv))"
  by (auto simp: list_all_iff)

lemma hd_append_ne: "s \<noteq> [] \<Longrightarrow> t \<noteq> [] \<Longrightarrow> s @ r = t @ r' \<Longrightarrow> hd s = hd t"
  by (metis hd_append2)

lemma canonical_unique:
  assumes "canonicalJson v = Some s" "canonicalJson w = Some t" "value_wf v" "value_wf w"
    and "s @ r = t @ r'" "stops r" "stops r'"
  shows "sort_keys v = sort_keys w \<and> r = r'"
  using assms
proof (induction v arbitrary: w s t r r')
  case (JNumber n)
  then have "\<exists>m. w = JNumber m"
    using canonical_first[of "JNumber n" s] canonical_first[of w t] hd_append_ne[of s t r r']
    by (cases w) (auto simp: is_digit_def split: if_splits)
  then obtain m where "w = JNumber m" ..
  with JNumber show ?case using number_canonical_unique[of n m s t r r'] by simp
next
  case (JString a)
  then have "hd t = CHR 0x22"
    using canonical_first[of "JString a" s] canonical_first[of w t] hd_append_ne[of s t r r'] by simp
  then obtain b where w: "w = JString b"
    using canonical_first[OF JString.prems(2,4)] by (cases w) (simp_all add: is_digit_def split: if_splits)
  with JString show ?case using json_quote_unique[of a r b r'] by simp
next
  case (JArray xs)
  have "hd t = CHR ''[''"
    using canonical_first[OF JArray.prems(1,3)] canonical_first[OF JArray.prems(2,4)]
      hd_append_ne[OF _ _ JArray.prems(5)] by simp
  then obtain ys where w: "w = JArray ys"
    using canonical_first[OF JArray.prems(2,4)] by (cases w) (simp_all add: is_digit_def split: if_splits)
  note xs = JArray.prems(1)[unfolded canonicalJson_array] and ys = JArray.prems(2)[unfolded w canonicalJson_array]
  note wf = JArray.prems(3,4)[unfolded w value_wf_array]
  have "map sort_keys xs = map sort_keys ys \<and> r = r'"
  proof (rule join_unique[where A = "set xs" and B = "set ys" and P = "the \<circ> canonicalJson" and Q = "the \<circ> canonicalJson" and cl = "CHR '']''"])
    fix a b q q' assume "a \<in> set xs" "b \<in> set ys" "(the \<circ> canonicalJson) a @ q = (the \<circ> canonicalJson) b @ q'" "stops q" "stops q'"
    then show "sort_keys a = sort_keys b \<and> q = q'"
      using JArray.IH[of a "the (canonicalJson a)" b "the (canonicalJson b)" q q'] xs ys wf by auto
  next
    show "\<not> stops ((the \<circ> canonicalJson) a)" if "a \<in> set xs" for a
      using that xs wf canonical_not_stops[of a "the (canonicalJson a)"] by auto
    show "\<not> stops ((the \<circ> canonicalJson) b)" if "b \<in> set ys" for b
      using that ys wf canonical_not_stops[of b "the (canonicalJson b)"] by auto
    show "join '','' (map (the \<circ> canonicalJson) xs) @ CHR '']'' # r = join '','' (map (the \<circ> canonicalJson) ys) @ CHR '']'' # r'"
      using JArray.prems(5) xs ys by simp
  qed auto
  with w show ?case by simp
next
  case (JObject xs)
  have "hd t = CHR ''{''"
    using canonical_first[OF JObject.prems(1,3)] canonical_first[OF JObject.prems(2,4)]
      hd_append_ne[OF _ _ JObject.prems(5)] by simp
  then obtain ys where w: "w = JObject ys"
    using canonical_first[OF JObject.prems(2,4)] by (cases w) (simp_all add: is_digit_def split: if_splits)
  note xs = JObject.prems(1)[unfolded canonicalJson_object] and ys = JObject.prems(2)[unfolded w canonicalJson_object]
  note wf = JObject.prems(3,4)[unfolded w value_wf_object]
  let ?P = "\<lambda>kv. json_quote (fst kv) @ '':'' @ the (canonicalJson (snd kv))"
  let ?N = "map_prod (\<lambda>k. k) sort_keys"
  have "map ?N (sort_key fst xs) = map ?N (sort_key fst ys) \<and> r = r'"
  proof (rule join_unique[where A = "set xs" and B = "set ys" and P = ?P and Q = ?P and cl = "CHR ''}''"])
    fix a b q q' assume ab: "a \<in> set xs" "b \<in> set ys" "?P a @ q = ?P b @ q'" "stops q" "stops q'"
    have "fst a = fst b \<and> the (canonicalJson (snd a)) @ q = the (canonicalJson (snd b)) @ q'"
      using json_quote_unique[of "fst a" "'':'' @ the (canonicalJson (snd a)) @ q" "fst b"] ab(3) by auto
    moreover have "canonicalJson (snd a) = Some (the (canonicalJson (snd a)))" "value_wf (snd a)"
      "canonicalJson (snd b) = Some (the (canonicalJson (snd b)))" "value_wf (snd b)"
      using xs ys wf ab(1,2) by blast+
    moreover have "snd a \<in> Basic_BNFs.snds a" by (cases a) simp
    ultimately have "sort_keys (snd a) = sort_keys (snd b) \<and> q = q' \<and> fst a = fst b"
      using JObject.IH[OF ab(1)] ab(4,5) by blast
    then show "?N a = ?N b \<and> q = q'" by (cases a; cases b) auto
  next
    show "join '','' (map ?P (sort_key fst xs)) @ CHR ''}'' # r = join '','' (map ?P (sort_key fst ys)) @ CHR ''}'' # r'"
      using JObject.prems(5) xs ys by simp
  qed (auto simp: json_quote_def)
  with w show ?case by (simp add: sort_key_fst_map)
next
  case (JBool x)
  have "hd t = (if x then CHR ''t'' else CHR ''f'')"
    using canonical_first[OF JBool.prems(1,3)] canonical_first[OF JBool.prems(2,4)]
      hd_append_ne[OF _ _ JBool.prems(5)] by simp
  then have "w = JBool x"
    using canonical_first[OF JBool.prems(2,4)] by (cases w) (simp_all add: is_digit_def split: if_splits)
  with JBool show ?case by simp
next
  case JNull
  have "hd t = CHR ''n''"
    using canonical_first[OF JNull.prems(1,3)] canonical_first[OF JNull.prems(2,4)]
      hd_append_ne[OF _ _ JNull.prems(5)] by simp
  then have "w = JNull"
    using canonical_first[OF JNull.prems(2,4)] by (cases w) (simp_all add: is_digit_def split: if_splits)
  with JNull show ?case by simp
qed auto

lemma sort_key_sorted_id: "sorted (map f xs) \<Longrightarrow> sort_key f xs = xs"
  by (induction xs) (auto simp: insort_is_Cons)

lemma canonicalJson_sort_keys: "canonicalJson (sort_keys v) = canonicalJson v"
proof (induction v)
  case (JArray xs)
  then have "map (canonicalJson \<circ> sort_keys) xs = map canonicalJson xs" by simp
  from arg_cong[OF this, of canon_array] show ?case by (simp add: comp_def)
next
  case (JObject kvs)
  let ?K = "\<lambda>f. map (map_prod (\<lambda>k. k) f) (sort_key fst kvs)"
  have IH: "canonicalJson (sort_keys (snd kv)) = canonicalJson (snd kv)" if "kv \<in> set kvs" for kv
    using JObject that by (cases kv) auto
  have "canonicalJson (sort_keys (JObject kvs)) = Some s \<longleftrightarrow> canonicalJson (JObject kvs) = Some s" for s
  proof -
    have srt: "sort_key fst (?K sort_keys) = ?K sort_keys"
      by (rule sort_key_sorted_id) (simp add: comp_def)
    have pieces: "map (\<lambda>kv. json_quote (fst kv) @ '':'' @ the (canonicalJson (snd kv))) (?K sort_keys)
        = map (\<lambda>kv. json_quote (fst kv) @ '':'' @ the (canonicalJson (snd kv))) (sort_key fst kvs)"
      using IH by simp
    have "sort_keys (JObject kvs) = JObject (?K sort_keys)" by (simp add: sort_key_fst_map)
    then show ?thesis unfolding canonicalJson_object[of kvs] using IH
      by (simp only: canonicalJson_object srt pieces) auto
  qed
  then show ?case by (metis not_Some_eq)
qed simp_all

section \<open>Properties\<close>

text \<open>
  C28. Canonical text identifies contents: two well-formed values that both serialise have the same
  canonical text exactly when they are equal up to the order of their object keys. So key order
  never changes a content hash's input, and no two different contents share it.
\<close>

theorem canonical_json_identifies:
  assumes "value_wf v" and "value_wf w" and "canonicalJson v \<noteq> None"
  shows "canonicalJson v = canonicalJson w \<longleftrightarrow> sort_keys v = sort_keys w"
proof
  assume eq: "canonicalJson v = canonicalJson w"
  obtain s where "canonicalJson v = Some s" using assms(3) by auto
  then show "sort_keys v = sort_keys w"
    using canonical_unique[of v s w s "[]" "[]"] assms eq by (simp add: stops_def)
next
  assume "sort_keys v = sort_keys w"
  then show "canonicalJson v = canonicalJson w" by (metis canonicalJson_sort_keys)
qed

theorem canonical_json_identifies_witness:
  "canonicalJson (JObject [(''b'', JNull), (''a'', JBool True)]) = canonicalJson (JObject [(''a'', JBool True), (''b'', JNull)])"
  using canonical_json_identifies[of "JObject [(''b'', JNull), (''a'', JBool True)]" "JObject [(''a'', JBool True), (''b'', JNull)]"]
  by (simp add: canon_object_def)

end
