(* ===== verification/Classification.thy ===== *)
theory Classification
  imports Canonical_Json
begin

text \<open>
  Ticket classification (\<^verbatim>\<open>packages/dev-board/src/domain/classification.ts\<close>) and the Change Risk
  policy (\<^verbatim>\<open>change-risk-policy.ts\<close>): the enumerations with their parsers, work-area
  normalisation, and the policy evaluation with its minimum risk. The SHA-256 digest of
  \<^verbatim>\<open>node:crypto\<close> is the parameter \<open>sha\<close>.
\<close>

section \<open>Enumerations\<close>

datatype dev_ticket_type = Feature | Bug | Improvement | Technical_task | Research_spike | Maintenance

datatype work_area =
    Ui_ux | Frontend | Backend_api | Data_database | Infrastructure | Github_integration
  | Agent_runtime | Security | Documentation

datatype priority = P0 | P1 | P2 | P3

datatype severity = S0 | S1 | S2 | S3

datatype change_risk = Low | Medium | High | Critical

primrec show_type :: "dev_ticket_type \<Rightarrow> string" where
  "show_type Feature = ''feature''"
| "show_type Bug = ''bug''"
| "show_type Improvement = ''improvement''"
| "show_type Technical_task = ''technical_task''"
| "show_type Research_spike = ''research_spike''"
| "show_type Maintenance = ''maintenance''"

primrec show_work_area :: "work_area \<Rightarrow> string" where
  "show_work_area Ui_ux = ''ui_ux''"
| "show_work_area Frontend = ''frontend''"
| "show_work_area Backend_api = ''backend_api''"
| "show_work_area Data_database = ''data_database''"
| "show_work_area Infrastructure = ''infrastructure''"
| "show_work_area Github_integration = ''github_integration''"
| "show_work_area Agent_runtime = ''agent_runtime''"
| "show_work_area Security = ''security''"
| "show_work_area Documentation = ''documentation''"

primrec show_priority :: "priority \<Rightarrow> string" where
  "show_priority P0 = ''p0''"
| "show_priority P1 = ''p1''"
| "show_priority P2 = ''p2''"
| "show_priority P3 = ''p3''"

primrec show_severity :: "severity \<Rightarrow> string" where
  "show_severity S0 = ''s0''"
| "show_severity S1 = ''s1''"
| "show_severity S2 = ''s2''"
| "show_severity S3 = ''s3''"

primrec show_risk :: "change_risk \<Rightarrow> string" where
  "show_risk Low = ''low''"
| "show_risk Medium = ''medium''"
| "show_risk High = ''high''"
| "show_risk Critical = ''critical''"

definition devTicketTypes :: "dev_ticket_type list" where
  "devTicketTypes = [Feature, Bug, Improvement, Technical_task, Research_spike, Maintenance]"

definition workAreas :: "work_area list" where
  "workAreas = [Ui_ux, Frontend, Backend_api, Data_database, Infrastructure, Github_integration,
     Agent_runtime, Security, Documentation]"

definition priorities :: "priority list" where
  "priorities = [P0, P1, P2, P3]"

definition severities :: "severity list" where
  "severities = [S0, S1, S2, S3]"

definition changeRisks :: "change_risk list" where
  "changeRisks = [Low, Medium, High, Critical]"

primrec devTicketTypeLabels :: "dev_ticket_type \<Rightarrow> string" where
  "devTicketTypeLabels Feature = ''Feature''"
| "devTicketTypeLabels Bug = ''Bug''"
| "devTicketTypeLabels Improvement = ''Improvement''"
| "devTicketTypeLabels Technical_task = ''Technical Task''"
| "devTicketTypeLabels Research_spike = ''Research/Spike''"
| "devTicketTypeLabels Maintenance = ''Maintenance''"

definition classification_invalid :: "string \<Rightarrow> domain_error" where
  "classification_invalid label = failure ''dev_board.classification_invalid'' (label @ '' is invalid.'')"

definition parseDevTicketType :: "js_value \<Rightarrow> dev_ticket_type result" where
  "parseDevTicketType = parseEnum show_type devTicketTypes (classification_invalid ''DevTicket type'')"

definition parseWorkArea :: "js_value \<Rightarrow> work_area result" where
  "parseWorkArea = parseEnum show_work_area workAreas (classification_invalid ''Work area'')"

definition parsePriority :: "js_value \<Rightarrow> priority result" where
  "parsePriority = parseEnum show_priority priorities (classification_invalid ''Priority'')"

definition parseSeverity :: "js_value \<Rightarrow> severity result" where
  "parseSeverity = parseEnum show_severity severities (classification_invalid ''Severity'')"

definition parseChangeRisk :: "js_value \<Rightarrow> change_risk result" where
  "parseChangeRisk = parseEnum show_risk changeRisks (classification_invalid ''Change risk'')"

interpretation type_enum: string_enum show_type devTicketTypes
proof (unfold_locales, goal_cases)
  case (1 x y)
  then show ?case by (cases x; cases y) simp_all
next
  case (2 x)
  show ?case by (cases x) (simp_all add: devTicketTypes_def)
qed

interpretation area_enum: string_enum show_work_area workAreas
proof (unfold_locales, goal_cases)
  case (1 x y)
  then show ?case by (cases x; cases y) simp_all
next
  case (2 x)
  show ?case by (cases x) (simp_all add: workAreas_def)
qed

interpretation priority_enum: string_enum show_priority priorities
proof (unfold_locales, goal_cases)
  case (1 x y)
  then show ?case by (cases x; cases y) simp_all
next
  case (2 x)
  show ?case by (cases x) (simp_all add: priorities_def)
qed

interpretation severity_enum: string_enum show_severity severities
proof (unfold_locales, goal_cases)
  case (1 x y)
  then show ?case by (cases x; cases y) simp_all
next
  case (2 x)
  show ?case by (cases x) (simp_all add: severities_def)
qed

interpretation risk_enum: string_enum show_risk changeRisks
proof (unfold_locales, goal_cases)
  case (1 x y)
  then show ?case by (cases x; cases y) simp_all
next
  case (2 x)
  show ?case by (cases x) (simp_all add: changeRisks_def)
qed

section \<open>The order of risks\<close>

primrec risk_index :: "change_risk \<Rightarrow> nat" where
  "risk_index Low = 0"
| "risk_index Medium = 1"
| "risk_index High = 2"
| "risk_index Critical = 3"

lemma risk_index_inj: "risk_index a = risk_index b \<Longrightarrow> a = b"
  by (cases a; cases b) simp_all

instantiation change_risk :: linorder
begin

definition less_eq_change_risk :: "change_risk \<Rightarrow> change_risk \<Rightarrow> bool" where
  "less_eq_change_risk a b \<longleftrightarrow> risk_index a \<le> risk_index b"

definition less_change_risk :: "change_risk \<Rightarrow> change_risk \<Rightarrow> bool" where
  "less_change_risk a b \<longleftrightarrow> risk_index a < risk_index b"

instance
  by standard (auto simp: less_eq_change_risk_def less_change_risk_def dest: risk_index_inj)

end

definition compareChangeRisk :: "change_risk \<Rightarrow> change_risk \<Rightarrow> int" where
  "compareChangeRisk a b = int (risk_index a) - int (risk_index b)"

lemma compareChangeRisk_neg [simp]: "compareChangeRisk a b < 0 \<longleftrightarrow> a < b"
  by (simp add: compareChangeRisk_def less_change_risk_def)

lemma risk_index_nth: "changeRisks ! risk_index r = r"
  by (cases r) (simp_all add: changeRisks_def numeral_2_eq_2 numeral_3_eq_3)

section \<open>Work areas\<close>

fun parseWorkAreas :: "js_value list \<Rightarrow> work_area list result" where
  "parseWorkAreas [] = ok []"
| "parseWorkAreas (v # vs) =
     (case parseWorkArea v of
        Inl e \<Rightarrow> err e
      | Inr a \<Rightarrow> (case parseWorkAreas vs of Inl e \<Rightarrow> err e | Inr as \<Rightarrow> ok (a # as)))"

text \<open>\<^verbatim>\<open>[...new Set(areas)].sort()\<close>: distinct areas in the order of their names.\<close>

definition sorted_areas :: "work_area list \<Rightarrow> work_area list" where
  "sorted_areas as = sort_key show_work_area (js_set as)"

definition normalizeWorkAreas :: "js_value \<Rightarrow> work_area list result" where
  "normalizeWorkAreas v =
     (case v of
        JArray (x # xs) \<Rightarrow>
          (case parseWorkAreas (x # xs) of
             Inl e \<Rightarrow> err e
           | Inr parsed \<Rightarrow>
               (let normalized = sorted_areas parsed in
                if length normalized \<noteq> length parsed
                then err (failure ''dev_board.classification_invalid'' ''Work areas must not contain duplicates.'')
                else ok normalized))
      | _ \<Rightarrow> err (failure ''dev_board.classification_work_areas_required'' ''At least one work area is required.''))"

lemma set_sorted_areas [simp]: "set (sorted_areas as) = set as"
  by (simp add: sorted_areas_def)

lemma sorted_areas_idem: "sorted_areas (sorted_areas as) = sorted_areas as"
proof -
  have "distinct (sort_key show_work_area (js_set as))" by simp
  moreover have "sorted (map show_work_area (sort_key show_work_area (js_set as)))" by simp
  ultimately show ?thesis by (simp add: sorted_areas_def sort_key_sorted_id)
qed

lemma parseWorkAreas_shown: "parseWorkAreas vs = ok as \<longleftrightarrow> vs = map (\<lambda>a. JString (show_work_area a)) as"
proof (induction vs arbitrary: as)
  case (Cons v vs)
  show ?case
  proof (cases "\<exists>a. v = JString (show_work_area a)")
    case True
    then obtain a where v: "v = JString (show_work_area a)" ..
    then have "parseWorkArea v = ok a" by (simp add: parseWorkArea_def area_enum.parse_show)
    then have "parseWorkAreas (v # vs) = ok as \<longleftrightarrow> (\<exists>bs. parseWorkAreas vs = ok bs \<and> as = a # bs)"
      by (auto split: sum.splits)
    also have "\<dots> \<longleftrightarrow> v # vs = map (\<lambda>a. JString (show_work_area a)) as"
      unfolding Cons.IH v by (cases as) (auto dest: area_enum.show_inj)
    finally show ?thesis .
  next
    case False
    then have "\<exists>e. parseWorkArea v = err e" by (auto simp: parseWorkArea_def area_enum.parse_err_iff)
    with False show ?thesis by (cases as) auto
  qed
qed auto

section \<open>The Change Risk policy\<close>

definition changeRiskPolicyVersion :: string where
  "changeRiskPolicyVersion = ''1''"

definition change_risk_rules :: js_value where
  "change_risk_rules = JArray
     [JObject [(''id'', JString ''base_low''), (''kind'', JString ''floor''), (''risk'', JString ''low'')],
      JObject [(''id'', JString ''bug_medium''), (''kind'', JString ''type''), (''type'', JString ''bug''),
        (''risk'', JString ''medium'')],
      JObject [(''id'', JString ''security_medium''), (''kind'', JString ''work_area''),
        (''workArea'', JString ''security''), (''risk'', JString ''medium'')],
      JObject [(''id'', JString ''security_sensitive_high''), (''kind'', JString ''work_area_pair''),
        (''workAreas'', JArray [JString ''security'', JString ''data_database|infrastructure'']),
        (''risk'', JString ''high'')],
      JObject [(''id'', JString ''bug_security_high''), (''kind'', JString ''type_work_area''),
        (''type'', JString ''bug''), (''workArea'', JString ''security''), (''risk'', JString ''high'')],
      JObject [(''id'', JString ''active_dependencies_raise''), (''kind'', JString ''raise''),
        (''steps'', JNumber (JInt 1))]]"

definition changeRiskPolicyHash :: "(string \<Rightarrow> string) \<Rightarrow> string" where
  "changeRiskPolicyHash sha = sha (the (canonicalJson change_risk_rules))"

record change_risk_evaluation =
  policyVersion :: string
  policyHash :: string
  normalizedType :: dev_ticket_type
  normalizedAreas :: "work_area list"
  normalizedDependencies :: bool
  matchedRuleIds :: "string list"
  minimumChangeRisk :: change_risk

type_synonym risk_floor = "nat \<times> string list"

definition raiseTo :: "change_risk \<Rightarrow> string \<Rightarrow> risk_floor \<Rightarrow> risk_floor" where
  "raiseTo risk rule fl = (max (fst fl) (risk_index risk), snd fl @ [rule])"

definition evaluateChangeRisk ::
  "(string \<Rightarrow> string) \<Rightarrow> dev_ticket_type \<Rightarrow> work_area list \<Rightarrow> bool \<Rightarrow> change_risk_evaluation" where
  "evaluateChangeRisk sha ty areas hasActiveDependencies =
     (let was = sorted_areas areas;
          hasSecurity = Security \<in> set was;
          f0 = (0, [''base_low'']);
          f1 = (if ty = Bug then raiseTo Medium ''bug_medium'' f0 else f0);
          f2 = (if hasSecurity then raiseTo Medium ''security_medium'' f1 else f1);
          f3 = (if hasSecurity \<and> (Data_database \<in> set was \<or> Infrastructure \<in> set was)
                then raiseTo High ''security_sensitive_high'' f2 else f2);
          f4 = (if ty = Bug \<and> hasSecurity then raiseTo High ''bug_security_high'' f3 else f3);
          f5 = (if hasActiveDependencies
                then (min (length changeRisks - 1) (fst f4 + 1), snd f4 @ [''active_dependencies_raise'']) else f4)
      in \<lparr>policyVersion = changeRiskPolicyVersion, policyHash = changeRiskPolicyHash sha,
          normalizedType = ty, normalizedAreas = was, normalizedDependencies = hasActiveDependencies,
          matchedRuleIds = snd f5, minimumChangeRisk = changeRisks ! fst f5\<rparr>)"

text \<open>The evaluation as the JSON value that a Ready contract carries.\<close>

definition evaluation_json :: "change_risk_evaluation \<Rightarrow> js_value" where
  "evaluation_json ev = JObject
     [(''policyVersion'', JString (policyVersion ev)), (''policyHash'', JString (policyHash ev)),
      (''normalizedInputs'', JObject
         [(''type'', JString (show_type (normalizedType ev))),
          (''workAreas'', JArray (map (\<lambda>a. JString (show_work_area a)) (normalizedAreas ev))),
          (''hasActiveDependencies'', JBool (normalizedDependencies ev))]),
      (''matchedRuleIds'', JArray (map JString (matchedRuleIds ev))),
      (''minimumChangeRisk'', JString (show_risk (minimumChangeRisk ev)))]"

text \<open>The policy as a specification on the set of work areas.\<close>

definition risk_floor_spec :: "dev_ticket_type \<Rightarrow> work_area set \<Rightarrow> change_risk" where
  "risk_floor_spec ty W =
     (if Security \<in> W \<and> (ty = Bug \<or> Data_database \<in> W \<or> Infrastructure \<in> W) then High
      else if ty = Bug \<or> Security \<in> W then Medium else Low)"

fun raise_risk :: "change_risk \<Rightarrow> change_risk" where
  "raise_risk Low = Medium"
| "raise_risk Medium = High"
| "raise_risk _ = Critical"

definition minimum_risk_spec :: "dev_ticket_type \<Rightarrow> work_area set \<Rightarrow> bool \<Rightarrow> change_risk" where
  "minimum_risk_spec ty W deps = (if deps then raise_risk (risk_floor_spec ty W) else risk_floor_spec ty W)"

lemma minimum_risk_refines:
  "minimumChangeRisk (evaluateChangeRisk sha ty areas deps) = minimum_risk_spec ty (set areas) deps"
  by (simp add: evaluateChangeRisk_def minimum_risk_spec_def risk_floor_spec_def raiseTo_def Let_def changeRisks_def)

lemma raise_risk_mono: "a \<le> b \<Longrightarrow> raise_risk a \<le> raise_risk b"
  by (cases a; cases b) (simp_all add: less_eq_change_risk_def)

lemma le_raise_risk: "a \<le> raise_risk a"
  by (cases a) (simp_all add: less_eq_change_risk_def)

lemma risk_floor_mono: "W \<subseteq> V \<Longrightarrow> risk_floor_spec ty W \<le> risk_floor_spec ty V"
  by (auto simp: risk_floor_spec_def less_eq_change_risk_def)

lemma minimum_risk_mono:
  "W \<subseteq> V \<Longrightarrow> (deps \<longrightarrow> deps') \<Longrightarrow> minimum_risk_spec ty W deps \<le> minimum_risk_spec ty V deps'"
  using risk_floor_mono[of W V ty] raise_risk_mono
    order_trans[OF risk_floor_mono[of W V ty] le_raise_risk[of "risk_floor_spec ty V"]]
  by (auto simp: minimum_risk_spec_def)

section \<open>Properties\<close>

text \<open>
  C29. The Change Risk policy: the evaluated minimum is the one of the specification on the set of
  work areas (so order and duplicates do not matter), and adding work areas or an active dependency
  never lowers it.
\<close>

theorem change_risk_policy:
  shows "minimumChangeRisk (evaluateChangeRisk sha ty areas deps) = minimum_risk_spec ty (set areas) deps \<and>
    (set areas \<subseteq> set areas' \<longrightarrow> (deps \<longrightarrow> deps') \<longrightarrow>
       minimumChangeRisk (evaluateChangeRisk sha ty areas deps)
         \<le> minimumChangeRisk (evaluateChangeRisk sha ty areas' deps'))"
  by (simp add: minimum_risk_refines minimum_risk_mono)

theorem change_risk_policy_witness:
  "minimumChangeRisk (evaluateChangeRisk (\<lambda>s. s) Bug [Frontend] False) = Medium \<and>
   minimumChangeRisk (evaluateChangeRisk (\<lambda>s. s) Bug [Frontend] False)
     \<le> minimumChangeRisk (evaluateChangeRisk (\<lambda>s. s) Bug [Frontend, Security] True)"
  using change_risk_policy[of "\<lambda>s. s" Bug "[Frontend]" False "[Frontend, Security]" True]
  by (auto simp: minimum_risk_spec_def risk_floor_spec_def)

text \<open>
  Work-area normalisation accepts exactly the non-empty arrays of pairwise different known area
  names, and returns those areas sorted by name; normalising the result again changes nothing.
\<close>

theorem normalize_work_areas_correct:
  "normalizeWorkAreas v = ok as \<longleftrightarrow>
     (\<exists>bs. bs \<noteq> [] \<and> distinct bs \<and> v = JArray (map (\<lambda>a. JString (show_work_area a)) bs) \<and>
       as = sort_key show_work_area bs)"
proof -
  have len: "length (sorted_areas bs) \<noteq> length bs \<longleftrightarrow> \<not> distinct bs" for bs
    by (simp add: sorted_areas_def length_js_set_eq_iff)
  have "normalizeWorkAreas (JArray vs) = ok as \<longleftrightarrow>
      (\<exists>bs. bs \<noteq> [] \<and> distinct bs \<and> vs = map (\<lambda>a. JString (show_work_area a)) bs \<and> as = sort_key show_work_area bs)" for vs
  proof (cases "vs = []")
    case False
    then have "normalizeWorkAreas (JArray vs) = ok as \<longleftrightarrow>
        (\<exists>bs. parseWorkAreas vs = ok bs \<and> distinct bs \<and> as = sort_key show_work_area bs)"
      using len js_set_id
      by (cases "parseWorkAreas vs") (auto simp: normalizeWorkAreas_def Let_def sorted_areas_def
          simp del: parseWorkAreas.simps js_set.simps split: list.splits if_splits)
    then show ?thesis using False by (auto simp: parseWorkAreas_shown)
  qed (simp add: normalizeWorkAreas_def)
  then show ?thesis by (cases v) (auto simp: normalizeWorkAreas_def)
qed

end
