(* ===== verification/Planning_Domain.thy ===== *)
theory Planning_Domain
  imports Classification
begin

text \<open>
  The Dev Board domain layer: the command envelope (\<^verbatim>\<open>command-envelope.ts\<close>), DevTicket values and
  the Ready contract (\<^verbatim>\<open>dev-ticket.ts\<close>) and Proposals (\<^verbatim>\<open>proposal.ts\<close>), all under
  \<^verbatim>\<open>packages/dev-board/src/domain\<close>.
\<close>

section \<open>Command envelope\<close>

record expected_version =
  ev_recordKind :: string
  ev_recordId :: string
  ev_version :: int

datatype actor_kind = ActorUser | ActorAgent | ActorSystem

datatype actor_role = RoleAdmin | RoleHumanOwner | RoleLeadOrchestrator | RoleAgent | RoleSystemWorker

primrec show_actor_kind :: "actor_kind \<Rightarrow> string" where
  "show_actor_kind ActorUser = ''user''"
| "show_actor_kind ActorAgent = ''agent''"
| "show_actor_kind ActorSystem = ''system''"

primrec show_actor_role :: "actor_role \<Rightarrow> string" where
  "show_actor_role RoleAdmin = ''admin''"
| "show_actor_role RoleHumanOwner = ''human_owner''"
| "show_actor_role RoleLeadOrchestrator = ''lead_orchestrator''"
| "show_actor_role RoleAgent = ''agent''"
| "show_actor_role RoleSystemWorker = ''system_worker''"

definition commandActorKinds :: "actor_kind list" where
  "commandActorKinds = [ActorUser, ActorAgent, ActorSystem]"

definition commandActorRoles :: "actor_role list" where
  "commandActorRoles = [RoleAdmin, RoleHumanOwner, RoleLeadOrchestrator, RoleAgent, RoleSystemWorker]"

interpretation actor_kind_enum: string_enum show_actor_kind commandActorKinds
proof (unfold_locales, goal_cases)
  case (1 x y)
  then show ?case by (cases x; cases y) simp_all
next
  case (2 x)
  show ?case by (cases x) (simp_all add: commandActorKinds_def)
qed

interpretation actor_role_enum: string_enum show_actor_role commandActorRoles
proof (unfold_locales, goal_cases)
  case (1 x y)
  then show ?case by (cases x; cases y) simp_all
next
  case (2 x)
  show ?case by (cases x) (simp_all add: commandActorRoles_def)
qed

text \<open>
  The actor reference arrives as an unvalidated value: its three fields are strings the parser
  checks.
\<close>

record actor_ref =
  ar_kind :: actor_kind
  ar_stableId :: string
  ar_role :: actor_role

record command_envelope =
  env_commandId :: string
  env_idempotencyKey :: string
  env_requestHash :: string
  env_organizationId :: string
  env_workspaceId :: string
  env_commandName :: string
  env_targetAggregateId :: string
  env_actorRef :: js_value
  env_sourceKind :: string
  env_sourceRef :: string
  env_authorizationVersion :: int
  env_correlationId :: string
  env_causationId :: "string option"
  env_expectedVersions :: "expected_version list"

definition invalid_actor :: domain_error where
  "invalid_actor = failure ''dev_board.invalid_actor_ref'' ''Command actor reference is invalid.''"

definition parseCommandActorRef :: "js_value \<Rightarrow> actor_ref result" where
  "parseCommandActorRef v =
     (case v of
        JObject actor \<Rightarrow>
          (case map_get actor ''stableId'' of
             Some (JString sid) \<Rightarrow>
               if length sid = 0 then err invalid_actor
               else (case map_get actor ''kind'' of
                 None \<Rightarrow> err invalid_actor
               | Some kv \<Rightarrow> (case parseEnum show_actor_kind commandActorKinds invalid_actor kv of
                   Inl e \<Rightarrow> err e
                 | Inr k \<Rightarrow> (case map_get actor ''role'' of
                     None \<Rightarrow> err invalid_actor
                   | Some rv \<Rightarrow> (case parseEnum show_actor_role commandActorRoles invalid_actor rv of
                       Inl e \<Rightarrow> err e
                     | Inr r \<Rightarrow> ok \<lparr>ar_kind = k, ar_stableId = sid, ar_role = r\<rparr>))))
           | _ \<Rightarrow> err invalid_actor)
      | _ \<Rightarrow> err invalid_actor)"

text \<open>
  Field reads \<^verbatim>\<open>envelope.actorRef.kind\<close> and \<^verbatim>\<open>.stableId\<close> of the validated reference.
\<close>

definition actor_is_user :: "command_envelope \<Rightarrow> bool" where
  "actor_is_user e = (case env_actorRef e of JObject a \<Rightarrow> map_get a ''kind'' = Some (JString ''user'') | _ \<Rightarrow> False)"

definition actor_stableId :: "command_envelope \<Rightarrow> string" where
  "actor_stableId e =
     (case env_actorRef e of JObject a \<Rightarrow> (case map_get a ''stableId'' of Some (JString s) \<Rightarrow> s | _ \<Rightarrow> []) | _ \<Rightarrow> [])"

definition actor_json :: "actor_ref \<Rightarrow> js_value" where
  "actor_json a = JObject [(''kind'', JString (show_actor_kind (ar_kind a))), (''stableId'', JString (ar_stableId a)),
     (''role'', JString (show_actor_role (ar_role a)))]"

lemma parseCommandActorRef_okD:
  assumes "parseCommandActorRef (env_actorRef e) = ok a"
  shows "ar_stableId a = actor_stableId e \<and> (ar_kind a = ActorUser \<longleftrightarrow> actor_is_user e) \<and> ar_stableId a \<noteq> []"
  using assms
  by (cases "ar_kind a") (auto simp: parseCommandActorRef_def actor_is_user_def actor_stableId_def actor_kind_enum.parse_ok_iff
      split: js_value.splits option.splits sum.splits if_splits)

section \<open>DevTicket values\<close>

datatype lane = Backlog | Todo | Blocked | InProgress | Review | Done

datatype ready_state = Draft | Approved

datatype origin_kind = OriginProposal | OriginDirect | OriginLegacy

primrec show_lane :: "lane \<Rightarrow> string" where
  "show_lane Backlog = ''backlog''"
| "show_lane Todo = ''todo''"
| "show_lane Blocked = ''blocked''"
| "show_lane InProgress = ''in_progress''"
| "show_lane Review = ''review''"
| "show_lane Done = ''done''"

primrec show_ready :: "ready_state \<Rightarrow> string" where
  "show_ready Draft = ''draft''"
| "show_ready Approved = ''approved''"

primrec show_origin :: "origin_kind \<Rightarrow> string" where
  "show_origin OriginProposal = ''proposal''"
| "show_origin OriginDirect = ''direct''"
| "show_origin OriginLegacy = ''legacy''"

definition devTicketLanes :: "lane list" where
  "devTicketLanes = [Backlog, Todo, Blocked, InProgress, Review, Done]"

definition readyStates :: "ready_state list" where
  "readyStates = [Draft, Approved]"

definition originKinds :: "origin_kind list" where
  "originKinds = [OriginProposal, OriginDirect, OriginLegacy]"

definition parseDevTicketLane :: "js_value \<Rightarrow> lane result" where
  "parseDevTicketLane = parseEnum show_lane devTicketLanes
     (failure ''dev_board.invalid_dev_ticket_lane'' ''DevTicket lane is invalid.'')"

definition parseReadyState :: "js_value \<Rightarrow> ready_state result" where
  "parseReadyState = parseEnum show_ready readyStates
     (failure ''dev_board.invalid_ready_state'' ''Ready state is invalid.'')"

definition parseOriginKind :: "js_value \<Rightarrow> origin_kind result" where
  "parseOriginKind = parseEnum show_origin originKinds
     (failure ''dev_board.invalid_origin_kind'' ''DevTicket origin kind is invalid.'')"

interpretation lane_enum: string_enum show_lane devTicketLanes
proof (unfold_locales, goal_cases)
  case (1 x y)
  then show ?case by (cases x; cases y) simp_all
next
  case (2 x)
  show ?case by (cases x) (simp_all add: devTicketLanes_def)
qed

interpretation ready_enum: string_enum show_ready readyStates
proof (unfold_locales, goal_cases)
  case (1 x y)
  then show ?case by (cases x; cases y) simp_all
next
  case (2 x)
  show ?case by (cases x) (simp_all add: readyStates_def)
qed

interpretation origin_enum: string_enum show_origin originKinds
proof (unfold_locales, goal_cases)
  case (1 x y)
  then show ?case by (cases x; cases y) simp_all
next
  case (2 x)
  show ?case by (cases x) (simp_all add: originKinds_def)
qed

text \<open>
  The SHA-256 of the canonical text; \<open>None\<close> is the \<^verbatim>\<open>TypeError\<close> that \<^verbatim>\<open>canonicalJson\<close> throws.
\<close>

definition computeReadyContractContentHash :: "(string \<Rightarrow> string) \<Rightarrow> js_object \<Rightarrow> string option" where
  "computeReadyContractContentHash sha content = map_option sha (canonicalJson (JObject content))"

definition parseReadyContractContent :: "(string \<Rightarrow> string) \<Rightarrow> js_value \<Rightarrow> js_object result" where
  "parseReadyContractContent sha v =
     (case v of
        JObject content \<Rightarrow>
          (case computeReadyContractContentHash sha content of
             Some _ \<Rightarrow> ok content
           | None \<Rightarrow> err (failure ''dev_board.invalid_ready_contract_content''
                      ''Ready contract content must be JSON serializable.''))
      | _ \<Rightarrow> err (failure ''dev_board.invalid_ready_contract_content''
               ''Ready contract content must be an object.''))"

lemma parseReadyContractContent_ok_iff:
  "parseReadyContractContent sha v = ok c \<longleftrightarrow> v = JObject c \<and> canonicalJson (JObject c) \<noteq> None"
  by (auto simp: parseReadyContractContent_def computeReadyContractContentHash_def split: js_value.splits option.splits)

section \<open>Proposals\<close>

datatype proposal_state = ProposalDraft | AwaitingDecision | Accepted | Merged | Rejected

datatype blocking_assessment = Blocking | NonBlocking

primrec show_proposal_state :: "proposal_state \<Rightarrow> string" where
  "show_proposal_state ProposalDraft = ''draft''"
| "show_proposal_state AwaitingDecision = ''awaiting_decision''"
| "show_proposal_state Accepted = ''accepted''"
| "show_proposal_state Merged = ''merged''"
| "show_proposal_state Rejected = ''rejected''"

primrec show_assessment :: "blocking_assessment \<Rightarrow> string" where
  "show_assessment Blocking = ''blocking''"
| "show_assessment NonBlocking = ''non_blocking''"

definition proposalLifecycleStates :: "proposal_state list" where
  "proposalLifecycleStates = [ProposalDraft, AwaitingDecision, Accepted, Merged, Rejected]"

definition blockingAssessments :: "blocking_assessment list" where
  "blockingAssessments = [Blocking, NonBlocking]"

definition parseBlockingAssessment :: "js_value \<Rightarrow> blocking_assessment result" where
  "parseBlockingAssessment = parseEnum show_assessment blockingAssessments
     (failure ''dev_board.invalid_blocking_assessment'' ''Blocking assessment must be blocking or non_blocking.'')"

definition parseProposalLifecycleState :: "js_value \<Rightarrow> proposal_state result" where
  "parseProposalLifecycleState = parseEnum show_proposal_state proposalLifecycleStates
     (failure ''dev_board.invalid_proposal_lifecycle_state'' ''Proposal lifecycle state is invalid.'')"

interpretation proposal_state_enum: string_enum show_proposal_state proposalLifecycleStates
proof (unfold_locales, goal_cases)
  case (1 x y)
  then show ?case by (cases x; cases y) simp_all
next
  case (2 x)
  show ?case by (cases x) (simp_all add: proposalLifecycleStates_def)
qed

interpretation assessment_enum: string_enum show_assessment blockingAssessments
proof (unfold_locales, goal_cases)
  case (1 x y)
  then show ?case by (cases x; cases y) simp_all
next
  case (2 x)
  show ?case by (cases x) (simp_all add: blockingAssessments_def)
qed

definition normalizeDiscoverySummary :: "string \<Rightarrow> string result" where
  "normalizeDiscoverySummary v =
     (let summary = squish v in
      if length summary = 0
      then err (failure ''dev_board.discovery_summary_required'' ''Discovery summary is required.'')
      else if length summary > 4000
      then err (failure ''dev_board.discovery_summary_too_long''
             ''Discovery summary must be 4000 characters or fewer.'')
      else ok summary)"

section \<open>Properties\<close>

text \<open>
  Every string enumeration of the Dev Board domain parses back what it prints and nothing else:
  lanes, ready states, origins, Proposal states, assessments, ticket types, priorities, severities
  and risks.
\<close>

theorem enum_parsers_exact:
  "(parseDevTicketLane v = ok l \<longleftrightarrow> v = JString (show_lane l)) \<and>
   (parseReadyState v = ok rs \<longleftrightarrow> v = JString (show_ready rs)) \<and>
   (parseOriginKind v = ok ok' \<longleftrightarrow> v = JString (show_origin ok')) \<and>
   (parseProposalLifecycleState v = ok ps \<longleftrightarrow> v = JString (show_proposal_state ps)) \<and>
   (parseBlockingAssessment v = ok ba \<longleftrightarrow> v = JString (show_assessment ba)) \<and>
   (parseDevTicketType v = ok ty \<longleftrightarrow> v = JString (show_type ty)) \<and>
   (parsePriority v = ok p \<longleftrightarrow> v = JString (show_priority p)) \<and>
   (parseSeverity v = ok sv \<longleftrightarrow> v = JString (show_severity sv)) \<and>
   (parseChangeRisk v = ok r \<longleftrightarrow> v = JString (show_risk r))"
  unfolding parseDevTicketLane_def parseReadyState_def parseOriginKind_def parseProposalLifecycleState_def
    parseBlockingAssessment_def parseDevTicketType_def parsePriority_def parseSeverity_def parseChangeRisk_def
  by (intro conjI lane_enum.parse_ok_iff ready_enum.parse_ok_iff origin_enum.parse_ok_iff
      proposal_state_enum.parse_ok_iff assessment_enum.parse_ok_iff type_enum.parse_ok_iff
      priority_enum.parse_ok_iff severity_enum.parse_ok_iff risk_enum.parse_ok_iff)

text \<open>
  A discovery summary is accepted exactly when its squished form has 1 to 4000 characters; the
  accepted form has no leading, trailing or repeated whitespace, and normalising it again returns it
  unchanged.
\<close>

theorem discovery_summary_normal_form:
  "(normalizeDiscoverySummary v = ok s \<longleftrightarrow> s = squish v \<and> 1 \<le> length s \<and> length s \<le> 4000) \<and>
   (normalizeDiscoverySummary v = ok s \<longrightarrow> squished s \<and> normalizeDiscoverySummary s = ok s)"
  by (auto simp: normalizeDiscoverySummary_def Let_def squished_squish Suc_le_eq)

theorem discovery_summary_normal_form_witness:
  "normalizeDiscoverySummary '' Flaky   login '' = ok ''Flaky login'' \<and> normalizeDiscoverySummary ''Flaky login'' = ok ''Flaky login''"
proof -
  have "normalizeDiscoverySummary '' Flaky   login '' = ok ''Flaky login''"
    by (simp add: normalizeDiscoverySummary_def squish_def trim_def js_space_def)
  then show ?thesis using discovery_summary_normal_form[of "'' Flaky   login ''" "''Flaky login''"] by blast
qed

end
