(* ===== verification/Receipts.thy ===== *)
theory Receipts
  imports Planning_Domain
begin

text \<open>
  Command receipts: the in-memory receipt repository
  (\<^verbatim>\<open>adapters/in-memory-command-receipt-repository.ts\<close>) with the types of
  \<^verbatim>\<open>application/command-receipt-store.ts\<close>. A receipt is reserved under the JSON text of organization,
  workspace, command name and idempotency key, and finalized once; a terminal receipt never changes.
\<close>

datatype receipt_state = Reserved | ReceiptAccepted | ReceiptRejected

record receipt_result =
  rr_commandId :: string
  rr_state :: receipt_state
  rr_outcomeCode :: "string option"
  rr_resultRef :: "string option"
  rr_resultSummary :: "js_object option"
  rr_resultingVersions :: "expected_version list option"

record receipt_record = receipt_result +
  rk_organizationId :: string
  rk_workspaceId :: string
  rk_commandName :: string
  rk_idempotencyKey :: string
  rk_requestHash :: string

record receipt_lookup =
  lk_organizationId :: string
  lk_workspaceId :: string
  lk_commandName :: string
  lk_idempotencyKey :: string

record finalize_input =
  fi_organizationId :: string
  fi_commandId :: string
  fi_outcome :: receipt_state
  fi_outcomeCode :: "string option"
  fi_resultRef :: "string option"
  fi_resultSummary :: "js_object option"
  fi_resultingVersions :: "expected_version list option"

type_synonym receipt_map = "(string, receipt_record) js_map"

definition receiptKey :: "receipt_lookup \<Rightarrow> string" where
  "receiptKey i = ''['' @ join '','' [json_quote (lk_organizationId i), json_quote (lk_workspaceId i),
     json_quote (lk_commandName i), json_quote (lk_idempotencyKey i)] @ '']''"

definition envelope_lookup :: "command_envelope \<Rightarrow> receipt_lookup" where
  "envelope_lookup e = \<lparr>lk_organizationId = env_organizationId e, lk_workspaceId = env_workspaceId e,
     lk_commandName = env_commandName e, lk_idempotencyKey = env_idempotencyKey e\<rparr>"

definition idempotencyConflict :: domain_error where
  "idempotencyConflict = failure ''dev_board.idempotency_conflict''
     ''The idempotency key was already used for a different request.''"

definition invalidReceipt :: domain_error where
  "invalidReceipt = failure ''dev_board.invalid_command_receipt'' ''The command receipt record is invalid.''"

definition receiptResult :: "receipt_record \<Rightarrow> receipt_result" where
  "receiptResult r = receipt_result.truncate r"

definition reserved_record :: "command_envelope \<Rightarrow> receipt_record" where
  "reserved_record e = \<lparr>rr_commandId = env_commandId e, rr_state = Reserved, rr_outcomeCode = None,
     rr_resultRef = None, rr_resultSummary = None, rr_resultingVersions = None,
     rk_organizationId = env_organizationId e, rk_workspaceId = env_workspaceId e,
     rk_commandName = env_commandName e, rk_idempotencyKey = env_idempotencyKey e,
     rk_requestHash = env_requestHash e\<rparr>"

definition reserveOrReplay :: "command_envelope \<Rightarrow> receipt_map \<Rightarrow> receipt_result result \<times> receipt_map" where
  "reserveOrReplay e receipts =
     (let k = receiptKey (envelope_lookup e) in
      case map_get receipts k of
        Some existing \<Rightarrow>
          (if rk_requestHash existing = env_requestHash e then ok (receiptResult existing) else err idempotencyConflict,
           receipts)
      | None \<Rightarrow>
          (ok \<lparr>rr_commandId = env_commandId e, rr_state = Reserved, rr_outcomeCode = None, rr_resultRef = None,
               rr_resultSummary = None, rr_resultingVersions = None\<rparr>,
           map_set k (reserved_record e) receipts))"

definition given :: "'a option \<Rightarrow> 'a option \<Rightarrow> 'a option" where
  "given new old = (case new of None \<Rightarrow> old | Some _ \<Rightarrow> new)"

definition finalized_record :: "finalize_input \<Rightarrow> receipt_record \<Rightarrow> receipt_record" where
  "finalized_record i r = r\<lparr>rr_state := fi_outcome i, rr_outcomeCode := given (fi_outcomeCode i) (rr_outcomeCode r),
     rr_resultRef := given (fi_resultRef i) (rr_resultRef r),
     rr_resultSummary := Some (case fi_resultSummary i of None \<Rightarrow> [] | Some s \<Rightarrow> s),
     rr_resultingVersions := Some (case fi_resultingVersions i of None \<Rightarrow> [] | Some v \<Rightarrow> v)\<rparr>"

definition finalizeTransaction :: "finalize_input \<Rightarrow> receipt_map \<Rightarrow> unit result \<times> receipt_map" where
  "finalizeTransaction i receipts =
     (case find (\<lambda>(k, r). rk_organizationId r = fi_organizationId i \<and> rr_commandId r = fi_commandId i) receipts of
        None \<Rightarrow> (err invalidReceipt, receipts)
      | Some (k, r) \<Rightarrow>
          if rr_state r \<noteq> Reserved then (err invalidReceipt, receipts)
          else (ok (), map_set k (finalized_record i r) receipts))"

definition readReceipt :: "receipt_lookup \<Rightarrow> receipt_map \<Rightarrow> receipt_record option" where
  "readReceipt l receipts = map_get receipts (receiptKey l)"

section \<open>Receipt keys are unambiguous\<close>

lemma receiptKey_inj:
  assumes "receiptKey i = receiptKey j"
  shows "i = j"
proof -
  have piece: "s = t \<and> r = r'" if "json_quote s @ c # r = json_quote t @ c # r'" for s t c r r'
    using json_quote_unique[OF that] by simp
  let ?rest3 = "\<lambda>l. json_quote (lk_idempotencyKey l) @ CHR '']'' # []"
  let ?rest2 = "\<lambda>l. json_quote (lk_commandName l) @ CHR '','' # ?rest3 l"
  let ?rest1 = "\<lambda>l. json_quote (lk_workspaceId l) @ CHR '','' # ?rest2 l"
  have "json_quote (lk_organizationId i) @ CHR '','' # ?rest1 i = json_quote (lk_organizationId j) @ CHR '','' # ?rest1 j"
    using assms by (simp add: receiptKey_def)
  from piece[OF this] have ho: "lk_organizationId i = lk_organizationId j" and "?rest1 i = ?rest1 j" by blast+
  from piece[OF this(2)] have w: "lk_workspaceId i = lk_workspaceId j" and "?rest2 i = ?rest2 j" by blast+
  from piece[OF this(2)] have c: "lk_commandName i = lk_commandName j" and "?rest3 i = ?rest3 j" by blast+
  from piece[OF this(2)] have "lk_idempotencyKey i = lk_idempotencyKey j" by blast
  with ho w c show ?thesis by (cases i; cases j) simp
qed

section \<open>Invariant and frame\<close>

definition record_lookup :: "receipt_record \<Rightarrow> receipt_lookup" where
  "record_lookup r = \<lparr>lk_organizationId = rk_organizationId r, lk_workspaceId = rk_workspaceId r,
     lk_commandName = rk_commandName r, lk_idempotencyKey = rk_idempotencyKey r\<rparr>"

definition receipts_wf :: "receipt_map \<Rightarrow> bool" where
  "receipts_wf m \<longleftrightarrow> keys_distinct m \<and> (\<forall>(k, r) \<in> set m. k = receiptKey (record_lookup r))"

definition all_terminal :: "receipt_map \<Rightarrow> bool" where
  "all_terminal m \<longleftrightarrow> (\<forall>(k, r) \<in> set m. rr_state r \<noteq> Reserved)"

definition receipts_advance :: "receipt_map \<Rightarrow> receipt_map \<Rightarrow> bool" where
  "receipts_advance m m' \<longleftrightarrow> (receipts_wf m \<longrightarrow> receipts_wf m' \<and>
     (\<forall>k r. map_get m k = Some r \<longrightarrow>
        (\<exists>r'. map_get m' k = Some r' \<and> rk_requestHash r' = rk_requestHash r \<and> rr_commandId r' = rr_commandId r \<and>
              (rr_state r \<noteq> Reserved \<longrightarrow> r' = r))))"

lemma receipts_advance_refl [simp]: "receipts_advance m m"
  by (auto simp: receipts_advance_def)

lemma receipts_advance_trans: "receipts_advance a b \<Longrightarrow> receipts_advance b c \<Longrightarrow> receipts_advance a c"
  unfolding receipts_advance_def by metis

lemma receipts_wf_lookup:
  "receipts_wf m \<Longrightarrow> map_get m k = Some r \<Longrightarrow> k = receiptKey (record_lookup r)"
  by (auto simp: receipts_wf_def dest: map_of_SomeD)

lemma receipts_wf_set:
  "receipts_wf m \<Longrightarrow> k = receiptKey (record_lookup r) \<Longrightarrow> receipts_wf (map_set k r m)"
  by (auto simp: receipts_wf_def map_set_mem_iff split: if_splits)

lemma record_lookup_reserved [simp]: "record_lookup (reserved_record e) = envelope_lookup e"
  by (simp add: record_lookup_def reserved_record_def envelope_lookup_def)

lemma record_lookup_finalized [simp]: "record_lookup (finalized_record i r) = record_lookup r"
  by (simp add: record_lookup_def finalized_record_def)

lemma reserve_advances: "receipts_advance m (snd (reserveOrReplay e m))"
proof (cases "map_get m (receiptKey (envelope_lookup e))")
  case None
  then show ?thesis by (auto simp: reserveOrReplay_def Let_def receipts_advance_def receipts_wf_set)
next
  case (Some r)
  then show ?thesis by (simp add: reserveOrReplay_def Let_def)
qed

lemma finalize_cases:
  obtains (invalid) "finalizeTransaction i m = (err invalidReceipt, m)"
  | (terminal) k r where "finalizeTransaction i m = (ok (), map_set k (finalized_record i r) m)"
      "(k, r) \<in> set m" "rr_state r = Reserved" "rk_organizationId r = fi_organizationId i" "rr_commandId r = fi_commandId i"
      "find (\<lambda>(k, r). rk_organizationId r = fi_organizationId i \<and> rr_commandId r = fi_commandId i) m = Some (k, r)"
proof (cases "find (\<lambda>(k, r). rk_organizationId r = fi_organizationId i \<and> rr_commandId r = fi_commandId i) m")
  case None
  then show ?thesis using invalid by (simp add: finalizeTransaction_def)
next
  case (Some p)
  obtain k r where p: "p = (k, r)" by (cases p)
  show ?thesis
  proof (cases "rr_state r = Reserved")
    case True
    moreover have "(k, r) \<in> set m" "rk_organizationId r = fi_organizationId i" "rr_commandId r = fi_commandId i"
      using Some p by (auto simp: find_Some_iff dest: nth_mem)
    ultimately show ?thesis using Some p terminal[of k r] by (simp add: finalizeTransaction_def)
  next
    case False
    then show ?thesis using Some p invalid by (simp add: finalizeTransaction_def)
  qed
qed

lemma finalize_advances: "receipts_advance m (snd (finalizeTransaction i m))"
proof (cases i m rule: finalize_cases)
  case invalid
  then show ?thesis by simp
next
  case (terminal k r)
  show ?thesis unfolding receipts_advance_def
  proof (intro impI conjI allI)
    assume wf: "receipts_wf m"
    then have g: "map_get m k = Some r" using terminal(2) by (simp add: receipts_wf_def)
    then show "receipts_wf (snd (finalizeTransaction i m))"
      using terminal(1) wf receipts_wf_lookup[OF wf g] by (simp add: receipts_wf_set)
    fix k' r' assume "map_get m k' = Some r'"
    with g terminal(1,3) show "\<exists>r''. map_get (snd (finalizeTransaction i m)) k' = Some r'' \<and>
        rk_requestHash r'' = rk_requestHash r' \<and> rr_commandId r'' = rr_commandId r' \<and> (rr_state r' \<noteq> Reserved \<longrightarrow> r'' = r')"
      by (cases "k' = k") (auto simp: finalized_record_def)
  qed
qed

section \<open>Reserving and finalizing one command\<close>

lemma update_append_fresh: "map_get m k = None \<Longrightarrow> map_set k v (m @ [(k, u)]) = m @ [(k, v)]"
  by (induction m) (auto split: if_splits)

lemma reserve_existing:
  assumes "map_get m (receiptKey (envelope_lookup e)) = Some r" "rk_requestHash r = env_requestHash e"
  shows "reserveOrReplay e m = (ok (receiptResult r), m)"
  using assms by (simp add: reserveOrReplay_def Let_def)

lemma reserve_conflict:
  assumes "map_get m (receiptKey (envelope_lookup e)) = Some r" "rk_requestHash r \<noteq> env_requestHash e"
  shows "reserveOrReplay e m = (err idempotencyConflict, m)"
  using assms by (simp add: reserveOrReplay_def Let_def)

text \<open>
  When every receipt is terminal, finalizing right after a fresh reservation either fails or makes
  exactly the reserved receipt terminal.
\<close>

lemma finalize_reserved:
  assumes "receipts_wf m" "all_terminal m" "map_get m (receiptKey (envelope_lookup e)) = None"
    and res: "m1 = map_set (receiptKey (envelope_lookup e)) (reserved_record e) m"
    and "fi_organizationId i = env_organizationId e" "fi_commandId i = env_commandId e" "fi_outcome i \<noteq> Reserved"
    and fin: "finalizeTransaction i m1 = (ok u, m2)"
  shows "map_get m2 (receiptKey (envelope_lookup e)) = Some (finalized_record i (reserved_record e)) \<and> all_terminal m2 \<and>
    (\<forall>k. k \<noteq> receiptKey (envelope_lookup e) \<longrightarrow> map_get m2 k = map_get m k)"
proof (cases i m1 rule: finalize_cases)
  case invalid
  with fin show ?thesis by simp
next
  case (terminal k r)
  let ?k = "receiptKey (envelope_lookup e)"
  have m1: "m1 = m @ [(?k, reserved_record e)]" using res assms(3) by (simp add: map_set_fresh)
  have "(k, r) = (?k, reserved_record e)" using terminal(2,3) assms(2) m1 by (auto simp: all_terminal_def)
  moreover have "m2 = map_set k (finalized_record i r) m1" using fin terminal(1) by simp
  ultimately have m2: "m2 = m @ [(?k, finalized_record i (reserved_record e))]"
    using m1 assms(3) by (simp add: update_append_fresh)
  have "rr_state (finalized_record i (reserved_record e)) \<noteq> Reserved" using assms(7) by (simp add: finalized_record_def)
  with assms(2) m2 have "all_terminal m2" by (auto simp: all_terminal_def)
  moreover have "map_get m2 k = (if k = ?k then Some (finalized_record i (reserved_record e)) else map_get m k)" for k
    using m2 assms(3) by (auto simp: map_add_def split: option.splits)
  ultimately show ?thesis by simp
qed

end
