(* ===== verification/Ledger.thy ===== *)
theory Ledger
  imports Planning_Domain
begin

text \<open>
  The append-only ledgers of the Dev Board: planning decision entries and activity events
  (\<^verbatim>\<open>adapters/in-memory-dev-board-ledger-append-store.ts\<close>). Both number their rows per workspace;
  the numbers of a workspace are 1, 2, 3, \<open>\<dots>\<close> in the order of appending.
\<close>

record planning_entry =
  pe_organizationId :: string
  pe_workspaceId :: string
  pe_commandId :: string
  pe_aggregateId :: string
  pe_entryKind :: string
  pe_subject :: string
  pe_contentHash :: string
  pe_content :: js_object
  pe_entrySequence :: int

record activity_event =
  ae_organizationId :: string
  ae_workspaceId :: string
  ae_aggregateId :: string
  ae_aggregateVersion :: int
  ae_eventName :: string
  ae_commandId :: string
  ae_idempotencyKey :: string
  ae_actor :: js_value
  ae_sourceKind :: string
  ae_sourceRef :: string
  ae_authorizationVersion :: int
  ae_correlationId :: string
  ae_causationId :: "string option"
  ae_occurredAt :: js_date
  ae_payload :: js_object
  ae_eventSequence :: int

record ledger =
  planningDecisionEntries :: "planning_entry list"
  activityEvents :: "activity_event list"

definition empty_ledger :: ledger where
  "empty_ledger = \<lparr>planningDecisionEntries = [], activityEvents = []\<rparr>"

text \<open>\<^verbatim>\<open>Math.max(0, ...numbers) + 1\<close>.\<close>

definition next_sequence :: "int list \<Rightarrow> int" where
  "next_sequence ns = foldr max ns 0 + 1"

text \<open>The input of an append is a row whose sequence number is still to be filled in.\<close>

definition appendPlanningDecisionEntry :: "planning_entry \<Rightarrow> ledger \<Rightarrow> int result \<times> ledger" where
  "appendPlanningDecisionEntry input l =
     (let n = next_sequence (map pe_entrySequence
                (filter (\<lambda>entry. pe_workspaceId entry = pe_workspaceId input) (planningDecisionEntries l)))
      in (ok n, l\<lparr>planningDecisionEntries := planningDecisionEntries l @ [input\<lparr>pe_entrySequence := n\<rparr>]\<rparr>))"

definition appendActivityEvent :: "activity_event \<Rightarrow> ledger \<Rightarrow> int result \<times> ledger" where
  "appendActivityEvent input l =
     (let n = next_sequence (map ae_eventSequence
                (filter (\<lambda>event. ae_workspaceId event = ae_workspaceId input) (activityEvents l)))
      in (ok n, l\<lparr>activityEvents := activityEvents l @ [input\<lparr>ae_eventSequence := n\<rparr>]\<rparr>))"

section \<open>The contract of an append-only ledger\<close>

locale append_ledger =
  fixes rows :: "'l \<Rightarrow> 'e list"
    and workspace :: "'e \<Rightarrow> string"
    and sequence :: "'e \<Rightarrow> int"
    and append :: "'e \<Rightarrow> 'l \<Rightarrow> int result \<times> 'l"
  assumes append_rows: "append e l = (r, l') \<Longrightarrow>
      \<exists>e'. rows l' = rows l @ [e'] \<and> workspace e' = workspace e \<and> r = ok (sequence e') \<and>
        sequence e' = next_sequence (map sequence (filter (\<lambda>x. workspace x = workspace e) (rows l)))"
begin

definition numbers :: "'l \<Rightarrow> string \<Rightarrow> int list" where
  "numbers l ws = map sequence (filter (\<lambda>x. workspace x = ws) (rows l))"

definition gap_free :: "'l \<Rightarrow> bool" where
  "gap_free l \<longleftrightarrow> (\<forall>ws. numbers l ws = map int [1..<Suc (length (numbers l ws))])"

lemma gap_free_cong: "rows l' = rows l \<Longrightarrow> gap_free l' = gap_free l"
  by (simp only: gap_free_def numbers_def)

lemma append_gap_free:
  assumes "gap_free l" "append e l = (r, l')"
  shows "gap_free l' \<and> r = ok (int (length (numbers l (workspace e))) + 1)"
proof -
  have max: "foldr max (map int [1..<Suc n]) 0 = int n" for n
  proof (induction n)
    case (Suc n)
    have "foldr max (map int xs) b = max b (foldr max (map int xs) 0)" if "0 \<le> b" for xs b
      using that by (induction xs) auto
    from this[of "int (Suc n)" "[1..<Suc n]"] Suc show ?case by simp
  qed simp
  obtain e' where e': "rows l' = rows l @ [e']" "workspace e' = workspace e" "r = ok (sequence e')"
      "sequence e' = next_sequence (numbers l (workspace e))"
    using append_rows[OF assms(2)] by (auto simp: numbers_def)
  have n: "sequence e' = int (length (numbers l (workspace e))) + 1"
    using assms(1) max[of "length (numbers l (workspace e))"] e'(4)
    unfolding gap_free_def next_sequence_def by metis
  have "numbers l' ws = (if ws = workspace e then numbers l ws @ [sequence e'] else numbers l ws)" for ws
    using e'(1,2) by (simp add: numbers_def)
  with assms(1) n have "gap_free l'" by (auto simp: gap_free_def)
  with e'(3) n show ?thesis by simp
qed

lemma append_keeps_prefix:
  assumes "append e l = (r, l')"
  obtains e' where "rows l' = rows l @ [e']"
  using append_rows[OF assms] by blast

end

interpretation planning_ledger: append_ledger planningDecisionEntries pe_workspaceId pe_entrySequence appendPlanningDecisionEntry
  by unfold_locales (auto simp: appendPlanningDecisionEntry_def Let_def)

interpretation activity_ledger: append_ledger activityEvents ae_workspaceId ae_eventSequence appendActivityEvent
  by unfold_locales (auto simp: appendActivityEvent_def Let_def)

text \<open>The numbers of one workspace, and a ledger all of whose workspaces are numbered without gaps.\<close>

definition entry_numbers :: "ledger \<Rightarrow> string \<Rightarrow> int list" where
  "entry_numbers l ws = map pe_entrySequence (filter (\<lambda>e. pe_workspaceId e = ws) (planningDecisionEntries l))"

definition event_numbers :: "ledger \<Rightarrow> string \<Rightarrow> int list" where
  "event_numbers l ws = map ae_eventSequence (filter (\<lambda>e. ae_workspaceId e = ws) (activityEvents l))"

definition ledger_wf :: "ledger \<Rightarrow> bool" where
  "ledger_wf l \<longleftrightarrow>
     (\<forall>ws. entry_numbers l ws = map int [1..<Suc (length (entry_numbers l ws))] \<and>
           event_numbers l ws = map int [1..<Suc (length (event_numbers l ws))])"

lemma ledger_wf_gap_free: "ledger_wf l \<longleftrightarrow> planning_ledger.gap_free l \<and> activity_ledger.gap_free l"
  by (auto simp: ledger_wf_def planning_ledger.gap_free_def activity_ledger.gap_free_def
      planning_ledger.numbers_def activity_ledger.numbers_def entry_numbers_def event_numbers_def)

definition ledger_extends :: "ledger \<Rightarrow> ledger \<Rightarrow> bool" where
  "ledger_extends l l' \<longleftrightarrow>
     (\<exists>ps. planningDecisionEntries l' = planningDecisionEntries l @ ps) \<and>
     (\<exists>as. activityEvents l' = activityEvents l @ as) \<and> (ledger_wf l \<longrightarrow> ledger_wf l')"

lemma ledger_extends_refl [simp]: "ledger_extends l l"
  by (simp add: ledger_extends_def)

lemma ledger_extends_trans: "ledger_extends a b \<Longrightarrow> ledger_extends b c \<Longrightarrow> ledger_extends a c"
  by (auto simp: ledger_extends_def)

lemma planning_extends: "ledger_extends l (snd (appendPlanningDecisionEntry e l))"
proof -
  obtain r l' where a: "appendPlanningDecisionEntry e l = (r, l')" by force
  then have "activityEvents l' = activityEvents l" "\<exists>ps. planningDecisionEntries l' = planningDecisionEntries l @ ps"
    by (auto simp: appendPlanningDecisionEntry_def Let_def)
  moreover have "ledger_wf l \<Longrightarrow> ledger_wf l'"
    using planning_ledger.append_gap_free[OF _ a] activity_ledger.gap_free_cong[OF calculation(1)]
    by (simp add: ledger_wf_gap_free)
  ultimately show ?thesis using a by (simp add: ledger_extends_def)
qed

lemma activity_extends: "ledger_extends l (snd (appendActivityEvent e l))"
proof -
  obtain r l' where a: "appendActivityEvent e l = (r, l')" by force
  then have "planningDecisionEntries l' = planningDecisionEntries l" "\<exists>as. activityEvents l' = activityEvents l @ as"
    by (auto simp: appendActivityEvent_def Let_def)
  moreover have "ledger_wf l \<Longrightarrow> ledger_wf l'"
    using activity_ledger.append_gap_free[OF _ a] planning_ledger.gap_free_cong[OF calculation(1)]
    by (simp add: ledger_wf_gap_free)
  ultimately show ?thesis using a by (simp add: ledger_extends_def)
qed

end
