(* ===== verification/Planning_Store.thy ===== *)
theory Planning_Store
  imports Planning_Domain
begin

text \<open>
  The planning store: the rows of \<^verbatim>\<open>dev-board-planning-store.ts\<close> and the in-memory implementation
  of the store port (\<^verbatim>\<open>adapters/in-memory-dev-board-planning-store.ts\<close>), one definition per method.
  A method that only reads takes the store; a method that writes returns its result and the new
  store; a method that can throw is a \<open>step\<close>. Every optimistic update of the store is shown to be a
  compare-and-swap on the row version (locale \<open>versioned_row\<close>).
\<close>

section \<open>Rows\<close>

record proposal_row =
  p_id :: string
  p_organizationId :: string
  p_workspaceId :: string
  p_version :: int
  p_lifecycleState :: proposal_state
  p_archivedAt :: "js_date option"
  p_archivedByUserId :: "string option"
  p_archivedReason :: "string option"
  p_discoverySummary :: string
  p_blockingAssessment :: blocking_assessment
  p_suggestedContract :: js_object
  p_createdCommandId :: string
  p_acceptedCommandId :: "string option"
  p_acceptedDevTicketId :: "string option"

record dev_ticket_row =
  t_id :: string
  t_organizationId :: string
  t_workspaceId :: string
  t_version :: int
  t_originKind :: origin_kind
  t_sourceProposalId :: "string option"
  t_lane :: lane
  t_archivedAt :: "js_date option"
  t_archivedByUserId :: "string option"
  t_archivedReason :: "string option"
  t_lastActiveLane :: "lane option"
  t_humanOwnerUserId :: string
  t_devTicketType :: "dev_ticket_type option"
  t_workAreas :: "work_area list"
  t_priority :: "priority option"
  t_severity :: "severity option"
  t_declaredChangeRisk :: "change_risk option"
  t_minimumChangeRisk :: "change_risk option"
  t_changeRiskPolicyVersion :: "string option"
  t_changeRiskPolicyHash :: "string option"
  t_readyContractVersion :: int
  t_readyContractContent :: js_object
  t_readyContractContentHash :: string
  t_readyState :: ready_state
  t_readyApprovalContractVersion :: "int option"
  t_readyApprovalContentHash :: "string option"
  t_readyApprovedByUserId :: "string option"
  t_readyApprovalCommandId :: "string option"
  t_createdCommandId :: string

datatype completion_gate = LegacyUnverified | ReconciledHistorical

datatype source_disposition = PromotedBacklog | QuarantinedNoOwner | HistoricalCandidate

record historical_row =
  h_historicalRecordId :: string
  h_organizationId :: string
  h_workspaceId :: string
  h_sourceTableRowIdentity :: string
  h_completionGate :: "completion_gate option"
  h_sourceDisposition :: source_disposition
  h_sourceEpoch :: "string option"
  h_sourceRecordedAt :: js_date
  h_sourceUpdatedAt :: js_date
  h_importedAt :: js_date
  h_preservedPayloadDigest :: string
  h_evidenceRefs :: "js_object list"
  h_promotionCommandId :: "string option"
  h_version :: int

record legacy_alias_row =
  a_organizationId :: string
  a_workspaceId :: string
  a_legacyTaskId :: string
  a_legacyCardNumber :: int
  a_devTicketId :: "string option"
  a_historicalRecordId :: string
  a_createdCommandId :: string

record legacy_task_source =
  l_id :: string
  l_organizationId :: string
  l_workspaceId :: string
  l_status :: string
  l_assigneeUserId :: "string option"
  l_cardNumber :: int
  l_createdAt :: js_date
  l_updatedAt :: js_date
  l_row :: js_object
  l_evidenceRefs :: "js_object list"

record lane_queue_header =
  q_organizationId :: string
  q_workspaceId :: string
  q_version :: int

record todo_membership =
  m_devTicketId :: string
  m_rank :: int

datatype edge_state = Active | Retired

record dependency_edge =
  e_id :: string
  e_organizationId :: string
  e_workspaceId :: string
  e_version :: int
  e_dependentDevTicketId :: string
  e_blockerDevTicketId :: string
  e_lifecycleState :: edge_state
  e_createdCommandId :: string
  e_retiredCommandId :: "string option"

record lock_status =
  ls_locked :: bool
  ls_blockers :: "(string \<times> bool) list"

section \<open>Inputs of the writing methods\<close>

record insert_proposal_input =
  ip_id :: string
  ip_organizationId :: string
  ip_workspaceId :: string
  ip_discoverySummary :: string
  ip_blockingAssessment :: blocking_assessment
  ip_suggestedContract :: js_object
  ip_createdCommandId :: string

text \<open>In the optional fields \<open>None\<close> is \<^verbatim>\<open>undefined\<close> (keep) and \<open>Some None\<close> is \<^verbatim>\<open>null\<close> (clear).\<close>

record update_proposal_input =
  up_organizationId :: string
  up_workspaceId :: string
  up_proposalId :: string
  up_expectedVersion :: int
  up_lifecycleState :: proposal_state
  up_acceptedCommandId :: "string option"
  up_acceptedDevTicketId :: "string option"
  up_archivedAt :: "js_date option option"
  up_archivedByUserId :: "string option option"
  up_archivedReason :: "string option option"

record archive_ticket_input =
  at_organizationId :: string
  at_workspaceId :: string
  at_devTicketId :: string
  at_expectedVersion :: int
  at_archivedByUserId :: string
  at_archivedReason :: string

record ticket_target_input =
  tt_organizationId :: string
  tt_workspaceId :: string
  tt_devTicketId :: string
  tt_expectedVersion :: int

record insert_ticket_input =
  it_id :: string
  it_organizationId :: string
  it_workspaceId :: string
  it_originKind :: origin_kind
  it_sourceProposalId :: "string option"
  it_humanOwnerUserId :: string
  it_readyContractContent :: js_object
  it_readyContractContentHash :: string
  it_createdCommandId :: string

record insert_historical_input =
  ih_id :: string
  ih_organizationId :: string
  ih_workspaceId :: string
  ih_sourceTableRowIdentity :: string
  ih_completionGate :: "completion_gate option"
  ih_sourceDisposition :: source_disposition
  ih_sourceEpoch :: "string option"
  ih_sourceRecordedAt :: js_date
  ih_sourceUpdatedAt :: js_date
  ih_preservedPayloadDigest :: string
  ih_evidenceRefs :: "js_object list"
  ih_promotionCommandId :: "string option"

record resolve_historical_input =
  rh_organizationId :: string
  rh_workspaceId :: string
  rh_historicalRecordId :: string
  rh_expectedVersion :: int
  rh_sourceDisposition :: source_disposition
  rh_completionGate :: "completion_gate option"
  rh_promotionCommandId :: "string option"
  rh_devTicketId :: "string option"

record reconcile_historical_input =
  rc_organizationId :: string
  rc_workspaceId :: string
  rc_historicalRecordId :: string
  rc_expectedVersion :: int

record ready_approval_input =
  ra_organizationId :: string
  ra_workspaceId :: string
  ra_devTicketId :: string
  ra_expectedVersion :: int
  ra_readyContractVersion :: int
  ra_readyContractContent :: js_object
  ra_readyContractContentHash :: string
  ra_readyApprovedByUserId :: string
  ra_readyApprovalCommandId :: string

record classification_input =
  cl_organizationId :: string
  cl_workspaceId :: string
  cl_devTicketId :: string
  cl_expectedVersion :: int
  cl_humanOwnerUserId :: string
  cl_devTicketType :: dev_ticket_type
  cl_workAreas :: "work_area list"
  cl_priority :: priority
  cl_severity :: "severity option"
  cl_declaredChangeRisk :: change_risk
  cl_minimumChangeRisk :: change_risk
  cl_changeRiskPolicyVersion :: string
  cl_changeRiskPolicyHash :: string
  cl_readyContractContent :: js_object
  cl_readyContractContentHash :: string

record insert_edge_input =
  ie_id :: string
  ie_organizationId :: string
  ie_workspaceId :: string
  ie_dependentDevTicketId :: string
  ie_blockerDevTicketId :: string
  ie_createdCommandId :: string

record retire_edge_input =
  re_organizationId :: string
  re_workspaceId :: string
  re_edgeId :: string
  re_expectedVersion :: int
  re_retiredCommandId :: string

section \<open>The store\<close>

record planning_store =
  proposals :: "(string, proposal_row) js_map"
  devTickets :: "(string, dev_ticket_row) js_map"
  dependencyEdges :: "(string, dependency_edge) js_map"
  todoQueueHeaders :: "(string, lane_queue_header) js_map"
  todoQueueMemberships :: "(string, todo_membership) js_map"
  legacyTaskSources :: "(string, legacy_task_source) js_map"
  legacyTaskAliases :: "(string, legacy_alias_row) js_map"
  historicalRecords :: "(string, historical_row) js_map"
  activeMembers :: "string set"
  organizationRoles :: "string set"

definition empty_store :: planning_store where
  "empty_store = \<lparr>proposals = [], devTickets = [], dependencyEdges = [], todoQueueHeaders = [],
     todoQueueMemberships = [], legacyTaskSources = [], legacyTaskAliases = [], historicalRecords = [],
     activeMembers = {}, organizationRoles = {}\<rparr>"

definition key :: "string \<Rightarrow> string \<Rightarrow> string \<Rightarrow> string" where
  "key organizationId workspaceId i = organizationId @ '':'' @ workspaceId @ '':'' @ i"

datatype role_key = OwnerRole | AdminRole

primrec show_role_key :: "role_key \<Rightarrow> string" where
  "show_role_key OwnerRole = ''owner''"
| "show_role_key AdminRole = ''admin''"

definition grantActiveMembership :: "string \<Rightarrow> string \<Rightarrow> planning_store \<Rightarrow> planning_store" where
  "grantActiveMembership org user st = st\<lparr>activeMembers := insert (org @ '':'' @ user) (activeMembers st)\<rparr>"

definition grantOrganizationRole :: "string \<Rightarrow> string \<Rightarrow> role_key \<Rightarrow> planning_store \<Rightarrow> planning_store" where
  "grantOrganizationRole org user role st =
     st\<lparr>organizationRoles := insert (org @ '':'' @ user @ '':'' @ show_role_key role) (organizationRoles st)\<rparr>"

text \<open>
  A mutation behind a savepoint: a throw restores the eight maps; the two constraint SQLSTATEs become
  domain errors, any other error is thrown on.
\<close>

definition restore_maps :: "planning_store \<Rightarrow> planning_store \<Rightarrow> planning_store" where
  "restore_maps saved st = st\<lparr>proposals := proposals saved, devTickets := devTickets saved,
     dependencyEdges := dependencyEdges saved, todoQueueHeaders := todoQueueHeaders saved,
     todoQueueMemberships := todoQueueMemberships saved, legacyTaskSources := legacyTaskSources saved,
     legacyTaskAliases := legacyTaskAliases saved, historicalRecords := historicalRecords saved\<rparr>"

definition executeRiskyMutation :: "(planning_store, 'a) step \<Rightarrow> (planning_store, 'a result) step" where
  "executeRiskyMutation mutation st =
     (case mutation st of
        (Returned x, st') \<Rightarrow> (Returned (ok x), st')
      | (Thrown er, st') \<Rightarrow>
          (case er of
             SqlState c \<Rightarrow>
               if c = ''23503'' then
                 (Returned (err (failure ''dev_board.constraint_reference_invalid''
                    ''A referenced Dev Board record is not valid.'')), restore_maps st st')
               else if c = ''23505'' then
                 (Returned (err (failure ''dev_board.constraint_conflict''
                    ''A Dev Board record with this identity already exists.'')), restore_maps st st')
               else (Thrown er, restore_maps st st')
           | _ \<Rightarrow> (Thrown er, restore_maps st st')))"

subsection \<open>Proposals\<close>

definition selectProposalForUpdate :: "planning_store \<Rightarrow> string \<Rightarrow> string \<Rightarrow> string \<Rightarrow> proposal_row option" where
  "selectProposalForUpdate st org ws pid = map_get (proposals st) (key org ws pid)"

definition insertProposal :: "insert_proposal_input \<Rightarrow> (planning_store, proposal_row) step" where
  "insertProposal i st =
     (let k = key (ip_organizationId i) (ip_workspaceId i) (ip_id i) in
      if map_get (proposals st) k \<noteq> None then (Thrown (SqlState ''23505''), st)
      else let row = \<lparr>p_id = ip_id i, p_organizationId = ip_organizationId i, p_workspaceId = ip_workspaceId i,
                 p_version = 1, p_lifecycleState = ProposalDraft, p_archivedAt = None, p_archivedByUserId = None,
                 p_archivedReason = None, p_discoverySummary = ip_discoverySummary i,
                 p_blockingAssessment = ip_blockingAssessment i, p_suggestedContract = ip_suggestedContract i,
                 p_createdCommandId = ip_createdCommandId i, p_acceptedCommandId = None,
                 p_acceptedDevTicketId = None\<rparr>
           in (Returned row, st\<lparr>proposals := map_set k row (proposals st)\<rparr>))"

definition overlay :: "'a option \<Rightarrow> 'a \<Rightarrow> 'a" where
  "overlay new old = (case new of None \<Rightarrow> old | Some v \<Rightarrow> v)"

definition updateProposal :: "update_proposal_input \<Rightarrow> planning_store \<Rightarrow> proposal_row option \<times> planning_store" where
  "updateProposal i st =
     (let k = key (up_organizationId i) (up_workspaceId i) (up_proposalId i) in
      case map_get (proposals st) k of
        None \<Rightarrow> (None, st)
      | Some current \<Rightarrow>
          if p_version current \<noteq> up_expectedVersion i then (None, st)
          else let row = current\<lparr>p_lifecycleState := up_lifecycleState i, p_acceptedCommandId := up_acceptedCommandId i,
                     p_acceptedDevTicketId := up_acceptedDevTicketId i,
                     p_archivedAt := overlay (up_archivedAt i) (p_archivedAt current),
                     p_archivedByUserId := overlay (up_archivedByUserId i) (p_archivedByUserId current),
                     p_archivedReason := overlay (up_archivedReason i) (p_archivedReason current),
                     p_version := p_version current + 1\<rparr>
               in (Some row, st\<lparr>proposals := map_set k row (proposals st)\<rparr>))"

subsection \<open>DevTickets\<close>

definition selectDevTicketForUpdate :: "planning_store \<Rightarrow> string \<Rightarrow> string \<Rightarrow> string \<Rightarrow> dev_ticket_row option" where
  "selectDevTicketForUpdate st org ws tid = map_get (devTickets st) (key org ws tid)"

definition selectDevTicket :: "planning_store \<Rightarrow> string \<Rightarrow> string \<Rightarrow> string \<Rightarrow> dev_ticket_row option" where
  "selectDevTicket st org ws tid = map_get (devTickets st) (key org ws tid)"

definition insertDevTicket :: "insert_ticket_input \<Rightarrow> (planning_store, dev_ticket_row) step" where
  "insertDevTicket i st =
     (let k = key (it_organizationId i) (it_workspaceId i) (it_id i) in
      if map_get (devTickets st) k \<noteq> None \<or>
         (it_sourceProposalId i \<noteq> None \<and>
          list_ex (\<lambda>row. t_organizationId row = it_organizationId i \<and> t_sourceProposalId row = it_sourceProposalId i)
            (map_values (devTickets st)))
      then (Thrown (SqlState ''23505''), st)
      else let row = \<lparr>t_id = it_id i, t_organizationId = it_organizationId i, t_workspaceId = it_workspaceId i,
                 t_version = 1, t_originKind = it_originKind i, t_sourceProposalId = it_sourceProposalId i,
                 t_lane = Backlog, t_archivedAt = None, t_archivedByUserId = None, t_archivedReason = None,
                 t_lastActiveLane = None, t_humanOwnerUserId = it_humanOwnerUserId i, t_devTicketType = None,
                 t_workAreas = [], t_priority = None, t_severity = None, t_declaredChangeRisk = None,
                 t_minimumChangeRisk = None, t_changeRiskPolicyVersion = None, t_changeRiskPolicyHash = None,
                 t_readyContractVersion = 1, t_readyContractContent = it_readyContractContent i,
                 t_readyContractContentHash = it_readyContractContentHash i, t_readyState = Draft,
                 t_readyApprovalContractVersion = None, t_readyApprovalContentHash = None,
                 t_readyApprovedByUserId = None, t_readyApprovalCommandId = None,
                 t_createdCommandId = it_createdCommandId i\<rparr>
           in (Returned row, st\<lparr>devTickets := map_set k row (devTickets st)\<rparr>))"

text \<open>The shared shape of the ticket updates: look up, test a guard, store the changed row.\<close>

definition updateTicketWhen ::
  "string \<Rightarrow> (dev_ticket_row \<Rightarrow> bool) \<Rightarrow> (dev_ticket_row \<Rightarrow> dev_ticket_row) \<Rightarrow> planning_store \<Rightarrow> dev_ticket_row option \<times> planning_store" where
  "updateTicketWhen k guard f st =
     (case map_get (devTickets st) k of
        None \<Rightarrow> (None, st)
      | Some current \<Rightarrow>
          if \<not> guard current then (None, st)
          else (Some (f current), st\<lparr>devTickets := map_set k (f current) (devTickets st)\<rparr>))"

definition clear_ready :: "dev_ticket_row \<Rightarrow> dev_ticket_row" where
  "clear_ready t = t\<lparr>t_lane := Backlog, t_readyState := Draft, t_readyApprovalContractVersion := None,
     t_readyApprovalContentHash := None, t_readyApprovedByUserId := None, t_readyApprovalCommandId := None\<rparr>"

definition ready_approved_row :: "ready_approval_input \<Rightarrow> dev_ticket_row \<Rightarrow> dev_ticket_row" where
  "ready_approved_row i t = t\<lparr>t_version := t_version t + 1, t_lane := Todo,
     t_readyContractVersion := ra_readyContractVersion i, t_readyContractContent := ra_readyContractContent i,
     t_readyContractContentHash := ra_readyContractContentHash i, t_readyState := Approved,
     t_readyApprovalContractVersion := Some (ra_readyContractVersion i),
     t_readyApprovalContentHash := Some (ra_readyContractContentHash i),
     t_readyApprovedByUserId := Some (ra_readyApprovedByUserId i),
     t_readyApprovalCommandId := Some (ra_readyApprovalCommandId i)\<rparr>"

definition updateDevTicketForReadyApproval ::
  "ready_approval_input \<Rightarrow> planning_store \<Rightarrow> dev_ticket_row option \<times> planning_store" where
  "updateDevTicketForReadyApproval i =
     updateTicketWhen (key (ra_organizationId i) (ra_workspaceId i) (ra_devTicketId i))
       (\<lambda>t. t_version t = ra_expectedVersion i) (ready_approved_row i)"

definition classified_row :: "classification_input \<Rightarrow> dev_ticket_row \<Rightarrow> dev_ticket_row" where
  "classified_row i t = t\<lparr>t_version := t_version t + 1, t_humanOwnerUserId := cl_humanOwnerUserId i,
     t_devTicketType := Some (cl_devTicketType i), t_workAreas := cl_workAreas i, t_priority := Some (cl_priority i),
     t_severity := cl_severity i, t_declaredChangeRisk := Some (cl_declaredChangeRisk i),
     t_minimumChangeRisk := Some (cl_minimumChangeRisk i),
     t_changeRiskPolicyVersion := Some (cl_changeRiskPolicyVersion i),
     t_changeRiskPolicyHash := Some (cl_changeRiskPolicyHash i),
     t_readyContractVersion := t_readyContractVersion t + 1, t_readyContractContent := cl_readyContractContent i,
     t_readyContractContentHash := cl_readyContractContentHash i\<rparr>"

definition updateDevTicketClassification ::
  "classification_input \<Rightarrow> planning_store \<Rightarrow> dev_ticket_row option \<times> planning_store" where
  "updateDevTicketClassification i =
     updateTicketWhen (key (cl_organizationId i) (cl_workspaceId i) (cl_devTicketId i))
       (\<lambda>t. t_version t = cl_expectedVersion i) (classified_row i)"

definition archived_row :: "js_date \<Rightarrow> archive_ticket_input \<Rightarrow> dev_ticket_row \<Rightarrow> dev_ticket_row" where
  "archived_row now i t = clear_ready (t\<lparr>t_version := t_version t + 1, t_archivedAt := Some now,
     t_archivedByUserId := Some (at_archivedByUserId i), t_archivedReason := Some (at_archivedReason i),
     t_lastActiveLane := Some (t_lane t)\<rparr>)"

definition archiveDevTicket_store ::
  "js_date \<Rightarrow> archive_ticket_input \<Rightarrow> planning_store \<Rightarrow> dev_ticket_row option \<times> planning_store" where
  "archiveDevTicket_store now i =
     updateTicketWhen (key (at_organizationId i) (at_workspaceId i) (at_devTicketId i))
       (\<lambda>t. t_version t = at_expectedVersion i \<and> t_archivedAt t = None) (archived_row now i)"

definition restored_row :: "dev_ticket_row \<Rightarrow> dev_ticket_row" where
  "restored_row t = clear_ready (t\<lparr>t_version := t_version t + 1, t_archivedAt := None, t_archivedByUserId := None,
     t_archivedReason := None\<rparr>)"

definition restoreDevTicket_store ::
  "ticket_target_input \<Rightarrow> planning_store \<Rightarrow> dev_ticket_row option \<times> planning_store" where
  "restoreDevTicket_store i =
     updateTicketWhen (key (tt_organizationId i) (tt_workspaceId i) (tt_devTicketId i))
       (\<lambda>t. t_version t = tt_expectedVersion i \<and> t_archivedAt t \<noteq> None) restored_row"

definition bumpDevTicketVersion ::
  "ticket_target_input \<Rightarrow> planning_store \<Rightarrow> dev_ticket_row option \<times> planning_store" where
  "bumpDevTicketVersion i =
     updateTicketWhen (key (tt_organizationId i) (tt_workspaceId i) (tt_devTicketId i))
       (\<lambda>t. t_version t = tt_expectedVersion i) (\<lambda>t. t\<lparr>t_version := t_version t + 1\<rparr>)"

definition dependency_changed_row :: "dev_ticket_row \<Rightarrow> dev_ticket_row" where
  "dependency_changed_row t =
     (let t' = t\<lparr>t_version := t_version t + 1\<rparr> in if t_lane t = Todo then clear_ready t' else t')"

definition applyDependencyChangeToDependent ::
  "ticket_target_input \<Rightarrow> planning_store \<Rightarrow> dev_ticket_row option \<times> planning_store" where
  "applyDependencyChangeToDependent i =
     updateTicketWhen (key (tt_organizationId i) (tt_workspaceId i) (tt_devTicketId i))
       (\<lambda>t. t_version t = tt_expectedVersion i) dependency_changed_row"

subsection \<open>Membership and roles\<close>

definition isActiveMember :: "planning_store \<Rightarrow> string \<Rightarrow> string \<Rightarrow> bool" where
  "isActiveMember st org user \<longleftrightarrow> org @ '':'' @ user \<in> activeMembers st"

definition hasOrganizationRole :: "planning_store \<Rightarrow> string \<Rightarrow> string \<Rightarrow> role_key \<Rightarrow> bool" where
  "hasOrganizationRole st org user role \<longleftrightarrow> org @ '':'' @ user @ '':'' @ show_role_key role \<in> organizationRoles st"

subsection \<open>Todo queue rows\<close>

definition getOrLockTodoQueueHeader :: "string \<Rightarrow> string \<Rightarrow> planning_store \<Rightarrow> lane_queue_header \<times> planning_store" where
  "getOrLockTodoQueueHeader org ws st =
     (let k = key org ws ''todo'' in
      case map_get (todoQueueHeaders st) k of
        Some current \<Rightarrow> (current, st)
      | None \<Rightarrow>
          let header = \<lparr>q_organizationId = org, q_workspaceId = ws, q_version = 1\<rparr>
          in (header, st\<lparr>todoQueueHeaders := map_set k header (todoQueueHeaders st)\<rparr>))"

definition casBumpTodoQueueVersion ::
  "string \<Rightarrow> string \<Rightarrow> int \<Rightarrow> planning_store \<Rightarrow> lane_queue_header option \<times> planning_store" where
  "casBumpTodoQueueVersion org ws expectedVersion st =
     (let k = key org ws ''todo'' in
      case map_get (todoQueueHeaders st) k of
        None \<Rightarrow> (None, st)
      | Some current \<Rightarrow>
          if q_version current \<noteq> expectedVersion then (None, st)
          else let header = current\<lparr>q_version := q_version current + 1\<rparr>
               in (Some header, st\<lparr>todoQueueHeaders := map_set k header (todoQueueHeaders st)\<rparr>))"

definition todoQueueMembership :: "planning_store \<Rightarrow> string \<Rightarrow> string \<Rightarrow> string \<Rightarrow> todo_membership option" where
  "todoQueueMembership st org ws tid = map_get (todoQueueMemberships st) (key org ws tid)"

definition insertTodoQueueMembership :: "string \<Rightarrow> string \<Rightarrow> string \<Rightarrow> int \<Rightarrow> (planning_store, unit) step" where
  "insertTodoQueueMembership org ws tid rank st =
     (let k = key org ws tid in
      if map_get (todoQueueMemberships st) k \<noteq> None then (Thrown (SqlState ''23505''), st)
      else (Returned (), st\<lparr>todoQueueMemberships :=
              map_set k \<lparr>m_devTicketId = tid, m_rank = rank\<rparr> (todoQueueMemberships st)\<rparr>))"

definition updateTodoQueueMembershipRank :: "string \<Rightarrow> string \<Rightarrow> string \<Rightarrow> int \<Rightarrow> planning_store \<Rightarrow> bool \<times> planning_store" where
  "updateTodoQueueMembershipRank org ws tid rank st =
     (let k = key org ws tid in
      if map_get (todoQueueMemberships st) k = None then (False, st)
      else (True, st\<lparr>todoQueueMemberships :=
              map_set k \<lparr>m_devTicketId = tid, m_rank = rank\<rparr> (todoQueueMemberships st)\<rparr>))"

definition deleteTodoQueueMembership :: "string \<Rightarrow> string \<Rightarrow> string \<Rightarrow> planning_store \<Rightarrow> bool \<times> planning_store" where
  "deleteTodoQueueMembership org ws tid st =
     (let k = key org ws tid in
      (map_get (todoQueueMemberships st) k \<noteq> None,
       st\<lparr>todoQueueMemberships := map_remove k (todoQueueMemberships st)\<rparr>))"

section \<open>Optimistic updates are compare-and-swap\<close>

text \<open>
  The contract that every versioned update of the store keeps: a missing row or another version
  leaves the store alone; a successful update writes exactly the target row and raises its version by
  one.
\<close>

locale versioned_row =
  fixes get :: "'s \<Rightarrow> string \<Rightarrow> 'r option"
    and version :: "'r \<Rightarrow> int"
    and target :: "'i \<Rightarrow> string"
    and expects :: "'i \<Rightarrow> int"
    and cas :: "'i \<Rightarrow> 's \<Rightarrow> 'r option \<times> 's"
  assumes cas_none: "cas i s = (None, s') \<Longrightarrow> s' = s"
    and cas_some: "cas i s = (Some r', s') \<Longrightarrow>
      \<exists>r. get s (target i) = Some r \<and> version r = expects i \<and> version r' = version r + 1 \<and>
          get s' (target i) = Some r' \<and> (\<forall>k. k \<noteq> target i \<longrightarrow> get s' k = get s k)"
begin

lemma cas_stale:
  assumes "\<And>r. get s (target i) = Some r \<Longrightarrow> version r \<noteq> expects i"
  shows "cas i s = (None, s)"
proof (cases "cas i s")
  case (Pair ro s')
  show ?thesis
  proof (cases ro)
    case None
    with Pair show ?thesis using cas_none[of i s s'] by simp
  next
    case (Some r')
    with Pair have "cas i s = (Some r', s')" by simp
    from cas_some[OF this] assms show ?thesis by blast
  qed
qed

text \<open>Of two writers that read the same version, at most one succeeds.\<close>

lemma no_lost_update:
  assumes "cas i s = (Some r, s')" and "target j = target i" and "expects j = expects i"
  shows "cas j s' = (None, s')"
proof (rule cas_stale)
  fix q assume "get s' (target j) = Some q"
  moreover obtain r0 where "version r0 = expects i" "version r = version r0 + 1" "get s' (target i) = Some r"
    using cas_some[OF assms(1)] by blast
  ultimately show "version q \<noteq> expects j" using assms(2,3) by simp
qed

lemma version_never_decreases:
  assumes "cas i s = (ro, s')" and "get s k = Some r"
  obtains r' where "get s' k = Some r'" and "version r \<le> version r'"
    and "ro = None \<or> k \<noteq> target i \<longrightarrow> r' = r"
proof (cases ro)
  case None
  with assms(1) have "s' = s" using cas_none[of i s s'] by simp
  with assms(2) show ?thesis using that[of r] by simp
next
  case (Some r'')
  with assms(1) have "cas i s = (Some r'', s')" by simp
  from cas_some[OF this] obtain r0 where r0: "get s (target i) = Some r0" "version r'' = version r0 + 1"
    "get s' (target i) = Some r''" "\<forall>k. k \<noteq> target i \<longrightarrow> get s' k = get s k" by blast
  show ?thesis
  proof (cases "k = target i")
    case True
    then show ?thesis using that[of r''] r0 assms(2) Some by simp
  next
    case False
    then show ?thesis using that[of r] r0 assms(2) by simp
  qed
qed

end

lemma updateTicketWhen_Some:
  "updateTicketWhen k g f st = (Some r, st') \<longleftrightarrow>
     (\<exists>t. map_get (devTickets st) k = Some t \<and> g t \<and> r = f t \<and> st' = st\<lparr>devTickets := map_set k (f t) (devTickets st)\<rparr>)"
  by (auto simp: updateTicketWhen_def split: option.splits)

lemma updateTicketWhen_None:
  "updateTicketWhen k g f st = (None, st') \<longleftrightarrow>
     st' = st \<and> (\<forall>t. map_get (devTickets st) k = Some t \<longrightarrow> \<not> g t)"
  by (auto simp: updateTicketWhen_def split: option.splits)

abbreviation ticket_at :: "planning_store \<Rightarrow> string \<Rightarrow> dev_ticket_row option" where
  "ticket_at st k \<equiv> map_get (devTickets st) k"

interpretation proposal_cas: versioned_row "\<lambda>st k. map_get (proposals st) k" p_version
    "\<lambda>i. key (up_organizationId i) (up_workspaceId i) (up_proposalId i)" up_expectedVersion updateProposal
  by unfold_locales (auto simp: updateProposal_def Let_def split: option.splits if_splits)

interpretation approval_cas: versioned_row ticket_at t_version
    "\<lambda>i. key (ra_organizationId i) (ra_workspaceId i) (ra_devTicketId i)" ra_expectedVersion updateDevTicketForReadyApproval
  by unfold_locales
    (auto simp: updateDevTicketForReadyApproval_def updateTicketWhen_None updateTicketWhen_Some ready_approved_row_def)

interpretation classification_cas: versioned_row ticket_at t_version
    "\<lambda>i. key (cl_organizationId i) (cl_workspaceId i) (cl_devTicketId i)" cl_expectedVersion updateDevTicketClassification
  by unfold_locales
    (auto simp: updateDevTicketClassification_def updateTicketWhen_None updateTicketWhen_Some classified_row_def)

interpretation archive_cas: versioned_row ticket_at t_version
    "\<lambda>i. key (at_organizationId i) (at_workspaceId i) (at_devTicketId i)" at_expectedVersion "archiveDevTicket_store now" for now
  by unfold_locales
    (auto simp: archiveDevTicket_store_def updateTicketWhen_None updateTicketWhen_Some archived_row_def clear_ready_def)

interpretation restore_cas: versioned_row ticket_at t_version
    "\<lambda>i. key (tt_organizationId i) (tt_workspaceId i) (tt_devTicketId i)" tt_expectedVersion restoreDevTicket_store
  by unfold_locales
    (auto simp: restoreDevTicket_store_def updateTicketWhen_None updateTicketWhen_Some restored_row_def clear_ready_def)

interpretation bump_cas: versioned_row ticket_at t_version
    "\<lambda>i. key (tt_organizationId i) (tt_workspaceId i) (tt_devTicketId i)" tt_expectedVersion bumpDevTicketVersion
  by unfold_locales (auto simp: bumpDevTicketVersion_def updateTicketWhen_None updateTicketWhen_Some)

interpretation dependent_cas: versioned_row ticket_at t_version
    "\<lambda>i. key (tt_organizationId i) (tt_workspaceId i) (tt_devTicketId i)" tt_expectedVersion applyDependencyChangeToDependent
  by unfold_locales
    (auto simp: applyDependencyChangeToDependent_def updateTicketWhen_None updateTicketWhen_Some
      dependency_changed_row_def clear_ready_def Let_def)

interpretation header_cas: versioned_row "\<lambda>st k. map_get (todoQueueHeaders st) k" q_version
    "\<lambda>i. key (fst i) (fst (snd i)) ''todo''" "\<lambda>i. snd (snd i)" "\<lambda>i. casBumpTodoQueueVersion (fst i) (fst (snd i)) (snd (snd i))"
  by unfold_locales (auto simp: casBumpTodoQueueVersion_def Let_def split: option.splits if_splits)

section \<open>Keys\<close>

lemma colon_split:
  assumes "CHR '':'' \<notin> set a" "CHR '':'' \<notin> set a'" "a @ CHR '':'' # b = a' @ CHR '':'' # b'"
  shows "a = a' \<and> b = b'"
  using assms by (auto simp: append_eq_append_conv2 append_eq_Cons_conv Cons_eq_append_conv)

lemma key_inj:
  assumes "key org ws i = key org ws j"
  shows "i = j"
  using assms by (simp add: key_def)

text \<open>Identifiers without a colon, as UUIDs are, give keys that determine their three parts.\<close>

definition colon_free :: "string \<Rightarrow> bool" where
  "colon_free s \<longleftrightarrow> CHR '':'' \<notin> set s"

lemma key_inj_parts:
  assumes "key org ws i = key org' ws' i'" "colon_free org" "colon_free org'" "colon_free ws" "colon_free ws'"
  shows "org = org' \<and> ws = ws' \<and> i = i'"
proof -
  from assms have "org = org' \<and> ws @ CHR '':'' # i = ws' @ CHR '':'' # i'"
    using colon_split[of org org' "ws @ '':'' @ i" "ws' @ '':'' @ i'"] by (simp add: key_def colon_free_def)
  with assms show ?thesis using colon_split[of ws ws' i i'] by (simp add: colon_free_def)
qed

section \<open>Savepoints\<close>

lemma restore_maps_same [simp]:
  "activeMembers st' = activeMembers st \<Longrightarrow> organizationRoles st' = organizationRoles st \<Longrightarrow> restore_maps st st' = st"
  by (simp add: restore_maps_def)

text \<open>A step of the store that leaves memberships and roles alone.\<close>

definition grants_kept :: "planning_store \<Rightarrow> planning_store \<Rightarrow> bool" where
  "grants_kept st st' \<longleftrightarrow> activeMembers st' = activeMembers st \<and> organizationRoles st' = organizationRoles st"

interpretation grants_frame: frame_relation grants_kept
  by unfold_locales (auto simp: grants_kept_def)

lemma executeRiskyMutation_rollback:
  assumes "keeps grants_kept m" and "\<And>x st'. m st \<noteq> (Returned x, st')"
  shows "snd (executeRiskyMutation m st) = st \<and> (\<forall>x. fst (executeRiskyMutation m st) \<noteq> Returned (ok x))"
proof -
  obtain er st' where m: "m st = (Thrown er, st')" using assms(2) by (cases "m st"; cases "fst (m st)") auto
  have "grants_kept st st'" using assms(1) m by (auto simp: keeps_def dest: spec[of _ st])
  then show ?thesis using m
    by (auto simp: executeRiskyMutation_def grants_kept_def split: js_error.splits)
qed

end
