(* ===== verification/Dependency_Graph.thy ===== *)
theory Dependency_Graph
  imports Planning_Store
begin

text \<open>
  The dependency edges of the planning store: selection, insertion and retirement of edges, the
  search that detects cycles, and the lock status of a ticket. The search is shown to decide
  reachability, an insertion guarded by it keeps the graph of every workspace acyclic, and the lock
  status is the existence of an unfinished active blocker.
\<close>

section \<open>Edges\<close>

definition edge_in :: "string \<Rightarrow> string \<Rightarrow> dependency_edge \<Rightarrow> bool" where
  "edge_in org ws e \<longleftrightarrow> e_organizationId e = org \<and> e_workspaceId e = ws \<and> e_lifecycleState e = Active"

definition selectDependencyEdge :: "planning_store \<Rightarrow> string \<Rightarrow> string \<Rightarrow> string \<Rightarrow> dependency_edge option" where
  "selectDependencyEdge st org ws eid = map_get (dependencyEdges st) (key org ws eid)"

definition selectActiveDependencyEdge ::
  "planning_store \<Rightarrow> string \<Rightarrow> string \<Rightarrow> string \<Rightarrow> string \<Rightarrow> dependency_edge option" where
  "selectActiveDependencyEdge st org ws dependent blocker =
     find (\<lambda>e. edge_in org ws e \<and> e_dependentDevTicketId e = dependent \<and> e_blockerDevTicketId e = blocker)
       (map_values (dependencyEdges st))"

definition selectActiveBlockerEdges :: "planning_store \<Rightarrow> string \<Rightarrow> string \<Rightarrow> string \<Rightarrow> dependency_edge list" where
  "selectActiveBlockerEdges st org ws blocker =
     filter (\<lambda>e. edge_in org ws e \<and> e_blockerDevTicketId e = blocker) (map_values (dependencyEdges st))"

definition hasActiveDependencies :: "planning_store \<Rightarrow> string \<Rightarrow> string \<Rightarrow> string \<Rightarrow> bool" where
  "hasActiveDependencies st org ws tid =
     list_ex (\<lambda>e. edge_in org ws e \<and> e_dependentDevTicketId e = tid) (map_values (dependencyEdges st))"

section \<open>The search for a cycle\<close>

text \<open>
  \<open>blockersOf\<close> lists the tickets that the closure \<^verbatim>\<open>visit\<close> calls itself on, in the order of the
  edges. \<open>visitSome\<close> is the \<^verbatim>\<open>some\<close> over them with the shared set \<^verbatim>\<open>seen\<close> threaded through: it stops
  at the first ticket whose visit returns true.
\<close>

definition blockersOf :: "string \<Rightarrow> string \<Rightarrow> dependency_edge list \<Rightarrow> string \<Rightarrow> string list" where
  "blockersOf org ws es tid =
     map e_blockerDevTicketId (filter (\<lambda>e. edge_in org ws e \<and> e_dependentDevTicketId e = tid) es)"

function visitSome ::
  "string \<Rightarrow> string \<Rightarrow> dependency_edge list \<Rightarrow> string \<Rightarrow> string set \<Rightarrow> string list \<Rightarrow> bool \<times> string set" where
  "visitSome org ws es dependent seen [] = (False, seen)"
| "visitSome org ws es dependent seen (tid # rest) =
     (if tid = dependent then (True, seen)
      else if tid \<in> seen then visitSome org ws es dependent seen rest
      else case visitSome org ws es dependent (insert tid seen) (blockersOf org ws es tid) of
             (True, seen') \<Rightarrow> (True, seen')
           | (False, seen') \<Rightarrow> visitSome org ws es dependent seen' rest)"
  by pat_completeness auto

lemma visitSome_grows_dom:
  "visitSome_dom (org, ws, es, d, seen, ts) \<Longrightarrow> seen \<subseteq> snd (visitSome org ws es d seen ts)"
proof (induction org ws es d seen ts rule: visitSome.pinduct)
  case (2 org ws es d seen tid rest)
  then show ?case by (auto simp: visitSome.psimps split: prod.splits bool.splits) blast
qed (simp add: visitSome.psimps)

text \<open>Each call sees more of the finitely many tickets with outgoing edges, or has fewer left.\<close>

definition unseen :: "dependency_edge list \<Rightarrow> string set \<Rightarrow> nat" where
  "unseen es seen = card (e_dependentDevTicketId ` set es - seen)"

lemma unseen_mono: "seen \<subseteq> seen' \<Longrightarrow> unseen es seen' \<le> unseen es seen"
  unfolding unseen_def by (rule card_mono) auto

lemma unseen_insert:
  assumes "tid \<notin> seen" "blockersOf org ws es tid \<noteq> []"
  shows "unseen es (insert tid seen) < unseen es seen"
proof -
  have "tid \<in> e_dependentDevTicketId ` set es"
    using assms(2) by (auto simp: blockersOf_def filter_empty_conv)
  with assms(1) show ?thesis unfolding unseen_def by (intro psubset_card_mono) auto
qed

termination visitSome
proof (relation "inv_image (less_than <*lex*> less_than) (\<lambda>(org, ws, es, d, seen, ts). (unseen es seen, length ts))",
    goal_cases)
  case (3 org ws es d seen tid rest)
  show ?case
  proof (cases "blockersOf org ws es tid = []")
    case True
    have "unseen es (insert tid seen) \<le> unseen es seen" by (rule unseen_mono) blast
    with True show ?thesis by auto
  next
    case False
    then show ?thesis using unseen_insert[OF \<open>tid \<notin> seen\<close> False] by simp
  qed
next
  case (4 org ws es d seen tid rest x seen')
  then have "insert tid seen \<subseteq> seen'" by (metis snd_conv visitSome_grows_dom)
  then have "unseen es seen' \<le> unseen es seen" by (intro unseen_mono) auto
  then show ?case by auto
qed auto

definition dependencyCreatesCycle :: "planning_store \<Rightarrow> string \<Rightarrow> string \<Rightarrow> string \<Rightarrow> string \<Rightarrow> bool" where
  "dependencyCreatesCycle st org ws dependent blocker =
     fst (visitSome org ws (map_values (dependencyEdges st)) dependent {} [blocker])"

section \<open>Writing edges\<close>

definition insertDependencyEdge :: "insert_edge_input \<Rightarrow> (planning_store, dependency_edge) step" where
  "insertDependencyEdge i st =
     (if ie_dependentDevTicketId i = ie_blockerDevTicketId i \<or>
         selectActiveDependencyEdge st (ie_organizationId i) (ie_workspaceId i)
           (ie_dependentDevTicketId i) (ie_blockerDevTicketId i) \<noteq> None
      then (Thrown (SqlState ''23505''), st)
      else if map_get (devTickets st) (key (ie_organizationId i) (ie_workspaceId i) (ie_dependentDevTicketId i)) = None \<or>
              map_get (devTickets st) (key (ie_organizationId i) (ie_workspaceId i) (ie_blockerDevTicketId i)) = None
      then (Thrown (SqlState ''23503''), st)
      else let row = \<lparr>e_id = ie_id i, e_organizationId = ie_organizationId i, e_workspaceId = ie_workspaceId i,
                 e_version = 1, e_dependentDevTicketId = ie_dependentDevTicketId i,
                 e_blockerDevTicketId = ie_blockerDevTicketId i, e_lifecycleState = Active,
                 e_createdCommandId = ie_createdCommandId i, e_retiredCommandId = None\<rparr>
           in (Returned row,
               st\<lparr>dependencyEdges := map_set (key (ie_organizationId i) (ie_workspaceId i) (ie_id i)) row (dependencyEdges st)\<rparr>))"

definition retireDependencyEdge :: "retire_edge_input \<Rightarrow> planning_store \<Rightarrow> dependency_edge option \<times> planning_store" where
  "retireDependencyEdge i st =
     (let k = key (re_organizationId i) (re_workspaceId i) (re_edgeId i) in
      case map_get (dependencyEdges st) k of
        None \<Rightarrow> (None, st)
      | Some current \<Rightarrow>
          if e_lifecycleState current \<noteq> Active \<or> e_version current \<noteq> re_expectedVersion i then (None, st)
          else let row = current\<lparr>e_lifecycleState := Retired, e_version := e_version current + 1,
                     e_retiredCommandId := Some (re_retiredCommandId i)\<rparr>
               in (Some row, st\<lparr>dependencyEdges := map_set k row (dependencyEdges st)\<rparr>))"

interpretation edge_cas: versioned_row "\<lambda>st k. map_get (dependencyEdges st) k" e_version
    "\<lambda>i. key (re_organizationId i) (re_workspaceId i) (re_edgeId i)" re_expectedVersion retireDependencyEdge
  by unfold_locales (auto simp: retireDependencyEdge_def Let_def split: option.splits if_splits)

definition dependencyLockStatus_store :: "planning_store \<Rightarrow> string \<Rightarrow> string \<Rightarrow> string \<Rightarrow> lock_status" where
  "dependencyLockStatus_store st org ws tid =
     (let blockers = map (\<lambda>b. (b, case map_get (devTickets st) (key org ws b) of
                                     None \<Rightarrow> False | Some t \<Rightarrow> t_lane t = Done))
                       (blockersOf org ws (map_values (dependencyEdges st)) tid)
      in \<lparr>ls_locked = list_ex (\<lambda>b. \<not> snd b) blockers, ls_blockers = blockers\<rparr>)"

section \<open>The search decides reachability\<close>

text \<open>The relation \<open>dependent waits for blocker\<close> of one workspace.\<close>

definition waits_on :: "string \<Rightarrow> string \<Rightarrow> dependency_edge list \<Rightarrow> (string \<times> string) set" where
  "waits_on org ws es = {(d, b). b \<in> set (blockersOf org ws es d)}"

abbreviation depends_on :: "planning_store \<Rightarrow> string \<Rightarrow> string \<Rightarrow> (string \<times> string) set" where
  "depends_on st org ws \<equiv> waits_on org ws (map_values (dependencyEdges st))"

lemma waits_on_iff:
  "(d, b) \<in> waits_on org ws es \<longleftrightarrow>
     (\<exists>e \<in> set es. edge_in org ws e \<and> e_dependentDevTicketId e = d \<and> e_blockerDevTicketId e = b)"
  by (auto simp: waits_on_def blockersOf_def)

lemma visitSome_sound:
  "fst (visitSome org ws es d seen ts) \<Longrightarrow> \<exists>t \<in> set ts. (t, d) \<in> (waits_on org ws es)\<^sup>*"
proof (induction org ws es d seen ts rule: visitSome.induct)
  case (2 org ws es d seen tid rest)
  consider (hit) "tid = d" | (old) "tid \<noteq> d" "tid \<in> seen" | (new) "tid \<noteq> d" "tid \<notin> seen" by blast
  then show ?case
  proof cases
    case hit
    then show ?thesis by simp
  next
    case old
    then show ?thesis using 2 by auto
  next
    case new
    obtain r seen' where v: "visitSome org ws es d (insert tid seen) (blockersOf org ws es tid) = (r, seen')"
      by (cases "visitSome org ws es d (insert tid seen) (blockersOf org ws es tid)")
    show ?thesis
    proof (cases r)
      case True
      then obtain b where "b \<in> set (blockersOf org ws es tid)" "(b, d) \<in> (waits_on org ws es)\<^sup>*"
        using "2.IH"(2)[OF new] v by auto
      then have "(tid, d) \<in> (waits_on org ws es)\<^sup>*"
        by (auto simp: waits_on_def intro: converse_rtrancl_into_rtrancl)
      then show ?thesis by auto
    next
      case False
      then show ?thesis using "2.IH"(3)[OF new v[symmetric]] "2.prems" new v by auto
    qed
  qed
qed simp

lemma visitSome_grows: "seen \<subseteq> snd (visitSome org ws es d seen ts)"
proof (induction org ws es d seen ts rule: visitSome.induct)
  case (2 org ws es d seen tid rest)
  then show ?case by (auto split: prod.splits bool.splits) blast
qed simp

text \<open>A search that fails has visited a set closed under the edges, up to what was seen before.\<close>

lemma visitSome_closed:
  assumes "visitSome org ws es d seen ts = (False, seen')" and "d \<notin> seen"
  shows "set ts \<subseteq> seen' \<and> d \<notin> seen' \<and> waits_on org ws es `` (seen' - seen) \<subseteq> seen'"
  using assms
proof (induction org ws es d seen ts arbitrary: seen' rule: visitSome.induct)
  case (2 org ws es d seen tid rest)
  then have ne: "tid \<noteq> d" by (auto split: if_splits)
  show ?case
  proof (cases "tid \<in> seen")
    case True
    then show ?thesis using "2.IH"(1)[OF ne True] "2.prems" ne visitSome_grows[of seen org ws es d rest] by auto
  next
    case False
    obtain s1 where v: "visitSome org ws es d (insert tid seen) (blockersOf org ws es tid) = (False, s1)"
      and rest: "visitSome org ws es d s1 rest = (False, seen')"
      using "2.prems"(1) ne False by (auto split: prod.splits bool.splits)
    have s1: "set (blockersOf org ws es tid) \<subseteq> s1 \<and> d \<notin> s1 \<and> waits_on org ws es `` (s1 - insert tid seen) \<subseteq> s1"
      using "2.IH"(2)[OF ne False v] "2.prems"(2) ne by auto
    have up: "insert tid seen \<subseteq> s1" "s1 \<subseteq> seen'"
      using visitSome_grows[of "insert tid seen" org ws es d "blockersOf org ws es tid"]
        visitSome_grows[of s1 org ws es d rest] v rest by simp_all
    have rest': "set rest \<subseteq> seen' \<and> d \<notin> seen' \<and> waits_on org ws es `` (seen' - s1) \<subseteq> seen'"
      using "2.IH"(3)[OF ne False v[symmetric] refl rest] s1 by simp
    moreover have "waits_on org ws es `` {tid} \<subseteq> s1" using s1 by (auto simp: waits_on_def)
    moreover have "seen' - seen \<subseteq> (seen' - s1) \<union> (s1 - insert tid seen) \<union> {tid}" by blast
    from Image_mono[OF subset_refl this] have "waits_on org ws es `` (seen' - seen) \<subseteq>
        waits_on org ws es `` (seen' - s1) \<union> waits_on org ws es `` (s1 - insert tid seen) \<union> waits_on org ws es `` {tid}"
      by (simp only: Image_Un)
    ultimately have "waits_on org ws es `` (seen' - seen) \<subseteq> seen'"
      using s1 up(2) by (meson Un_least order_trans)
    with rest' up show ?thesis by auto
  qed
qed simp

lemma visit_complete:
  assumes "\<not> fst (visitSome org ws es d {} [b])"
  shows "(b, d) \<notin> (waits_on org ws es)\<^sup>*"
proof
  assume path: "(b, d) \<in> (waits_on org ws es)\<^sup>*"
  obtain s where "visitSome org ws es d {} [b] = (False, s)"
    using assms by (cases "visitSome org ws es d {} [b]") auto
  from visitSome_closed[OF this] have s: "b \<in> s" "d \<notin> s" "waits_on org ws es `` s \<subseteq> s" by auto
  from path s(1) have "d \<in> s" using s(3) by (induction rule: rtrancl_induct) auto
  with s(2) show False by simp
qed

lemma dependencyCreatesCycle_iff_reaches:
  "dependencyCreatesCycle st org ws d b \<longleftrightarrow> (b, d) \<in> (depends_on st org ws)\<^sup>*"
  unfolding dependencyCreatesCycle_def
  using visit_complete[of org ws _ d b] visitSome_sound[of org ws _ d "{}" "[b]"] by (metis list.set_intros(1) set_ConsD empty_iff list.set(1))

section \<open>Acyclicity\<close>

definition graph_acyclic :: "planning_store \<Rightarrow> bool" where
  "graph_acyclic st \<longleftrightarrow> (\<forall>org ws. acyclic (depends_on st org ws))"

lemma depends_on_set_subset:
  assumes "dependencyEdges st' = map_set k row (dependencyEdges st)"
  shows "depends_on st' org ws \<subseteq>
    depends_on st org ws \<union> (if edge_in org ws row then {(e_dependentDevTicketId row, e_blockerDevTicketId row)} else {})"
proof
  fix p assume "p \<in> depends_on st' org ws"
  then obtain e where e: "e \<in> set (map_values (map_set k row (dependencyEdges st)))" "edge_in org ws e"
    and p: "p = (e_dependentDevTicketId e, e_blockerDevTicketId e)"
    using assms by (cases p) (auto simp: waits_on_iff)
  from map_values_set_subset[OF e(1)] show "p \<in> depends_on st org ws \<union>
      (if edge_in org ws row then {(e_dependentDevTicketId row, e_blockerDevTicketId row)} else {})"
    using e(2) p by (auto simp: waits_on_iff)
qed

lemma graph_acyclic_insert:
  assumes ac: "graph_acyclic st" and "\<not> dependencyCreatesCycle st (e_organizationId row) (e_workspaceId row)
      (e_dependentDevTicketId row) (e_blockerDevTicketId row)"
    and st': "dependencyEdges st' = map_set k row (dependencyEdges st)"
  shows "graph_acyclic st'"
  unfolding graph_acyclic_def
proof (intro allI)
  fix org ws
  let ?R = "depends_on st org ws" and ?d = "e_dependentDevTicketId row" and ?b = "e_blockerDevTicketId row"
  have "acyclic (?R \<union> (if edge_in org ws row then {(?d, ?b)} else {}))"
  proof (cases "edge_in org ws row")
    case True
    then have "(?b, ?d) \<notin> ?R\<^sup>*" using assms(2) by (simp add: dependencyCreatesCycle_iff_reaches edge_in_def)
    then show ?thesis using ac True by (simp add: graph_acyclic_def)
  next
    case False
    then show ?thesis using ac by (simp add: graph_acyclic_def)
  qed
  then show "acyclic (depends_on st' org ws)"
    by (rule acyclic_subset) (rule depends_on_set_subset[OF st'])
qed

lemma graph_acyclic_retire:
  assumes "graph_acyclic st" and "retireDependencyEdge i st = (r, st')"
  shows "graph_acyclic st'"
proof (cases "dependencyEdges st' = dependencyEdges st")
  case True
  then show ?thesis using assms(1) by (simp add: graph_acyclic_def)
next
  case False
  then obtain k row where "dependencyEdges st' = map_set k row (dependencyEdges st)" "e_lifecycleState row = Retired"
    using assms(2) by (auto simp: retireDependencyEdge_def Let_def split: option.splits if_splits)
  then have "depends_on st' org ws \<subseteq> depends_on st org ws" for org ws
    using depends_on_set_subset[of st' k row st org ws] by (simp add: edge_in_def)
  with assms(1) show ?thesis unfolding graph_acyclic_def by (meson acyclic_subset)
qed

lemma graph_acyclic_same_edges:
  "dependencyEdges st' = dependencyEdges st \<Longrightarrow> graph_acyclic st' = graph_acyclic st"
  by (simp add: graph_acyclic_def)

lemma graph_acyclic_empty [simp]: "graph_acyclic empty_store"
  by (simp add: graph_acyclic_def empty_store_def waits_on_def blockersOf_def wf_acyclic)

text \<open>Edges are stored under their own identity.\<close>

definition edges_keyed :: "planning_store \<Rightarrow> bool" where
  "edges_keyed st \<longleftrightarrow> (\<forall>k g. map_get (dependencyEdges st) k = Some g \<longrightarrow> k = key (e_organizationId g) (e_workspaceId g) (e_id g))"

definition graph_wf :: "planning_store \<Rightarrow> bool" where
  "graph_wf st \<longleftrightarrow> graph_acyclic st \<and> edges_keyed st"

lemma graph_wf_insert:
  assumes "graph_wf st" and "\<not> dependencyCreatesCycle st (e_organizationId row) (e_workspaceId row)
      (e_dependentDevTicketId row) (e_blockerDevTicketId row)"
    and st': "dependencyEdges st' = map_set (key (e_organizationId row) (e_workspaceId row) (e_id row)) row (dependencyEdges st)"
  shows "graph_wf st'"
  using assms graph_acyclic_insert[of st row st'] by (auto simp: graph_wf_def edges_keyed_def)

lemma graph_wf_retire:
  assumes "graph_wf st" and "retireDependencyEdge i st = (r, st')"
  shows "graph_wf st'"
  using assms graph_acyclic_retire[of st i r st']
  by (auto simp: graph_wf_def edges_keyed_def retireDependencyEdge_def Let_def split: option.splits if_splits)

section \<open>Lock status\<close>

lemma lock_status_locked:
  "ls_locked (dependencyLockStatus_store st org ws tid) \<longleftrightarrow>
     (\<exists>b. (tid, b) \<in> depends_on st org ws \<and> (\<forall>t. selectDevTicket st org ws b = Some t \<longrightarrow> t_lane t \<noteq> Done))"
  by (auto simp: dependencyLockStatus_store_def waits_on_def Let_def list_ex_iff selectDevTicket_def
      split: option.splits)

end
