(* ===== verification/Todo_Queue.thy ===== *)
theory Todo_Queue
  imports Planning_Store
begin

text \<open>
  The Todo queue of a workspace: its listing in rank order and the rebalancing of its ranks
  (\<^verbatim>\<open>listTodoQueueRanks\<close>, \<^verbatim>\<open>rebalanceTodoBand\<close> of the in-memory planning store). A well-formed queue is
  seen as a finite map from ticket ids to distinct ranks; the listing is the unique list of that map
  in increasing rank order, whatever \<^verbatim>\<open>localeCompare\<close> does, and each queue operation has the effect on
  the listing that its name promises.
\<close>

section \<open>Listing and rebalancing\<close>

definition starts_with :: "string \<Rightarrow> string \<Rightarrow> bool" where
  "starts_with p s \<longleftrightarrow> take (length p) s = p"

definition queue_prefix :: "string \<Rightarrow> string \<Rightarrow> string" where
  "queue_prefix org ws = org @ '':'' @ ws @ '':''"

definition rank_order :: "(string \<Rightarrow> string \<Rightarrow> int) \<Rightarrow> todo_membership \<Rightarrow> todo_membership \<Rightarrow> int" where
  "rank_order localeCompare l r =
     (if m_rank l = m_rank r then localeCompare (m_devTicketId l) (m_devTicketId r)
      else if m_rank l < m_rank r then -1 else 1)"

definition listTodoQueueRanks ::
  "(string \<Rightarrow> string \<Rightarrow> int) \<Rightarrow> planning_store \<Rightarrow> string \<Rightarrow> string \<Rightarrow> todo_membership list" where
  "listTodoQueueRanks localeCompare st org ws =
     array_sort (rank_order localeCompare)
       (map snd (filter (\<lambda>entry. starts_with (queue_prefix org ws) (fst entry)) (todoQueueMemberships st)))"

fun rebalance_from :: "string \<Rightarrow> string \<Rightarrow> int \<Rightarrow> string list \<Rightarrow> planning_store \<Rightarrow> planning_store" where
  "rebalance_from org ws index [] st = st"
| "rebalance_from org ws index (tid # tids) st =
     rebalance_from org ws (index + 1) tids
       (snd (updateTodoQueueMembershipRank org ws tid ((index + 2) * 1000000) st))"

definition rebalanceTodoBand :: "string \<Rightarrow> string \<Rightarrow> string list \<Rightarrow> planning_store \<Rightarrow> planning_store" where
  "rebalanceTodoBand org ws orderedDevTicketIds = rebalance_from org ws 0 orderedDevTicketIds"

section \<open>The queue as a map from tickets to ranks\<close>

definition band :: "planning_store \<Rightarrow> string \<Rightarrow> string \<Rightarrow> string \<rightharpoonup> int" where
  "band st org ws tid = map_option m_rank (todoQueueMembership st org ws tid)"

abbreviation queue_scope :: "string \<Rightarrow> string \<Rightarrow> bool" where
  "queue_scope org ws \<equiv> colon_free org \<and> colon_free ws"

definition rank_limit :: int where
  "rank_limit = 9223372036854775807"

definition queue_keys_ok :: "planning_store \<Rightarrow> bool" where
  "queue_keys_ok st \<longleftrightarrow> keys_distinct (todoQueueMemberships st) \<and>
     (\<forall>(k, m) \<in> set (todoQueueMemberships st). \<exists>org ws. queue_scope org ws \<and> k = key org ws (m_devTicketId m))"

definition ranks_ok :: "(string \<rightharpoonup> int) \<Rightarrow> bool" where
  "ranks_ok b \<longleftrightarrow> inj_on b (dom b) \<and> (\<forall>r \<in> ran b. 0 < r \<and> r \<le> rank_limit)"

definition queue_wf :: "planning_store \<Rightarrow> bool" where
  "queue_wf st \<longleftrightarrow> queue_keys_ok st \<and> (\<forall>org ws. queue_scope org ws \<longrightarrow> ranks_ok (band st org ws))"

lemma ranks_ok_inj: "b i = Some r \<Longrightarrow> b j = Some r \<Longrightarrow> ranks_ok b \<Longrightarrow> i = j"
  by (metis domI inj_onD ranks_ok_def)

text \<open>The list of a map in increasing rank order.\<close>

definition ordered_band :: "(string \<rightharpoonup> int) \<Rightarrow> todo_membership list \<Rightarrow> bool" where
  "ordered_band b xs \<longleftrightarrow> sorted_wrt (\<lambda>l r. m_rank l < m_rank r) xs \<and>
     (\<forall>m. m \<in> set xs \<longleftrightarrow> b (m_devTicketId m) = Some (m_rank m))"

lemma starts_with_key: "starts_with (queue_prefix org ws) k \<longleftrightarrow> (\<exists>i. k = key org ws i)"
  unfolding queue_prefix_def
proof
  assume "starts_with (org @ '':'' @ ws @ '':'') k"
  then have "k = (org @ '':'' @ ws @ '':'') @ drop (length (org @ '':'' @ ws @ '':'')) k"
    unfolding starts_with_def by (metis append_take_drop_id)
  then show "\<exists>i. k = key org ws i" unfolding key_def by (metis append.assoc)
qed (auto simp: starts_with_def key_def)

lemma queue_entry:
  assumes "queue_keys_ok st" "queue_scope org ws" "todoQueueMembership st org ws tid = Some m"
  shows "m_devTicketId m = tid"
proof -
  from assms have "(key org ws tid, m) \<in> set (todoQueueMemberships st)"
    by (auto simp: queue_keys_ok_def todoQueueMembership_def dest: map_of_SomeD)
  with assms(1) obtain org' ws' where "queue_scope org' ws'" "key org ws tid = key org' ws' (m_devTicketId m)"
    by (auto simp: queue_keys_ok_def)
  with assms(2) show ?thesis using key_inj_parts by blast
qed

lemma listed_iff:
  assumes "queue_keys_ok st" "queue_scope org ws"
  shows "m \<in> set (listTodoQueueRanks lc st org ws) \<longleftrightarrow> band st org ws (m_devTicketId m) = Some (m_rank m)"
    (is "?L \<longleftrightarrow> ?R")
proof
  assume ?L
  then obtain i where "(key org ws i, m) \<in> set (todoQueueMemberships st)"
    by (auto simp: listTodoQueueRanks_def starts_with_key)
  then have "todoQueueMembership st org ws i = Some m"
    using assms(1) by (simp add: queue_keys_ok_def todoQueueMembership_def)
  then show ?R using queue_entry[OF assms] by (auto simp: band_def)
next
  assume ?R
  then obtain m' where m': "todoQueueMembership st org ws (m_devTicketId m) = Some m'" "m_rank m' = m_rank m"
    by (auto simp: band_def)
  then have "m' = m" using queue_entry[OF assms m'(1)] by (cases m; cases m') simp
  with m'(1) have "(key org ws (m_devTicketId m), m) \<in> set (todoQueueMemberships st)"
    by (auto simp: todoQueueMembership_def dest: map_of_SomeD)
  then show ?L by (force simp: listTodoQueueRanks_def starts_with_key)
qed

lemma ordered_band_unique:
  assumes "ordered_band b xs" "ordered_band b ys"
  shows "xs = ys"
proof -
  have "set xs = set ys" using assms by (auto simp: ordered_band_def)
  moreover have "sorted_wrt (\<lambda>l r. m_rank l < m_rank r) xs" "sorted_wrt (\<lambda>l r. m_rank l < m_rank r) ys"
    using assms by (auto simp: ordered_band_def)
  ultimately show ?thesis
  proof (induction xs arbitrary: ys)
    case (Cons x xs)
    then obtain y ys' where ys: "ys = y # ys'" by (cases ys) auto
    have "x = y"
    proof (rule ccontr)
      assume "x \<noteq> y"
      then have "x \<in> set ys'" "y \<in> set xs" using Cons.prems(1) ys by auto
      then show False using Cons.prems(2,3) ys by force
    qed
    moreover have "x \<notin> set xs" "y \<notin> set ys'" using Cons.prems(2,3) ys by auto
    ultimately have "set xs = set ys'" using Cons.prems(1) ys by auto
    with Cons ys \<open>x = y\<close> show ?case by auto
  qed simp
qed

lemma insort_rank_sorted:
  assumes "sorted_wrt (\<lambda>l r. m_rank l < m_rank r) xs" "\<forall>y \<in> set xs. m_rank y \<noteq> m_rank x"
  shows "sorted_wrt (\<lambda>l r. m_rank l < m_rank r) (insort_by (rank_order lc) x xs)"
  using assms by (induction xs) (auto simp: rank_order_def split: if_splits)

lemma array_sort_rank_sorted:
  "distinct (map m_rank xs) \<Longrightarrow> sorted_wrt (\<lambda>l r. m_rank l < m_rank r) (array_sort (rank_order lc) xs)"
  by (induction xs) (auto intro!: insort_rank_sorted simp: image_iff, metis)

lemma listed_distinct:
  assumes "queue_wf st" "queue_scope org ws"
  shows "distinct (map m_rank (listTodoQueueRanks lc st org ws)) \<and> distinct (listTodoQueueRanks lc st org ws)"
proof -
  let ?ms = "todoQueueMemberships st"
  let ?es = "filter (\<lambda>entry. starts_with (queue_prefix org ws) (fst entry)) ?ms"
  have keys: "queue_keys_ok st" using assms(1) by (simp add: queue_wf_def)
  have "inj_on snd (set ?es)"
  proof (rule inj_onI)
    fix p q assume p: "p \<in> set ?es" and q: "q \<in> set ?es" and eq: "snd p = snd q"
    have "fst p = key org ws (m_devTicketId (snd p))" if "p \<in> set ?es" for p
    proof -
      from that obtain i where i: "fst p = key org ws i" by (auto simp: starts_with_key)
      from that have "(fst p, snd p) \<in> set ?ms" by simp
      then have "todoQueueMembership st org ws i = Some (snd p)"
        using keys i unfolding todoQueueMembership_def queue_keys_ok_def by (metis map_of_eq_Some_iff)
      from queue_entry[OF keys assms(2) this] i show ?thesis by simp
    qed
    from this[OF p] this[OF q] eq show "p = q" by (simp add: prod_eq_iff)
  qed
  moreover have "distinct ?es" using keys by (auto simp: queue_keys_ok_def distinct_map)
  ultimately have d: "distinct (listTodoQueueRanks lc st org ws)"
    by (simp add: listTodoQueueRanks_def distinct_map)
  have "inj_on m_rank (set (listTodoQueueRanks lc st org ws))"
  proof (rule inj_onI)
    fix x y assume "x \<in> set (listTodoQueueRanks lc st org ws)" "y \<in> set (listTodoQueueRanks lc st org ws)"
      and r: "m_rank x = m_rank y"
    then have "band st org ws (m_devTicketId x) = Some (m_rank x)" "band st org ws (m_devTicketId y) = Some (m_rank x)"
      by (simp_all add: listed_iff[OF keys assms(2)])
    moreover have "ranks_ok (band st org ws)" using assms by (simp add: queue_wf_def)
    ultimately have "m_devTicketId x = m_devTicketId y" by (rule ranks_ok_inj)
    with r show "x = y" by (cases x; cases y) simp
  qed
  with d show ?thesis by (simp add: distinct_map)
qed

text \<open>The listing is the ordered list of the band.\<close>

lemma listed_ordered:
  assumes "queue_wf st" "queue_scope org ws"
  shows "ordered_band (band st org ws) (listTodoQueueRanks lc st org ws)"
proof -
  have keys: "queue_keys_ok st" using assms(1) by (simp add: queue_wf_def)
  let ?raw = "map snd (filter (\<lambda>entry. starts_with (queue_prefix org ws) (fst entry)) (todoQueueMemberships st))"
  have "distinct (listTodoQueueRanks lc st org ws)" "inj_on m_rank (set (listTodoQueueRanks lc st org ws))"
    using listed_distinct[OF assms, of lc] by (simp_all add: distinct_map)
  then have "distinct (map m_rank ?raw)"
    unfolding listTodoQueueRanks_def distinct_array_sort set_array_sort by (simp only: distinct_map simp_thms)
  from array_sort_rank_sorted[OF this] show ?thesis
    unfolding ordered_band_def using listed_iff[OF keys assms(2), of _ lc] by (simp add: listTodoQueueRanks_def)
qed

lemma listed_eqI:
  "queue_wf st \<Longrightarrow> queue_scope org ws \<Longrightarrow> ordered_band (band st org ws) xs \<Longrightarrow> listTodoQueueRanks lc st org ws = xs"
  using listed_ordered ordered_band_unique by blast

section \<open>Effect of the writing operations on the band\<close>

lemma band_frame: "todoQueueMemberships st' = todoQueueMemberships st \<Longrightarrow> band st' = band st"
  by (intro ext) (simp add: band_def todoQueueMembership_def)

lemma queue_wf_frame: "todoQueueMemberships st' = todoQueueMemberships st \<Longrightarrow> queue_wf st' = queue_wf st"
  using band_frame[of st' st] by (simp add: queue_wf_def queue_keys_ok_def)

definition put_rank :: "string \<Rightarrow> string \<Rightarrow> string \<Rightarrow> int \<Rightarrow> planning_store \<Rightarrow> planning_store" where
  "put_rank org ws tid rank st = st\<lparr>todoQueueMemberships :=
     map_set (key org ws tid) \<lparr>m_devTicketId = tid, m_rank = rank\<rparr> (todoQueueMemberships st)\<rparr>"

lemma updateTodoQueueMembershipRank_eq:
  "updateTodoQueueMembershipRank org ws tid rank st =
     (if band st org ws tid = None then (False, st) else (True, put_rank org ws tid rank st))"
  by (simp add: updateTodoQueueMembershipRank_def put_rank_def band_def todoQueueMembership_def Let_def)

lemma insertTodoQueueMembership_eq:
  "insertTodoQueueMembership org ws tid rank st =
     (if band st org ws tid \<noteq> None then (Thrown (SqlState ''23505''), st) else (Returned (), put_rank org ws tid rank st))"
  by (simp add: insertTodoQueueMembership_def put_rank_def band_def todoQueueMembership_def Let_def)

lemma band_put_rank:
  assumes "queue_scope org ws" "queue_scope org' ws'"
  shows "band (put_rank org ws tid rank st) org' ws' =
    (if org' = org \<and> ws' = ws then (band st org ws)(tid \<mapsto> rank) else band st org' ws')"
proof (intro ext)
  fix i
  have "key org' ws' i = key org ws tid \<longleftrightarrow> org' = org \<and> ws' = ws \<and> i = tid"
    using assms key_inj_parts by blast
  then show "band (put_rank org ws tid rank st) org' ws' i =
      (if org' = org \<and> ws' = ws then (band st org ws)(tid \<mapsto> rank) else band st org' ws') i"
    by (auto simp: band_def put_rank_def todoQueueMembership_def)
qed

lemma band_delete:
  assumes "queue_scope org ws" "queue_scope org' ws'"
  shows "band (snd (deleteTodoQueueMembership org ws tid st)) org' ws' =
    (if org' = org \<and> ws' = ws then (band st org ws)(tid := None) else band st org' ws')"
proof (intro ext)
  fix i
  have "key org' ws' i = key org ws tid \<longleftrightarrow> org' = org \<and> ws' = ws \<and> i = tid"
    using assms key_inj_parts by blast
  then show "band (snd (deleteTodoQueueMembership org ws tid st)) org' ws' i =
      (if org' = org \<and> ws' = ws then (band st org ws)(tid := None) else band st org' ws') i"
    by (auto simp: band_def deleteTodoQueueMembership_def todoQueueMembership_def Let_def)
qed

lemma queue_keys_put_rank:
  assumes "queue_keys_ok st" "queue_scope org ws"
  shows "queue_keys_ok (put_rank org ws tid rank st)"
  using assms by (fastforce simp: queue_keys_ok_def put_rank_def map_set_mem_iff split: if_splits)

lemma queue_keys_delete:
  "queue_keys_ok st \<Longrightarrow> queue_keys_ok (snd (deleteTodoQueueMembership org ws tid st))"
  by (auto simp: queue_keys_ok_def deleteTodoQueueMembership_def Let_def AList.delete_eq distinct_map_filter)

lemma queue_wf_put_rank:
  assumes "queue_wf st" "queue_scope org ws" "ranks_ok ((band st org ws)(tid \<mapsto> rank))"
  shows "queue_wf (put_rank org ws tid rank st)"
  using assms queue_keys_put_rank[OF _ assms(2)] band_put_rank[OF assms(2)] by (auto simp: queue_wf_def)

lemma ranks_ok_remove: "ranks_ok b \<Longrightarrow> ranks_ok (b(tid := None))"
  by (auto simp: ranks_ok_def inj_on_def dom_def ran_def split: if_splits)

lemma queue_wf_delete:
  assumes "queue_wf st" "queue_scope org ws"
  shows "queue_wf (snd (deleteTodoQueueMembership org ws tid st))"
  using assms queue_keys_delete band_delete[OF assms(2)] ranks_ok_remove by (auto simp: queue_wf_def)

section \<open>Effect on the listing\<close>

abbreviation member :: "string \<Rightarrow> int \<Rightarrow> todo_membership" where
  "member tid rank \<equiv> \<lparr>m_devTicketId = tid, m_rank = rank\<rparr>"

lemma ordered_band_remove:
  "ordered_band b xs \<Longrightarrow> ordered_band (b(tid := None)) (filter (\<lambda>m. m_devTicketId m \<noteq> tid) xs)"
  by (auto simp: ordered_band_def sorted_wrt_filter)

lemma ordered_band_insert:
  assumes "ordered_band b (lower @ upper)" "b tid = None"
    and "\<forall>m \<in> set lower. m_rank m < rank" "\<forall>m \<in> set upper. rank < m_rank m"
  shows "ordered_band (b(tid \<mapsto> rank)) (lower @ member tid rank # upper)"
proof -
  have "m \<in> set (lower @ member tid rank # upper) \<longleftrightarrow> (b(tid \<mapsto> rank)) (m_devTicketId m) = Some (m_rank m)" for m
    using assms(1,2) by (cases m) (auto simp: ordered_band_def)
  with assms show ?thesis by (auto simp: ordered_band_def sorted_wrt_append)
qed

text \<open>A fresh rank that fits between its neighbours keeps ranks distinct and in range.\<close>

lemma ranks_ok_insert:
  assumes "ranks_ok b" "0 < rank" "rank \<le> rank_limit" "rank \<notin> ran (b(tid := None))"
  shows "ranks_ok (b(tid \<mapsto> rank))"
  using assms by (auto simp: ranks_ok_def inj_on_def dom_def ran_def) metis+

lemma ordered_band_ran: "ordered_band b xs \<Longrightarrow> r \<in> ran b \<longleftrightarrow> (\<exists>m \<in> set xs. m_rank m = r)"
  by (auto simp: ordered_band_def ran_def intro: exI[of _ "member _ r"]) (metis todo_membership.select_convs)

lemma ordered_band_dom: "ordered_band b xs \<Longrightarrow> i \<in> dom b \<longleftrightarrow> i \<in> m_devTicketId ` set xs"
  by (auto simp: ordered_band_def image_iff) (metis todo_membership.select_convs)

lemma place_in_queue:
  assumes wf: "queue_wf st" and sc: "queue_scope org ws"
    and others: "filter (\<lambda>m. m_devTicketId m \<noteq> tid) (listTodoQueueRanks lc st org ws) = lower @ upper"
    and fits: "\<forall>m \<in> set lower. m_rank m < rank" "\<forall>m \<in> set upper. rank < m_rank m"
    and bounds: "0 < rank" "rank \<le> rank_limit"
  shows "queue_wf (put_rank org ws tid rank st) \<and>
    listTodoQueueRanks lc (put_rank org ws tid rank st) org ws = lower @ member tid rank # upper"
proof -
  let ?b = "band st org ws"
  have ob: "ordered_band (?b(tid := None)) (lower @ upper)"
    using ordered_band_remove[OF listed_ordered[OF wf sc, of lc], of tid] others by simp
  then have "rank \<notin> ran (?b(tid := None))" using fits by (auto simp: ordered_band_ran)
  moreover have "ranks_ok ?b" using wf sc by (simp add: queue_wf_def)
  ultimately have rk: "ranks_ok (?b(tid \<mapsto> rank))" using bounds ranks_ok_insert by blast
  then have wf': "queue_wf (put_rank org ws tid rank st)" by (rule queue_wf_put_rank[OF wf sc])
  have "ordered_band (band (put_rank org ws tid rank st) org ws) (lower @ member tid rank # upper)"
    using ordered_band_insert[OF ob _ fits, of tid] band_put_rank[OF sc sc] by simp
  with wf' show ?thesis using listed_eqI[OF wf' sc] by blast
qed

lemma remove_from_queue:
  assumes "queue_wf st" "queue_scope org ws"
  shows "listTodoQueueRanks lc (snd (deleteTodoQueueMembership org ws tid st)) org ws =
    filter (\<lambda>m. m_devTicketId m \<noteq> tid) (listTodoQueueRanks lc st org ws)"
  using listed_eqI[OF queue_wf_delete[OF assms] assms(2)] band_delete[OF assms(2) assms(2)]
    ordered_band_remove[OF listed_ordered[OF assms]] by simp

lemma member_eq: "(x :: todo_membership) = y \<longleftrightarrow> m_devTicketId x = m_devTicketId y \<and> m_rank x = m_rank y"
  by (cases x; cases y) simp

lemma sorted_rank_unique:
  "sorted_wrt (\<lambda>l r. m_rank l < m_rank r) xs \<Longrightarrow> x \<in> set xs \<Longrightarrow> y \<in> set xs \<Longrightarrow> m_rank x = m_rank y \<Longrightarrow> x = y"
  by (induction xs) auto

subsection \<open>Rebalancing\<close>

fun spaced :: "int \<Rightarrow> string list \<Rightarrow> todo_membership list" where
  "spaced i [] = []"
| "spaced i (tid # tids) = member tid ((i + 2) * 1000000) # spaced (i + 1) tids"

lemma spaced_ids: "map m_devTicketId (spaced i tids) = tids"
  by (induction i tids rule: spaced.induct) simp_all

lemma spaced_ranks: "m \<in> set (spaced i tids) \<Longrightarrow>
    (i + 2) * 1000000 \<le> m_rank m \<and> m_rank m \<le> (i + int (length tids) + 1) * 1000000"
  by (induction i tids rule: spaced.induct) force+

lemma spaced_sorted: "sorted_wrt (\<lambda>l r. m_rank l < m_rank r) (spaced i tids)"
proof (induction i tids rule: spaced.induct)
  case (2 i tid tids)
  then show ?case using spaced_ranks[of _ "i + 1" tids] by force
qed simp

lemma rebalance_from_effect:
  assumes "queue_scope org ws" "set tids \<subseteq> dom (band st org ws)" "distinct tids" "queue_keys_ok st"
  shows "queue_keys_ok (rebalance_from org ws i tids st) \<and>
    (\<forall>org' ws'. queue_scope org' ws' \<longrightarrow> band (rebalance_from org ws i tids st) org' ws' =
      (if org' = org \<and> ws' = ws then band st org ws ++ map_of (map (\<lambda>m. (m_devTicketId m, m_rank m)) (spaced i tids))
       else band st org' ws'))"
  using assms
proof (induction org ws i tids st rule: rebalance_from.induct)
  case (2 org ws i tid tids st)
  let ?r = "(i + 2) * 1000000" and ?st = "put_rank org ws tid ((i + 2) * 1000000) st"
  have upd: "snd (updateTodoQueueMembershipRank org ws tid ?r st) = ?st"
    using "2.prems"(2) by (auto simp: updateTodoQueueMembershipRank_eq dom_def)
  note b = band_put_rank[OF "2.prems"(1)]
  have "set tids \<subseteq> dom (band ?st org ws)" using "2.prems"(2) b[OF "2.prems"(1)] by auto
  moreover have "queue_keys_ok ?st" using "2.prems" queue_keys_put_rank by blast
  ultimately have IH: "queue_keys_ok (rebalance_from org ws (i + 1) tids ?st) \<and>
      (\<forall>org' ws'. queue_scope org' ws' \<longrightarrow> band (rebalance_from org ws (i + 1) tids ?st) org' ws' =
        (if org' = org \<and> ws' = ws
         then band ?st org ws ++ map_of (map (\<lambda>m. (m_devTicketId m, m_rank m)) (spaced (i + 1) tids))
         else band ?st org' ws'))"
    using "2.IH"[unfolded upd] "2.prems"(1,3) by simp
  have "tid \<notin> dom (map_of (map (\<lambda>m. (m_devTicketId m, m_rank m)) (spaced (i + 1) tids)))"
    using "2.prems"(3) arg_cong[OF spaced_ids[of "i + 1" tids], of set] by (simp add: dom_map_of_conv_image_fst image_image)
  then have "band ?st org ws ++ map_of (map (\<lambda>m. (m_devTicketId m, m_rank m)) (spaced (i + 1) tids)) =
      band st org ws ++ map_of (map (\<lambda>m. (m_devTicketId m, m_rank m)) (spaced i (tid # tids)))"
    using b[OF "2.prems"(1)] by (simp add: map_add_upd_left)
  moreover have "band ?st org' ws' = band st org' ws'" if "queue_scope org' ws'" "\<not> (org' = org \<and> ws' = ws)" for org' ws'
    using b[OF that(1)] that(2) by auto
  ultimately have "band (rebalance_from org ws (i + 1) tids ?st) org' ws' =
      (if org' = org \<and> ws' = ws
       then band st org ws ++ map_of (map (\<lambda>m. (m_devTicketId m, m_rank m)) (spaced i (tid # tids)))
       else band st org' ws')" if "queue_scope org' ws'" for org' ws'
    using conjunct2[OF IH, rule_format, OF that] that by presburger
  with IH show ?case unfolding rebalance_from.simps upd by blast
qed simp

lemma map_add_covered: "dom f \<subseteq> dom g \<Longrightarrow> f ++ g = g"
  by (rule ext) (auto simp: map_add_def domIff subset_iff split: option.splits)

lemma rebalanced_queue:
  assumes wf: "queue_wf st" and sc: "queue_scope org ws" and d: "distinct tids"
    and dom: "set tids = dom (band st org ws)" and cap: "(int (length tids) + 1) * 1000000 \<le> rank_limit"
  shows "queue_wf (rebalanceTodoBand org ws tids st) \<and>
    listTodoQueueRanks lc (rebalanceTodoBand org ws tids st) org ws = spaced 0 tids"
proof -
  let ?st = "rebalanceTodoBand org ws tids st" and ?al = "map (\<lambda>m. (m_devTicketId m, m_rank m)) (spaced 0 tids)"
  have ids: "map fst ?al = tids" using spaced_ids[of 0 tids] by (simp add: comp_def)
  have keys: "queue_keys_ok ?st" and bands: "\<And>org' ws'. queue_scope org' ws' \<Longrightarrow> band ?st org' ws' =
      (if org' = org \<and> ws' = ws then band st org ws ++ map_of ?al else band st org' ws')"
    using rebalance_from_effect[OF sc eq_refl[OF dom] d, of 0] wf by (simp_all add: rebalanceTodoBand_def queue_wf_def)
  have "dom (map_of ?al) = set tids" using arg_cong[OF ids, of set] by (simp add: dom_map_of_conv_image_fst image_image)
  then have "dom (band st org ws) \<subseteq> dom (map_of ?al)" using dom by simp
  from map_add_covered[OF this] have own: "band ?st org ws = map_of ?al" using bands[OF sc] by simp
  have look: "map_of ?al (m_devTicketId m) = Some (m_rank m) \<longleftrightarrow> m \<in> set (spaced 0 tids)" for m
  proof -
    have "distinct (map fst ?al)" using ids d by simp
    then have "map_of ?al (m_devTicketId m) = Some (m_rank m) \<longleftrightarrow> (m_devTicketId m, m_rank m) \<in> set ?al"
      by (rule map_of_eq_Some_iff)
    also have "\<dots> \<longleftrightarrow> m \<in> set (spaced 0 tids)"
      using inj_image_mem_iff[of "\<lambda>m. (m_devTicketId m, m_rank m)" m] by (simp add: inj_def member_eq)
    finally show ?thesis .
  qed
  then have ob: "ordered_band (band ?st org ws) (spaced 0 tids)"
    unfolding own ordered_band_def using spaced_sorted by blast
  have rk: "ranks_ok (band ?st org ws)"
    unfolding ranks_ok_def
  proof (intro conjI ballI inj_onI)
    fix r assume "r \<in> ran (band ?st org ws)"
    then obtain m where "m \<in> set (spaced 0 tids)" "m_rank m = r" using ordered_band_ran[OF ob] by blast
    from spaced_ranks[OF this(1)] this(2) cap show "0 < r" "r \<le> rank_limit" by auto
  next
    fix x y assume "x \<in> dom (band ?st org ws)" "y \<in> dom (band ?st org ws)" and e: "band ?st org ws x = band ?st org ws y"
    then obtain r where "band ?st org ws x = Some r" "band ?st org ws y = Some r" by auto
    then have "member x r \<in> set (spaced 0 tids)" "member y r \<in> set (spaced 0 tids)"
      using ob by (simp_all add: ordered_band_def)
    from sorted_rank_unique[OF spaced_sorted this] show "x = y" by simp
  qed
  have "queue_wf ?st" unfolding queue_wf_def
  proof (intro conjI allI impI keys)
    fix org' ws' assume sc': "queue_scope org' ws'"
    show "ranks_ok (band ?st org' ws')"
    proof (cases "org' = org \<and> ws' = ws")
      case False
      then have "band ?st org' ws' = band st org' ws'" using bands[OF sc'] by auto
      then show ?thesis using wf sc' by (simp add: queue_wf_def)
    qed (use rk in simp)
  qed
  with ob show ?thesis using listed_eqI sc by blast
qed

end
