(* ===== verification/Command_Spine.thy ===== *)
theory Command_Spine
  imports Tenant Receipts Ledger Dependency_Graph Todo_Queue Legacy_Records
begin

text \<open>
  What every planning command shares: the helpers at the top of
  \<^verbatim>\<open>application/dev-board-planning-commands.ts\<close> (expected versions, reservation and replay, rejection and
  acceptance, the two ledger writes, authorization) over one world that holds the planning store, the
  receipts, the ledger, the clock and the source of random ids.
\<close>

section \<open>World and runtime\<close>

record world =
  w_store :: planning_store
  w_receipts :: receipt_map
  w_ledger :: ledger
  w_ticks :: nat
  w_uuids :: nat

text \<open>
  What the commands take from outside: SHA-256, the collation of \<^verbatim>\<open>localeCompare\<close>, the i-th value of
  \<^verbatim>\<open>randomUUID()\<close> and of \<^verbatim>\<open>new Date()\<close>, and the database behind \<^verbatim>\<open>withTenant\<close>.
\<close>

record runtime =
  rt_sha256 :: "string \<Rightarrow> string"
  rt_localeCompare :: "string \<Rightarrow> string \<Rightarrow> int"
  rt_randomUUID :: "nat \<Rightarrow> string"
  rt_now :: "nat \<Rightarrow> js_date"
  rt_database :: database

type_synonym 'a cmd = "(world, 'a) step"

definition undo_world :: "world \<Rightarrow> world \<Rightarrow> world" where
  "undo_world before after = after\<lparr>w_store := w_store before, w_receipts := w_receipts before, w_ledger := w_ledger before\<rparr>"

definition onStore :: "(planning_store \<Rightarrow> 'a \<times> planning_store) \<Rightarrow> 'a cmd" where
  [step_simps]: "onStore f w = (Returned (fst (f (w_store w))), w\<lparr>w_store := snd (f (w_store w))\<rparr>)"

definition stepStore :: "(planning_store, 'a) step \<Rightarrow> 'a cmd" where
  [step_simps]: "stepStore m w = (fst (m (w_store w)), w\<lparr>w_store := snd (m (w_store w))\<rparr>)"

definition onReceipts :: "(receipt_map \<Rightarrow> 'a \<times> receipt_map) \<Rightarrow> 'a cmd" where
  [step_simps]: "onReceipts f w = (Returned (fst (f (w_receipts w))), w\<lparr>w_receipts := snd (f (w_receipts w))\<rparr>)"

definition onLedger :: "(ledger \<Rightarrow> 'a \<times> ledger) \<Rightarrow> 'a cmd" where
  [step_simps]: "onLedger f w = (Returned (fst (f (w_ledger w))), w\<lparr>w_ledger := snd (f (w_ledger w))\<rparr>)"

definition fromStore :: "(planning_store \<Rightarrow> 'a) \<Rightarrow> ('a \<Rightarrow> 'b cmd) \<Rightarrow> 'b cmd" where
  [step_simps]: "fromStore f k w = k (f (w_store w)) w"

definition newDate :: "runtime \<Rightarrow> js_date cmd" where
  [step_simps]: "newDate rt w = (Returned (rt_now rt (w_ticks w)), w\<lparr>w_ticks := Suc (w_ticks w)\<rparr>)"

definition randomUUID :: "runtime \<Rightarrow> string cmd" where
  [step_simps]: "randomUUID rt w = (Returned (rt_randomUUID rt (w_uuids w)), w\<lparr>w_uuids := Suc (w_uuids w)\<rparr>)"

text \<open>The store's \<^verbatim>\<open>executeRiskyMutation\<close> around a computation on the world.\<close>

definition risky :: "'a cmd \<Rightarrow> 'a result cmd" where
  "risky m w =
     (case m w of (r, w') \<Rightarrow>
        (case executeRiskyMutation (\<lambda>_. (r, w_store w')) (w_store w) of (r', st) \<Rightarrow> (r', w'\<lparr>w_store := st\<rparr>)))"

text \<open>
  \<^verbatim>\<open>try\<close> \<open>\<dots>\<close> \<^verbatim>\<open>catch\<close> of the command's own sentinel error: \<open>None\<close> when it was caught.
\<close>

definition catchDrift :: "'a cmd \<Rightarrow> 'a option cmd" where
  "catchDrift m w =
     (case m w of
        (Returned x, w') \<Rightarrow> (Returned (Some x), w')
      | (Thrown (DriftSentinel s), w') \<Rightarrow> (Returned None, w')
      | (Thrown e, w') \<Rightarrow> (Thrown e, w'))"

section \<open>Results and receipts\<close>

record command_result =
  cr_commandId :: string
  cr_resultingVersions :: "expected_version list"
  cr_proposalId :: "string option"
  cr_devTicketId :: "string option"
  cr_dependencyEdgeId :: "string option"

definition versioned :: "string \<Rightarrow> string \<Rightarrow> int \<Rightarrow> expected_version" where
  "versioned kind rid v = \<lparr>ev_recordKind = kind, ev_recordId = rid, ev_version = v\<rparr>"

definition expected :: "command_envelope \<Rightarrow> string \<Rightarrow> string \<Rightarrow> int option" where
  "expected envelope kind rid =
     (let values = filter (\<lambda>v. ev_recordKind v = kind \<and> ev_recordId v = rid) (env_expectedVersions envelope)
      in if length values = 1 then Some (ev_version (hd values)) else None)"

text \<open>
  The optimistic check \<^verbatim>\<open>version === null || row === null || row.version !== version\<close> of the commands, and
  the rest of the command for a current row.
\<close>

definition whenCurrent ::
  "int option \<Rightarrow> 'r option \<Rightarrow> ('r \<Rightarrow> int) \<Rightarrow> 'a cmd \<Rightarrow> (int \<Rightarrow> 'r \<Rightarrow> 'a cmd) \<Rightarrow> 'a cmd" where
  "whenCurrent version row rowVersion drift k =
     (case version of None \<Rightarrow> drift
      | Some v \<Rightarrow> (case row of None \<Rightarrow> drift | Some r \<Rightarrow> if rowVersion r \<noteq> v then drift else k v r))"

text \<open>\<^verbatim>\<open>value ?? {}\<close>\<close>

definition or_empty :: "js_value \<Rightarrow> js_value" where
  "or_empty v = (case v of JUndefined \<Rightarrow> JObject [] | JNull \<Rightarrow> JObject [] | _ \<Rightarrow> v)"

definition finalizeOrThrow :: "finalize_input \<Rightarrow> unit cmd" where
  "finalizeOrThrow i =
     andThen (onReceipts (finalizeTransaction i)) (\<lambda>r. case r of Inl e \<Rightarrow> throw (DomainThrow e) | Inr _ \<Rightarrow> ret ())"

definition rejection :: "command_envelope \<Rightarrow> string \<Rightarrow> string \<Rightarrow> js_object \<Rightarrow> string option \<Rightarrow> finalize_input" where
  "rejection envelope code message extra resultRef =
     \<lparr>fi_organizationId = env_organizationId envelope, fi_commandId = env_commandId envelope,
      fi_outcome = ReceiptRejected, fi_outcomeCode = Some code, fi_resultRef = resultRef,
      fi_resultSummary = Some (spread [(''message'', JString message)] extra), fi_resultingVersions = None\<rparr>"

definition reject :: "command_envelope \<Rightarrow> string \<Rightarrow> string \<Rightarrow> js_object \<Rightarrow> string option \<Rightarrow> 'a result cmd" where
  "reject envelope code message extra resultRef =
     andThen (finalizeOrThrow (rejection envelope code message extra resultRef)) (\<lambda>_. ret (err (failure code message)))"

abbreviation rejectWith :: "command_envelope \<Rightarrow> string \<Rightarrow> string \<Rightarrow> 'a result cmd" where
  "rejectWith envelope code message \<equiv> reject envelope code message [] None"

abbreviation rejectError :: "command_envelope \<Rightarrow> domain_error \<Rightarrow> 'a result cmd" where
  "rejectError envelope e \<equiv> rejectWith envelope (err_code e) (err_message e)"

definition string_field :: "js_object \<Rightarrow> string \<Rightarrow> string option" where
  "string_field summary name = (case map_get summary name of Some (JString s) \<Rightarrow> Some s | _ \<Rightarrow> None)"

definition replay :: "receipt_result \<Rightarrow> command_result result" where
  "replay receipt =
     (let summary = (case rr_resultSummary receipt of None \<Rightarrow> [] | Some s \<Rightarrow> s) in
      if rr_state receipt = ReceiptAccepted then
        ok \<lparr>cr_commandId = rr_commandId receipt,
            cr_resultingVersions = (case rr_resultingVersions receipt of None \<Rightarrow> [] | Some v \<Rightarrow> v),
            cr_proposalId = string_field summary ''proposalId'',
            cr_devTicketId = string_field summary ''devTicketId'',
            cr_dependencyEdgeId = string_field summary ''dependencyEdgeId''\<rparr>
      else err (failure
        (case rr_outcomeCode receipt of None \<Rightarrow> ''dev_board.command_rejected'' | Some c \<Rightarrow> c)
        (if rr_state receipt = Reserved then ''The command is already in progress.''
         else case string_field summary ''message'' of Some m \<Rightarrow> m | None \<Rightarrow> ''The command was rejected.'')))"

definition decisionReason :: "string \<Rightarrow> string result" where
  "decisionReason v =
     (let normalized = squish v in
      if length normalized = 0
      then err (failure ''dev_board.decision_reason_required'' ''A decision reason is required.'')
      else if length normalized > 4000
      then err (failure ''dev_board.decision_reason_too_long'' ''Decision reason must be 4000 characters or fewer.'')
      else ok normalized)"

section \<open>Ledger writes\<close>

definition not_serializable :: js_error where
  "not_serializable = TypeErr ''Ready contract content must be JSON serializable.''"

definition contentHash :: "runtime \<Rightarrow> js_object \<Rightarrow> (string \<Rightarrow> 'a cmd) \<Rightarrow> 'a cmd" where
  "contentHash rt content k =
     (case computeReadyContractContentHash (rt_sha256 rt) content of None \<Rightarrow> throw not_serializable | Some h \<Rightarrow> k h)"

definition ledgerOrThrow :: "(ledger \<Rightarrow> int result \<times> ledger) \<Rightarrow> unit cmd" where
  "ledgerOrThrow f = andThen (onLedger f) (\<lambda>r. case r of Inl e \<Rightarrow> throw (DomainThrow e) | Inr _ \<Rightarrow> ret ())"

definition planning :: "runtime \<Rightarrow> command_envelope \<Rightarrow> string \<Rightarrow> string \<Rightarrow> string \<Rightarrow> js_object \<Rightarrow> unit cmd" where
  "planning rt envelope aggregateId entryKind subject content =
     contentHash rt content (\<lambda>h.
       ledgerOrThrow (appendPlanningDecisionEntry
         \<lparr>pe_organizationId = env_organizationId envelope, pe_workspaceId = env_workspaceId envelope,
          pe_commandId = env_commandId envelope, pe_aggregateId = aggregateId, pe_entryKind = entryKind,
          pe_subject = subject, pe_contentHash = h, pe_content = content, pe_entrySequence = 0\<rparr>))"

definition activity :: "runtime \<Rightarrow> command_envelope \<Rightarrow> string \<Rightarrow> int \<Rightarrow> string \<Rightarrow> js_object \<Rightarrow> unit cmd" where
  "activity rt envelope aggregateId aggregateVersion eventName payload =
     andThen (newDate rt) (\<lambda>occurredAt.
       ledgerOrThrow (appendActivityEvent
         \<lparr>ae_organizationId = env_organizationId envelope, ae_workspaceId = env_workspaceId envelope,
          ae_aggregateId = aggregateId, ae_aggregateVersion = aggregateVersion, ae_eventName = eventName,
          ae_commandId = env_commandId envelope, ae_idempotencyKey = env_idempotencyKey envelope,
          ae_actor = env_actorRef envelope, ae_sourceKind = env_sourceKind envelope,
          ae_sourceRef = env_sourceRef envelope, ae_authorizationVersion = env_authorizationVersion envelope,
          ae_correlationId = env_correlationId envelope, ae_causationId = env_causationId envelope,
          ae_occurredAt = occurredAt, ae_payload = payload, ae_eventSequence = 0\<rparr>))"

definition acceptance ::
  "command_envelope \<Rightarrow> string \<Rightarrow> string \<Rightarrow> expected_version list \<Rightarrow> (string \<times> string) list \<Rightarrow> finalize_input" where
  "acceptance envelope outcomeCode resultRef versions ids =
     \<lparr>fi_organizationId = env_organizationId envelope, fi_commandId = env_commandId envelope,
      fi_outcome = ReceiptAccepted, fi_outcomeCode = Some outcomeCode, fi_resultRef = Some resultRef,
      fi_resultSummary = Some (map (\<lambda>(k, v). (k, JString v)) ids), fi_resultingVersions = Some versions\<rparr>"

definition accept ::
  "command_envelope \<Rightarrow> string \<Rightarrow> string \<Rightarrow> expected_version list \<Rightarrow> (string \<times> string) list \<Rightarrow> command_result result cmd" where
  "accept envelope outcomeCode resultRef resultingVersions ids =
     andThen (finalizeOrThrow (acceptance envelope outcomeCode resultRef resultingVersions ids)) (\<lambda>_.
       ret (ok \<lparr>cr_commandId = env_commandId envelope, cr_resultingVersions = resultingVersions,
                cr_proposalId = map_get ids ''proposalId'', cr_devTicketId = map_get ids ''devTicketId'',
                cr_dependencyEdgeId = map_get ids ''dependencyEdgeId''\<rparr>))"

text \<open>
  \<open>reserve\<close> yields a finished result (\<open>Inl\<close>, the test \<^verbatim>\<open>"ok" in reservation\<close>) or the reservation.
\<close>

definition reserve :: "command_envelope \<Rightarrow> (command_result result + receipt_result) cmd" where
  "reserve envelope =
     andThen (onReceipts (reserveOrReplay envelope)) (\<lambda>r.
       case r of
         Inl e \<Rightarrow> ret (Inl (err e))
       | Inr receipt \<Rightarrow>
           if rr_state receipt \<noteq> Reserved then ret (Inl (replay receipt))
           else case parseCommandActorRef (env_actorRef envelope) of
             Inl e \<Rightarrow>
               andThen (finalizeOrThrow (rejection envelope (err_code e) (err_message e) [] None))
                 (\<lambda>_. ret (Inl (err e)))
           | Inr _ \<Rightarrow> ret (Inr receipt))"

definition reserved :: "command_envelope \<Rightarrow> command_result result cmd \<Rightarrow> command_result result cmd" where
  "reserved envelope body =
     andThen (reserve envelope) (\<lambda>r. case r of Inl result \<Rightarrow> ret result | Inr _ \<Rightarrow> body)"

definition inTenant :: "runtime \<Rightarrow> command_envelope \<Rightarrow> 'a cmd \<Rightarrow> 'a cmd" where
  "inTenant rt envelope = withTenant (rt_database rt) undo_world (env_organizationId envelope)"

section \<open>Authorization\<close>

definition organizationOwnerOrAdmin :: "planning_store \<Rightarrow> command_envelope \<Rightarrow> bool" where
  "organizationOwnerOrAdmin st envelope \<longleftrightarrow>
     hasOrganizationRole st (env_organizationId envelope) (actor_stableId envelope) OwnerRole \<or>
     hasOrganizationRole st (env_organizationId envelope) (actor_stableId envelope) AdminRole"

definition authorizedDevTicketArchiveActor :: "planning_store \<Rightarrow> command_envelope \<Rightarrow> dev_ticket_row \<Rightarrow> bool" where
  "authorizedDevTicketArchiveActor st envelope ticket \<longleftrightarrow>
     actor_is_user envelope \<and>
     (actor_stableId envelope = t_humanOwnerUserId ticket \<or> organizationOwnerOrAdmin st envelope)"

definition authorizedProposalArchiveActor :: "planning_store \<Rightarrow> command_envelope \<Rightarrow> bool" where
  "authorizedProposalArchiveActor st envelope \<longleftrightarrow> actor_is_user envelope \<and> organizationOwnerOrAdmin st envelope"

definition authorizedLegacyImportActor :: "planning_store \<Rightarrow> command_envelope \<Rightarrow> bool" where
  "authorizedLegacyImportActor st envelope \<longleftrightarrow> actor_is_user envelope \<and> organizationOwnerOrAdmin st envelope"

definition dependencyLockStatus :: "runtime \<Rightarrow> string \<Rightarrow> string \<Rightarrow> string \<Rightarrow> lock_status cmd" where
  "dependencyLockStatus rt organizationId workspaceId devTicketId =
     withTenant (rt_database rt) undo_world organizationId
       (fromStore (\<lambda>st. dependencyLockStatus_store st organizationId workspaceId devTicketId) ret)"

section \<open>What the helpers keep\<close>

definition same_store :: "world \<Rightarrow> world \<Rightarrow> bool" where
  "same_store w w' \<longleftrightarrow> w_store w' = w_store w"

definition same_receipts :: "world \<Rightarrow> world \<Rightarrow> bool" where
  "same_receipts w w' \<longleftrightarrow> w_receipts w' = w_receipts w"

text \<open>The audit trail: receipts only advance and ledgers only grow.\<close>

definition trail :: "world \<Rightarrow> world \<Rightarrow> bool" where
  "trail w w' \<longleftrightarrow> receipts_advance (w_receipts w) (w_receipts w') \<and> ledger_extends (w_ledger w) (w_ledger w') \<and>
     w_uuids w \<le> w_uuids w' \<and> w_ticks w \<le> w_ticks w'"

interpretation store_frame: frame_relation same_store
  by unfold_locales (auto simp: same_store_def)

interpretation receipts_frame: frame_relation same_receipts
  by unfold_locales (auto simp: same_receipts_def)

interpretation trail_frame: frame_relation trail
  by unfold_locales (auto simp: trail_def intro: receipts_advance_trans ledger_extends_trans)

named_theorems silent \<open>steps that leave the store alone\<close>
named_theorems receiptless \<open>steps that leave the receipts alone\<close>
named_theorems trailed \<open>steps that keep the audit trail\<close>

lemmas [silent] = store_frame.keeps_rules
lemmas [receiptless] = receipts_frame.keeps_rules
lemmas [trailed] = trail_frame.keeps_rules

lemma silent_basic [silent]:
  "keeps same_store (onReceipts f)" "keeps same_store (onLedger h)" "keeps same_store (newDate rt)"
  "keeps same_store (randomUUID rt)"
  by (simp_all add: keeps_def same_store_def step_simps)

lemma receiptless_basic [receiptless]:
  "keeps same_receipts (onStore f)" "keeps same_receipts (stepStore m)" "keeps same_receipts (onLedger h)"
  "keeps same_receipts (newDate rt)" "keeps same_receipts (randomUUID rt)"
  by (simp_all add: keeps_def same_receipts_def step_simps)

lemma trailed_basic [trailed]:
  "keeps trail (onStore f)" "keeps trail (stepStore m)" "keeps trail (newDate rt)" "keeps trail (randomUUID rt)"
  by (simp_all add: keeps_def trail_def step_simps)

lemma keeps_fromStore [silent, receiptless, trailed]: "(\<And>x. keeps R (k x)) \<Longrightarrow> keeps R (fromStore f k)"
  by (simp add: keeps_def step_simps)

lemma keeps_whenCurrent [silent, receiptless, trailed]:
  "keeps R drift \<Longrightarrow> (\<And>v r. keeps R (k v r)) \<Longrightarrow> keeps R (whenCurrent version row rowVersion drift k)"
  by (simp add: whenCurrent_def split: option.splits)

lemma keeps_Let [silent, receiptless, trailed]: "(\<And>x. keeps R (k x)) \<Longrightarrow> keeps R (let x = v in k x)"
  by simp

lemma silent_contentHash [silent]: "(\<And>h. keeps same_store (k h)) \<Longrightarrow> keeps same_store (contentHash rt c k)"
  unfolding contentHash_def by (intro silent)

lemma receiptless_contentHash [receiptless]: "(\<And>h. keeps same_receipts (k h)) \<Longrightarrow> keeps same_receipts (contentHash rt c k)"
  unfolding contentHash_def by (intro receiptless)

lemma trailed_contentHash [trailed]: "(\<And>h. keeps trail (k h)) \<Longrightarrow> keeps trail (contentHash rt c k)"
  unfolding contentHash_def by (intro trailed)

lemma silent_ledger [silent]: "keeps same_store (planning rt e a k s c)" "keeps same_store (activity rt e a v n p)"
  unfolding planning_def activity_def ledgerOrThrow_def by (intro silent)+

lemma receiptless_ledger [receiptless]:
  "keeps same_receipts (planning rt e a k s c)" "keeps same_receipts (activity rt e a v n p)"
  unfolding planning_def activity_def ledgerOrThrow_def by (intro receiptless)+

lemma trailed_append [trailed]:
  "keeps trail (ledgerOrThrow (appendPlanningDecisionEntry x))" "keeps trail (ledgerOrThrow (appendActivityEvent y))"
  using planning_extends activity_extends
  by (auto simp: keeps_def trail_def ledgerOrThrow_def step_simps split: sum.splits)

lemma trailed_ledger [trailed]: "keeps trail (planning rt e a k s c)" "keeps trail (activity rt e a v n p)"
  unfolding planning_def activity_def by (intro trailed)+

lemma silent_finalize [silent]: "keeps same_store (finalizeOrThrow i)"
  unfolding finalizeOrThrow_def by (intro silent)

lemma trailed_finalize [trailed]: "keeps trail (finalizeOrThrow i)"
  using finalize_advances by (auto simp: keeps_def trail_def finalizeOrThrow_def step_simps Let_def split: sum.splits)

lemma silent_outcome [silent]: "keeps same_store (reject e c m x r)" "keeps same_store (accept e c rf v i)"
  unfolding reject_def accept_def by (intro silent)+

lemma trailed_outcome [trailed]: "keeps trail (reject e c m x r)" "keeps trail (accept e c rf v i)"
  unfolding reject_def accept_def by (intro trailed)+

lemma silent_reserve [silent]: "keeps same_store (reserve e)"
  unfolding reserve_def by (intro silent)

lemma trailed_reserve [trailed]: "keeps trail (reserve e)"
proof -
  have "keeps trail (onReceipts (reserveOrReplay e))"
    using reserve_advances by (simp add: keeps_def trail_def step_simps Let_def)
  then show ?thesis unfolding reserve_def by (intro trailed) auto
qed

lemma trailed_reserved [trailed]: "keeps trail body \<Longrightarrow> keeps trail (reserved e body)"
  unfolding reserved_def by (intro trailed)

lemma risky_world: "\<exists>st. snd (risky m w) = (snd (m w))\<lparr>w_store := st\<rparr>"
  by (auto simp: risky_def split: prod.splits)

lemma receiptless_risky [receiptless]: "keeps same_receipts m \<Longrightarrow> keeps same_receipts (risky m)"
  using risky_world[of m] by (auto simp: keeps_def same_receipts_def) (metis world.select_convs(2) world.surjective world.update_convs(1))

lemma trailed_risky [trailed]: "keeps trail m \<Longrightarrow> keeps trail (risky m)"
  unfolding keeps_def
proof
  fix w assume m: "\<forall>s. trail s (snd (m s))"
  obtain st where "snd (risky m w) = (snd (m w))\<lparr>w_store := st\<rparr>" using risky_world by blast
  with spec[OF m, of w] show "trail w (snd (risky m w))" by (simp add: trail_def)
qed

lemma snd_catchDrift: "snd (catchDrift m w) = snd (m w)"
  by (simp add: catchDrift_def split: prod.splits js_result.splits js_error.splits)

lemma keeps_catchDrift [silent, receiptless, trailed]: "keeps R m \<Longrightarrow> keeps R (catchDrift m)"
  by (simp add: keeps_def snd_catchDrift)

lemma keeps_inTenant:
  assumes "keeps R m" "\<And>w. R w w" "\<And>w w'. R w w' \<Longrightarrow> R w (undo_world w w')"
  shows "keeps R (inTenant rt e m)"
  unfolding keeps_def
proof
  fix w
  let ?org = "env_organizationId e"
  show "R w (snd (inTenant rt e m w))"
  proof (cases "is_uuid ?org \<and> session_ok (rt_database rt) ?org")
    case True
    have "R w (snd (m w))" using assms(1) by (simp add: keeps_def)
    then show ?thesis using True assms(3)[of w "snd (m w)"]
      by (auto simp: inTenant_def withTenant_entry split: prod.splits js_result.splits)
  next
    case False
    then obtain er where "inTenant rt e m w =
        (Thrown er, if is_uuid ?org \<and> db_rollsBack (rt_database rt) then undo_world w w else w)"
      unfolding inTenant_def by (rule withTenant_refused)
    then show ?thesis using assms(2,3) by auto
  qed
qed

lemma trailed_inTenant [trailed]: "keeps trail m \<Longrightarrow> keeps trail (inTenant rt e m)"
  by (erule keeps_inTenant) (auto simp: trail_def undo_world_def)

end
