(* ===== verification/Command_Laws.thy ===== *)
theory Command_Laws
  imports Command_Spine
begin

text \<open>
  Laws of the command spine, proved once for every command body: a body settles its receipt with the
  outcome it returns (\<open>settles\<close>), so a repeated command replays the recorded outcome and does nothing
  else; and a rule set (\<open>leads\<close>) that carries a relation on stores along the guards of a body.
\<close>

section \<open>Bodies settle their receipt\<close>

definition settles :: "command_envelope \<Rightarrow> command_result result cmd \<Rightarrow> bool" where
  "settles e m \<longleftrightarrow> (\<forall>w r w'. m w = (Returned r, w') \<longrightarrow>
     (\<exists>i. finalizeTransaction i (w_receipts w) = (ok (), w_receipts w') \<and>
          fi_organizationId i = env_organizationId e \<and> fi_commandId i = env_commandId e \<and> fi_outcome i \<noteq> Reserved \<and>
          replay (receiptResult (finalized_record i (reserved_record e))) = r))"

named_theorems settling \<open>composition rules for bodies that settle their receipt\<close>

lemma finalizeOrThrow_Returned:
  "finalizeOrThrow i w = (Returned u, w') \<longleftrightarrow>
     fst (finalizeTransaction i (w_receipts w)) = ok () \<and> w' = w\<lparr>w_receipts := snd (finalizeTransaction i (w_receipts w))\<rparr>"
  by (auto simp: finalizeOrThrow_def step_simps split: sum.splits)

lemma spread_fresh: "map_get extra k = None \<Longrightarrow> map_get (spread base extra) k = map_get base k"
  by (induction extra arbitrary: base) (auto simp: spread_def split: if_splits)

lemma settles_finalize:
  assumes "fi_organizationId i = env_organizationId e" "fi_commandId i = env_commandId e" "fi_outcome i \<noteq> Reserved"
    and "replay (receiptResult (finalized_record i (reserved_record e))) = r"
  shows "settles e (andThen (finalizeOrThrow i) (\<lambda>_. ret r))"
  unfolding settles_def
proof (intro allI impI)
  fix w r' w' assume "andThen (finalizeOrThrow i) (\<lambda>_. ret r) w = (Returned r', w')"
  then have "finalizeOrThrow i w = (Returned (), w')" "r' = r"
    by (auto simp: andThen_def ret_def split: prod.splits js_result.splits)
  then have "finalizeTransaction i (w_receipts w) = (ok (), w_receipts w')"
    unfolding finalizeOrThrow_Returned by (cases "finalizeTransaction i (w_receipts w)") auto
  with assms \<open>r' = r\<close> show "\<exists>i. finalizeTransaction i (w_receipts w) = (ok (), w_receipts w') \<and>
      fi_organizationId i = env_organizationId e \<and> fi_commandId i = env_commandId e \<and> fi_outcome i \<noteq> Reserved \<and>
      replay (receiptResult (finalized_record i (reserved_record e))) = r'" by blast
qed

lemma settles_reject:
  assumes "map_get extra ''message'' = None"
  shows "settles e (reject e c m extra ref)"
proof -
  have "replay (receiptResult (finalized_record (rejection e c m extra ref) (reserved_record e))) = err (failure c m)"
    using spread_fresh[OF assms, of "[(''message'', JString m)]"]
    by (simp add: replay_def receiptResult_def receipt_result.truncate_def finalized_record_def rejection_def
        reserved_record_def given_def string_field_def)
  then show ?thesis unfolding reject_def by (intro settles_finalize) (simp_all add: rejection_def)
qed

lemma settles_rejectWith [settling]: "settles e (rejectWith e c m)"
  by (simp add: settles_reject)

lemma string_field_ids: "string_field (map (\<lambda>(k, v). (k, JString v)) ids) n = map_get ids n"
  by (induction ids) (auto simp: string_field_def)

lemma settles_accept [settling]: "settles e (accept e c ref versions ids)"
proof -
  have "replay (receiptResult (finalized_record (acceptance e c ref versions ids) (reserved_record e))) =
      ok \<lparr>cr_commandId = env_commandId e, cr_resultingVersions = versions, cr_proposalId = map_get ids ''proposalId'',
          cr_devTicketId = map_get ids ''devTicketId'', cr_dependencyEdgeId = map_get ids ''dependencyEdgeId''\<rparr>"
    by (simp add: replay_def receiptResult_def receipt_result.truncate_def finalized_record_def acceptance_def
        reserved_record_def given_def string_field_ids)
  then show ?thesis unfolding accept_def by (intro settles_finalize) (simp_all add: acceptance_def)
qed

lemma settles_throw [settling]: "settles e (throw er)"
  by (simp add: settles_def step_simps)

lemma settles_fromStore [settling]: "(\<And>x. settles e (k x)) \<Longrightarrow> settles e (fromStore f k)"
  by (simp add: settles_def step_simps)

lemma settles_contentHash [settling]: "(\<And>h. settles e (k h)) \<Longrightarrow> settles e (contentHash rt c k)"
  by (cases "computeReadyContractContentHash (rt_sha256 rt) c") (simp_all add: contentHash_def settles_throw)

lemma settles_whenCurrent [settling]:
  "settles e drift \<Longrightarrow> (\<And>v r. settles e (k v r)) \<Longrightarrow> settles e (whenCurrent version row rowVersion drift k)"
  by (simp add: whenCurrent_def split: option.splits)

lemma settles_Let [settling]: "(\<And>x. settles e (k x)) \<Longrightarrow> settles e (let x = v in k x)"
  by simp

lemma settles_andThen [settling]:
  assumes "keeps same_receipts m" "\<And>x. settles e (k x)"
  shows "settles e (andThen m k)"
  unfolding settles_def
proof (intro allI impI)
  fix w r w' assume "andThen m k w = (Returned r, w')"
  then obtain x w1 where "m w = (Returned x, w1)" "k x w1 = (Returned r, w')"
    by (auto simp: andThen_def split: prod.splits js_result.splits)
  moreover have "w_receipts w1 = w_receipts w" using assms(1) calculation(1)
    by (auto simp: keeps_def same_receipts_def dest: spec[of _ w])
  ultimately show "\<exists>i. finalizeTransaction i (w_receipts w) = (ok (), w_receipts w') \<and>
      fi_organizationId i = env_organizationId e \<and> fi_commandId i = env_commandId e \<and> fi_outcome i \<noteq> Reserved \<and>
      replay (receiptResult (finalized_record i (reserved_record e))) = r"
    using assms(2)[of x] unfolding settles_def by metis
qed

lemma settles_if [settling]: "(b \<Longrightarrow> settles e m) \<Longrightarrow> (\<not> b \<Longrightarrow> settles e m') \<Longrightarrow> settles e (if b then m else m')"
  by simp

lemma settles_case_option [settling]:
  "settles e m \<Longrightarrow> (\<And>x. settles e (k x)) \<Longrightarrow> settles e (case v of None \<Rightarrow> m | Some x \<Rightarrow> k x)"
  by (cases v) simp_all

lemma settles_case_sum [settling]:
  "(\<And>x. settles e (h x)) \<Longrightarrow> (\<And>x. settles e (k x)) \<Longrightarrow> settles e (case v of Inl x \<Rightarrow> h x | Inr x \<Rightarrow> k x)"
  by (cases v) simp_all

lemma settles_case_prod [settling]: "(\<And>x y. settles e (k x y)) \<Longrightarrow> settles e (case v of (x, y) \<Rightarrow> k x y)"
  by (cases v) simp

section \<open>Replay\<close>

definition quiescent :: "world \<Rightarrow> bool" where
  "quiescent w \<longleftrightarrow> receipts_wf (w_receipts w) \<and> all_terminal (w_receipts w)"

lemma settles_actor:
  "settles e (andThen (finalizeOrThrow (rejection e (err_code invalid_actor) (err_message invalid_actor) [] None))
     (\<lambda>_. ret (err invalid_actor)))"
  using settles_reject[of "[]" e "err_code invalid_actor" "err_message invalid_actor" None]
  by (simp add: reject_def invalid_actor_def)

lemma parseCommandActorRef_err: "parseCommandActorRef v = err d \<Longrightarrow> d = invalid_actor"
  by (auto simp: parseCommandActorRef_def parseEnum_def split: js_value.splits option.splits sum.splits if_splits)

lemma reserved_fresh:
  assumes "map_get (w_receipts w) (receiptKey (envelope_lookup e)) = None" "settles e body"
    and "reserved e body w = (Returned r, w')"
  obtains i where
    "finalizeTransaction i (map_set (receiptKey (envelope_lookup e)) (reserved_record e) (w_receipts w)) = (ok (), w_receipts w')"
    "fi_organizationId i = env_organizationId e" "fi_commandId i = env_commandId e" "fi_outcome i \<noteq> Reserved"
    "replay (receiptResult (finalized_record i (reserved_record e))) = r"
proof -
  let ?w1 = "w\<lparr>w_receipts := map_set (receiptKey (envelope_lookup e)) (reserved_record e) (w_receipts w)\<rparr>"
  have "(case parseCommandActorRef (env_actorRef e) of
      Inl d \<Rightarrow> andThen (finalizeOrThrow (rejection e (err_code d) (err_message d) [] None)) (\<lambda>_. ret (err d))
    | Inr _ \<Rightarrow> body) ?w1 = (Returned r, w')"
    using assms(1,3)
    by (auto simp: reserved_def reserve_def andThen_def onReceipts_def reserveOrReplay_def Let_def ret_def
        split: sum.splits prod.splits js_result.splits)
  moreover have "settles e (case parseCommandActorRef (env_actorRef e) of
      Inl d \<Rightarrow> andThen (finalizeOrThrow (rejection e (err_code d) (err_message d) [] None)) (\<lambda>_. ret (err d))
    | Inr _ \<Rightarrow> body)"
    using assms(2) settles_actor by (auto dest: parseCommandActorRef_err split: sum.splits)
  ultimately show ?thesis using that by (fastforce simp: settles_def)
qed

lemma reserved_terminal:
  assumes "map_get (w_receipts w) (receiptKey (envelope_lookup e)) = Some rec" "rr_state rec \<noteq> Reserved"
  shows "reserved e body w =
    (Returned (if rk_requestHash rec = env_requestHash e then replay (receiptResult rec) else err idempotencyConflict), w)"
  using assms
  by (simp add: reserved_def reserve_def andThen_def onReceipts_def reserveOrReplay_def Let_def ret_def
      receiptResult_def receipt_result.truncate_def)

lemma reserved_replays:
  assumes q: "quiescent w" and s: "settles e body" and run: "reserved e body w = (Returned r, w')"
  shows "quiescent w' \<and> (\<forall>w'' body'. receipts_advance (w_receipts w') (w_receipts w'') \<longrightarrow>
    reserved e body' w'' = (Returned r, w''))"
proof (cases "map_get (w_receipts w) (receiptKey (envelope_lookup e))")
  case (Some rec)
  have wf: "receipts_wf (w_receipts w)" using q by (simp add: quiescent_def)
  have "rr_state rec \<noteq> Reserved" using q Some by (auto simp: quiescent_def all_terminal_def dest: map_of_SomeD)
  note here = reserved_terminal[OF Some this, of body]
  have "reserved e body' w'' = (Returned r, w'')" if "receipts_advance (w_receipts w) (w_receipts w'')" for w'' body'
  proof -
    from that wf Some \<open>rr_state rec \<noteq> Reserved\<close>
    have "map_get (w_receipts w'') (receiptKey (envelope_lookup e)) = Some rec" by (force simp: receipts_advance_def)
    from reserved_terminal[OF this \<open>rr_state rec \<noteq> Reserved\<close>] here run show ?thesis by simp
  qed
  with here run q show ?thesis by auto
next
  case None
  let ?k = "receiptKey (envelope_lookup e)"
  obtain i where i: "finalizeTransaction i (map_set ?k (reserved_record e) (w_receipts w)) = (ok (), w_receipts w')"
      "fi_organizationId i = env_organizationId e" "fi_commandId i = env_commandId e" "fi_outcome i \<noteq> Reserved"
      "replay (receiptResult (finalized_record i (reserved_record e))) = r"
    using reserved_fresh[OF None s run] by blast
  let ?rec = "finalized_record i (reserved_record e)"
  have wf: "receipts_wf (w_receipts w)" and at: "all_terminal (w_receipts w)" using q by (auto simp: quiescent_def)
  from finalize_reserved[OF wf at None refl i(2,3,4,1)]
  have m2: "map_get (w_receipts w') ?k = Some ?rec" "all_terminal (w_receipts w')" by auto
  have wf': "receipts_wf (w_receipts w')"
    using finalize_advances[of "map_set ?k (reserved_record e) (w_receipts w)" i] i(1) wf receipts_wf_set[OF wf, of ?k "reserved_record e"]
    by (simp add: receipts_advance_def)
  have tm: "rr_state ?rec \<noteq> Reserved" "rk_requestHash ?rec = env_requestHash e"
    using i(4) by (simp_all add: finalized_record_def reserved_record_def)
  have "reserved e body' w'' = (Returned r, w'')" if "receipts_advance (w_receipts w') (w_receipts w'')" for w'' body'
  proof -
    from that wf' m2(1) tm(1) have "map_get (w_receipts w'') ?k = Some ?rec" by (force simp: receipts_advance_def)
    from reserved_terminal[OF this tm(1)] tm(2) i(5) show ?thesis by simp
  qed
  with wf' m2(2) show ?thesis by (auto simp: quiescent_def)
qed

section \<open>Relations on stores along a body\<close>

text \<open>
  \<open>leads P w m\<close>: running \<open>m\<close> from \<open>w\<close> takes the store of \<open>w\<close> to one related by \<open>P\<close>.
\<close>

definition leads :: "(planning_store \<Rightarrow> planning_store \<Rightarrow> bool) \<Rightarrow> world \<Rightarrow> 'a cmd \<Rightarrow> bool" where
  "leads P w m \<longleftrightarrow> P (w_store w) (w_store (snd (m w)))"

locale store_relation =
  fixes P :: "planning_store \<Rightarrow> planning_store \<Rightarrow> bool"
  assumes P_refl: "P st st"
    and P_trans: "P a b \<Longrightarrow> P b c \<Longrightarrow> P a c"
begin

lemma leads_silent: "keeps same_store m \<Longrightarrow> leads P w m"
  by (simp add: leads_def keeps_def same_store_def P_refl)

lemma leads_fromStore: "leads P w (k (f (w_store w))) \<Longrightarrow> leads P w (fromStore f k)"
  by (simp add: leads_def step_simps)

lemma leads_if: "(b \<Longrightarrow> leads P w m) \<Longrightarrow> (\<not> b \<Longrightarrow> leads P w m') \<Longrightarrow> leads P w (if b then m else m')"
  by simp

lemma leads_case_option:
  "(v = None \<Longrightarrow> leads P w m) \<Longrightarrow> (\<And>x. v = Some x \<Longrightarrow> leads P w (k x)) \<Longrightarrow>
     leads P w (case v of None \<Rightarrow> m | Some x \<Rightarrow> k x)"
  by (cases v) simp_all

lemma leads_case_sum:
  "(\<And>x. v = Inl x \<Longrightarrow> leads P w (h x)) \<Longrightarrow> (\<And>x. v = Inr x \<Longrightarrow> leads P w (k x)) \<Longrightarrow>
     leads P w (case v of Inl x \<Rightarrow> h x | Inr x \<Rightarrow> k x)"
  by (cases v) simp_all

lemma leads_whenCurrent:
  assumes "keeps same_store drift"
    and "\<And>v r. version = Some v \<Longrightarrow> row = Some r \<Longrightarrow> rowVersion r = v \<Longrightarrow> leads P w (k v r)"
  shows "leads P w (whenCurrent version row rowVersion drift k)"
  using assms leads_silent[OF assms(1)] by (simp add: whenCurrent_def split: option.splits)

lemma leads_Let: "(\<And>x. x = v \<Longrightarrow> leads P w (k x)) \<Longrightarrow> leads P w (let x = v in k x)"
  by simp

lemma leads_contentHash:
  "(\<And>h. computeReadyContractContentHash (rt_sha256 rt) c = Some h \<Longrightarrow> leads P w (k h)) \<Longrightarrow> leads P w (contentHash rt c k)"
  by (cases "computeReadyContractContentHash (rt_sha256 rt) c")
    (simp_all add: contentHash_def leads_silent silent)

text \<open>A silent first step: the rest starts from the same store.\<close>

lemma leads_andThen_silent:
  assumes "keeps same_store m" "\<And>x w1. m w = (Returned x, w1) \<Longrightarrow> w_store w1 = w_store w \<Longrightarrow> leads P w1 (k x)"
  shows "leads P w (andThen m k)"
proof (cases "m w")
  case (Pair r w1)
  then have "w_store w1 = w_store w" using assms(1) by (auto simp: keeps_def same_store_def dest: spec[of _ w])
  then show ?thesis using Pair assms(2)
    by (cases r) (auto simp: leads_def andThen_def P_refl)
qed

text \<open>One changing step followed by silent ones.\<close>

lemma leads_andThen_last:
  assumes "leads P w m" "\<And>x. keeps same_store (k x)"
  shows "leads P w (andThen m k)"
  using assms by (auto simp: leads_def andThen_def keeps_def same_store_def split: prod.splits js_result.splits)

text \<open>Two changing steps.\<close>

lemma leads_andThen:
  assumes "leads P w m" "\<And>x w1. m w = (Returned x, w1) \<Longrightarrow> leads P w1 (k x)"
  shows "leads P w (andThen m k)"
proof (cases "m w")
  case (Pair r w1)
  show ?thesis
  proof (cases r)
    case (Returned x)
    with Pair have "P (w_store w) (w_store w1)" "P (w_store w1) (w_store (snd (k x w1)))"
      using assms(1) assms(2)[of x w1] by (simp_all add: leads_def)
    with Pair Returned show ?thesis by (auto simp: leads_def andThen_def intro: P_trans)
  next
    case (Thrown er)
    with Pair assms(1) show ?thesis by (simp add: leads_def andThen_def)
  qed
qed

lemma leads_catchDrift: "leads P w m \<Longrightarrow> leads P w (catchDrift m)"
  by (simp add: leads_def snd_catchDrift)

lemma leads_inTenant:
  assumes "leads P w m"
  shows "leads P w (inTenant rt e m)"
proof (cases "is_uuid (env_organizationId e) \<and> session_ok (rt_database rt) (env_organizationId e)")
  case True
  then show ?thesis using assms
    by (auto simp: leads_def inTenant_def withTenant_entry undo_world_def P_refl split: prod.splits js_result.splits)
next
  case False
  then obtain er where "inTenant rt e m w =
      (Thrown er, if is_uuid (env_organizationId e) \<and> db_rollsBack (rt_database rt) then undo_world w w else w)"
    unfolding inTenant_def by (rule withTenant_refused)
  then show ?thesis by (simp add: leads_def undo_world_def P_refl)
qed

lemma leads_reserved:
  assumes "\<And>w1. w_store w1 = w_store w \<Longrightarrow> parseCommandActorRef (env_actorRef e) \<noteq> err invalid_actor \<Longrightarrow> leads P w1 body"
  shows "leads P w (reserved e body)"
  unfolding reserved_def
proof (rule leads_andThen_silent[OF silent_reserve])
  fix x w1 assume res: "reserve e w = (Returned x, w1)" and same: "w_store w1 = w_store w"
  show "leads P w1 (case x of Inl result \<Rightarrow> ret result | Inr _ \<Rightarrow> body)"
  proof (cases x)
    case (Inl result)
    then show ?thesis by (simp add: leads_silent silent)
  next
    case (Inr receipt)
    with res have "parseCommandActorRef (env_actorRef e) \<noteq> err invalid_actor"
      by (auto simp: reserve_def andThen_def onReceipts_def ret_def split: sum.splits if_splits prod.splits js_result.splits)
    with assms[OF same] Inr show ?thesis by simp
  qed
qed

lemmas leads_rules = leads_fromStore leads_if leads_case_option leads_case_sum leads_contentHash leads_whenCurrent leads_Let

end

text \<open>A risky mutation: its store effect, or nothing.\<close>

lemma risky_store:
  assumes "m w = (r, w')" "grants_kept (w_store w) (w_store w')"
  shows "w_store (snd (risky m w)) = (case r of Returned _ \<Rightarrow> w_store w' | Thrown _ \<Rightarrow> w_store w)"
  using assms restore_maps_same[of "w_store w'" "w_store w"]
  by (auto simp: risky_def executeRiskyMutation_def grants_kept_def split: js_result.splits js_error.splits)

lemma risky_Returned:
  "risky m w = (Returned (ok x), w') \<longleftrightarrow> m w = (Returned x, w')"
  by (auto simp: risky_def executeRiskyMutation_def split: prod.splits js_result.splits js_error.splits if_splits)

end
