(* ===== verification/Proposal_Commands.thy ===== *)
theory Proposal_Commands
  imports Command_Laws
begin

text \<open>
  The proposal commands of \<^verbatim>\<open>application/dev-board-planning-commands.ts\<close>: draft, submit, accept,
  merge, reject, archive and restore. Each command is its body run behind the reservation of the
  receipt inside the tenant transaction.
\<close>

record draft_proposal_input =
  dp_discoverySummary :: string
  dp_blockingAssessment :: js_value
  dp_suggestedContract :: js_value

record accept_proposal_input =
  acp_proposalId :: string
  acp_humanOwnerUserId :: string
  acp_initialContractContent :: js_value

record merge_proposal_input =
  mp_proposalId :: string
  mp_existingDevTicketId :: string
  mp_reason :: string

record proposal_reason_input =
  pr_proposalId :: string
  pr_reason :: string

abbreviation proposalDrift :: "command_envelope \<Rightarrow> 'a result cmd" where
  "proposalDrift envelope \<equiv> rejectWith envelope ''dev_board.expected_version_drift'' ''Proposal version has changed.''"

definition proposal_update :: "command_envelope \<Rightarrow> string \<Rightarrow> int \<Rightarrow> proposal_state \<Rightarrow> update_proposal_input" where
  "proposal_update envelope pid version state =
     \<lparr>up_organizationId = env_organizationId envelope, up_workspaceId = env_workspaceId envelope,
      up_proposalId = pid, up_expectedVersion = version, up_lifecycleState = state,
      up_acceptedCommandId = None, up_acceptedDevTicketId = None,
      up_archivedAt = None, up_archivedByUserId = None, up_archivedReason = None\<rparr>"

definition proposalVersion :: "proposal_row \<Rightarrow> expected_version" where
  "proposalVersion p = versioned ''proposal'' (p_id p) (p_version p)"

definition ticketVersion :: "dev_ticket_row \<Rightarrow> expected_version" where
  "ticketVersion t = versioned ''dev_ticket'' (t_id t) (t_version t)"

section \<open>Draft and submit\<close>

definition draftProposal_body :: "runtime \<Rightarrow> command_envelope \<Rightarrow> draft_proposal_input \<Rightarrow> command_result result cmd" where
  "draftProposal_body rt envelope input =
     (case normalizeDiscoverySummary (dp_discoverySummary input) of
        Inl e \<Rightarrow> rejectError envelope e
      | Inr summary \<Rightarrow>
     (case parseBlockingAssessment (dp_blockingAssessment input) of
        Inl e \<Rightarrow> rejectError envelope e
      | Inr assessment \<Rightarrow>
     (case parseReadyContractContent (rt_sha256 rt) (or_empty (dp_suggestedContract input)) of
        Inl e \<Rightarrow> rejectError envelope e
      | Inr contract \<Rightarrow>
     andThen (risky (stepStore (insertProposal
         \<lparr>ip_id = env_targetAggregateId envelope, ip_organizationId = env_organizationId envelope,
          ip_workspaceId = env_workspaceId envelope, ip_discoverySummary = summary,
          ip_blockingAssessment = assessment, ip_suggestedContract = contract,
          ip_createdCommandId = env_commandId envelope\<rparr>))) (\<lambda>inserted.
     case inserted of
       Inl e \<Rightarrow> rejectError envelope e
     | Inr proposal \<Rightarrow>
         andThen (planning rt envelope (p_id proposal) ''ProposalDrafted'' ''Proposal drafted''
           [(''discoverySummary'', JString (p_discoverySummary proposal)),
            (''blockingAssessment'', JString (show_assessment (p_blockingAssessment proposal))),
            (''suggestedContract'', JObject (p_suggestedContract proposal))]) (\<lambda>_.
         accept envelope ''dev_board.proposal_drafted'' (p_id proposal) [proposalVersion proposal]
           [(''proposalId'', p_id proposal)])))))"

definition draftProposal :: "runtime \<Rightarrow> command_envelope \<Rightarrow> draft_proposal_input \<Rightarrow> command_result result cmd" where
  "draftProposal rt envelope input = inTenant rt envelope (reserved envelope (draftProposal_body rt envelope input))"

definition submitProposal_body :: "runtime \<Rightarrow> command_envelope \<Rightarrow> string \<Rightarrow> command_result result cmd" where
  "submitProposal_body rt envelope proposalId =
     fromStore (\<lambda>st. selectProposalForUpdate st (env_organizationId envelope) (env_workspaceId envelope) proposalId) (\<lambda>row.
     whenCurrent (expected envelope ''proposal'' proposalId) row p_version (proposalDrift envelope) (\<lambda>version proposal.
     if p_lifecycleState proposal \<noteq> ProposalDraft \<or> p_archivedAt proposal \<noteq> None
     then rejectWith envelope ''dev_board.proposal_not_draft'' ''Proposal is not a decision draft.''
     else andThen (risky (onStore (updateProposal (proposal_update envelope (p_id proposal) version AwaitingDecision)))) (\<lambda>changed.
     case changed of
       Inl e \<Rightarrow> rejectError envelope e
     | Inr None \<Rightarrow> proposalDrift envelope
     | Inr (Some updated) \<Rightarrow>
         andThen (activity rt envelope (p_id updated) (p_version updated) ''ProposalSubmitted''
           [(''lifecycleState'', JString (show_proposal_state (p_lifecycleState updated)))]) (\<lambda>_.
         accept envelope ''dev_board.proposal_submitted'' (p_id updated) [proposalVersion updated]
           [(''proposalId'', p_id updated)]))))"

definition submitProposal :: "runtime \<Rightarrow> command_envelope \<Rightarrow> string \<Rightarrow> command_result result cmd" where
  "submitProposal rt envelope proposalId =
     inTenant rt envelope (reserved envelope (submitProposal_body rt envelope proposalId))"

section \<open>Decisions\<close>

definition acceptProposal_body :: "runtime \<Rightarrow> command_envelope \<Rightarrow> accept_proposal_input \<Rightarrow> command_result result cmd" where
  "acceptProposal_body rt envelope input =
     fromStore (\<lambda>st. selectProposalForUpdate st (env_organizationId envelope) (env_workspaceId envelope) (acp_proposalId input)) (\<lambda>row.
     whenCurrent (expected envelope ''proposal'' (acp_proposalId input)) row p_version (proposalDrift envelope) (\<lambda>version proposal.
     if p_lifecycleState proposal \<noteq> AwaitingDecision \<or> p_archivedAt proposal \<noteq> None
     then rejectWith envelope ''dev_board.proposal_not_awaiting_decision'' ''Proposal is not awaiting a decision.''
     else fromStore (\<lambda>st. isActiveMember st (env_organizationId envelope) (acp_humanOwnerUserId input)) (\<lambda>member.
     if \<not> member
     then rejectWith envelope ''dev_board.human_owner_not_active_member'' ''Human Owner must be an active organization member.''
     else (case parseReadyContractContent (rt_sha256 rt) (or_empty (acp_initialContractContent input)) of
        Inl e \<Rightarrow> rejectError envelope e
      | Inr contract \<Rightarrow>
     andThen (risky (
       andThen (randomUUID rt) (\<lambda>tid.
       contentHash rt contract (\<lambda>h.
       andThen (stepStore (insertDevTicket
         \<lparr>it_id = tid, it_organizationId = env_organizationId envelope, it_workspaceId = env_workspaceId envelope,
          it_originKind = OriginProposal, it_sourceProposalId = Some (p_id proposal),
          it_humanOwnerUserId = acp_humanOwnerUserId input, it_readyContractContent = contract,
          it_readyContractContentHash = h, it_createdCommandId = env_commandId envelope\<rparr>)) (\<lambda>devTicket.
       andThen (onStore (updateProposal ((proposal_update envelope (p_id proposal) version Accepted)
         \<lparr>up_acceptedCommandId := Some (env_commandId envelope), up_acceptedDevTicketId := Some (t_id devTicket)\<rparr>))) (\<lambda>updated.
       ret (devTicket, updated))))))) (\<lambda>mutation.
     case mutation of
       Inl e \<Rightarrow> rejectError envelope e
     | Inr (devTicket, None) \<Rightarrow> proposalDrift envelope
     | Inr (devTicket, Some updated) \<Rightarrow>
         andThen (planning rt envelope (t_id devTicket) ''ContractVersionCreated'' ''Initial ready contract''
           [(''version'', JNumber (JInt (t_readyContractVersion devTicket))),
            (''content'', JObject (t_readyContractContent devTicket)),
            (''contentHash'', JString (t_readyContractContentHash devTicket))]) (\<lambda>_.
         andThen (activity rt envelope (p_id updated) (p_version updated) ''ProposalAccepted''
           [(''devTicketId'', JString (t_id devTicket))]) (\<lambda>_.
         andThen (activity rt envelope (t_id devTicket) (t_version devTicket) ''DevTicketCreated''
           [(''lane'', JString (show_lane (t_lane devTicket))),
            (''humanOwnerUserId'', JString (t_humanOwnerUserId devTicket))]) (\<lambda>_.
         accept envelope ''dev_board.proposal_accepted'' (t_id devTicket)
           [proposalVersion updated, ticketVersion devTicket]
           [(''proposalId'', p_id updated), (''devTicketId'', t_id devTicket)]))))))))"

definition acceptProposal :: "runtime \<Rightarrow> command_envelope \<Rightarrow> accept_proposal_input \<Rightarrow> command_result result cmd" where
  "acceptProposal rt envelope input = inTenant rt envelope (reserved envelope (acceptProposal_body rt envelope input))"

abbreviation mergeDrift :: "command_envelope \<Rightarrow> 'a result cmd" where
  "mergeDrift envelope \<equiv>
     rejectWith envelope ''dev_board.expected_version_drift'' ''Proposal or DevTicket version has changed.''"

definition mergeProposal_body :: "runtime \<Rightarrow> command_envelope \<Rightarrow> merge_proposal_input \<Rightarrow> command_result result cmd" where
  "mergeProposal_body rt envelope input =
     (case decisionReason (mp_reason input) of
        Inl e \<Rightarrow> rejectError envelope e
      | Inr reason \<Rightarrow>
     fromStore (\<lambda>st. selectProposalForUpdate st (env_organizationId envelope) (env_workspaceId envelope) (mp_proposalId input)) (\<lambda>prow.
     fromStore (\<lambda>st. selectDevTicketForUpdate st (env_organizationId envelope) (env_workspaceId envelope) (mp_existingDevTicketId input)) (\<lambda>trow.
     whenCurrent (expected envelope ''proposal'' (mp_proposalId input)) prow p_version (mergeDrift envelope) (\<lambda>proposalVersion' proposal.
     whenCurrent (expected envelope ''dev_ticket'' (mp_existingDevTicketId input)) trow t_version (mergeDrift envelope) (\<lambda>ticketVersion' ticket.
     if p_lifecycleState proposal \<noteq> AwaitingDecision \<or> p_archivedAt proposal \<noteq> None
     then rejectWith envelope ''dev_board.proposal_not_awaiting_decision'' ''Proposal is not awaiting a decision.''
     else if t_archivedAt ticket \<noteq> None
     then rejectWith envelope ''dev_board.dev_ticket_not_active'' ''DevTicket is archived and cannot receive a Proposal merge.''
     else andThen (risky (onStore (updateProposal (proposal_update envelope (p_id proposal) proposalVersion' Merged)))) (\<lambda>changed.
     case changed of
       Inl e \<Rightarrow> rejectError envelope e
     | Inr None \<Rightarrow> proposalDrift envelope
     | Inr (Some updated) \<Rightarrow>
         andThen (planning rt envelope (t_id ticket) ''ProposalDecisionRationaleRecorded'' ''Proposal merged into DevTicket''
           [(''proposalId'', JString (p_id proposal)), (''discoverySummary'', JString (p_discoverySummary proposal)),
            (''blockingAssessment'', JString (show_assessment (p_blockingAssessment proposal))),
            (''reason'', JString reason)]) (\<lambda>_.
         andThen (activity rt envelope (p_id updated) (p_version updated) ''ProposalMerged''
           [(''devTicketId'', JString (t_id ticket))]) (\<lambda>_.
         accept envelope ''dev_board.proposal_merged'' (p_id updated) [proposalVersion updated, ticketVersion ticket]
           [(''proposalId'', p_id updated), (''devTicketId'', t_id ticket)]))))))))"

definition mergeProposal :: "runtime \<Rightarrow> command_envelope \<Rightarrow> merge_proposal_input \<Rightarrow> command_result result cmd" where
  "mergeProposal rt envelope input = inTenant rt envelope (reserved envelope (mergeProposal_body rt envelope input))"

definition decideProposal_body ::
  "runtime \<Rightarrow> command_envelope \<Rightarrow> proposal_reason_input \<Rightarrow> proposal_state \<Rightarrow> string \<Rightarrow> string \<Rightarrow> string \<Rightarrow> command_result result cmd" where
  "decideProposal_body rt envelope input lifecycleState eventName outcomeCode subject =
     (case decisionReason (pr_reason input) of
        Inl e \<Rightarrow> rejectError envelope e
      | Inr reason \<Rightarrow>
     fromStore (\<lambda>st. selectProposalForUpdate st (env_organizationId envelope) (env_workspaceId envelope) (pr_proposalId input)) (\<lambda>row.
     whenCurrent (expected envelope ''proposal'' (pr_proposalId input)) row p_version (proposalDrift envelope) (\<lambda>version proposal.
     if p_lifecycleState proposal \<noteq> AwaitingDecision \<or> p_archivedAt proposal \<noteq> None
     then rejectWith envelope ''dev_board.proposal_not_awaiting_decision'' ''Proposal is not awaiting a decision.''
     else andThen (risky (onStore (updateProposal (proposal_update envelope (p_id proposal) version lifecycleState)))) (\<lambda>changed.
     case changed of
       Inl e \<Rightarrow> rejectError envelope e
     | Inr None \<Rightarrow> proposalDrift envelope
     | Inr (Some updated) \<Rightarrow>
         andThen (planning rt envelope (p_id updated) ''ProposalDecisionRationaleRecorded'' subject
           [(''reason'', JString reason)]) (\<lambda>_.
         andThen (activity rt envelope (p_id updated) (p_version updated) eventName
           [(''lifecycleState'', JString (show_proposal_state (p_lifecycleState updated)))]) (\<lambda>_.
         accept envelope outcomeCode (p_id updated) [proposalVersion updated] [(''proposalId'', p_id updated)]))))))"

definition decideProposal ::
  "runtime \<Rightarrow> command_envelope \<Rightarrow> proposal_reason_input \<Rightarrow> proposal_state \<Rightarrow> string \<Rightarrow> string \<Rightarrow> string \<Rightarrow> command_result result cmd" where
  "decideProposal rt envelope input lifecycleState eventName outcomeCode subject =
     inTenant rt envelope (reserved envelope
       (decideProposal_body rt envelope input lifecycleState eventName outcomeCode subject))"

definition rejectProposal :: "runtime \<Rightarrow> command_envelope \<Rightarrow> proposal_reason_input \<Rightarrow> command_result result cmd" where
  "rejectProposal rt envelope input =
     decideProposal rt envelope input Rejected ''ProposalRejected'' ''dev_board.proposal_rejected'' ''Proposal rejected''"

section \<open>Archive and restore\<close>

definition archiveProposal_body :: "runtime \<Rightarrow> command_envelope \<Rightarrow> proposal_reason_input \<Rightarrow> command_result result cmd" where
  "archiveProposal_body rt envelope input =
     (case decisionReason (pr_reason input) of
        Inl e \<Rightarrow> rejectError envelope e
      | Inr reason \<Rightarrow>
     fromStore (\<lambda>st. selectProposalForUpdate st (env_organizationId envelope) (env_workspaceId envelope) (pr_proposalId input)) (\<lambda>row.
     whenCurrent (expected envelope ''proposal'' (pr_proposalId input)) row p_version (proposalDrift envelope) (\<lambda>version proposal.
     if p_archivedAt proposal \<noteq> None
     then rejectWith envelope ''dev_board.proposal_already_archived'' ''Proposal is already archived.''
     else fromStore (\<lambda>st. authorizedProposalArchiveActor st envelope) (\<lambda>authorized.
     if \<not> authorized
     then rejectWith envelope ''dev_board.archive_authorization_required'' ''Archive requires an authorized organization owner or admin.''
     else andThen (risky (andThen (newDate rt) (\<lambda>now. onStore (updateProposal
         ((proposal_update envelope (p_id proposal) version (p_lifecycleState proposal))
           \<lparr>up_acceptedCommandId := p_acceptedCommandId proposal, up_acceptedDevTicketId := p_acceptedDevTicketId proposal,
            up_archivedAt := Some (Some now), up_archivedByUserId := Some (Some (actor_stableId envelope)),
            up_archivedReason := Some (Some reason)\<rparr>))))) (\<lambda>changed.
     case changed of
       Inl e \<Rightarrow> rejectError envelope e
     | Inr None \<Rightarrow> proposalDrift envelope
     | Inr (Some updated) \<Rightarrow>
         andThen (planning rt envelope (p_id updated) ''ProposalDecisionRationaleRecorded'' ''Proposal archived''
           [(''reason'', JString reason)]) (\<lambda>_.
         andThen (activity rt envelope (p_id updated) (p_version updated) ''ProposalArchived''
           [(''lifecycleState'', JString (show_proposal_state (p_lifecycleState updated)))]) (\<lambda>_.
         accept envelope ''dev_board.proposal_archived'' (p_id updated) [proposalVersion updated]
           [(''proposalId'', p_id updated)])))))))"

definition archiveProposal :: "runtime \<Rightarrow> command_envelope \<Rightarrow> proposal_reason_input \<Rightarrow> command_result result cmd" where
  "archiveProposal rt envelope input = inTenant rt envelope (reserved envelope (archiveProposal_body rt envelope input))"

definition restoreProposal_body :: "runtime \<Rightarrow> command_envelope \<Rightarrow> string \<Rightarrow> command_result result cmd" where
  "restoreProposal_body rt envelope proposalId =
     fromStore (\<lambda>st. selectProposalForUpdate st (env_organizationId envelope) (env_workspaceId envelope) proposalId) (\<lambda>row.
     whenCurrent (expected envelope ''proposal'' proposalId) row p_version (proposalDrift envelope) (\<lambda>version proposal.
     if p_archivedAt proposal = None
     then rejectWith envelope ''dev_board.proposal_not_archived'' ''Proposal is not archived.''
     else fromStore (\<lambda>st. authorizedProposalArchiveActor st envelope) (\<lambda>authorized.
     if \<not> authorized
     then rejectWith envelope ''dev_board.restore_authorization_required'' ''Restore requires an authorized organization owner or admin.''
     else andThen (risky (onStore (updateProposal
         ((proposal_update envelope (p_id proposal) (p_version proposal) (p_lifecycleState proposal))
           \<lparr>up_acceptedCommandId := p_acceptedCommandId proposal, up_acceptedDevTicketId := p_acceptedDevTicketId proposal,
            up_archivedAt := Some None, up_archivedByUserId := Some None, up_archivedReason := Some None\<rparr>)))) (\<lambda>changed.
     case changed of
       Inl e \<Rightarrow> rejectError envelope e
     | Inr None \<Rightarrow> proposalDrift envelope
     | Inr (Some updated) \<Rightarrow>
         andThen (planning rt envelope (p_id updated) ''ArchiveRestored'' ''Proposal restored''
           [(''restoredByUserId'', JString (actor_stableId envelope))]) (\<lambda>_.
         andThen (activity rt envelope (p_id updated) (p_version updated) ''ProposalRestored''
           [(''lifecycleState'', JString (show_proposal_state (p_lifecycleState updated)))]) (\<lambda>_.
         accept envelope ''dev_board.proposal_restored'' (p_id updated) [proposalVersion updated]
           [(''proposalId'', p_id updated)]))))))"

definition restoreProposal :: "runtime \<Rightarrow> command_envelope \<Rightarrow> string \<Rightarrow> command_result result cmd" where
  "restoreProposal rt envelope proposalId =
     inTenant rt envelope (reserved envelope (restoreProposal_body rt envelope proposalId))"

lemmas proposal_bodies = draftProposal_body_def submitProposal_body_def acceptProposal_body_def mergeProposal_body_def
  decideProposal_body_def archiveProposal_body_def restoreProposal_body_def

lemmas proposal_commands = draftProposal_def submitProposal_def acceptProposal_def mergeProposal_def
  decideProposal_def rejectProposal_def archiveProposal_def restoreProposal_def

section \<open>Every body settles its receipt and keeps the trail\<close>

lemma proposal_settles [settling]:
  "settles e (draftProposal_body rt e i)" "settles e (submitProposal_body rt e pid)"
  "settles e (acceptProposal_body rt e j)" "settles e (mergeProposal_body rt e k)"
  "settles e (decideProposal_body rt e l s n c t)" "settles e (archiveProposal_body rt e l)"
  "settles e (restoreProposal_body rt e pid)"
  unfolding proposal_bodies by (intro settling receiptless)+

lemma proposal_trailed [trailed]:
  "keeps trail (draftProposal_body rt e i)" "keeps trail (submitProposal_body rt e pid)"
  "keeps trail (acceptProposal_body rt e j)" "keeps trail (mergeProposal_body rt e k)"
  "keeps trail (decideProposal_body rt e l s n c t)" "keeps trail (archiveProposal_body rt e l)"
  "keeps trail (restoreProposal_body rt e pid)"
  unfolding proposal_bodies by (intro trailed)+

end
