(* ===== verification/Ticket_Commands.thy ===== *)
theory Ticket_Commands
  imports Proposal_Commands
begin

text \<open>
  The DevTicket commands of \<^verbatim>\<open>application/dev-board-planning-commands.ts\<close>: archive, restore,
  classification and the Ready approval that moves a ticket to Todo.
\<close>

definition RANK_STRIDE :: int where
  "RANK_STRIDE = 1000000"

definition FIRST_TODO_RANK :: int where
  "FIRST_TODO_RANK = 2 * RANK_STRIDE"

definition POSTGRES_BIGINT_MAX :: int where
  "POSTGRES_BIGINT_MAX = 9223372036854775807"

lemma bigint_max_limit: "POSTGRES_BIGINT_MAX = rank_limit"
  by (simp add: POSTGRES_BIGINT_MAX_def rank_limit_def)

record ticket_reason_input =
  tr_devTicketId :: string
  tr_reason :: string

record approve_input =
  ar_devTicketId :: string
  ar_readyContractContent :: js_value
  ar_expectedContractVersion :: int
  ar_expectedContractContentHash :: string
  ar_expectedTodoQueueVersion :: int

record set_classification_input =
  sc_devTicketId :: string
  sc_type :: js_value
  sc_workAreas :: js_value
  sc_priority :: js_value
  sc_severity :: js_value
  sc_declaredChangeRisk :: js_value
  sc_humanOwnerUserId :: "string option"

abbreviation ticketDrift :: "command_envelope \<Rightarrow> 'a result cmd" where
  "ticketDrift envelope \<equiv> rejectWith envelope ''dev_board.expected_version_drift'' ''DevTicket version has changed.''"

abbreviation queueDrift :: "command_envelope \<Rightarrow> 'a result cmd" where
  "queueDrift envelope \<equiv> rejectWith envelope ''dev_board.lane_queue_version_drift''
     ''Todo queue changed; reload and submit a new command/key.''"

definition opt_json :: "('a \<Rightarrow> string) \<Rightarrow> 'a option \<Rightarrow> js_value" where
  "opt_json f v = (case v of None \<Rightarrow> JNull | Some x \<Rightarrow> JString (f x))"

definition areas_json :: "work_area list \<Rightarrow> js_value" where
  "areas_json areas = JArray (map (\<lambda>a. JString (show_work_area a)) areas)"

section \<open>Leaving the Todo queue\<close>

text \<open>
  The commands that may take a ticket out of Todo first lock the queue header and compare its version
  when the ticket is in Todo; the rest of the command gets the expected version, or \<open>None\<close> for a ticket
  elsewhere.
\<close>

definition todoQueueGuard :: "command_envelope \<Rightarrow> lane \<Rightarrow> (int option \<Rightarrow> 'a result cmd) \<Rightarrow> 'a result cmd" where
  "todoQueueGuard envelope lane k =
     (if lane = Todo then
        andThen (onStore (getOrLockTodoQueueHeader (env_organizationId envelope) (env_workspaceId envelope))) (\<lambda>header.
          case expected envelope ''lane_queue'' ''todo'' of
            None \<Rightarrow> queueDrift envelope
          | Some v \<Rightarrow> if q_version header \<noteq> v then queueDrift envelope else k (Some v))
      else k None)"

definition leaveTodo :: "command_envelope \<Rightarrow> string \<Rightarrow> string \<Rightarrow> int option \<Rightarrow> int option cmd" where
  "leaveTodo envelope drift tid queue =
     (case queue of
        None \<Rightarrow> ret None
      | Some v \<Rightarrow>
          andThen (onStore (deleteTodoQueueMembership (env_organizationId envelope) (env_workspaceId envelope) tid)) (\<lambda>deleted.
          if \<not> deleted then throw (DriftSentinel drift)
          else andThen (onStore (casBumpTodoQueueVersion (env_organizationId envelope) (env_workspaceId envelope) v)) (\<lambda>bumped.
          case bumped of None \<Rightarrow> throw (DriftSentinel drift) | Some h \<Rightarrow> ret (Some (q_version h)))))"

definition queueVersions :: "int option \<Rightarrow> expected_version list" where
  "queueVersions v = (case v of None \<Rightarrow> [] | Some n \<Rightarrow> [versioned ''lane_queue'' ''todo'' n])"

section \<open>Archive and restore\<close>

definition archiveMutation ::
  "runtime \<Rightarrow> command_envelope \<Rightarrow> dev_ticket_row \<Rightarrow> string \<Rightarrow> int option \<Rightarrow> (dev_ticket_row \<times> int option) cmd" where
  "archiveMutation rt envelope ticket reason queue =
     andThen (leaveTodo envelope ''DevTicket version or Todo membership has changed.'' (t_id ticket) queue) (\<lambda>todoQueueVersion.
     andThen (newDate rt) (\<lambda>now.
     andThen (onStore (archiveDevTicket_store now
       \<lparr>at_organizationId = env_organizationId envelope, at_workspaceId = env_workspaceId envelope,
        at_devTicketId = t_id ticket, at_expectedVersion = t_version ticket,
        at_archivedByUserId = actor_stableId envelope, at_archivedReason = reason\<rparr>)) (\<lambda>updated.
     case updated of
       None \<Rightarrow> throw (DriftSentinel ''DevTicket version or Todo membership has changed.'')
     | Some row \<Rightarrow> ret (row, todoQueueVersion))))"

definition archiveDevTicket_body :: "runtime \<Rightarrow> command_envelope \<Rightarrow> ticket_reason_input \<Rightarrow> command_result result cmd" where
  "archiveDevTicket_body rt envelope input =
     (case decisionReason (tr_reason input) of
        Inl e \<Rightarrow> rejectError envelope e
      | Inr reason \<Rightarrow>
     fromStore (\<lambda>st. selectDevTicketForUpdate st (env_organizationId envelope) (env_workspaceId envelope) (tr_devTicketId input)) (\<lambda>row.
     whenCurrent (expected envelope ''dev_ticket'' (tr_devTicketId input)) row t_version (ticketDrift envelope) (\<lambda>version ticket.
     if t_archivedAt ticket \<noteq> None
     then rejectWith envelope ''dev_board.dev_ticket_already_archived'' ''DevTicket is already archived.''
     else fromStore (\<lambda>st. authorizedDevTicketArchiveActor st envelope ticket) (\<lambda>authorized.
     if \<not> authorized
     then rejectWith envelope ''dev_board.archive_authorization_required''
       ''Archive requires the Human Owner or an authorized organization owner or admin.''
     else fromStore (\<lambda>st. selectActiveBlockerEdges st (env_organizationId envelope) (env_workspaceId envelope) (t_id ticket)) (\<lambda>activeDependents.
     if length activeDependents > 0
     then rejectWith envelope ''dev_board.archive_active_dependents'' ''DevTicket has active dependents and cannot be archived.''
     else todoQueueGuard envelope (t_lane ticket) (\<lambda>queue.
     andThen (catchDrift (risky (archiveMutation rt envelope ticket reason queue))) (\<lambda>caught.
     case caught of
       None \<Rightarrow> rejectWith envelope ''dev_board.expected_version_drift'' ''DevTicket version or Todo membership has changed.''
     | Some (Inl e) \<Rightarrow> rejectError envelope e
     | Some (Inr (updated, todoQueueVersion)) \<Rightarrow>
         andThen (planning rt envelope (t_id updated) ''ArchiveRationaleRecorded'' ''DevTicket archived''
           [(''reason'', JString reason), (''archivedByUserId'', JString (actor_stableId envelope)),
            (''lastActiveLane'', opt_json show_lane (t_lastActiveLane updated))]) (\<lambda>_.
         andThen (activity rt envelope (t_id updated) (t_version updated) ''DevTicketArchived''
           [(''readyDeactivated'', JBool True), (''queueRemoved'', JBool (t_lane ticket = Todo)),
            (''lastActiveLane'', opt_json show_lane (t_lastActiveLane updated))]) (\<lambda>_.
         accept envelope ''dev_board.dev_ticket_archived'' (t_id updated)
           (ticketVersion updated # queueVersions todoQueueVersion) [(''devTicketId'', t_id updated)])))))))))"

definition archiveDevTicket :: "runtime \<Rightarrow> command_envelope \<Rightarrow> ticket_reason_input \<Rightarrow> command_result result cmd" where
  "archiveDevTicket rt envelope input = inTenant rt envelope (reserved envelope (archiveDevTicket_body rt envelope input))"

definition ticket_target :: "command_envelope \<Rightarrow> string \<Rightarrow> int \<Rightarrow> ticket_target_input" where
  "ticket_target envelope tid version =
     \<lparr>tt_organizationId = env_organizationId envelope, tt_workspaceId = env_workspaceId envelope,
      tt_devTicketId = tid, tt_expectedVersion = version\<rparr>"

definition restoreDevTicket_body :: "runtime \<Rightarrow> command_envelope \<Rightarrow> string \<Rightarrow> command_result result cmd" where
  "restoreDevTicket_body rt envelope devTicketId =
     fromStore (\<lambda>st. selectDevTicketForUpdate st (env_organizationId envelope) (env_workspaceId envelope) devTicketId) (\<lambda>row.
     whenCurrent (expected envelope ''dev_ticket'' devTicketId) row t_version (ticketDrift envelope) (\<lambda>version ticket.
     if t_archivedAt ticket = None
     then rejectWith envelope ''dev_board.dev_ticket_not_archived'' ''DevTicket is not archived.''
     else if t_lastActiveLane ticket = Some Done \<or> t_lane ticket = Done
     then rejectWith envelope ''dev_board.done_restore_history_only''
       ''Done DevTicket history cannot be restored to executable work.''
     else fromStore (\<lambda>st. authorizedDevTicketArchiveActor st envelope ticket) (\<lambda>authorized.
     if \<not> authorized
     then rejectWith envelope ''dev_board.restore_authorization_required''
       ''Restore requires the Human Owner or an authorized organization owner or admin.''
     else andThen (risky (onStore (restoreDevTicket_store (ticket_target envelope (t_id ticket) (t_version ticket))))) (\<lambda>changed.
     case changed of
       Inl e \<Rightarrow> rejectError envelope e
     | Inr None \<Rightarrow> ticketDrift envelope
     | Inr (Some updated) \<Rightarrow>
         andThen (planning rt envelope (t_id updated) ''ArchiveRestored'' ''DevTicket restored''
           [(''restoredByUserId'', JString (actor_stableId envelope)),
            (''lastActiveLane'', opt_json show_lane (t_lastActiveLane updated))]) (\<lambda>_.
         andThen (activity rt envelope (t_id updated) (t_version updated) ''DevTicketRestored''
           [(''lastActiveLane'', opt_json show_lane (t_lastActiveLane updated)), (''readyState'', JString ''draft'')]) (\<lambda>_.
         accept envelope ''dev_board.dev_ticket_restored'' (t_id updated) [ticketVersion updated]
           [(''devTicketId'', t_id updated)]))))))"

definition restoreDevTicket :: "runtime \<Rightarrow> command_envelope \<Rightarrow> string \<Rightarrow> command_result result cmd" where
  "restoreDevTicket rt envelope devTicketId =
     inTenant rt envelope (reserved envelope (restoreDevTicket_body rt envelope devTicketId))"

section \<open>Classification\<close>

definition classification_json ::
  "dev_ticket_type \<Rightarrow> work_area list \<Rightarrow> priority \<Rightarrow> severity option \<Rightarrow> change_risk option \<Rightarrow> js_object" where
  "classification_json ty areas prio sev risk =
     [(''type'', JString (show_type ty)), (''workAreas'', areas_json areas), (''priority'', JString (show_priority prio))] @
     (case sev of None \<Rightarrow> [] | Some s \<Rightarrow> [(''severity'', JString (show_severity s))]) @
     [(''declaredChangeRisk'', opt_json show_risk risk)]"

definition reasonCodes ::
  "dev_ticket_row \<Rightarrow> string \<Rightarrow> priority \<Rightarrow> change_risk \<Rightarrow> dev_ticket_type \<Rightarrow> work_area list \<Rightarrow> string list" where
  "reasonCodes ticket owner prio declared ty areas =
     (if t_humanOwnerUserId ticket \<noteq> owner then [''human_owner_changed''] else []) @
     (if t_priority ticket \<noteq> Some prio then [''priority_changed''] else []) @
     (if t_declaredChangeRisk ticket \<noteq> Some declared then [''change_risk_changed''] else []) @
     (if t_devTicketType ticket \<noteq> Some ty then [''type_changed''] else []) @
     (if t_workAreas ticket \<noteq> areas then [''work_areas_changed''] else [])"

definition classification_unchanged ::
  "dev_ticket_row \<Rightarrow> string \<Rightarrow> dev_ticket_type \<Rightarrow> work_area list \<Rightarrow> priority \<Rightarrow> severity option \<Rightarrow> change_risk \<Rightarrow>
   change_risk_evaluation \<Rightarrow> bool" where
  "classification_unchanged ticket owner ty areas prio sev declared evaluation \<longleftrightarrow>
     t_humanOwnerUserId ticket = owner \<and> t_devTicketType ticket = Some ty \<and> t_workAreas ticket = areas \<and>
     t_priority ticket = Some prio \<and> t_severity ticket = sev \<and> t_declaredChangeRisk ticket = Some declared \<and>
     t_minimumChangeRisk ticket = Some (minimumChangeRisk evaluation) \<and>
     t_changeRiskPolicyVersion ticket = Some (policyVersion evaluation) \<and>
     t_changeRiskPolicyHash ticket = Some (policyHash evaluation)"

definition parseOptionalSeverity :: "js_value \<Rightarrow> severity option result" where
  "parseOptionalSeverity v =
     (if v = JUndefined then ok None else case parseSeverity v of Inl e \<Rightarrow> err e | Inr s \<Rightarrow> ok (Some s))"

definition setDevTicketClassification_body ::
  "runtime \<Rightarrow> command_envelope \<Rightarrow> set_classification_input \<Rightarrow> command_result result cmd" where
  "setDevTicketClassification_body rt envelope input =
     fromStore (\<lambda>st. selectDevTicketForUpdate st (env_organizationId envelope) (env_workspaceId envelope) (sc_devTicketId input)) (\<lambda>row.
     whenCurrent (expected envelope ''dev_ticket'' (sc_devTicketId input)) row t_version (ticketDrift envelope) (\<lambda>version ticket.
     if t_lane ticket \<noteq> Backlog
     then rejectWith envelope ''dev_board.classification_revision_required''
       ''Classification changes require a governed revision outside Backlog.''
     else (case parseDevTicketType (sc_type input) of Inl e \<Rightarrow> rejectError envelope e | Inr ty \<Rightarrow>
     (case normalizeWorkAreas (sc_workAreas input) of Inl e \<Rightarrow> rejectError envelope e | Inr areas \<Rightarrow>
     (case parsePriority (sc_priority input) of Inl e \<Rightarrow> rejectError envelope e | Inr prio \<Rightarrow>
     (case parseChangeRisk (sc_declaredChangeRisk input) of Inl e \<Rightarrow> rejectError envelope e | Inr declared \<Rightarrow>
     (case parseOptionalSeverity (sc_severity input) of Inl e \<Rightarrow> rejectError envelope e | Inr sev \<Rightarrow>
     if sev \<noteq> None \<and> ty \<noteq> Bug
     then rejectWith envelope ''dev_board.classification_invalid'' ''Severity is permitted only for Bug DevTickets.''
     else (let owner = (case sc_humanOwnerUserId input of None \<Rightarrow> t_humanOwnerUserId ticket | Some u \<Rightarrow> u) in
     fromStore (\<lambda>st. isActiveMember st (env_organizationId envelope) owner) (\<lambda>member.
     if owner \<noteq> t_humanOwnerUserId ticket \<and> \<not> member
     then rejectWith envelope ''dev_board.human_owner_not_active_member'' ''Human Owner must be an active organization member.''
     else fromStore (\<lambda>st. hasActiveDependencies st (env_organizationId envelope) (env_workspaceId envelope) (t_id ticket)) (\<lambda>deps.
     let evaluation = evaluateChangeRisk (rt_sha256 rt) ty areas deps in
     if compareChangeRisk declared (minimumChangeRisk evaluation) < 0
     then rejectWith envelope ''dev_board.change_risk_below_policy_minimum'' ''Declared Change Risk is below the policy minimum.''
     else if classification_unchanged ticket owner ty areas prio sev declared evaluation
     then rejectWith envelope ''dev_board.classification_unchanged'' ''Classification is unchanged.''
     else (let classification = classification_json ty areas prio sev (Some declared);
               content = spread (t_readyContractContent ticket)
                 [(''humanOwnerUserId'', JString owner), (''classification'', JObject classification),
                  (''changeRiskPolicy'', evaluation_json evaluation)] in
     contentHash rt content (\<lambda>h.
     andThen (risky (onStore (updateDevTicketClassification
       \<lparr>cl_organizationId = env_organizationId envelope, cl_workspaceId = env_workspaceId envelope,
        cl_devTicketId = t_id ticket, cl_expectedVersion = t_version ticket, cl_humanOwnerUserId = owner,
        cl_devTicketType = ty, cl_workAreas = areas, cl_priority = prio, cl_severity = sev,
        cl_declaredChangeRisk = declared, cl_minimumChangeRisk = minimumChangeRisk evaluation,
        cl_changeRiskPolicyVersion = policyVersion evaluation, cl_changeRiskPolicyHash = policyHash evaluation,
        cl_readyContractContent = content, cl_readyContractContentHash = h\<rparr>))) (\<lambda>mutation.
     case mutation of
       Inl e \<Rightarrow> rejectError envelope e
     | Inr None \<Rightarrow> ticketDrift envelope
     | Inr (Some updated) \<Rightarrow>
         andThen (planning rt envelope (t_id updated) ''ClassificationMaterialityAssessed'' ''Classification materiality assessed''
           [(''base'', JObject [(''contractVersion'', JNumber (JInt (t_readyContractVersion ticket))),
               (''contentHash'', JString (t_readyContractContentHash ticket))]),
            (''result'', JObject [(''contractVersion'', JNumber (JInt (t_readyContractVersion updated))),
               (''contentHash'', JString (t_readyContractContentHash updated))]),
            (''old'', JObject [(''humanOwnerUserId'', JString (t_humanOwnerUserId ticket)),
               (''type'', opt_json show_type (t_devTicketType ticket)), (''workAreas'', areas_json (t_workAreas ticket)),
               (''priority'', opt_json show_priority (t_priority ticket)),
               (''severity'', opt_json show_severity (t_severity ticket)),
               (''declaredChangeRisk'', opt_json show_risk (t_declaredChangeRisk ticket))]),
            (''next'', JObject ((''humanOwnerUserId'', JString owner) # classification)),
            (''policyEvaluation'', evaluation_json evaluation), (''material'', JBool True),
            (''reasonCodes'', JArray (map JString (reasonCodes ticket owner prio declared ty areas)))]) (\<lambda>_.
         andThen (activity rt envelope (t_id updated) (t_version updated) ''DevTicketClassificationChanged''
           [(''classification'', JObject classification), (''humanOwnerUserId'', JString owner),
            (''policyEvaluation'', evaluation_json evaluation),
            (''consequences'', JObject [(''readyContractVersion'', JNumber (JInt (t_readyContractVersion updated)))])]) (\<lambda>_.
         accept envelope ''dev_board.classification_set'' (t_id updated) [ticketVersion updated]
           [(''devTicketId'', t_id updated)])))))))))))))))"

definition setDevTicketClassification ::
  "runtime \<Rightarrow> command_envelope \<Rightarrow> set_classification_input \<Rightarrow> command_result result cmd" where
  "setDevTicketClassification rt envelope input =
     inTenant rt envelope (reserved envelope (setDevTicketClassification_body rt envelope input))"

section \<open>Ready approval\<close>

text \<open>
  The rank that appends to the queue, and whether the queue is rebalanced first; \<open>None\<close> when the rank
  capacity is exhausted.
\<close>

definition appendRank :: "todo_membership list \<Rightarrow> (int \<times> bool) option" where
  "appendRank members =
     (let rank = (if members = [] then FIRST_TODO_RANK else m_rank (last members) + RANK_STRIDE) in
      if rank > POSTGRES_BIGINT_MAX then
        (if (int (length members) + 2) * RANK_STRIDE > POSTGRES_BIGINT_MAX then None
         else Some ((int (length members) + 2) * RANK_STRIDE, True))
      else Some (rank, False))"

definition withCanonical :: "js_value \<Rightarrow> (string \<Rightarrow> 'a cmd) \<Rightarrow> 'a cmd" where
  "withCanonical v k = (case canonicalJson v of None \<Rightarrow> throw not_serializable | Some s \<Rightarrow> k s)"

definition approvalMutation ::
  "runtime \<Rightarrow> command_envelope \<Rightarrow> dev_ticket_row \<Rightarrow> int \<Rightarrow> js_object \<Rightarrow> string \<Rightarrow> todo_membership list \<Rightarrow> int \<Rightarrow> bool \<Rightarrow>
   dev_ticket_row option cmd" where
  "approvalMutation rt envelope ticket version contract h members rank rebalanceBeforeAppend =
     andThen (onStore (updateDevTicketForReadyApproval
       \<lparr>ra_organizationId = env_organizationId envelope, ra_workspaceId = env_workspaceId envelope,
        ra_devTicketId = t_id ticket, ra_expectedVersion = version,
        ra_readyContractVersion = t_readyContractVersion ticket + 1, ra_readyContractContent = contract,
        ra_readyContractContentHash = h, ra_readyApprovedByUserId = actor_stableId envelope,
        ra_readyApprovalCommandId = env_commandId envelope\<rparr>)) (\<lambda>updated.
     case updated of
       None \<Rightarrow> ret None
     | Some row \<Rightarrow>
         andThen (if rebalanceBeforeAppend
           then onStore (\<lambda>st. ((), rebalanceTodoBand (env_organizationId envelope) (env_workspaceId envelope)
                  (map m_devTicketId members) st))
           else ret ()) (\<lambda>_.
         andThen (stepStore (insertTodoQueueMembership (env_organizationId envelope) (env_workspaceId envelope) (t_id row) rank)) (\<lambda>_.
         ret (Some row))))"

definition approveReadyToTodo_body :: "runtime \<Rightarrow> command_envelope \<Rightarrow> approve_input \<Rightarrow> command_result result cmd" where
  "approveReadyToTodo_body rt envelope input =
     fromStore (\<lambda>st. selectDevTicketForUpdate st (env_organizationId envelope) (env_workspaceId envelope) (ar_devTicketId input)) (\<lambda>row.
     whenCurrent (expected envelope ''dev_ticket'' (ar_devTicketId input)) row t_version (ticketDrift envelope) (\<lambda>version ticket.
     if t_lane ticket \<noteq> Backlog \<or> t_readyState ticket \<noteq> Draft \<or> t_archivedAt ticket \<noteq> None
     then rejectWith envelope ''dev_board.dev_ticket_not_ready_for_approval'' ''DevTicket is not an active Backlog draft.''
     else fromStore (\<lambda>st. authorizedDevTicketArchiveActor st envelope ticket) (\<lambda>authorized.
     if \<not> authorized
     then rejectWith envelope ''dev_board.ready_approval_human_authorization_required''
       ''Ready approval requires the Human Owner or an authorized admin.''
     else (case t_devTicketType ticket of
        None \<Rightarrow> rejectWith envelope ''dev_board.classification_type_required'' ''DevTicket type is required before Ready approval.''
      | Some ty \<Rightarrow>
     if length (t_workAreas ticket) = 0
     then rejectWith envelope ''dev_board.classification_work_areas_required'' ''At least one work area is required before Ready approval.''
     else (case t_priority ticket of
        None \<Rightarrow> rejectWith envelope ''dev_board.classification_priority_required'' ''Priority is required before Ready approval.''
      | Some prio \<Rightarrow>
     if t_readyContractVersion ticket \<noteq> ar_expectedContractVersion input \<or>
        t_readyContractContentHash ticket \<noteq> ar_expectedContractContentHash input
     then rejectWith envelope ''dev_board.stale_ready_contract'' ''Ready contract head has changed.''
     else (case parseReadyContractContent (rt_sha256 rt) (ar_readyContractContent input) of
        Inl e \<Rightarrow> rejectError envelope e
      | Inr contract \<Rightarrow>
     (case map_get contract ''classification'' of
        None \<Rightarrow> rejectWith envelope ''dev_board.ready_contract_missing_classification''
          ''Ready contract must bind the current classification and Human Owner.''
      | Some submittedClassification \<Rightarrow>
     (case map_get contract ''changeRiskPolicy'' of
        None \<Rightarrow> rejectWith envelope ''dev_board.ready_contract_missing_classification''
          ''Ready contract must bind the current classification and Human Owner.''
      | Some submittedPolicy \<Rightarrow>
     withCanonical submittedClassification (\<lambda>submitted.
     withCanonical (JObject (classification_json ty (t_workAreas ticket) prio (t_severity ticket) (t_declaredChangeRisk ticket))) (\<lambda>bound.
     if submitted \<noteq> bound \<or> map_get contract ''humanOwnerUserId'' \<noteq> Some (JString (t_humanOwnerUserId ticket))
     then rejectWith envelope ''dev_board.ready_contract_missing_classification''
       ''Ready contract must bind the current classification and Human Owner.''
     else (case (t_declaredChangeRisk ticket, t_minimumChangeRisk ticket, t_changeRiskPolicyVersion ticket, t_changeRiskPolicyHash ticket) of
        (Some declared, Some minimum, Some policyV, Some policyH) \<Rightarrow>
     fromStore (\<lambda>st. hasActiveDependencies st (env_organizationId envelope) (env_workspaceId envelope) (t_id ticket)) (\<lambda>deps.
     let currentPolicy = evaluateChangeRisk (rt_sha256 rt) ty (t_workAreas ticket) deps in
     if compareChangeRisk declared (minimumChangeRisk currentPolicy) < 0
     then rejectWith envelope ''dev_board.change_risk_below_policy_minimum'' ''Declared Change Risk is below the policy minimum.''
     else withCanonical submittedPolicy (\<lambda>submittedP.
     withCanonical (evaluation_json currentPolicy) (\<lambda>currentP.
     if minimum \<noteq> minimumChangeRisk currentPolicy \<or> policyV \<noteq> policyVersion currentPolicy \<or>
        policyH \<noteq> policyHash currentPolicy \<or> submittedP \<noteq> currentP
     then rejectWith envelope ''dev_board.change_risk_policy_drift'' ''Change Risk policy evaluation has drifted.''
     else contentHash rt contract (\<lambda>h.
     andThen (onStore (getOrLockTodoQueueHeader (env_organizationId envelope) (env_workspaceId envelope))) (\<lambda>header.
     if q_version header \<noteq> ar_expectedTodoQueueVersion input then queueDrift envelope
     else fromStore (\<lambda>st. listTodoQueueRanks (rt_localeCompare rt) st (env_organizationId envelope) (env_workspaceId envelope)) (\<lambda>members.
     (case appendRank members of
        None \<Rightarrow> rejectWith envelope ''dev_board.todo_rank_capacity_exhausted'' ''Todo rank capacity is exhausted.''
      | Some (rank, rebalanceBeforeAppend) \<Rightarrow>
     andThen (risky (approvalMutation rt envelope ticket version contract h members rank rebalanceBeforeAppend)) (\<lambda>changed.
     case changed of
       Inl e \<Rightarrow> rejectError envelope e
     | Inr None \<Rightarrow> ticketDrift envelope
     | Inr (Some updated) \<Rightarrow>
         andThen (onStore (casBumpTodoQueueVersion (env_organizationId envelope) (env_workspaceId envelope) (ar_expectedTodoQueueVersion input))) (\<lambda>bumped.
         case bumped of
           None \<Rightarrow> throw (PlainError ''Todo queue header drifted while locked.'')
         | Some bumpedQueue \<Rightarrow>
         andThen (planning rt envelope (t_id updated) ''ContractVersionCreated'' ''Ready contract approved''
           [(''version'', JNumber (JInt (t_readyContractVersion updated))),
            (''content'', JObject (t_readyContractContent updated)),
            (''contentHash'', JString (t_readyContractContentHash updated))]) (\<lambda>_.
         andThen (activity rt envelope (t_id updated) (t_version updated) ''ReadyApproved''
           [(''lane'', JString (show_lane (t_lane updated))),
            (''readyApprovalContractVersion'', (case t_readyApprovalContractVersion updated of None \<Rightarrow> JNull | Some v \<Rightarrow> JNumber (JInt v))),
            (''readyApprovalContentHash'', opt_json (\<lambda>x. x) (t_readyApprovalContentHash updated))]) (\<lambda>_.
         accept envelope ''dev_board.ready_approved_to_todo'' (t_id updated)
           [ticketVersion updated, versioned ''lane_queue'' ''todo'' (q_version bumpedQueue)]
           [(''devTicketId'', t_id updated)])))))))))))
      | _ \<Rightarrow> rejectWith envelope ''dev_board.ready_contract_missing_classification''
              ''Ready contract must bind the current Change Risk policy.'')))))))))))"

definition approveReadyToTodo :: "runtime \<Rightarrow> command_envelope \<Rightarrow> approve_input \<Rightarrow> command_result result cmd" where
  "approveReadyToTodo rt envelope input = inTenant rt envelope (reserved envelope (approveReadyToTodo_body rt envelope input))"

section \<open>Every body settles its receipt and keeps the trail\<close>

lemma keeps_withCanonical:
  assumes "frame_relation R" "\<And>s. keeps R (k s)"
  shows "keeps R (withCanonical v k)"
  unfolding withCanonical_def by (cases "canonicalJson v") (auto intro: frame_relation.keeps_throw assms)

lemmas [silent] = keeps_withCanonical[OF store_frame.frame_relation_axioms]
lemmas [receiptless] = keeps_withCanonical[OF receipts_frame.frame_relation_axioms]
lemmas [trailed] = keeps_withCanonical[OF trail_frame.frame_relation_axioms]

lemma settles_withCanonical [settling]: "(\<And>s. settles e (k s)) \<Longrightarrow> settles e (withCanonical v k)"
  by (simp add: withCanonical_def settling split: option.splits)

lemma receiptless_ticket_parts [receiptless]:
  "keeps same_receipts (leaveTodo e d tid q)" "keeps same_receipts (archiveMutation rt e t r q)"
  "keeps same_receipts (approvalMutation rt e t v c h ms rk rb)"
  unfolding archiveMutation_def approvalMutation_def leaveTodo_def by (intro receiptless)+

lemma settles_todoQueueGuard [settling]: "(\<And>q. settles e (k q)) \<Longrightarrow> settles e (todoQueueGuard e lane k)"
  unfolding todoQueueGuard_def by (intro settling receiptless)

lemma trailed_ticket_parts [trailed]:
  "keeps trail (leaveTodo e d tid q)" "keeps trail (archiveMutation rt e t r q)"
  "keeps trail (approvalMutation rt e t v c h ms rk rb)"
  unfolding archiveMutation_def approvalMutation_def leaveTodo_def by (intro trailed)+

lemma trailed_todoQueueGuard [trailed]: "(\<And>q. keeps trail (k q)) \<Longrightarrow> keeps trail (todoQueueGuard e lane k)"
  unfolding todoQueueGuard_def by (intro trailed)

lemma ticket_settles [settling]:
  "settles e (archiveDevTicket_body rt e i)" "settles e (restoreDevTicket_body rt e tid)"
  "settles e (setDevTicketClassification_body rt e j)" "settles e (approveReadyToTodo_body rt e k)"
  unfolding archiveDevTicket_body_def restoreDevTicket_body_def setDevTicketClassification_body_def approveReadyToTodo_body_def
  by (intro settling receiptless)+

lemma ticket_trailed [trailed]:
  "keeps trail (archiveDevTicket_body rt e i)" "keeps trail (restoreDevTicket_body rt e tid)"
  "keeps trail (setDevTicketClassification_body rt e j)" "keeps trail (approveReadyToTodo_body rt e k)"
  unfolding archiveDevTicket_body_def restoreDevTicket_body_def setDevTicketClassification_body_def approveReadyToTodo_body_def
  by (intro trailed)+

end
