(* ===== verification/Dependency_Commands.thy ===== *)
theory Dependency_Commands
  imports Ticket_Commands
begin

text \<open>
  The dependency commands of \<^verbatim>\<open>application/dev-board-planning-commands.ts\<close> (\<^verbatim>\<open>addDependency\<close>,
  \<^verbatim>\<open>removeDependency\<close> and their helpers) and the gate commands that stay closed (\<^verbatim>\<open>claim\<close>, \<^verbatim>\<open>start\<close>,
  \<^verbatim>\<open>submitForReview\<close>, \<^verbatim>\<open>admitDone\<close>). The order in which the endpoint rows are locked has no effect on
  what is read, so the two rows are read directly.
\<close>

record add_dependency_input =
  ad_dependentDevTicketId :: string
  ad_blockerDevTicketId :: string
  ad_reason :: string

record remove_dependency_input =
  rd_edgeId :: string
  rd_expectedEdgeVersion :: int
  rd_reason :: string

definition hasLiveSprintMembership :: "string \<Rightarrow> bool" where
  "hasLiveSprintMembership tid = False"

definition dependencyEndpointFailure :: "dev_ticket_row option \<Rightarrow> domain_error option" where
  "dependencyEndpointFailure endpoint =
     (case endpoint of
        None \<Rightarrow> Some (failure ''dev_board.constraint_reference_invalid'' ''A dependency endpoint does not exist.'')
      | Some t \<Rightarrow>
          if t_archivedAt t \<noteq> None
          then Some (failure ''dev_board.dev_ticket_not_active'' ''Archived DevTickets cannot be dependency endpoints.'')
          else if t_lane t = Done
          then Some (failure ''dev_board.dev_ticket_done_immutable'' ''Done DevTickets cannot be changed in place.'')
          else None)"

text \<open>\<^verbatim>\<open>dependencyEndpointFailure(dependent) ?? dependencyEndpointFailure(blocker)\<close>\<close>

definition endpointFailures :: "dev_ticket_row \<Rightarrow> dev_ticket_row \<Rightarrow> domain_error option" where
  "endpointFailures dependent blocker =
     (case dependencyEndpointFailure (Some dependent) of Some e \<Rightarrow> Some e | None \<Rightarrow> dependencyEndpointFailure (Some blocker))"

definition appendDependencyEffects ::
  "runtime \<Rightarrow> command_envelope \<Rightarrow> dependency_edge \<Rightarrow> string \<Rightarrow> bool \<Rightarrow> lane \<Rightarrow> dev_ticket_row \<Rightarrow> unit cmd" where
  "appendDependencyEffects rt envelope edge reason added previousDependentLane dependent =
     andThen (planning rt envelope (e_dependentDevTicketId edge) ''DependencyDecisionRationaleRecorded''
       (if added then ''Dependency added'' else ''Dependency removed'')
       [(''reason'', JString reason), (''dependentId'', JString (e_dependentDevTicketId edge)),
        (''blockerId'', JString (e_blockerDevTicketId edge)), (''edgeId'', JString (e_id edge))]) (\<lambda>_.
     activity rt envelope (t_id dependent) (t_version dependent) (if added then ''DependencyAdded'' else ''DependencyRemoved'')
       ([(''edgeId'', JString (e_id edge)), (''dependentId'', JString (e_dependentDevTicketId edge)),
         (''blockerId'', JString (e_blockerDevTicketId edge))] @
        (if previousDependentLane = Todo \<and> t_lane dependent = Backlog
         then [(''readyInvalidated'', JBool True),
               (''laneChanged'', JObject [(''from'', JString ''todo''), (''to'', JString ''backlog'')])]
         else [])))"

definition edgeVersion :: "dependency_edge \<Rightarrow> expected_version" where
  "edgeVersion e = versioned ''dependency_edge'' (e_id e) (e_version e)"

abbreviation dependentDrift :: string where
  "dependentDrift \<equiv> ''Dependent DevTicket version has changed.''"

section \<open>Adding a dependency\<close>

text \<open>The part of the mutation that both commands share: leave Todo, then change the dependent.\<close>

definition changeDependent ::
  "command_envelope \<Rightarrow> dev_ticket_row \<Rightarrow> int option \<Rightarrow> (dev_ticket_row \<times> int option) cmd" where
  "changeDependent envelope dependent queue =
     andThen (leaveTodo envelope dependentDrift (t_id dependent) queue) (\<lambda>todoQueueVersion.
     andThen (onStore (applyDependencyChangeToDependent (ticket_target envelope (t_id dependent) (t_version dependent)))) (\<lambda>updated.
     case updated of None \<Rightarrow> throw (DriftSentinel dependentDrift) | Some row \<Rightarrow> ret (row, todoQueueVersion)))"

definition addMutation ::
  "runtime \<Rightarrow> command_envelope \<Rightarrow> dev_ticket_row \<Rightarrow> dev_ticket_row \<Rightarrow> int option \<Rightarrow>
   (dependency_edge \<times> dev_ticket_row \<times> int option) cmd" where
  "addMutation rt envelope dependent blocker queue =
     andThen (randomUUID rt) (\<lambda>eid.
     andThen (stepStore (insertDependencyEdge
       \<lparr>ie_id = eid, ie_organizationId = env_organizationId envelope, ie_workspaceId = env_workspaceId envelope,
        ie_dependentDevTicketId = t_id dependent, ie_blockerDevTicketId = t_id blocker,
        ie_createdCommandId = env_commandId envelope\<rparr>)) (\<lambda>edge.
     andThen (changeDependent envelope dependent queue) (\<lambda>changed. ret (edge, changed))))"

definition addDependency_body :: "runtime \<Rightarrow> command_envelope \<Rightarrow> add_dependency_input \<Rightarrow> command_result result cmd" where
  "addDependency_body rt envelope input =
     (let dependentId = ad_dependentDevTicketId input; blockerId = ad_blockerDevTicketId input;
          org = env_organizationId envelope; ws = env_workspaceId envelope in
     case decisionReason (ad_reason input) of
        Inl e \<Rightarrow> rejectError envelope e
      | Inr reason \<Rightarrow>
     if dependentId = blockerId
     then rejectWith envelope ''dev_board.dependency_cycle_rejected'' ''A DevTicket cannot depend on itself.''
     else fromStore (\<lambda>st. selectDevTicketForUpdate st org ws dependentId) (\<lambda>dependentRow.
     fromStore (\<lambda>st. selectDevTicketForUpdate st org ws blockerId) (\<lambda>blockerRow.
     case dependentRow of
       None \<Rightarrow> rejectWith envelope ''dev_board.constraint_reference_invalid'' ''A dependency endpoint does not exist.''
     | Some dependent \<Rightarrow>
     (case blockerRow of
       None \<Rightarrow> rejectWith envelope ''dev_board.constraint_reference_invalid'' ''A dependency endpoint does not exist.''
     | Some blocker \<Rightarrow>
     fromStore (\<lambda>st. selectActiveDependencyEdge st org ws dependentId blockerId) (\<lambda>active.
     case active of
       Some duplicate \<Rightarrow>
         accept envelope ''dev_board.dependency_already_active'' (e_id duplicate) [edgeVersion duplicate]
           [(''dependencyEdgeId'', e_id duplicate), (''devTicketId'', e_dependentDevTicketId duplicate)]
     | None \<Rightarrow>
     if expected envelope ''dev_ticket'' dependentId \<noteq> Some (t_version dependent) \<or>
        expected envelope ''dev_ticket'' blockerId \<noteq> Some (t_version blocker)
     then rejectWith envelope ''dev_board.expected_version_drift'' ''Dependency endpoint version has changed.''
     else (case endpointFailures dependent blocker of
       Some e \<Rightarrow> rejectError envelope e
     | None \<Rightarrow>
     if hasLiveSprintMembership (t_id dependent) \<or> hasLiveSprintMembership (t_id blocker)
     then rejectWith envelope ''dev_board.sprint_coordination_required''
       ''Dependency changes for Sprint members require Sprint coordination.''
     else fromStore (\<lambda>st. dependencyCreatesCycle st org ws dependentId blockerId) (\<lambda>cycle.
     if cycle then rejectWith envelope ''dev_board.dependency_cycle_rejected'' ''The dependency would create a cycle.''
     else todoQueueGuard envelope (t_lane dependent) (\<lambda>queue.
     andThen (catchDrift (risky (addMutation rt envelope dependent blocker queue))) (\<lambda>caught.
     case caught of
       None \<Rightarrow> rejectWith envelope ''dev_board.expected_version_drift'' dependentDrift
     | Some (Inl e) \<Rightarrow> rejectError envelope e
     | Some (Inr (edge, updated, todoQueueVersion)) \<Rightarrow>
         andThen (appendDependencyEffects rt envelope edge reason True (t_lane dependent) updated) (\<lambda>_.
         accept envelope ''dev_board.dependency_added'' (e_id edge)
           ([edgeVersion edge, ticketVersion updated, ticketVersion blocker] @ queueVersions todoQueueVersion)
           [(''dependencyEdgeId'', e_id edge), (''devTicketId'', t_id updated)]))))))))))"

definition addDependency :: "runtime \<Rightarrow> command_envelope \<Rightarrow> add_dependency_input \<Rightarrow> command_result result cmd" where
  "addDependency rt envelope input = inTenant rt envelope (reserved envelope (addDependency_body rt envelope input))"

section \<open>Removing a dependency\<close>

definition removeMutation ::
  "command_envelope \<Rightarrow> dependency_edge \<Rightarrow> int \<Rightarrow> dev_ticket_row \<Rightarrow> int option \<Rightarrow>
   (dependency_edge \<times> dev_ticket_row \<times> int option) option cmd" where
  "removeMutation envelope edge expectedEdgeVersion dependent queue =
     andThen (onStore (retireDependencyEdge
       \<lparr>re_organizationId = env_organizationId envelope, re_workspaceId = env_workspaceId envelope,
        re_edgeId = e_id edge, re_expectedVersion = expectedEdgeVersion,
        re_retiredCommandId = env_commandId envelope\<rparr>)) (\<lambda>retired.
     case retired of
       None \<Rightarrow> ret None
     | Some row \<Rightarrow> andThen (changeDependent envelope dependent queue) (\<lambda>changed. ret (Some (row, changed))))"

definition removeDependency_body :: "runtime \<Rightarrow> command_envelope \<Rightarrow> remove_dependency_input \<Rightarrow> command_result result cmd" where
  "removeDependency_body rt envelope input =
     (let org = env_organizationId envelope; ws = env_workspaceId envelope in
     case decisionReason (rd_reason input) of
        Inl e \<Rightarrow> rejectError envelope e
      | Inr reason \<Rightarrow>
     fromStore (\<lambda>st. selectDependencyEdge st org ws (rd_edgeId input)) (\<lambda>edgeRow.
     case edgeRow of
       None \<Rightarrow> rejectWith envelope ''dev_board.dependency_not_active'' ''The dependency edge is not active.''
     | Some edge \<Rightarrow>
     if e_lifecycleState edge = Retired
     then reject envelope ''dev_board.already_removed'' ''The dependency edge was already removed.''
       [(''dependencyEdgeId'', JString (e_id edge)),
        (''originalRemovalCommandId'', opt_json (\<lambda>x. x) (e_retiredCommandId edge))]
       (Some (case e_retiredCommandId edge of None \<Rightarrow> e_id edge | Some c \<Rightarrow> c))
     else if e_version edge \<noteq> rd_expectedEdgeVersion input
     then rejectWith envelope ''dev_board.dependency_identity_conflict'' ''The dependency edge identity or version has changed.''
     else fromStore (\<lambda>st. selectDevTicketForUpdate st org ws (e_dependentDevTicketId edge)) (\<lambda>dependentRow.
     fromStore (\<lambda>st. selectDevTicketForUpdate st org ws (e_blockerDevTicketId edge)) (\<lambda>blockerRow.
     case dependentRow of
       None \<Rightarrow> rejectWith envelope ''dev_board.constraint_reference_invalid'' ''A dependency endpoint does not exist.''
     | Some dependent \<Rightarrow>
     (case blockerRow of
       None \<Rightarrow> rejectWith envelope ''dev_board.constraint_reference_invalid'' ''A dependency endpoint does not exist.''
     | Some blocker \<Rightarrow>
     (case endpointFailures dependent blocker of
       Some e \<Rightarrow> rejectError envelope e
     | None \<Rightarrow>
     if hasLiveSprintMembership (t_id dependent) \<or> hasLiveSprintMembership (t_id blocker)
     then rejectWith envelope ''dev_board.sprint_coordination_required''
       ''Dependency changes for Sprint members require Sprint coordination.''
     else todoQueueGuard envelope (t_lane dependent) (\<lambda>queue.
     andThen (catchDrift (risky (removeMutation envelope edge (rd_expectedEdgeVersion input) dependent queue))) (\<lambda>caught.
     case caught of
       None \<Rightarrow> rejectWith envelope ''dev_board.expected_version_drift'' dependentDrift
     | Some (Inl e) \<Rightarrow> rejectError envelope e
     | Some (Inr None) \<Rightarrow> rejectWith envelope ''dev_board.dependency_identity_conflict''
         ''The dependency edge identity or version has changed.''
     | Some (Inr (Some (retired, updated, todoQueueVersion))) \<Rightarrow>
         andThen (appendDependencyEffects rt envelope retired reason False (t_lane dependent) updated) (\<lambda>_.
         accept envelope ''dev_board.dependency_removed'' (e_id retired)
           ([edgeVersion retired, ticketVersion updated] @ queueVersions todoQueueVersion)
           [(''dependencyEdgeId'', e_id retired), (''devTicketId'', t_id updated)])))))))))"

definition removeDependency :: "runtime \<Rightarrow> command_envelope \<Rightarrow> remove_dependency_input \<Rightarrow> command_result result cmd" where
  "removeDependency rt envelope input = inTenant rt envelope (reserved envelope (removeDependency_body rt envelope input))"

section \<open>Closed gates\<close>

definition rejectUntilGate_body :: "command_envelope \<Rightarrow> string \<Rightarrow> string \<Rightarrow> bool \<Rightarrow> command_result result cmd" where
  "rejectUntilGate_body envelope code message checkDependencyLock =
     fromStore (\<lambda>st. dependencyLockStatus_store st (env_organizationId envelope) (env_workspaceId envelope) (env_targetAggregateId envelope)) (\<lambda>status.
     if checkDependencyLock \<and> ls_locked status
     then (let blockerIds = map fst (filter (\<lambda>b. \<not> snd b) (ls_blockers status)) in
       reject envelope ''dev_board.dependency_locked''
         (''DevTicket is locked by unfinished dependencies: '' @ join '', '' blockerIds @ ''.'')
         [(''blockerDevTicketIds'', JArray (map JString blockerIds))] None)
     else rejectWith envelope code message)"

definition rejectUntilGate :: "runtime \<Rightarrow> command_envelope \<Rightarrow> string \<Rightarrow> string \<Rightarrow> bool \<Rightarrow> command_result result cmd" where
  "rejectUntilGate rt envelope code message checkDependencyLock =
     inTenant rt envelope (reserved envelope (rejectUntilGate_body envelope code message checkDependencyLock))"

definition claim :: "runtime \<Rightarrow> command_envelope \<Rightarrow> command_result result cmd" where
  "claim rt envelope =
     rejectUntilGate rt envelope ''dev_board.gate.claim_disabled_until_tb02'' ''Claim is disabled until TB-02 ships.'' True"

definition start :: "runtime \<Rightarrow> command_envelope \<Rightarrow> command_result result cmd" where
  "start rt envelope =
     rejectUntilGate rt envelope ''dev_board.gate.start_disabled_until_tb02'' ''Start is disabled until TB-02 ships.'' True"

definition submitForReview :: "runtime \<Rightarrow> command_envelope \<Rightarrow> command_result result cmd" where
  "submitForReview rt envelope =
     rejectUntilGate rt envelope ''dev_board.gate.submit_for_review_disabled_until_tb-rv1''
       ''Submit for Review is disabled until TB-RV1 ships.'' False"

definition admitDone :: "runtime \<Rightarrow> command_envelope \<Rightarrow> command_result result cmd" where
  "admitDone rt envelope =
     rejectUntilGate rt envelope ''dev_board.gate.admit_done_disabled_until_tb-rv1''
       ''Done admission is disabled until TB-RV1 ships.'' False"

section \<open>Every body settles its receipt and keeps the trail\<close>

lemma receiptless_dependency_parts [receiptless]:
  "keeps same_receipts (changeDependent e d q)" "keeps same_receipts (addMutation rt e d b q)"
  "keeps same_receipts (removeMutation e g v d q)" "keeps same_receipts (appendDependencyEffects rt e g r a l t)"
  unfolding addMutation_def removeMutation_def changeDependent_def appendDependencyEffects_def by (intro receiptless)+

lemma trailed_dependency_parts [trailed]:
  "keeps trail (changeDependent e d q)" "keeps trail (addMutation rt e d b q)"
  "keeps trail (removeMutation e g v d q)" "keeps trail (appendDependencyEffects rt e g r a l t)"
  unfolding addMutation_def removeMutation_def changeDependent_def appendDependencyEffects_def by (intro trailed)+

lemma silent_effects [silent]: "keeps same_store (appendDependencyEffects rt e g r a l t)"
  unfolding appendDependencyEffects_def by (intro silent)

lemma settles_already_removed [settling]:
  "settles e (reject e c m [(''dependencyEdgeId'', x), (''originalRemovalCommandId'', y)] r)"
  by (simp add: settles_reject)

lemma settles_locked [settling]: "settles e (reject e c m [(''blockerDevTicketIds'', x)] r)"
  by (simp add: settles_reject)

lemma dependency_settles [settling]:
  "settles e (addDependency_body rt e i)" "settles e (removeDependency_body rt e j)" "settles e (rejectUntilGate_body e c m b)"
  unfolding addDependency_body_def removeDependency_body_def rejectUntilGate_body_def
  by (intro settling receiptless)+

lemma dependency_trailed [trailed]:
  "keeps trail (addDependency_body rt e i)" "keeps trail (removeDependency_body rt e j)" "keeps trail (rejectUntilGate_body e c m b)"
  unfolding addDependency_body_def removeDependency_body_def rejectUntilGate_body_def
  by (intro trailed)+

end
