(* ===== verification/Queue_Commands.thy ===== *)
theory Queue_Commands
  imports Dependency_Commands
begin

text \<open>
  \<^verbatim>\<open>reorderTodo\<close> of \<^verbatim>\<open>application/dev-board-planning-commands.ts\<close>: a ticket moves next to an anchor by
  getting a rank between its neighbours, or the whole queue is rebalanced when no rank fits. The anchor
  and the set of fields of the input are read from the untyped object, as the source does.
\<close>

record queue_ref =
  qr_lane :: string
  qr_version :: int

record reorder_input =
  ro_devTicketId :: string
  ro_sourceQueue :: queue_ref
  ro_targetQueue :: queue_ref
  ro_anchor :: js_object
  ro_otherFields :: "string list"

datatype todo_anchor = EmptyBand | Beside bool string int

text \<open>\<open>Beside True\<close> is the anchor kind \<^verbatim>\<open>before\<close>, \<open>Beside False\<close> is \<^verbatim>\<open>after\<close>.\<close>

definition readAnchor :: "js_object \<Rightarrow> todo_anchor option" where
  "readAnchor anchor =
     (case map_get anchor ''kind'' of
        Some (JString kind) \<Rightarrow>
          if kind = ''empty_band'' then (if length anchor = 1 then Some EmptyBand else None)
          else if kind \<in> {''before'', ''after''} then
            (case (map_get anchor ''neighborDevTicketId'', map_get anchor ''neighborVersion'') of
               (Some (JString nid), Some (JNumber (JInt v))) \<Rightarrow>
                 if length nid > 0 \<and> is_safe_integer v \<and> v > 0 then Some (Beside (kind = ''before'') nid v) else None
             | _ \<Rightarrow> None)
          else None
      | _ \<Rightarrow> None)"

definition validTodoAnchor :: "js_object \<Rightarrow> bool" where
  "validTodoAnchor anchor \<longleftrightarrow> readAnchor anchor \<noteq> None"

datatype forbidden_field = TierField | NumericField

definition forbiddenTodoOrderingField :: "reorder_input \<Rightarrow> forbidden_field option" where
  "forbiddenTodoOrderingField input =
     (if list_ex (\<lambda>f. f \<in> set (ro_otherFields input)) [''reviewReworkPlacement'', ''orderingTier'', ''tier''] then Some TierField
      else if list_ex (\<lambda>f. f \<in> set (ro_otherFields input)) [''rank'', ''position'', ''priority'', ''placement''] then Some NumericField
      else None)"

definition deriveTodoOrderingBand :: "dev_ticket_row \<Rightarrow> string" where
  "deriveTodoOrderingBand ticket = ''all_todo''"

fun find_index :: "('a \<Rightarrow> bool) \<Rightarrow> 'a list \<Rightarrow> nat option" where
  "find_index p [] = None"
| "find_index p (x # xs) = (if p x then Some 0 else map_option Suc (find_index p xs))"

definition rank_at :: "todo_membership list \<Rightarrow> nat \<Rightarrow> int option" where
  "rank_at ms i = (if i < length ms then Some (m_rank (ms ! i)) else None)"

text \<open>The rank between two neighbours; 0 asks for a rebalance.\<close>

definition rankBetween :: "int option \<Rightarrow> int option \<Rightarrow> int" where
  "rankBetween lower upper =
     (case (lower, upper) of
        (None, None) \<Rightarrow> FIRST_TODO_RANK
      | (None, Some u) \<Rightarrow> u - RANK_STRIDE
      | (Some l, None) \<Rightarrow> l + RANK_STRIDE
      | (Some l, Some u) \<Rightarrow> if u - l \<ge> 2 then l + (u - l) div 2 else 0)"

definition insertionRank :: "todo_membership list \<Rightarrow> nat \<Rightarrow> int" where
  "insertionRank others i = rankBetween (if i = 0 then None else rank_at others (i - 1)) (rank_at others i)"

definition splice_in :: "nat \<Rightarrow> 'a \<Rightarrow> 'a list \<Rightarrow> 'a list" where
  "splice_in i x xs = take i xs @ x # drop i xs"

text \<open>Where the anchor puts the ticket: an index among the other members, or the rejection.\<close>

definition insertionIndex ::
  "command_envelope \<Rightarrow> dev_ticket_row \<Rightarrow> todo_membership list \<Rightarrow> todo_anchor \<Rightarrow> planning_store \<Rightarrow> nat result" where
  "insertionIndex envelope moved others anchor st =
     (case anchor of
        EmptyBand \<Rightarrow>
          if length others \<noteq> 0 then err (failure ''dev_board.todo_anchor_invalid'' ''The Todo ordering band is not empty.'')
          else ok 0
      | Beside before nid v \<Rightarrow>
          (case (selectDevTicket st (env_organizationId envelope) (env_workspaceId envelope) nid,
                 find_index (\<lambda>m. m_devTicketId m = nid) others) of
             (Some neighbor, Some i) \<Rightarrow>
               if t_lane neighbor \<noteq> Todo then err (failure ''dev_board.todo_anchor_invalid'' ''Todo anchor is no longer available.'')
               else if t_version neighbor \<noteq> v then err (failure ''dev_board.expected_version_drift'' ''Todo anchor version has changed.'')
               else if deriveTodoOrderingBand neighbor \<noteq> deriveTodoOrderingBand moved
               then err (failure ''dev_board.todo_anchor_band_mismatch'' ''Todo anchor is in another ordering band.'')
               else ok (if before then i else i + 1)
           | _ \<Rightarrow> err (failure ''dev_board.todo_anchor_invalid'' ''Todo anchor is no longer available.'')))"

definition rankPolicy :: "todo_anchor \<Rightarrow> js_value" where
  "rankPolicy anchor =
     (case anchor of
        EmptyBand \<Rightarrow> JObject [(''anchorKind'', JString ''empty_band'')]
      | Beside before nid v \<Rightarrow> JObject [(''anchorKind'', JString (if before then ''before'' else ''after'')),
          (''neighborDevTicketId'', JString nid)])"

definition placeTodo :: "command_envelope \<Rightarrow> string \<Rightarrow> int \<Rightarrow> bool \<Rightarrow> string list \<Rightarrow> string list cmd" where
  "placeTodo envelope tid rank shouldRebalance orderedIds =
     (if shouldRebalance then
        andThen (onStore (\<lambda>st. ((), rebalanceTodoBand (env_organizationId envelope) (env_workspaceId envelope) orderedIds st)))
          (\<lambda>_. ret orderedIds)
      else
        andThen (onStore (updateTodoQueueMembershipRank (env_organizationId envelope) (env_workspaceId envelope) tid rank)) (\<lambda>updated.
        if \<not> updated then throw (PlainError ''Todo membership disappeared after being locked.'') else ret []))"

definition reorderTodo_body :: "runtime \<Rightarrow> command_envelope \<Rightarrow> reorder_input \<Rightarrow> command_result result cmd" where
  "reorderTodo_body rt envelope input =
     (let org = env_organizationId envelope; ws = env_workspaceId envelope in
     case forbiddenTodoOrderingField input of
       Some TierField \<Rightarrow> rejectWith envelope ''dev_board.todo_ordering_tier_server_derived'' ''Todo ordering tier is server-derived.''
     | Some NumericField \<Rightarrow> rejectWith envelope ''dev_board.todo_numeric_position_forbidden''
         ''Todo rank and numeric position are server-derived.''
     | None \<Rightarrow>
     (case readAnchor (ro_anchor input) of
       None \<Rightarrow> rejectWith envelope ''dev_board.todo_anchor_invalid''
         ''Todo reorder requires one valid Todo anchor and matching queue versions.''
     | Some anchor \<Rightarrow>
     if qr_lane (ro_sourceQueue input) \<noteq> ''todo'' \<or> qr_lane (ro_targetQueue input) \<noteq> ''todo'' \<or>
        qr_version (ro_sourceQueue input) \<noteq> qr_version (ro_targetQueue input)
     then rejectWith envelope ''dev_board.todo_anchor_invalid''
       ''Todo reorder requires one valid Todo anchor and matching queue versions.''
     else fromStore (\<lambda>st. selectDevTicketForUpdate st org ws (ro_devTicketId input)) (\<lambda>row.
     whenCurrent (expected envelope ''dev_ticket'' (ro_devTicketId input)) row t_version (ticketDrift envelope) (\<lambda>version moved.
     if t_lane moved \<noteq> Todo then rejectWith envelope ''dev_board.dev_ticket_not_in_todo'' ''DevTicket is not in Todo.''
     else andThen (onStore (getOrLockTodoQueueHeader org ws)) (\<lambda>header.
     if q_version header \<noteq> qr_version (ro_sourceQueue input) then queueDrift envelope
     else fromStore (\<lambda>st. todoQueueMembership st org ws (t_id moved)) (\<lambda>movedMembership.
     case movedMembership of
       None \<Rightarrow> rejectWith envelope ''dev_board.dev_ticket_not_in_todo'' ''DevTicket has no Todo queue membership.''
     | Some _ \<Rightarrow>
     fromStore (\<lambda>st. listTodoQueueRanks (rt_localeCompare rt) st org ws) (\<lambda>members.
     let others = filter (\<lambda>m. m_devTicketId m \<noteq> t_id moved) members in
     fromStore (insertionIndex envelope moved others anchor) (\<lambda>index.
     case index of
       Inl e \<Rightarrow> rejectError envelope e
     | Inr i \<Rightarrow>
     (let orderedIds = splice_in i (t_id moved) (map m_devTicketId others);
          rank = insertionRank others i;
          shouldRebalance = (rank \<le> 0 \<or> rank > POSTGRES_BIGINT_MAX) in
     if shouldRebalance \<and> (int (length orderedIds) + 1) * RANK_STRIDE > POSTGRES_BIGINT_MAX
     then rejectWith envelope ''dev_board.todo_rank_capacity_exhausted'' ''Todo rank capacity is exhausted.''
     else andThen (onStore (casBumpTodoQueueVersion org ws (qr_version (ro_sourceQueue input)))) (\<lambda>bumped.
     case bumped of
       None \<Rightarrow> queueDrift envelope
     | Some bumpedQueue \<Rightarrow>
     andThen (placeTodo envelope (t_id moved) rank shouldRebalance orderedIds) (\<lambda>rebalanced.
     andThen (onStore (bumpDevTicketVersion (ticket_target envelope (t_id moved) version))) (\<lambda>bumpedTicket.
     case bumpedTicket of
       None \<Rightarrow> throw (PlainError ''Todo DevTicket disappeared after being locked.'')
     | Some updated \<Rightarrow>
     andThen (activity rt envelope (t_id updated) (t_version updated) ''TodoReordered''
       ([(''rankPolicy'', rankPolicy anchor), (''queueVersion'', JNumber (JInt (q_version bumpedQueue)))] @
        (if length rebalanced = 0 then [] else [(''rebalancedDevTicketIds'', JArray (map JString rebalanced))]))) (\<lambda>_.
     accept envelope ''dev_board.todo_reordered'' (t_id updated)
       [ticketVersion updated, versioned ''lane_queue'' ''todo'' (q_version bumpedQueue)]
       [(''devTicketId'', t_id updated)])))))))))))))"

definition reorderTodo :: "runtime \<Rightarrow> command_envelope \<Rightarrow> reorder_input \<Rightarrow> command_result result cmd" where
  "reorderTodo rt envelope input = inTenant rt envelope (reserved envelope (reorderTodo_body rt envelope input))"

lemma receiptless_place [receiptless]: "keeps same_receipts (placeTodo e tid r b ids)"
  unfolding placeTodo_def by (intro receiptless)

lemma trailed_place [trailed]: "keeps trail (placeTodo e tid r b ids)"
  unfolding placeTodo_def by (intro trailed)

lemma settles_case_forbidden [settling]:
  "settles e m \<Longrightarrow> settles e m' \<Longrightarrow> settles e (case f of TierField \<Rightarrow> m | NumericField \<Rightarrow> m')"
  by (cases f) simp_all

lemma trailed_case_forbidden [trailed]:
  "keeps trail m \<Longrightarrow> keeps trail m' \<Longrightarrow> keeps trail (case f of TierField \<Rightarrow> m | NumericField \<Rightarrow> m')"
  by (cases f) simp_all

lemma reorder_settles [settling]: "settles e (reorderTodo_body rt e i)"
  unfolding reorderTodo_body_def by (intro settling receiptless)

lemma reorder_trailed [trailed]: "keeps trail (reorderTodo_body rt e i)"
  unfolding reorderTodo_body_def by (intro trailed)

section \<open>The rank fits between its neighbours\<close>

lemma find_index_Some: "find_index p xs = Some i \<Longrightarrow> i < length xs \<and> p (xs ! i)"
  by (induction xs arbitrary: i) (auto split: if_splits)

lemma insertionRank_fits:
  assumes srt: "sorted_wrt (\<lambda>l r. m_rank l < m_rank r) others" and "i \<le> length others"
    and pos: "0 < insertionRank others i"
  shows "(\<forall>m \<in> set (take i others). m_rank m < insertionRank others i) \<and>
    (\<forall>m \<in> set (drop i others). insertionRank others i < m_rank m)"
proof -
  let ?r = "insertionRank others i"
  have lo: "m_rank m \<le> m_rank (others ! (i - 1))" if "m \<in> set (take i others)" for m
  proof -
    from that assms(2) obtain j where j: "j < i" "m = others ! j" "j < length others" by (auto simp: in_set_conv_nth)
    show ?thesis
    proof (cases "j = i - 1")
      case False
      with j assms(2) have "j < i - 1" "i - 1 < length others" by auto
      from sorted_wrt_nth_less[OF srt this] j(2) show ?thesis by simp
    qed (use j in simp)
  qed
  have hi: "m_rank (others ! i) \<le> m_rank m" if "m \<in> set (drop i others)" for m
  proof -
    from that assms(2) obtain j where j: "i \<le> j" "m = others ! j" "j < length others"
      by (auto simp: in_set_conv_nth) (metis add_less_cancel_left le_add1 le_add_diff_inverse nth_drop)
    show ?thesis
    proof (cases "j = i")
      case False
      then show ?thesis using sorted_wrt_nth_less[OF srt, of i j] j by simp
    qed (use j in simp)
  qed
  have low: "i = 0 \<or> m_rank (others ! (i - 1)) < ?r"
    using pos assms(2) srt
    by (auto simp: insertionRank_def rankBetween_def rank_at_def RANK_STRIDE_def split: if_splits)
  have high: "i = length others \<or> ?r < m_rank (others ! i)"
    using pos assms(2)
    by (auto simp: insertionRank_def rankBetween_def rank_at_def RANK_STRIDE_def split: if_splits)
  have "m_rank m < ?r" if "m \<in> set (take i others)" for m using lo[OF that] low that by auto
  moreover have "?r < m_rank m" if "m \<in> set (drop i others)" for m using hi[OF that] high that by auto
  ultimately show ?thesis by blast
qed

end
