(* ===== verification/Legacy_Commands.thy ===== *)
theory Legacy_Commands
  imports Queue_Commands
begin

text \<open>
  The migration commands of \<^verbatim>\<open>application/dev-board-planning-commands.ts\<close>: \<^verbatim>\<open>importLegacyDevTicket\<close> and
  \<^verbatim>\<open>reconcileHistoricalCompletion\<close>. Both check the actor and its authorization before they touch the
  receipts.
\<close>

record import_input =
  im_legacyTaskId :: string
  im_humanOwnerUserId :: "string option"

record reconcile_input =
  ri_historicalRecordId :: string
  ri_reconciliationEpoch :: string

section \<open>Dates\<close>

text \<open>
  \<^verbatim>\<open>Date.prototype.toISOString\<close>: the proleptic Gregorian date of a count of milliseconds since 1970,
  with the six-digit form for years outside 0 to 9999.
\<close>

definition civil_from_days :: "int \<Rightarrow> int \<times> int \<times> int" where
  "civil_from_days days =
     (let z = days + 719468; era = z div 146097; doe = z mod 146097;
          yoe = (doe - doe div 1460 + doe div 36524 - doe div 146096) div 365;
          doy = doe - (365 * yoe + yoe div 4 - yoe div 100);
          mp = (5 * doy + 2) div 153;
          d = doy - (153 * mp + 2) div 5 + 1;
          m = (if mp < 10 then mp + 3 else mp - 9);
          y = yoe + era * 400 + (if m \<le> 2 then 1 else 0)
      in (y, m, d))"

definition pad :: "nat \<Rightarrow> int \<Rightarrow> string" where
  "pad width n = (let s = int_to_string n in replicate (width - length s) (CHR ''0'') @ s)"

definition iso_year :: "int \<Rightarrow> string" where
  "iso_year y = (if 0 \<le> y \<and> y \<le> 9999 then pad 4 y else if y < 0 then ''-'' @ pad 6 (- y) else ''+'' @ pad 6 y)"

definition toISOString :: "js_date \<Rightarrow> string" where
  "toISOString t =
     (let ms = t mod 86400000 in
      case civil_from_days (t div 86400000) of (y, m, d) \<Rightarrow>
        iso_year y @ ''-'' @ pad 2 m @ ''-'' @ pad 2 d @ ''T'' @ pad 2 (ms div 3600000) @ '':'' @
        pad 2 (ms div 60000 mod 60) @ '':'' @ pad 2 (ms div 1000 mod 60) @ ''.'' @ pad 3 (ms mod 1000) @ ''Z'')"

section \<open>Helpers\<close>

definition legacyOutcome :: "source_disposition \<Rightarrow> string" where
  "legacyOutcome d =
     (if d = PromotedBacklog then ''dev_board.legacy_import_promoted''
      else if d = HistoricalCandidate then ''dev_board.legacy_import_historical''
      else ''dev_board.legacy_import_quarantined'')"

definition legacyCompletionGate :: "string \<Rightarrow> source_disposition \<Rightarrow> completion_gate option" where
  "legacyCompletionGate status d = (if status = ''done'' \<and> d \<noteq> PromotedBacklog then Some LegacyUnverified else None)"

definition present :: "js_object \<Rightarrow> string \<Rightarrow> bool" where
  "present ref name = (case map_get ref name of None \<Rightarrow> False | Some v \<Rightarrow> v \<noteq> JNull \<and> v \<noteq> JUndefined)"

definition frozenEvidenceHasReference :: "js_object list \<Rightarrow> bool" where
  "frozenEvidenceHasReference refs =
     list_ex (\<lambda>ref. string_field ref ''evidenceId'' \<noteq> None \<and> list_ex (present ref) [''objectRef'', ''url'', ''filename'']) refs"

definition importDisposition :: "string \<Rightarrow> bool \<Rightarrow> source_disposition" where
  "importDisposition status ownerConfirmed =
     (if status = ''done'' then (if ownerConfirmed then HistoricalCandidate else QuarantinedNoOwner)
      else (if ownerConfirmed then PromotedBacklog else QuarantinedNoOwner))"

definition importContent :: "legacy_task_source \<Rightarrow> js_object" where
  "importContent source =
     [(''status'', JString (l_status source)), (''cardNumber'', JString (int_to_string (l_cardNumber source))),
      (''sourceRecordedAt'', JString (toISOString (l_createdAt source))),
      (''sourceUpdatedAt'', JString (toISOString (l_updatedAt source))),
      (''assigneeUserId'', opt_json (\<lambda>x. x) (l_assigneeUserId source))]"

definition recordVersion :: "historical_row \<Rightarrow> expected_version" where
  "recordVersion h = versioned ''historical_record'' (h_historicalRecordId h) (h_version h)"

definition devTicketIds :: "string option \<Rightarrow> (string \<times> string) list" where
  "devTicketIds tid = (case tid of None \<Rightarrow> [] | Some i \<Rightarrow> [(''devTicketId'', i)])"

text \<open>The DevTicket of a promoted legacy task: an empty contract, the confirmed owner.\<close>

definition insertLegacyTicket :: "runtime \<Rightarrow> command_envelope \<Rightarrow> legacy_task_source \<Rightarrow> string \<Rightarrow> dev_ticket_row cmd" where
  "insertLegacyTicket rt envelope source owner =
     contentHash rt [] (\<lambda>h.
     stepStore (insertDevTicket
       \<lparr>it_id = l_id source, it_organizationId = env_organizationId envelope, it_workspaceId = env_workspaceId envelope,
        it_originKind = OriginLegacy, it_sourceProposalId = None, it_humanOwnerUserId = owner,
        it_readyContractContent = [], it_readyContractContentHash = h, it_createdCommandId = env_commandId envelope\<rparr>))"

section \<open>Import\<close>

definition resolution ::
  "command_envelope \<Rightarrow> historical_row \<Rightarrow> source_disposition \<Rightarrow> string option \<Rightarrow> string option \<Rightarrow> resolve_historical_input" where
  "resolution envelope historical disposition promotion tid =
     \<lparr>rh_organizationId = env_organizationId envelope, rh_workspaceId = env_workspaceId envelope,
      rh_historicalRecordId = h_historicalRecordId historical, rh_expectedVersion = h_version historical,
      rh_sourceDisposition = disposition, rh_completionGate = h_completionGate historical,
      rh_promotionCommandId = promotion, rh_devTicketId = tid\<rparr>"

definition promoteMutation ::
  "runtime \<Rightarrow> command_envelope \<Rightarrow> legacy_task_source \<Rightarrow> string \<Rightarrow> historical_row \<Rightarrow> source_disposition \<Rightarrow>
   (dev_ticket_row \<times> historical_row) cmd" where
  "promoteMutation rt envelope source owner historical disposition =
     andThen (insertLegacyTicket rt envelope source owner) (\<lambda>ticket.
     andThen (stepStore (resolveImportedHistoricalRecord
       (resolution envelope historical disposition (Some (env_commandId envelope)) (Some (t_id ticket))))) (\<lambda>resolved.
     case resolved of
       None \<Rightarrow> throw (PlainError ''Historical record version has changed.'')
     | Some row \<Rightarrow> ret (ticket, row)))"

definition resolveExistingAlias ::
  "runtime \<Rightarrow> command_envelope \<Rightarrow> legacy_task_source \<Rightarrow> string \<Rightarrow> source_disposition \<Rightarrow> string \<Rightarrow> legacy_alias_row \<Rightarrow>
   command_result result cmd" where
  "resolveExistingAlias rt envelope source owner disposition digest existingAlias =
     (let org = env_organizationId envelope; ws = env_workspaceId envelope in
     fromStore (\<lambda>st. selectHistoricalRecordForUpdate st org ws (a_historicalRecordId existingAlias)) (\<lambda>found.
     case found of
       None \<Rightarrow> rejectWith envelope ''dev_board.legacy_task_not_found'' ''Legacy import alias has no historical record.''
     | Some historical \<Rightarrow>
     if h_preservedPayloadDigest historical \<noteq> digest
     then rejectWith envelope ''dev_board.idempotency_conflict'' ''source changed since the original import''
     else (let requested = expected envelope ''historical_record'' (h_historicalRecordId historical) in
     if requested \<noteq> None \<and> requested \<noteq> Some (h_version historical)
     then rejectWith envelope ''dev_board.expected_version_drift'' ''Historical record version has changed.''
     else if disposition = PromotedBacklog \<and> a_devTicketId existingAlias = None
     then fromStore (\<lambda>st. selectDevTicketForUpdate st org ws (l_id source)) (\<lambda>collision.
       if collision \<noteq> None
       then rejectWith envelope ''dev_board.legacy_ticket_id_collision'' ''Legacy Task UUID already belongs to a DevTicket.''
       else andThen (risky (promoteMutation rt envelope source owner historical disposition)) (\<lambda>mutation.
       case mutation of
         Inl e \<Rightarrow> rejectError envelope e
       | Inr (ticket, resolved) \<Rightarrow>
           andThen (planning rt envelope (t_id ticket) ''LegacyDevTicketImported'' ''Legacy DevTicket imported'' (importContent source)) (\<lambda>_.
           accept envelope (legacyOutcome disposition) (h_historicalRecordId historical)
             [versioned ''historical_record'' (h_historicalRecordId historical) (h_version resolved), ticketVersion ticket]
             [(''devTicketId'', t_id ticket)])))
     else (let promotedId = a_devTicketId existingAlias;
               resolvedDisposition = (if h_sourceDisposition historical = QuarantinedNoOwner then disposition
                                      else h_sourceDisposition historical) in
     if resolvedDisposition = h_sourceDisposition historical
     then fromStore (\<lambda>st. case promotedId of None \<Rightarrow> None | Some i \<Rightarrow> selectDevTicketForUpdate st org ws i) (\<lambda>ticket.
       accept envelope (legacyOutcome (h_sourceDisposition historical)) (h_historicalRecordId historical)
         (recordVersion historical # (case ticket of None \<Rightarrow> [] | Some t \<Rightarrow> [ticketVersion t])) (devTicketIds promotedId))
     else andThen (risky (stepStore (resolveImportedHistoricalRecord
         (resolution envelope historical resolvedDisposition
           (if resolvedDisposition = PromotedBacklog then h_promotionCommandId historical else None) promotedId)))) (\<lambda>resolved.
     case resolved of
       Inl e \<Rightarrow> rejectError envelope e
     | Inr None \<Rightarrow> rejectWith envelope ''dev_board.expected_version_drift'' ''Historical record version has changed.''
     | Inr (Some row) \<Rightarrow>
         andThen (planning rt envelope (case promotedId of None \<Rightarrow> h_historicalRecordId row | Some i \<Rightarrow> i)
           ''LegacyDevTicketImported'' ''Legacy DevTicket imported'' (importContent source)) (\<lambda>_.
         accept envelope (legacyOutcome disposition) (h_historicalRecordId row) [recordVersion row] (devTicketIds promotedId)))))))"

definition importMutation ::
  "runtime \<Rightarrow> command_envelope \<Rightarrow> legacy_task_source \<Rightarrow> string \<Rightarrow> source_disposition \<Rightarrow> string \<Rightarrow> string \<Rightarrow>
   (dev_ticket_row option \<times> historical_row) cmd" where
  "importMutation rt envelope source owner disposition digest historicalId =
     andThen (if disposition = PromotedBacklog
       then andThen (insertLegacyTicket rt envelope source owner) (\<lambda>t. ret (Some t)) else ret None) (\<lambda>ticket.
     andThen (newDate rt) (\<lambda>now.
     andThen (stepStore (insertHistoricalRecord now
       \<lparr>ih_id = historicalId, ih_organizationId = env_organizationId envelope, ih_workspaceId = env_workspaceId envelope,
        ih_sourceTableRowIdentity = l_id source, ih_completionGate = legacyCompletionGate (l_status source) disposition,
        ih_sourceDisposition = disposition, ih_sourceEpoch = Some (toISOString (l_updatedAt source)),
        ih_sourceRecordedAt = l_createdAt source, ih_sourceUpdatedAt = l_updatedAt source,
        ih_preservedPayloadDigest = digest, ih_evidenceRefs = l_evidenceRefs source,
        ih_promotionCommandId = (if ticket = None then None else Some (env_commandId envelope))\<rparr>)) (\<lambda>historical.
     andThen (stepStore (insertLegacyTaskAlias
       \<lparr>a_organizationId = env_organizationId envelope, a_workspaceId = env_workspaceId envelope,
        a_legacyTaskId = l_id source, a_legacyCardNumber = l_cardNumber source,
        a_devTicketId = map_option t_id ticket, a_historicalRecordId = h_historicalRecordId historical,
        a_createdCommandId = env_commandId envelope\<rparr>)) (\<lambda>_.
     ret (ticket, historical)))))"

definition importLegacyDevTicket_body :: "runtime \<Rightarrow> command_envelope \<Rightarrow> import_input \<Rightarrow> command_result result cmd" where
  "importLegacyDevTicket_body rt envelope input =
     (let org = env_organizationId envelope; ws = env_workspaceId envelope in
     fromStore (\<lambda>st. selectLegacyTaskSource st (im_legacyTaskId input)) (\<lambda>found.
     case found of
       None \<Rightarrow> rejectWith envelope ''dev_board.legacy_task_not_found'' ''Legacy Task was not found in this organization.''
     | Some source \<Rightarrow>
     if l_organizationId source \<noteq> org
     then rejectWith envelope ''dev_board.legacy_task_not_found'' ''Legacy Task was not found in this organization.''
     else if l_workspaceId source \<noteq> ws
     then rejectWith envelope ''dev_board.legacy_workspace_mismatch'' ''Legacy Task belongs to another workspace.''
     else if l_status source \<notin> {''todo'', ''in_progress'', ''blocked'', ''done''}
     then rejectWith envelope ''dev_board.legacy_task_not_found'' ''Legacy Task is not importable.''
     else (let owner = (case im_humanOwnerUserId input of None \<Rightarrow> [] | Some u \<Rightarrow> u) in
     fromStore (\<lambda>st. im_humanOwnerUserId input \<noteq> None \<and> isActiveMember st org owner) (\<lambda>ownerConfirmed.
     let disposition = importDisposition (l_status source) ownerConfirmed in
     contentHash rt (l_row source) (\<lambda>digest.
     fromStore (\<lambda>st. selectLegacyTaskAliasForUpdate st org (l_id source)) (\<lambda>existing.
     case existing of
       Some existingAlias \<Rightarrow> resolveExistingAlias rt envelope source owner disposition digest existingAlias
     | None \<Rightarrow>
     fromStore (\<lambda>st. if disposition = PromotedBacklog then selectDevTicketForUpdate st org ws (l_id source) else None) (\<lambda>collision.
     if collision \<noteq> None
     then rejectWith envelope ''dev_board.legacy_ticket_id_collision'' ''Legacy Task UUID already belongs to a DevTicket.''
     else andThen (randomUUID rt) (\<lambda>historicalId.
     andThen (risky (importMutation rt envelope source owner disposition digest historicalId)) (\<lambda>mutation.
     case mutation of
       Inl e \<Rightarrow>
         fromStore (\<lambda>st. if err_code e = ''dev_board.constraint_conflict'' then selectLegacyTaskAliasForUpdate st org (l_id source) else None) (\<lambda>winner.
         case winner of
           Some winnerAlias \<Rightarrow> resolveExistingAlias rt envelope source owner disposition digest winnerAlias
         | None \<Rightarrow> rejectError envelope e)
     | Inr (ticket, historical) \<Rightarrow>
         (let aggregateId = (case ticket of None \<Rightarrow> h_historicalRecordId historical | Some t \<Rightarrow> t_id t);
              aggregateVersion = (case ticket of None \<Rightarrow> h_version historical | Some t \<Rightarrow> t_version t) in
         andThen (planning rt envelope aggregateId ''LegacyDevTicketImported'' ''Legacy DevTicket imported'' (importContent source)) (\<lambda>_.
         andThen (activity rt envelope aggregateId aggregateVersion ''LegacyDevTicketImported''
           [(''historicalRecordId'', JString (h_historicalRecordId historical)), (''status'', JString (l_status source))]) (\<lambda>_.
         accept envelope (legacyOutcome disposition) (h_historicalRecordId historical)
           (recordVersion historical # (case ticket of None \<Rightarrow> [] | Some t \<Rightarrow> [ticketVersion t]))
           (devTicketIds (map_option t_id ticket))))))))))))))"

text \<open>Authentication and authorization come before the receipt is reserved or replayed.\<close>

definition authorizedFirst :: "command_envelope \<Rightarrow> string \<Rightarrow> command_result result cmd \<Rightarrow> command_result result cmd" where
  "authorizedFirst envelope message body =
     (case parseCommandActorRef (env_actorRef envelope) of
        Inl e \<Rightarrow> ret (err e)
      | Inr _ \<Rightarrow>
          fromStore (\<lambda>st. authorizedLegacyImportActor st envelope) (\<lambda>authorized.
            if \<not> authorized then ret (err (failure ''dev_board.import_authorization_required'' message))
            else reserved envelope body))"

definition importLegacyDevTicket :: "runtime \<Rightarrow> command_envelope \<Rightarrow> import_input \<Rightarrow> command_result result cmd" where
  "importLegacyDevTicket rt envelope input =
     inTenant rt envelope (authorizedFirst envelope ''Legacy import requires an authorized organization owner or admin.''
       (importLegacyDevTicket_body rt envelope input))"

section \<open>Reconciliation\<close>

definition approvedReview :: "js_object \<Rightarrow> bool" where
  "approvedReview ref =
     (case map_get ref ''taskQualityReview'' of
        Some (JObject review) \<Rightarrow> map_get review ''status'' = Some (JString ''approved'')
      | _ \<Rightarrow> False)"

abbreviation notEligible :: "command_envelope \<Rightarrow> 'a result cmd" where
  "notEligible envelope \<equiv> rejectWith envelope ''dev_board.reconcile_target_invalid''
     ''Historical record is not eligible for reconciliation.''"

definition reconcileHistoricalCompletion_body :: "runtime \<Rightarrow> command_envelope \<Rightarrow> reconcile_input \<Rightarrow> command_result result cmd" where
  "reconcileHistoricalCompletion_body rt envelope input =
     (let org = env_organizationId envelope; ws = env_workspaceId envelope in
     fromStore (\<lambda>st. selectHistoricalRecordForUpdate st org ws (ri_historicalRecordId input)) (\<lambda>found.
     case found of
       None \<Rightarrow> notEligible envelope
     | Some historical \<Rightarrow>
     if h_sourceDisposition historical = PromotedBacklog then notEligible envelope
     else if h_completionGate historical = Some ReconciledHistorical
     then rejectWith envelope ''dev_board.already_reconciled'' ''Historical record is already reconciled.''
     else if h_completionGate historical \<noteq> Some LegacyUnverified then notEligible envelope
     else fromStore (\<lambda>st. selectLegacyTaskSource st (h_sourceTableRowIdentity historical)) (\<lambda>source.
     if \<not> (case source of None \<Rightarrow> False | Some s \<Rightarrow> list_ex approvedReview (l_evidenceRefs s)) \<or>
        \<not> frozenEvidenceHasReference (h_evidenceRefs historical)
     then rejectWith envelope ''dev_board.reconcile_evidence_insufficient'' ''Approved legacy review and frozen evidence are required.''
     else andThen (risky (onStore (reconcileHistoricalCompletion_store
       \<lparr>rc_organizationId = org, rc_workspaceId = ws, rc_historicalRecordId = h_historicalRecordId historical,
        rc_expectedVersion = h_version historical\<rparr>))) (\<lambda>changed.
     case changed of
       Inl e \<Rightarrow> rejectError envelope e
     | Inr None \<Rightarrow> rejectWith envelope ''dev_board.expected_version_drift'' ''Historical record version has changed.''
     | Inr (Some row) \<Rightarrow>
         (let audit = [(''reconciliationEpoch'', JString (ri_reconciliationEpoch input)),
                       (''evidenceRefs'', JArray (map JObject (h_evidenceRefs row)))] in
         andThen (planning rt envelope (h_historicalRecordId row) ''HistoricalCompletionReconciled''
           ''Historical completion reconciled'' audit) (\<lambda>_.
         andThen (activity rt envelope (h_historicalRecordId row) (h_version row) ''HistoricalCompletionReconciled'' audit) (\<lambda>_.
         accept envelope ''dev_board.historical_completion_reconciled'' (h_historicalRecordId row) [recordVersion row] [])))))))"

definition reconcileHistoricalCompletion :: "runtime \<Rightarrow> command_envelope \<Rightarrow> reconcile_input \<Rightarrow> command_result result cmd" where
  "reconcileHistoricalCompletion rt envelope input =
     inTenant rt envelope (authorizedFirst envelope
       ''Historical reconciliation requires an authorized organization owner or admin.''
       (reconcileHistoricalCompletion_body rt envelope input))"

section \<open>Every body settles its receipt and keeps the trail\<close>

lemma receiptless_legacy_parts [receiptless]:
  "keeps same_receipts (insertLegacyTicket rt e s w)" "keeps same_receipts (promoteMutation rt e s w h d)"
  "keeps same_receipts (importMutation rt e s w d g i)"
  unfolding importMutation_def promoteMutation_def insertLegacyTicket_def by (intro receiptless)+

lemma trailed_legacy_parts [trailed]:
  "keeps trail (insertLegacyTicket rt e s w)" "keeps trail (promoteMutation rt e s w h d)"
  "keeps trail (importMutation rt e s w d g i)"
  unfolding importMutation_def promoteMutation_def insertLegacyTicket_def by (intro trailed)+

lemma settles_resolve [settling]: "settles e (resolveExistingAlias rt e s w d g a)"
  unfolding resolveExistingAlias_def by (intro settling receiptless)

lemma trailed_resolve [trailed]: "keeps trail (resolveExistingAlias rt e s w d g a)"
  unfolding resolveExistingAlias_def by (intro trailed)

lemma legacy_settles [settling]:
  "settles e (importLegacyDevTicket_body rt e i)" "settles e (reconcileHistoricalCompletion_body rt e j)"
  unfolding importLegacyDevTicket_body_def reconcileHistoricalCompletion_body_def by (intro settling receiptless)+

lemma legacy_trailed [trailed]:
  "keeps trail (importLegacyDevTicket_body rt e i)" "keeps trail (reconcileHistoricalCompletion_body rt e j)"
  unfolding importLegacyDevTicket_body_def reconcileHistoricalCompletion_body_def by (intro trailed)+

lemma trailed_authorizedFirst [trailed]: "keeps trail body \<Longrightarrow> keeps trail (authorizedFirst e m body)"
  unfolding authorizedFirst_def by (intro trailed)

end
