(* ===== verification/Board_Invariant.thy ===== *)
theory Board_Invariant
  imports Legacy_Commands
begin

text \<open>
  The invariant of the Dev Board over one planning store and the order in which its rows advance, with
  the lemmas on single changes of rows from which the preservation by every command follows.
\<close>

section \<open>Tickets\<close>

definition ticket_key :: "dev_ticket_row \<Rightarrow> string" where
  "ticket_key t = key (t_organizationId t) (t_workspaceId t) (t_id t)"

definition tickets_wf :: "planning_store \<Rightarrow> bool" where
  "tickets_wf st \<longleftrightarrow> (\<forall>k t. map_get (devTickets st) k = Some t \<longrightarrow>
     k = ticket_key t \<and> queue_scope (t_organizationId t) (t_workspaceId t))"

text \<open>The stored hash is the hash of the stored contract.\<close>

definition hash_ok :: "(string \<Rightarrow> string) \<Rightarrow> dev_ticket_row \<Rightarrow> bool" where
  "hash_ok sha t \<longleftrightarrow> computeReadyContractContentHash sha (t_readyContractContent t) = Some (t_readyContractContentHash t)"

text \<open>The approval of a ticket in Todo names its current contract; elsewhere there is no approval.\<close>

definition approved :: "dev_ticket_row \<Rightarrow> bool" where
  "approved t \<longleftrightarrow> t_readyState t = Approved \<and>
     t_readyApprovalContractVersion t = Some (t_readyContractVersion t) \<and>
     t_readyApprovalContentHash t = Some (t_readyContractContentHash t) \<and>
     t_readyApprovedByUserId t \<noteq> None \<and> t_readyApprovalCommandId t \<noteq> None \<and> t_archivedAt t = None \<and>
     t_devTicketType t \<noteq> None \<and> t_workAreas t \<noteq> [] \<and> t_priority t \<noteq> None \<and> t_declaredChangeRisk t \<noteq> None"

definition unapproved :: "dev_ticket_row \<Rightarrow> bool" where
  "unapproved t \<longleftrightarrow> t_readyState t = Draft \<and> t_readyApprovalContractVersion t = None \<and>
     t_readyApprovalContentHash t = None \<and> t_readyApprovedByUserId t = None \<and> t_readyApprovalCommandId t = None"

definition ticket_ok :: "(string \<Rightarrow> string) \<Rightarrow> dev_ticket_row \<Rightarrow> bool" where
  "ticket_ok sha t \<longleftrightarrow> hash_ok sha t \<and> 1 \<le> t_version t \<and>
     (t_lane t = Todo \<and> approved t \<or> t_lane t = Backlog \<and> unapproved t)"

text \<open>The declared risk of a ticket in Todo reaches the minimum of the policy as of now.\<close>

definition policy_ok :: "(string \<Rightarrow> string) \<Rightarrow> planning_store \<Rightarrow> dev_ticket_row \<Rightarrow> bool" where
  "policy_ok sha st t \<longleftrightarrow> (t_lane t = Todo \<longrightarrow>
     (\<exists>ty d. t_devTicketType t = Some ty \<and> t_declaredChangeRisk t = Some d \<and>
        minimumChangeRisk (evaluateChangeRisk sha ty (t_workAreas t)
          (hasActiveDependencies st (t_organizationId t) (t_workspaceId t) (t_id t))) \<le> d))"

definition tickets_ok :: "(string \<Rightarrow> string) \<Rightarrow> planning_store \<Rightarrow> bool" where
  "tickets_ok sha st \<longleftrightarrow> tickets_wf st \<and>
     (\<forall>k t. map_get (devTickets st) k = Some t \<longrightarrow> ticket_ok sha t \<and> policy_ok sha st t)"

text \<open>A ticket is in the Todo lane exactly when it has a place in the queue.\<close>

definition lanes_match :: "planning_store \<Rightarrow> bool" where
  "lanes_match st \<longleftrightarrow> (\<forall>k. map_get (todoQueueMemberships st) k \<noteq> None \<longleftrightarrow>
     (\<exists>t. map_get (devTickets st) k = Some t \<and> t_lane t = Todo))"

text \<open>Both ends of an active dependency exist, and its blocker is not archived.\<close>

definition blockers_live :: "planning_store \<Rightarrow> bool" where
  "blockers_live st \<longleftrightarrow> (\<forall>e \<in> set (map_values (dependencyEdges st)). e_lifecycleState e = Active \<longrightarrow>
     queue_scope (e_organizationId e) (e_workspaceId e) \<and>
     map_get (devTickets st) (key (e_organizationId e) (e_workspaceId e) (e_dependentDevTicketId e)) \<noteq> None \<and>
     (\<exists>b. map_get (devTickets st) (key (e_organizationId e) (e_workspaceId e) (e_blockerDevTicketId e)) = Some b \<and>
          t_archivedAt b = None))"

section \<open>Proposals\<close>

definition proposal_key :: "proposal_row \<Rightarrow> string" where
  "proposal_key p = key (p_organizationId p) (p_workspaceId p) (p_id p)"

definition proposals_wf :: "planning_store \<Rightarrow> bool" where
  "proposals_wf st \<longleftrightarrow> (\<forall>k p. map_get (proposals st) k = Some p \<longrightarrow>
     k = proposal_key p \<and> queue_scope (p_organizationId p) (p_workspaceId p))"

text \<open>An accepted proposal and its ticket name each other; no other proposal has a ticket.\<close>

definition accepted_proposal_link :: "planning_store \<Rightarrow> proposal_row \<Rightarrow> bool" where
  "accepted_proposal_link st p \<longleftrightarrow>
     (if p_lifecycleState p = Accepted
      then p_acceptedCommandId p \<noteq> None \<and> (\<exists>tid t. p_acceptedDevTicketId p = Some tid \<and>
        map_get (devTickets st) (key (p_organizationId p) (p_workspaceId p) tid) = Some t \<and>
        t_sourceProposalId t = Some (p_id p))
      else p_acceptedDevTicketId p = None \<and> p_acceptedCommandId p = None)"

definition source_proposal_link :: "planning_store \<Rightarrow> dev_ticket_row \<Rightarrow> bool" where
  "source_proposal_link st t \<longleftrightarrow> (\<forall>pid. t_sourceProposalId t = Some pid \<longrightarrow>
     (\<exists>p. map_get (proposals st) (key (t_organizationId t) (t_workspaceId t) pid) = Some p \<and>
          p_lifecycleState p = Accepted \<and> p_acceptedDevTicketId p = Some (t_id t)))"

definition acceptance_links :: "planning_store \<Rightarrow> bool" where
  "acceptance_links st \<longleftrightarrow>
     (\<forall>k p. map_get (proposals st) k = Some p \<longrightarrow> accepted_proposal_link st p) \<and>
     (\<forall>k t. map_get (devTickets st) k = Some t \<longrightarrow> source_proposal_link st t)"

text \<open>Tickets that advance keep the links, for the same proposals.\<close>

lemma accepted_link_mono:
  assumes "accepted_proposal_link st p"
    and "\<And>k t. map_get (devTickets st) k = Some t \<Longrightarrow> \<exists>t'. map_get (devTickets st') k = Some t' \<and> t_sourceProposalId t' = t_sourceProposalId t"
  shows "accepted_proposal_link st' p"
  using assms(1) assms(2) unfolding accepted_proposal_link_def by (auto split: if_splits) metis

lemma source_link_same:
  "source_proposal_link st t \<Longrightarrow> proposals st' = proposals st \<Longrightarrow> t_sourceProposalId t' = t_sourceProposalId t \<Longrightarrow>
     t_organizationId t' = t_organizationId t \<Longrightarrow> t_workspaceId t' = t_workspaceId t \<Longrightarrow> t_id t' = t_id t \<Longrightarrow>
     source_proposal_link st' t'"
  by (simp add: source_proposal_link_def)

definition board_inv :: "(string \<Rightarrow> string) \<Rightarrow> planning_store \<Rightarrow> bool" where
  "board_inv sha st \<longleftrightarrow> tickets_ok sha st \<and> lanes_match st \<and> queue_wf st \<and> graph_wf st \<and> blockers_live st \<and>
     proposals_wf st \<and> acceptance_links st \<and> historical_keys_ok st"

lemma board_inv_empty: "board_inv sha (empty_store\<lparr>legacyTaskSources := ls, activeMembers := ms, organizationRoles := rs\<rparr>)"
proof -
  let ?st = "empty_store\<lparr>legacyTaskSources := ls, activeMembers := ms, organizationRoles := rs\<rparr>"
  have "band ?st org ws = Map.empty" for org ws
    by (rule ext) (simp add: band_def todoQueueMembership_def empty_store_def)
  then show ?thesis
    by (simp add: board_inv_def tickets_ok_def tickets_wf_def lanes_match_def queue_wf_def queue_keys_ok_def
        blockers_live_def proposals_wf_def acceptance_links_def historical_keys_ok_def empty_store_def
        ranks_ok_def graph_wf_def graph_acyclic_def edges_keyed_def waits_on_def blockersOf_def acyclic_def)
qed

section \<open>Rows advance\<close>

definition ticket_advances :: "dev_ticket_row \<Rightarrow> dev_ticket_row \<Rightarrow> bool" where
  "ticket_advances t t' \<longleftrightarrow> t_id t' = t_id t \<and> t_organizationId t' = t_organizationId t \<and>
     t_workspaceId t' = t_workspaceId t \<and> t_originKind t' = t_originKind t \<and>
     t_sourceProposalId t' = t_sourceProposalId t \<and> t_createdCommandId t' = t_createdCommandId t \<and>
     t_version t \<le> t_version t' \<and> t_readyContractVersion t \<le> t_readyContractVersion t'"

inductive proposal_next :: "proposal_state \<Rightarrow> proposal_state \<Rightarrow> bool" where
  submit: "proposal_next ProposalDraft AwaitingDecision"
| decide_accept: "proposal_next AwaitingDecision Accepted"
| decide_merge: "proposal_next AwaitingDecision Merged"
| decide_reject: "proposal_next AwaitingDecision Rejected"

inductive_simps proposal_next_simps: "proposal_next s s'"

definition proposal_advances :: "proposal_row \<Rightarrow> proposal_row \<Rightarrow> bool" where
  "proposal_advances p p' \<longleftrightarrow> p_id p' = p_id p \<and> p_organizationId p' = p_organizationId p \<and>
     p_workspaceId p' = p_workspaceId p \<and> p_discoverySummary p' = p_discoverySummary p \<and>
     p_blockingAssessment p' = p_blockingAssessment p \<and> p_suggestedContract p' = p_suggestedContract p \<and>
     p_createdCommandId p' = p_createdCommandId p \<and> p_version p \<le> p_version p' \<and>
     proposal_next\<^sup>*\<^sup>* (p_lifecycleState p) (p_lifecycleState p')"

definition rows_advance :: "planning_store \<Rightarrow> planning_store \<Rightarrow> bool" where
  "rows_advance st st' \<longleftrightarrow>
     (\<forall>k t. map_get (devTickets st) k = Some t \<longrightarrow> (\<exists>t'. map_get (devTickets st') k = Some t' \<and> ticket_advances t t')) \<and>
     (\<forall>k p. map_get (proposals st) k = Some p \<longrightarrow> (\<exists>p'. map_get (proposals st') k = Some p' \<and> proposal_advances p p')) \<and>
     records_advance st st' \<and> grants_kept st st'"

lemma ticket_advances_refl [simp]: "ticket_advances t t"
  by (simp add: ticket_advances_def)

lemma ticket_advances_trans: "ticket_advances a b \<Longrightarrow> ticket_advances b c \<Longrightarrow> ticket_advances a c"
  by (auto simp: ticket_advances_def)

lemma proposal_advances_refl [simp]: "proposal_advances p p"
  by (simp add: proposal_advances_def)

lemma proposal_advances_trans: "proposal_advances a b \<Longrightarrow> proposal_advances b c \<Longrightarrow> proposal_advances a c"
  by (auto simp: proposal_advances_def)

lemma rows_advance_refl [simp]: "rows_advance st st"
  by (simp add: rows_advance_def grants_kept_def)

lemma rows_advance_trans:
  assumes ab: "rows_advance a b" and bc: "rows_advance b c"
  shows "rows_advance a c"
proof -
  have "\<exists>t''. map_get (devTickets c) k = Some t'' \<and> ticket_advances t t''" if "map_get (devTickets a) k = Some t" for k t
    using that ab bc unfolding rows_advance_def by (meson ticket_advances_trans)
  moreover have "\<exists>p''. map_get (proposals c) k = Some p'' \<and> proposal_advances p p''" if "map_get (proposals a) k = Some p" for k p
    using that ab bc unfolding rows_advance_def by (meson proposal_advances_trans)
  moreover have "records_advance a c" "grants_kept a c"
    using ab bc by (auto simp: rows_advance_def grants_kept_def intro: records_advance_trans)
  ultimately show ?thesis by (simp add: rows_advance_def)
qed

text \<open>The relation carried along the commands.\<close>

definition board_rel :: "(string \<Rightarrow> string) \<Rightarrow> planning_store \<Rightarrow> planning_store \<Rightarrow> bool" where
  "board_rel sha st st' \<longleftrightarrow> (board_inv sha st \<longrightarrow> board_inv sha st' \<and> rows_advance st st')"

interpretation board: store_relation "board_rel sha" for sha
  by unfold_locales (auto simp: board_rel_def intro: rows_advance_trans)

section \<open>Changes of a ticket\<close>

lemma hasActiveDependencies_iff:
  "hasActiveDependencies st org ws tid \<longleftrightarrow> (\<exists>b. (tid, b) \<in> depends_on st org ws)"
  by (auto simp: hasActiveDependencies_def list_ex_iff waits_on_iff)

lemma policy_ok_fewer:
  assumes "policy_ok sha st t" and "hasActiveDependencies st' (t_organizationId t) (t_workspaceId t) (t_id t) \<Longrightarrow>
      hasActiveDependencies st (t_organizationId t) (t_workspaceId t) (t_id t)"
  shows "policy_ok sha st' t"
proof -
  have "minimumChangeRisk (evaluateChangeRisk sha ty as (hasActiveDependencies st' (t_organizationId t) (t_workspaceId t) (t_id t)))
      \<le> minimumChangeRisk (evaluateChangeRisk sha ty as (hasActiveDependencies st (t_organizationId t) (t_workspaceId t) (t_id t)))" for ty as
    using assms(2) by (simp add: minimum_risk_refines minimum_risk_mono)
  then show ?thesis using assms(1) unfolding policy_ok_def by (meson order_trans)
qed

lemma selected_ticket:
  assumes "tickets_wf st" "queue_scope org ws" "map_get (devTickets st) (key org ws tid) = Some t"
  shows "t_organizationId t = org \<and> t_workspaceId t = ws \<and> t_id t = tid \<and> ticket_key t = key org ws tid"
proof -
  from assms have "key org ws tid = ticket_key t" "queue_scope (t_organizationId t) (t_workspaceId t)"
    by (auto simp: tickets_wf_def)
  then show ?thesis using key_inj_parts[of org ws tid "t_organizationId t" "t_workspaceId t" "t_id t"] assms(2)
    by (auto simp: ticket_key_def)
qed

text \<open>
  One ticket changes, with its place in the queue and the edges of the board: what has to be checked.
\<close>

lemma ticket_change:
  assumes inv: "board_inv sha st" and at: "map_get (devTickets st) k = Some t"
    and adv: "ticket_advances t t'" and ok: "ticket_ok sha t'" and pol: "policy_ok sha st' t'"
    and tickets: "devTickets st' = map_set k t' (devTickets st)"
    and members: "\<And>j. map_get (todoQueueMemberships st') j \<noteq> None \<longleftrightarrow>
        (if j = k then t_lane t' = Todo else map_get (todoQueueMemberships st) j \<noteq> None)"
    and queue: "queue_wf st'"
    and graph: "graph_wf st'"
    and deps: "\<And>u. u \<noteq> t \<Longrightarrow> ticket_key u \<noteq> k \<Longrightarrow> queue_scope (t_organizationId u) (t_workspaceId u) \<Longrightarrow>
        hasActiveDependencies st' (t_organizationId u) (t_workspaceId u) (t_id u) \<Longrightarrow>
        hasActiveDependencies st (t_organizationId u) (t_workspaceId u) (t_id u)"
    and edges: "\<And>e. e \<in> set (map_values (dependencyEdges st')) \<Longrightarrow> e_lifecycleState e = Active \<Longrightarrow>
        (e \<in> set (map_values (dependencyEdges st)) \<or>
         queue_scope (e_organizationId e) (e_workspaceId e) \<and>
         map_get (devTickets st) (key (e_organizationId e) (e_workspaceId e) (e_dependentDevTicketId e)) \<noteq> None \<and>
         (\<exists>b. map_get (devTickets st) (key (e_organizationId e) (e_workspaceId e) (e_blockerDevTicketId e)) = Some b \<and> t_archivedAt b = None)) \<and>
        (key (e_organizationId e) (e_workspaceId e) (e_blockerDevTicketId e) = k \<longrightarrow> t_archivedAt t' = None)"
    and same: "proposals st' = proposals st" "historicalRecords st' = historicalRecords st" "grants_kept st st'"
  shows "board_inv sha st' \<and> rows_advance st st'"
proof -
  have wf: "tickets_wf st" and oks: "\<And>j u. map_get (devTickets st) j = Some u \<Longrightarrow> ticket_ok sha u \<and> policy_ok sha st u"
    using inv by (auto simp: board_inv_def tickets_ok_def)
  have key: "ticket_key t' = k" "queue_scope (t_organizationId t') (t_workspaceId t')" "ticket_key t = k"
    using wf at adv by (auto simp: tickets_wf_def ticket_key_def ticket_advances_def)
  have look: "map_get (devTickets st') j = (if j = k then Some t' else map_get (devTickets st) j)" for j
    using tickets by simp
  have "tickets_wf st'" using wf key unfolding tickets_wf_def look by auto
  moreover have "ticket_ok sha u \<and> policy_ok sha st' u" if "map_get (devTickets st') j = Some u" for j u
  proof (cases "j = k")
    case True
    then show ?thesis using that ok pol look by simp
  next
    case False
    then have u: "map_get (devTickets st) j = Some u" using that look by simp
    then have "ticket_key u = j" "queue_scope (t_organizationId u) (t_workspaceId u)" using wf by (auto simp: tickets_wf_def)
    then show ?thesis using oks[OF u] policy_ok_fewer[of sha st u st'] deps[of u] False key(3) by auto
  qed
  ultimately have "tickets_ok sha st'" by (simp add: tickets_ok_def)
  moreover have "lanes_match st'"
    unfolding lanes_match_def members look using inv by (auto simp: board_inv_def lanes_match_def)
  moreover have "blockers_live st'"
    unfolding blockers_live_def
  proof (intro ballI impI)
    fix e assume e: "e \<in> set (map_values (dependencyEdges st'))" "e_lifecycleState e = Active"
    let ?d = "key (e_organizationId e) (e_workspaceId e) (e_dependentDevTicketId e)"
    let ?b = "key (e_organizationId e) (e_workspaceId e) (e_blockerDevTicketId e)"
    have "queue_scope (e_organizationId e) (e_workspaceId e)" "map_get (devTickets st) ?d \<noteq> None"
      "\<exists>b. map_get (devTickets st) ?b = Some b \<and> t_archivedAt b = None"
      using edges[OF e] e(2) inv by (auto simp: board_inv_def blockers_live_def)
    then show "queue_scope (e_organizationId e) (e_workspaceId e) \<and> map_get (devTickets st') ?d \<noteq> None \<and> (\<exists>b. map_get (devTickets st') ?b = Some b \<and> t_archivedAt b = None)"
      using edges[OF e] look by auto
  qed
  moreover have "acceptance_links st'"
  proof -
    have links: "acceptance_links st" using inv by (simp add: board_inv_def)
    have kept: "\<exists>u'. map_get (devTickets st') j = Some u' \<and> t_sourceProposalId u' = t_sourceProposalId u"
      if "map_get (devTickets st) j = Some u" for j u
      using that look at adv by (auto simp: ticket_advances_def)
    have fwd: "accepted_proposal_link st' p" if "map_get (proposals st') j = Some p" for j p
      using links that same(1) accepted_link_mono[OF _ kept] by (auto simp: acceptance_links_def)
    have "source_proposal_link st' u" if "map_get (devTickets st') j = Some u" for j u
    proof (cases "j = k")
      case True
      have "source_proposal_link st t" using links at by (auto simp: acceptance_links_def)
      then show ?thesis using that True look adv source_link_same[of st t st' u] same(1) by (simp add: ticket_advances_def)
    next
      case False
      then have "source_proposal_link st u" using that look links by (auto simp: acceptance_links_def)
      then show ?thesis using source_link_same[of st u st' u] same(1) by simp
    qed
    with fwd show ?thesis by (simp add: acceptance_links_def)
  qed
  ultimately have "board_inv sha st'"
    using inv same(1,2) queue graph by (simp add: board_inv_def proposals_wf_def historical_keys_ok_def)
  moreover have "rows_advance st st'"
    using look at adv same by (auto simp: rows_advance_def records_advance_same)
  ultimately show ?thesis by simp
qed

section \<open>New tickets\<close>

lemma ticket_insert:
  assumes inv: "board_inv sha st" and fresh: "map_get (devTickets st) (ticket_key t) = None"
    and scope: "queue_scope (t_organizationId t) (t_workspaceId t)" and ok: "ticket_ok sha t" and lane: "t_lane t = Backlog"
    and tickets: "devTickets st' = map_set (ticket_key t) t (devTickets st)"
    and same: "todoQueueMemberships st' = todoQueueMemberships st" "dependencyEdges st' = dependencyEdges st" "grants_kept st st'"
    and hist: "historical_keys_ok st'" "records_advance st st'"
    and props: "proposals_wf st'" "acceptance_links st'"
      "\<And>k p. map_get (proposals st) k = Some p \<Longrightarrow> \<exists>p'. map_get (proposals st') k = Some p' \<and> proposal_advances p p'"
  shows "board_inv sha st' \<and> rows_advance st st'"
proof -
  have look: "map_get (devTickets st') j = (if j = ticket_key t then Some t else map_get (devTickets st) j)" for j
    using tickets by simp
  have deps: "hasActiveDependencies st' = hasActiveDependencies st"
    using same(2) by (intro ext) (simp add: hasActiveDependencies_def)
  have "tickets_wf st'" using inv scope unfolding board_inv_def tickets_ok_def tickets_wf_def look by auto
  moreover have "ticket_ok sha u \<and> policy_ok sha st' u" if "map_get (devTickets st') j = Some u" for j u
    using that inv ok lane deps unfolding look by (auto simp: board_inv_def tickets_ok_def policy_ok_def split: if_splits)
  ultimately have "tickets_ok sha st'" by (simp add: tickets_ok_def)
  moreover have "lanes_match st'"
    using inv lane fresh unfolding board_inv_def lanes_match_def look same(1) by auto
  moreover have "blockers_live st'"
    using inv fresh unfolding board_inv_def blockers_live_def look same(2) by auto
  moreover have "queue_wf st'" "graph_wf st'"
    using inv same(1,2) queue_wf_frame[of st' st] by (simp_all add: board_inv_def graph_wf_def graph_acyclic_def edges_keyed_def)
  ultimately have "board_inv sha st'" using hist(1) props(1,2) by (simp add: board_inv_def)
  moreover have "rows_advance st st'"
    unfolding rows_advance_def look using fresh props(3) hist(2) same(3) by auto
  ultimately show ?thesis by simp
qed

lemma links_new_ticket:
  assumes inv: "board_inv sha st" and fresh: "map_get (devTickets st) (ticket_key t) = None"
    and tickets: "devTickets st' = map_set (ticket_key t) t (devTickets st)" and props: "proposals st' = proposals st"
    and source: "t_sourceProposalId t = None"
  shows "proposals_wf st' \<and> acceptance_links st'"
proof -
  have links: "acceptance_links st" using inv by (simp add: board_inv_def)
  have "accepted_proposal_link st' p" if "map_get (proposals st') j = Some p" for j p
  proof (rule accepted_link_mono)
    show "accepted_proposal_link st p" using links that props by (auto simp: acceptance_links_def)
  qed (use tickets fresh in \<open>auto split: if_splits\<close>)
  moreover have "source_proposal_link st' u" if "map_get (devTickets st') j = Some u" for j u
    using that tickets links source source_link_same[of st u st' u] props
    by (auto simp: acceptance_links_def source_proposal_link_def split: if_splits)
  ultimately show ?thesis using inv props by (simp add: acceptance_links_def board_inv_def proposals_wf_def)
qed

section \<open>Changes of a proposal\<close>

lemma selected_proposal:
  assumes "proposals_wf st" "queue_scope org ws" "map_get (proposals st) (key org ws pid) = Some p"
  shows "p_organizationId p = org \<and> p_workspaceId p = ws \<and> p_id p = pid \<and> proposal_key p = key org ws pid"
proof -
  from assms have "key org ws pid = proposal_key p" "queue_scope (p_organizationId p) (p_workspaceId p)"
    by (auto simp: proposals_wf_def)
  then show ?thesis using key_inj_parts[of org ws pid "p_organizationId p" "p_workspaceId p" "p_id p"] assms(2)
    by (auto simp: proposal_key_def)
qed

text \<open>
  A proposal advances; tickets may gain the one that this acceptance created.
\<close>

lemma proposal_change:
  assumes inv: "board_inv sha st" and at: "map_get (proposals st) k = Some p" and adv: "proposal_advances p p'"
    and props: "proposals st' = map_set k p' (proposals st)"
    and link: "accepted_proposal_link st' p'"
    and keep: "p_lifecycleState p = Accepted \<Longrightarrow> p_lifecycleState p' = Accepted \<and> p_acceptedDevTicketId p' = p_acceptedDevTicketId p"
    and old: "\<And>j t. map_get (devTickets st) j = Some t \<Longrightarrow> map_get (devTickets st') j = Some t"
    and new: "\<And>j t. map_get (devTickets st') j = Some t \<Longrightarrow> map_get (devTickets st) j = Some t \<or> source_proposal_link st' t"
  shows "proposals_wf st' \<and> acceptance_links st' \<and>
    (\<forall>j q. map_get (proposals st) j = Some q \<longrightarrow> (\<exists>q'. map_get (proposals st') j = Some q' \<and> proposal_advances q q'))"
proof (intro conjI)
  have look: "map_get (proposals st') j = (if j = k then Some p' else map_get (proposals st) j)" for j using props by simp
  have wf: "proposals_wf st" and links: "acceptance_links st" using inv by (auto simp: board_inv_def)
  show "proposals_wf st'"
    using wf at adv unfolding proposals_wf_def look by (auto simp: proposal_key_def proposal_advances_def)
  have "accepted_proposal_link st' q" if "map_get (proposals st') j = Some q" for j q
  proof (cases "j = k")
    case True
    then show ?thesis using that look link by simp
  next
    case False
    then have "accepted_proposal_link st q" using that look links by (auto simp: acceptance_links_def)
    then show ?thesis by (rule accepted_link_mono) (auto dest: old)
  qed
  moreover have "source_proposal_link st' t" if t: "map_get (devTickets st') j = Some t" for j t
  proof (cases "map_get (devTickets st) j = Some t")
    case True
    then have s: "source_proposal_link st t" using links by (auto simp: acceptance_links_def)
    show ?thesis unfolding source_proposal_link_def
    proof (intro allI impI)
      fix pid assume "t_sourceProposalId t = Some pid"
      then obtain q where q: "map_get (proposals st) (key (t_organizationId t) (t_workspaceId t) pid) = Some q"
          "p_lifecycleState q = Accepted" "p_acceptedDevTicketId q = Some (t_id t)"
        using s by (auto simp: source_proposal_link_def)
      then show "\<exists>q. map_get (proposals st') (key (t_organizationId t) (t_workspaceId t) pid) = Some q \<and>
          p_lifecycleState q = Accepted \<and> p_acceptedDevTicketId q = Some (t_id t)"
        using at keep by (cases "key (t_organizationId t) (t_workspaceId t) pid = k") (auto simp: look)
    qed
  next
    case False
    then show ?thesis using new[OF t] by blast
  qed
  ultimately show "acceptance_links st'" by (simp add: acceptance_links_def)
  show "\<forall>j q. map_get (proposals st) j = Some q \<longrightarrow> (\<exists>q'. map_get (proposals st') j = Some q' \<and> proposal_advances q q')"
    using look at adv by auto
qed

text \<open>Only proposals change.\<close>

lemma proposals_only:
  assumes "board_inv sha st" "devTickets st' = devTickets st" "todoQueueMemberships st' = todoQueueMemberships st"
    "dependencyEdges st' = dependencyEdges st" "historicalRecords st' = historicalRecords st" "grants_kept st st'"
    "proposals_wf st'" "acceptance_links st'"
    "\<And>k p. map_get (proposals st) k = Some p \<Longrightarrow> \<exists>p'. map_get (proposals st') k = Some p' \<and> proposal_advances p p'"
  shows "board_inv sha st' \<and> rows_advance st st'"
proof -
  have "hasActiveDependencies st' = hasActiveDependencies st"
    using assms(4) by (intro ext) (simp add: hasActiveDependencies_def)
  then have "board_inv sha st'" using assms queue_wf_frame[OF assms(3)]
    by (simp add: board_inv_def tickets_ok_def tickets_wf_def policy_ok_def lanes_match_def graph_wf_def graph_acyclic_def edges_keyed_def
        blockers_live_def historical_keys_ok_def)
  then show ?thesis using assms by (auto simp: rows_advance_def records_advance_same)
qed

text \<open>Nothing that the invariant reads changes.\<close>

lemma untouched:
  assumes "devTickets st' = devTickets st" "todoQueueMemberships st' = todoQueueMemberships st"
    "dependencyEdges st' = dependencyEdges st" "historicalRecords st' = historicalRecords st"
    "proposals st' = proposals st" "grants_kept st st'"
  shows "board_rel sha st st'"
  unfolding board_rel_def
proof
  assume inv: "board_inv sha st"
  have "accepted_proposal_link st' = accepted_proposal_link st" "source_proposal_link st' = source_proposal_link st"
    using assms(1,5) by (intro ext, simp add: accepted_proposal_link_def source_proposal_link_def)+
  with inv have "proposals_wf st'" "acceptance_links st'"
    using assms(1,5) by (simp_all add: board_inv_def proposals_wf_def acceptance_links_def)
  then show "board_inv sha st' \<and> rows_advance st st'"
    using proposals_only[OF inv assms(1-4,6)] assms(5) by auto
qed

end
