(* ===== verification/Board_Preservation.thy ===== *)
theory Board_Preservation
  imports Board_Invariant
begin

text \<open>
  Every command body leads from a store that satisfies the board invariant to one that satisfies it,
  with all rows advancing. The guards of the body give the preconditions of the lemmas on single
  changes; what is left per command is its one mutation.
\<close>

section \<open>Mutations keep memberships and roles\<close>

definition same_grants :: "world \<Rightarrow> world \<Rightarrow> bool" where
  "same_grants w w' \<longleftrightarrow> grants_kept (w_store w) (w_store w')"

interpretation grants_world: frame_relation same_grants
  by unfold_locales (auto simp: same_grants_def grants_kept_def)

named_theorems grantless \<open>steps that keep memberships and roles\<close>

lemmas [grantless] = grants_world.keeps_rules

lemma grantless_silent: "keeps same_store m \<Longrightarrow> keeps same_grants m"
  by (simp add: keeps_def same_store_def same_grants_def grants_kept_def)

lemma grantless_onStore [grantless]: "(\<And>st. grants_kept st (snd (f st))) \<Longrightarrow> keeps same_grants (onStore f)"
  by (simp add: keeps_def same_grants_def step_simps)

lemma grantless_stepStore [grantless]: "(\<And>st. grants_kept st (snd (m st))) \<Longrightarrow> keeps same_grants (stepStore m)"
  by (simp add: keeps_def same_grants_def step_simps)

lemma grantless_world [grantless]: "keeps same_grants (newDate rt)" "keeps same_grants (randomUUID rt)"
  by (simp_all add: keeps_def same_grants_def step_simps grants_kept_def)

lemma grantless_contentHash [grantless]: "(\<And>h. keeps same_grants (k h)) \<Longrightarrow> keeps same_grants (contentHash rt c k)"
  unfolding contentHash_def by (intro grantless)

lemma grants_updateTicketWhen: "grants_kept st (snd (updateTicketWhen k g f st))"
  by (auto simp: updateTicketWhen_def grants_kept_def split: option.splits)

lemma grants_store_ops [grantless]:
  "grants_kept st (snd (insertProposal ip st))" "grants_kept st (snd (updateProposal up st))"
  "grants_kept st (snd (insertDevTicket it st))" "grants_kept st (snd (getOrLockTodoQueueHeader og ws st))"
  "grants_kept st (snd (casBumpTodoQueueVersion og ws v st))" "grants_kept st (snd (insertTodoQueueMembership og ws tid rk st))"
  "grants_kept st (snd (updateTodoQueueMembershipRank og ws tid rk st))" "grants_kept st (snd (deleteTodoQueueMembership og ws tid st))"
  "grants_kept st (snd (insertDependencyEdge ie st))" "grants_kept st (snd (retireDependencyEdge re st))"
  "grants_kept st (snd (insertHistoricalRecord now ih st))" "grants_kept st (snd (insertLegacyTaskAlias la st))"
  "grants_kept st (snd (reconcileHistoricalCompletion_store rc st))"
  by (simp_all add: grants_kept_def insertProposal_def updateProposal_def insertDevTicket_def getOrLockTodoQueueHeader_def
      casBumpTodoQueueVersion_def insertTodoQueueMembership_def updateTodoQueueMembershipRank_def deleteTodoQueueMembership_def
      insertDependencyEdge_def retireDependencyEdge_def insertHistoricalRecord_def insertLegacyTaskAlias_def
      reconcileHistoricalCompletion_store_def Let_def split: option.splits)

lemma grants_resolve [grantless]: "grants_kept st (snd (resolveImportedHistoricalRecord rh st))"
  by (simp add: grants_kept_def resolveImportedHistoricalRecord_def Let_def split: option.splits)

lemma grants_ticket_ops [grantless]:
  "grants_kept st (snd (updateDevTicketForReadyApproval a st))" "grants_kept st (snd (updateDevTicketClassification c st))"
  "grants_kept st (snd (archiveDevTicket_store now b st))" "grants_kept st (snd (restoreDevTicket_store d st))"
  "grants_kept st (snd (bumpDevTicketVersion d st))" "grants_kept st (snd (applyDependencyChangeToDependent d st))"
  unfolding updateDevTicketForReadyApproval_def updateDevTicketClassification_def archiveDevTicket_store_def
    restoreDevTicket_store_def bumpDevTicketVersion_def applyDependencyChangeToDependent_def
  by (rule grants_updateTicketWhen)+

lemma grants_rebalance [grantless]: "grants_kept st (rebalanceTodoBand og ws tids st)"
proof -
  have "grants_kept st (rebalance_from og ws i tids st)" for i
  proof (induction og ws i tids st rule: rebalance_from.induct)
    case (2 og ws i tid tids st)
    then show ?case using grants_store_ops(7)[of st og ws tid "(i + 2) * 1000000"] by (simp add: grants_kept_def)
  qed (simp add: grants_kept_def)
  then show ?thesis by (simp add: rebalanceTodoBand_def)
qed

section \<open>Rules for mutations\<close>

lemma leads_risky:
  assumes "keeps same_grants m"
    and "\<And>x w1. m w = (Returned x, w1) \<Longrightarrow> board_rel sha (w_store w) (w_store w1)"
  shows "leads (board_rel sha) w (risky m)"
proof (cases "m w")
  case (Pair r w1)
  have "grants_kept (w_store w) (w_store w1)" using assms(1) Pair by (auto simp: keeps_def same_grants_def dest: spec[of _ w])
  from risky_store[of m w r w1, OF Pair this] show ?thesis
    using assms(2) Pair board.P_refl by (cases r) (auto simp: leads_def)
qed

text \<open>What a computation did when it returned.\<close>

lemma returned:
  "andThen m k w = (Returned y, w') \<longleftrightarrow> (\<exists>x w1. m w = (Returned x, w1) \<and> k x w1 = (Returned y, w'))"
  "stepStore s w = (Returned a, w') \<longleftrightarrow> (\<exists>st. s (w_store w) = (Returned a, st) \<and> w' = w\<lparr>w_store := st\<rparr>)"
  "onStore f w = (Returned b, w') \<longleftrightarrow> (\<exists>st. f (w_store w) = (b, st) \<and> w' = w\<lparr>w_store := st\<rparr>)"
  "newDate rt w = (Returned d, w') \<longleftrightarrow> d = rt_now rt (w_ticks w) \<and> w' = w\<lparr>w_ticks := Suc (w_ticks w)\<rparr>"
  "randomUUID rt w = (Returned u, w') \<longleftrightarrow> u = rt_randomUUID rt (w_uuids w) \<and> w' = w\<lparr>w_uuids := Suc (w_uuids w)\<rparr>"
  "ret z w = (Returned z', w') \<longleftrightarrow> z' = z \<and> w' = w"
  "throw er w = (Returned g, w') \<longleftrightarrow> False"
  "contentHash rt c q w = (Returned v, w') \<longleftrightarrow>
     (\<exists>h. computeReadyContractContentHash (rt_sha256 rt) c = Some h \<and> q h w = (Returned v, w'))"
  by (auto simp: andThen_def stepStore_def onStore_def newDate_def randomUUID_def ret_def throw_def contentHash_def
      prod_eq_iff split: prod.splits js_result.splits option.splits)

lemma leads_untouched:
  assumes "\<And>st. grants_kept st (snd (f st))"
    and "\<And>st. devTickets (snd (f st)) = devTickets st \<and> todoQueueMemberships (snd (f st)) = todoQueueMemberships st \<and>
      dependencyEdges (snd (f st)) = dependencyEdges st \<and> historicalRecords (snd (f st)) = historicalRecords st \<and>
      proposals (snd (f st)) = proposals st"
  shows "leads (board_rel sha) w (onStore f)"
  using untouched[of "snd (f (w_store w))" "w_store w" sha] assms by (simp add: leads_def step_simps)

lemma leads_header: "leads (board_rel sha) w (onStore (getOrLockTodoQueueHeader og ws))"
  by (rule leads_untouched, rule grantless) (simp add: getOrLockTodoQueueHeader_def Let_def split: option.splits)

lemma leads_bump: "leads (board_rel sha) w (onStore (casBumpTodoQueueVersion og ws v))"
  by (rule leads_untouched, rule grantless) (simp add: casBumpTodoQueueVersion_def Let_def split: option.splits)

section \<open>Proposals\<close>

lemma updateProposal_Some:
  "updateProposal i st = (Some r, st') \<longleftrightarrow>
     (\<exists>p. map_get (proposals st) (key (up_organizationId i) (up_workspaceId i) (up_proposalId i)) = Some p \<and>
        p_version p = up_expectedVersion i \<and>
        r = p\<lparr>p_lifecycleState := up_lifecycleState i, p_acceptedCommandId := up_acceptedCommandId i,
              p_acceptedDevTicketId := up_acceptedDevTicketId i,
              p_archivedAt := overlay (up_archivedAt i) (p_archivedAt p),
              p_archivedByUserId := overlay (up_archivedByUserId i) (p_archivedByUserId p),
              p_archivedReason := overlay (up_archivedReason i) (p_archivedReason p),
              p_version := p_version p + 1\<rparr> \<and>
        st' = st\<lparr>proposals := map_set (key (up_organizationId i) (up_workspaceId i) (up_proposalId i)) r (proposals st)\<rparr>)"
  by (auto simp: updateProposal_def Let_def split: option.splits if_splits)

text \<open>A change that is not an acceptance: along the lifecycle, or with the acceptance left as it is.\<close>

lemma board_updateProposal:
  assumes scope: "queue_scope (up_organizationId i) (up_workspaceId i)"
    and step: "\<And>p. board_inv sha st \<Longrightarrow> map_get (proposals st) (key (up_organizationId i) (up_workspaceId i) (up_proposalId i)) = Some p \<Longrightarrow>
      proposal_next (p_lifecycleState p) (up_lifecycleState i) \<and> up_lifecycleState i \<noteq> Accepted \<and>
        up_acceptedDevTicketId i = None \<and> up_acceptedCommandId i = None \<or>
      up_lifecycleState i = p_lifecycleState p \<and> up_acceptedDevTicketId i = p_acceptedDevTicketId p \<and>
        up_acceptedCommandId i = p_acceptedCommandId p"
  shows "board_rel sha st (snd (updateProposal i st))"
proof (cases "updateProposal i st")
  case (Pair ro st')
  show ?thesis
  proof (cases ro)
    case None
    then show ?thesis using Pair proposal_cas.cas_none[of i st st'] board.P_refl by simp
  next
    case (Some r)
    let ?k = "key (up_organizationId i) (up_workspaceId i) (up_proposalId i)"
    from Pair Some obtain p where p: "map_get (proposals st) ?k = Some p" and st': "st' = st\<lparr>proposals := map_set ?k r (proposals st)\<rparr>"
      and r: "p_id r = p_id p" "p_organizationId r = p_organizationId p" "p_workspaceId r = p_workspaceId p"
        "p_discoverySummary r = p_discoverySummary p" "p_blockingAssessment r = p_blockingAssessment p"
        "p_suggestedContract r = p_suggestedContract p" "p_createdCommandId r = p_createdCommandId p"
        "p_version r = p_version p + 1" "p_lifecycleState r = up_lifecycleState i"
        "p_acceptedDevTicketId r = up_acceptedDevTicketId i" "p_acceptedCommandId r = up_acceptedCommandId i"
      by (auto simp: updateProposal_Some)
    show ?thesis unfolding board_rel_def
    proof
      assume inv: "board_inv sha st"
      note step = step[OF inv p]
      have adv: "proposal_advances p r" using step r by (auto simp: proposal_advances_def)
      from inv have link: "accepted_proposal_link st p" using p by (auto simp: board_inv_def acceptance_links_def)
      have "accepted_proposal_link st' r"
        using link step r st' by (auto simp: accepted_proposal_link_def proposal_next_simps split: if_splits)
      moreover have "p_lifecycleState r = Accepted \<and> p_acceptedDevTicketId r = p_acceptedDevTicketId p" if "p_lifecycleState p = Accepted"
        using that step r by (auto simp: proposal_next_simps)
      ultimately have "proposals_wf st' \<and> acceptance_links st' \<and>
          (\<forall>j q. map_get (proposals st) j = Some q \<longrightarrow> (\<exists>q'. map_get (proposals st') j = Some q' \<and> proposal_advances q q'))"
        using proposal_change[OF inv p adv, of st'] st' by simp
      then have "board_inv sha st' \<and> rows_advance st st'"
        using proposals_only[OF inv, of st'] st' by (simp add: grants_kept_def)
      then show "board_inv sha (snd (updateProposal i st)) \<and> rows_advance st (snd (updateProposal i st))" using Pair by simp
    qed
  qed
qed

lemma board_insertProposal:
  assumes scope: "queue_scope (ip_organizationId i) (ip_workspaceId i)"
  shows "board_rel sha st (snd (insertProposal i st))"
proof (cases "map_get (proposals st) (key (ip_organizationId i) (ip_workspaceId i) (ip_id i))")
  case (Some p)
  then show ?thesis by (simp add: insertProposal_def board.P_refl)
next
  case None
  let ?k = "key (ip_organizationId i) (ip_workspaceId i) (ip_id i)"
  obtain row where st': "snd (insertProposal i st) = st\<lparr>proposals := map_set ?k row (proposals st)\<rparr>"
    and row: "p_id row = ip_id i" "p_organizationId row = ip_organizationId i" "p_workspaceId row = ip_workspaceId i"
      "p_lifecycleState row = ProposalDraft" "p_acceptedDevTicketId row = None" "p_acceptedCommandId row = None"
    using None by (simp add: insertProposal_def Let_def)
  show ?thesis unfolding board_rel_def
  proof
    assume inv: "board_inv sha st"
    let ?st' = "snd (insertProposal i st)"
    have look: "map_get (proposals ?st') j = (if j = ?k then Some row else map_get (proposals st) j)" for j using st' by simp
    have "proposals_wf ?st'" using inv scope row unfolding board_inv_def proposals_wf_def look by (auto simp: proposal_key_def)
    moreover have "acceptance_links ?st'"
    proof -
      have "accepted_proposal_link ?st' p" if "map_get (proposals ?st') j = Some p" for j p
        using that inv row st' unfolding look
        by (auto simp: board_inv_def acceptance_links_def accepted_proposal_link_def split: if_splits)
      moreover have "source_proposal_link ?st' t" if "map_get (devTickets ?st') j = Some t" for j t
      proof -
        have "source_proposal_link st t" using that inv st' by (auto simp: board_inv_def acceptance_links_def)
        then show ?thesis using None unfolding source_proposal_link_def look by (metis option.distinct(1))
      qed
      ultimately show ?thesis by (simp add: acceptance_links_def)
    qed
    moreover have "\<exists>p'. map_get (proposals ?st') j = Some p' \<and> proposal_advances p p'" if "map_get (proposals st) j = Some p" for j p
      using that None unfolding look by auto
    ultimately show "board_inv sha ?st' \<and> rows_advance st ?st'"
      using proposals_only[OF inv, of ?st'] st' by (simp add: grants_kept_def)
  qed
qed

text \<open>The scope of a command: neither the organization id nor the workspace id has a colon.\<close>

definition envelope_scoped :: "command_envelope \<Rightarrow> bool" where
  "envelope_scoped e \<longleftrightarrow> queue_scope (env_organizationId e) (env_workspaceId e)"

lemma leads_outcome:
  "leads (board_rel sha) w (reject e c m x r)" "leads (board_rel sha) w (accept e c rf v i)" "leads (board_rel sha) w (throw er)"
  by (intro board.leads_silent silent)+

lemma leads_case_prod: "(\<And>x y. v = (x, y) \<Longrightarrow> leads P w (k x y)) \<Longrightarrow> leads P w (case v of (x, y) \<Rightarrow> k x y)"
  by (cases v) simp

lemma leads_withCanonical: "(\<And>s. leads (board_rel sha) w (k s)) \<Longrightarrow> leads (board_rel sha) w (withCanonical v k)"
  by (simp add: withCanonical_def leads_outcome split: option.splits)

lemmas guards = board.leads_rules leads_case_prod leads_withCanonical leads_outcome silent_outcome

lemma current_proposal:
  assumes "envelope_scoped e" "board_inv sha st"
    "selectProposalForUpdate st (env_organizationId e) (env_workspaceId e) pid = Some proposal"
  shows "map_get (proposals st) (key (env_organizationId e) (env_workspaceId e) (p_id proposal)) = Some proposal"
  using selected_proposal[of st "env_organizationId e" "env_workspaceId e" pid proposal] assms
  by (auto simp: envelope_scoped_def board_inv_def selectProposalForUpdate_def)

text \<open>The update that a command makes of the proposal it read.\<close>

lemma leads_proposal_update:
  assumes scope: "envelope_scoped e"
    and read: "selectProposalForUpdate (w_store w) (env_organizationId e) (env_workspaceId e) pid = Some proposal"
    and m: "keeps same_grants m"
      "\<And>x w1. m w = (Returned x, w1) \<Longrightarrow> \<exists>i. w_store w1 = snd (updateProposal i (w_store w)) \<and>
        up_organizationId i = env_organizationId e \<and> up_workspaceId i = env_workspaceId e \<and> up_proposalId i = p_id proposal \<and>
        (proposal_next (p_lifecycleState proposal) (up_lifecycleState i) \<and> up_lifecycleState i \<noteq> Accepted \<and>
           up_acceptedDevTicketId i = None \<and> up_acceptedCommandId i = None \<or>
         up_lifecycleState i = p_lifecycleState proposal \<and> up_acceptedDevTicketId i = p_acceptedDevTicketId proposal \<and>
           up_acceptedCommandId i = p_acceptedCommandId proposal)"
  shows "leads (board_rel sha) w (risky m)"
proof (rule leads_risky[OF m(1)])
  fix x w1 assume "m w = (Returned x, w1)"
  from m(2)[OF this] obtain i where i: "w_store w1 = snd (updateProposal i (w_store w))"
      "up_organizationId i = env_organizationId e" "up_workspaceId i = env_workspaceId e" "up_proposalId i = p_id proposal"
      "proposal_next (p_lifecycleState proposal) (up_lifecycleState i) \<and> up_lifecycleState i \<noteq> Accepted \<and>
         up_acceptedDevTicketId i = None \<and> up_acceptedCommandId i = None \<or>
       up_lifecycleState i = p_lifecycleState proposal \<and> up_acceptedDevTicketId i = p_acceptedDevTicketId proposal \<and>
         up_acceptedCommandId i = p_acceptedCommandId proposal" by blast
  have "board_rel sha (w_store w) (snd (updateProposal i (w_store w)))"
  proof (rule board_updateProposal)
    show "queue_scope (up_organizationId i) (up_workspaceId i)" using scope i by (simp add: envelope_scoped_def)
    fix p assume "board_inv sha (w_store w)"
      "map_get (proposals (w_store w)) (key (up_organizationId i) (up_workspaceId i) (up_proposalId i)) = Some p"
    then have "p = proposal" using current_proposal[OF scope _ read] i by simp
    then show "proposal_next (p_lifecycleState p) (up_lifecycleState i) \<and> up_lifecycleState i \<noteq> Accepted \<and>
         up_acceptedDevTicketId i = None \<and> up_acceptedCommandId i = None \<or>
       up_lifecycleState i = p_lifecycleState p \<and> up_acceptedDevTicketId i = p_acceptedDevTicketId p \<and>
         up_acceptedCommandId i = p_acceptedCommandId p" using i(5) by simp
  qed
  then show "board_rel sha (w_store w) (w_store w1)" using i(1) by simp
qed

lemma leads_draftProposal: "envelope_scoped e \<Longrightarrow> leads (board_rel sha) w (draftProposal_body rt e i)"
  unfolding draftProposal_body_def
proof (intro guards, goal_cases)
  case (1 summary assessment contract)
  show ?case
  proof (rule board.leads_andThen_last, rule leads_risky, goal_cases)
    case (2 x w1)
    then show ?case using \<open>envelope_scoped e\<close>
      by (auto simp: stepStore_def envelope_scoped_def intro!: board_insertProposal)
  qed (intro grantless silent)+
qed

lemma leads_submitProposal: "envelope_scoped e \<Longrightarrow> leads (board_rel sha) w (submitProposal_body rt e pid)"
  unfolding submitProposal_body_def
proof (intro guards, goal_cases)
  case (1 version proposal)
  show ?case
  proof (rule board.leads_andThen_last, rule leads_proposal_update[OF 1(1,3)], goal_cases)
    case (2 x w1)
    then show ?case using 1 by (auto simp: onStore_def proposal_update_def proposal_next_simps)
  qed (intro grantless silent)+
qed

lemma leads_mergeProposal: "envelope_scoped e \<Longrightarrow> leads (board_rel sha) w (mergeProposal_body rt e i)"
  unfolding mergeProposal_body_def
proof (intro guards, goal_cases)
  case (1 reason version proposal tversion ticket)
  show ?case
  proof (rule board.leads_andThen_last, rule leads_proposal_update[OF 1(1,4)], goal_cases)
    case (2 x w1)
    then show ?case using 1 by (auto simp: onStore_def proposal_update_def proposal_next_simps)
  qed (intro grantless silent)+
qed

lemma leads_rejectProposal: "envelope_scoped e \<Longrightarrow> leads (board_rel sha) w (decideProposal_body rt e i Rejected n c s)"
  unfolding decideProposal_body_def
proof (intro guards, goal_cases)
  case (1 reason version proposal)
  show ?case
  proof (rule board.leads_andThen_last, rule leads_proposal_update[OF 1(1,4)], goal_cases)
    case (2 x w1)
    then show ?case using 1 by (auto simp: onStore_def proposal_update_def proposal_next_simps)
  qed (intro grantless silent)+
qed

lemma leads_archiveProposal: "envelope_scoped e \<Longrightarrow> leads (board_rel sha) w (archiveProposal_body rt e i)"
  unfolding archiveProposal_body_def
proof (intro guards, goal_cases)
  case (1 reason version proposal)
  show ?case
  proof (rule board.leads_andThen_last, rule leads_proposal_update[OF 1(1,4)], goal_cases)
    case (2 x w1)
    then show ?case by (auto simp: onStore_def newDate_def andThen_def proposal_update_def)
  qed (intro grantless silent)+
qed

lemma leads_restoreProposal: "envelope_scoped e \<Longrightarrow> leads (board_rel sha) w (restoreProposal_body rt e pid)"
  unfolding restoreProposal_body_def
proof (intro guards, goal_cases)
  case (1 version proposal)
  show ?case
  proof (rule board.leads_andThen_last, rule leads_proposal_update[OF 1(1,3)], goal_cases)
    case (2 x w1)
    then show ?case by (auto simp: onStore_def proposal_update_def)
  qed (intro grantless silent)+
qed

section \<open>Acceptance\<close>

lemma insertDevTicket_Returned:
  assumes "insertDevTicket i st = (Returned t, st')"
  shows "map_get (devTickets st) (ticket_key t) = None \<and> st' = st\<lparr>devTickets := map_set (ticket_key t) t (devTickets st)\<rparr> \<and>
    ticket_key t = key (it_organizationId i) (it_workspaceId i) (it_id i) \<and>
    t_organizationId t = it_organizationId i \<and> t_workspaceId t = it_workspaceId i \<and> t_id t = it_id i \<and> t_lane t = Backlog \<and>
    unapproved t \<and> t_version t = 1 \<and> t_sourceProposalId t = it_sourceProposalId i \<and>
    t_readyContractContent t = it_readyContractContent i \<and> t_readyContractContentHash t = it_readyContractContentHash i"
  using assms by (auto simp: insertDevTicket_def Let_def unapproved_def ticket_key_def split: if_splits)

lemma inserted_ticket_ok:
  assumes "insertDevTicket i st = (Returned t, st')"
    "computeReadyContractContentHash sha (it_readyContractContent i) = Some (it_readyContractContentHash i)"
  shows "ticket_ok sha t"
  using insertDevTicket_Returned[OF assms(1)] assms(2) by (simp add: ticket_ok_def hash_ok_def)

lemma board_acceptance:
  assumes inv: "board_inv sha st" and scope: "queue_scope org ws"
    and p: "map_get (proposals st) (key org ws (p_id p)) = Some p" "p_lifecycleState p = AwaitingDecision"
      "p_organizationId p = org" "p_workspaceId p = ws"
    and ins: "insertDevTicket i st = (Returned t, st1)"
      "computeReadyContractContentHash sha (it_readyContractContent i) = Some (it_readyContractContentHash i)"
      "it_organizationId i = org" "it_workspaceId i = ws" "it_sourceProposalId i = Some (p_id p)"
    and upd: "updateProposal u st1 = (Some p', st')" "up_organizationId u = org" "up_workspaceId u = ws" "up_proposalId u = p_id p"
      "up_lifecycleState u = Accepted" "up_acceptedCommandId u = Some c" "up_acceptedDevTicketId u = Some (t_id t)"
  shows "board_inv sha st' \<and> rows_advance st st'"
proof -
  note t = insertDevTicket_Returned[OF ins(1)]
  let ?k = "key org ws (p_id p)"
  obtain st'_eq: "st' = st1\<lparr>proposals := map_set ?k p' (proposals st)\<rparr>" and p': "p_id p' = p_id p" "p_organizationId p' = org"
      "p_workspaceId p' = ws" "p_lifecycleState p' = Accepted" "p_acceptedCommandId p' = Some c"
      "p_acceptedDevTicketId p' = Some (t_id t)" "proposal_advances p p'"
    using upd p t r_into_rtranclp[of proposal_next, OF proposal_next.decide_accept]
    by (auto simp: updateProposal_Some proposal_advances_def)
  have tickets: "devTickets st' = map_set (ticket_key t) t (devTickets st)" using st'_eq t by simp
  have props: "proposals_wf st' \<and> acceptance_links st' \<and>
    (\<forall>j q. map_get (proposals st) j = Some q \<longrightarrow> (\<exists>q'. map_get (proposals st') j = Some q' \<and> proposal_advances q q'))"
  proof (rule proposal_change[OF inv p(1) p'(7)])
    show "accepted_proposal_link st' p'" "proposals st' = map_set ?k p' (proposals st)"
      using p' t ins(3-5) tickets st'_eq by (auto simp: accepted_proposal_link_def)
    fix j x assume x: "map_get (devTickets st') j = Some x"
    show "map_get (devTickets st) j = Some x \<or> source_proposal_link st' x"
      using x tickets t p' ins(3-5) st'_eq by (auto simp: source_proposal_link_def split: if_splits)
  qed (use p(2) tickets t in auto)
  show ?thesis
    by (rule ticket_insert[OF inv _ _ inserted_ticket_ok[OF ins(1,2)] _ tickets])
      (use t ins(3,4) scope st'_eq props inv in \<open>auto simp: grants_kept_def board_inv_def historical_keys_ok_def records_advance_same\<close>)
qed

lemma leads_acceptProposal: "envelope_scoped e \<Longrightarrow> leads (board_rel (rt_sha256 rt)) w (acceptProposal_body rt e i)"
  unfolding acceptProposal_body_def
proof (intro guards, goal_cases)
  case (1 version proposal contract)
  show ?case
  proof (rule board.leads_andThen_last, rule leads_risky, goal_cases)
    case (2 x w1)
    show ?case unfolding board_rel_def
    proof
      assume inv: "board_inv (rt_sha256 rt) (w_store w)"
      have row: "map_get (proposals (w_store w)) (key (env_organizationId e) (env_workspaceId e) (p_id proposal)) = Some proposal"
        using current_proposal[OF 1(1) inv 1(3)] .
      have scope: "queue_scope (env_organizationId e) (env_workspaceId e)" using 1(1) by (simp add: envelope_scoped_def)
      have own: "p_organizationId proposal = env_organizationId e" "p_workspaceId proposal = env_workspaceId e"
        using selected_proposal[OF _ scope row] inv by (auto simp: board_inv_def)
      let ?it = "\<lambda>h. \<lparr>it_id = rt_randomUUID rt (w_uuids w), it_organizationId = env_organizationId e,
        it_workspaceId = env_workspaceId e, it_originKind = OriginProposal, it_sourceProposalId = Some (p_id proposal),
        it_humanOwnerUserId = acp_humanOwnerUserId i, it_readyContractContent = contract,
        it_readyContractContentHash = h, it_createdCommandId = env_commandId e\<rparr>"
      from 2 obtain h t st1 ro where hash: "computeReadyContractContentHash (rt_sha256 rt) contract = Some h"
          and ins: "insertDevTicket (?it h) (w_store w) = (Returned t, st1)"
          and upd: "updateProposal (proposal_update e (p_id proposal) version Accepted
             \<lparr>up_acceptedCommandId := Some (env_commandId e), up_acceptedDevTicketId := Some (t_id t)\<rparr>) st1 = (ro, w_store w1)"
        by (auto simp: returned)
      have "proposals st1 = proposals (w_store w)" using insertDevTicket_Returned[OF ins] by simp
      then obtain p' where "ro = Some p'" using upd row 1(2-5) by (auto simp: updateProposal_def proposal_update_def Let_def split: if_splits)
      then show "board_inv (rt_sha256 rt) (w_store w1) \<and> rows_advance (w_store w) (w_store w1)"
        using board_acceptance[OF inv scope row _ own ins] upd hash 1(5)
        by (simp add: proposal_update_def)
    qed
  qed (intro grantless silent)+
qed

end
