(* ===== verification/Ticket_Preservation.thy ===== *)
theory Ticket_Preservation
  imports Board_Preservation
begin

text \<open>
  The commands on tickets keep the board: archive, restore, classification, Ready approval and
  reordering, each through the lemma on the change of one ticket.
\<close>

lemma grants_rebalance_pair [grantless]: "grants_kept st (snd ((), rebalanceTodoBand og ws tids st))"
  by (simp add: grants_rebalance)

lemma grantless_parts [grantless]:
  "keeps same_grants (leaveTodo e d tid q)" "keeps same_grants (archiveMutation rt e t r q)"
  "keeps same_grants (approvalMutation rt e t v c h ms rk rb)" "keeps same_grants (changeDependent e t q)"
  "keeps same_grants (addMutation rt e t b q)" "keeps same_grants (removeMutation e g v t q)"
  "keeps same_grants (placeTodo e tid rk rb ids)"
  unfolding archiveMutation_def approvalMutation_def addMutation_def removeMutation_def changeDependent_def leaveTodo_def placeTodo_def
  by (intro grantless)+

section \<open>One ticket changes, the dependencies stay\<close>

lemma ticket_update:
  assumes inv: "board_inv sha st" and at: "map_get (devTickets st) k = Some t"
    and adv: "ticket_advances t t'" and ok: "ticket_ok sha t'" and pol: "t_lane t' = Todo \<Longrightarrow> policy_ok sha st t'"
    and tickets: "devTickets st' = map_set k t' (devTickets st)"
    and members: "\<And>j. map_get (todoQueueMemberships st') j \<noteq> None \<longleftrightarrow>
        (if j = k then t_lane t' = Todo else map_get (todoQueueMemberships st) j \<noteq> None)"
    and queue: "queue_wf st'" and edges: "dependencyEdges st' = dependencyEdges st"
    and arch: "t_archivedAt t' = None \<or> t_archivedAt t' = t_archivedAt t \<or>
        selectActiveBlockerEdges st (t_organizationId t) (t_workspaceId t) (t_id t) = []"
    and same: "proposals st' = proposals st" "historicalRecords st' = historicalRecords st" "grants_kept st st'"
  shows "board_inv sha st' \<and> rows_advance st st'"
proof (rule ticket_change[OF inv at adv ok _ tickets members queue])
  have deps: "hasActiveDependencies st' = hasActiveDependencies st"
    using edges by (intro ext) (simp add: hasActiveDependencies_def)
  show "policy_ok sha st' t'" using pol deps by (auto simp: policy_ok_def)
  show "graph_wf st'" using inv edges by (simp add: board_inv_def graph_wf_def graph_acyclic_def edges_keyed_def)
  show "hasActiveDependencies st (t_organizationId u) (t_workspaceId u) (t_id u)"
    if "hasActiveDependencies st' (t_organizationId u) (t_workspaceId u) (t_id u)" for u using that deps by simp
  fix e assume e: "e \<in> set (map_values (dependencyEdges st'))" "e_lifecycleState e = Active"
  let ?b = "key (e_organizationId e) (e_workspaceId e) (e_blockerDevTicketId e)"
  have "t_archivedAt t' = None" if b: "?b = k"
  proof -
    from e edges inv b at have live: "t_archivedAt t = None" and sc: "queue_scope (e_organizationId e) (e_workspaceId e)"
      by (auto simp: board_inv_def blockers_live_def)
    from selected_ticket[OF _ sc, of st "e_blockerDevTicketId e" t] b at inv
    have "t_organizationId t = e_organizationId e" "t_workspaceId t = e_workspaceId e" "t_id t = e_blockerDevTicketId e"
      by (auto simp: board_inv_def tickets_ok_def)
    then have "e \<in> set (selectActiveBlockerEdges st (t_organizationId t) (t_workspaceId t) (t_id t))"
      using e edges by (simp add: selectActiveBlockerEdges_def edge_in_def)
    then show ?thesis using arch live by (cases "selectActiveBlockerEdges st (t_organizationId t) (t_workspaceId t) (t_id t)") auto
  qed
  with e edges show "(e \<in> set (map_values (dependencyEdges st)) \<or> queue_scope (e_organizationId e) (e_workspaceId e) \<and>
      map_get (devTickets st) (key (e_organizationId e) (e_workspaceId e) (e_dependentDevTicketId e)) \<noteq> None \<and>
      (\<exists>b. map_get (devTickets st) (key (e_organizationId e) (e_workspaceId e) (e_blockerDevTicketId e)) = Some b \<and> t_archivedAt b = None)) \<and>
      (key (e_organizationId e) (e_workspaceId e) (e_blockerDevTicketId e) = k \<longrightarrow> t_archivedAt t' = None)" by simp
qed (use same in auto)

text \<open>The lane and the queue stay too.\<close>

lemma ticket_in_place:
  assumes inv: "board_inv sha st" and at: "map_get (devTickets st) k = Some t"
    and adv: "ticket_advances t t'" and ok: "ticket_ok sha t'" and pol: "t_lane t' = Todo \<Longrightarrow> policy_ok sha st t'"
    and lane: "t_lane t' = t_lane t" and arch: "t_archivedAt t' = None \<or> t_archivedAt t' = t_archivedAt t"
    and st': "st' = st\<lparr>devTickets := map_set k t' (devTickets st)\<rparr>"
  shows "board_inv sha st' \<and> rows_advance st st'"
proof (rule ticket_update[OF inv at adv ok pol])
  show "queue_wf st'" using inv st' queue_wf_frame[of st' st] by (simp add: board_inv_def)
  show "map_get (todoQueueMemberships st') j \<noteq> None \<longleftrightarrow>
        (if j = k then t_lane t' = Todo else map_get (todoQueueMemberships st) j \<noteq> None)" for j
    using inv at lane st' by (auto simp: board_inv_def lanes_match_def)
qed (use st' arch in \<open>auto simp: grants_kept_def\<close>)

lemma current_ticket:
  assumes "envelope_scoped e" "board_inv sha st"
    "selectDevTicketForUpdate st (env_organizationId e) (env_workspaceId e) tid = Some t"
  shows "map_get (devTickets st) (key (env_organizationId e) (env_workspaceId e) (t_id t)) = Some t \<and>
    t_organizationId t = env_organizationId e \<and> t_workspaceId t = env_workspaceId e \<and>
    ticket_key t = key (env_organizationId e) (env_workspaceId e) (t_id t) \<and> ticket_ok sha t \<and> policy_ok sha st t"
  using selected_ticket[of st "env_organizationId e" "env_workspaceId e" tid t] assms
  by (auto simp: envelope_scoped_def board_inv_def tickets_ok_def selectDevTicketForUpdate_def)

section \<open>Restore and classification\<close>

lemma restored_ok:
  assumes "ticket_ok sha t" "t_archivedAt t \<noteq> None"
  shows "ticket_advances t (restored_row t) \<and> ticket_ok sha (restored_row t) \<and> t_lane t = Backlog"
  using assms by (auto simp: restored_row_def clear_ready_def ticket_advances_def ticket_ok_def hash_ok_def unapproved_def approved_def)

lemma leads_restoreDevTicket: "envelope_scoped e \<Longrightarrow> leads (board_rel sha) w (restoreDevTicket_body rt e tid)"
  unfolding restoreDevTicket_body_def
proof (intro guards, goal_cases)
  case (1 version ticket)
  show ?case
  proof (rule board.leads_andThen_last, rule leads_risky, goal_cases)
    case (2 x w1)
    show ?case unfolding board_rel_def
    proof
      assume inv: "board_inv sha (w_store w)"
      note t = current_ticket[OF 1(1) inv 1(3)]
      from 2 t 1(5) have "w_store w1 = (w_store w)\<lparr>devTickets :=
          map_set (key (env_organizationId e) (env_workspaceId e) (t_id ticket)) (restored_row ticket) (devTickets (w_store w))\<rparr>"
        by (auto simp: returned restoreDevTicket_store_def updateTicketWhen_def ticket_target_def)
      then show "board_inv sha (w_store w1) \<and> rows_advance (w_store w) (w_store w1)"
        using ticket_in_place[OF inv, of _ ticket "restored_row ticket"] restored_ok[of sha ticket] t 1(5)
        by (auto simp: restored_row_def clear_ready_def)
    qed
  qed (intro grantless silent)+
qed

lemma classified_ok:
  assumes "ticket_ok sha t" "t_lane t = Backlog"
    and "computeReadyContractContentHash sha (cl_readyContractContent i) = Some (cl_readyContractContentHash i)"
  shows "ticket_advances t (classified_row i t) \<and> ticket_ok sha (classified_row i t) \<and> t_lane (classified_row i t) = Backlog \<and>
    t_archivedAt (classified_row i t) = t_archivedAt t"
  using assms by (auto simp: classified_row_def ticket_advances_def ticket_ok_def hash_ok_def unapproved_def)

lemma leads_setDevTicketClassification:
  "envelope_scoped e \<Longrightarrow> leads (board_rel (rt_sha256 rt)) w (setDevTicketClassification_body rt e i)"
  unfolding setDevTicketClassification_body_def
proof (intro guards, goal_cases)
  case (1 version ticket ty areas prio declared sev owner evaluation classification content h)
  show ?case
  proof (rule board.leads_andThen_last, rule leads_risky, goal_cases)
    case (2 x w1)
    show ?case unfolding board_rel_def
    proof
      assume inv: "board_inv (rt_sha256 rt) (w_store w)"
      note t = current_ticket[OF 1(1) inv 1(3)]
      from 2 t obtain c where "w_store w1 = (w_store w)\<lparr>devTickets :=
          map_set (key (env_organizationId e) (env_workspaceId e) (t_id ticket)) (classified_row c ticket) (devTickets (w_store w))\<rparr>"
        "cl_readyContractContent c = content" "cl_readyContractContentHash c = h"
        by (auto simp: returned updateDevTicketClassification_def updateTicketWhen_def)
      then show "board_inv (rt_sha256 rt) (w_store w1) \<and> rows_advance (w_store w) (w_store w1)"
        using ticket_in_place[OF inv, of _ ticket "classified_row c ticket"] classified_ok[of "rt_sha256 rt" ticket c] t 1
        by auto
    qed
  qed (intro grantless silent)+
qed

section \<open>Leaving Todo\<close>

lemma reads_past_headers [simp]:
  "selectDevTicketForUpdate (st\<lparr>todoQueueHeaders := hs\<rparr>) = selectDevTicketForUpdate st"
  "selectDevTicket (st\<lparr>todoQueueHeaders := hs\<rparr>) = selectDevTicket st"
  "selectActiveBlockerEdges (st\<lparr>todoQueueHeaders := hs\<rparr>) = selectActiveBlockerEdges st"
  "dependencyCreatesCycle (st\<lparr>todoQueueHeaders := hs\<rparr>) = dependencyCreatesCycle st"
  "hasActiveDependencies (st\<lparr>todoQueueHeaders := hs\<rparr>) = hasActiveDependencies st"
  "selectDependencyEdge (st\<lparr>todoQueueHeaders := hs\<rparr>) = selectDependencyEdge st"
  by (intro ext, simp add: selectDevTicketForUpdate_def selectDevTicket_def selectActiveBlockerEdges_def
      dependencyCreatesCycle_def hasActiveDependencies_def selectDependencyEdge_def)+

lemma leads_todoQueueGuard:
  assumes "\<And>w1 hs q. w_store w1 = (w_store w)\<lparr>todoQueueHeaders := hs\<rparr> \<Longrightarrow> q \<noteq> None \<longleftrightarrow> lane = Todo \<Longrightarrow> leads (board_rel sha) w1 (k q)"
  shows "leads (board_rel sha) w (todoQueueGuard e lane k)"
  unfolding todoQueueGuard_def
proof (intro board.leads_if board.leads_andThen leads_header guards, goal_cases)
  case (1 header w1 v)
  then have "\<exists>hs. w_store w1 = (w_store w)\<lparr>todoQueueHeaders := hs\<rparr>"
    by (auto simp: returned getOrLockTodoQueueHeader_def Let_def split: option.splits if_splits)
      (metis planning_store.surjective planning_store.update_convs(4))+
  with 1 assms show ?case by auto
next
  case 2
  show ?case using assms[of w "todoQueueHeaders (w_store w)" None] 2 by simp
qed

definition after_leaving :: "string \<Rightarrow> string \<Rightarrow> string \<Rightarrow> bool \<Rightarrow> planning_store \<Rightarrow> planning_store" where
  "after_leaving org ws tid queued st = (if queued then snd (deleteTodoQueueMembership org ws tid st) else st)"

lemma leaveTodo_Returned:
  assumes "leaveTodo e d tid queue w = (Returned v, w1)"
  shows "\<exists>hs. w_store w1 = (after_leaving (env_organizationId e) (env_workspaceId e) tid (queue \<noteq> None) (w_store w))\<lparr>todoQueueHeaders := hs\<rparr>"
proof (cases queue)
  case None
  then show ?thesis using assms by (auto simp: leaveTodo_def returned after_leaving_def intro: exI[of _ "todoQueueHeaders (w_store w)"])
next
  case (Some q)
  have bump: "st' = st\<lparr>todoQueueHeaders := todoQueueHeaders st'\<rparr>"
    if "casBumpTodoQueueVersion (env_organizationId e) (env_workspaceId e) q st = (r, st')" for r st st'
    using that by (auto simp: casBumpTodoQueueVersion_def Let_def split: option.splits if_splits)
  from assms Some obtain b st1 h where del: "deleteTodoQueueMembership (env_organizationId e) (env_workspaceId e) tid (w_store w) = (b, st1)"
      and cas: "casBumpTodoQueueVersion (env_organizationId e) (env_workspaceId e) q st1 = (Some h, w_store w1)"
    by (auto simp: leaveTodo_def returned split: if_splits option.splits)
  from del bump[OF cas] Some show ?thesis by (auto simp: after_leaving_def)
qed

lemma queue_after_leaving:
  assumes inv: "board_inv sha st" and sc: "queue_scope org ws" and at: "map_get (devTickets st) (key org ws tid) = Some t"
    and st': "todoQueueMemberships st' = todoQueueMemberships (after_leaving org ws tid (t_lane t = Todo) st)"
  shows "queue_wf st'" and "map_get (todoQueueMemberships st') j \<noteq> None \<longleftrightarrow>
     (if j = key org ws tid then False else map_get (todoQueueMemberships st) j \<noteq> None)"
proof -
  have "queue_wf st" using inv by (simp add: board_inv_def)
  then have "queue_wf (after_leaving org ws tid (t_lane t = Todo) st)"
    using queue_wf_delete[OF _ sc] by (simp add: after_leaving_def)
  then show "queue_wf st'" using queue_wf_frame[OF st'] by simp
  have lane: "map_get (todoQueueMemberships st) (key org ws tid) \<noteq> None \<longleftrightarrow> t_lane t = Todo"
    using inv at by (simp add: board_inv_def lanes_match_def)
  show "map_get (todoQueueMemberships st') j \<noteq> None \<longleftrightarrow>
     (if j = key org ws tid then False else map_get (todoQueueMemberships st) j \<noteq> None)"
    using lane st' by (auto simp: after_leaving_def deleteTodoQueueMembership_def Let_def)
qed

lemma archived_ok:
  assumes "ticket_ok sha t"
  shows "ticket_advances t (archived_row now i t) \<and> ticket_ok sha (archived_row now i t) \<and> t_lane (archived_row now i t) = Backlog"
  using assms by (auto simp: archived_row_def clear_ready_def ticket_advances_def ticket_ok_def hash_ok_def unapproved_def)

lemma board_archive:
  assumes inv: "board_inv sha st" and scope: "envelope_scoped e"
    and t: "selectDevTicketForUpdate st (env_organizationId e) (env_workspaceId e) tid = Some t"
    and free: "selectActiveBlockerEdges st (env_organizationId e) (env_workspaceId e) (t_id t) = []"
    and run: "archiveMutation rt e t reason queue w = (Returned x, w1)" "w_store w = st" "queue \<noteq> None \<longleftrightarrow> t_lane t = Todo"
  shows "board_inv sha (w_store w1) \<and> rows_advance st (w_store w1)"
proof -
  let ?k = "key (env_organizationId e) (env_workspaceId e) (t_id t)"
  note row = current_ticket[OF scope inv t]
  from run(1) obtain v w2 now i st3 where left: "leaveTodo e ''DevTicket version or Todo membership has changed.'' (t_id t) queue w = (Returned v, w2)"
    and arch: "archiveDevTicket_store now i (w_store w2) = (Some (fst x), w_store w1)"
      "at_organizationId i = env_organizationId e" "at_workspaceId i = env_workspaceId e" "at_devTicketId i = t_id t"
    by (auto simp: archiveMutation_def returned split: option.splits)
  from leaveTodo_Returned[OF left] run(2,3) obtain hs where w2: "w_store w2 =
      (after_leaving (env_organizationId e) (env_workspaceId e) (t_id t) (t_lane t = Todo) st)\<lparr>todoQueueHeaders := hs\<rparr>" by auto
  have look: "map_get (devTickets (w_store w2)) ?k = Some t" and frame: "dependencyEdges (w_store w2) = dependencyEdges st"
      "proposals (w_store w2) = proposals st" "historicalRecords (w_store w2) = historicalRecords st" "grants_kept st (w_store w2)"
      "devTickets (w_store w2) = devTickets st"
    using row w2 by (auto simp: after_leaving_def deleteTodoQueueMembership_def Let_def grants_kept_def)
  have w1: "w_store w1 = (w_store w2)\<lparr>devTickets := map_set ?k (archived_row now i t) (devTickets st)\<rparr>"
    using arch look frame by (auto simp: archiveDevTicket_store_def updateTicketWhen_def split: if_splits)
  have members: "todoQueueMemberships (w_store w1) =
      todoQueueMemberships (after_leaving (env_organizationId e) (env_workspaceId e) (t_id t) (t_lane t = Todo) st)"
    using w1 w2 by simp
  note queue = queue_after_leaving[OF inv _ _ members] and ok = archived_ok[of sha t now i]
  show ?thesis
  proof (rule ticket_update[OF inv, where t = t and t' = "archived_row now i t" and k = ?k])
  qed (use row ok queue scope w1 frame free in \<open>simp_all add: envelope_scoped_def grants_kept_def\<close>)
qed

lemma leads_archiveDevTicket: "envelope_scoped e \<Longrightarrow> leads (board_rel sha) w (archiveDevTicket_body rt e i)"
  unfolding archiveDevTicket_body_def
proof (intro guards leads_todoQueueGuard, goal_cases)
  case (1 reason version ticket w1 hs q)
  show ?case
  proof (rule board.leads_andThen_last, rule board.leads_catchDrift, rule leads_risky, goal_cases)
    case (2 x w2)
    then show ?case unfolding board_rel_def
      using board_archive[of sha "w_store w1" e "tr_devTicketId i" ticket rt reason q w1 x w2] 1
      by simp
  qed (intro grantless silent)+
qed

end
