(* ===== verification/Queue_Laws.thy ===== *)
theory Queue_Laws
  imports Queue_Commands
begin

text \<open>
  The two ways in which a command places a ticket in the Todo queue refine operations on the list of
  queued tickets: approval appends, reordering moves. Both hold with and without the rebalancing of
  ranks, and neither touches anything but the memberships.
\<close>

section \<open>Rebalancing touches ranks only\<close>

lemma rebalance_frame:
  "rebalanceTodoBand org ws tids st = st\<lparr>todoQueueMemberships := todoQueueMemberships (rebalanceTodoBand org ws tids st)\<rparr> \<and>
   (map_get (todoQueueMemberships (rebalanceTodoBand org ws tids st)) k = None \<longleftrightarrow> map_get (todoQueueMemberships st) k = None)"
proof -
  have "rebalance_from org ws i tids st = st\<lparr>todoQueueMemberships := todoQueueMemberships (rebalance_from org ws i tids st)\<rparr> \<and>
     (map_get (todoQueueMemberships (rebalance_from org ws i tids st)) k = None \<longleftrightarrow> map_get (todoQueueMemberships st) k = None)" for i
  proof (induction org ws i tids st rule: rebalance_from.induct)
    case (2 org ws i tid tids st)
    let ?st = "snd (updateTodoQueueMembershipRank org ws tid ((i + 2) * 1000000) st)"
    have "?st = st\<lparr>todoQueueMemberships := todoQueueMemberships ?st\<rparr>"
      and same: "map_get (todoQueueMemberships ?st) k = None \<longleftrightarrow> map_get (todoQueueMemberships st) k = None"
      by (auto simp: updateTodoQueueMembershipRank_def Let_def)
    then have "?st\<lparr>todoQueueMemberships := ms\<rparr> = st\<lparr>todoQueueMemberships := ms\<rparr>" for ms
      by (metis (no_types) planning_store.update_convs(5) planning_store.surjective)
    with 2 same show ?case unfolding rebalance_from.simps by metis
  qed simp
  then show ?thesis by (simp add: rebalanceTodoBand_def)
qed

section \<open>The queue as a list\<close>

definition todo_order :: "(string \<Rightarrow> string \<Rightarrow> int) \<Rightarrow> planning_store \<Rightarrow> string \<Rightarrow> string \<Rightarrow> string list" where
  "todo_order lc st org ws = map m_devTicketId (listTodoQueueRanks lc st org ws)"

lemma todo_order_distinct:
  assumes "queue_wf st" "queue_scope org ws"
  shows "distinct (todo_order lc st org ws)" and "set (todo_order lc st org ws) = dom (band st org ws)"
proof -
  let ?ms = "listTodoQueueRanks lc st org ws"
  have ob: "ordered_band (band st org ws) ?ms" by (rule listed_ordered[OF assms])
  have "inj_on m_devTicketId (set ?ms)"
    using ob by (auto simp: inj_on_def ordered_band_def member_eq)
  moreover have "distinct ?ms" using listed_distinct[OF assms] by blast
  ultimately show "distinct (todo_order lc st org ws)" by (simp add: todo_order_def distinct_map)
  show "set (todo_order lc st org ws) = dom (band st org ws)"
    using ordered_band_dom[OF ob] by (auto simp: todo_order_def)
qed

lemma todo_order_frame:
  "todoQueueMemberships st' = todoQueueMemberships st \<Longrightarrow> todo_order lc st' org ws = todo_order lc st org ws"
  by (simp add: todo_order_def listTodoQueueRanks_def)

lemma rebalanced_order:
  assumes "queue_wf st" "queue_scope org ws" "distinct tids" "set tids = dom (band st org ws)"
    "(int (length tids) + 1) * 1000000 \<le> rank_limit"
  shows "todo_order lc (rebalanceTodoBand org ws tids st) org ws = tids"
  using rebalanced_queue[OF assms] by (simp add: todo_order_def spaced_ids)

section \<open>Appending\<close>

definition append_todo :: "string \<Rightarrow> string \<Rightarrow> string \<Rightarrow> todo_membership list \<Rightarrow> int \<times> bool \<Rightarrow> planning_store \<Rightarrow> planning_store" where
  "append_todo org ws tid members place st =
     put_rank org ws tid (fst place) (if snd place then rebalanceTodoBand org ws (map m_devTicketId members) st else st)"

lemma rebalance_fields:
  "devTickets (rebalanceTodoBand org ws tids st) = devTickets st" "proposals (rebalanceTodoBand org ws tids st) = proposals st"
  "dependencyEdges (rebalanceTodoBand org ws tids st) = dependencyEdges st"
  "historicalRecords (rebalanceTodoBand org ws tids st) = historicalRecords st"
  "activeMembers (rebalanceTodoBand org ws tids st) = activeMembers st"
  "organizationRoles (rebalanceTodoBand org ws tids st) = organizationRoles st"
proof -
  note frame = rebalance_frame[of org ws tids st, THEN conjunct1]
  show "devTickets (rebalanceTodoBand org ws tids st) = devTickets st" using arg_cong[OF frame, of devTickets] by simp
  show "proposals (rebalanceTodoBand org ws tids st) = proposals st" using arg_cong[OF frame, of proposals] by simp
  show "dependencyEdges (rebalanceTodoBand org ws tids st) = dependencyEdges st" using arg_cong[OF frame, of dependencyEdges] by simp
  show "historicalRecords (rebalanceTodoBand org ws tids st) = historicalRecords st" using arg_cong[OF frame, of historicalRecords] by simp
  show "activeMembers (rebalanceTodoBand org ws tids st) = activeMembers st" using arg_cong[OF frame, of activeMembers] by simp
  show "organizationRoles (rebalanceTodoBand org ws tids st) = organizationRoles st" using arg_cong[OF frame, of organizationRoles] by simp
qed

lemma append_todo_fields:
  "devTickets (append_todo org ws tid ms p st) = devTickets st" "proposals (append_todo org ws tid ms p st) = proposals st"
  "dependencyEdges (append_todo org ws tid ms p st) = dependencyEdges st"
  "historicalRecords (append_todo org ws tid ms p st) = historicalRecords st"
  "grants_kept st (append_todo org ws tid ms p st)"
  "map_get (todoQueueMemberships (append_todo org ws tid ms p st)) j = None \<longleftrightarrow>
     j \<noteq> key org ws tid \<and> map_get (todoQueueMemberships st) j = None"
  using rebalance_frame by (auto simp: append_todo_def put_rank_def rebalance_fields grants_kept_def)

lemma sorted_last:
  assumes "sorted_wrt (\<lambda>l r. m_rank l < m_rank r) ms" "m \<in> set ms"
  shows "m_rank m \<le> m_rank (last ms)"
  using assms by (induction ms) (auto intro: less_imp_le)

lemma append_in_place:
  assumes wf: "queue_wf st" and sc: "queue_scope org ws" and new: "band st org ws tid = None"
    and above: "\<forall>m \<in> set (listTodoQueueRanks lc st org ws). m_rank m < rank" and "0 < rank" "rank \<le> rank_limit"
  shows "queue_wf (put_rank org ws tid rank st) \<and> todo_order lc (put_rank org ws tid rank st) org ws = todo_order lc st org ws @ [tid]"
proof -
  let ?ms = "listTodoQueueRanks lc st org ws"
  have "tid \<notin> m_devTicketId ` set ?ms"
    using ordered_band_dom[OF listed_ordered[OF wf sc, of lc], of tid] new by (simp add: domIff)
  then have "filter (\<lambda>m. m_devTicketId m \<noteq> tid) ?ms = ?ms @ []" by (auto intro!: filter_True)
  from place_in_queue[OF wf sc this] assms show ?thesis by (simp add: todo_order_def)
qed

lemma append_refines:
  assumes wf: "queue_wf st" and sc: "queue_scope org ws" and new: "band st org ws tid = None"
    and place: "appendRank (listTodoQueueRanks lc st org ws) = Some place"
  shows "queue_wf (append_todo org ws tid (listTodoQueueRanks lc st org ws) place st) \<and>
    todo_order lc (append_todo org ws tid (listTodoQueueRanks lc st org ws) place st) org ws = todo_order lc st org ws @ [tid]"
proof (cases "snd place")
  case True
  let ?ms = "listTodoQueueRanks lc st org ws"
  let ?tids = "map m_devTicketId ?ms" and ?rank = "(int (length ?ms) + 2) * 1000000"
  have rank: "fst place = ?rank" "?rank \<le> rank_limit"
    using place True by (auto simp: appendRank_def Let_def RANK_STRIDE_def bigint_max_limit split: if_splits)
  note ord = todo_order_distinct[OF wf sc, of lc, unfolded todo_order_def]
  have "(int (length ?tids) + 1) * 1000000 \<le> rank_limit" using rank(2) by simp
  note reb = rebalanced_queue[OF wf sc ord this, of lc]
  let ?st = "rebalanceTodoBand org ws ?tids st"
  have "band ?st org ws tid = None"
    using rebalance_frame[of org ws ?tids st "key org ws tid"] new by (simp add: band_def todoQueueMembership_def)
  moreover have "\<forall>m \<in> set (listTodoQueueRanks lc ?st org ws). m_rank m < ?rank"
    using reb spaced_ranks[of _ 0 ?tids] by fastforce
  ultimately show ?thesis
    using append_in_place[OF _ sc, of ?st tid lc ?rank] reb rank True by (simp add: append_todo_def todo_order_def spaced_ids)
next
  case False
  let ?ms = "listTodoQueueRanks lc st org ws"
  have ob: "ordered_band (band st org ws) ?ms" by (rule listed_ordered[OF wf sc])
  have rank: "fst place = (if ?ms = [] then 2000000 else m_rank (last ?ms) + 1000000)" "fst place \<le> rank_limit"
    using place False by (auto simp: appendRank_def Let_def RANK_STRIDE_def FIRST_TODO_RANK_def bigint_max_limit split: if_splits)
  have above: "\<forall>m \<in> set ?ms. m_rank m < fst place"
    using sorted_last[of ?ms] ob rank(1) by (fastforce simp: ordered_band_def)
  moreover have "0 < fst place"
  proof (cases "?ms = []")
    case False
    then have "m_rank (last ?ms) \<in> ran (band st org ws)" using ordered_band_ran[OF ob] by auto
    then have "0 < m_rank (last ?ms)" using wf sc by (simp add: queue_wf_def ranks_ok_def)
    then show ?thesis using False rank(1) by simp
  qed (use rank in simp)
  ultimately show ?thesis using append_in_place[OF wf sc new, of lc] rank(2) False by (simp add: append_todo_def)
qed

section \<open>Moving\<close>

lemma splice_in_set:
  assumes "distinct xs" "x \<notin> set xs"
  shows "distinct (splice_in i x xs)" "set (splice_in i x xs) = insert x (set xs)"
proof -
  have parts: "set (take i xs) \<union> set (drop i xs) = set xs" by (metis append_take_drop_id set_append)
  then show "set (splice_in i x xs) = insert x (set xs)" by (auto simp: splice_in_def)
  have "set (take i xs) \<inter> set (drop i xs) = {}" using assms(1) by (simp add: set_take_disj_set_drop_if_distinct)
  with parts assms show "distinct (splice_in i x xs)" by (auto simp: splice_in_def)
qed

definition move_todo :: "string \<Rightarrow> string \<Rightarrow> string \<Rightarrow> todo_membership list \<Rightarrow> nat \<Rightarrow> planning_store \<Rightarrow> planning_store" where
  "move_todo org ws tid others i st =
     (let rank = insertionRank others i in
      if rank \<le> 0 \<or> rank > POSTGRES_BIGINT_MAX
      then rebalanceTodoBand org ws (splice_in i tid (map m_devTicketId others)) st
      else put_rank org ws tid rank st)"

lemma move_todo_fields:
  "devTickets (move_todo org ws tid os i st) = devTickets st" "proposals (move_todo org ws tid os i st) = proposals st"
  "dependencyEdges (move_todo org ws tid os i st) = dependencyEdges st"
  "historicalRecords (move_todo org ws tid os i st) = historicalRecords st"
  "grants_kept st (move_todo org ws tid os i st)"
  "band st org ws tid \<noteq> None \<Longrightarrow> map_get (todoQueueMemberships (move_todo org ws tid os i st)) j = None \<longleftrightarrow>
     map_get (todoQueueMemberships st) j = None"
  using rebalance_frame
  by (auto simp: move_todo_def put_rank_def rebalance_fields grants_kept_def Let_def band_def todoQueueMembership_def)

lemma filter_ids: "map m_devTicketId (filter (\<lambda>m. m_devTicketId m \<noteq> tid) ms) = filter (\<lambda>i. i \<noteq> tid) (map m_devTicketId ms)"
  by (induction ms) auto

lemma move_refines:
  assumes wf: "queue_wf st" and sc: "queue_scope org ws" and queued: "band st org ws tid \<noteq> None"
    and others: "others = filter (\<lambda>m. m_devTicketId m \<noteq> tid) (listTodoQueueRanks lc st org ws)" and i: "i \<le> length others"
    and cap: "insertionRank others i \<le> 0 \<or> insertionRank others i > POSTGRES_BIGINT_MAX \<Longrightarrow>
      (int (length others) + 2) * RANK_STRIDE \<le> POSTGRES_BIGINT_MAX"
  shows "queue_wf (move_todo org ws tid others i st) \<and>
    todo_order lc (move_todo org ws tid others i st) org ws = splice_in i tid (filter (\<lambda>j. j \<noteq> tid) (todo_order lc st org ws))"
proof -
  let ?ids = "splice_in i tid (map m_devTicketId others)" and ?rank = "insertionRank others i"
  have ids: "map m_devTicketId others = filter (\<lambda>j. j \<noteq> tid) (todo_order lc st org ws)"
    by (simp add: others todo_order_def filter_ids)
  have srt: "sorted_wrt (\<lambda>l r. m_rank l < m_rank r) others"
    using listed_ordered[OF wf sc, of lc] others by (simp add: ordered_band_def sorted_wrt_filter)
  show ?thesis
  proof (cases "?rank \<le> 0 \<or> ?rank > POSTGRES_BIGINT_MAX")
    case True
    note ord = todo_order_distinct[OF wf sc, of lc]
    have dist: "distinct ?ids" and dom: "set ?ids = dom (band st org ws)"
      using splice_in_set[of "map m_devTicketId others" tid i] ord queued by (auto simp: ids domIff)
    have "length ?ids = length others + 1" using i by (simp add: splice_in_def)
    then have "(int (length ?ids) + 1) * 1000000 \<le> rank_limit"
      using cap[OF True] by (simp add: RANK_STRIDE_def bigint_max_limit)
    then show ?thesis using rebalanced_queue[OF wf sc dist dom] rebalanced_order[OF wf sc dist dom] True ids
      by (simp add: move_todo_def Let_def)
  next
    case False
    have "filter (\<lambda>m. m_devTicketId m \<noteq> tid) (listTodoQueueRanks lc st org ws) = take i others @ drop i others"
      using others by simp
    from place_in_queue[OF wf sc this] insertionRank_fits[OF srt i] False
    have "queue_wf (put_rank org ws tid ?rank st) \<and>
        listTodoQueueRanks lc (put_rank org ws tid ?rank st) org ws = take i others @ member tid ?rank # drop i others"
      by (simp add: bigint_max_limit)
    with False show ?thesis unfolding ids[symmetric]
      by (simp add: move_todo_def todo_order_def splice_in_def take_map drop_map)
  qed
qed

end
