(* ===== verification/Queue_Preservation.thy ===== *)
theory Queue_Preservation
  imports Ticket_Preservation Queue_Laws
begin

text \<open>
  Ready approval and reordering keep the board: the queue refines the list operations of
  \<^verbatim>\<open>Queue_Laws\<close>, and the ticket that enters or moves is the only one that changes.
\<close>

section \<open>Approval\<close>

lemma approved_ok:
  assumes "ticket_ok sha t" "t_lane t = Backlog" "t_archivedAt t = None"
    "t_devTicketType t \<noteq> None" "t_workAreas t \<noteq> []" "t_priority t \<noteq> None" "t_declaredChangeRisk t \<noteq> None"
    "ra_readyContractVersion i = t_readyContractVersion t + 1"
    "computeReadyContractContentHash sha (ra_readyContractContent i) = Some (ra_readyContractContentHash i)"
  shows "ticket_advances t (ready_approved_row i t)" "ticket_ok sha (ready_approved_row i t)"
    "t_lane (ready_approved_row i t) = Todo" "t_archivedAt (ready_approved_row i t) = None"
  using assms by (auto simp: ready_approved_row_def ticket_advances_def ticket_ok_def hash_ok_def approved_def)

lemma approvalMutation_effect:
  assumes "approvalMutation rt e t v c h members rank reb w = (Returned x, w1)"
    and "map_get (devTickets (w_store w)) (key (env_organizationId e) (env_workspaceId e) (t_id t)) = Some t" "t_version t = v"
  obtains i where "ra_readyContractVersion i = t_readyContractVersion t + 1" "ra_readyContractContent i = c"
    "ra_readyContractContentHash i = h" "x = Some (ready_approved_row i t)"
    "w_store w1 = append_todo (env_organizationId e) (env_workspaceId e) (t_id t) members (rank, reb)
       ((w_store w)\<lparr>devTickets := map_set (key (env_organizationId e) (env_workspaceId e) (t_id t)) (ready_approved_row i t)
          (devTickets (w_store w))\<rparr>)"
    "ra_readyApprovedByUserId i = actor_stableId e" "ra_readyApprovalCommandId i = env_commandId e"
proof -
  let ?i = "\<lparr>ra_organizationId = env_organizationId e, ra_workspaceId = env_workspaceId e, ra_devTicketId = t_id t,
    ra_expectedVersion = v, ra_readyContractVersion = t_readyContractVersion t + 1, ra_readyContractContent = c,
    ra_readyContractContentHash = h, ra_readyApprovedByUserId = actor_stableId e, ra_readyApprovalCommandId = env_commandId e\<rparr>"
  have "t_id (ready_approved_row ?i t) = t_id t" by (simp add: ready_approved_row_def)
  with assms have "x = Some (ready_approved_row ?i t) \<and>
    w_store w1 = append_todo (env_organizationId e) (env_workspaceId e) (t_id t) members (rank, reb)
       ((w_store w)\<lparr>devTickets := map_set (key (env_organizationId e) (env_workspaceId e) (t_id t)) (ready_approved_row ?i t)
          (devTickets (w_store w))\<rparr>)"
    by (auto simp: approvalMutation_def returned updateDevTicketForReadyApproval_def updateTicketWhen_def append_todo_def
        insertTodoQueueMembership_eq split: if_splits)
  then show ?thesis using that[of ?i] by simp
qed

lemma board_approval:
  assumes inv: "board_inv sha st" and scope: "envelope_scoped e"
    and t: "selectDevTicketForUpdate st (env_organizationId e) (env_workspaceId e) tid = Some t"
      "t_lane t = Backlog" "t_archivedAt t = None" "t_devTicketType t = Some ty" "t_workAreas t \<noteq> []" "t_priority t \<noteq> None"
      "t_declaredChangeRisk t = Some declared"
    and risk: "minimumChangeRisk (evaluateChangeRisk sha ty (t_workAreas t)
        (hasActiveDependencies st (env_organizationId e) (env_workspaceId e) (t_id t))) \<le> declared"
    and hash: "computeReadyContractContentHash sha c = Some h"
    and place: "appendRank (listTodoQueueRanks lc st (env_organizationId e) (env_workspaceId e)) = Some (rank, reb)"
    and run: "approvalMutation rt e t (t_version t) c h (listTodoQueueRanks lc st (env_organizationId e) (env_workspaceId e))
        rank reb w = (Returned x, w1)" "w_store w = st"
  shows "board_inv sha (w_store w1) \<and> rows_advance st (w_store w1) \<and>
    todo_order lc (w_store w1) (env_organizationId e) (env_workspaceId e) =
      todo_order lc st (env_organizationId e) (env_workspaceId e) @ [t_id t]"
proof -
  let ?org = "env_organizationId e" and ?ws = "env_workspaceId e"
  let ?k = "key ?org ?ws (t_id t)"
  note row = current_ticket[OF scope inv t(1)]
  have sc: "queue_scope ?org ?ws" using scope by (simp add: envelope_scoped_def)
  from approvalMutation_effect[OF run(1)] row run(2) obtain i where
      i: "ra_readyContractVersion i = t_readyContractVersion t + 1" "ra_readyContractContent i = c" "ra_readyContractContentHash i = h"
      and w1: "w_store w1 = append_todo ?org ?ws (t_id t) (listTodoQueueRanks lc st ?org ?ws) (rank, reb)
        (st\<lparr>devTickets := map_set ?k (ready_approved_row i t) (devTickets st)\<rparr>)" by auto
  let ?t' = "ready_approved_row i t" and ?st = "st\<lparr>devTickets := map_set ?k (ready_approved_row i t) (devTickets st)\<rparr>"
  have ok: "ticket_advances t ?t'" "ticket_ok sha ?t'" "t_lane ?t' = Todo" "t_archivedAt ?t' = None"
    using approved_ok[of sha t i] row t i hash by auto
  have pol: "policy_ok sha st ?t'" using risk t row by (auto simp: policy_ok_def ready_approved_row_def)
  have wf: "queue_wf ?st" and lists: "listTodoQueueRanks lc ?st ?org ?ws = listTodoQueueRanks lc st ?org ?ws"
    and new: "band ?st ?org ?ws (t_id t) = None"
    using inv row t(2) queue_wf_frame[of ?st st]
    by (auto simp: board_inv_def listTodoQueueRanks_def band_def todoQueueMembership_def lanes_match_def)
      (metis option.exhaust option.inject lane.distinct(1))
  note app = append_refines[OF wf sc new, of lc, unfolded lists, OF place]
  have "board_inv sha (w_store w1) \<and> rows_advance st (w_store w1)"
  proof (rule ticket_update[OF inv, where t = t and t' = ?t' and k = ?k])
    show "grants_kept st (w_store w1)" using append_todo_fields(5)[of ?st] by (simp add: w1 grants_kept_def)
  qed (use row ok pol app in \<open>auto simp: w1 append_todo_fields\<close>)
  moreover have "todo_order lc ?st ?org ?ws = todo_order lc st ?org ?ws" by (rule todo_order_frame) simp
  ultimately show ?thesis using app by (simp add: w1)
qed

lemma header_only:
  assumes "onStore (getOrLockTodoQueueHeader og ws) w = (Returned x, w1)"
  shows "w_store w1 = (w_store w)\<lparr>todoQueueHeaders := todoQueueHeaders (w_store w1)\<rparr>"
  using assms by (auto simp: returned getOrLockTodoQueueHeader_def Let_def split: option.splits)

lemma bump_only:
  assumes "onStore (casBumpTodoQueueVersion og ws v) w = (Returned x, w1)"
  shows "w_store w1 = (w_store w)\<lparr>todoQueueHeaders := todoQueueHeaders (w_store w1)\<rparr>"
  using assms by (auto simp: returned casBumpTodoQueueVersion_def Let_def split: option.splits if_splits)

lemma leads_approveReadyToTodo:
  "envelope_scoped e \<Longrightarrow> leads (board_rel (rt_sha256 rt)) w (approveReadyToTodo_body rt e i)"
  unfolding approveReadyToTodo_body_def
proof (intro guards, goal_cases)
  case (1 version ticket ty prio contract submittedClassification submittedPolicy s sa v minimum vb policyV vd policyH currentPolicy sb sc h)
  note here = 1
  show ?case
  proof (intro board.leads_andThen leads_header leads_bump guards leads_risky, goal_cases)
    case (2 header w1 place rank reb x w2)
    have reads: "selectDevTicketForUpdate (w_store w1) = selectDevTicketForUpdate (w_store w)"
        "hasActiveDependencies (w_store w1) = hasActiveDependencies (w_store w)"
      using arg_cong[OF header_only[OF 2(1)], of selectDevTicketForUpdate] arg_cong[OF header_only[OF 2(1)], of hasActiveDependencies]
      by simp_all
    show ?case unfolding board_rel_def
    proof
      assume "board_inv (rt_sha256 rt) (w_store w1)"
      from board_approval[OF this here(1), of "ar_devTicketId i" ticket ty vb] here 2 reads
      show "board_inv (rt_sha256 rt) (w_store w2) \<and> rows_advance (w_store w1) (w_store w2)"
        by (simp add: not_less)
    qed
  qed (intro grantless board.leads_silent silent)+
qed

section \<open>Reordering\<close>

lemma placeTodo_effect:
  assumes "placeTodo e tid rank reb ids w = (Returned x, w1)"
    "rank = insertionRank others i" "reb \<longleftrightarrow> rank \<le> 0 \<or> rank > POSTGRES_BIGINT_MAX" "ids = splice_in i tid (map m_devTicketId others)"
  shows "w_store w1 = move_todo (env_organizationId e) (env_workspaceId e) tid others i (w_store w)"
  using assms by (auto simp: placeTodo_def returned move_todo_def updateTodoQueueMembershipRank_eq Let_def split: if_splits)

lemma insertionIndex_bound: "insertionIndex e moved others anchor st = ok i \<Longrightarrow> i \<le> length others"
  by (auto simp: insertionIndex_def dest: find_index_Some split: todo_anchor.splits option.splits if_splits)

lemma board_move:
  assumes inv: "board_inv sha st" and sc: "queue_scope org ws" and queued: "band st org ws tid \<noteq> None"
    and others: "others = filter (\<lambda>m. m_devTicketId m \<noteq> tid) (listTodoQueueRanks lc st org ws)" and i: "i \<le> length others"
    and cap: "insertionRank others i \<le> 0 \<or> insertionRank others i > POSTGRES_BIGINT_MAX \<Longrightarrow>
      (int (length others) + 2) * RANK_STRIDE \<le> POSTGRES_BIGINT_MAX"
  shows "board_inv sha (move_todo org ws tid others i st) \<and> rows_advance st (move_todo org ws tid others i st)"
proof -
  let ?st = "move_todo org ws tid others i st"
  have "queue_wf ?st" using move_refines[OF _ sc queued others i cap] inv by (simp add: board_inv_def)
  moreover have "lanes_match ?st"
    using inv move_todo_fields(6)[OF queued] by (auto simp: board_inv_def lanes_match_def move_todo_fields)
  moreover have "hasActiveDependencies ?st = hasActiveDependencies st"
    by (intro ext) (simp add: hasActiveDependencies_def move_todo_fields)
  moreover have "accepted_proposal_link ?st = accepted_proposal_link st" "source_proposal_link ?st = source_proposal_link st"
    by (intro ext, simp add: accepted_proposal_link_def source_proposal_link_def move_todo_fields)+
  ultimately have "board_inv sha ?st" using inv
    by (simp add: board_inv_def tickets_ok_def tickets_wf_def policy_ok_def graph_wf_def graph_acyclic_def edges_keyed_def blockers_live_def proposals_wf_def
        acceptance_links_def historical_keys_ok_def move_todo_fields)
  then show ?thesis by (auto simp: rows_advance_def move_todo_fields records_advance_same)
qed

lemma bumped_ok:
  "ticket_ok sha t \<Longrightarrow> ticket_advances t (t\<lparr>t_version := t_version t + 1\<rparr>) \<and> ticket_ok sha (t\<lparr>t_version := t_version t + 1\<rparr>)"
  by (auto simp: ticket_advances_def ticket_ok_def hash_ok_def approved_def unapproved_def)

lemma leads_bumpTicket:
  "leads (board_rel sha) w (onStore (bumpDevTicketVersion i))"
proof -
  let ?k = "key (tt_organizationId i) (tt_workspaceId i) (tt_devTicketId i)"
  have "board_inv sha st' \<and> rows_advance st st'" if inv: "board_inv sha st" and st': "st' = snd (bumpDevTicketVersion i st)" for st st'
  proof (cases "bumpDevTicketVersion i st")
    case (Pair r st2)
    then have r: "updateTicketWhen ?k (\<lambda>t. t_version t = tt_expectedVersion i) (\<lambda>t. t\<lparr>t_version := t_version t + 1\<rparr>) st = (r, st2)"
      by (simp add: bumpDevTicketVersion_def)
    show ?thesis
    proof (cases r)
      case None
      then show ?thesis using r Pair st' inv by (simp add: updateTicketWhen_None)
    next
      case (Some row)
      then obtain t where t: "map_get (devTickets st) ?k = Some t"
          "st2 = st\<lparr>devTickets := map_set ?k (t\<lparr>t_version := t_version t + 1\<rparr>) (devTickets st)\<rparr>"
        using r by (auto simp: updateTicketWhen_Some)
      have "ticket_ok sha t" "policy_ok sha st t" using inv t(1) by (auto simp: board_inv_def tickets_ok_def)
      then show ?thesis using ticket_in_place[OF inv t(1), of "t\<lparr>t_version := t_version t + 1\<rparr>" st2] t(2) Pair st' bumped_ok[of sha t]
        by (simp add: policy_ok_def)
    qed
  qed
  then show ?thesis by (simp add: leads_def onStore_def board_rel_def)
qed

lemma leads_case_forbidden:
  "leads P w m \<Longrightarrow> leads P w m' \<Longrightarrow> leads P w (case f of TierField \<Rightarrow> m | NumericField \<Rightarrow> m')"
  by (cases f) simp_all

lemma leads_placeTodo:
  assumes "queue_scope (env_organizationId e) (env_workspaceId e)"
    and "band (w_store w) (env_organizationId e) (env_workspaceId e) tid \<noteq> None"
    and "others = filter (\<lambda>m. m_devTicketId m \<noteq> tid) (listTodoQueueRanks lc (w_store w) (env_organizationId e) (env_workspaceId e))"
    and "i \<le> length others" "rank = insertionRank others i" "reb \<longleftrightarrow> rank \<le> 0 \<or> rank > POSTGRES_BIGINT_MAX"
    and "ids = splice_in i tid (map m_devTicketId others)"
    and "\<not> (reb \<and> (int (length ids) + 1) * RANK_STRIDE > POSTGRES_BIGINT_MAX)"
  shows "leads (board_rel sha) w (placeTodo e tid rank reb ids)"
proof -
  have cap: "(int (length others) + 2) * RANK_STRIDE \<le> POSTGRES_BIGINT_MAX"
    if "insertionRank others i \<le> 0 \<or> insertionRank others i > POSTGRES_BIGINT_MAX"
  proof -
    have "int (length ids) + 1 = int (length others) + 2" using assms(4,7) by (simp add: splice_in_def)
    then show ?thesis using assms(5,6,8) that by (simp add: not_less add.commute)
  qed
  note move = board_move[OF _ assms(1-4) cap]
  show ?thesis
  proof (cases "placeTodo e tid rank reb ids w")
    case (Pair r w1)
    show ?thesis
    proof (cases r)
      case (Returned x)
      then show ?thesis using placeTodo_effect[of e tid rank reb ids w x w1 others i] Pair assms(5-7) move
        by (simp add: leads_def board_rel_def)
    next
      case (Thrown er)
      then have "w_store w1 = w_store w" using Pair assms(2)
        by (auto simp: placeTodo_def andThen_def onStore_def ret_def throw_def updateTodoQueueMembershipRank_eq split: if_splits)
      then show ?thesis using Pair by (simp add: leads_def board.P_refl)
    qed
  qed
qed

lemma leads_reorderTodo: "envelope_scoped e \<Longrightarrow> leads (board_rel sha) w (reorderTodo_body rt e i)"
  unfolding reorderTodo_body_def
proof (intro guards leads_case_forbidden board.leads_andThen leads_header leads_bump leads_bumpTicket, goal_cases)
  case (1 org ws anchor version moved header w1 membership others index ids rank rebalances bumped w2 bumpedQueue)
  have "todoQueueMemberships (w_store w2) = todoQueueMemberships (w_store w1)"
    using arg_cong[OF bump_only[OF 1(20)], of todoQueueMemberships] by simp
  then show ?case using 1 insertionIndex_bound[OF 1(15)]
    by (intro leads_placeTodo[where lc = "rt_localeCompare rt"])
      (simp_all add: envelope_scoped_def band_def todoQueueMembership_def listTodoQueueRanks_def)
next
  case 2
  show ?case by (intro board.leads_silent silent)
qed

end
