(* ===== verification/Dependency_Preservation.thy ===== *)
theory Dependency_Preservation
  imports Ticket_Preservation
begin

text \<open>
  Adding and removing a dependency keep the board: the graph stays acyclic with live blockers, and the
  dependent leaves Todo, so no queued ticket gains a dependency that its approval did not count.
\<close>

section \<open>The dependent\<close>

lemma dependent_ok:
  assumes "ticket_ok sha t"
  shows "ticket_advances t (dependency_changed_row t) \<and> ticket_ok sha (dependency_changed_row t) \<and>
    t_lane (dependency_changed_row t) = Backlog \<and> t_archivedAt (dependency_changed_row t) = t_archivedAt t"
  using assms by (auto simp: dependency_changed_row_def clear_ready_def ticket_advances_def ticket_ok_def hash_ok_def
      unapproved_def Let_def)

lemma changeDependent_effect:
  assumes "changeDependent e t queue w = (Returned x, w1)"
    and "map_get (devTickets (w_store w)) (key (env_organizationId e) (env_workspaceId e) (t_id t)) = Some t"
  obtains hs where "w_store w1 = (after_leaving (env_organizationId e) (env_workspaceId e) (t_id t) (queue \<noteq> None) (w_store w))
    \<lparr>todoQueueHeaders := hs, devTickets := map_set (key (env_organizationId e) (env_workspaceId e) (t_id t))
       (dependency_changed_row t) (devTickets (w_store w))\<rparr>"
proof -
  from assms(1) obtain v w2 r where left: "leaveTodo e dependentDrift (t_id t) queue w = (Returned v, w2)"
    and upd: "applyDependencyChangeToDependent (ticket_target e (t_id t) (t_version t)) (w_store w2) = (Some r, w_store w1)"
    by (auto simp: changeDependent_def returned split: option.splits)
  from leaveTodo_Returned[OF left] obtain hs where w2: "w_store w2 =
      (after_leaving (env_organizationId e) (env_workspaceId e) (t_id t) (queue \<noteq> None) (w_store w))\<lparr>todoQueueHeaders := hs\<rparr>" by blast
  then have "devTickets (w_store w2) = devTickets (w_store w)" by (simp add: after_leaving_def deleteTodoQueueMembership_def Let_def)
  with upd assms(2) w2 that[of hs] show ?thesis
    by (auto simp: applyDependencyChangeToDependent_def updateTicketWhen_def ticket_target_def split: if_splits)
qed

text \<open>The edges change from \<open>st\<close> to \<open>w_store w\<close>, then the dependent does.\<close>

lemma board_dependent:
  assumes inv: "board_inv sha st" and scope: "envelope_scoped e"
    and t: "selectDevTicketForUpdate st (env_organizationId e) (env_workspaceId e) tid = Some t" "t_archivedAt t = None"
    and edges: "w_store w = st\<lparr>dependencyEdges := dependencyEdges (w_store w)\<rparr>"
    and run: "changeDependent e t queue w = (Returned x, w1)" "queue \<noteq> None \<longleftrightarrow> t_lane t = Todo"
    and graph: "graph_wf (w_store w)"
    and new: "\<And>g. g \<in> set (map_values (dependencyEdges (w_store w))) \<Longrightarrow> e_lifecycleState g = Active \<Longrightarrow>
      g \<in> set (map_values (dependencyEdges st)) \<or>
      e_organizationId g = env_organizationId e \<and> e_workspaceId g = env_workspaceId e \<and> e_dependentDevTicketId g = t_id t \<and>
      (\<exists>b. map_get (devTickets st) (key (env_organizationId e) (env_workspaceId e) (e_blockerDevTicketId g)) = Some b \<and>
         t_archivedAt b = None)"
  shows "board_inv sha (w_store w1) \<and> rows_advance st (w_store w1)"
proof -
  let ?org = "env_organizationId e" and ?ws = "env_workspaceId e"
  let ?k = "key ?org ?ws (t_id t)" and ?t' = "dependency_changed_row t"
  note row = current_ticket[OF scope inv t(1)]
  have sc: "queue_scope ?org ?ws" using scope by (simp add: envelope_scoped_def)
  have same: "devTickets (w_store w) = devTickets st" "todoQueueMemberships (w_store w) = todoQueueMemberships st"
      "proposals (w_store w) = proposals st" "historicalRecords (w_store w) = historicalRecords st"
      "grants_kept st (w_store w)"
    using arg_cong[OF edges, of devTickets] arg_cong[OF edges, of todoQueueMemberships] arg_cong[OF edges, of proposals]
      arg_cong[OF edges, of historicalRecords] arg_cong[OF edges, of activeMembers] arg_cong[OF edges, of organizationRoles]
    by (simp_all add: grants_kept_def)
  obtain hs where w1: "w_store w1 = (after_leaving ?org ?ws (t_id t) (t_lane t = Todo) (w_store w))
      \<lparr>todoQueueHeaders := hs, devTickets := map_set ?k ?t' (devTickets st)\<rparr>"
    using changeDependent_effect[OF run(1)] row same(1) run(2) by auto
  have fields: "proposals (w_store w1) = proposals st" "historicalRecords (w_store w1) = historicalRecords st"
      "grants_kept st (w_store w1)" "dependencyEdges (w_store w1) = dependencyEdges (w_store w)"
      "todoQueueMemberships (w_store w1) = todoQueueMemberships (after_leaving ?org ?ws (t_id t) (t_lane t = Todo) st)"
    using w1 same by (auto simp: after_leaving_def deleteTodoQueueMembership_def Let_def grants_kept_def)
  note queue = queue_after_leaving[OF inv sc conjunct1[OF row] fields(5)] and ok = dependent_ok[of sha t]
  show ?thesis
  proof (rule ticket_change[OF inv, where t = t and t' = ?t' and k = ?k])
    show "policy_ok sha (w_store w1) ?t'" using ok row by (simp add: policy_ok_def)
    show "graph_wf (w_store w1)" using graph fields(4) by (simp add: graph_wf_def graph_acyclic_def edges_keyed_def)
    show "hasActiveDependencies st (t_organizationId u) (t_workspaceId u) (t_id u)"
      if "ticket_key u \<noteq> ?k" "hasActiveDependencies (w_store w1) (t_organizationId u) (t_workspaceId u) (t_id u)" for u
    proof -
      from that(2) fields(4) obtain g where g: "g \<in> set (map_values (dependencyEdges (w_store w)))"
          "edge_in (t_organizationId u) (t_workspaceId u) g" "e_dependentDevTicketId g = t_id u"
        by (auto simp: hasActiveDependencies_def list_ex_iff)
      with new[OF g(1)] that(1) have "g \<in> set (map_values (dependencyEdges st))" by (auto simp: edge_in_def ticket_key_def)
      with g(2,3) show ?thesis unfolding hasActiveDependencies_def list_ex_iff by blast
    qed
    show "(g \<in> set (map_values (dependencyEdges st)) \<or> queue_scope (e_organizationId g) (e_workspaceId g) \<and>
        map_get (devTickets st) (key (e_organizationId g) (e_workspaceId g) (e_dependentDevTicketId g)) \<noteq> None \<and>
        (\<exists>b. map_get (devTickets st) (key (e_organizationId g) (e_workspaceId g) (e_blockerDevTicketId g)) = Some b \<and> t_archivedAt b = None)) \<and>
        (key (e_organizationId g) (e_workspaceId g) (e_blockerDevTicketId g) = ?k \<longrightarrow> t_archivedAt ?t' = None)"
      if "g \<in> set (map_values (dependencyEdges (w_store w1)))" "e_lifecycleState g = Active" for g
      using new[of g] that fields(4) row sc ok t(2) by auto
  qed (use row ok queue fields w1 in auto)
qed

section \<open>Adding\<close>

lemma insertDependencyEdge_Returned:
  assumes "insertDependencyEdge i st = (Returned g, st')"
  shows "st' = st\<lparr>dependencyEdges := map_set (key (ie_organizationId i) (ie_workspaceId i) (ie_id i)) g (dependencyEdges st)\<rparr> \<and>
    e_organizationId g = ie_organizationId i \<and> e_workspaceId g = ie_workspaceId i \<and> e_id g = ie_id i \<and>
    e_dependentDevTicketId g = ie_dependentDevTicketId i \<and> e_blockerDevTicketId g = ie_blockerDevTicketId i"
  using assms by (auto simp: insertDependencyEdge_def Let_def split: if_splits)

lemma board_add:
  assumes inv: "board_inv sha st" and scope: "envelope_scoped e"
    and t: "selectDevTicketForUpdate st (env_organizationId e) (env_workspaceId e) tid = Some t" "t_archivedAt t = None"
    and b: "selectDevTicketForUpdate st (env_organizationId e) (env_workspaceId e) bid = Some b" "t_archivedAt b = None"
    and acyc: "\<not> dependencyCreatesCycle st (env_organizationId e) (env_workspaceId e) (t_id t) (t_id b)"
    and run: "addMutation rt e t b queue w = (Returned x, w1)" "w_store w = st" "queue \<noteq> None \<longleftrightarrow> t_lane t = Todo"
  shows "board_inv sha (w_store w1) \<and> rows_advance st (w_store w1)"
proof -
  let ?ie = "\<lparr>ie_id = rt_randomUUID rt (w_uuids w), ie_organizationId = env_organizationId e, ie_workspaceId = env_workspaceId e,
        ie_dependentDevTicketId = t_id t, ie_blockerDevTicketId = t_id b, ie_createdCommandId = env_commandId e\<rparr>"
  from run(1) obtain g w2 y where "stepStore (insertDependencyEdge ?ie) (w\<lparr>w_uuids := Suc (w_uuids w)\<rparr>) = (Returned g, w2)"
      and ch: "changeDependent e t queue w2 = (Returned y, w1)"
    by (auto simp: addMutation_def returned(1) returned(5) returned(6))
  then have ins: "insertDependencyEdge ?ie st = (Returned g, w_store w2)" using run(2) by (auto simp: returned)
  note g = insertDependencyEdge_Returned[OF ins]
  show ?thesis
  proof (rule board_dependent[OF inv scope t _ ch run(3)])
    show "w_store w2 = st\<lparr>dependencyEdges := dependencyEdges (w_store w2)\<rparr>" using g by auto
    show "graph_wf (w_store w2)" using graph_wf_insert[of st g "w_store w2"] g inv acyc by (simp add: board_inv_def)
    have edges: "dependencyEdges (w_store w2) = map_set (key (env_organizationId e) (env_workspaceId e) (ie_id ?ie)) g (dependencyEdges st)"
      using g by simp
    fix h assume "h \<in> set (map_values (dependencyEdges (w_store w2)))"
    then have "h = g \<or> h \<in> set (map_values (dependencyEdges st))" unfolding edges by (rule map_values_set_subset)
    then show "h \<in> set (map_values (dependencyEdges st)) \<or>
      e_organizationId h = env_organizationId e \<and> e_workspaceId h = env_workspaceId e \<and> e_dependentDevTicketId h = t_id t \<and>
      (\<exists>b. map_get (devTickets st) (key (env_organizationId e) (env_workspaceId e) (e_blockerDevTicketId h)) = Some b \<and>
         t_archivedAt b = None)"
      using g current_ticket[OF scope inv b(1)] b(2) by auto
  qed
qed

lemma endpointFailures_None: "endpointFailures d b = None \<Longrightarrow> t_archivedAt d = None \<and> t_archivedAt b = None"
  by (auto simp: endpointFailures_def dependencyEndpointFailure_def split: option.splits if_splits)

lemma leads_addDependency: "envelope_scoped e \<Longrightarrow> leads (board_rel sha) w (addDependency_body rt e i)"
  unfolding addDependency_body_def
proof (intro guards leads_todoQueueGuard, goal_cases)
  case (1 dependentId blockerId org ws reason dependent blocker w1 hs q)
  show ?case
  proof (rule board.leads_andThen_last, rule board.leads_catchDrift, rule leads_risky, goal_cases)
    case (2 x w2)
    show ?case unfolding board_rel_def
    proof
      assume inv: "board_inv sha (w_store w1)"
      have sel: "selectDevTicketForUpdate (w_store w1) (env_organizationId e) (env_workspaceId e) dependentId = Some dependent"
          "selectDevTicketForUpdate (w_store w1) (env_organizationId e) (env_workspaceId e) blockerId = Some blocker" using 1 by simp_all
      have ids: "t_id dependent = dependentId" "t_id blocker = blockerId"
        using selected_ticket[of "w_store w1" "env_organizationId e" "env_workspaceId e"] sel inv 1(1)
        by (auto simp: selectDevTicketForUpdate_def envelope_scoped_def board_inv_def tickets_ok_def)
      have live: "t_archivedAt dependent = None" "t_archivedAt blocker = None"
        using endpointFailures_None 1 by blast+
      show "board_inv sha (w_store w2) \<and> rows_advance (w_store w1) (w_store w2)"
        using board_add[OF inv 1(1) sel(1) live(1) sel(2) live(2) _ 2 refl] 1 ids by simp
    qed
  qed (intro grantless silent)+
qed

section \<open>Removing\<close>

lemma board_remove:
  assumes inv: "board_inv sha st" and scope: "envelope_scoped e"
    and t: "selectDevTicketForUpdate st (env_organizationId e) (env_workspaceId e) tid = Some t" "t_archivedAt t = None"
    and run: "removeMutation e edge v t queue w = (Returned x, w1)" "w_store w = st" "queue \<noteq> None \<longleftrightarrow> t_lane t = Todo"
  shows "board_inv sha (w_store w1) \<and> rows_advance st (w_store w1)"
proof (cases "x = None \<and> w_store w1 = st")
  case True
  then show ?thesis using inv by simp
next
  case False
  let ?i = "\<lparr>re_organizationId = env_organizationId e, re_workspaceId = env_workspaceId e, re_edgeId = e_id edge,
    re_expectedVersion = v, re_retiredCommandId = env_commandId e\<rparr>"
  from run(1) obtain r w2 where r: "onStore (retireDependencyEdge ?i) w = (Returned r, w2)"
      and rest: "r = None \<and> x = None \<and> w1 = w2 \<or> (\<exists>g y. r = Some g \<and> changeDependent e t queue w2 = (Returned y, w1))"
    by (cases x) (auto simp: removeMutation_def returned(1) returned(6) split: option.splits)
  from r run(2) have ret': "retireDependencyEdge ?i st = (r, w_store w2)" by (auto simp: returned)
  have "r \<noteq> None"
  proof
    assume "r = None"
    then show False using rest False ret' edge_cas.cas_none[of ?i st "w_store w2"] by auto
  qed
  then obtain g y where ret: "retireDependencyEdge ?i st = (Some g, w_store w2)" and ch: "changeDependent e t queue w2 = (Returned y, w1)"
    using rest ret' by auto
  have edges: "w_store w2 = st\<lparr>dependencyEdges := map_set (key (env_organizationId e) (env_workspaceId e) (e_id edge)) g (dependencyEdges st)\<rparr>"
      "e_lifecycleState g = Retired"
    using ret by (auto simp: retireDependencyEdge_def Let_def split: option.splits if_splits)
  show ?thesis
  proof (rule board_dependent[OF inv scope t _ ch run(3)])
    show "w_store w2 = st\<lparr>dependencyEdges := dependencyEdges (w_store w2)\<rparr>" using edges by auto
    show "graph_wf (w_store w2)" using graph_wf_retire[OF _ ret] inv by (simp add: board_inv_def)
    fix h assume h: "h \<in> set (map_values (dependencyEdges (w_store w2)))" "e_lifecycleState h = Active"
    have "dependencyEdges (w_store w2) = map_set (key (env_organizationId e) (env_workspaceId e) (e_id edge)) g (dependencyEdges st)"
      using edges(1) by simp
    from h(1)[unfolded this] have "h = g \<or> h \<in> set (map_values (dependencyEdges st))" by (rule map_values_set_subset)
    with h(2) edges(2) show "h \<in> set (map_values (dependencyEdges st)) \<or>
      e_organizationId h = env_organizationId e \<and> e_workspaceId h = env_workspaceId e \<and> e_dependentDevTicketId h = t_id t \<and>
      (\<exists>b. map_get (devTickets st) (key (env_organizationId e) (env_workspaceId e) (e_blockerDevTicketId h)) = Some b \<and>
         t_archivedAt b = None)" by auto
  qed
qed

lemma leads_removeDependency: "envelope_scoped e \<Longrightarrow> leads (board_rel sha) w (removeDependency_body rt e i)"
  unfolding removeDependency_body_def
proof (intro guards leads_todoQueueGuard, goal_cases)
  case (1 org ws reason edge dependent blocker w1 hs q)
  show ?case
  proof (rule board.leads_andThen_last, rule board.leads_catchDrift, rule leads_risky, goal_cases)
    case (2 x w2)
    have "t_archivedAt dependent = None" using endpointFailures_None 1 by blast
    then show ?case unfolding board_rel_def
      using board_remove[of sha "w_store w1" e "e_dependentDevTicketId edge" dependent] 2 1 by simp
  qed (intro grantless silent)+
qed

lemma leads_rejectUntilGate: "leads (board_rel sha) w (rejectUntilGate_body e c m b)"
  unfolding rejectUntilGate_body_def by (intro guards)

end
