(* ===== verification/Legacy_Preservation.thy ===== *)
theory Legacy_Preservation
  imports Board_Preservation
begin

text \<open>
  Import and reconciliation keep the board: historical records only advance, and an imported ticket is
  a fresh Backlog draft.
\<close>

lemma records_only:
  assumes "historicalRecords st' = hs \<Longrightarrow> records_advance st st' \<and> historical_keys_ok st'"
    "historicalRecords st' = hs" "devTickets st' = devTickets st" "todoQueueMemberships st' = todoQueueMemberships st"
    "dependencyEdges st' = dependencyEdges st" "proposals st' = proposals st" "grants_kept st st'" "board_inv sha st"
  shows "board_inv sha st' \<and> rows_advance st st'"
proof -
  let ?st = "st'\<lparr>historicalRecords := historicalRecords st\<rparr>"
  have "board_rel sha st ?st" by (rule untouched) (use assms in \<open>auto simp: grants_kept_def\<close>)
  then have inv: "board_inv sha ?st" "rows_advance st ?st" using assms(8) by (auto simp: board_rel_def)
  have links: "accepted_proposal_link ?st = accepted_proposal_link st'" "source_proposal_link ?st = source_proposal_link st'"
    "hasActiveDependencies ?st = hasActiveDependencies st'"
    by (intro ext, simp add: accepted_proposal_link_def source_proposal_link_def hasActiveDependencies_def)+
  have "queue_wf ?st = queue_wf st'" by (rule queue_wf_frame) simp
  with inv(1) links assms(1,2) have "board_inv sha st'"
    by (simp add: board_inv_def tickets_ok_def tickets_wf_def policy_ok_def lanes_match_def graph_wf_def graph_acyclic_def edges_keyed_def blockers_live_def
        proposals_wf_def acceptance_links_def)
  moreover have "rows_advance st st'" using inv(2) assms(1,2,7) by (simp add: rows_advance_def)
  ultimately show ?thesis by simp
qed

lemma leads_resolveImported: "leads (board_rel sha) w (stepStore (resolveImportedHistoricalRecord i))"
proof -
  have "board_inv sha st' \<and> rows_advance st st'" if inv: "board_inv sha st" and r: "resolveImportedHistoricalRecord i st = (r, st')" for st r st'
  proof (rule records_only[OF _ refl _ _ _ _ _ inv])
    show "records_advance st st' \<and> historical_keys_ok st'" using resolve_advances[OF r] inv by (simp add: board_inv_def)
    show "grants_kept st st'" using grants_resolve[of st i] r by simp
  qed (use r in \<open>auto simp: resolveImportedHistoricalRecord_def Let_def split: option.splits if_splits\<close>)
  then show ?thesis by (simp add: leads_def stepStore_def board_rel_def prod_eq_iff)
qed

lemma leads_insertHistorical: "leads (board_rel sha) w (stepStore (insertHistoricalRecord now i))"
proof -
  have "board_inv sha st' \<and> rows_advance st st'" if inv: "board_inv sha st" and r: "insertHistoricalRecord now i st = (r, st')" for st r st'
  proof (rule records_only[OF _ refl _ _ _ _ _ inv])
    show "records_advance st st' \<and> historical_keys_ok st'" using insertHistoricalRecord_advances[OF r] inv by (simp add: board_inv_def)
  qed (use r in \<open>auto simp: insertHistoricalRecord_def Let_def grants_kept_def split: if_splits\<close>)
  then show ?thesis by (simp add: leads_def stepStore_def board_rel_def prod_eq_iff)
qed

lemma leads_insertAlias: "leads (board_rel sha) w (stepStore (insertLegacyTaskAlias a))"
  using untouched[of "snd (insertLegacyTaskAlias a (w_store w))" "w_store w" sha] grants_store_ops(12)[of "w_store w" a]
  by (simp add: leads_def stepStore_def insertLegacyTaskAlias_def Let_def)

lemma board_insertDevTicket:
  assumes scope: "queue_scope (it_organizationId i) (it_workspaceId i)" and source: "it_sourceProposalId i = None"
    and hash: "computeReadyContractContentHash sha (it_readyContractContent i) = Some (it_readyContractContentHash i)"
  shows "board_rel sha st (snd (insertDevTicket i st))"
proof (cases "insertDevTicket i st")
  case (Pair r st')
  show ?thesis
  proof (cases r)
    case (Returned t)
    with Pair have r: "insertDevTicket i st = (Returned t, st')" by simp
    note t = insertDevTicket_Returned[OF r]
    show ?thesis unfolding board_rel_def r snd_conv
    proof
      assume inv: "board_inv sha st"
      have props: "proposals_wf st' \<and> acceptance_links st'" by (rule links_new_ticket[OF inv, of t]) (use t source in auto)
      show "board_inv sha st' \<and> rows_advance st st'"
        by (rule ticket_insert[OF inv, of t])
          (use t props scope inserted_ticket_ok[OF r hash] inv in
            \<open>auto simp: grants_kept_def records_advance_same board_inv_def historical_keys_ok_def\<close>)
    qed
  next
    case (Thrown er)
    then have "st' = st" using Pair by (auto simp: insertDevTicket_def Let_def split: if_splits)
    then show ?thesis using Pair board.P_refl by simp
  qed
qed

lemma leads_insertLegacyTicket:
  assumes "envelope_scoped e"
  shows "leads (board_rel (rt_sha256 rt)) w (insertLegacyTicket rt e source owner)"
  unfolding insertLegacyTicket_def
proof (intro guards, goal_cases)
  case (1 h)
  then show ?case using assms unfolding leads_def stepStore_def
    by (simp add: envelope_scoped_def board_insertDevTicket)
qed

lemma grantless_legacy [grantless]:
  "keeps same_grants (insertLegacyTicket rt e s o')" "keeps same_grants (promoteMutation rt e s o' h d)"
  "keeps same_grants (importMutation rt e s o' d g i)"
  unfolding importMutation_def promoteMutation_def insertLegacyTicket_def by (intro grantless)+

lemma leads_risky_inner: "keeps same_grants m \<Longrightarrow> leads (board_rel sha) w m \<Longrightarrow> leads (board_rel sha) w (risky m)"
  by (rule leads_risky) (auto simp: leads_def)

lemma leads_quiet: "leads (board_rel sha) w (ret x)" "leads (board_rel sha) w (newDate rt)" "leads (board_rel sha) w (randomUUID rt)"
  "leads (board_rel sha) w (planning rt e a k s c)" "leads (board_rel sha) w (activity rt e a v n p)"
  by (intro board.leads_silent silent)+

lemma leads_resolveExistingAlias:
  "envelope_scoped e \<Longrightarrow> leads (board_rel (rt_sha256 rt)) w (resolveExistingAlias rt e s o' d g a)"
  unfolding resolveExistingAlias_def promoteMutation_def
  apply (intro guards)
  apply (rule board.leads_andThen_last)
  subgoal
    by (intro leads_risky_inner board.leads_andThen leads_insertLegacyTicket leads_resolveImported guards leads_quiet grantless)
  subgoal by (intro silent)
  apply (rule board.leads_andThen_last)
  subgoal by (intro leads_risky_inner leads_resolveImported grantless)
  subgoal by (intro silent)
  done

lemma leads_importMutation:
  "envelope_scoped e \<Longrightarrow> leads (board_rel (rt_sha256 rt)) w (importMutation rt e s o' d g hid)"
  unfolding importMutation_def
  by (intro board.leads_andThen board.leads_if leads_insertLegacyTicket leads_insertHistorical leads_insertAlias leads_quiet)

lemma leads_importLegacyDevTicket:
  assumes "envelope_scoped e"
  shows "leads (board_rel (rt_sha256 rt)) w (importLegacyDevTicket_body rt e i)"
  unfolding importLegacyDevTicket_body_def
  by (intro guards leads_quiet leads_resolveExistingAlias[OF assms] board.leads_andThen leads_risky_inner
      leads_importMutation[OF assms] grantless)

lemma leads_reconcile:
  assumes "selectHistoricalRecordForUpdate (w_store w) org ws hid = Some h" "h_completionGate h = Some LegacyUnverified"
    and "rc_organizationId i = org" "rc_workspaceId i = ws" "rc_historicalRecordId i = h_historicalRecordId h"
  shows "leads (board_rel sha) w (onStore (reconcileHistoricalCompletion_store i))"
proof -
  let ?st = "w_store w" and ?st' = "snd (reconcileHistoricalCompletion_store i (w_store w))"
  have "board_inv sha ?st' \<and> rows_advance ?st ?st'" if inv: "board_inv sha ?st"
  proof (rule records_only[OF _ refl _ _ _ _ _ inv])
    have "h_historicalRecordId h = hid"
      using selectHistorical_SomeD[OF assms(1)] inv by (auto simp: board_inv_def historical_keys_ok_def)
    then show "records_advance ?st ?st' \<and> historical_keys_ok ?st'"
      using reconcile_advances[of i ?st "fst (reconcileHistoricalCompletion_store i ?st)" ?st'] assms inv by (simp add: board_inv_def)
    show "grants_kept ?st ?st'" by (rule grants_store_ops)
  qed (simp_all add: reconcileHistoricalCompletion_store_def Let_def split: option.splits)
  then show ?thesis by (simp add: leads_def onStore_def board_rel_def)
qed

lemma leads_reconcileHistoricalCompletion: "leads (board_rel sha) w (reconcileHistoricalCompletion_body rt e i)"
  unfolding reconcileHistoricalCompletion_body_def
proof (intro guards, goal_cases)
  case (1 org ws historical)
  show ?case
  proof (rule board.leads_andThen_last, rule leads_risky_inner)
    show "leads (board_rel sha) w (onStore (reconcileHistoricalCompletion_store \<lparr>rc_organizationId = org, rc_workspaceId = ws,
        rc_historicalRecordId = h_historicalRecordId historical, rc_expectedVersion = h_version historical\<rparr>))"
      by (rule leads_reconcile) (use 1 in simp_all)
  qed (intro grantless silent)+
qed

end
