(* ===== verification/Board.thy ===== *)
theory Board
  imports Queue_Preservation Dependency_Preservation Legacy_Preservation
begin

text \<open>
  The Dev Board as one system: the commands of \<^verbatim>\<open>DevBoardPlanningCommands\<close> as a datatype, the worlds
  they reach from an empty board, and the laws that hold for every command.
\<close>

section \<open>Commands\<close>

datatype command =
    DraftProposal draft_proposal_input
  | SubmitProposal string
  | AcceptProposal accept_proposal_input
  | MergeProposal merge_proposal_input
  | RejectProposal proposal_reason_input
  | ArchiveProposal proposal_reason_input
  | RestoreProposal string
  | ArchiveDevTicket ticket_reason_input
  | RestoreDevTicket string
  | ImportLegacyDevTicket import_input
  | ReconcileHistoricalCompletion reconcile_input
  | AddDependency add_dependency_input
  | RemoveDependency remove_dependency_input
  | ReorderTodo reorder_input
  | SetDevTicketClassification set_classification_input
  | ApproveReadyToTodo approve_input
  | Claim | Start | SubmitForReview | AdmitDone

fun runCommand :: "runtime \<Rightarrow> command_envelope \<Rightarrow> command \<Rightarrow> command_result result cmd" where
  "runCommand rt e (DraftProposal i) = draftProposal rt e i"
| "runCommand rt e (SubmitProposal i) = submitProposal rt e i"
| "runCommand rt e (AcceptProposal i) = acceptProposal rt e i"
| "runCommand rt e (MergeProposal i) = mergeProposal rt e i"
| "runCommand rt e (RejectProposal i) = rejectProposal rt e i"
| "runCommand rt e (ArchiveProposal i) = archiveProposal rt e i"
| "runCommand rt e (RestoreProposal i) = restoreProposal rt e i"
| "runCommand rt e (ArchiveDevTicket i) = archiveDevTicket rt e i"
| "runCommand rt e (RestoreDevTicket i) = restoreDevTicket rt e i"
| "runCommand rt e (ImportLegacyDevTicket i) = importLegacyDevTicket rt e i"
| "runCommand rt e (ReconcileHistoricalCompletion i) = reconcileHistoricalCompletion rt e i"
| "runCommand rt e (AddDependency i) = addDependency rt e i"
| "runCommand rt e (RemoveDependency i) = removeDependency rt e i"
| "runCommand rt e (ReorderTodo i) = reorderTodo rt e i"
| "runCommand rt e (SetDevTicketClassification i) = setDevTicketClassification rt e i"
| "runCommand rt e (ApproveReadyToTodo i) = approveReadyToTodo rt e i"
| "runCommand rt e Claim = claim rt e"
| "runCommand rt e Start = start rt e"
| "runCommand rt e SubmitForReview = submitForReview rt e"
| "runCommand rt e AdmitDone = admitDone rt e"

lemmas command_defs = proposal_commands archiveDevTicket_def restoreDevTicket_def importLegacyDevTicket_def
  reconcileHistoricalCompletion_def addDependency_def removeDependency_def reorderTodo_def setDevTicketClassification_def
  approveReadyToTodo_def claim_def start_def submitForReview_def admitDone_def rejectUntilGate_def

text \<open>
  Every command is a body behind the receipt, inside the tenant transaction; the two migration commands
  check authorization before the receipt.
\<close>

definition migrates :: "command \<Rightarrow> bool" where
  "migrates c = (case c of ImportLegacyDevTicket _ \<Rightarrow> True | ReconcileHistoricalCompletion _ \<Rightarrow> True | _ \<Rightarrow> False)"

definition guarded :: "command_envelope \<Rightarrow> command \<Rightarrow> string \<Rightarrow> command_result result cmd \<Rightarrow> command_result result cmd" where
  "guarded e c msg body = (if migrates c then authorizedFirst e msg body else reserved e body)"

lemma runCommand_shape:
  obtains body msg where "runCommand rt e c = inTenant rt e (guarded e c msg body)"
    "settles e body" "keeps trail body" "\<And>w. envelope_scoped e \<Longrightarrow> leads (board_rel (rt_sha256 rt)) w body"
proof -
  note steps = settling trailed leads_draftProposal leads_submitProposal leads_acceptProposal leads_mergeProposal leads_rejectProposal
    leads_archiveProposal leads_restoreProposal leads_archiveDevTicket leads_restoreDevTicket leads_importLegacyDevTicket
    leads_reconcileHistoricalCompletion leads_addDependency leads_removeDependency leads_reorderTodo
    leads_setDevTicketClassification leads_approveReadyToTodo leads_rejectUntilGate
  show ?thesis
    by (cases c; rule that) (simp add: command_defs guarded_def migrates_def, rule steps, rule steps, rule steps, assumption?)+
qed

section \<open>Laws of every command\<close>

lemma run_trailed: "keeps trail (runCommand rt e c)"
proof -
  obtain body msg where shape: "runCommand rt e c = inTenant rt e (guarded e c msg body)"
    "keeps trail body" by (rule runCommand_shape)
  then show ?thesis by (auto simp: guarded_def intro!: trailed)
qed

lemma uuid_scoped: "is_uuid (env_organizationId e) \<Longrightarrow> colon_free (env_workspaceId e) \<Longrightarrow> envelope_scoped e"
  using is_uuid_chars[of "env_organizationId e" "CHR '':''"] by (auto simp: envelope_scoped_def colon_free_def hex_digit_def)

lemma run_leads:
  assumes "colon_free (env_workspaceId e)"
  shows "leads (board_rel (rt_sha256 rt)) w (runCommand rt e c)"
proof -
  obtain body msg where shape: "runCommand rt e c = inTenant rt e (guarded e c msg body)"
    and body: "\<And>w. envelope_scoped e \<Longrightarrow> leads (board_rel (rt_sha256 rt)) w body" by (rule runCommand_shape) blast
  show ?thesis
  proof (cases "is_uuid (env_organizationId e)")
    case True
    then have sc: "envelope_scoped e" using assms uuid_scoped by blast
    have res: "leads (board_rel (rt_sha256 rt)) v (reserved e body)" for v
      by (rule board.leads_reserved) (rule body[OF sc])
    have "leads (board_rel (rt_sha256 rt)) w (authorizedFirst e msg body)"
      unfolding authorizedFirst_def by (intro board.leads_rules board.leads_silent[OF store_frame.keeps_ret] res)
    with res show ?thesis unfolding shape guarded_def by (auto intro!: board.leads_inTenant)
  next
    case False
    then have "\<not> (is_uuid (env_organizationId e) \<and> session_ok (rt_database rt) (env_organizationId e))" by simp
    then obtain er where "inTenant rt e (guarded e c msg body) w =
        (Thrown er, if is_uuid (env_organizationId e) \<and> db_rollsBack (rt_database rt) then undo_world w w else w)"
      unfolding inTenant_def by (rule withTenant_refused)
    then have "runCommand rt e c w = (Thrown er, w)" using False by (simp add: shape)
    then show ?thesis by (simp add: leads_def board.P_refl)
  qed
qed

text \<open>A command that throws leaves nothing behind.\<close>

lemma run_atomic:
  assumes "db_rollsBack (rt_database rt)" "runCommand rt e c w = (Thrown er, w')"
  shows "w_store w' = w_store w \<and> w_receipts w' = w_receipts w \<and> w_ledger w' = w_ledger w"
proof -
  obtain m where shape: "runCommand rt e c = inTenant rt e m" by (rule runCommand_shape)
  show ?thesis
  proof (cases "is_uuid (env_organizationId e) \<and> session_ok (rt_database rt) (env_organizationId e)")
    case True
    then show ?thesis using assms
      by (auto simp: shape inTenant_def withTenant_entry undo_world_def split: prod.splits js_result.splits)
  next
    case False
    then obtain er' where "inTenant rt e m w =
        (Thrown er', if is_uuid (env_organizationId e) \<and> db_rollsBack (rt_database rt) then undo_world w w else w)"
      unfolding inTenant_def by (rule withTenant_refused)
    then show ?thesis using assms(2) by (auto simp: shape undo_world_def split: if_splits)
  qed
qed

text \<open>The part of a command behind the tenant check, when that lets it through.\<close>

lemma run_returned:
  assumes "runCommand rt e c w = (Returned r, w')"
  obtains body msg where "is_uuid (env_organizationId e)" "session_ok (rt_database rt) (env_organizationId e)"
    "guarded e c msg body w = (Returned r, w')" "settles e body"
    "\<forall>v. runCommand rt e c v = (case guarded e c msg body v of
        (Returned x, v') \<Rightarrow> (Returned x, v')
      | (Thrown er, v') \<Rightarrow> (Thrown (mapDatabaseError er), if db_rollsBack (rt_database rt) then undo_world v v' else v'))"
proof -
  obtain body msg where shape: "runCommand rt e c = inTenant rt e (guarded e c msg body)"
    "settles e body" by (rule runCommand_shape)
  let ?m = "guarded e c msg body"
  have ok: "is_uuid (env_organizationId e) \<and> session_ok (rt_database rt) (env_organizationId e)"
  proof (rule ccontr)
    assume "\<not> ?thesis"
    then obtain er where "inTenant rt e ?m w =
        (Thrown er, if is_uuid (env_organizationId e) \<and> db_rollsBack (rt_database rt) then undo_world w w else w)"
      unfolding inTenant_def by (rule withTenant_refused)
    with assms shape(1) show False by (simp split: if_splits)
  qed
  have run: "runCommand rt e c v = (case ?m v of (Returned x, v') \<Rightarrow> (Returned x, v')
      | (Thrown er, v') \<Rightarrow> (Thrown (mapDatabaseError er), if db_rollsBack (rt_database rt) then undo_world v v' else v'))" for v
    using ok unfolding shape(1) inTenant_def by (simp add: withTenant_entry)
  have "?m w = (Returned r, w')" using assms run[of w] by (auto split: prod.splits js_result.splits if_splits)
  with that ok shape(2) run show ?thesis by blast
qed

text \<open>Authorized as the migration commands require it.\<close>

definition admitted :: "command \<Rightarrow> command_envelope \<Rightarrow> world \<Rightarrow> bool" where
  "admitted c e w \<longleftrightarrow> (migrates c \<longrightarrow> authorizedLegacyImportActor (w_store w) e \<and> parseCommandActorRef (env_actorRef e) \<noteq> err invalid_actor)"

lemma admitted_reserved:
  assumes "admitted c e w"
  shows "guarded e c msg body w = reserved e body w"
  using assms parseCommandActorRef_err[of "env_actorRef e"]
  by (auto simp: guarded_def admitted_def authorizedFirst_def fromStore_def split: sum.splits)

lemma run_replays:
  assumes q: "quiescent w" and run: "runCommand rt e c w = (Returned r, w')" and adm: "admitted c e w"
    and later: "trail w' w''" "admitted c e w''"
  shows "runCommand rt e c w'' = (Returned r, w'')"
proof -
  obtain body msg where b: "guarded e c msg body w = (Returned r, w')" "settles e body"
    "\<forall>v. runCommand rt e c v = (case guarded e c msg body v of
        (Returned x, v') \<Rightarrow> (Returned x, v')
      | (Thrown er, v') \<Rightarrow> (Thrown (mapDatabaseError er), if db_rollsBack (rt_database rt) then undo_world v v' else v'))"
    by (rule run_returned[OF run]) blast
  have "reserved e body w = (Returned r, w')" using b(1) admitted_reserved[OF adm, of msg body] by simp
  from reserved_replays[OF q b(2) this] later(1) have "reserved e body w'' = (Returned r, w'')" by (simp add: trail_def)
  then show ?thesis using spec[OF b(3), of w''] admitted_reserved[OF later(2), of msg body] by simp
qed

lemma run_quiescent:
  assumes q: "quiescent w" and db: "db_rollsBack (rt_database rt)" and run: "runCommand rt e c w = (r, w')"
  shows "quiescent w'"
proof (cases r)
  case (Returned x)
  with run obtain body msg where b: "guarded e c msg body w = (Returned x, w')"
      "settles e body" using run_returned[of rt e c w x w'] by blast
  show ?thesis
  proof (cases "admitted c e w")
    case True
    then show ?thesis using reserved_replays[OF q b(2), of x w'] b(1) admitted_reserved[OF True, of msg body] by simp
  next
    case False
    then have "w' = w" using b(1)
      by (auto simp: guarded_def admitted_def authorizedFirst_def fromStore_def ret_def split: sum.splits if_splits)
    then show ?thesis using q by simp
  qed
next
  case (Thrown er)
  then show ?thesis using run_atomic[OF db, of e c w er w'] run q by (simp add: quiescent_def)
qed

section \<open>Reachable worlds\<close>

definition empty_world :: world where
  "empty_world = \<lparr>w_store = empty_store, w_receipts = [], w_ledger = empty_ledger, w_ticks = 0, w_uuids = 0\<rparr>"

text \<open>
  What happens to a board: commands of workspaces whose id has no colon, and the grants and legacy tasks
  that come from other parts of the product.
\<close>

inductive board_step :: "runtime \<Rightarrow> world \<Rightarrow> world \<Rightarrow> bool" for rt where
  command: "colon_free (env_workspaceId e) \<Longrightarrow> runCommand rt e c w = (r, w') \<Longrightarrow> board_step rt w w'"
| membership: "board_step rt w (w\<lparr>w_store := grantActiveMembership org u (w_store w)\<rparr>)"
| role: "board_step rt w (w\<lparr>w_store := grantOrganizationRole org u k (w_store w)\<rparr>)"
| legacy_task: "board_step rt w (w\<lparr>w_store := (w_store w)\<lparr>legacyTaskSources := map_set lid src (legacyTaskSources (w_store w))\<rparr>\<rparr>)"

inductive_cases board_stepE: "board_step rt w w'"

definition reachable :: "runtime \<Rightarrow> world \<Rightarrow> bool" where
  "reachable rt w \<longleftrightarrow> (board_step rt)\<^sup>*\<^sup>* empty_world w"

lemma board_inv_outside:
  "board_inv sha (st\<lparr>activeMembers := ms\<rparr>) = board_inv sha st" "board_inv sha (st\<lparr>organizationRoles := rs\<rparr>) = board_inv sha st"
  "board_inv sha (st\<lparr>legacyTaskSources := ls\<rparr>) = board_inv sha st"
proof -
  have same: "board_inv sha st' = board_inv sha st" if "devTickets st' = devTickets st" "proposals st' = proposals st"
    "dependencyEdges st' = dependencyEdges st" "todoQueueMemberships st' = todoQueueMemberships st"
    "historicalRecords st' = historicalRecords st" for st'
  proof -
    have "accepted_proposal_link st' = accepted_proposal_link st" "source_proposal_link st' = source_proposal_link st"
      "hasActiveDependencies st' = hasActiveDependencies st"
      using that by (intro ext, simp add: accepted_proposal_link_def source_proposal_link_def hasActiveDependencies_def)+
    then show ?thesis using that queue_wf_frame[OF that(4)]
      by (simp add: board_inv_def tickets_ok_def tickets_wf_def policy_ok_def lanes_match_def graph_wf_def graph_acyclic_def edges_keyed_def blockers_live_def
          proposals_wf_def acceptance_links_def historical_keys_ok_def)
  qed
  show "board_inv sha (st\<lparr>activeMembers := ms\<rparr>) = board_inv sha st" "board_inv sha (st\<lparr>organizationRoles := rs\<rparr>) = board_inv sha st"
    "board_inv sha (st\<lparr>legacyTaskSources := ls\<rparr>) = board_inv sha st" by (rule same; simp)+
qed

lemma step_board_inv:
  assumes "board_step rt w w'" "board_inv (rt_sha256 rt) (w_store w)"
  shows "board_inv (rt_sha256 rt) (w_store w')"
  using assms
proof (cases rule: board_step.cases)
  case (command e c r)
  then show ?thesis using run_leads[of e rt w c] assms(2) by (simp add: leads_def board_rel_def)
qed (simp_all add: grantActiveMembership_def grantOrganizationRole_def board_inv_outside)

lemma step_trail: "board_step rt w w' \<Longrightarrow> trail w w'"
proof (erule board_stepE, goal_cases)
  case (1 e c r)
  then show ?thesis using run_trailed[of rt e c] by (auto simp: keeps_def dest: spec[of _ w])
qed (auto simp: trail_def)

lemma step_quiescent: "board_step rt w w' \<Longrightarrow> db_rollsBack (rt_database rt) \<Longrightarrow> quiescent w \<Longrightarrow> quiescent w'"
  by (erule board_stepE) (auto simp: run_quiescent, simp_all add: quiescent_def)

lemma steps_trail: "(board_step rt)\<^sup>*\<^sup>* w w' \<Longrightarrow> trail w w'"
  by (induction rule: rtranclp_induct) (auto intro: trail_frame.frame_trans step_trail simp: trail_frame.frame_refl)

lemma reachable_board_inv: "reachable rt w \<Longrightarrow> board_inv (rt_sha256 rt) (w_store w)"
  unfolding reachable_def
proof (induction rule: rtranclp_induct)
  case base
  have "empty_store = empty_store\<lparr>legacyTaskSources := [], activeMembers := {}, organizationRoles := {}\<rparr>"
    by (simp add: empty_store_def)
  then show ?case using board_inv_empty[of "rt_sha256 rt" "{}" "{}" "[]"] by (simp add: empty_world_def)
qed (rule step_board_inv)

lemma empty_quiescent: "quiescent empty_world"
  by (simp add: empty_world_def quiescent_def receipts_wf_def all_terminal_def)

lemma reachable_quiescent: "reachable rt w \<Longrightarrow> db_rollsBack (rt_database rt) \<Longrightarrow> quiescent w"
  unfolding reachable_def by (induction rule: rtranclp_induct) (auto intro: step_quiescent empty_quiescent)

lemma reachable_ledger_wf:
  assumes "reachable rt w"
  shows "ledger_wf (w_ledger w)"
proof -
  have "ledger_wf (w_ledger empty_world)"
    by (simp add: empty_world_def empty_ledger_def ledger_wf_def entry_numbers_def event_numbers_def)
  moreover have "ledger_extends (w_ledger empty_world) (w_ledger w)"
    using steps_trail[of rt empty_world w] assms by (simp add: reachable_def trail_def)
  ultimately show ?thesis by (simp add: ledger_extends_def)
qed

end
