(* ===== verification/Effects.thy ===== *)
theory Effects
  imports Board
begin

text \<open>
  Weakest preconditions for command bodies. \<open>wp w m R\<close>: if \<open>m\<close> returns from the world \<open>w\<close>, its result and
  the world it leaves satisfy \<open>R\<close>. The rules follow the constructs the bodies are built from, and one lemma
  lifts a statement on a body to the command with its receipt and its tenant transaction.
\<close>

section \<open>Rules\<close>

definition wp :: "world \<Rightarrow> 'a cmd \<Rightarrow> ('a \<Rightarrow> world \<Rightarrow> bool) \<Rightarrow> bool" where
  "wp w m R \<longleftrightarrow> (\<forall>x w'. m w = (Returned x, w') \<longrightarrow> R x w')"

lemma wpI: "(\<And>x w'. m w = (Returned x, w') \<Longrightarrow> R x w') \<Longrightarrow> wp w m R"
  by (simp add: wp_def)

lemma wpD: "wp w m R \<Longrightarrow> m w = (Returned x, w') \<Longrightarrow> R x w'"
  by (simp add: wp_def)

lemma wp_fromStore: "wp w (k (f (w_store w))) R \<Longrightarrow> wp w (fromStore f k) R"
  by (simp add: wp_def fromStore_def)

lemma wp_if: "(b \<Longrightarrow> wp w m R) \<Longrightarrow> (\<not> b \<Longrightarrow> wp w m' R) \<Longrightarrow> wp w (if b then m else m') R"
  by simp

lemma wp_case_option:
  "(v = None \<Longrightarrow> wp w m R) \<Longrightarrow> (\<And>x. v = Some x \<Longrightarrow> wp w (k x) R) \<Longrightarrow> wp w (case v of None \<Rightarrow> m | Some x \<Rightarrow> k x) R"
  by (cases v) simp_all

lemma wp_case_sum:
  "(\<And>x. v = Inl x \<Longrightarrow> wp w (h x) R) \<Longrightarrow> (\<And>x. v = Inr x \<Longrightarrow> wp w (k x) R) \<Longrightarrow>
     wp w (case v of Inl x \<Rightarrow> h x | Inr x \<Rightarrow> k x) R"
  by (cases v) simp_all

lemma wp_case_prod: "(\<And>x y. v = (x, y) \<Longrightarrow> wp w (k x y) R) \<Longrightarrow> wp w (case v of (x, y) \<Rightarrow> k x y) R"
  by (cases v) simp

lemma wp_Let: "(\<And>x. x = v \<Longrightarrow> wp w (k x) R) \<Longrightarrow> wp w (let x = v in k x) R"
  by simp

lemma wp_contentHash:
  "(\<And>h. computeReadyContractContentHash (rt_sha256 rt) c = Some h \<Longrightarrow> wp w (k h) R) \<Longrightarrow> wp w (contentHash rt c k) R"
  by (auto simp: wp_def returned(8))

lemma wp_withCanonical: "(\<And>s. canonicalJson v = Some s \<Longrightarrow> wp w (k s) R) \<Longrightarrow> wp w (withCanonical v k) R"
  by (simp add: wp_def withCanonical_def throw_def split: option.splits)

lemma wp_whenCurrent:
  assumes "wp w drift R"
    and "\<And>v r. version = Some v \<Longrightarrow> row = Some r \<Longrightarrow> rowVersion r = v \<Longrightarrow> wp w (k v r) R"
  shows "wp w (whenCurrent version row rowVersion drift k) R"
  using assms by (simp add: whenCurrent_def split: option.splits)

lemma wp_andThen: "wp w m (\<lambda>x w'. wp w' (k x) R) \<Longrightarrow> wp w (andThen m k) R"
  unfolding wp_def returned(1) by blast

lemma wp_silent: "keeps same_store m \<Longrightarrow> (\<And>x w'. w_store w' = w_store w \<Longrightarrow> R x w') \<Longrightarrow> wp w m R"
  by (auto simp: wp_def keeps_def same_store_def dest: spec[of _ w])

lemma wp_throw: "wp w (throw er) R"
  by (simp add: wp_def throw_def)

lemma wp_ret: "R x w \<Longrightarrow> wp w (ret x) R"
  by (simp add: wp_def ret_def)

lemma wp_onStore: "(\<And>x st. f (w_store w) = (x, st) \<Longrightarrow> R x (w\<lparr>w_store := st\<rparr>)) \<Longrightarrow> wp w (onStore f) R"
  by (auto simp: wp_def returned)

lemma wp_onStore_eq: "f (w_store w) = (x, st) \<Longrightarrow> R x (w\<lparr>w_store := st\<rparr>) \<Longrightarrow> wp w (onStore f) R"
  by (rule wp_onStore) simp

lemma wp_stepStore: "(\<And>x st. s (w_store w) = (Returned x, st) \<Longrightarrow> R x (w\<lparr>w_store := st\<rparr>)) \<Longrightarrow> wp w (stepStore s) R"
  by (auto simp: wp_def returned)

lemma wp_ledger:
  "(\<And>w'. w_store w' = w_store w \<Longrightarrow> R () w') \<Longrightarrow> wp w (planning rt e a k s c) R"
  "(\<And>w'. w_store w' = w_store w \<Longrightarrow> R () w') \<Longrightarrow> wp w (activity rt e a v n p) R"
  by (rule wp_silent, (rule silent), simp)+

lemma wp_randomUUID: "(\<And>u w'. w_store w' = w_store w \<Longrightarrow> R u w') \<Longrightarrow> wp w (randomUUID rt) R"
  by (rule wp_silent) (rule silent)

lemma wp_newDate: "(\<And>d w'. w_store w' = w_store w \<Longrightarrow> R d w') \<Longrightarrow> wp w (newDate rt) R"
  by (rule wp_silent) (rule silent)

lemma wp_reject: "(\<And>w'. w_store w' = w_store w \<Longrightarrow> R (err (failure c m)) w') \<Longrightarrow> wp w (reject e c m x r) R"
  unfolding reject_def by (intro wp_andThen wp_silent[OF silent_finalize] wp_ret) simp

lemma wp_accept:
  "(\<And>w'. w_store w' = w_store w \<Longrightarrow> R (ok \<lparr>cr_commandId = env_commandId e, cr_resultingVersions = vs,
      cr_proposalId = map_get ids ''proposalId'', cr_devTicketId = map_get ids ''devTicketId'',
      cr_dependencyEdgeId = map_get ids ''dependencyEdgeId''\<rparr>) w') \<Longrightarrow> wp w (accept e c ref vs ids) R"
  unfolding accept_def by (intro wp_andThen wp_silent[OF silent_finalize] wp_ret) simp

text \<open>A mutation behind a savepoint either fails and leaves the store, or did what it did.\<close>

lemma wp_risky:
  assumes "keeps same_grants m"
    and failed: "\<And>d w'. w_store w' = w_store w \<Longrightarrow> R (Inl d) w'"
    and acted: "wp w m (\<lambda>x. R (Inr x))"
  shows "wp w (risky m) R"
proof (rule wpI)
  fix x w' assume run: "risky m w = (Returned x, w')"
  obtain r w1 where m: "m w = (r, w1)" by (cases "m w")
  have g: "grants_kept (w_store w) (w_store w1)" using assms(1) m by (auto simp: keeps_def same_grants_def dest: spec[of _ w])
  show "R x w'"
  proof (cases r)
    case (Returned y)
    then have "x = Inr y" "w' = w1" using run m by (auto simp: risky_def executeRiskyMutation_def)
    then show ?thesis using wpD[OF acted] m Returned by simp
  next
    case (Thrown er)
    then have "w_store w' = w_store w" using risky_store[of m w r w1, OF m g] run by simp
    moreover obtain d where "x = Inl d" using run m Thrown
      by (auto simp: risky_def executeRiskyMutation_def split: js_error.splits if_splits)
    ultimately show ?thesis using failed by simp
  qed
qed

lemma wp_catchDrift:
  assumes "wp w m (\<lambda>x. R (Some x))" "\<And>d w'. m w = (Thrown (DriftSentinel d), w') \<Longrightarrow> R None w'"
  shows "wp w (catchDrift m) R"
  using assms by (auto simp: wp_def catchDrift_def split: prod.splits js_result.splits js_error.splits)

lemmas wp_tail = wp_andThen wp_ledger wp_accept

section \<open>Outcomes\<close>

text \<open>
  A store that differs by Todo queue headers at their initial version only: reading the header of a
  workspace for the first time creates it.
\<close>

definition headers_only :: "planning_store \<Rightarrow> planning_store \<Rightarrow> bool" where
  "headers_only st st' \<longleftrightarrow> (\<exists>hs. st' = st\<lparr>todoQueueHeaders := hs\<rparr>) \<and>
     (\<forall>org ws. q_version (fst (getOrLockTodoQueueHeader org ws st')) = q_version (fst (getOrLockTodoQueueHeader org ws st)))"

lemma headers_only_refl [simp]: "headers_only st st"
  by (auto simp: headers_only_def intro: exI[of _ "todoQueueHeaders st"])

lemma headers_only_trans:
  assumes "headers_only a b" "headers_only b c"
  shows "headers_only a c"
proof -
  from assms obtain h h' where "b = a\<lparr>todoQueueHeaders := h\<rparr>" "c = b\<lparr>todoQueueHeaders := h'\<rparr>" by (auto simp: headers_only_def)
  then show ?thesis using assms by (auto simp: headers_only_def)
qed

text \<open>A body rejects without a write, or accepts with the effect \<open>Q\<close>.\<close>

definition decided :: "planning_store \<Rightarrow> ('a \<Rightarrow> planning_store \<Rightarrow> bool) \<Rightarrow> 'a result \<Rightarrow> world \<Rightarrow> bool" where
  "decided st Q r w' = (case r of Inl d \<Rightarrow> headers_only st (w_store w') | Inr x \<Rightarrow> Q x (w_store w'))"

lemma decided_simps [simp]:
  "decided st Q (Inl d) w' = headers_only st (w_store w')" "decided st Q (Inr x) w' = Q x (w_store w')"
  by (simp_all add: decided_def)

lemma wp_rejected: "headers_only st (w_store w) \<Longrightarrow> wp w (reject e c m x r) (decided st Q)"
  by (rule wp_reject) simp

lemma wp_mutation:
  assumes "keeps same_grants m" "headers_only st (w_store w)" "wp w m (\<lambda>x w'. wp w' (k x) (decided st Q))"
  shows "wp w (andThen (risky m) (\<lambda>r. case r of Inl d \<Rightarrow> rejectError e d | Inr x \<Rightarrow> k x)) (decided st Q)"
  by (rule wp_andThen, rule wp_risky[OF assms(1)]) (use assms(2,3) in \<open>auto intro: wp_rejected\<close>)

lemma wp_drifting:
  assumes "keeps same_grants m" "headers_only st (w_store w)" "wp w m (\<lambda>x w'. wp w' (k x) (decided st Q))"
  shows "wp w (andThen (catchDrift (risky m)) (\<lambda>caught. case caught of None \<Rightarrow> reject e c msg x r
    | Some y \<Rightarrow> (case y of Inl d \<Rightarrow> rejectError e d | Inr z \<Rightarrow> k z))) (decided st Q)"
proof (intro wp_andThen wp_catchDrift wp_risky[OF assms(1)])
  fix d and w' :: world assume "w_store w' = w_store w"
  then show "wp w' (case Some (Inl d) of None \<Rightarrow> reject e c msg x r
    | Some y \<Rightarrow> (case y of Inl d \<Rightarrow> rejectError e d | Inr z \<Rightarrow> k z)) (decided st Q)"
    using assms(2) by (simp add: wp_rejected)
next
  show "wp w m (\<lambda>x' w'. wp w' (case Some (Inr x') of None \<Rightarrow> reject e c msg x r
    | Some y \<Rightarrow> (case y of Inl d \<Rightarrow> rejectError e d | Inr z \<Rightarrow> k z)) (decided st Q))"
    using assms(3) by simp
next
  fix d w' assume run: "risky m w = (Thrown (DriftSentinel d), w')"
  obtain mr w1 where m: "m w = (mr, w1)" by (cases "m w")
  have g: "grants_kept (w_store w) (w_store w1)" using assms(1) m by (auto simp: keeps_def same_grants_def dest: spec[of _ w])
  have "w_store w' = w_store w" using risky_store[of m w mr w1, OF m g] run m
    by (cases mr) (auto simp: risky_def executeRiskyMutation_def)
  then show "wp w' (case None of None \<Rightarrow> reject e c msg x r
    | Some y \<Rightarrow> (case y of Inl d \<Rightarrow> rejectError e d | Inr z \<Rightarrow> k z)) (decided st Q)"
    using assms(2) by (simp add: wp_rejected)
qed

text \<open>The guards in front of a mutation: what is left of a body is its one change of the store.\<close>

lemmas wp_guards = wp_fromStore wp_if wp_case_option wp_case_sum wp_case_prod wp_Let wp_contentHash wp_withCanonical
  wp_whenCurrent wp_throw wp_rejected wp_mutation wp_drifting headers_only_refl

abbreviation unseen_key :: "command_envelope \<Rightarrow> world \<Rightarrow> bool" where
  "unseen_key e w \<equiv> map_get (w_receipts w) (receiptKey (envelope_lookup e)) = None"

lemma reserved_decided:
  assumes "\<And>v. w_store v = w_store w \<Longrightarrow> wp v body (decided (w_store w) Q)"
    and "reserved e body w = (Returned r, w')"
  shows "case r of Inl d \<Rightarrow> headers_only (w_store w) (w_store w')
    | Inr x \<Rightarrow> if unseen_key e w then Q x (w_store w') else Q x (w_store w') \<or> w_store w' = w_store w"
proof -
  obtain a w1 where a: "reserve e w = (Returned a, w1)" "(case a of Inl res \<Rightarrow> ret res | Inr _ \<Rightarrow> body) w1 = (Returned r, w')"
    using assms(2) by (auto simp: reserved_def returned)
  have st: "w_store w1 = w_store w" using silent_reserve[of e] a(1) by (auto simp: keeps_def same_store_def dest: spec[of _ w])
  show ?thesis
  proof (cases a)
    case (Inr b)
    then have "decided (w_store w) Q r w'" using wpD[OF assms(1)[OF st]] a(2) by simp
    then show ?thesis by (cases r) auto
  next
    case (Inl res)
    then have rw: "res = r" "w' = w1" using a(2) by (auto simp: ret_def)
    have "\<exists>d. r = Inl d" if "unseen_key e w"
      using a(1) that Inl rw
      by (auto simp: reserve_def returned onReceipts_def reserveOrReplay_def Let_def split: sum.splits)
    then show ?thesis using rw st by (auto split: sum.splits)
  qed
qed


lemma inTenant_Returned:
  assumes "inTenant rt e m w = (Returned r, w')"
  shows "m w = (Returned r, w') \<and> is_uuid (env_organizationId e) \<and> session_ok (rt_database rt) (env_organizationId e)"
proof -
  have "is_uuid (env_organizationId e) \<and> session_ok (rt_database rt) (env_organizationId e)"
  proof (rule ccontr)
    assume "\<not> ?thesis"
    then obtain er where "inTenant rt e m w =
        (Thrown er, if is_uuid (env_organizationId e) \<and> db_rollsBack (rt_database rt) then undo_world w w else w)"
      unfolding inTenant_def by (rule withTenant_refused)
    with assms show False by (simp split: if_splits)
  qed
  then show ?thesis using assms
    by (auto simp: inTenant_def withTenant_entry split: prod.splits js_result.splits if_splits)
qed

lemma guarded_Returned:
  assumes "guarded e c msg body w = (Returned r, w')"
  shows "reserved e body w = (Returned r, w') \<or> w' = w \<and> (\<exists>d. r = Inl d)"
  using assms by (auto simp: guarded_def authorizedFirst_def fromStore_def ret_def split: sum.splits if_splits)

text \<open>From a body to its command: what holds of a returned result.\<close>

lemma run_decided:
  assumes shape: "runCommand rt e c = inTenant rt e (guarded e c msg body)"
    and run: "runCommand rt e c w = (Returned r, w')"
    and ws: "colon_free (env_workspaceId e)"
    and body: "\<And>v. envelope_scoped e \<Longrightarrow> w_store v = w_store w \<Longrightarrow> wp v body (decided (w_store w) Q)"
  shows "case r of Inl d \<Rightarrow> headers_only (w_store w) (w_store w')
    | Inr x \<Rightarrow> (if unseen_key e w then Q x (w_store w') else Q x (w_store w') \<or> w_store w' = w_store w)"
proof -
  from inTenant_Returned run shape have t: "guarded e c msg body w = (Returned r, w')" "is_uuid (env_organizationId e)" by metis+
  then have sc: "envelope_scoped e" using uuid_scoped ws by blast
  from guarded_Returned[OF t(1)] show ?thesis
  proof
    assume "reserved e body w = (Returned r, w')"
    then show ?thesis using reserved_decided[of w body Q e r w'] body[OF sc] by blast
  next
    assume "w' = w \<and> (\<exists>d. r = Inl d)"
    then show ?thesis by auto
  qed
qed

end
