(* ===== verification/Proposal_Effects.thy ===== *)
theory Proposal_Effects
  imports Effects
begin

text \<open>
  What the commands on proposals do: the exact change of the store for every accepted command, and that a
  rejected one writes nothing.
\<close>

section \<open>The update of the proposal a command read\<close>

text \<open>The row of a proposal that a command may act on, and the version its caller expects.\<close>

definition read_proposal :: "planning_store \<Rightarrow> command_envelope \<Rightarrow> string \<Rightarrow> proposal_row \<Rightarrow> bool" where
  "read_proposal st e pid p \<longleftrightarrow>
     selectProposalForUpdate st (env_organizationId e) (env_workspaceId e) pid = Some p \<and>
     expected e ''proposal'' pid = Some (p_version p)"

definition put_proposal :: "command_envelope \<Rightarrow> proposal_row \<Rightarrow> planning_store \<Rightarrow> planning_store" where
  "put_proposal e p st =
     st\<lparr>proposals := map_set (key (env_organizationId e) (env_workspaceId e) (p_id p)) p (proposals st)\<rparr>"

lemma read_proposal_current:
  assumes "envelope_scoped e" "board_inv sha st" "read_proposal st e pid p"
  shows "map_get (proposals st) (key (env_organizationId e) (env_workspaceId e) (p_id p)) = Some p \<and> p_id p = pid"
  using selected_proposal[of st "env_organizationId e" "env_workspaceId e" pid p] assms
  by (auto simp: envelope_scoped_def board_inv_def selectProposalForUpdate_def read_proposal_def)

definition proposal_updated :: "update_proposal_input \<Rightarrow> proposal_row \<Rightarrow> proposal_row" where
  "proposal_updated u p =
     p\<lparr>p_lifecycleState := up_lifecycleState u, p_acceptedCommandId := up_acceptedCommandId u,
       p_acceptedDevTicketId := up_acceptedDevTicketId u, p_archivedAt := overlay (up_archivedAt u) (p_archivedAt p),
       p_archivedByUserId := overlay (up_archivedByUserId u) (p_archivedByUserId p),
       p_archivedReason := overlay (up_archivedReason u) (p_archivedReason p), p_version := p_version p + 1\<rparr>"

lemma wp_proposal_update:
  assumes "map_get (proposals (w_store w)) (key (env_organizationId e) (env_workspaceId e) (p_id p)) = Some p"
    and "up_organizationId u = env_organizationId e" "up_workspaceId u = env_workspaceId e"
      "up_proposalId u = p_id p" "up_expectedVersion u = p_version p"
    and "R (Some (proposal_updated u p)) (w\<lparr>w_store := put_proposal e (proposal_updated u p) (w_store w)\<rparr>)"
  shows "wp w (onStore (updateProposal u)) R"
proof (rule wp_onStore)
  fix x st assume "updateProposal u (w_store w) = (x, st)"
  then show "R x (w\<lparr>w_store := st\<rparr>)"
    using assms by (auto simp: updateProposal_def Let_def put_proposal_def proposal_updated_def)
qed

text \<open>An undecided proposal has no acceptance to keep: a decision changes its state and its version.\<close>

definition decided_as :: "proposal_state \<Rightarrow> proposal_row \<Rightarrow> proposal_row" where
  "decided_as s p = p\<lparr>p_lifecycleState := s, p_version := p_version p + 1\<rparr>"

lemma read_unlinked:
  assumes "board_inv sha st" "read_proposal st e pid p" "p_lifecycleState p \<noteq> Accepted"
  shows "p_acceptedCommandId p = None \<and> p_acceptedDevTicketId p = None"
  using assms by (auto simp: board_inv_def acceptance_links_def accepted_proposal_link_def read_proposal_def
      selectProposalForUpdate_def split: if_splits)

lemma proposal_updated_decision:
  assumes "board_inv sha st" "read_proposal st e pid p" "p_lifecycleState p \<noteq> Accepted"
  shows "proposal_updated (proposal_update e i v s) p = decided_as s p"
  using read_unlinked[OF assms] by (cases p) (simp add: proposal_updated_def proposal_update_def overlay_def decided_as_def)

lemma decided_as_simps [simp]: "p_id (decided_as s p) = p_id p" "p_version (decided_as s p) = p_version p + 1"
  by (simp_all add: decided_as_def)

lemma wp_decision:
  assumes "envelope_scoped e" "board_inv sha (w_store w)" "read_proposal (w_store w) e pid p" "p_lifecycleState p \<noteq> Accepted"
    and "R (Some (decided_as s p)) (w\<lparr>w_store := put_proposal e (decided_as s p) (w_store w)\<rparr>)"
  shows "wp w (onStore (updateProposal (proposal_update e (p_id p) (p_version p) s))) R"
  using assms(5) conjunct1[OF read_proposal_current[OF assms(1-3)]] by (intro wp_proposal_update[of w e p])
    (simp_all only: proposal_updated_decision[OF assms(2-4)], simp_all add: proposal_update_def)

section \<open>Submit, merge and reject\<close>

definition submitted :: "command_envelope \<Rightarrow> string \<Rightarrow> planning_store \<Rightarrow> command_result \<Rightarrow> planning_store \<Rightarrow> bool" where
  "submitted e pid st r st' \<longleftrightarrow> (\<exists>p. read_proposal st e pid p \<and> p_lifecycleState p = ProposalDraft \<and> p_archivedAt p = None \<and>
     st' = put_proposal e (decided_as AwaitingDecision p) st \<and>
     cr_resultingVersions r = [versioned ''proposal'' pid (p_version p + 1)])"

lemma body_submitProposal:
  assumes "envelope_scoped e" "board_inv sha (w_store w)"
  shows "wp w (submitProposal_body rt e pid) (decided (w_store w) (submitted e pid (w_store w)))"
  unfolding submitProposal_body_def
proof (intro wp_guards grantless, goal_cases)
  case (1 version p)
  then have p: "read_proposal (w_store w) e pid p" by (simp add: read_proposal_def)
  show ?case unfolding \<open>p_version p = version\<close>[symmetric]
    by (rule wp_decision[OF assms p]) (use 1 p read_proposal_current[OF assms p] in
        \<open>auto intro!: wp_tail simp: submitted_def proposalVersion_def\<close>)
qed

definition rejected_with :: "command_envelope \<Rightarrow> proposal_reason_input \<Rightarrow> planning_store \<Rightarrow> command_result \<Rightarrow> planning_store \<Rightarrow> bool" where
  "rejected_with e i st r st' \<longleftrightarrow> (\<exists>p reason. read_proposal st e (pr_proposalId i) p \<and> decisionReason (pr_reason i) = ok reason \<and>
     p_lifecycleState p = AwaitingDecision \<and> p_archivedAt p = None \<and>
     st' = put_proposal e (decided_as Rejected p) st \<and>
     cr_resultingVersions r = [versioned ''proposal'' (pr_proposalId i) (p_version p + 1)])"

lemma body_rejectProposal:
  assumes "envelope_scoped e" "board_inv sha (w_store w)"
  shows "wp w (decideProposal_body rt e i Rejected n c s) (decided (w_store w) (rejected_with e i (w_store w)))"
  unfolding decideProposal_body_def
proof (intro wp_guards grantless, goal_cases)
  case (1 reason version p)
  then have p: "read_proposal (w_store w) e (pr_proposalId i) p" by (simp add: read_proposal_def)
  show ?case unfolding \<open>p_version p = version\<close>[symmetric]
    by (rule wp_decision[OF assms p]) (use 1 p read_proposal_current[OF assms p] in
        \<open>auto intro!: wp_tail simp: rejected_with_def proposalVersion_def\<close>)
qed

definition merged_into :: "command_envelope \<Rightarrow> merge_proposal_input \<Rightarrow> planning_store \<Rightarrow> command_result \<Rightarrow> planning_store \<Rightarrow> bool" where
  "merged_into e i st r st' \<longleftrightarrow> (\<exists>p t reason. read_proposal st e (mp_proposalId i) p \<and> decisionReason (mp_reason i) = ok reason \<and>
     selectDevTicketForUpdate st (env_organizationId e) (env_workspaceId e) (mp_existingDevTicketId i) = Some t \<and>
     expected e ''dev_ticket'' (mp_existingDevTicketId i) = Some (t_version t) \<and> t_archivedAt t = None \<and>
     p_lifecycleState p = AwaitingDecision \<and> p_archivedAt p = None \<and>
     st' = put_proposal e (decided_as Merged p) st \<and>
     cr_resultingVersions r = [versioned ''proposal'' (mp_proposalId i) (p_version p + 1), ticketVersion t])"

lemma body_mergeProposal:
  assumes "envelope_scoped e" "board_inv sha (w_store w)"
  shows "wp w (mergeProposal_body rt e i) (decided (w_store w) (merged_into e i (w_store w)))"
  unfolding mergeProposal_body_def
proof (intro wp_guards grantless, goal_cases)
  case (1 reason version p tversion t)
  then have p: "read_proposal (w_store w) e (mp_proposalId i) p" by (simp add: read_proposal_def)
  show ?case unfolding \<open>p_version p = version\<close>[symmetric]
    by (rule wp_decision[OF assms p]) (use 1 p read_proposal_current[OF assms p] in
        \<open>auto intro!: wp_tail simp: merged_into_def proposalVersion_def\<close>)
qed

section \<open>Draft\<close>

definition drafted :: "runtime \<Rightarrow> command_envelope \<Rightarrow> draft_proposal_input \<Rightarrow> planning_store \<Rightarrow> command_result \<Rightarrow> planning_store \<Rightarrow> bool" where
  "drafted rt e i st r st' \<longleftrightarrow> (\<exists>summary assessment contract.
     normalizeDiscoverySummary (dp_discoverySummary i) = ok summary \<and>
     parseBlockingAssessment (dp_blockingAssessment i) = ok assessment \<and>
     parseReadyContractContent (rt_sha256 rt) (or_empty (dp_suggestedContract i)) = ok contract \<and>
     selectProposalForUpdate st (env_organizationId e) (env_workspaceId e) (env_targetAggregateId e) = None \<and>
     st' = put_proposal e \<lparr>p_id = env_targetAggregateId e, p_organizationId = env_organizationId e,
       p_workspaceId = env_workspaceId e, p_version = 1, p_lifecycleState = ProposalDraft, p_archivedAt = None,
       p_archivedByUserId = None, p_archivedReason = None, p_discoverySummary = summary,
       p_blockingAssessment = assessment, p_suggestedContract = contract, p_createdCommandId = env_commandId e,
       p_acceptedCommandId = None, p_acceptedDevTicketId = None\<rparr> st \<and>
     cr_resultingVersions r = [versioned ''proposal'' (env_targetAggregateId e) 1])"

lemma body_draftProposal: "wp w (draftProposal_body rt e i) (decided (w_store w) (drafted rt e i (w_store w)))"
  unfolding draftProposal_body_def
proof (intro wp_guards grantless wp_stepStore, goal_cases)
  case (1 summary assessment contract p st)
  then show ?case
    by (auto intro!: wp_tail simp: insertProposal_def Let_def drafted_def selectProposalForUpdate_def put_proposal_def proposalVersion_def
        split: if_splits)
qed

section \<open>Accept\<close>

definition accepted_as :: "runtime \<Rightarrow> command_envelope \<Rightarrow> accept_proposal_input \<Rightarrow> planning_store \<Rightarrow> command_result \<Rightarrow> planning_store \<Rightarrow> bool" where
  "accepted_as rt e i st r st' \<longleftrightarrow> (\<exists>p t contract. read_proposal st e (acp_proposalId i) p \<and>
     p_lifecycleState p = AwaitingDecision \<and> p_archivedAt p = None \<and>
     isActiveMember st (env_organizationId e) (acp_humanOwnerUserId i) \<and>
     parseReadyContractContent (rt_sha256 rt) (or_empty (acp_initialContractContent i)) = ok contract \<and>
     selectDevTicketForUpdate st (env_organizationId e) (env_workspaceId e) (t_id t) = None \<and>
     st' = put_proposal e ((decided_as Accepted p)\<lparr>p_acceptedCommandId := Some (env_commandId e),
           p_acceptedDevTicketId := Some (t_id t)\<rparr>)
       (st\<lparr>devTickets := map_set (key (env_organizationId e) (env_workspaceId e) (t_id t)) t (devTickets st)\<rparr>) \<and>
     t_organizationId t = env_organizationId e \<and> t_workspaceId t = env_workspaceId e \<and> t_version t = 1 \<and>
     t_originKind t = OriginProposal \<and> t_sourceProposalId t = Some (acp_proposalId i) \<and> t_lane t = Backlog \<and> unapproved t \<and>
     t_humanOwnerUserId t = acp_humanOwnerUserId i \<and> t_readyContractVersion t = 1 \<and> t_readyContractContent t = contract \<and>
     t_createdCommandId t = env_commandId e \<and>
     cr_resultingVersions r = [versioned ''proposal'' (acp_proposalId i) (p_version p + 1), ticketVersion t] \<and>
     cr_devTicketId r = Some (t_id t))"

lemma body_acceptProposal:
  assumes "envelope_scoped e" "board_inv sha (w_store w)"
  shows "wp w (acceptProposal_body rt e i) (decided (w_store w) (accepted_as rt e i (w_store w)))"
  unfolding acceptProposal_body_def
proof (intro wp_guards grantless wp_andThen wp_randomUUID wp_stepStore, goal_cases)
  case (1 version p contract u w1 h t st1)
  then have p: "read_proposal (w_store w) e (acp_proposalId i) p" by (simp add: read_proposal_def)
  note row = read_proposal_current[OF assms p]
  have t: "insertDevTicket \<lparr>it_id = u, it_organizationId = env_organizationId e, it_workspaceId = env_workspaceId e,
      it_originKind = OriginProposal, it_sourceProposalId = Some (p_id p), it_humanOwnerUserId = acp_humanOwnerUserId i,
      it_readyContractContent = contract, it_readyContractContentHash = h, it_createdCommandId = env_commandId e\<rparr>
      (w_store w) = (Returned t, st1)" using 1 by simp
  note new = insertDevTicket_Returned[OF t]
  have more: "t_originKind t = OriginProposal" "t_humanOwnerUserId t = acp_humanOwnerUserId i" "t_readyContractVersion t = 1"
      "t_createdCommandId t = env_commandId e"
    using t by (auto simp: insertDevTicket_def Let_def split: if_splits)
  let ?p = "(decided_as Accepted p)\<lparr>p_acceptedCommandId := Some (env_commandId e), p_acceptedDevTicketId := Some (t_id t)\<rparr>"
  have upd: "proposal_updated (proposal_update e (p_id p) version Accepted
      \<lparr>up_acceptedCommandId := Some (env_commandId e), up_acceptedDevTicketId := Some (t_id t)\<rparr>) p = ?p"
    by (cases p) (simp add: proposal_updated_def proposal_update_def overlay_def decided_as_def)
  show ?case
    by (rule wp_proposal_update[of _ e p], unfold upd)
      (use 1 p row new more in \<open>auto intro!: wp_ret wp_tail exI[of _ p] exI[of _ t] simp: proposal_update_def accepted_as_def proposalVersion_def
        selectDevTicketForUpdate_def\<close>)
qed

section \<open>Archive and restore\<close>

definition archived_proposal :: "command_envelope \<Rightarrow> proposal_reason_input \<Rightarrow> planning_store \<Rightarrow> command_result \<Rightarrow> planning_store \<Rightarrow> bool" where
  "archived_proposal e i st r st' \<longleftrightarrow> (\<exists>p reason now. read_proposal st e (pr_proposalId i) p \<and>
     decisionReason (pr_reason i) = ok reason \<and> p_archivedAt p = None \<and> authorizedProposalArchiveActor st e \<and>
     st' = put_proposal e (p\<lparr>p_archivedAt := Some now, p_archivedByUserId := Some (actor_stableId e),
       p_archivedReason := Some reason, p_version := p_version p + 1\<rparr>) st \<and>
     cr_resultingVersions r = [versioned ''proposal'' (pr_proposalId i) (p_version p + 1)])"

lemma body_archiveProposal:
  assumes "envelope_scoped e" "board_inv sha (w_store w)"
  shows "wp w (archiveProposal_body rt e i) (decided (w_store w) (archived_proposal e i (w_store w)))"
  unfolding archiveProposal_body_def
proof (intro wp_guards grantless wp_andThen wp_newDate, goal_cases)
  case (1 reason version p now w1)
  then have p: "read_proposal (w_store w) e (pr_proposalId i) p" by (simp add: read_proposal_def)
  show ?case
    by (rule wp_proposal_update[of _ e p]) (use 1 p read_proposal_current[OF assms p] in
      \<open>auto intro!: wp_tail exI[of _ p] exI[of _ now] simp: proposal_update_def proposal_updated_def overlay_def archived_proposal_def proposalVersion_def\<close>)
qed

definition restored_proposal :: "command_envelope \<Rightarrow> string \<Rightarrow> planning_store \<Rightarrow> command_result \<Rightarrow> planning_store \<Rightarrow> bool" where
  "restored_proposal e pid st r st' \<longleftrightarrow> (\<exists>p. read_proposal st e pid p \<and>
     p_archivedAt p \<noteq> None \<and> authorizedProposalArchiveActor st e \<and>
     st' = put_proposal e (p\<lparr>p_archivedAt := None, p_archivedByUserId := None, p_archivedReason := None,
       p_version := p_version p + 1\<rparr>) st \<and>
     cr_resultingVersions r = [versioned ''proposal'' pid (p_version p + 1)])"

lemma body_restoreProposal:
  assumes "envelope_scoped e" "board_inv sha (w_store w)"
  shows "wp w (restoreProposal_body rt e pid) (decided (w_store w) (restored_proposal e pid (w_store w)))"
  unfolding restoreProposal_body_def
proof (intro wp_guards grantless, goal_cases)
  case (1 version p)
  then have p: "read_proposal (w_store w) e pid p" by (simp add: read_proposal_def)
  show ?case
    by (rule wp_proposal_update[of _ e p]) (use 1 p read_proposal_current[OF assms p] in
      \<open>auto intro!: wp_tail exI[of _ p] simp: proposal_update_def proposal_updated_def overlay_def restored_proposal_def proposalVersion_def\<close>)
qed

end
