(* ===== verification/Ticket_Effects.thy ===== *)
theory Ticket_Effects
  imports Effects
begin

text \<open>
  What the commands on DevTickets do: archive and restore, classification, Ready approval, and reordering
  of the Todo queue.
\<close>

section \<open>Rows and the queue header\<close>

definition read_ticket :: "planning_store \<Rightarrow> command_envelope \<Rightarrow> string \<Rightarrow> dev_ticket_row \<Rightarrow> bool" where
  "read_ticket st e tid t \<longleftrightarrow>
     selectDevTicketForUpdate st (env_organizationId e) (env_workspaceId e) tid = Some t \<and>
     expected e ''dev_ticket'' tid = Some (t_version t)"

definition put_ticket :: "command_envelope \<Rightarrow> dev_ticket_row \<Rightarrow> planning_store \<Rightarrow> planning_store" where
  "put_ticket e t st =
     st\<lparr>devTickets := map_set (key (env_organizationId e) (env_workspaceId e) (t_id t)) t (devTickets st)\<rparr>"

lemma read_ticket_current:
  assumes "envelope_scoped e" "board_inv sha st" "read_ticket st e tid t"
  shows "map_get (devTickets st) (key (env_organizationId e) (env_workspaceId e) (t_id t)) = Some t \<and> t_id t = tid"
  using selected_ticket[of st "env_organizationId e" "env_workspaceId e" tid t] assms
  by (auto simp: envelope_scoped_def board_inv_def tickets_ok_def selectDevTicketForUpdate_def read_ticket_def)

text \<open>The version of the Todo queue of a workspace; a queue that was never used is at version 1.\<close>

definition queue_version :: "planning_store \<Rightarrow> command_envelope \<Rightarrow> int" where
  "queue_version st e = q_version (fst (getOrLockTodoQueueHeader (env_organizationId e) (env_workspaceId e) st))"

lemma queue_version_at:
  "map_get (todoQueueHeaders st) (key (env_organizationId e) (env_workspaceId e) ''todo'') = Some h \<Longrightarrow>
     queue_version st e = q_version h"
  by (simp add: queue_version_def getOrLockTodoQueueHeader_def Let_def)

lemma headers_only_version: "headers_only st st' \<Longrightarrow> queue_version st' e = queue_version st e"
  by (simp add: headers_only_def queue_version_def)

lemma header_created:
  assumes "getOrLockTodoQueueHeader (env_organizationId e) (env_workspaceId e) st = (h, st')"
  shows "headers_only st st' \<and> q_version h = queue_version st e \<and>
    map_get (todoQueueHeaders st') (key (env_organizationId e) (env_workspaceId e) ''todo'') = Some h"
proof (cases "map_get (todoQueueHeaders st) (key (env_organizationId e) (env_workspaceId e) ''todo'')")
  case (Some h')
  then show ?thesis using assms by (auto simp: queue_version_def getOrLockTodoQueueHeader_def)
next
  case None
  then show ?thesis using assms
    by (auto simp: headers_only_def queue_version_def getOrLockTodoQueueHeader_def Let_def split: option.splits if_splits)
qed

text \<open>
  What a command knows behind \<open>todoQueueGuard\<close>: for a ticket in Todo, the queue is at the version its caller
  expects and its header is stored.
\<close>

definition queue_checked :: "command_envelope \<Rightarrow> lane \<Rightarrow> planning_store \<Rightarrow> int option \<Rightarrow> planning_store \<Rightarrow> bool" where
  "queue_checked e lane st q st1 \<longleftrightarrow> headers_only st st1 \<and>
     (if lane = Todo
      then q = Some (queue_version st e) \<and> expected e ''lane_queue'' ''todo'' = q \<and>
        (\<exists>h. map_get (todoQueueHeaders st1) (key (env_organizationId e) (env_workspaceId e) ''todo'') = Some h)
      else q = None \<and> st1 = st)"

lemma queue_checked_headers: "queue_checked e lane st q st1 \<Longrightarrow> headers_only st st1"
  by (simp add: queue_checked_def)

lemma wp_todoQueueGuard:
  assumes "\<And>w1 q. queue_checked e lane (w_store w) q (w_store w1) \<Longrightarrow> wp w1 (k q) (decided (w_store w) Q)"
  shows "wp w (todoQueueGuard e lane k) (decided (w_store w) Q)"
  unfolding todoQueueGuard_def
proof (intro wp_if wp_andThen wp_onStore wp_case_option wp_rejected, goal_cases)
  case (3 h st1 v)
  then show ?case using assms[of "Some v" "w\<lparr>w_store := st1\<rparr>"] header_created[of e "w_store w" h st1]
    by (simp add: queue_checked_def)
next
  case 4
  then show ?case using assms[of None w] by (simp add: queue_checked_def)
qed (use header_created in \<open>force+\<close>)

text \<open>A ticket leaves Todo: its place goes, the queue version advances. Elsewhere nothing happens.\<close>

definition left_todo :: "command_envelope \<Rightarrow> dev_ticket_row \<Rightarrow> planning_store \<Rightarrow> planning_store \<Rightarrow> bool" where
  "left_todo e t st st' \<longleftrightarrow>
     (if t_lane t = Todo
      then expected e ''lane_queue'' ''todo'' = Some (queue_version st e) \<and> queue_version st' e = queue_version st e + 1 \<and>
        (\<exists>hs. st' = st\<lparr>todoQueueMemberships := map_remove (key (env_organizationId e) (env_workspaceId e) (t_id t))
            (todoQueueMemberships st), todoQueueHeaders := hs\<rparr>)
      else st' = st)"

lemma wp_leaveTodo:
  assumes "queue = None \<Longrightarrow> R None w"
    and "\<And>v h. queue = Some v \<Longrightarrow> map_get (todoQueueHeaders (w_store w)) (key (env_organizationId e) (env_workspaceId e) ''todo'') = Some h \<Longrightarrow>
      q_version h = v \<Longrightarrow> R (Some (v + 1)) (w\<lparr>w_store := (w_store w)\<lparr>
        todoQueueMemberships := map_remove (key (env_organizationId e) (env_workspaceId e) tid) (todoQueueMemberships (w_store w)),
        todoQueueHeaders := map_set (key (env_organizationId e) (env_workspaceId e) ''todo'') (h\<lparr>q_version := q_version h + 1\<rparr>)
          (todoQueueHeaders (w_store w))\<rparr>\<rparr>)"
  shows "wp w (leaveTodo e d tid queue) R"
  unfolding leaveTodo_def
  by (intro wp_case_option wp_ret wp_andThen wp_onStore wp_if wp_throw)
    (use assms in \<open>auto simp: deleteTodoQueueMembership_def casBumpTodoQueueVersion_def Let_def split: option.splits if_splits\<close>)

text \<open>Behind the guard, the store in which the ticket has left Todo.\<close>

lemma wp_leaving:
  assumes q: "queue_checked e (t_lane t) st queue (w_store w)"
    and R: "\<And>w1. left_todo e t st (w_store w1) \<Longrightarrow> R (if t_lane t = Todo then Some (queue_version st e + 1) else None) w1"
  shows "wp w (leaveTodo e d (t_id t) queue) R"
proof (rule wp_leaveTodo, goal_cases)
  case 1
  then show ?case using R[of w] q by (simp add: left_todo_def queue_checked_def split: if_splits)
next
  case (2 v h)
  then have todo: "t_lane t = Todo" and v: "v = queue_version st e" "expected e ''lane_queue'' ''todo'' = Some v"
    using q by (auto simp: queue_checked_def split: if_splits)
  obtain hs' where st: "w_store w = st\<lparr>todoQueueHeaders := hs'\<rparr>" using q by (auto simp: headers_only_def queue_checked_def)
  let ?st = "(w_store w)\<lparr>
        todoQueueMemberships := map_remove (key (env_organizationId e) (env_workspaceId e) (t_id t)) (todoQueueMemberships (w_store w)),
        todoQueueHeaders := map_set (key (env_organizationId e) (env_workspaceId e) ''todo'') (h\<lparr>q_version := q_version h + 1\<rparr>)
          (todoQueueHeaders (w_store w))\<rparr>"
  have "queue_version ?st e = q_version h + 1" by (simp add: queue_version_at)
  then have "left_todo e t st ?st" using todo 2 v st by (auto simp: left_todo_def)
  then show ?case using R[of "w\<lparr>w_store := ?st\<rparr>"] todo v by simp
qed

section \<open>Archive and restore\<close>

definition archived_ticket :: "command_envelope \<Rightarrow> ticket_reason_input \<Rightarrow> planning_store \<Rightarrow> command_result \<Rightarrow> planning_store \<Rightarrow> bool" where
  "archived_ticket e i st r st' \<longleftrightarrow> (\<exists>t reason now st1. read_ticket st e (tr_devTicketId i) t \<and> decisionReason (tr_reason i) = ok reason \<and>
     t_archivedAt t = None \<and> authorizedDevTicketArchiveActor st e t \<and>
     selectActiveBlockerEdges st (env_organizationId e) (env_workspaceId e) (tr_devTicketId i) = [] \<and> left_todo e t st st1 \<and>
     st' = put_ticket e (clear_ready (t\<lparr>t_version := t_version t + 1, t_archivedAt := Some now,
       t_archivedByUserId := Some (actor_stableId e), t_archivedReason := Some reason, t_lastActiveLane := Some (t_lane t)\<rparr>)) st1 \<and>
     cr_resultingVersions r = versioned ''dev_ticket'' (tr_devTicketId i) (t_version t + 1) #
       (if t_lane t = Todo then [versioned ''lane_queue'' ''todo'' (queue_version st e + 1)] else []))"

lemma left_todo_rows: "left_todo e t st st' \<Longrightarrow> devTickets st' = devTickets st"
  by (auto simp: left_todo_def split: if_splits)

lemma clear_ready_simps [simp]:
  "t_id (clear_ready t) = t_id t" "t_version (clear_ready t) = t_version t" "t_lane (clear_ready t) = Backlog"
  by (simp_all add: clear_ready_def)

lemma body_archiveDevTicket:
  assumes "envelope_scoped e" "board_inv sha (w_store w)"
  shows "wp w (archiveDevTicket_body rt e i) (decided (w_store w) (archived_ticket e i (w_store w)))"
  unfolding archiveDevTicket_body_def
proof (intro wp_guards wp_todoQueueGuard grantless, goal_cases)
  case (1 reason version t w1 q)
  then show ?case by (simp add: queue_checked_headers)
next
  case (2 reason version t w1 q)
  then have t: "read_ticket (w_store w) e (tr_devTicketId i) t" by (simp add: read_ticket_def)
  note row = read_ticket_current[OF assms t]
  show ?case unfolding archiveMutation_def
  proof (intro wp_andThen wp_leaving[OF 2(8)] wp_newDate wp_onStore, goal_cases)
    case (1 w2 now w3 x st3)
    then show ?case using 2 row t left_todo_rows[OF 1(1)]
      by (auto intro!: wp_throw wp_ret wp_tail exI[of _ t] exI[of _ reason] exI[of _ now] exI[of _ "w_store w2"]
          simp: archiveDevTicket_store_def updateTicketWhen_def archived_ticket_def put_ticket_def ticketVersion_def queueVersions_def
          archived_row_def split: if_splits)
  qed
qed

definition restored_ticket :: "command_envelope \<Rightarrow> string \<Rightarrow> planning_store \<Rightarrow> command_result \<Rightarrow> planning_store \<Rightarrow> bool" where
  "restored_ticket e tid st r st' \<longleftrightarrow> (\<exists>t. read_ticket st e tid t \<and> t_archivedAt t \<noteq> None \<and>
     t_lastActiveLane t \<noteq> Some Done \<and> authorizedDevTicketArchiveActor st e t \<and>
     st' = put_ticket e (t\<lparr>t_version := t_version t + 1, t_archivedAt := None, t_archivedByUserId := None, t_archivedReason := None\<rparr>) st \<and>
     cr_resultingVersions r = [versioned ''dev_ticket'' tid (t_version t + 1)])"

lemma archived_unapproved:
  assumes "board_inv sha st" "read_ticket st e tid t" "t_archivedAt t \<noteq> None"
  shows "clear_ready t = t"
proof -
  have "ticket_ok sha t" using assms by (auto simp: board_inv_def tickets_ok_def read_ticket_def selectDevTicketForUpdate_def)
  then have "unapproved t \<and> t_lane t = Backlog" using assms(3) by (auto simp: ticket_ok_def approved_def)
  then show ?thesis by (cases t) (simp add: clear_ready_def unapproved_def)
qed

lemma clear_ready_commutes:
  "clear_ready (t\<lparr>t_version := v, t_archivedAt := a, t_archivedByUserId := b, t_archivedReason := c\<rparr>) =
   (clear_ready t)\<lparr>t_version := v, t_archivedAt := a, t_archivedByUserId := b, t_archivedReason := c\<rparr>"
  by (cases t) (simp add: clear_ready_def)

lemma body_restoreDevTicket:
  assumes "envelope_scoped e" "board_inv sha (w_store w)"
  shows "wp w (restoreDevTicket_body rt e tid) (decided (w_store w) (restored_ticket e tid (w_store w)))"
  unfolding restoreDevTicket_body_def
proof (intro wp_guards grantless, goal_cases)
  case (1 version t)
  then have t: "read_ticket (w_store w) e tid t" by (simp add: read_ticket_def)
  have "clear_ready t = t" by (rule archived_unapproved[OF assms(2) t]) (use 1 in simp)
  then show ?case using 1 t read_ticket_current[OF assms t]
    by (auto intro!: wp_onStore wp_tail exI[of _ t] simp: restoreDevTicket_store_def updateTicketWhen_def restored_ticket_def put_ticket_def
        ticketVersion_def ticket_target_def restored_row_def clear_ready_commutes split: if_splits)
qed

section \<open>Classification\<close>

definition classified ::
  "runtime \<Rightarrow> command_envelope \<Rightarrow> set_classification_input \<Rightarrow> planning_store \<Rightarrow> command_result \<Rightarrow> planning_store \<Rightarrow> bool" where
  "classified rt e i st r st' \<longleftrightarrow> (\<exists>t ty areas prio declared sev owner evaluation content h.
     read_ticket st e (sc_devTicketId i) t \<and> t_lane t = Backlog \<and>
     parseDevTicketType (sc_type i) = ok ty \<and> normalizeWorkAreas (sc_workAreas i) = ok areas \<and>
     parsePriority (sc_priority i) = ok prio \<and> parseChangeRisk (sc_declaredChangeRisk i) = ok declared \<and>
     parseOptionalSeverity (sc_severity i) = ok sev \<and> (sev \<noteq> None \<longrightarrow> ty = Bug) \<and>
     owner = (case sc_humanOwnerUserId i of None \<Rightarrow> t_humanOwnerUserId t | Some u \<Rightarrow> u) \<and>
     (owner \<noteq> t_humanOwnerUserId t \<longrightarrow> isActiveMember st (env_organizationId e) owner) \<and>
     evaluation = evaluateChangeRisk (rt_sha256 rt) ty areas
       (hasActiveDependencies st (env_organizationId e) (env_workspaceId e) (sc_devTicketId i)) \<and>
     minimumChangeRisk evaluation \<le> declared \<and>
     \<not> classification_unchanged t owner ty areas prio sev declared evaluation \<and>
     content = spread (t_readyContractContent t)
       [(''humanOwnerUserId'', JString owner), (''classification'', JObject (classification_json ty areas prio sev (Some declared))),
        (''changeRiskPolicy'', evaluation_json evaluation)] \<and>
     computeReadyContractContentHash (rt_sha256 rt) content = Some h \<and>
     st' = put_ticket e (t\<lparr>t_version := t_version t + 1, t_humanOwnerUserId := owner,
       t_devTicketType := Some ty, t_workAreas := areas, t_priority := Some prio, t_severity := sev,
       t_declaredChangeRisk := Some declared, t_minimumChangeRisk := Some (minimumChangeRisk evaluation),
       t_changeRiskPolicyVersion := Some (policyVersion evaluation), t_changeRiskPolicyHash := Some (policyHash evaluation),
       t_readyContractVersion := t_readyContractVersion t + 1, t_readyContractContent := content,
       t_readyContractContentHash := h\<rparr>) st \<and>
     cr_resultingVersions r = [versioned ''dev_ticket'' (sc_devTicketId i) (t_version t + 1)])"

lemma body_setDevTicketClassification:
  assumes "envelope_scoped e" "board_inv sha (w_store w)"
  shows "wp w (setDevTicketClassification_body rt e i) (decided (w_store w) (classified rt e i (w_store w)))"
  unfolding setDevTicketClassification_body_def
proof (intro wp_guards grantless, goal_cases)
  case (1 version t ty areas prio declared sev owner evaluation cl content h)
  then have t: "read_ticket (w_store w) e (sc_devTicketId i) t" by (simp add: read_ticket_def)
  note row = read_ticket_current[OF assms t]
  let ?i = "\<lparr>cl_organizationId = env_organizationId e, cl_workspaceId = env_workspaceId e, cl_devTicketId = t_id t,
       cl_expectedVersion = t_version t, cl_humanOwnerUserId = owner, cl_devTicketType = ty, cl_workAreas = areas,
       cl_priority = prio, cl_severity = sev, cl_declaredChangeRisk = declared, cl_minimumChangeRisk = minimumChangeRisk evaluation,
       cl_changeRiskPolicyVersion = policyVersion evaluation, cl_changeRiskPolicyHash = policyHash evaluation,
       cl_readyContractContent = content, cl_readyContractContentHash = h\<rparr>"
  have upd: "updateDevTicketClassification ?i (w_store w) =
      (Some (classified_row ?i t), put_ticket e (classified_row ?i t) (w_store w))"
    using row by (auto simp: updateDevTicketClassification_def updateTicketWhen_def put_ticket_def classified_row_def)
  have "classified rt e i (w_store w) r (put_ticket e (classified_row ?i t) (w_store w))"
    if "cr_resultingVersions r = [versioned ''dev_ticket'' (sc_devTicketId i) (t_version t + 1)]" for r
    unfolding classified_def classified_row_def using 1 row t that
    by (intro exI[of _ t] exI[of _ ty] exI[of _ areas] exI[of _ prio] exI[of _ declared] exI[of _ sev] exI[of _ owner]
        exI[of _ evaluation] exI[of _ content] exI[of _ h]) (auto simp: not_less)
  note effect = this
  show ?case by (rule wp_onStore_eq, rule upd)
    (use row effect in \<open>auto intro!: wp_tail simp: ticketVersion_def classified_row_def\<close>)
qed

section \<open>Ready approval\<close>

definition policy_bound :: "runtime \<Rightarrow> js_object \<Rightarrow> planning_store \<Rightarrow> command_envelope \<Rightarrow> dev_ticket_row \<Rightarrow> bool" where
  "policy_bound rt contract st e t \<longleftrightarrow> (\<exists>ty prio declared evaluation classification policy.
     t_devTicketType t = Some ty \<and> t_workAreas t \<noteq> [] \<and> t_priority t = Some prio \<and> t_declaredChangeRisk t = Some declared \<and>
     evaluation = evaluateChangeRisk (rt_sha256 rt) ty (t_workAreas t)
       (hasActiveDependencies st (env_organizationId e) (env_workspaceId e) (t_id t)) \<and>
     minimumChangeRisk evaluation \<le> declared \<and> t_minimumChangeRisk t = Some (minimumChangeRisk evaluation) \<and>
     t_changeRiskPolicyVersion t = Some (policyVersion evaluation) \<and> t_changeRiskPolicyHash t = Some (policyHash evaluation) \<and>
     map_get contract ''humanOwnerUserId'' = Some (JString (t_humanOwnerUserId t)) \<and>
     map_get contract ''classification'' = Some classification \<and> map_get contract ''changeRiskPolicy'' = Some policy \<and>
     canonicalJson classification =
       canonicalJson (JObject (classification_json ty (t_workAreas t) prio (t_severity t) (Some declared))) \<and>
     canonicalJson policy = canonicalJson (evaluation_json evaluation))"

definition approved_to_todo ::
  "runtime \<Rightarrow> command_envelope \<Rightarrow> approve_input \<Rightarrow> planning_store \<Rightarrow> command_result \<Rightarrow> planning_store \<Rightarrow> bool" where
  "approved_to_todo rt e i st r st' \<longleftrightarrow> (\<exists>t contract h.
     read_ticket st e (ar_devTicketId i) t \<and> t_lane t = Backlog \<and> t_readyState t = Draft \<and> t_archivedAt t = None \<and>
     authorizedDevTicketArchiveActor st e t \<and>
     t_readyContractVersion t = ar_expectedContractVersion i \<and> t_readyContractContentHash t = ar_expectedContractContentHash i \<and>
     parseReadyContractContent (rt_sha256 rt) (ar_readyContractContent i) = ok contract \<and> policy_bound rt contract st e t \<and>
     computeReadyContractContentHash (rt_sha256 rt) contract = Some h \<and>
     queue_version st e = ar_expectedTodoQueueVersion i \<and> queue_version st' e = queue_version st e + 1 \<and>
     devTickets st' = map_set (key (env_organizationId e) (env_workspaceId e) (ar_devTicketId i))
       (t\<lparr>t_version := t_version t + 1, t_lane := Todo, t_readyContractVersion := t_readyContractVersion t + 1,
         t_readyContractContent := contract, t_readyContractContentHash := h, t_readyState := Approved,
         t_readyApprovalContractVersion := Some (t_readyContractVersion t + 1), t_readyApprovalContentHash := Some h,
         t_readyApprovedByUserId := Some (actor_stableId e), t_readyApprovalCommandId := Some (env_commandId e)\<rparr>) (devTickets st) \<and>
     todo_order (rt_localeCompare rt) st' (env_organizationId e) (env_workspaceId e) =
       todo_order (rt_localeCompare rt) st (env_organizationId e) (env_workspaceId e) @ [ar_devTicketId i] \<and>
     proposals st' = proposals st \<and> dependencyEdges st' = dependencyEdges st \<and> historicalRecords st' = historicalRecords st \<and>
     cr_resultingVersions r = [versioned ''dev_ticket'' (ar_devTicketId i) (t_version t + 1),
       versioned ''lane_queue'' ''todo'' (queue_version st e + 1)])"

lemma append_todo_headers: "todoQueueHeaders (append_todo org ws tid ms p st) = todoQueueHeaders st"
  using arg_cong[OF rebalance_frame[of org ws "map m_devTicketId ms" st, THEN conjunct1], of todoQueueHeaders]
  by (simp add: append_todo_def put_rank_def)

lemma wp_bump:
  assumes "map_get (todoQueueHeaders (w_store w)) (key (env_organizationId e) (env_workspaceId e) ''todo'') = Some h" "q_version h = v"
    and "\<And>w1 h'. queue_version (w_store w1) e = v + 1 \<Longrightarrow> q_version h' = v + 1 \<Longrightarrow>
      w_store w1 = (w_store w)\<lparr>todoQueueHeaders := todoQueueHeaders (w_store w1)\<rparr> \<Longrightarrow> R (Some h') w1"
  shows "wp w (onStore (casBumpTodoQueueVersion (env_organizationId e) (env_workspaceId e) v)) R"
proof (rule wp_onStore)
  fix x st assume "casBumpTodoQueueVersion (env_organizationId e) (env_workspaceId e) v (w_store w) = (x, st)"
  with assms(1,2) have x: "x = Some (h\<lparr>q_version := v + 1\<rparr>)"
      "st = (w_store w)\<lparr>todoQueueHeaders := map_set (key (env_organizationId e) (env_workspaceId e) ''todo'')
        (h\<lparr>q_version := v + 1\<rparr>) (todoQueueHeaders (w_store w))\<rparr>"
    by (auto simp: casBumpTodoQueueVersion_def Let_def)
  show "R x (w\<lparr>w_store := st\<rparr>)" unfolding x(1)
    by (rule assms(3)) (simp_all add: x(2) queue_version_at)
qed

lemma body_approveReadyToTodo:
  assumes "envelope_scoped e" "board_inv (rt_sha256 rt) (w_store w)"
  shows "wp w (approveReadyToTodo_body rt e i) (decided (w_store w) (approved_to_todo rt e i (w_store w)))"
  unfolding approveReadyToTodo_body_def
proof (intro wp_guards grantless, goal_cases)
  case (1 version t ty prio contract submittedClassification submittedPolicy s sa x1 x2 declared x3 x4 minimum x5 x6 policyV policyH currentPolicy sb sc h)
  note here = 1
  let ?org = "env_organizationId e" and ?ws = "env_workspaceId e" and ?lc = "rt_localeCompare rt"
  have t: "read_ticket (w_store w) e (ar_devTicketId i) t" using 1 by (simp add: read_ticket_def)
  note row = read_ticket_current[OF assms t]
  have bound: "policy_bound rt contract (w_store w) e t" unfolding policy_bound_def
    by (rule exI[of _ ty], rule exI[of _ prio], rule exI[of _ declared], rule exI[of _ currentPolicy],
        rule exI[of _ submittedClassification], rule exI[of _ submittedPolicy]) (use 1 in \<open>auto simp: not_less\<close>)
  show ?case
  proof (rule wp_andThen, rule wp_onStore, intro wp_guards grantless, goal_cases)
    case (4 header st1 place rank reb)
    from header_created[OF 4(1)] 4(2) have hd: "headers_only (w_store w) st1" "q_version header = queue_version (w_store w) e"
        "map_get (todoQueueHeaders st1) (key ?org ?ws ''todo'') = Some header"
        "queue_version (w_store w) e = ar_expectedTodoQueueVersion i" by auto
    then obtain hs where st1: "st1 = (w_store w)\<lparr>todoQueueHeaders := hs\<rparr>" by (auto simp: headers_only_def)
    have inv: "board_inv (rt_sha256 rt) st1" using untouched[of st1 "w_store w" "rt_sha256 rt"] assms(2) st1
      by (simp add: board_rel_def grants_kept_def)
    show ?case
    proof (rule wpI, goal_cases)
      case (1 x w2)
      note run = this
      have at: "map_get (devTickets (w_store (w\<lparr>w_store := st1\<rparr>))) (key ?org ?ws (t_id t)) = Some t" using conjunct1[OF row] st1 by simp
      obtain a where
        a: "ra_readyContractVersion a = t_readyContractVersion t + 1" "ra_readyContractContent a = contract" "ra_readyContractContentHash a = h"
          "x = Some (ready_approved_row a t)" "ra_readyApprovedByUserId a = actor_stableId e" "ra_readyApprovalCommandId a = env_commandId e"
        and w2: "w_store w2 = append_todo ?org ?ws (t_id t) (listTodoQueueRanks ?lc st1 ?org ?ws) (rank, reb)
          (st1\<lparr>devTickets := map_set (key ?org ?ws (t_id t)) (ready_approved_row a t) (devTickets st1)\<rparr>)"
        by (rule approvalMutation_effect[OF run at here(3)]) (rule that; simp)
      have order: "todo_order ?lc (w_store w2) ?org ?ws = todo_order ?lc (w_store w) ?org ?ws @ [t_id t]"
        using board_approval[OF inv assms(1), of "ar_devTicketId i" t ty declared contract h ?lc rank reb rt "w\<lparr>w_store := st1\<rparr>" x w2]
          here 4 run st1 todo_order_frame[of st1 "w_store w"] by (simp add: not_less)
      have head: "map_get (todoQueueHeaders (w_store w2)) (key ?org ?ws ''todo'') = Some header"
        using hd(3) by (simp add: w2 append_todo_headers)
      have final: "approved_to_todo rt e i (w_store w) r st'"
        if "st' = (w_store w2)\<lparr>todoQueueHeaders := todoQueueHeaders st'\<rparr>" "queue_version st' e = ar_expectedTodoQueueVersion i + 1"
          "cr_resultingVersions r = [versioned ''dev_ticket'' (ar_devTicketId i) (t_version t + 1),
             versioned ''lane_queue'' ''todo'' (ar_expectedTodoQueueVersion i + 1)]" for r st'
      proof -
        have fields: "devTickets st' = devTickets (w_store w2)" "proposals st' = proposals (w_store w2)"
          "dependencyEdges st' = dependencyEdges (w_store w2)" "historicalRecords st' = historicalRecords (w_store w2)"
          "todoQueueMemberships st' = todoQueueMemberships (w_store w2)"
          by (subst that(1), simp)+
        show ?thesis unfolding approved_to_todo_def
          by (rule exI[of _ t], rule exI[of _ contract], rule exI[of _ h])
            (use here t row bound that(2,3) hd(4) order todo_order_frame[OF fields(5), of ?lc ?org ?ws] st1 a in
              \<open>simp add: fields w2 append_todo_fields ready_approved_row_def\<close>)
      qed
      show ?case unfolding a(4) option.case
        by (rule wp_andThen, rule wp_bump[OF head hd(2)[unfolded hd(4)]])
          (use row in \<open>auto intro!: wp_tail final simp: ticketVersion_def ready_approved_row_def\<close>)
    qed
  qed (use header_created in \<open>auto\<close>)
qed

end
