(* ===== verification/Queue_Effects.thy ===== *)
theory Queue_Effects
  imports Ticket_Effects
begin

text \<open>
  Reordering: the command refines the move of one element of a list.
\<close>

section \<open>Reordering\<close>

text \<open>Where the anchor puts a ticket, on the order of the other tickets.\<close>

definition anchored :: "planning_store \<Rightarrow> command_envelope \<Rightarrow> todo_anchor \<Rightarrow> string list \<Rightarrow> nat \<Rightarrow> bool" where
  "anchored st e anchor others n \<longleftrightarrow>
     (case anchor of
        EmptyBand \<Rightarrow> others = [] \<and> n = 0
      | Beside before nid v \<Rightarrow> \<exists>neighbor i.
          selectDevTicket st (env_organizationId e) (env_workspaceId e) nid = Some neighbor \<and>
          t_lane neighbor = Todo \<and> t_version neighbor = v \<and> i < length others \<and> others ! i = nid \<and>
          n = (if before then i else i + 1))"

lemma anchored_headers [simp]: "anchored (st\<lparr>todoQueueHeaders := hs\<rparr>) = anchored st"
  by (intro ext) (simp only: anchored_def reads_past_headers)

definition reordered ::
  "runtime \<Rightarrow> command_envelope \<Rightarrow> reorder_input \<Rightarrow> planning_store \<Rightarrow> command_result \<Rightarrow> planning_store \<Rightarrow> bool" where
  "reordered rt e i st r st' \<longleftrightarrow> (\<exists>t anchor n.
     read_ticket st e (ro_devTicketId i) t \<and> t_lane t = Todo \<and> readAnchor (ro_anchor i) = Some anchor \<and>
     forbiddenTodoOrderingField i = None \<and>
     qr_version (ro_sourceQueue i) = queue_version st e \<and> queue_version st' e = queue_version st e + 1 \<and>
     (let order = (\<lambda>st. todo_order (rt_localeCompare rt) st (env_organizationId e) (env_workspaceId e));
          others = filter (\<lambda>j. j \<noteq> ro_devTicketId i) (order st)
      in anchored st e anchor others n \<and> order st' = splice_in n (ro_devTicketId i) others) \<and>
     devTickets st' = map_set (key (env_organizationId e) (env_workspaceId e) (ro_devTicketId i))
       (t\<lparr>t_version := t_version t + 1\<rparr>) (devTickets st) \<and>
     proposals st' = proposals st \<and> dependencyEdges st' = dependencyEdges st \<and> historicalRecords st' = historicalRecords st \<and>
     cr_resultingVersions r = [versioned ''dev_ticket'' (ro_devTicketId i) (t_version t + 1),
       versioned ''lane_queue'' ''todo'' (queue_version st e + 1)])"

lemma wp_case_forbidden: "wp w m R \<Longrightarrow> wp w m' R \<Longrightarrow> wp w (case f of TierField \<Rightarrow> m | NumericField \<Rightarrow> m') R"
  by (cases f) simp_all

lemma move_todo_headers: "todoQueueHeaders (move_todo org ws tid others i st) = todoQueueHeaders st"
  using arg_cong[OF rebalance_frame[of org ws "splice_in i tid (map m_devTicketId others)" st, THEN conjunct1], of todoQueueHeaders]
  by (simp add: move_todo_def Let_def put_rank_def)

lemma insertionIndex_anchored:
  assumes "insertionIndex e moved others anchor st = ok n"
  shows "anchored st e anchor (map m_devTicketId others) n"
  using assms by (auto simp: insertionIndex_def anchored_def dest: find_index_Some split: todo_anchor.splits option.splits if_splits)

text \<open>The moved ticket lands where the splice puts it, in place or by a rebalance.\<close>

lemma wp_placeTodo:
  assumes wf: "queue_wf (w_store w)" and sc: "envelope_scoped e"
    and queued: "todoQueueMembership (w_store w) (env_organizationId e) (env_workspaceId e) tid \<noteq> None"
    and others: "others = filter (\<lambda>m. m_devTicketId m \<noteq> tid) (listTodoQueueRanks lc (w_store w) (env_organizationId e) (env_workspaceId e))"
    and place: "n \<le> length others" "rank = insertionRank others n" "reb \<longleftrightarrow> rank \<le> 0 \<or> rank > POSTGRES_BIGINT_MAX"
      "ids = splice_in n tid (map m_devTicketId others)" "\<not> (reb \<and> (int (length ids) + 1) * RANK_STRIDE > POSTGRES_BIGINT_MAX)"
    and R: "\<And>x w1. w_store w1 = move_todo (env_organizationId e) (env_workspaceId e) tid others n (w_store w) \<Longrightarrow>
      todo_order lc (w_store w1) (env_organizationId e) (env_workspaceId e) =
        splice_in n tid (filter (\<lambda>j. j \<noteq> tid) (todo_order lc (w_store w) (env_organizationId e) (env_workspaceId e))) \<Longrightarrow> R x w1"
  shows "wp w (placeTodo e tid rank reb ids) R"
proof (rule wpI)
  fix x w1 assume "placeTodo e tid rank reb ids w = (Returned x, w1)"
  then have move: "w_store w1 = move_todo (env_organizationId e) (env_workspaceId e) tid others n (w_store w)"
    using place by (intro placeTodo_effect) auto
  have cap: "(int (length others) + 2) * RANK_STRIDE \<le> POSTGRES_BIGINT_MAX"
    if "insertionRank others n \<le> 0 \<or> insertionRank others n > POSTGRES_BIGINT_MAX"
  proof -
    have "int (length ids) + 1 = int (length others) + 2" using place(1,4) by (simp add: splice_in_def)
    then show ?thesis using place that by (simp add: not_less add.commute)
  qed
  have "queue_scope (env_organizationId e) (env_workspaceId e)" "band (w_store w) (env_organizationId e) (env_workspaceId e) tid \<noteq> None"
    using sc queued by (auto simp: envelope_scoped_def band_def)
  from move_refines[OF wf this others place(1) cap] move show "R x w1" by (intro R) simp_all
qed

lemma body_reorderTodo:
  assumes "envelope_scoped e" "board_inv sha (w_store w)"
  shows "wp w (reorderTodo_body rt e i) (decided (w_store w) (reordered rt e i (w_store w)))"
  unfolding reorderTodo_body_def
proof (intro wp_guards wp_case_forbidden, goal_cases)
  case (1 org ws anchor version t)
  note here = 1
  have t: "read_ticket (w_store w) e (ro_devTicketId i) t" using 1 by (simp add: read_ticket_def)
  note row = read_ticket_current[OF assms t]
  let ?order = "\<lambda>st. todo_order (rt_localeCompare rt) st (env_organizationId e) (env_workspaceId e)"
  show ?case
  proof (rule wp_andThen, rule wp_onStore, intro wp_guards, goal_cases)
    case (5 header st1 membership others n ids rank reb)
    from header_created[of e "w_store w" header st1] 5 here have hd: "headers_only (w_store w) st1"
        "q_version header = queue_version (w_store w) e" "queue_version (w_store w) e = qr_version (ro_sourceQueue i)"
        "map_get (todoQueueHeaders (w_store (w\<lparr>w_store := st1\<rparr>))) (key (env_organizationId e) (env_workspaceId e) ''todo'') = Some header" by auto
    then obtain hs where st1: "st1 = (w_store w)\<lparr>todoQueueHeaders := hs\<rparr>" by (auto simp: headers_only_def)
    have ids: "map m_devTicketId others = filter (\<lambda>j. j \<noteq> ro_devTicketId i) (?order (w_store w))"
      using 5 here row st1 by (simp add: filter_ids todo_order_def listTodoQueueRanks_def)
    have anch: "anchored (w_store w) e anchor (map m_devTicketId others) n"
      using insertionIndex_anchored[of e t others anchor st1 n] 5(5) st1 by simp
    show ?case unfolding \<open>org = _\<close> \<open>ws = _\<close>
    proof (rule wp_andThen, rule wp_bump[OF hd(4)], goal_cases)
      case (2 w2 h')
      then have w2: "w_store w2 = (w_store w)\<lparr>todoQueueHeaders := todoQueueHeaders (w_store w2)\<rparr>" using st1 by simp
      have same: "todoQueueMemberships (w_store w2) = todoQueueMemberships (w_store w)" "devTickets (w_store w2) = devTickets (w_store w)"
        "proposals (w_store w2) = proposals (w_store w)" "dependencyEdges (w_store w2) = dependencyEdges (w_store w)"
        "historicalRecords (w_store w2) = historicalRecords (w_store w)" by (subst w2, simp)+
      have wf: "queue_wf (w_store w2)" using assms(2) queue_wf_frame[OF same(1)] by (simp add: board_inv_def)
      have final: "reordered rt e i (w_store w) r st'"
        if "st' = (move_todo (env_organizationId e) (env_workspaceId e) (t_id t) others n (w_store w2))\<lparr>devTickets :=
            map_set (key (env_organizationId e) (env_workspaceId e) (t_id t)) (t\<lparr>t_version := t_version t + 1\<rparr>) (devTickets (w_store w))\<rparr>"
          "?order st' = splice_in n (t_id t) (filter (\<lambda>j. j \<noteq> t_id t) (?order (w_store w)))"
          "cr_resultingVersions r = [versioned ''dev_ticket'' (ro_devTicketId i) (t_version t + 1),
             versioned ''lane_queue'' ''todo'' (queue_version (w_store w) e + 1)]" for st' r
      proof -
        have "queue_version st' e = queue_version (w_store w2) e"
          by (simp add: that(1) queue_version_def getOrLockTodoQueueHeader_def Let_def move_todo_headers split: option.splits)
        then show ?thesis unfolding reordered_def
          by (intro exI[of _ t] exI[of _ anchor] exI[of _ n])
            (use here(3-5,9) t row 2(1) hd(3) anch ids that in \<open>simp add: move_todo_fields same\<close>)
      qed
      show ?case unfolding option.case
      proof (rule wp_andThen, rule wp_placeTodo[OF wf assms(1), where others = others and n = n and lc = "rt_localeCompare rt"], goal_cases)
        case (8 x w3)
        have "updateTicketWhen (key (env_organizationId e) (env_workspaceId e) (t_id t)) (\<lambda>u. t_version u = version)
            (\<lambda>t. t\<lparr>t_version := t_version t + 1\<rparr>) (w_store w3) = (Some (t\<lparr>t_version := t_version t + 1\<rparr>),
            (w_store w3)\<lparr>devTickets := map_set (key (env_organizationId e) (env_workspaceId e) (t_id t))
              (t\<lparr>t_version := t_version t + 1\<rparr>) (devTickets (w_store w))\<rparr>)"
          using conjunct1[OF row] here(8) same(2) 8(1) by (simp add: updateTicketWhen_def move_todo_fields)
        note bump = this
        show ?case
          by (rule wp_andThen, rule wp_onStore_eq, simp only: bumpDevTicketVersion_def ticket_target_def ticket_target_input.simps bump)
            (use 8 2(2) row hd(3) same(1) in \<open>auto intro!: wp_tail final simp: ticketVersion_def todo_order_def listTodoQueueRanks_def\<close>)
      next
        case 1
        show ?case using 5(3) here(1,2) st1 same(1) by (simp add: todoQueueMembership_def)
      next
        case 2
        show ?case using 5(4) here(1,2) st1 same(1) by (simp add: listTodoQueueRanks_def)
      next
        case 3
        show ?case using insertionIndex_bound[of e t others anchor st1 n] 5(5) by simp
      qed (use 5(4,6-9) in simp_all)
    qed (use hd in simp)
  qed (use here(1,2) header_created[of e "w_store w"] in \<open>simp_all\<close>)
qed

end
