(* ===== verification/Dependency_Effects.thy ===== *)
theory Dependency_Effects
  imports Ticket_Effects
begin

text \<open>
  What adding and removing a dependency do: one edge, and the dependent ticket, which leaves Todo with its
  approval cleared; and that the closed workflow gates accept nothing.
\<close>

section \<open>The dependent\<close>

lemma queue_version_edges [simp]: "queue_version (st\<lparr>dependencyEdges := es\<rparr>) e = queue_version st e"
  by (simp add: queue_version_def getOrLockTodoQueueHeader_def Let_def split: option.splits)

lemma queue_checked_edges:
  assumes "queue_checked e lane st q st1"
  shows "queue_checked e lane (st\<lparr>dependencyEdges := es\<rparr>) q (st1\<lparr>dependencyEdges := es\<rparr>)"
proof -
  obtain hs where st1: "st1 = st\<lparr>todoQueueHeaders := hs\<rparr>" using assms by (auto simp: queue_checked_def headers_only_def)
  have past: "q_version (fst (getOrLockTodoQueueHeader org ws (x\<lparr>dependencyEdges := es\<rparr>))) = q_version (fst (getOrLockTodoQueueHeader org ws x))"
    for org ws x by (simp add: getOrLockTodoQueueHeader_def Let_def split: option.splits)
  have swap: "st1\<lparr>dependencyEdges := es\<rparr> = (st\<lparr>dependencyEdges := es\<rparr>)\<lparr>todoQueueHeaders := hs\<rparr>" using st1 by simp
  have "headers_only (st\<lparr>dependencyEdges := es\<rparr>) (st1\<lparr>dependencyEdges := es\<rparr>)"
    unfolding headers_only_def past
  proof
    show "\<exists>hs. st1\<lparr>dependencyEdges := es\<rparr> = st\<lparr>dependencyEdges := es\<rparr>\<lparr>todoQueueHeaders := hs\<rparr>" by (rule exI, rule swap)
  qed (use queue_checked_headers[OF assms] in \<open>simp add: headers_only_def\<close>)
  then show ?thesis using assms by (auto simp: queue_checked_def split: if_splits)
qed

lemma wp_changeDependent:
  assumes q: "queue_checked e (t_lane t) st queue (w_store w)"
    and at: "map_get (devTickets st) (key (env_organizationId e) (env_workspaceId e) (t_id t)) = Some t"
    and R: "\<And>w1 st2. left_todo e t st st2 \<Longrightarrow> w_store w1 = put_ticket e (dependency_changed_row t) st2 \<Longrightarrow>
      R (dependency_changed_row t, if t_lane t = Todo then Some (queue_version st e + 1) else None) w1"
  shows "wp w (changeDependent e t queue) R"
  unfolding changeDependent_def
proof (intro wp_andThen wp_leaving[OF q] wp_onStore, goal_cases)
  case (1 w1 x st2)
  have "t_id (dependency_changed_row t) = t_id t" by (simp add: dependency_changed_row_def Let_def)
  then have "x = Some (dependency_changed_row t)" "st2 = put_ticket e (dependency_changed_row t) (w_store w1)"
    using 1(2) at left_todo_rows[OF 1(1)]
    by (auto simp: applyDependencyChangeToDependent_def updateTicketWhen_def ticket_target_def put_ticket_def)
  then show ?case using R[OF 1(1), of "w1\<lparr>w_store := st2\<rparr>"] by (auto intro!: wp_ret)
qed

section \<open>Adding\<close>

definition added_dependency :: "command_envelope \<Rightarrow> add_dependency_input \<Rightarrow> planning_store \<Rightarrow> command_result \<Rightarrow> planning_store \<Rightarrow> bool" where
  "added_dependency e i st r st' \<longleftrightarrow> (\<exists>reason d b. decisionReason (ad_reason i) = ok reason \<and>
     ad_dependentDevTicketId i \<noteq> ad_blockerDevTicketId i \<and>
     selectDevTicketForUpdate st (env_organizationId e) (env_workspaceId e) (ad_dependentDevTicketId i) = Some d \<and>
     selectDevTicketForUpdate st (env_organizationId e) (env_workspaceId e) (ad_blockerDevTicketId i) = Some b \<and>
     (case selectActiveDependencyEdge st (env_organizationId e) (env_workspaceId e) (ad_dependentDevTicketId i) (ad_blockerDevTicketId i) of
        Some g \<Rightarrow> st' = st \<and> cr_resultingVersions r = [edgeVersion g]
      | None \<Rightarrow> \<exists>eid st1.
          expected e ''dev_ticket'' (ad_dependentDevTicketId i) = Some (t_version d) \<and>
          expected e ''dev_ticket'' (ad_blockerDevTicketId i) = Some (t_version b) \<and>
          t_archivedAt d = None \<and> t_archivedAt b = None \<and> t_lane d \<noteq> Done \<and> t_lane b \<noteq> Done \<and>
          (ad_blockerDevTicketId i, ad_dependentDevTicketId i) \<notin> (depends_on st (env_organizationId e) (env_workspaceId e))\<^sup>* \<and>
          left_todo e d (st\<lparr>dependencyEdges := map_set (key (env_organizationId e) (env_workspaceId e) eid)
            \<lparr>e_id = eid, e_organizationId = env_organizationId e, e_workspaceId = env_workspaceId e, e_version = 1,
             e_dependentDevTicketId = ad_dependentDevTicketId i, e_blockerDevTicketId = ad_blockerDevTicketId i,
             e_lifecycleState = Active, e_createdCommandId = env_commandId e, e_retiredCommandId = None\<rparr> (dependencyEdges st)\<rparr>) st1 \<and>
          st' = put_ticket e (dependency_changed_row d) st1 \<and>
          cr_resultingVersions r = [versioned ''dependency_edge'' eid 1, versioned ''dev_ticket'' (ad_dependentDevTicketId i) (t_version d + 1),
            ticketVersion b] @ (if t_lane d = Todo then [versioned ''lane_queue'' ''todo'' (queue_version st e + 1)] else []) \<and>
          cr_dependencyEdgeId r = Some eid))"

lemma current_row:
  assumes "envelope_scoped e" "board_inv sha st"
    "selectDevTicketForUpdate st (env_organizationId e) (env_workspaceId e) tid = Some t"
  shows "map_get (devTickets st) (key (env_organizationId e) (env_workspaceId e) (t_id t)) = Some t \<and> t_id t = tid"
  using selected_ticket[of st "env_organizationId e" "env_workspaceId e" tid t] assms
  by (auto simp: envelope_scoped_def board_inv_def tickets_ok_def selectDevTicketForUpdate_def)

lemma endpoints_open: "endpointFailures d b = None \<Longrightarrow> t_archivedAt d = None \<and> t_archivedAt b = None \<and> t_lane d \<noteq> Done \<and> t_lane b \<noteq> Done"
  by (auto simp: endpointFailures_def dependencyEndpointFailure_def split: option.splits if_splits)

lemma body_addDependency:
  assumes "envelope_scoped e" "board_inv sha (w_store w)"
  shows "wp w (addDependency_body rt e i) (decided (w_store w) (added_dependency e i (w_store w)))"
  unfolding addDependency_body_def
proof (intro wp_guards wp_accept wp_todoQueueGuard grantless, goal_cases)
  case (2 dependentId blockerId org ws reason d b w1 q)
  have rows: "selectDevTicketForUpdate (w_store w) (env_organizationId e) (env_workspaceId e) (ad_dependentDevTicketId i) = Some d"
    "selectDevTicketForUpdate (w_store w) (env_organizationId e) (env_workspaceId e) (ad_blockerDevTicketId i) = Some b"
    using 2 by auto
  note d = current_row[OF assms rows(1)] and b = current_row[OF assms rows(2)]
  obtain hs where w1: "w_store w1 = (w_store w)\<lparr>todoQueueHeaders := hs\<rparr>"
    using queue_checked_headers[OF 2(14)] by (auto simp: headers_only_def)
  note here = 2 rows
  note opened = endpoints_open[of d b]
  show ?case unfolding addMutation_def
  proof (intro wp_andThen wp_randomUUID wp_stepStore, goal_cases)
    case (1 eid w2 g st2)
    let ?es = "map_set (key (env_organizationId e) (env_workspaceId e) eid) g (dependencyEdges (w_store w))"
    have g: "g = \<lparr>e_id = eid, e_organizationId = env_organizationId e, e_workspaceId = env_workspaceId e, e_version = 1,
        e_dependentDevTicketId = t_id d, e_blockerDevTicketId = t_id b, e_lifecycleState = Active,
        e_createdCommandId = env_commandId e, e_retiredCommandId = None\<rparr>"
      "st2 = (w_store w1)\<lparr>dependencyEdges := ?es\<rparr>"
      using 1 w1 by (auto simp: insertDependencyEdge_def Let_def split: if_splits)
    show ?case
    proof (rule wp_changeDependent[where st = "(w_store w)\<lparr>dependencyEdges := ?es\<rparr>"], goal_cases)
      case 1
      show ?case using queue_checked_edges[OF 2(14), of ?es] g(2) by simp
    next
      case 2
      show ?case using conjunct1[OF d] by simp
    next
      case (3 w3 st3)
      have "added_dependency e i (w_store w) r (w_store w3)"
        if "cr_resultingVersions r = [edgeVersion g, ticketVersion (dependency_changed_row d), ticketVersion b] @
            queueVersions (if t_lane d = Todo then Some (queue_version (w_store w) e + 1) else None)"
          "cr_dependencyEdgeId r = Some eid" for r
        unfolding added_dependency_def
        by (rule exI[of _ reason], rule exI[of _ d], rule exI[of _ b])
          (use here d b 3 that g(1) opened in \<open>auto simp: edgeVersion_def ticketVersion_def queueVersions_def dependency_changed_row_def
             Let_def dependencyCreatesCycle_iff_reaches intro!: exI[of _ eid] exI[of _ st3]\<close>)
      then show ?case
        by (auto intro!: wp_ret wp_andThen wp_silent[OF silent_effects] wp_accept simp: g(1))
    qed
  qed
next
  case (3 dependentId blockerId org ws reason d b g w')
  then show ?case by (auto simp: added_dependency_def)
qed (simp_all add: queue_checked_headers)

section \<open>Removing\<close>

definition removed_dependency :: "command_envelope \<Rightarrow> remove_dependency_input \<Rightarrow> planning_store \<Rightarrow> command_result \<Rightarrow> planning_store \<Rightarrow> bool" where
  "removed_dependency e i st r st' \<longleftrightarrow> (\<exists>reason g d st1. decisionReason (rd_reason i) = ok reason \<and>
     selectDependencyEdge st (env_organizationId e) (env_workspaceId e) (rd_edgeId i) = Some g \<and>
     e_lifecycleState g = Active \<and> e_version g = rd_expectedEdgeVersion i \<and>
     selectDevTicketForUpdate st (env_organizationId e) (env_workspaceId e) (e_dependentDevTicketId g) = Some d \<and>
     t_archivedAt d = None \<and> t_lane d \<noteq> Done \<and>
     left_todo e d (st\<lparr>dependencyEdges := map_set (key (env_organizationId e) (env_workspaceId e) (rd_edgeId i))
       (g\<lparr>e_lifecycleState := Retired, e_version := e_version g + 1, e_retiredCommandId := Some (env_commandId e)\<rparr>)
       (dependencyEdges st)\<rparr>) st1 \<and>
     st' = put_ticket e (dependency_changed_row d) st1 \<and>
     cr_resultingVersions r = [versioned ''dependency_edge'' (rd_edgeId i) (e_version g + 1),
       versioned ''dev_ticket'' (e_dependentDevTicketId g) (t_version d + 1)] @
       (if t_lane d = Todo then [versioned ''lane_queue'' ''todo'' (queue_version st e + 1)] else []))"

lemma edge_row:
  assumes "envelope_scoped e" "board_inv sha st" "selectDependencyEdge st (env_organizationId e) (env_workspaceId e) eid = Some g"
    "e_lifecycleState g = Active"
  shows "e_id g = eid"
proof -
  have "g \<in> set (map_values (dependencyEdges st))" using assms(3) by (force simp: selectDependencyEdge_def dest: map_of_SomeD)
  then have "queue_scope (e_organizationId g) (e_workspaceId g)" using assms(2,4) by (auto simp: board_inv_def blockers_live_def)
  moreover have "key (env_organizationId e) (env_workspaceId e) eid = key (e_organizationId g) (e_workspaceId g) (e_id g)"
    using assms(2,3) by (auto simp: board_inv_def graph_wf_def edges_keyed_def selectDependencyEdge_def)
  ultimately show ?thesis
    using assms(1) key_inj_parts[of "env_organizationId e" "env_workspaceId e" eid "e_organizationId g" "e_workspaceId g" "e_id g"]
    by (simp add: envelope_scoped_def)
qed

lemma body_removeDependency:
  assumes "envelope_scoped e" "board_inv sha (w_store w)"
  shows "wp w (removeDependency_body rt e i) (decided (w_store w) (removed_dependency e i (w_store w)))"
  unfolding removeDependency_body_def
proof (intro wp_guards wp_todoQueueGuard grantless, goal_cases)
  case (2 org ws reason g d b w1 q)
  let ?g = "g\<lparr>e_lifecycleState := Retired, e_version := e_version g + 1, e_retiredCommandId := Some (env_commandId e)\<rparr>"
  let ?es = "map_set (key (env_organizationId e) (env_workspaceId e) (rd_edgeId i)) ?g (dependencyEdges (w_store w))"
  have sel: "selectDevTicketForUpdate (w_store w) (env_organizationId e) (env_workspaceId e) (e_dependentDevTicketId g) = Some d"
    and edge: "selectDependencyEdge (w_store w) (env_organizationId e) (env_workspaceId e) (rd_edgeId i) = Some g"
    and act: "e_lifecycleState g = Active" using 2 by (auto intro: edge_state.exhaust)
  note d = current_row[OF assms sel] and eid = edge_row[OF assms edge act] and opened = endpoints_open[of d b] and here = 2
  obtain hs where w1: "w_store w1 = (w_store w)\<lparr>todoQueueHeaders := hs\<rparr>"
    using queue_checked_headers[OF 2(11)] by (auto simp: headers_only_def)
  have retire: "retireDependencyEdge \<lparr>re_organizationId = env_organizationId e, re_workspaceId = env_workspaceId e,
      re_edgeId = e_id g, re_expectedVersion = rd_expectedEdgeVersion i, re_retiredCommandId = env_commandId e\<rparr> (w_store w1) =
      (Some ?g, (w_store w1)\<lparr>dependencyEdges := ?es\<rparr>)"
    using edge act here eid w1 by (simp add: retireDependencyEdge_def selectDependencyEdge_def Let_def)
  show ?case unfolding removeMutation_def
  proof (rule wp_andThen, rule wp_onStore_eq, rule retire, unfold option.case, rule wp_andThen,
      rule wp_changeDependent[where st = "(w_store w)\<lparr>dependencyEdges := ?es\<rparr>"], goal_cases)
    case 1
    show ?case using queue_checked_edges[OF here(11), of ?es] by simp
  next
    case 2
    show ?case using conjunct1[OF d] by simp
  next
    case (3 w3 st3)
    have "removed_dependency e i (w_store w) r (w_store w3)"
      if "cr_resultingVersions r = [edgeVersion ?g, ticketVersion (dependency_changed_row d)] @
          queueVersions (if t_lane d = Todo then Some (queue_version (w_store w) e + 1) else None)" for r
      unfolding removed_dependency_def
      by (rule exI[of _ reason], rule exI[of _ g], rule exI[of _ d], rule exI[of _ st3])
        (use here d 3 that eid act sel edge opened in \<open>auto simp: edgeVersion_def ticketVersion_def queueVersions_def
           dependency_changed_row_def Let_def\<close>)
    then show ?case by (auto intro!: wp_ret wp_andThen wp_silent[OF silent_effects] wp_accept)
  qed
qed (simp_all add: queue_checked_headers)

section \<open>Closed gates\<close>

lemma body_rejectUntilGate: "wp w (rejectUntilGate_body e c m b) (decided (w_store w) (\<lambda>_ _. False))"
  unfolding rejectUntilGate_body_def by (intro wp_guards)

end
