(* ===== verification/Legacy_Effects.thy ===== *)
theory Legacy_Effects
  imports Effects
begin

text \<open>
  What import and reconciliation do: the first import of a legacy task writes its historical record, its
  alias and, for a confirmed owner of unfinished work, its DevTicket; a second import moves the record at
  most once out of quarantine; reconciliation lifts the completion gate.
\<close>

section \<open>Rows\<close>

definition legacy_ticket :: "command_envelope \<Rightarrow> legacy_task_source \<Rightarrow> string \<Rightarrow> string \<Rightarrow> dev_ticket_row" where
  "legacy_ticket e source owner h =
     \<lparr>t_id = l_id source, t_organizationId = env_organizationId e, t_workspaceId = env_workspaceId e,
      t_version = 1, t_originKind = OriginLegacy, t_sourceProposalId = None,
      t_lane = Backlog, t_archivedAt = None, t_archivedByUserId = None, t_archivedReason = None,
      t_lastActiveLane = None, t_humanOwnerUserId = owner, t_devTicketType = None,
      t_workAreas = [], t_priority = None, t_severity = None, t_declaredChangeRisk = None,
      t_minimumChangeRisk = None, t_changeRiskPolicyVersion = None, t_changeRiskPolicyHash = None,
      t_readyContractVersion = 1, t_readyContractContent = [], t_readyContractContentHash = h, t_readyState = Draft,
      t_readyApprovalContractVersion = None, t_readyApprovalContentHash = None,
      t_readyApprovedByUserId = None, t_readyApprovalCommandId = None, t_createdCommandId = env_commandId e\<rparr>"

definition with_ticket :: "command_envelope \<Rightarrow> dev_ticket_row \<Rightarrow> planning_store \<Rightarrow> planning_store" where
  "with_ticket e t st = st\<lparr>devTickets := map_set (key (env_organizationId e) (env_workspaceId e) (t_id t)) t (devTickets st)\<rparr>"

definition imported_record ::
  "command_envelope \<Rightarrow> legacy_task_source \<Rightarrow> source_disposition \<Rightarrow> string \<Rightarrow> string \<Rightarrow> js_date \<Rightarrow> historical_row" where
  "imported_record e source disposition digest hid now =
     \<lparr>h_historicalRecordId = hid, h_organizationId = env_organizationId e, h_workspaceId = env_workspaceId e,
      h_sourceTableRowIdentity = l_id source, h_completionGate = legacyCompletionGate (l_status source) disposition,
      h_sourceDisposition = disposition, h_sourceEpoch = Some (toISOString (l_updatedAt source)),
      h_sourceRecordedAt = l_createdAt source, h_sourceUpdatedAt = l_updatedAt source, h_importedAt = now,
      h_preservedPayloadDigest = digest, h_evidenceRefs = l_evidenceRefs source,
      h_promotionCommandId = (if disposition = PromotedBacklog then Some (env_commandId e) else None), h_version = 1\<rparr>"

definition imported_alias :: "command_envelope \<Rightarrow> legacy_task_source \<Rightarrow> source_disposition \<Rightarrow> string \<Rightarrow> legacy_alias_row" where
  "imported_alias e source disposition hid =
     \<lparr>a_organizationId = env_organizationId e, a_workspaceId = env_workspaceId e, a_legacyTaskId = l_id source,
      a_legacyCardNumber = l_cardNumber source,
      a_devTicketId = (if disposition = PromotedBacklog then Some (l_id source) else None),
      a_historicalRecordId = hid, a_createdCommandId = env_commandId e\<rparr>"

lemma wp_insertLegacyTicket:
  assumes "\<And>h w'. computeReadyContractContentHash (rt_sha256 rt) [] = Some h \<Longrightarrow>
      map_get (devTickets (w_store w)) (key (env_organizationId e) (env_workspaceId e) (l_id source)) = None \<Longrightarrow>
      w_store w' = with_ticket e (legacy_ticket e source owner h) (w_store w) \<Longrightarrow> R (legacy_ticket e source owner h) w'"
  shows "wp w (insertLegacyTicket rt e source owner) R"
  unfolding insertLegacyTicket_def
proof (intro wp_contentHash wp_stepStore, goal_cases)
  case (1 h t st)
  from 1(2) have "t = legacy_ticket e source owner h" "st = with_ticket e (legacy_ticket e source owner h) (w_store w)"
    "map_get (devTickets (w_store w)) (key (env_organizationId e) (env_workspaceId e) (l_id source)) = None"
    by (auto simp: insertDevTicket_def Let_def legacy_ticket_def with_ticket_def split: if_splits)
  then show ?case using assms[OF 1(1), of "w\<lparr>w_store := st\<rparr>"] by simp
qed

section \<open>The first import\<close>

definition first_import ::
  "runtime \<Rightarrow> command_envelope \<Rightarrow> legacy_task_source \<Rightarrow> string \<Rightarrow> source_disposition \<Rightarrow> string \<Rightarrow>
   planning_store \<Rightarrow> command_result \<Rightarrow> planning_store \<Rightarrow> bool" where
  "first_import rt e source owner disposition digest st r st' \<longleftrightarrow> (\<exists>hid now h st1.
     (if disposition = PromotedBacklog
      then map_get (devTickets st) (key (env_organizationId e) (env_workspaceId e) (l_id source)) = None \<and>
        computeReadyContractContentHash (rt_sha256 rt) [] = Some h \<and> st1 = with_ticket e (legacy_ticket e source owner h) st
      else st1 = st) \<and>
     map_get (historicalRecords st) hid = None \<and>
     st' = st1\<lparr>historicalRecords := map_set hid (imported_record e source disposition digest hid now) (historicalRecords st),
       legacyTaskAliases := map_set (alias_key (env_organizationId e) (l_id source)) (imported_alias e source disposition hid)
         (legacyTaskAliases st)\<rparr> \<and>
     cr_resultingVersions r = versioned ''historical_record'' hid 1 #
       (if disposition = PromotedBacklog then [versioned ''dev_ticket'' (l_id source) 1] else []) \<and>
     cr_devTicketId r = (if disposition = PromotedBacklog then Some (l_id source) else None))"

lemma wp_newRecord:
  assumes "\<And>hr now w'. hr = imported_record e source disposition digest hid now \<Longrightarrow>
      map_get (historicalRecords (w_store w)) hid = None \<Longrightarrow>
      w_store w' = (w_store w)\<lparr>historicalRecords := map_set hid hr (historicalRecords (w_store w)),
        legacyTaskAliases := map_set (alias_key (env_organizationId e) (l_id source)) (imported_alias e source disposition hid)
         (legacyTaskAliases (w_store w))\<rparr> \<Longrightarrow> R (ticket, hr) w'"
    and t: "ticket = None \<longleftrightarrow> disposition \<noteq> PromotedBacklog" "ticket \<noteq> None \<Longrightarrow> t_id (the ticket) = l_id source"
  shows "wp w (andThen (newDate rt) (\<lambda>now.
     andThen (stepStore (insertHistoricalRecord now
       \<lparr>ih_id = hid, ih_organizationId = env_organizationId e, ih_workspaceId = env_workspaceId e,
        ih_sourceTableRowIdentity = l_id source, ih_completionGate = legacyCompletionGate (l_status source) disposition,
        ih_sourceDisposition = disposition, ih_sourceEpoch = Some (toISOString (l_updatedAt source)),
        ih_sourceRecordedAt = l_createdAt source, ih_sourceUpdatedAt = l_updatedAt source,
        ih_preservedPayloadDigest = digest, ih_evidenceRefs = l_evidenceRefs source,
        ih_promotionCommandId = (if ticket = None then None else Some (env_commandId e))\<rparr>)) (\<lambda>historical.
     andThen (stepStore (insertLegacyTaskAlias
       \<lparr>a_organizationId = env_organizationId e, a_workspaceId = env_workspaceId e,
        a_legacyTaskId = l_id source, a_legacyCardNumber = l_cardNumber source,
        a_devTicketId = map_option t_id ticket, a_historicalRecordId = h_historicalRecordId historical,
        a_createdCommandId = env_commandId e\<rparr>)) (\<lambda>_. ret (ticket, historical))))) R"
proof (intro wp_andThen wp_newDate wp_stepStore wp_ret, goal_cases)
  case (1 now w1 hr st1 u st2)
  have hr: "hr = imported_record e source disposition digest hid now" "map_get (historicalRecords (w_store w)) hid = None"
      "st1 = (w_store w)\<lparr>historicalRecords := map_set hid hr (historicalRecords (w_store w))\<rparr>"
    using 1 t by (auto simp: insertHistoricalRecord_def imported_record_def Let_def split: if_splits)
  have "map_option t_id ticket = (if disposition = PromotedBacklog then Some (l_id source) else None)" using t by (cases ticket) auto
  then have "st2 = st1\<lparr>legacyTaskAliases := map_set (alias_key (env_organizationId e) (l_id source))
      (imported_alias e source disposition hid) (legacyTaskAliases (w_store w))\<rparr>"
    using 1(3) hr by (auto simp: insertLegacyTaskAlias_def imported_alias_def imported_record_def Let_def split: if_splits)
  then show ?case using assms(1)[OF hr(1,2), of "w1\<lparr>w_store := st2\<rparr>"] hr(3) by simp
qed

lemma wp_importMutation:
  assumes "\<And>t hr w'. (\<And>r. cr_resultingVersions r = recordVersion hr # (case t of None \<Rightarrow> [] | Some t \<Rightarrow> [ticketVersion t]) \<Longrightarrow>
      cr_devTicketId r = map_option t_id t \<Longrightarrow>
      first_import rt e source owner disposition digest (w_store w) r (w_store w')) \<Longrightarrow> R (t, hr) w'"
  shows "wp w (importMutation rt e source owner disposition digest hid) R"
  unfolding importMutation_def
proof (intro wp_andThen[of _ _ "\<lambda>ticket. andThen (newDate rt) (k ticket)" for k] wp_if wp_andThen[of _ "insertLegacyTicket rt e source owner"]
    wp_insertLegacyTicket wp_ret wp_newRecord, goal_cases)
  case (1 h w1 hr now w2)
  have rows: "devTickets (w_store w1) = devTickets (with_ticket e (legacy_ticket e source owner h) (w_store w))"
    "historicalRecords (w_store w1) = historicalRecords (w_store w)" "legacyTaskAliases (w_store w1) = legacyTaskAliases (w_store w)"
    using 1 by (simp_all add: with_ticket_def)
  show ?case
    by (rule assms, unfold first_import_def, rule exI[of _ hid], rule exI[of _ now], rule exI[of _ h], rule exI[of _ "w_store w1"])
      (use 1 rows in \<open>simp add: recordVersion_def ticketVersion_def imported_record_def legacy_ticket_def\<close>)
next
  case (4 hr now w2)
  show ?case
    by (rule assms, unfold first_import_def, rule exI[of _ hid], rule exI[of _ now], rule exI[of _ "[]"], rule exI[of _ "w_store w"])
      (use 4 in \<open>simp add: recordVersion_def imported_record_def\<close>)
qed (simp_all add: legacy_ticket_def)

section \<open>Importing again\<close>

text \<open>The record of a task moves to a disposition, and its alias names the DevTicket.\<close>

definition resolve_to ::
  "command_envelope \<Rightarrow> historical_row \<Rightarrow> source_disposition \<Rightarrow> string option \<Rightarrow> string option \<Rightarrow> planning_store \<Rightarrow> planning_store" where
  "resolve_to e h disposition promotion tid st =
     (let aliasKey = alias_key (env_organizationId e) (h_sourceTableRowIdentity h);
          st1 = st\<lparr>historicalRecords := map_set (h_historicalRecordId h)
            (h\<lparr>h_sourceDisposition := disposition, h_promotionCommandId := promotion, h_version := h_version h + 1\<rparr>)
            (historicalRecords st)\<rparr>
      in case map_get (legacyTaskAliases st) aliasKey of
           None \<Rightarrow> st1
         | Some a \<Rightarrow> st1\<lparr>legacyTaskAliases := map_set aliasKey (a\<lparr>a_devTicketId := tid\<rparr>) (legacyTaskAliases st)\<rparr>)"

lemma wp_resolve:
  assumes "selectHistoricalRecordForUpdate (w_store w) (env_organizationId e) (env_workspaceId e) (h_historicalRecordId h) = Some h"
    and R: "\<And>w'. disposition_allowed (h_sourceDisposition h) disposition \<Longrightarrow>
      w_store w' = resolve_to e h disposition promotion tid (w_store w) \<Longrightarrow>
      R (Some (h\<lparr>h_sourceDisposition := disposition, h_promotionCommandId := promotion, h_version := h_version h + 1\<rparr>)) w'"
  shows "wp w (stepStore (resolveImportedHistoricalRecord (resolution e h disposition promotion tid))) R"
proof (intro wp_stepStore, goal_cases)
  case (1 x st)
  let ?row = "h\<lparr>h_sourceDisposition := disposition, h_promotionCommandId := promotion, h_version := h_version h + 1\<rparr>"
  have "x = Some ?row \<and> st = resolve_to e h disposition promotion tid (w_store w) \<and> disposition_allowed (h_sourceDisposition h) disposition"
    using 1 assms(1)
    by (cases h) (auto simp: resolveImportedHistoricalRecord_def resolution_def resolve_to_def Let_def split: if_splits option.splits)
  then show ?case using R[of "w\<lparr>w_store := st\<rparr>"] by simp
qed

definition reimported ::
  "runtime \<Rightarrow> command_envelope \<Rightarrow> legacy_task_source \<Rightarrow> string \<Rightarrow> source_disposition \<Rightarrow> legacy_alias_row \<Rightarrow> historical_row \<Rightarrow>
   planning_store \<Rightarrow> planning_store \<Rightarrow> bool" where
  "reimported rt e source owner disposition a h st st' \<longleftrightarrow>
     (if disposition = PromotedBacklog \<and> a_devTicketId a = None
      then (\<exists>c. selectDevTicketForUpdate st (env_organizationId e) (env_workspaceId e) (l_id source) = None \<and>
        computeReadyContractContentHash (rt_sha256 rt) [] = Some c \<and>
        h_sourceDisposition h \<in> {QuarantinedNoOwner, PromotedBacklog} \<and>
        st' = resolve_to e h PromotedBacklog (Some (env_commandId e)) (Some (l_id source))
          (with_ticket e (legacy_ticket e source owner c) st))
      else if h_sourceDisposition h = QuarantinedNoOwner \<and> disposition \<noteq> QuarantinedNoOwner
      then st' = resolve_to e h disposition (if disposition = PromotedBacklog then h_promotionCommandId h else None) (a_devTicketId a) st
      else st' = st)"

definition imported :: "runtime \<Rightarrow> command_envelope \<Rightarrow> import_input \<Rightarrow> planning_store \<Rightarrow> command_result \<Rightarrow> planning_store \<Rightarrow> bool" where
  "imported rt e i st r st' \<longleftrightarrow> (\<exists>source owner disposition digest.
     selectLegacyTaskSource st (im_legacyTaskId i) = Some source \<and>
     l_organizationId source = env_organizationId e \<and> l_workspaceId source = env_workspaceId e \<and>
     l_status source \<in> {''todo'', ''in_progress'', ''blocked'', ''done''} \<and>
     owner = (case im_humanOwnerUserId i of None \<Rightarrow> [] | Some u \<Rightarrow> u) \<and>
     disposition = importDisposition (l_status source)
       (im_humanOwnerUserId i \<noteq> None \<and> isActiveMember st (env_organizationId e) owner) \<and>
     computeReadyContractContentHash (rt_sha256 rt) (l_row source) = Some digest \<and>
     (case selectLegacyTaskAliasForUpdate st (env_organizationId e) (l_id source) of
        None \<Rightarrow> first_import rt e source owner disposition digest st r st'
      | Some a \<Rightarrow> (\<exists>h. selectHistoricalRecordForUpdate st (env_organizationId e) (env_workspaceId e) (a_historicalRecordId a) = Some h \<and>
          h_preservedPayloadDigest h = digest \<and>
          expected e ''historical_record'' (h_historicalRecordId h) \<in> {None, Some (h_version h)} \<and>
          reimported rt e source owner disposition a h st st')))"

lemma record_row:
  assumes "board_inv sha st" "selectHistoricalRecordForUpdate st org ws hid = Some h"
  shows "selectHistoricalRecordForUpdate st org ws (h_historicalRecordId h) = Some h"
  using selectHistorical_SomeD[OF assms(2)] assms by (auto simp: board_inv_def historical_keys_ok_def)

lemma body_resolveExistingAlias:
  assumes inv: "board_inv sha (w_store w)"
    and Q: "\<And>h r st'. selectHistoricalRecordForUpdate (w_store w) (env_organizationId e) (env_workspaceId e) (a_historicalRecordId a) = Some h \<Longrightarrow>
      h_preservedPayloadDigest h = digest \<Longrightarrow> expected e ''historical_record'' (h_historicalRecordId h) \<in> {None, Some (h_version h)} \<Longrightarrow>
      reimported rt e source owner disposition a h (w_store w) st' \<Longrightarrow> Q r st'"
  shows "wp w (resolveExistingAlias rt e source owner disposition digest a) (decided (w_store w) Q)"
  unfolding resolveExistingAlias_def
proof (intro wp_guards grantless, goal_cases)
  case (1 org ws h requested)
  have h: "selectHistoricalRecordForUpdate (w_store w) (env_organizationId e) (env_workspaceId e) (a_historicalRecordId a) = Some h"
    using 1 by simp
  have pre: "h_preservedPayloadDigest h = digest" "expected e ''historical_record'' (h_historicalRecordId h) \<in> {None, Some (h_version h)}"
    using 1 by auto
  note row = record_row[OF inv h]
  show ?case unfolding promoteMutation_def
  proof (rule wp_andThen, rule wp_insertLegacyTicket, rule wp_andThen, rule wp_resolve, goal_cases)
    case 1
    then show ?case using row by (simp add: with_ticket_def selectHistoricalRecordForUpdate_def)
  next
    case (2 c w1 w2)
    have "reimported rt e source owner disposition a h (w_store w) (w_store w2)"
      using 1 2 unfolding reimported_def
      by (auto simp: disposition_allowed_def legacy_ticket_def split: if_splits)
    then have "Q r (w_store w2)" for r by (rule Q[OF h pre])
    then show ?case by (auto intro!: wp_ret wp_tail)
  qed
next
  case (2 org ws h requested tid resolved)
  have h: "selectHistoricalRecordForUpdate (w_store w) (env_organizationId e) (env_workspaceId e) (a_historicalRecordId a) = Some h"
    using 2 by simp
  have pre: "h_preservedPayloadDigest h = digest" "expected e ''historical_record'' (h_historicalRecordId h) \<in> {None, Some (h_version h)}"
    using 2 by auto
  have "reimported rt e source owner disposition a h (w_store w) (w_store w)"
    using 2 by (auto simp: reimported_def split: if_splits)
  then show ?case using Q[OF h pre] by (auto intro!: wp_tail)
next
  case (3 org ws h requested tid resolved)
  have h: "selectHistoricalRecordForUpdate (w_store w) (env_organizationId e) (env_workspaceId e) (a_historicalRecordId a) = Some h"
    using 3 by simp
  have pre: "h_preservedPayloadDigest h = digest" "expected e ''historical_record'' (h_historicalRecordId h) \<in> {None, Some (h_version h)}"
    using 3 by auto
  show ?case
  proof (rule wp_resolve[OF record_row[OF inv h]], goal_cases)
    case (1 w1)
    have "reimported rt e source owner disposition a h (w_store w) (w_store w1)"
      using 1 3 by (auto simp: reimported_def split: if_splits)
    then show ?case using Q[OF h pre] by (auto intro!: wp_tail)
  qed
qed

section \<open>The import command\<close>

lemma body_importLegacyDevTicket:
  assumes inv: "board_inv sha (w_store w)"
  shows "wp w (importLegacyDevTicket_body rt e i) (decided (w_store w) (imported rt e i (w_store w)))"
  unfolding importLegacyDevTicket_body_def
proof (intro wp_fromStore wp_if wp_case_option wp_Let wp_contentHash wp_rejected headers_only_refl
    wp_andThen[of _ "randomUUID rt"] wp_randomUUID, goal_cases)
  case (1 org ws source owner disposition digest u w1)
  have st: "w_store w1 = w_store w" using 1 by simp
  have found: "imported rt e i (w_store w) r st'" if "first_import rt e source owner disposition digest (w_store w) r st'" for r st'
    unfolding imported_def
    by (rule exI[of _ source], rule exI[of _ owner], rule exI[of _ disposition], rule exI[of _ digest]) (use 1 that in auto)
  show ?case
  proof (rule wp_andThen, rule wp_risky, goal_cases)
    case 1
    show ?case by (rule grantless)
  next
    case (2 d w2)
    then have "wp w2 (rejectError e d) (decided (w_store w) (imported rt e i (w_store w)))" by (simp add: wp_rejected st)
    then show ?case using 1 2 st by (auto intro!: wp_fromStore)
  next
    case 3
    show ?case by (rule wp_importMutation) (use found st in \<open>auto intro!: wp_tail simp: devTicketIds_def Let_def split: option.splits\<close>)
  qed
next
  case (2 org ws source owner confirmed digest a)
  show ?case
    by (rule body_resolveExistingAlias[OF inv], unfold imported_def, rule exI[of _ source], rule exI[of _ owner],
       rule exI[of _ confirmed], rule exI[of _ digest]) (use 2 in auto)
qed

section \<open>Reconciliation\<close>

definition reconciled :: "command_envelope \<Rightarrow> reconcile_input \<Rightarrow> planning_store \<Rightarrow> command_result \<Rightarrow> planning_store \<Rightarrow> bool" where
  "reconciled e i st r st' \<longleftrightarrow> (\<exists>h source.
     selectHistoricalRecordForUpdate st (env_organizationId e) (env_workspaceId e) (ri_historicalRecordId i) = Some h \<and>
     h_sourceDisposition h \<noteq> PromotedBacklog \<and> h_completionGate h = Some LegacyUnverified \<and>
     selectLegacyTaskSource st (h_sourceTableRowIdentity h) = Some source \<and> list_ex approvedReview (l_evidenceRefs source) \<and>
     frozenEvidenceHasReference (h_evidenceRefs h) \<and>
     st' = st\<lparr>historicalRecords := map_set (ri_historicalRecordId i)
       (h\<lparr>h_completionGate := Some ReconciledHistorical, h_version := h_version h + 1\<rparr>) (historicalRecords st)\<rparr> \<and>
     cr_resultingVersions r = [versioned ''historical_record'' (ri_historicalRecordId i) (h_version h + 1)])"

lemma body_reconcileHistoricalCompletion:
  assumes inv: "board_inv sha (w_store w)"
  shows "wp w (reconcileHistoricalCompletion_body rt e i) (decided (w_store w) (reconciled e i (w_store w)))"
  unfolding reconcileHistoricalCompletion_body_def
proof (intro wp_guards grantless, goal_cases)
  case (1 org ws h)
  have h: "selectHistoricalRecordForUpdate (w_store w) (env_organizationId e) (env_workspaceId e) (ri_historicalRecordId i) = Some h"
    using 1 by simp
  have hid: "h_historicalRecordId h = ri_historicalRecordId i"
    using selectHistorical_SomeD[OF h] inv by (auto simp: board_inv_def historical_keys_ok_def)
  note here = 1
  show ?case
  proof (rule wp_onStore, goal_cases)
    case (1 x st)
    then have "x = Some (h\<lparr>h_completionGate := Some ReconciledHistorical, h_version := h_version h + 1\<rparr>)"
        "st = (w_store w)\<lparr>historicalRecords := map_set (ri_historicalRecordId i)
          (h\<lparr>h_completionGate := Some ReconciledHistorical, h_version := h_version h + 1\<rparr>) (historicalRecords (w_store w))\<rparr>"
      using h hid here by (auto simp: reconcileHistoricalCompletion_store_def Let_def)
    then show ?case using here h hid
      by (auto intro!: wp_tail exI[of _ h] simp: reconciled_def recordVersion_def Let_def split: option.splits)
  qed
qed

end
