(* ===== verification/Board_Refinement.thy ===== *)
theory Board_Refinement
  imports Proposal_Effects Queue_Effects Dependency_Effects Legacy_Effects
begin

text \<open>
  The abstract board: for each command the relation between the store before it and the store after it. Every
  command that is accepted for the first time refines its relation, and every command that is rejected
  leaves the store as it was but for Todo queue headers it read for the first time.
\<close>

fun command_effect :: "runtime \<Rightarrow> command_envelope \<Rightarrow> command \<Rightarrow> planning_store \<Rightarrow> command_result \<Rightarrow> planning_store \<Rightarrow> bool" where
  "command_effect rt e (DraftProposal i) = drafted rt e i"
| "command_effect rt e (SubmitProposal i) = submitted e i"
| "command_effect rt e (AcceptProposal i) = accepted_as rt e i"
| "command_effect rt e (MergeProposal i) = merged_into e i"
| "command_effect rt e (RejectProposal i) = rejected_with e i"
| "command_effect rt e (ArchiveProposal i) = archived_proposal e i"
| "command_effect rt e (RestoreProposal i) = restored_proposal e i"
| "command_effect rt e (ArchiveDevTicket i) = archived_ticket e i"
| "command_effect rt e (RestoreDevTicket i) = restored_ticket e i"
| "command_effect rt e (ImportLegacyDevTicket i) = imported rt e i"
| "command_effect rt e (ReconcileHistoricalCompletion i) = reconciled e i"
| "command_effect rt e (AddDependency i) = added_dependency e i"
| "command_effect rt e (RemoveDependency i) = removed_dependency e i"
| "command_effect rt e (ReorderTodo i) = reordered rt e i"
| "command_effect rt e (SetDevTicketClassification i) = classified rt e i"
| "command_effect rt e (ApproveReadyToTodo i) = approved_to_todo rt e i"
| "command_effect rt e Claim = (\<lambda>_ _ _. False)"
| "command_effect rt e Start = (\<lambda>_ _ _. False)"
| "command_effect rt e SubmitForReview = (\<lambda>_ _ _. False)"
| "command_effect rt e AdmitDone = (\<lambda>_ _ _. False)"

text \<open>The bodies, each with its relation.\<close>

lemma command_body:
  obtains body msg where "runCommand rt e c = inTenant rt e (guarded e c msg body)"
    "\<And>w. envelope_scoped e \<Longrightarrow> board_inv (rt_sha256 rt) (w_store w) \<Longrightarrow>
       wp w body (decided (w_store w) (command_effect rt e c (w_store w)))"
proof -
  note bodies = body_draftProposal body_submitProposal body_acceptProposal body_mergeProposal body_rejectProposal
    body_archiveProposal body_restoreProposal body_archiveDevTicket body_restoreDevTicket body_importLegacyDevTicket
    body_reconcileHistoricalCompletion body_addDependency body_removeDependency body_reorderTodo
    body_setDevTicketClassification body_approveReadyToTodo body_rejectUntilGate
  show ?thesis
    by (cases c; rule that) (simp add: command_defs guarded_def migrates_def, simp only: command_effect.simps, rule bodies, assumption?, assumption?)+
qed

lemma run_refines:
  assumes inv: "board_inv (rt_sha256 rt) (w_store w)" and ws: "colon_free (env_workspaceId e)"
    and run: "runCommand rt e c w = (Returned r, w')"
  shows "case r of Inl d \<Rightarrow> headers_only (w_store w) (w_store w')
    | Inr x \<Rightarrow> (if unseen_key e w then command_effect rt e c (w_store w) x (w_store w')
        else command_effect rt e c (w_store w) x (w_store w') \<or> w_store w' = w_store w)"
proof -
  obtain body msg where shape: "runCommand rt e c = inTenant rt e (guarded e c msg body)"
    and body: "\<And>w. envelope_scoped e \<Longrightarrow> board_inv (rt_sha256 rt) (w_store w) \<Longrightarrow>
       wp w body (decided (w_store w) (command_effect rt e c (w_store w)))" by (rule command_body) blast
  show ?thesis
  proof (rule run_decided[OF shape run ws])
    fix v :: world assume "envelope_scoped e" "w_store v = w_store w"
    then show "wp v body (decided (w_store w) (command_effect rt e c (w_store w)))" using body[of v] inv by simp
  qed
qed

lemma run_accepted:
  assumes "board_inv (rt_sha256 rt) (w_store w)" "colon_free (env_workspaceId e)" "unseen_key e w"
    "runCommand rt e c w = (Returned (Inr x), w')"
  shows "command_effect rt e c (w_store w) x (w_store w')"
  using run_refines[OF assms(1,2,4)] assms(3) by simp

end
