(* ===== verification/Scenario.thy ===== *)
theory Scenario
  imports Board
begin

text \<open>
  Small boards on which the properties are exercised: one organization with one owner, a proposal that awaits
  its decision, tickets in Backlog and in Todo, a dependency, a legacy task. SHA-256, the clock, the random
  ids and the database session are concrete functions; the session check, the same in every command, is
  evaluated once.
\<close>

section \<open>The runtime\<close>

definition demo_org :: string where
  "demo_org = ''11111111-1111-4111-8111-111111111111''"

definition demo_database :: database where
  "demo_database = \<lparr>db_executeRole = Returned (JArray [JObject [(''session_role'', JString ''opzava_app'')]]),
     db_executeSetConfig = (\<lambda>_. Returned ()),
     db_executeTenant = (\<lambda>org. Returned (JArray [JObject [(''current_org_id'', JString org)]])), db_rollsBack = True\<rparr>"

definition demo_runtime :: runtime where
  "demo_runtime = \<lparr>rt_sha256 = (\<lambda>s. ''#'' @ take 1 s), rt_localeCompare = (\<lambda>_ _. 0),
     rt_randomUUID = (\<lambda>n. replicate (Suc n) (CHR ''u'')), rt_now = (\<lambda>n. int n), rt_database = demo_database\<rparr>"

definition demo_envelope :: "string \<Rightarrow> string \<Rightarrow> expected_version list \<Rightarrow> command_envelope" where
  "demo_envelope n target versions = \<lparr>env_commandId = n, env_idempotencyKey = n, env_requestHash = n, env_organizationId = demo_org,
     env_workspaceId = ''w'', env_commandName = ''c'', env_targetAggregateId = target,
     env_actorRef = JObject [(''stableId'', JString ''u''), (''kind'', JString ''user''), (''role'', JString ''human_owner'')],
     env_sourceKind = ''ui'', env_sourceRef = ''s'', env_authorizationVersion = 1, env_correlationId = ''c'',
     env_causationId = None, env_expectedVersions = versions\<rparr>"

lemma demo_session: "is_uuid demo_org" "session_ok demo_database demo_org"
  by code_simp+

text \<open>A command behind the session check.\<close>

definition in_session :: "'a cmd \<Rightarrow> 'a cmd" where
  "in_session m w = (case m w of (Returned x, w') \<Rightarrow> (Returned x, w') | (Thrown er, w') \<Rightarrow> (Thrown (mapDatabaseError er), undo_world w w'))"

lemma demo_tenant: "inTenant demo_runtime (demo_envelope n p vs) m = in_session m"
proof
  fix w
  have org: "env_organizationId (demo_envelope n p vs) = demo_org" "rt_database demo_runtime = demo_database" "db_rollsBack demo_database"
    by (simp_all add: demo_envelope_def demo_runtime_def demo_database_def)
  show "inTenant demo_runtime (demo_envelope n p vs) m w = in_session m w"
    by (simp add: inTenant_def org withTenant_entry[OF demo_session] in_session_def split: prod.splits js_result.splits)
qed

definition is_ok :: "'a result js_result \<times> 'w \<Rightarrow> bool" where
  "is_ok r = (case fst r of Returned (Inr _) \<Rightarrow> True | _ \<Rightarrow> False)"

definition the_ok :: "'a result js_result \<times> 'w \<Rightarrow> 'a" where
  "the_ok r = (case fst r of Returned (Inr x) \<Rightarrow> x)"

lemma is_okD: "is_ok r \<Longrightarrow> r = (Returned (ok (the_ok r)), snd r)"
  by (cases r) (auto simp: is_ok_def the_ok_def split: js_result.splits sum.splits)

section \<open>Commands and worlds\<close>

definition demo_start :: world where
  "demo_start = empty_world\<lparr>w_store := grantOrganizationRole demo_org ''u'' OwnerRole
     (w_store (empty_world\<lparr>w_store := grantActiveMembership demo_org ''u'' (w_store empty_world)\<rparr>))\<rparr>"

definition demo_world :: "planning_store \<Rightarrow> world" where
  "demo_world st = empty_world\<lparr>w_store := st\<lparr>activeMembers := activeMembers (w_store demo_start), organizationRoles := organizationRoles (w_store demo_start)\<rparr>\<rparr>"

definition demo_proposal :: "proposal_state \<Rightarrow> proposal_row" where
  "demo_proposal s = \<lparr>p_id = ''p'', p_organizationId = demo_org,
       p_workspaceId = ''w'', p_version = 2, p_lifecycleState = s, p_archivedAt = None,
       p_archivedByUserId = None, p_archivedReason = None, p_discoverySummary = ''x'',
       p_blockingAssessment = Blocking, p_suggestedContract = [], p_createdCommandId = ''1'',
       p_acceptedCommandId = None, p_acceptedDevTicketId = None\<rparr>"

definition demo_ticket :: "string \<Rightarrow> dev_ticket_row" where
  "demo_ticket t = \<lparr>t_id = t, t_organizationId = demo_org, t_workspaceId = ''w'',
      t_version = 1, t_originKind = OriginLegacy, t_sourceProposalId = None,
      t_lane = Backlog, t_archivedAt = None, t_archivedByUserId = None, t_archivedReason = None,
      t_lastActiveLane = None, t_humanOwnerUserId = ''u'', t_devTicketType = None,
      t_workAreas = [], t_priority = None, t_severity = None, t_declaredChangeRisk = None,
      t_minimumChangeRisk = None, t_changeRiskPolicyVersion = None, t_changeRiskPolicyHash = None,
      t_readyContractVersion = 1, t_readyContractContent = [], t_readyContractContentHash = ''#{'', t_readyState = Draft,
      t_readyApprovalContractVersion = None, t_readyApprovalContentHash = None,
      t_readyApprovedByUserId = None, t_readyApprovalCommandId = None, t_createdCommandId = ''1''\<rparr>"

definition in_todo :: "dev_ticket_row \<Rightarrow> dev_ticket_row" where
  "in_todo t = t\<lparr>t_lane := Todo, t_devTicketType := Some Bug, t_workAreas := [Frontend], t_priority := Some P1,
     t_declaredChangeRisk := Some Medium, t_minimumChangeRisk := Some Medium, t_readyState := Approved,
     t_readyApprovalContractVersion := Some 1, t_readyApprovalContentHash := Some ''#{'',
     t_readyApprovedByUserId := Some ''u'', t_readyApprovalCommandId := Some ''1''\<rparr>"

text \<open>The policy inputs of a classified ticket, and its contract.\<close>

definition demo_evaluation :: change_risk_evaluation where
  "demo_evaluation = evaluateChangeRisk (rt_sha256 demo_runtime) Bug [Frontend] False"

definition demo_contract :: js_object where
  "demo_contract = [(''humanOwnerUserId'', JString ''u''), (''classification'', JObject (classification_json Bug [Frontend] P1 None (Some Medium))),
     (''changeRiskPolicy'', evaluation_json demo_evaluation)]"

definition demo_classified :: dev_ticket_row where
  "demo_classified = (demo_ticket ''a'')\<lparr>t_devTicketType := Some Bug, t_workAreas := [Frontend], t_priority := Some P1,
     t_declaredChangeRisk := Some Medium, t_minimumChangeRisk := Some (minimumChangeRisk demo_evaluation),
     t_changeRiskPolicyVersion := Some (policyVersion demo_evaluation), t_changeRiskPolicyHash := Some (policyHash demo_evaluation),
     t_readyContractContent := demo_contract\<rparr>"

definition undecided_board :: world where
  "undecided_board = demo_world (empty_store\<lparr>proposals := [(key demo_org ''w'' ''p'', demo_proposal AwaitingDecision)]\<rparr>)"

definition backlog_board :: world where
  "backlog_board = demo_world (empty_store\<lparr>devTickets := [(key demo_org ''w'' ''a'', demo_ticket ''a'')]\<rparr>)"

definition ready_board :: world where
  "ready_board = demo_world (empty_store\<lparr>devTickets := [(key demo_org ''w'' ''a'', demo_classified)]\<rparr>)"

definition queued_store :: planning_store where
  "queued_store = empty_store\<lparr>
     devTickets := [(key demo_org ''w'' ''a'', in_todo (demo_ticket ''a'')), (key demo_org ''w'' ''b'', in_todo (demo_ticket ''b''))],
     todoQueueMemberships := [(key demo_org ''w'' ''a'', \<lparr>m_devTicketId = ''a'', m_rank = 1\<rparr>), (key demo_org ''w'' ''b'', \<lparr>m_devTicketId = ''b'', m_rank = 5\<rparr>)]\<rparr>"

definition queued_board :: world where
  "queued_board = demo_world queued_store"

definition demo_edge :: dependency_edge where
  "demo_edge = \<lparr>e_id = ''e'', e_organizationId = demo_org, e_workspaceId = ''w'', e_version = 1, e_dependentDevTicketId = ''a'',
     e_blockerDevTicketId = ''b'', e_lifecycleState = Active, e_createdCommandId = ''1'', e_retiredCommandId = None\<rparr>"

definition blocked_board :: world where
  "blocked_board = demo_world (empty_store\<lparr>
     devTickets := [(key demo_org ''w'' ''a'', demo_ticket ''a''), (key demo_org ''w'' ''b'', demo_ticket ''b'')],
     dependencyEdges := [(key demo_org ''w'' ''e'', demo_edge)]\<rparr>)"

definition legacy_board :: world where
  "legacy_board = demo_world (empty_store\<lparr>legacyTaskSources := [(''l'', \<lparr>l_id = ''l'', l_organizationId = demo_org, l_workspaceId = ''w'',
     l_status = ''todo'', l_assigneeUserId = None, l_cardNumber = 1, l_createdAt = 0, l_updatedAt = 0, l_row = [], l_evidenceRefs = []\<rparr>)]\<rparr>)"

lemmas board_defs = undecided_board_def backlog_board_def ready_board_def queued_board_def queued_store_def blocked_board_def legacy_board_def

definition draft_envelope :: command_envelope where
  "draft_envelope = demo_envelope ''1'' ''p'' []"

definition draft_request :: draft_proposal_input where
  "draft_request = \<lparr>dp_discoverySummary = ''x'', dp_blockingAssessment = JString ''blocking'', dp_suggestedContract = JObject []\<rparr>"

definition accept_envelope :: command_envelope where
  "accept_envelope = demo_envelope ''3'' ''p'' [versioned ''proposal'' ''p'' 2]"

definition accept_request :: accept_proposal_input where
  "accept_request = \<lparr>acp_proposalId = ''p'', acp_humanOwnerUserId = ''u'', acp_initialContractContent = JObject []\<rparr>"

definition reject_envelope :: command_envelope where
  "reject_envelope = demo_envelope ''3'' ''p'' [versioned ''proposal'' ''p'' 2]"

definition reject_request :: proposal_reason_input where
  "reject_request = \<lparr>pr_proposalId = ''p'', pr_reason = ''r''\<rparr>"

definition classify_envelope :: command_envelope where
  "classify_envelope = demo_envelope ''3'' ''a'' [versioned ''dev_ticket'' ''a'' 1]"

definition classify_request :: set_classification_input where
  "classify_request = \<lparr>sc_devTicketId = ''a'', sc_type = JString ''bug'', sc_workAreas = JArray [JString ''frontend''],
    sc_priority = JString ''p1'', sc_severity = JUndefined, sc_declaredChangeRisk = JString ''medium'', sc_humanOwnerUserId = None\<rparr>"

definition approve_envelope :: command_envelope where
  "approve_envelope = demo_envelope ''3'' ''a'' [versioned ''dev_ticket'' ''a'' 1]"

definition approve_request :: approve_input where
  "approve_request = \<lparr>ar_devTicketId = ''a'', ar_readyContractContent = JObject demo_contract, ar_expectedContractVersion = 1,
    ar_expectedContractContentHash = ''#{'', ar_expectedTodoQueueVersion = 1\<rparr>"

definition archive_envelope :: command_envelope where
  "archive_envelope = demo_envelope ''3'' ''a'' [versioned ''dev_ticket'' ''a'' 1, versioned ''lane_queue'' ''todo'' 1]"

definition archive_request :: ticket_reason_input where
  "archive_request = \<lparr>tr_devTicketId = ''a'', tr_reason = ''r''\<rparr>"

definition depend_envelope :: command_envelope where
  "depend_envelope = demo_envelope ''3'' ''a'' [versioned ''dev_ticket'' ''a'' 1, versioned ''dev_ticket'' ''b'' 1, versioned ''lane_queue'' ''todo'' 1]"

definition depend_request :: add_dependency_input where
  "depend_request = \<lparr>ad_dependentDevTicketId = ''a'', ad_blockerDevTicketId = ''b'', ad_reason = ''r''\<rparr>"

definition remove_envelope :: command_envelope where
  "remove_envelope = demo_envelope ''3'' ''a'' []"

definition remove_request :: remove_dependency_input where
  "remove_request = \<lparr>rd_edgeId = ''e'', rd_expectedEdgeVersion = 1, rd_reason = ''r''\<rparr>"

definition reorder_envelope :: command_envelope where
  "reorder_envelope = demo_envelope ''3'' ''a'' [versioned ''dev_ticket'' ''a'' 1, versioned ''lane_queue'' ''todo'' 1]"

definition reorder_request :: reorder_input where
  "reorder_request = \<lparr>ro_devTicketId = ''a'', ro_sourceQueue = \<lparr>qr_lane = ''todo'', qr_version = 1\<rparr>,
    ro_targetQueue = \<lparr>qr_lane = ''todo'', qr_version = 1\<rparr>, ro_anchor = [(''kind'', JString ''after''), (''neighborDevTicketId'', JString ''b''),
      (''neighborVersion'', JNumber (JInt 1))], ro_otherFields = []\<rparr>"

definition import_envelope :: command_envelope where
  "import_envelope = demo_envelope ''3'' ''l'' []"

definition import_request :: import_input where
  "import_request = \<lparr>im_legacyTaskId = ''l'', im_humanOwnerUserId = Some ''u''\<rparr>"

section \<open>Commands that are accepted\<close>

lemmas take_session = runCommand.simps command_defs demo_tenant

lemma draft_accepted: "is_ok (runCommand demo_runtime draft_envelope (DraftProposal draft_request) demo_start)"
  unfolding draft_envelope_def take_session by code_simp

lemma accept_accepted: "is_ok (runCommand demo_runtime accept_envelope (AcceptProposal accept_request) undecided_board)"
  unfolding accept_envelope_def take_session by code_simp

lemma reject_accepted: "is_ok (runCommand demo_runtime reject_envelope (RejectProposal reject_request) undecided_board)"
  unfolding reject_envelope_def take_session by code_simp

lemma classify_accepted: "is_ok (runCommand demo_runtime classify_envelope (SetDevTicketClassification classify_request) backlog_board)"
  unfolding classify_envelope_def take_session by code_simp

lemma approve_accepted: "is_ok (runCommand demo_runtime approve_envelope (ApproveReadyToTodo approve_request) ready_board)"
  unfolding approve_envelope_def take_session by code_simp

lemma archive_accepted: "is_ok (runCommand demo_runtime archive_envelope (ArchiveDevTicket archive_request) queued_board)"
  unfolding archive_envelope_def take_session by code_simp

lemma depend_accepted: "is_ok (runCommand demo_runtime depend_envelope (AddDependency depend_request) queued_board)"
  unfolding depend_envelope_def take_session by code_simp

lemma remove_accepted: "is_ok (runCommand demo_runtime remove_envelope (RemoveDependency remove_request) blocked_board)"
  unfolding remove_envelope_def take_session by code_simp

lemma reorder_accepted: "is_ok (runCommand demo_runtime reorder_envelope (ReorderTodo reorder_request) queued_board)"
  unfolding reorder_envelope_def take_session by code_simp

lemma import_accepted: "is_ok (runCommand demo_runtime import_envelope (ImportLegacyDevTicket import_request) legacy_board)"
  unfolding import_envelope_def take_session by code_simp


section \<open>The boards satisfy the invariant\<close>

lemma demo_scope: "colon_free demo_org" "colon_free ''w''"
  by code_simp+

lemma demo_world_simps [simp]:
  "devTickets (w_store (demo_world st)) = devTickets st" "proposals (w_store (demo_world st)) = proposals st"
  "dependencyEdges (w_store (demo_world st)) = dependencyEdges st" "historicalRecords (w_store (demo_world st)) = historicalRecords st"
  "todoQueueMemberships (w_store (demo_world st)) = todoQueueMemberships st" "w_receipts (demo_world st) = []"
  by (simp_all add: demo_world_def empty_world_def)

lemma board_inv_demo_world: "board_inv sha (w_store (demo_world st)) = board_inv sha st"
  by (simp add: demo_world_def board_inv_outside)

lemma empty_store_simps [simp]: "devTickets empty_store = []" "proposals empty_store = []" "dependencyEdges empty_store = []"
  "historicalRecords empty_store = []" "todoQueueMemberships empty_store = []"
  by (simp_all add: empty_store_def)

lemma no_queue: "todoQueueMemberships st = [] \<Longrightarrow> queue_wf st"
  by (auto simp: queue_wf_def queue_keys_ok_def ranks_ok_def band_def todoQueueMembership_def ran_def inj_on_def)

lemma no_edges: "dependencyEdges st = [] \<Longrightarrow> graph_wf st \<and> blockers_live st"
  by (simp add: graph_wf_def graph_acyclic_def edges_keyed_def blockers_live_def waits_on_def blockersOf_def acyclic_def)

lemma demo_ticket_ok: "computeReadyContractContentHash (rt_sha256 demo_runtime) (t_readyContractContent t) = Some ''#{'' \<Longrightarrow>
    t_readyContractContentHash t = ''#{'' \<Longrightarrow> 1 \<le> t_version t \<Longrightarrow> t_lane t = Backlog \<Longrightarrow> unapproved t \<Longrightarrow> ticket_ok (rt_sha256 demo_runtime) t"
  by (simp add: ticket_ok_def hash_ok_def)

lemma demo_hash: "computeReadyContractContentHash (rt_sha256 demo_runtime) [] = Some ''#{''"
  "computeReadyContractContentHash (rt_sha256 demo_runtime) demo_contract = Some ''#{''"
  by code_simp+

lemma queued_bands: "queue_wf queued_store"
proof -
  have "m_rank m \<in> {1, 5}" if "todoQueueMembership queued_store org ws tid = Some m" for org ws tid m
    using that by (auto simp: todoQueueMembership_def queued_store_def split: if_splits)
  note rank = this
  have same: "key org ws i = key org ws j" if "todoQueueMembership queued_store org ws i = Some m" "todoQueueMembership queued_store org ws j = Some n"
    "m_rank m = m_rank n" for org ws i j m n
    using that by (auto simp: todoQueueMembership_def queued_store_def split: if_splits)
  have "ranks_ok (band queued_store org ws)" for org ws
    unfolding ranks_ok_def
  proof
    show "inj_on (band queued_store org ws) (dom (band queued_store org ws))"
    proof (rule inj_onI)
      fix i j assume "i \<in> dom (band queued_store org ws)" "band queued_store org ws i = band queued_store org ws j"
      then obtain m n where "todoQueueMembership queued_store org ws i = Some m" "todoQueueMembership queued_store org ws j = Some n"
        "m_rank m = m_rank n" by (auto simp: band_def)
      then show "i = j" using same key_inj by blast
    qed
    show "\<forall>r \<in> ran (band queued_store org ws). 0 < r \<and> r \<le> rank_limit"
      using rank by (force simp: band_def ran_def rank_limit_def)
  qed
  moreover have "queue_keys_ok queued_store"
    using demo_scope by (auto simp: queue_keys_ok_def queued_store_def key_def)
  ultimately show ?thesis by (simp add: queue_wf_def)
qed

lemmas demo_row_defs = ticket_ok_def hash_ok_def policy_ok_def ticket_key_def proposal_key_def unapproved_def approved_def
  accepted_proposal_link_def source_proposal_link_def demo_ticket_def demo_classified_def demo_proposal_def in_todo_def

lemma board_invI:
  assumes "\<And>k t. map_get (devTickets st) k = Some t \<Longrightarrow> k = ticket_key t \<and> queue_scope (t_organizationId t) (t_workspaceId t) \<and>
      ticket_ok sha t \<and> policy_ok sha st t \<and> source_proposal_link st t"
    and "\<And>k p. map_get (proposals st) k = Some p \<Longrightarrow> k = proposal_key p \<and> queue_scope (p_organizationId p) (p_workspaceId p) \<and>
      accepted_proposal_link st p"
    and "lanes_match st" "queue_wf st" "graph_wf st" "blockers_live st" "historicalRecords st = []"
  shows "board_inv sha st"
  using assms by (auto simp: board_inv_def tickets_ok_def tickets_wf_def proposals_wf_def acceptance_links_def historical_keys_ok_def)

lemma undecided_inv: "board_inv (rt_sha256 demo_runtime) (w_store undecided_board)"
  unfolding undecided_board_def board_inv_demo_world
  by (rule board_invI) (use demo_scope in \<open>auto simp: no_queue no_edges lanes_match_def demo_row_defs split: if_splits\<close>)

lemma backlog_inv: "board_inv (rt_sha256 demo_runtime) (w_store backlog_board)"
  unfolding backlog_board_def board_inv_demo_world
  by (rule board_invI) (use demo_scope demo_hash in \<open>auto simp: no_queue no_edges lanes_match_def demo_row_defs split: if_splits\<close>)

lemma ready_inv: "board_inv (rt_sha256 demo_runtime) (w_store ready_board)"
  unfolding ready_board_def board_inv_demo_world
  by (rule board_invI) (use demo_scope demo_hash in \<open>auto simp: no_queue no_edges lanes_match_def demo_row_defs split: if_splits\<close>)

lemma legacy_inv: "board_inv (rt_sha256 demo_runtime) (w_store legacy_board)"
  unfolding legacy_board_def board_inv_demo_world
  by (rule board_invI) (simp_all add: no_queue no_edges lanes_match_def)

lemma demo_start_inv: "board_inv (rt_sha256 demo_runtime) (w_store demo_start)"
  by (rule board_invI) (simp_all add: demo_start_def empty_world_def grantActiveMembership_def grantOrganizationRole_def no_queue no_edges lanes_match_def)

lemma demo_floor: "minimumChangeRisk (evaluateChangeRisk (rt_sha256 demo_runtime) Bug [Frontend] False) = Medium"
  by code_simp

lemma queued_inv: "board_inv (rt_sha256 demo_runtime) (w_store queued_board)"
  unfolding queued_board_def board_inv_demo_world
proof (rule board_invI)
  show "lanes_match queued_store" by (auto simp: lanes_match_def queued_store_def in_todo_def)
  fix k t assume t: "map_get (devTickets queued_store) k = Some t"
  have "hasActiveDependencies queued_store org ws tid = False" for org ws tid by (simp add: hasActiveDependencies_def queued_store_def)
  then show "k = ticket_key t \<and> queue_scope (t_organizationId t) (t_workspaceId t) \<and> ticket_ok (rt_sha256 demo_runtime) t \<and>
      policy_ok (rt_sha256 demo_runtime) queued_store t \<and> source_proposal_link queued_store t"
    using t demo_scope demo_hash demo_floor by (auto simp: queued_store_def demo_row_defs split: if_splits)
qed (simp_all add: queued_bands, simp_all add: queued_store_def no_edges)

lemma blocked_waits: "waits_on org ws [demo_edge] \<subseteq> {(''a'', ''b'')}"
  by (auto simp: waits_on_def blockersOf_def demo_edge_def split: if_splits)

lemma blocked_inv: "board_inv (rt_sha256 demo_runtime) (w_store blocked_board)"
  unfolding blocked_board_def board_inv_demo_world
proof (rule board_invI)
  have "acyclic {(''a'', ''b'')}" by (simp add: acyclic_insert) (simp add: acyclic_def)
  then have "acyclic (waits_on org ws [demo_edge])" for org ws by (rule acyclic_subset[OF _ blocked_waits])
  then show "graph_wf (empty_store\<lparr>devTickets := [(key demo_org ''w'' ''a'', demo_ticket ''a''), (key demo_org ''w'' ''b'', demo_ticket ''b'')],
      dependencyEdges := [(key demo_org ''w'' ''e'', demo_edge)]\<rparr>)"
    by (simp add: graph_wf_def graph_acyclic_def edges_keyed_def demo_edge_def)
qed (use demo_scope demo_hash in \<open>auto simp: no_queue lanes_match_def blockers_live_def demo_edge_def key_def demo_row_defs split: if_splits\<close>)

end
