(* ===== verification/Command_Properties.thy ===== *)
theory Command_Properties
  imports Board_Refinement Scenario
begin

text \<open>
  What the single commands promise, as statements on the board before and after an accepted command, each read
  off the command's specification, with a run of the command on an example board.
\<close>

section \<open>The Todo queue\<close>

abbreviation queue_of :: "runtime \<Rightarrow> command_envelope \<Rightarrow> world \<Rightarrow> string list" where
  "queue_of rt e w \<equiv> todo_order (rt_localeCompare rt) (w_store w) (env_organizationId e) (env_workspaceId e)"

abbreviation unseen :: "command_envelope \<Rightarrow> world \<Rightarrow> bool" where
  "unseen e w \<equiv> map_get (w_receipts w) (receiptKey (envelope_lookup e)) = None"

lemma run_scoped:
  assumes "runCommand rt e c w = (Returned r, w')" "colon_free (env_workspaceId e)"
  shows "envelope_scoped e"
proof -
  obtain body msg where "runCommand rt e c = inTenant rt e (guarded e c msg body)" by (rule runCommand_shape)
  then show ?thesis using inTenant_Returned[of rt e _ w r w'] assms uuid_scoped by metis
qed

lemma anchored_beside:
  assumes "anchored st e (Beside before nid v) others n"
  shows "if before then \<exists>rest. drop n others = nid # rest else \<exists>rest. take n others = rest @ [nid]"
  using assms by (auto simp: anchored_def Cons_nth_drop_Suc[symmetric] take_Suc_conv_app_nth)

lemma left_todo_order:
  assumes "left_todo e t st st'" "board_inv sha st" "envelope_scoped e"
    and "t_lane t \<noteq> Todo \<Longrightarrow> t_id t \<notin> set (todo_order lc st (env_organizationId e) (env_workspaceId e))"
  shows "todo_order lc st' (env_organizationId e) (env_workspaceId e) =
    filter (\<lambda>j. j \<noteq> t_id t) (todo_order lc st (env_organizationId e) (env_workspaceId e))"
proof (cases "t_lane t = Todo")
  case True
  let ?org = "env_organizationId e" and ?ws = "env_workspaceId e"
  obtain hs where "st' = (snd (deleteTodoQueueMembership ?org ?ws (t_id t) st))\<lparr>todoQueueHeaders := hs\<rparr>"
    using assms(1) True by (auto simp: left_todo_def deleteTodoQueueMembership_def Let_def)
  then have "todo_order lc st' ?org ?ws = todo_order lc (snd (deleteTodoQueueMembership ?org ?ws (t_id t) st)) ?org ?ws"
    by (intro todo_order_frame) simp
  also have "\<dots> = filter (\<lambda>j. j \<noteq> t_id t) (todo_order lc st ?org ?ws)"
    using remove_from_queue[of st ?org ?ws lc "t_id t"] assms(2,3)
    by (simp add: todo_order_def filter_ids board_inv_def envelope_scoped_def)
  finally show ?thesis .
next
  case False
  then show ?thesis using assms(1,4) by (auto simp: left_todo_def intro!: filter_True[symmetric])
qed

text \<open>
  C9. An accepted reorder moves one ticket and no other: the queue afterwards is the queue without the ticket,
  with the ticket put in again directly before or after the named neighbour, or alone for the empty band. The
  queue version advances by one; no row but the moved ticket's changes.
\<close>

theorem reorder_moves_one_ticket:
  assumes "board_inv (rt_sha256 rt) (w_store w)" "colon_free (env_workspaceId e)" "unseen e w"
    and "runCommand rt e (ReorderTodo i) w = (Returned (ok x), w')"
  shows "(\<exists>before after. filter (\<lambda>j. j \<noteq> ro_devTicketId i) (queue_of rt e w) = before @ after \<and>
      queue_of rt e w' = before @ ro_devTicketId i # after \<and>
      (case readAnchor (ro_anchor i) of
         Some (Beside b nid v) \<Rightarrow> if b then (\<exists>rest. after = nid # rest) else (\<exists>rest. before = rest @ [nid])
       | Some EmptyBand \<Rightarrow> before = [] \<and> after = []
       | None \<Rightarrow> False)) \<and>
    queue_version (w_store w') e = queue_version (w_store w) e + 1 \<and>
    (\<forall>k. k \<noteq> key (env_organizationId e) (env_workspaceId e) (ro_devTicketId i) \<longrightarrow>
      map_get (devTickets (w_store w')) k = map_get (devTickets (w_store w)) k)"
proof -
  let ?others = "filter (\<lambda>j. j \<noteq> ro_devTicketId i) (queue_of rt e w)"
  obtain anchor n where a: "readAnchor (ro_anchor i) = Some anchor" "anchored (w_store w) e anchor ?others n"
      "queue_of rt e w' = splice_in n (ro_devTicketId i) ?others"
    and rest: "queue_version (w_store w') e = queue_version (w_store w) e + 1"
      "\<exists>t. devTickets (w_store w') = map_set (key (env_organizationId e) (env_workspaceId e) (ro_devTicketId i)) t (devTickets (w_store w))"
    using run_accepted[OF assms, unfolded command_effect.simps] unfolding reordered_def Let_def by blast
  have "case anchor of Beside b nid v \<Rightarrow> if b then (\<exists>rest. drop n ?others = nid # rest) else (\<exists>rest. take n ?others = rest @ [nid])
      | EmptyBand \<Rightarrow> take n ?others = [] \<and> drop n ?others = []"
    using a(2) anchored_beside by (cases anchor) (simp_all add: anchored_def)
  then show ?thesis using a rest
    by (intro conjI exI[of _ "take n ?others"] exI[of _ "drop n ?others"]) (auto simp: splice_in_def split: todo_anchor.splits)
qed

theorem reorder_moves_one_ticket_witness:
  "\<exists>before after. filter (\<lambda>j. j \<noteq> ''a'') (queue_of demo_runtime reorder_envelope queued_board) = before @ after \<and>
     queue_of demo_runtime reorder_envelope (snd (runCommand demo_runtime reorder_envelope (ReorderTodo reorder_request) queued_board)) =
       before @ ''a'' # after \<and> (\<exists>rest. before = rest @ [''b''])"
proof -
  have "readAnchor (ro_anchor reorder_request) = Some (Beside False ''b'' 1)" by code_simp
  moreover have "unseen reorder_envelope queued_board" by (simp add: queued_board_def)
  ultimately show ?thesis
    using reorder_moves_one_ticket[OF queued_inv _ _ is_okD[OF reorder_accepted]] demo_scope(2)
    by (simp add: reorder_envelope_def reorder_request_def demo_envelope_def)
qed

text \<open>
  C10. An accepted Ready approval appends the ticket to the end of its workspace's Todo queue and binds the
  approval to the submitted contract: its hash is the hash of the content, its version the next one. The caller
  knew the current contract version and hash and the queue version, the actor is the human owner or an owner or
  admin of the organization, and the declared risk reaches the policy's minimum.
\<close>

theorem approval_appends_and_binds:
  assumes "board_inv (rt_sha256 rt) (w_store w)" "colon_free (env_workspaceId e)" "unseen e w"
    and "runCommand rt e (ApproveReadyToTodo i) w = (Returned (ok x), w')"
  shows "\<exists>t t' declared. selectDevTicket (w_store w) (env_organizationId e) (env_workspaceId e) (ar_devTicketId i) = Some t \<and>
      selectDevTicket (w_store w') (env_organizationId e) (env_workspaceId e) (ar_devTicketId i) = Some t' \<and>
      queue_of rt e w' = queue_of rt e w @ [ar_devTicketId i] \<and>
      t_lane t = Backlog \<and> t_archivedAt t = None \<and> t_lane t' = Todo \<and> t_readyState t' = Approved \<and>
      t_readyContractVersion t = ar_expectedContractVersion i \<and> t_readyContractContentHash t = ar_expectedContractContentHash i \<and>
      queue_version (w_store w) e = ar_expectedTodoQueueVersion i \<and>
      t_readyContractVersion t' = t_readyContractVersion t + 1 \<and>
      t_readyApprovalContractVersion t' = Some (t_readyContractVersion t') \<and>
      t_readyApprovalContentHash t' = computeReadyContractContentHash (rt_sha256 rt) (t_readyContractContent t') \<and>
      ar_readyContractContent i = JObject (t_readyContractContent t') \<and>
      t_readyApprovedByUserId t' = Some (actor_stableId e) \<and>
      authorizedDevTicketArchiveActor (w_store w) e t \<and> t_declaredChangeRisk t = Some declared \<and>
      (\<forall>ty. t_devTicketType t = Some ty \<longrightarrow> minimumChangeRisk (evaluateChangeRisk (rt_sha256 rt) ty (t_workAreas t)
         (hasActiveDependencies (w_store w) (env_organizationId e) (env_workspaceId e) (ar_devTicketId i))) \<le> declared)"
proof -
  obtain t contract h where t: "read_ticket (w_store w) e (ar_devTicketId i) t" "t_lane t = Backlog" "t_archivedAt t = None"
      "authorizedDevTicketArchiveActor (w_store w) e t" "t_readyContractVersion t = ar_expectedContractVersion i"
      "t_readyContractContentHash t = ar_expectedContractContentHash i"
      "parseReadyContractContent (rt_sha256 rt) (ar_readyContractContent i) = ok contract" "policy_bound rt contract (w_store w) e t"
      "computeReadyContractContentHash (rt_sha256 rt) contract = Some h" "queue_version (w_store w) e = ar_expectedTodoQueueVersion i"
    and t': "devTickets (w_store w') = map_set (key (env_organizationId e) (env_workspaceId e) (ar_devTicketId i))
       (t\<lparr>t_version := t_version t + 1, t_lane := Todo, t_readyContractVersion := t_readyContractVersion t + 1,
         t_readyContractContent := contract, t_readyContractContentHash := h, t_readyState := Approved,
         t_readyApprovalContractVersion := Some (t_readyContractVersion t + 1), t_readyApprovalContentHash := Some h,
         t_readyApprovedByUserId := Some (actor_stableId e), t_readyApprovalCommandId := Some (env_commandId e)\<rparr>) (devTickets (w_store w))"
      "queue_of rt e w' = queue_of rt e w @ [ar_devTicketId i]"
    using run_accepted[OF assms, unfolded command_effect.simps] unfolding approved_to_todo_def by blast
  have "envelope_scoped e" by (rule run_scoped[OF assms(4,2)])
  then have "t_id t = ar_devTicketId i" using read_ticket_current[OF _ assms(1) t(1)] by simp
  moreover obtain declared where "t_declaredChangeRisk t = Some declared" "\<forall>ty. t_devTicketType t = Some ty \<longrightarrow>
      minimumChangeRisk (evaluateChangeRisk (rt_sha256 rt) ty (t_workAreas t)
         (hasActiveDependencies (w_store w) (env_organizationId e) (env_workspaceId e) (t_id t))) \<le> declared"
    using t(8) by (auto simp: policy_bound_def)
  ultimately show ?thesis using t t'
    by (intro exI[of _ t] exI[of _ "the (selectDevTicket (w_store w') (env_organizationId e) (env_workspaceId e) (ar_devTicketId i))"] exI[of _ declared])
      (simp add: selectDevTicket_def read_ticket_def selectDevTicketForUpdate_def parseReadyContractContent_ok_iff)
qed

theorem approval_appends_and_binds_witness:
  "queue_of demo_runtime approve_envelope (snd (runCommand demo_runtime approve_envelope (ApproveReadyToTodo approve_request) ready_board)) =
     queue_of demo_runtime approve_envelope ready_board @ [''a'']"
  using approval_appends_and_binds[OF ready_inv _ _ is_okD[OF approve_accepted]] demo_scope(2)
  by (auto simp: approve_envelope_def approve_request_def demo_envelope_def ready_board_def)

section \<open>Proposals\<close>

text \<open>
  C11. Accepting a proposal creates exactly one DevTicket, under an id no ticket of the workspace had, at version 1
  in Backlog without approval, owned by an active member, and links the two: the proposal is Accepted and
  names the ticket, the ticket names the proposal. No other row of the board changes.
\<close>

theorem acceptance_creates_one_linked_ticket:
  assumes "board_inv (rt_sha256 rt) (w_store w)" "colon_free (env_workspaceId e)" "unseen e w"
    and "runCommand rt e (AcceptProposal i) w = (Returned (ok x), w')"
  shows "\<exists>p t. read_proposal (w_store w) e (acp_proposalId i) p \<and> p_lifecycleState p = AwaitingDecision \<and> p_archivedAt p = None \<and>
      isActiveMember (w_store w) (env_organizationId e) (acp_humanOwnerUserId i) \<and> t_humanOwnerUserId t = acp_humanOwnerUserId i \<and>
      cr_devTicketId x = Some (t_id t) \<and>
      selectDevTicket (w_store w) (env_organizationId e) (env_workspaceId e) (t_id t) = None \<and>
      devTickets (w_store w') = map_set (key (env_organizationId e) (env_workspaceId e) (t_id t)) t (devTickets (w_store w)) \<and>
      t_version t = 1 \<and> t_lane t = Backlog \<and> t_readyState t = Draft \<and> t_sourceProposalId t = Some (acp_proposalId i) \<and>
      proposals (w_store w') = map_set (key (env_organizationId e) (env_workspaceId e) (acp_proposalId i))
        (p\<lparr>p_lifecycleState := Accepted, p_version := p_version p + 1, p_acceptedCommandId := Some (env_commandId e),
           p_acceptedDevTicketId := Some (t_id t)\<rparr>) (proposals (w_store w)) \<and>
      todoQueueMemberships (w_store w') = todoQueueMemberships (w_store w) \<and> dependencyEdges (w_store w') = dependencyEdges (w_store w)"
proof -
  obtain p t where p: "read_proposal (w_store w) e (acp_proposalId i) p" "p_lifecycleState p = AwaitingDecision" "p_archivedAt p = None"
      "isActiveMember (w_store w) (env_organizationId e) (acp_humanOwnerUserId i)"
    and t: "selectDevTicketForUpdate (w_store w) (env_organizationId e) (env_workspaceId e) (t_id t) = None" "t_version t = 1"
      "t_sourceProposalId t = Some (acp_proposalId i)" "t_lane t = Backlog" "unapproved t" "t_humanOwnerUserId t = acp_humanOwnerUserId i"
      "cr_devTicketId x = Some (t_id t)"
    and st: "w_store w' = put_proposal e ((decided_as Accepted p)\<lparr>p_acceptedCommandId := Some (env_commandId e),
           p_acceptedDevTicketId := Some (t_id t)\<rparr>)
       ((w_store w)\<lparr>devTickets := map_set (key (env_organizationId e) (env_workspaceId e) (t_id t)) t (devTickets (w_store w))\<rparr>)"
    using run_accepted[OF assms, unfolded command_effect.simps] unfolding accepted_as_def by blast
  have "p_id p = acp_proposalId i" using read_proposal_current[OF run_scoped[OF assms(4,2)] assms(1) p(1)] by simp
  then show ?thesis using p t st
    by (intro exI[of _ p] exI[of _ t])
      (simp add: put_proposal_def decided_as_def selectDevTicket_def selectDevTicketForUpdate_def unapproved_def)
qed

theorem acceptance_creates_one_linked_ticket_witness:
  "\<exists>t. t_sourceProposalId t = Some ''p'' \<and> t_lane t = Backlog \<and>
     devTickets (w_store (snd (runCommand demo_runtime accept_envelope (AcceptProposal accept_request) undecided_board))) =
       [(key demo_org ''w'' (t_id t), t)]"
  using acceptance_creates_one_linked_ticket[OF undecided_inv _ _ is_okD[OF accept_accepted]] demo_scope(2)
  by (auto simp: accept_envelope_def accept_request_def demo_envelope_def undecided_board_def)

text \<open>
  Rejecting a proposal needs a reason and the current version of a proposal that awaits its decision; it
  moves that proposal to Rejected, one version on, and changes nothing else.
\<close>

theorem rejection_decides_once:
  assumes "board_inv (rt_sha256 rt) (w_store w)" "colon_free (env_workspaceId e)" "unseen e w"
    and "runCommand rt e (RejectProposal i) w = (Returned (ok x), w')"
  shows "\<exists>p reason. decisionReason (pr_reason i) = ok reason \<and> reason \<noteq> [] \<and>
      selectProposalForUpdate (w_store w) (env_organizationId e) (env_workspaceId e) (pr_proposalId i) = Some p \<and>
      expected e ''proposal'' (pr_proposalId i) = Some (p_version p) \<and> p_lifecycleState p = AwaitingDecision \<and>
      w_store w' = (w_store w)\<lparr>proposals := map_set (key (env_organizationId e) (env_workspaceId e) (pr_proposalId i))
        (p\<lparr>p_lifecycleState := Rejected, p_version := p_version p + 1\<rparr>) (proposals (w_store w))\<rparr>"
proof -
  obtain p reason where p: "read_proposal (w_store w) e (pr_proposalId i) p" "decisionReason (pr_reason i) = ok reason"
      "p_lifecycleState p = AwaitingDecision" "w_store w' = put_proposal e (decided_as Rejected p) (w_store w)"
    using run_accepted[OF assms, unfolded command_effect.simps] unfolding rejected_with_def by blast
  have "p_id p = pr_proposalId i" using read_proposal_current[OF run_scoped[OF assms(4,2)] assms(1) p(1)] by simp
  moreover have "reason \<noteq> []" using p(2) by (auto simp: decisionReason_def Let_def split: if_splits)
  ultimately show ?thesis using p
    by (intro exI[of _ p] exI[of _ reason]) (simp add: put_proposal_def decided_as_def read_proposal_def)
qed

theorem rejection_decides_once_witness:
  "\<exists>p. map_get (proposals (w_store (snd (runCommand demo_runtime reject_envelope (RejectProposal reject_request) undecided_board))))
     (key demo_org ''w'' ''p'') = Some p \<and> p_lifecycleState p = Rejected"
  using rejection_decides_once[OF undecided_inv _ _ is_okD[OF reject_accepted]] demo_scope(2)
  by (auto simp: reject_envelope_def reject_request_def demo_envelope_def undecided_board_def)

section \<open>Tickets\<close>

lemma lane_of_queue:
  assumes "board_inv sha st" "envelope_scoped e" "map_get (devTickets st) (key (env_organizationId e) (env_workspaceId e) tid) = Some t"
  shows "tid \<in> set (todo_order lc st (env_organizationId e) (env_workspaceId e)) \<longleftrightarrow> t_lane t = Todo"
proof -
  let ?org = "env_organizationId e" and ?ws = "env_workspaceId e"
  have "tid \<in> set (todo_order lc st ?org ?ws) \<longleftrightarrow> map_get (todoQueueMemberships st) (key ?org ?ws tid) \<noteq> None"
    using todo_order_distinct(2)[of st ?org ?ws lc] assms(1,2)
    by (simp add: board_inv_def envelope_scoped_def dom_def band_def todoQueueMembership_def)
  then show ?thesis using assms(1,3) by (simp add: board_inv_def lanes_match_def)
qed

text \<open>
  An accepted archive needs a reason, an authorized actor and a ticket that blocks no other ticket. The
  ticket leaves the Todo queue if it stood there, the rest of the queue keeps its order, and the archived ticket
  is in Backlog with no approval left and remembers the lane it was in.
\<close>

theorem archive_leaves_the_queue:
  assumes "board_inv (rt_sha256 rt) (w_store w)" "colon_free (env_workspaceId e)" "unseen e w"
    and "runCommand rt e (ArchiveDevTicket i) w = (Returned (ok x), w')"
  shows "\<exists>t t' reason. read_ticket (w_store w) e (tr_devTicketId i) t \<and> t_archivedAt t = None \<and> decisionReason (tr_reason i) = ok reason \<and>
      authorizedDevTicketArchiveActor (w_store w) e t \<and>
      selectActiveBlockerEdges (w_store w) (env_organizationId e) (env_workspaceId e) (tr_devTicketId i) = [] \<and>
      devTickets (w_store w') = map_set (key (env_organizationId e) (env_workspaceId e) (tr_devTicketId i)) t' (devTickets (w_store w)) \<and>
      t_archivedAt t' \<noteq> None \<and> t_archivedReason t' = Some reason \<and> t_lane t' = Backlog \<and> t_readyState t' = Draft \<and>
      t_readyApprovalContentHash t' = None \<and> t_lastActiveLane t' = Some (t_lane t) \<and> t_version t' = t_version t + 1 \<and>
      queue_of rt e w' = filter (\<lambda>j. j \<noteq> tr_devTicketId i) (queue_of rt e w) \<and>
      dependencyEdges (w_store w') = dependencyEdges (w_store w) \<and> proposals (w_store w') = proposals (w_store w)"
proof -
  obtain t reason now st1 where t: "read_ticket (w_store w) e (tr_devTicketId i) t" "decisionReason (tr_reason i) = ok reason"
      "t_archivedAt t = None" "authorizedDevTicketArchiveActor (w_store w) e t"
      "selectActiveBlockerEdges (w_store w) (env_organizationId e) (env_workspaceId e) (tr_devTicketId i) = []" "left_todo e t (w_store w) st1"
      "w_store w' = put_ticket e (clear_ready (t\<lparr>t_version := t_version t + 1, t_archivedAt := Some now,
       t_archivedByUserId := Some (actor_stableId e), t_archivedReason := Some reason, t_lastActiveLane := Some (t_lane t)\<rparr>)) st1"
    using run_accepted[OF assms, unfolded command_effect.simps] unfolding archived_ticket_def by blast
  let ?t = "clear_ready (t\<lparr>t_version := t_version t + 1, t_archivedAt := Some now,
       t_archivedByUserId := Some (actor_stableId e), t_archivedReason := Some reason, t_lastActiveLane := Some (t_lane t)\<rparr>)"
  note sc = run_scoped[OF assms(4,2)]
  note row = read_ticket_current[OF sc assms(1) t(1)]
  have "queue_of rt e w' = todo_order (rt_localeCompare rt) st1 (env_organizationId e) (env_workspaceId e)"
    by (rule todo_order_frame) (simp add: t(7) put_ticket_def)
  also have "\<dots> = filter (\<lambda>j. j \<noteq> t_id t) (queue_of rt e w)"
    by (rule left_todo_order[OF t(6) assms(1) sc]) (use lane_of_queue[OF assms(1) sc] row in auto)
  finally have queue: "queue_of rt e w' = filter (\<lambda>j. j \<noteq> tr_devTicketId i) (queue_of rt e w)" using row by simp
  have "devTickets st1 = devTickets (w_store w)" "dependencyEdges st1 = dependencyEdges (w_store w)" "proposals st1 = proposals (w_store w)"
    using t(6) by (auto simp: left_todo_def split: if_splits)
  then show ?thesis using t row queue
    by (intro exI[of _ t] exI[of _ ?t] exI[of _ reason]) (simp add: put_ticket_def clear_ready_def)
qed

theorem archive_leaves_the_queue_witness:
  "queue_of demo_runtime archive_envelope (snd (runCommand demo_runtime archive_envelope (ArchiveDevTicket archive_request) queued_board)) =
     filter (\<lambda>j. j \<noteq> ''a'') (queue_of demo_runtime archive_envelope queued_board)"
  using archive_leaves_the_queue[OF queued_inv _ _ is_okD[OF archive_accepted]] demo_scope(2)
  by (auto simp: archive_envelope_def archive_request_def demo_envelope_def queued_board_def)

text \<open>
  A classification is accepted only on a Backlog ticket, with a risk at or above the minimum the policy
  gives for the new type, the new areas and the ticket's current dependencies. It stores exactly that
  classification with the policy's version and hash, and the next contract version, whose hash is that of the
  new content. A severity is stored for bugs only.
\<close>

theorem classification_meets_the_policy:
  assumes "board_inv (rt_sha256 rt) (w_store w)" "colon_free (env_workspaceId e)" "unseen e w"
    and "runCommand rt e (SetDevTicketClassification i) w = (Returned (ok x), w')"
  shows "\<exists>t t' ty areas declared. read_ticket (w_store w) e (sc_devTicketId i) t \<and> t_lane t = Backlog \<and>
      parseDevTicketType (sc_type i) = ok ty \<and> normalizeWorkAreas (sc_workAreas i) = ok areas \<and>
      parseChangeRisk (sc_declaredChangeRisk i) = ok declared \<and>
      devTickets (w_store w') = map_set (key (env_organizationId e) (env_workspaceId e) (sc_devTicketId i)) t' (devTickets (w_store w)) \<and>
      t_devTicketType t' = Some ty \<and> t_workAreas t' = areas \<and> t_declaredChangeRisk t' = Some declared \<and> t_lane t' = Backlog \<and>
      t_minimumChangeRisk t' = Some (minimumChangeRisk (evaluateChangeRisk (rt_sha256 rt) ty areas
        (hasActiveDependencies (w_store w) (env_organizationId e) (env_workspaceId e) (sc_devTicketId i)))) \<and>
      minimumChangeRisk (evaluateChangeRisk (rt_sha256 rt) ty areas
        (hasActiveDependencies (w_store w) (env_organizationId e) (env_workspaceId e) (sc_devTicketId i))) \<le> declared \<and>
      (t_severity t' \<noteq> None \<longrightarrow> ty = Bug) \<and> t_readyContractVersion t' = t_readyContractVersion t + 1 \<and>
      computeReadyContractContentHash (rt_sha256 rt) (t_readyContractContent t') = Some (t_readyContractContentHash t') \<and>
      queue_of rt e w' = queue_of rt e w"
proof -
  obtain t ty areas prio declared sev owner evaluation content h where t: "read_ticket (w_store w) e (sc_devTicketId i) t" "t_lane t = Backlog"
      "parseDevTicketType (sc_type i) = ok ty" "normalizeWorkAreas (sc_workAreas i) = ok areas" "parseChangeRisk (sc_declaredChangeRisk i) = ok declared"
      "sev \<noteq> None \<longrightarrow> ty = Bug" "minimumChangeRisk evaluation \<le> declared" "computeReadyContractContentHash (rt_sha256 rt) content = Some h"
    and ev: "evaluation = evaluateChangeRisk (rt_sha256 rt) ty areas
       (hasActiveDependencies (w_store w) (env_organizationId e) (env_workspaceId e) (sc_devTicketId i))"
    and st: "w_store w' = put_ticket e (t\<lparr>t_version := t_version t + 1, t_humanOwnerUserId := owner,
       t_devTicketType := Some ty, t_workAreas := areas, t_priority := Some prio, t_severity := sev,
       t_declaredChangeRisk := Some declared, t_minimumChangeRisk := Some (minimumChangeRisk evaluation),
       t_changeRiskPolicyVersion := Some (policyVersion evaluation), t_changeRiskPolicyHash := Some (policyHash evaluation),
       t_readyContractVersion := t_readyContractVersion t + 1, t_readyContractContent := content,
       t_readyContractContentHash := h\<rparr>) (w_store w)"
    using run_accepted[OF assms, unfolded command_effect.simps] unfolding classified_def by blast
  have row: "t_id t = sc_devTicketId i" using read_ticket_current[OF run_scoped[OF assms(4,2)] assms(1) t(1)] by simp
  have "queue_of rt e w' = queue_of rt e w" by (rule todo_order_frame) (simp add: st put_ticket_def)
  then show ?thesis using t row
    by (intro exI[of _ t] exI[of _ "the (map_get (devTickets (w_store w')) (key (env_organizationId e) (env_workspaceId e) (sc_devTicketId i)))"]
        exI[of _ ty] exI[of _ areas] exI[of _ declared]) (simp add: st put_ticket_def ev[symmetric])
qed

theorem classification_meets_the_policy_witness:
  "\<exists>t'. map_get (devTickets (w_store (snd (runCommand demo_runtime classify_envelope (SetDevTicketClassification classify_request) backlog_board))))
     (key demo_org ''w'' ''a'') = Some t' \<and> t_readyContractVersion t' = 2"
proof -
  have "\<And>t. read_ticket (w_store backlog_board) classify_envelope ''a'' t \<Longrightarrow> t_readyContractVersion t = 1"
    by (auto simp: read_ticket_def selectDevTicketForUpdate_def backlog_board_def classify_envelope_def
        demo_envelope_def demo_ticket_def split: if_splits)
  then show ?thesis
    using classification_meets_the_policy[OF backlog_inv _ _ is_okD[OF classify_accepted]] demo_scope(2)
    by (auto simp: classify_envelope_def classify_request_def demo_envelope_def backlog_board_def)
qed

section \<open>Dependencies\<close>

lemma dependent_leaves_queue:
  assumes "board_inv sha st" "envelope_scoped e" "selectDevTicketForUpdate st (env_organizationId e) (env_workspaceId e) tid = Some t"
    and left: "left_todo e t (st\<lparr>dependencyEdges := es\<rparr>) st1" and st': "st' = put_ticket e t' st1"
  shows "todo_order lc st' (env_organizationId e) (env_workspaceId e) =
    filter (\<lambda>j. j \<noteq> tid) (todo_order lc st (env_organizationId e) (env_workspaceId e))"
proof -
  note row = current_row[OF assms(2,1,3)]
  have "left_todo e t st (st1\<lparr>dependencyEdges := dependencyEdges st\<rparr>)"
  proof (cases "t_lane t = Todo")
    case True
    then obtain hs where st1: "st1 = st\<lparr>dependencyEdges := es, todoQueueMemberships := map_remove (key (env_organizationId e) (env_workspaceId e) (t_id t))
        (todoQueueMemberships st), todoQueueHeaders := hs\<rparr>" using left by (auto simp: left_todo_def)
    have "queue_version (st1\<lparr>dependencyEdges := dependencyEdges st\<rparr>) e = queue_version st e + 1"
      "expected e ''lane_queue'' ''todo'' = Some (queue_version st e)" using left True by (simp_all add: left_todo_def)
    moreover have "st1\<lparr>dependencyEdges := dependencyEdges st\<rparr> = st\<lparr>todoQueueMemberships := map_remove (key (env_organizationId e) (env_workspaceId e) (t_id t))
        (todoQueueMemberships st), todoQueueHeaders := hs\<rparr>" by (simp add: st1)
    ultimately show ?thesis unfolding left_todo_def using True by auto
  qed (use left in \<open>simp add: left_todo_def\<close>)
  from left_todo_order[OF this assms(1,2), of lc] lane_of_queue[OF assms(1,2), of tid t lc] row
  have "todo_order lc (st1\<lparr>dependencyEdges := dependencyEdges st\<rparr>) (env_organizationId e) (env_workspaceId e) =
    filter (\<lambda>j. j \<noteq> tid) (todo_order lc st (env_organizationId e) (env_workspaceId e))" by auto
  moreover have "todo_order lc st' (env_organizationId e) (env_workspaceId e) =
      todo_order lc (st1\<lparr>dependencyEdges := dependencyEdges st\<rparr>) (env_organizationId e) (env_workspaceId e)"
    by (rule todo_order_frame) (simp add: st' put_ticket_def)
  ultimately show ?thesis by simp
qed

text \<open>
  C12. An accepted new dependency joins two different, unarchived, unfinished tickets whose versions the caller
  knew, and no chain of active dependencies led from the blocker to the dependent. It adds one active edge,
  clears the dependent's approval and takes it out of the Todo queue if it stood there. Asking again for an
  active dependency is accepted and changes nothing.
\<close>

theorem dependency_is_added_without_a_cycle:
  assumes "board_inv (rt_sha256 rt) (w_store w)" "colon_free (env_workspaceId e)" "unseen e w"
    and "runCommand rt e (AddDependency i) w = (Returned (ok x), w')"
  shows "if (ad_dependentDevTicketId i, ad_blockerDevTicketId i) \<in> depends_on (w_store w) (env_organizationId e) (env_workspaceId e)
    then w_store w' = w_store w
    else (ad_blockerDevTicketId i, ad_dependentDevTicketId i) \<notin> (depends_on (w_store w) (env_organizationId e) (env_workspaceId e))\<^sup>* \<and>
      (\<exists>d b edge. selectDevTicket (w_store w) (env_organizationId e) (env_workspaceId e) (ad_dependentDevTicketId i) = Some d \<and>
        selectDevTicket (w_store w) (env_organizationId e) (env_workspaceId e) (ad_blockerDevTicketId i) = Some b \<and>
        t_archivedAt d = None \<and> t_archivedAt b = None \<and> t_lane d \<noteq> Done \<and> t_lane b \<noteq> Done \<and>
        dependencyEdges (w_store w') = map_set (key (env_organizationId e) (env_workspaceId e) (e_id edge)) edge (dependencyEdges (w_store w)) \<and>
        e_dependentDevTicketId edge = ad_dependentDevTicketId i \<and> e_blockerDevTicketId edge = ad_blockerDevTicketId i \<and>
        e_lifecycleState edge = Active \<and> e_version edge = 1 \<and>
        devTickets (w_store w') = map_set (key (env_organizationId e) (env_workspaceId e) (ad_dependentDevTicketId i))
          (dependency_changed_row d) (devTickets (w_store w)) \<and>
        queue_of rt e w' = filter (\<lambda>j. j \<noteq> ad_dependentDevTicketId i) (queue_of rt e w))"
proof -
  let ?org = "env_organizationId e" and ?ws = "env_workspaceId e" and ?d = "ad_dependentDevTicketId i" and ?b = "ad_blockerDevTicketId i"
  let ?st = "w_store w"
  note sc = run_scoped[OF assms(4,2)]
  note add = run_accepted[OF assms, unfolded command_effect.simps, unfolded added_dependency_def]
  have dup: "selectActiveDependencyEdge ?st ?org ?ws ?d ?b \<noteq> None \<longleftrightarrow> (?d, ?b) \<in> depends_on ?st ?org ?ws"
    by (simp only: selectActiveDependencyEdge_def find_None_iff waits_on_iff not_not) blast
  show ?thesis
  proof (cases "selectActiveDependencyEdge ?st ?org ?ws ?d ?b")
    case (Some g)
    then show ?thesis using dup add by auto
  next
    case None
    then obtain d b eid st1 where
      rows: "selectDevTicketForUpdate ?st ?org ?ws ?d = Some d" "selectDevTicketForUpdate ?st ?org ?ws ?b = Some b"
        "t_archivedAt d = None" "t_archivedAt b = None" "t_lane d \<noteq> Done" "t_lane b \<noteq> Done" "(?b, ?d) \<notin> (depends_on ?st ?org ?ws)\<^sup>*"
      and left: "left_todo e d (?st\<lparr>dependencyEdges := map_set (key ?org ?ws eid)
            \<lparr>e_id = eid, e_organizationId = ?org, e_workspaceId = ?ws, e_version = 1, e_dependentDevTicketId = ?d, e_blockerDevTicketId = ?b,
             e_lifecycleState = Active, e_createdCommandId = env_commandId e, e_retiredCommandId = None\<rparr> (dependencyEdges ?st)\<rparr>) st1"
      and st: "w_store w' = put_ticket e (dependency_changed_row d) st1"
      using add by auto
    let ?g = "\<lparr>e_id = eid, e_organizationId = ?org, e_workspaceId = ?ws, e_version = 1, e_dependentDevTicketId = ?d, e_blockerDevTicketId = ?b,
             e_lifecycleState = Active, e_createdCommandId = env_commandId e, e_retiredCommandId = None\<rparr>"
    note row = current_row[OF sc assms(1) rows(1)]
    have queue: "queue_of rt e w' = filter (\<lambda>j. j \<noteq> ?d) (queue_of rt e w)"
      by (rule dependent_leaves_queue[OF assms(1) sc rows(1) left st])
    have "devTickets st1 = devTickets ?st" "dependencyEdges st1 = map_set (key ?org ?ws eid) ?g (dependencyEdges ?st)"
      using left by (auto simp: left_todo_def split: if_splits)
    then show ?thesis using dup None rows queue st row
      by (auto intro!: exI[of _ ?g] simp: put_ticket_def selectDevTicket_def selectDevTicketForUpdate_def dependency_changed_row_def Let_def)
  qed
qed

theorem dependency_is_added_without_a_cycle_witness:
  "queue_of demo_runtime depend_envelope (snd (runCommand demo_runtime depend_envelope (AddDependency depend_request) queued_board)) =
     filter (\<lambda>j. j \<noteq> ''a'') (queue_of demo_runtime depend_envelope queued_board)"
  using dependency_is_added_without_a_cycle[OF queued_inv _ _ is_okD[OF depend_accepted]] demo_scope(2)
  by (auto simp: depend_envelope_def depend_request_def demo_envelope_def queued_board_def queued_store_def waits_on_iff)

text \<open>
  An accepted removal retires exactly the edge the caller named, at the version the caller knew; the
  dependency no longer counts, the edge row stays as a record, and the dependent leaves the Todo queue with its
  approval cleared.
\<close>

theorem dependency_is_retired:
  assumes "board_inv (rt_sha256 rt) (w_store w)" "colon_free (env_workspaceId e)" "unseen e w"
    and "runCommand rt e (RemoveDependency i) w = (Returned (ok x), w')"
  shows "\<exists>g d. selectDependencyEdge (w_store w) (env_organizationId e) (env_workspaceId e) (rd_edgeId i) = Some g \<and>
      e_lifecycleState g = Active \<and> e_version g = rd_expectedEdgeVersion i \<and>
      selectDevTicket (w_store w) (env_organizationId e) (env_workspaceId e) (e_dependentDevTicketId g) = Some d \<and>
      dependencyEdges (w_store w') = map_set (key (env_organizationId e) (env_workspaceId e) (rd_edgeId i))
        (g\<lparr>e_lifecycleState := Retired, e_version := e_version g + 1, e_retiredCommandId := Some (env_commandId e)\<rparr>) (dependencyEdges (w_store w)) \<and>
      depends_on (w_store w') (env_organizationId e) (env_workspaceId e) \<subseteq> depends_on (w_store w) (env_organizationId e) (env_workspaceId e) \<and>
      devTickets (w_store w') = map_set (key (env_organizationId e) (env_workspaceId e) (e_dependentDevTicketId g))
        (dependency_changed_row d) (devTickets (w_store w)) \<and>
      queue_of rt e w' = filter (\<lambda>j. j \<noteq> e_dependentDevTicketId g) (queue_of rt e w)"
proof -
  let ?org = "env_organizationId e" and ?ws = "env_workspaceId e"
  let ?st = "w_store w"
  note sc = run_scoped[OF assms(4,2)]
  obtain g d st1 where g: "selectDependencyEdge ?st ?org ?ws (rd_edgeId i) = Some g" "e_lifecycleState g = Active" "e_version g = rd_expectedEdgeVersion i"
      "selectDevTicketForUpdate ?st ?org ?ws (e_dependentDevTicketId g) = Some d"
    and left: "left_todo e d (?st\<lparr>dependencyEdges := map_set (key ?org ?ws (rd_edgeId i))
       (g\<lparr>e_lifecycleState := Retired, e_version := e_version g + 1, e_retiredCommandId := Some (env_commandId e)\<rparr>) (dependencyEdges ?st)\<rparr>) st1"
    and st: "w_store w' = put_ticket e (dependency_changed_row d) st1"
    using run_accepted[OF assms, unfolded command_effect.simps] unfolding removed_dependency_def by blast
  let ?g = "g\<lparr>e_lifecycleState := Retired, e_version := e_version g + 1, e_retiredCommandId := Some (env_commandId e)\<rparr>"
  note row = current_row[OF sc assms(1) g(4)]
  have queue: "queue_of rt e w' = filter (\<lambda>j. j \<noteq> e_dependentDevTicketId g) (queue_of rt e w)"
    by (rule dependent_leaves_queue[OF assms(1) sc g(4) left st])
  have fields: "devTickets st1 = devTickets ?st" "dependencyEdges st1 = map_set (key ?org ?ws (rd_edgeId i)) ?g (dependencyEdges ?st)"
    using left by (auto simp: left_todo_def split: if_splits)
  then have "depends_on (w_store w') ?org ?ws \<subseteq> depends_on ?st ?org ?ws"
    using depends_on_set_subset[of "w_store w'" "key ?org ?ws (rd_edgeId i)" ?g ?st ?org ?ws] by (simp add: st put_ticket_def edge_in_def)
  then show ?thesis using g queue st row fields
    by (auto intro!: exI[of _ g] exI[of _ d] simp: put_ticket_def selectDevTicket_def selectDevTicketForUpdate_def dependency_changed_row_def Let_def)
qed

theorem dependency_is_retired_witness:
  "\<exists>g. map_get (dependencyEdges (w_store (snd (runCommand demo_runtime remove_envelope (RemoveDependency remove_request) blocked_board))))
     (key demo_org ''w'' ''e'') = Some g \<and> e_lifecycleState g = Retired"
  using dependency_is_retired[OF blocked_inv _ _ is_okD[OF remove_accepted]] demo_scope(2)
  by (auto simp: remove_envelope_def remove_request_def demo_envelope_def blocked_board_def)

section \<open>Legacy tasks\<close>

lemma legacy_ticket_simps [simp]: "t_id (legacy_ticket e source owner h) = l_id source" "t_lane (legacy_ticket e source owner h) = Backlog"
  by (simp_all add: legacy_ticket_def)

text \<open>
  An accepted import of a legacy task names a task of the caller's organization and workspace. The first import
  writes one historical record that preserves the digest of the task's row, and one alias; it creates a DevTicket,
  under the task's own id, exactly when the task is not done and the named owner is an active member. A later
  import is accepted only if the row still has the preserved digest.
\<close>

theorem import_preserves_the_source:
  assumes "board_inv (rt_sha256 rt) (w_store w)" "colon_free (env_workspaceId e)" "unseen e w"
    and "runCommand rt e (ImportLegacyDevTicket i) w = (Returned (ok x), w')"
  shows "\<exists>source digest promoted. selectLegacyTaskSource (w_store w) (im_legacyTaskId i) = Some source \<and>
      l_organizationId source = env_organizationId e \<and> l_workspaceId source = env_workspaceId e \<and>
      computeReadyContractContentHash (rt_sha256 rt) (l_row source) = Some digest \<and>
      (promoted \<longleftrightarrow> l_status source \<noteq> ''done'' \<and> (\<exists>u. im_humanOwnerUserId i = Some u \<and> isActiveMember (w_store w) (env_organizationId e) u)) \<and>
      (case selectLegacyTaskAliasForUpdate (w_store w) (env_organizationId e) (l_id source) of
         Some a \<Rightarrow> \<exists>h. selectHistoricalRecordForUpdate (w_store w) (env_organizationId e) (env_workspaceId e) (a_historicalRecordId a) = Some h \<and>
           h_preservedPayloadDigest h = digest
       | None \<Rightarrow> \<exists>a h. selectLegacyTaskAliasForUpdate (w_store w') (env_organizationId e) (l_id source) = Some a \<and>
           selectHistoricalRecordForUpdate (w_store w') (env_organizationId e) (env_workspaceId e) (a_historicalRecordId a) = Some h \<and>
           map_get (historicalRecords (w_store w)) (a_historicalRecordId a) = None \<and>
           h_preservedPayloadDigest h = digest \<and> h_sourceTableRowIdentity h = l_id source \<and>
           a_devTicketId a = (if promoted then Some (l_id source) else None) \<and>
           (if promoted
            then selectDevTicket (w_store w) (env_organizationId e) (env_workspaceId e) (l_id source) = None \<and>
              (\<exists>t. devTickets (w_store w') = map_set (key (env_organizationId e) (env_workspaceId e) (l_id source)) t (devTickets (w_store w)) \<and>
                 t_id t = l_id source \<and> t_lane t = Backlog)
            else devTickets (w_store w') = devTickets (w_store w)))"
proof -
  let ?org = "env_organizationId e" and ?ws = "env_workspaceId e"
  obtain source owner disposition digest where s: "selectLegacyTaskSource (w_store w) (im_legacyTaskId i) = Some source"
      "l_organizationId source = ?org" "l_workspaceId source = ?ws" "computeReadyContractContentHash (rt_sha256 rt) (l_row source) = Some digest"
      "owner = (case im_humanOwnerUserId i of None \<Rightarrow> [] | Some u \<Rightarrow> u)"
      "disposition = importDisposition (l_status source) (im_humanOwnerUserId i \<noteq> None \<and> isActiveMember (w_store w) ?org owner)"
    and branch: "case selectLegacyTaskAliasForUpdate (w_store w) ?org (l_id source) of
        None \<Rightarrow> first_import rt e source owner disposition digest (w_store w) x (w_store w')
      | Some a \<Rightarrow> (\<exists>h. selectHistoricalRecordForUpdate (w_store w) ?org ?ws (a_historicalRecordId a) = Some h \<and>
          h_preservedPayloadDigest h = digest \<and>
          expected e ''historical_record'' (h_historicalRecordId h) \<in> {None, Some (h_version h)} \<and>
          reimported rt e source owner disposition a h (w_store w) (w_store w'))"
    using run_accepted[OF assms, unfolded command_effect.simps] unfolding imported_def by blast
  have promoted: "disposition = PromotedBacklog \<longleftrightarrow>
      l_status source \<noteq> ''done'' \<and> (\<exists>u. im_humanOwnerUserId i = Some u \<and> isActiveMember (w_store w) ?org u)"
    using s(5,6) by (auto simp: importDisposition_def split: option.splits)
  show ?thesis
  proof (cases "selectLegacyTaskAliasForUpdate (w_store w) ?org (l_id source)")
    case (Some a)
    then show ?thesis using s branch promoted
      by (intro exI[of _ source] exI[of _ digest] exI[of _ "disposition = PromotedBacklog"]) auto
  next
    case None
    then have "first_import rt e source owner disposition digest (w_store w) x (w_store w')" using branch by simp
    then show ?thesis using s promoted None
      by (intro exI[of _ source] exI[of _ digest] exI[of _ "disposition = PromotedBacklog"])
        (auto simp: first_import_def selectLegacyTaskAliasForUpdate_def selectHistoricalRecordForUpdate_def
          imported_alias_def imported_record_def with_ticket_def selectDevTicket_def split: if_splits
          intro!: exI[of _ "legacy_ticket e source owner h" for h])
  qed
qed

theorem import_preserves_the_source_witness:
  "\<exists>t. devTickets (w_store (snd (runCommand demo_runtime import_envelope (ImportLegacyDevTicket import_request) legacy_board))) =
     [(key demo_org ''w'' ''l'', t)]"
proof -
  have "isActiveMember (w_store legacy_board) demo_org ''u''" by code_simp
  then show ?thesis
    using import_preserves_the_source[OF legacy_inv _ _ is_okD[OF import_accepted]] demo_scope(2)
    by (auto simp: import_envelope_def import_request_def demo_envelope_def legacy_board_def demo_world_def empty_world_def
        selectLegacyTaskSource_def selectLegacyTaskAliasForUpdate_def empty_store_def)
qed

section \<open>A draft is always possible\<close>

lemma finalize_fresh:
  assumes "map_get m (receiptKey (envelope_lookup e)) = None" "\<And>k r. (k, r) \<in> set m \<Longrightarrow> rk_organizationId r = env_organizationId e \<Longrightarrow> rr_commandId r \<noteq> env_commandId e"
    and "fi_organizationId i = env_organizationId e" "fi_commandId i = env_commandId e"
  shows "fst (finalizeTransaction i (map_set (receiptKey (envelope_lookup e)) (reserved_record e) m)) = ok ()"
proof -
  let ?k = "receiptKey (envelope_lookup e)"
  have "map_set ?k (reserved_record e) m = m @ [(?k, reserved_record e)]" using assms(1) by (induction m) (auto split: if_splits)
  moreover have "find (\<lambda>(k, r). rk_organizationId r = fi_organizationId i \<and> rr_commandId r = fi_commandId i) m = None"
    using assms(2-4) by (auto simp: find_None_iff)
  then have "find (\<lambda>(k, r). rk_organizationId r = fi_organizationId i \<and> rr_commandId r = fi_commandId i) (m @ [(?k, reserved_record e)]) =
      Some (?k, reserved_record e)"
    using assms(3,4) by (induction m) (auto simp: reserved_record_def split: if_splits)
  ultimately show ?thesis by (simp add: finalizeTransaction_def reserved_record_def)
qed

text \<open>
  C24. Liveness: in a fit session, a draft with a well-formed actor, summary, assessment and contract, under a key
  and command id not used before and for a proposal id that is free in its workspace, is accepted, and the draft
  stands on the board at version 1.
\<close>

theorem wellformed_drafts_are_accepted:
  assumes session: "is_uuid (env_organizationId e)" "session_ok (rt_database rt) (env_organizationId e)"
    and unused: "unseen e w" "\<And>k r. (k, r) \<in> set (w_receipts w) \<Longrightarrow> rk_organizationId r = env_organizationId e \<Longrightarrow> rr_commandId r \<noteq> env_commandId e"
    and actor: "parseCommandActorRef (env_actorRef e) = ok actor"
    and input: "normalizeDiscoverySummary (dp_discoverySummary i) = ok summary" "parseBlockingAssessment (dp_blockingAssessment i) = ok assessment"
      "parseReadyContractContent (rt_sha256 rt) (or_empty (dp_suggestedContract i)) = ok contract"
    and free: "selectProposalForUpdate (w_store w) (env_organizationId e) (env_workspaceId e) (env_targetAggregateId e) = None"
  shows "\<exists>x w' p. runCommand rt e (DraftProposal i) w = (Returned (ok x), w') \<and>
      selectProposalForUpdate (w_store w') (env_organizationId e) (env_workspaceId e) (env_targetAggregateId e) = Some p \<and>
      p_version p = 1 \<and> p_lifecycleState p = ProposalDraft \<and> p_discoverySummary p = summary \<and> cr_proposalId x = Some (env_targetAggregateId e)"
proof -
  let ?m = "map_set (receiptKey (envelope_lookup e)) (reserved_record e) (w_receipts w)"
  have fin: "\<exists>m'. finalizeTransaction f ?m = (ok (), m')" if "fi_organizationId f = env_organizationId e" "fi_commandId f = env_commandId e" for f
    using finalize_fresh[OF unused that] by (cases "finalizeTransaction f ?m") auto
  have reserve: "reserve e w = (Returned (Inr \<lparr>rr_commandId = env_commandId e, rr_state = Reserved, rr_outcomeCode = None, rr_resultRef = None,
      rr_resultSummary = None, rr_resultingVersions = None\<rparr>), w\<lparr>w_receipts := ?m\<rparr>)"
    using unused(1) actor by (simp add: reserve_def reserveOrReplay_def Let_def step_simps)
  let ?row = "\<lparr>p_id = env_targetAggregateId e, p_organizationId = env_organizationId e,
       p_workspaceId = env_workspaceId e, p_version = 1, p_lifecycleState = ProposalDraft, p_archivedAt = None,
       p_archivedByUserId = None, p_archivedReason = None, p_discoverySummary = summary,
       p_blockingAssessment = assessment, p_suggestedContract = contract, p_createdCommandId = env_commandId e,
       p_acceptedCommandId = None, p_acceptedDevTicketId = None\<rparr>"
  let ?st = "(w_store w)\<lparr>proposals := map_set (key (env_organizationId e) (env_workspaceId e) (env_targetAggregateId e)) ?row (proposals (w_store w))\<rparr>"
  have ins: "risky (stepStore (insertProposal
         \<lparr>ip_id = env_targetAggregateId e, ip_organizationId = env_organizationId e, ip_workspaceId = env_workspaceId e, ip_discoverySummary = summary,
          ip_blockingAssessment = assessment, ip_suggestedContract = contract, ip_createdCommandId = env_commandId e\<rparr>)) (w\<lparr>w_receipts := ?m\<rparr>) =
      (Returned (ok ?row), w\<lparr>w_receipts := ?m, w_store := ?st\<rparr>)"
    using free by (simp add: risky_def executeRiskyMutation_def stepStore_def insertProposal_def Let_def selectProposalForUpdate_def)
  have "canonicalJson (JObject contract) \<noteq> None" using input(3) by (simp add: parseReadyContractContent_ok_iff)
  then obtain s where "canonicalJson (JObject [(''discoverySummary'', JString summary), (''blockingAssessment'', JString (show_assessment assessment)),
      (''suggestedContract'', JObject contract)]) = Some s"
    by (auto simp: canon_object_def)
  then have plan: "\<exists>l. planning rt e (env_targetAggregateId e) ''ProposalDrafted'' ''Proposal drafted''
      [(''discoverySummary'', JString summary), (''blockingAssessment'', JString (show_assessment assessment)),
       (''suggestedContract'', JObject contract)] v = (Returned (), v\<lparr>w_ledger := l\<rparr>)" for v
    by (simp add: planning_def contentHash_def computeReadyContractContentHash_def ledgerOrThrow_def step_simps
        appendPlanningDecisionEntry_def Let_def) blast
  obtain l where l: "planning rt e (env_targetAggregateId e) ''ProposalDrafted'' ''Proposal drafted''
      [(''discoverySummary'', JString summary), (''blockingAssessment'', JString (show_assessment assessment)),
       (''suggestedContract'', JObject contract)] (w\<lparr>w_receipts := ?m, w_store := ?st\<rparr>) = (Returned (), w\<lparr>w_receipts := ?m, w_store := ?st, w_ledger := l\<rparr>)"
    using plan by blast
  let ?a = "acceptance e ''dev_board.proposal_drafted'' (env_targetAggregateId e) [proposalVersion ?row] [(''proposalId'', env_targetAggregateId e)]"
  obtain m' where "finalizeTransaction ?a ?m = (ok (), m')" using fin[of ?a] by (auto simp: acceptance_def)
  then have "draftProposal_body rt e i (w\<lparr>w_receipts := ?m\<rparr>) =
      (Returned (ok \<lparr>cr_commandId = env_commandId e, cr_resultingVersions = [proposalVersion ?row], cr_proposalId = Some (env_targetAggregateId e),
         cr_devTicketId = None, cr_dependencyEdgeId = None\<rparr>), w\<lparr>w_receipts := m', w_store := ?st, w_ledger := l\<rparr>)"
    using input ins l by (simp add: draftProposal_body_def andThen_def accept_def finalizeOrThrow_def onReceipts_def ret_def)
  then show ?thesis using session reserve
    by (simp add: draftProposal_def inTenant_def withTenant_entry reserved_def andThen_def selectProposalForUpdate_def)
qed

theorem wellformed_drafts_are_accepted_witness:
  "\<exists>x w'. runCommand demo_runtime draft_envelope (DraftProposal draft_request) demo_start = (Returned (ok x), w')"
proof -
  have "is_ok ((Returned (parseCommandActorRef (env_actorRef draft_envelope)), ()))" by code_simp
  then obtain actor where actor: "parseCommandActorRef (env_actorRef draft_envelope) = ok actor"
    by (auto simp: is_ok_def split: sum.splits)
  have input: "normalizeDiscoverySummary (dp_discoverySummary draft_request) = ok ''x''"
    "parseBlockingAssessment (dp_blockingAssessment draft_request) = ok Blocking"
    "parseReadyContractContent (rt_sha256 demo_runtime) (or_empty (dp_suggestedContract draft_request)) = ok []" by code_simp+
  have "w_receipts demo_start = []" "proposals (w_store demo_start) = []"
    by (simp_all add: demo_start_def empty_world_def grantActiveMembership_def grantOrganizationRole_def)
  then show ?thesis
    using wellformed_drafts_are_accepted[OF _ _ _ _ actor input, of demo_start] demo_session
    by (auto simp: draft_envelope_def demo_envelope_def selectProposalForUpdate_def demo_runtime_def)
qed

end
