(* ===== verification/Store_Properties.thy ===== *)
theory Store_Properties
  imports Scenario "HOL-Library.Multiset"
begin

text \<open>
  What the operations of the planning store, the receipts and the queue arithmetic promise on their own, for any
  store they are applied to.
\<close>

section \<open>The dependency graph\<close>

text \<open>
  C8. The search behind \<^verbatim>\<open>dependencyCreatesCycle\<close> terminates on every graph, cyclic ones included, and
  answers yes exactly when a chain of active dependencies of the workspace, of any length, leads from the
  blocker to the dependent.
\<close>

theorem cycle_search_decides_reachability:
  "dependencyCreatesCycle st org ws dependent blocker \<longleftrightarrow> (blocker, dependent) \<in> (depends_on st org ws)\<^sup>*"
  by (rule dependencyCreatesCycle_iff_reaches)

text \<open>
  The lock status of a ticket names exactly its active blockers, each with whether it is Done; the ticket is
  locked exactly when one of them is not.
\<close>

theorem lock_status_lists_the_blockers:
  "set (map fst (ls_blockers (dependencyLockStatus_store st org ws tid))) = {b. (tid, b) \<in> depends_on st org ws} \<and>
   (\<forall>(b, finished) \<in> set (ls_blockers (dependencyLockStatus_store st org ws tid)).
      finished \<longleftrightarrow> (\<exists>t. selectDevTicket st org ws b = Some t \<and> t_lane t = Done)) \<and>
   (ls_locked (dependencyLockStatus_store st org ws tid) \<longleftrightarrow>
      (\<exists>b. (tid, b) \<in> depends_on st org ws \<and> (\<forall>t. selectDevTicket st org ws b = Some t \<longrightarrow> t_lane t \<noteq> Done)))"
  unfolding lock_status_locked
  by (auto simp: dependencyLockStatus_store_def waits_on_def Let_def selectDevTicket_def image_iff split: option.splits)

theorem lock_status_lists_the_blockers_witness:
  "ls_locked (dependencyLockStatus_store (w_store blocked_board) demo_org ''w'' ''a'') \<and>
   ls_blockers (dependencyLockStatus_store (w_store blocked_board) demo_org ''w'' ''a'') = [(''b'', False)] \<and>
   (''a'', ''b'') \<in> depends_on (w_store blocked_board) demo_org ''w''"
proof -
  have "ls_blockers (dependencyLockStatus_store (w_store blocked_board) demo_org ''w'' ''a'') = [(''b'', False)]"
    "ls_locked (dependencyLockStatus_store (w_store blocked_board) demo_org ''w'' ''a'')" by code_simp+
  then show ?thesis using lock_status_lists_the_blockers[of "w_store blocked_board" demo_org "''w''" "''a''"] by auto
qed

section \<open>The Todo queue\<close>

text \<open>
  In a well-formed queue the listing of a workspace's band is strictly increasing by rank and holds exactly the
  stored memberships of that workspace, whatever the collation of ids; all ranks are positive 64-bit integers.
\<close>

theorem todo_listing_is_ordered_and_complete:
  assumes "queue_wf st" "colon_free org" "colon_free ws"
  shows "sorted_wrt (\<lambda>l r. m_rank l < m_rank r) (listTodoQueueRanks lc st org ws) \<and>
    (\<forall>m. m \<in> set (listTodoQueueRanks lc st org ws) \<longleftrightarrow> todoQueueMembership st org ws (m_devTicketId m) = Some m) \<and>
    (\<forall>m \<in> set (listTodoQueueRanks lc st org ws). 0 < m_rank m \<and> m_rank m \<le> 9223372036854775807)"
proof -
  have ob: "ordered_band (band st org ws) (listTodoQueueRanks lc st org ws)" using listed_ordered assms by blast
  have in_band: "m \<in> set (listTodoQueueRanks lc st org ws) \<longleftrightarrow> todoQueueMembership st org ws (m_devTicketId m) = Some m" for m
  proof -
    have "m_devTicketId n = m_devTicketId m" if "todoQueueMembership st org ws (m_devTicketId m) = Some n" for n
      using queue_entry[of st org ws "m_devTicketId m" n] that assms by (simp add: queue_wf_def)
    then show ?thesis using ob by (auto simp: ordered_band_def band_def member_eq)
  qed
  have "0 < m_rank m \<and> m_rank m \<le> 9223372036854775807" if "m \<in> set (listTodoQueueRanks lc st org ws)" for m
  proof -
    have "m_rank m \<in> ran (band st org ws)" using ob that by (auto simp: ordered_band_def ran_def)
    then show ?thesis using assms by (auto simp: queue_wf_def ranks_ok_def rank_limit_def)
  qed
  then show ?thesis using ob in_band by (simp add: ordered_band_def)
qed

theorem todo_listing_is_ordered_and_complete_witness:
  "\<forall>m. m \<in> set (listTodoQueueRanks (\<lambda>_ _. 0) queued_store demo_org ''w'') \<longleftrightarrow>
     todoQueueMembership queued_store demo_org ''w'' (m_devTicketId m) = Some m"
  using todo_listing_is_ordered_and_complete[OF queued_bands demo_scope] by blast



lemma spaced_nth: "spaced i tids = map (\<lambda>j. member (tids ! j) ((i + int j + 2) * 1000000)) [0..<length tids]"
  by (induction tids arbitrary: i) (simp, simp add: map_upt_Suc algebra_simps del: upt_Suc)

text \<open>
  A rebalance lists the tickets in the order it was given, at ranks one million apart starting at two million,
  and keeps the queue well-formed, as long as the ranks fit into 64 bits.
\<close>

theorem rebalance_spaces_the_queue:
  assumes "queue_wf st" "colon_free org" "colon_free ws" "distinct tids"
    and "set tids = {tid. todoQueueMembership st org ws tid \<noteq> None}" "(int (length tids) + 1) * 1000000 \<le> 9223372036854775807"
  shows "queue_wf (rebalanceTodoBand org ws tids st) \<and>
    listTodoQueueRanks lc (rebalanceTodoBand org ws tids st) org ws = map (\<lambda>i. member (tids ! i) ((int i + 2) * 1000000)) [0..<length tids]"
proof -
  have "set tids = dom (band st org ws)" using assms(5) by (auto simp: band_def dom_def)
  from rebalanced_queue[OF assms(1) _ assms(4) this, of lc] assms(2,3,6) show ?thesis
    by (simp add: rank_limit_def spaced_nth)
qed

theorem rebalance_spaces_the_queue_witness:
  "listTodoQueueRanks (\<lambda>_ _. 0) (rebalanceTodoBand demo_org ''w'' [''b'', ''a''] queued_store) demo_org ''w'' =
     [member ''b'' 2000000, member ''a'' 3000000]"
proof -
  have "todoQueueMembership queued_store demo_org ''w'' tid \<noteq> None \<longleftrightarrow> tid \<in> {''a'', ''b''}" for tid
    by (auto simp: todoQueueMembership_def queued_store_def dest: key_inj)
  then have "set [''b'', ''a''] = {tid. todoQueueMembership queued_store demo_org ''w'' tid \<noteq> None}" by auto
  then show ?thesis using rebalance_spaces_the_queue[OF queued_bands demo_scope, of "[''b'', ''a'']" "\<lambda>_ _. 0"] by simp
qed

section \<open>Optimistic locking and savepoints\<close>

text \<open>
  C26. Optimistic locking loses no update: of two writers that read the same version of a proposal, of a ticket
  (classification or Ready approval), of a dependency edge or of the Todo queue header, the second changes
  nothing once the first has succeeded.
\<close>

theorem second_writer_changes_nothing:
  "(\<forall>i j st p st'. updateProposal i st = (Some p, st') \<longrightarrow>
      (up_organizationId j, up_workspaceId j, up_proposalId j, up_expectedVersion j) =
        (up_organizationId i, up_workspaceId i, up_proposalId i, up_expectedVersion i) \<longrightarrow> updateProposal j st' = (None, st')) \<and>
   (\<forall>i j st t st'. updateDevTicketClassification i st = (Some t, st') \<longrightarrow>
      (cl_organizationId j, cl_workspaceId j, cl_devTicketId j, cl_expectedVersion j) =
        (cl_organizationId i, cl_workspaceId i, cl_devTicketId i, cl_expectedVersion i) \<longrightarrow> updateDevTicketClassification j st' = (None, st')) \<and>
   (\<forall>i j st t st'. updateDevTicketForReadyApproval i st = (Some t, st') \<longrightarrow>
      (ra_organizationId j, ra_workspaceId j, ra_devTicketId j, ra_expectedVersion j) =
        (ra_organizationId i, ra_workspaceId i, ra_devTicketId i, ra_expectedVersion i) \<longrightarrow> updateDevTicketForReadyApproval j st' = (None, st')) \<and>
   (\<forall>i j st g st'. retireDependencyEdge i st = (Some g, st') \<longrightarrow>
      (re_organizationId j, re_workspaceId j, re_edgeId j, re_expectedVersion j) =
        (re_organizationId i, re_workspaceId i, re_edgeId i, re_expectedVersion i) \<longrightarrow> retireDependencyEdge j st' = (None, st')) \<and>
   (\<forall>org ws v st h st'. casBumpTodoQueueVersion org ws v st = (Some h, st') \<longrightarrow> casBumpTodoQueueVersion org ws v st' = (None, st'))"
proof (intro conjI allI impI, goal_cases)
  case (1 i j st p st')
  then show ?case using proposal_cas.no_lost_update[OF 1(1), of j] by simp
next
  case (2 i j st t st')
  then show ?case using classification_cas.no_lost_update[OF 2(1), of j] by simp
next
  case (3 i j st t st')
  then show ?case using approval_cas.no_lost_update[OF 3(1), of j] by simp
next
  case (4 i j st g st')
  then show ?case using edge_cas.no_lost_update[OF 4(1), of j] by simp
next
  case (5 org ws v st h st')
  then show ?case using header_cas.no_lost_update[of "(org, ws, v)" st h st' "(org, ws, v)"] by simp
qed

definition demo_update :: "proposal_state \<Rightarrow> update_proposal_input" where
  "demo_update s = proposal_update (demo_envelope ''3'' ''p'' []) ''p'' 2 s"

theorem second_writer_changes_nothing_witness:
  "let st' = snd (updateProposal (demo_update Rejected) (w_store undecided_board))
   in fst (updateProposal (demo_update Rejected) (w_store undecided_board)) \<noteq> None \<and> updateProposal (demo_update Merged) st' = (None, st')"
proof -
  let ?u = "updateProposal (demo_update Rejected) (w_store undecided_board)"
  have "fst ?u \<noteq> None" by code_simp
  then obtain p where "?u = (Some p, snd ?u)" by (cases ?u) auto
  then have "updateProposal (demo_update Merged) (snd ?u) = (None, snd ?u)"
    using conjunct1[OF second_writer_changes_nothing] by (auto simp: demo_update_def proposal_update_def)
  then show ?thesis using \<open>fst ?u \<noteq> None\<close> by (simp add: Let_def)
qed

text \<open>
  A mutation behind a savepoint either returns its value with its changes, or, when it throws, leaves every
  map of the store as it was; a violated reference or a duplicate identity comes back as a domain error, and
  every other error is thrown on unchanged.
\<close>

theorem savepoint_restores_the_store:
  "(\<forall>x st'. mutation st = (Returned x, st') \<longrightarrow> executeRiskyMutation mutation st = (Returned (ok x), st')) \<and>
   (\<forall>er st'. mutation st = (Thrown er, st') \<longrightarrow>
      (\<exists>r st''. executeRiskyMutation mutation st = (r, st'') \<and> proposals st'' = proposals st \<and> devTickets st'' = devTickets st \<and>
        dependencyEdges st'' = dependencyEdges st \<and> todoQueueHeaders st'' = todoQueueHeaders st \<and>
        todoQueueMemberships st'' = todoQueueMemberships st \<and> legacyTaskAliases st'' = legacyTaskAliases st \<and>
        historicalRecords st'' = historicalRecords st \<and>
        (if er = SqlState ''23503'' \<or> er = SqlState ''23505'' then \<exists>d. r = Returned (err d) else r = Thrown er)))"
  by (auto simp: executeRiskyMutation_def restore_maps_def split: js_error.splits)

theorem savepoint_restores_the_store_witness:
  "\<exists>r st''. executeRiskyMutation (\<lambda>st. (Thrown (SqlState ''23505'') :: unit js_result, empty_store)) queued_store = (r, st'') \<and>
     devTickets st'' = devTickets queued_store"
  using savepoint_restores_the_store[of "\<lambda>st. (Thrown (SqlState ''23505'') :: unit js_result, empty_store)" queued_store] by auto

section \<open>Receipts\<close>

text \<open>
  Two receipt lookups share a key only if they agree in organization, workspace, command name and
  idempotency key: no choice of delimiters inside the four strings makes them collide.
\<close>

theorem receipt_keys_are_unambiguous: "receiptKey i = receiptKey j \<longleftrightarrow> i = j"
  using receiptKey_inj by blast

text \<open>
  A receipt that has reached a terminal state never changes again: neither reserving nor finalising touches
  it, and no receipt disappears.
\<close>

theorem terminal_receipts_are_final:
  assumes "receipts_wf m" "map_get m k = Some r"
  shows "(rr_state r \<noteq> Reserved \<longrightarrow> map_get (snd (reserveOrReplay e m)) k = Some r \<and> map_get (snd (finalizeTransaction i m)) k = Some r) \<and>
    map_get (snd (reserveOrReplay e m)) k \<noteq> None \<and> map_get (snd (finalizeTransaction i m)) k \<noteq> None"
  using reserve_advances[of m e] finalize_advances[of m i] assms unfolding receipts_advance_def by fastforce

definition demo_receipts :: receipt_map where
  "demo_receipts = [(receiptKey (envelope_lookup draft_envelope), (reserved_record draft_envelope)\<lparr>rr_state := ReceiptAccepted\<rparr>)]"

theorem terminal_receipts_are_final_witness:
  "map_get (snd (reserveOrReplay accept_envelope demo_receipts)) (receiptKey (envelope_lookup draft_envelope)) =
     Some ((reserved_record draft_envelope)\<lparr>rr_state := ReceiptAccepted\<rparr>)"
proof -
  have "record_lookup ((reserved_record draft_envelope)\<lparr>rr_state := ReceiptAccepted\<rparr>) = envelope_lookup draft_envelope"
    by (simp add: record_lookup_def reserved_record_def envelope_lookup_def)
  then have "receipts_wf demo_receipts" by (simp add: receipts_wf_def demo_receipts_def)
  from terminal_receipts_are_final[OF this, of "receiptKey (envelope_lookup draft_envelope)"] show ?thesis by (simp add: demo_receipts_def)
qed

section \<open>Listings\<close>

lemma mset_insort_by [simp]: "mset (insort_by cmp x xs) = add_mset x (mset xs)"
  by (induction xs) auto

lemma mset_array_sort [simp]: "mset (array_sort cmp xs) = mset xs"
  by (induction xs) simp_all

text \<open>
  The archive lists exactly the archived tickets of the workspace, one entry per row, newest first; so do the
  listings of archived proposals and of historical records.
\<close>

theorem listings_are_complete_and_newest_first:
  "sorted_wrt (\<lambda>l r. the (ap_archivedAt r) \<le> the (ap_archivedAt l)) (listArchivedDevTickets lc st org ws) \<and>
   mset (map ap_devTicketId (listArchivedDevTickets lc st org ws)) =
     image_mset t_id {# t \<in># mset (map_values (devTickets st)). t_organizationId t = org \<and> t_workspaceId t = ws \<and> t_archivedAt t \<noteq> None #} \<and>
   sorted_wrt (\<lambda>l r. the (pp_archivedAt r) \<le> the (pp_archivedAt l)) (listArchivedProposals lc st org ws) \<and>
   mset (map pp_proposalId (listArchivedProposals lc st org ws)) =
     image_mset p_id {# p \<in># mset (map_values (proposals st)). p_organizationId p = org \<and> p_workspaceId p = ws \<and> p_archivedAt p \<noteq> None #} \<and>
   sorted_wrt (\<lambda>l r. hp_importedAt r \<le> hp_importedAt l) (listHistoricalRecords lc st org ws) \<and>
   mset (map hp_historicalRecordId (listHistoricalRecords lc st org ws)) =
     image_mset h_historicalRecordId {# h \<in># mset (map_values (historicalRecords st)). h_organizationId h = org \<and> h_workspaceId h = ws #}"
proof -
  have sorted: "sorted_wrt (\<lambda>l r. at r \<le> at l) (array_sort (newest_first lc at rid) xs)" for at :: "'r \<Rightarrow> js_date" and rid xs
    using array_sort_newest by (simp add: newest_sorted_def)
  show ?thesis unfolding listArchivedDevTickets_def listArchivedProposals_def listHistoricalRecords_def
    by (simp add: sorted_wrt_map sorted comp_def)
qed

section \<open>Database errors\<close>

text \<open>
  What leaves a tenant transaction is a public database error, an error of the program itself, or the generic
  operation error: no SQLSTATE object gets through. Privilege and reference violations read as Forbidden, the
  other integrity violations as Conflict.
\<close>

theorem database_errors_are_public:
  "(\<forall>s. mapDatabaseError er \<noteq> SqlState s) \<and>
   (\<forall>s. er = SqlState s \<and> is_sqlstate s \<longrightarrow> mapDatabaseError er =
      PublicDatabase (if s = ''42501'' \<or> s = ''23503'' then ForbiddenError else if take 2 s = ''23'' then ConflictError else DatabaseOperationError)) \<and>
   mapDatabaseError (mapDatabaseError er) = mapDatabaseError er"
proof -
  have public: "mapDatabaseError (PublicDatabase p) = PublicDatabase p" for p by (simp add: mapDatabaseError_def isPublicDatabaseError_def)
  have same: "(\<exists>p. mapDatabaseError er = PublicDatabase p) \<or> mapDatabaseError er = er"
    by (auto simp: mapDatabaseError_def split: option.splits)
  have "\<exists>p. mapDatabaseError (SqlState s) = PublicDatabase p" for s
    by (auto simp: mapDatabaseError_def isPublicDatabaseError_def is_error_instance_def split: option.splits)
  then have "mapDatabaseError er \<noteq> SqlState s" for s using same by (metis js_error.distinct(9))
  moreover have "mapDatabaseError (SqlState s) =
      PublicDatabase (if s = ''42501'' \<or> s = ''23503'' then ForbiddenError else if take 2 s = ''23'' then ConflictError else DatabaseOperationError)"
    if "is_sqlstate s" for s
    using that by (auto simp: mapDatabaseError_def isPublicDatabaseError_def findSqlState_def error_code_def)
  ultimately show ?thesis using same public by auto
qed

theorem database_errors_are_public_witness: "mapDatabaseError (SqlState ''23505'') = PublicDatabase ConflictError"
proof -
  have "is_sqlstate ''23505''" by code_simp
  then show ?thesis using database_errors_are_public[of "SqlState ''23505''"] by simp
qed

end
