(* ===== verification/Assistant_Domain.thy ===== *)
theory Assistant_Domain
  imports Canonical_Json
begin

text \<open>
  The domain of the assistant runtime (\<^verbatim>\<open>packages/runtime-control/src/domain/assistant.ts\<close>):
  conversations, turns and tool outcomes, the enumerations they use with their parsers, the
  normalisation of runtime keys and the guards of the life cycle of a turn. The life cycle itself is
  the relation \<open>turn_moves\<close>, which the guards are shown to decide.
\<close>

section \<open>Enumerations\<close>

datatype conversation_status = OpenConversation | ArchivedConversation

datatype turn_role = UserTurn | AssistantTurn | ToolTurn | SystemTurn

datatype turn_status = Queued | Streaming | Finalizing | Final | Failed

datatype outcome_status = Started | Succeeded | OutcomeFailed

primrec show_conversation_status :: "conversation_status \<Rightarrow> string" where
  "show_conversation_status OpenConversation = ''open''"
| "show_conversation_status ArchivedConversation = ''archived''"

primrec show_turn_role :: "turn_role \<Rightarrow> string" where
  "show_turn_role UserTurn = ''user''"
| "show_turn_role AssistantTurn = ''assistant''"
| "show_turn_role ToolTurn = ''tool''"
| "show_turn_role SystemTurn = ''system''"

primrec show_turn_status :: "turn_status \<Rightarrow> string" where
  "show_turn_status Queued = ''queued''"
| "show_turn_status Streaming = ''streaming''"
| "show_turn_status Finalizing = ''finalizing''"
| "show_turn_status Final = ''final''"
| "show_turn_status Failed = ''failed''"

primrec show_outcome_status :: "outcome_status \<Rightarrow> string" where
  "show_outcome_status Started = ''started''"
| "show_outcome_status Succeeded = ''succeeded''"
| "show_outcome_status OutcomeFailed = ''failed''"

definition assistantConversationStatuses :: "conversation_status list" where
  "assistantConversationStatuses = [OpenConversation, ArchivedConversation]"

definition assistantTurnRoles :: "turn_role list" where
  "assistantTurnRoles = [UserTurn, AssistantTurn, ToolTurn, SystemTurn]"

definition assistantTurnStatuses :: "turn_status list" where
  "assistantTurnStatuses = [Queued, Streaming, Finalizing, Final, Failed]"

definition assistantToolOutcomeStatuses :: "outcome_status list" where
  "assistantToolOutcomeStatuses = [Started, Succeeded, OutcomeFailed]"

definition parseAssistantConversationStatus :: "js_value \<Rightarrow> conversation_status result" where
  "parseAssistantConversationStatus = parseEnum show_conversation_status assistantConversationStatuses
     (failure ''runtimeControl.invalidConversationStatus'' ''Assistant conversation status is invalid.'')"

definition parseAssistantTurnRole :: "js_value \<Rightarrow> turn_role result" where
  "parseAssistantTurnRole = parseEnum show_turn_role assistantTurnRoles
     (failure ''runtimeControl.invalidTurnRole'' ''Assistant turn role is invalid.'')"

definition parseAssistantTurnStatus :: "js_value \<Rightarrow> turn_status result" where
  "parseAssistantTurnStatus = parseEnum show_turn_status assistantTurnStatuses
     (failure ''runtimeControl.invalidTurnStatus'' ''Assistant turn status is invalid.'')"

definition parseAssistantToolOutcomeStatus :: "js_value \<Rightarrow> outcome_status result" where
  "parseAssistantToolOutcomeStatus = parseEnum show_outcome_status assistantToolOutcomeStatuses
     (failure ''runtimeControl.invalidToolOutcomeStatus'' ''Assistant tool outcome status is invalid.'')"

interpretation conversation_status_enum: string_enum show_conversation_status assistantConversationStatuses
proof unfold_locales
  fix x y show "show_conversation_status x = show_conversation_status y \<Longrightarrow> x = y" by (cases x; cases y) auto
  fix x show "x \<in> set assistantConversationStatuses" by (cases x) (auto simp: assistantConversationStatuses_def)
qed

interpretation turn_role_enum: string_enum show_turn_role assistantTurnRoles
proof unfold_locales
  fix x y show "show_turn_role x = show_turn_role y \<Longrightarrow> x = y" by (cases x; cases y) auto
  fix x show "x \<in> set assistantTurnRoles" by (cases x) (auto simp: assistantTurnRoles_def)
qed

interpretation turn_status_enum: string_enum show_turn_status assistantTurnStatuses
proof unfold_locales
  fix x y show "show_turn_status x = show_turn_status y \<Longrightarrow> x = y" by (cases x; cases y) auto
  fix x show "x \<in> set assistantTurnStatuses" by (cases x) (auto simp: assistantTurnStatuses_def)
qed

interpretation outcome_status_enum: string_enum show_outcome_status assistantToolOutcomeStatuses
proof unfold_locales
  fix x y show "show_outcome_status x = show_outcome_status y \<Longrightarrow> x = y" by (cases x; cases y) auto
  fix x show "x \<in> set assistantToolOutcomeStatuses" by (cases x) (auto simp: assistantToolOutcomeStatuses_def)
qed

section \<open>Conversations, turns and tool outcomes\<close>

record conversation =
  cv_id :: string
  cv_organizationId :: string
  cv_workspaceId :: string
  cv_surface :: string
  cv_assistantKey :: string
  cv_status :: conversation_status
  cv_createdByUserId :: string
  cv_createdAt :: js_date
  cv_updatedAt :: js_date

record assistant_turn =
  tn_id :: string
  tn_conversationId :: string
  tn_organizationId :: string
  tn_workspaceId :: string
  tn_role :: turn_role
  tn_status :: turn_status
  tn_actorUserId :: "string option"
  tn_assistantKey :: "string option"
  tn_content :: js_object
  tn_idempotencyKey :: string
  tn_openclawSessionRef :: "string option"
  tn_openclawRunRef :: "string option"
  tn_createdAt :: js_date
  tn_updatedAt :: js_date
  tn_finalizedAt :: "js_date option"

record tool_outcome =
  oc_id :: string
  oc_organizationId :: string
  oc_workspaceId :: string
  oc_turnId :: string
  oc_toolName :: string
  oc_toolCallId :: string
  oc_idempotencyKey :: string
  oc_status :: outcome_status
  oc_requestSummary :: js_object
  oc_resultSummary :: js_object
  oc_targetRef :: "string option"
  oc_createdAt :: js_date
  oc_updatedAt :: js_date
  oc_completedAt :: "js_date option"

section \<open>Runtime keys\<close>

definition normalizeRuntimeKey :: "string \<Rightarrow> string \<Rightarrow> string result" where
  "normalizeRuntimeKey v field =
     (let normalized = trim v in
      if length normalized = 0
      then err (failure ''runtimeControl.emptyRuntimeKey'' (field @ '' must be a non-empty string.''))
      else if length normalized > 180
      then err (failure ''runtimeControl.runtimeKeyTooLong'' (field @ '' must be 180 characters or fewer.''))
      else ok normalized)"

lemma normalizeRuntimeKey_ok_iff:
  "normalizeRuntimeKey v field = ok k \<longleftrightarrow> k = trim v \<and> 1 \<le> length k \<and> length k \<le> 180"
  by (auto simp: normalizeRuntimeKey_def Let_def Suc_le_eq)

lemma normalizeRuntimeKey_stable:
  "normalizeRuntimeKey v field = ok k \<Longrightarrow> normalizeRuntimeKey k field' = ok k"
  by (auto simp: normalizeRuntimeKey_ok_iff)

section \<open>The life cycle of a turn\<close>

definition canAppendAssistantDelta :: "turn_status \<Rightarrow> bool" where
  "canAppendAssistantDelta s \<longleftrightarrow> s = Queued \<or> s = Streaming"

definition canFinalizeAssistantTurn :: "turn_status \<Rightarrow> bool" where
  "canFinalizeAssistantTurn s \<longleftrightarrow> s = Queued \<or> s = Streaming"

definition isTerminalAssistantTurnStatus :: "turn_status \<Rightarrow> bool" where
  "isTerminalAssistantTurnStatus s \<longleftrightarrow> s = Final \<or> s = Failed"

text \<open>The events of a turn and the moves they make.\<close>

datatype turn_event = Delta | Finalize | Fail

inductive turn_moves :: "turn_status \<Rightarrow> turn_event \<Rightarrow> turn_status \<Rightarrow> bool" where
  stream: "s \<in> {Queued, Streaming} \<Longrightarrow> turn_moves s Delta Streaming"
| finalize: "s \<in> {Queued, Streaming} \<Longrightarrow> turn_moves s Finalize Final"
| fail: "s \<in> {Queued, Streaming, Finalizing} \<Longrightarrow> turn_moves s Fail Failed"

inductive_simps turn_moves_simps [simp]:
  "turn_moves s Delta t" "turn_moves s Finalize t" "turn_moves s Fail t"

definition turn_progress :: "turn_status \<Rightarrow> turn_status \<Rightarrow> bool" where
  "turn_progress = (\<lambda>s t. \<exists>e. turn_moves s e t)\<^sup>*\<^sup>*"

lemma turn_moves_source: "turn_moves s e t \<Longrightarrow> \<not> isTerminalAssistantTurnStatus s"
  by (cases e) (auto simp: isTerminalAssistantTurnStatus_def)

lemma turn_progress_refl [simp]: "turn_progress s s"
  by (simp add: turn_progress_def)

lemma turn_progress_trans: "turn_progress s t \<Longrightarrow> turn_progress t u \<Longrightarrow> turn_progress s u"
  unfolding turn_progress_def by (rule rtranclp_trans)

lemma turn_progress_move: "turn_moves s e t \<Longrightarrow> turn_progress s t"
  unfolding turn_progress_def by blast

lemma turn_progress_terminal:
  assumes "turn_progress s t" "isTerminalAssistantTurnStatus s"
  shows "t = s"
  using assms(1) unfolding turn_progress_def
  by (cases rule: converse_rtranclpE) (use assms(2) turn_moves_source in blast)+

text \<open>
  The three guards of the source are the enabledness of the events: a delta or a finalisation can
  happen exactly where the guards allow it, and a status is terminal exactly when no event is possible.
\<close>

lemma guards_decide_moves:
  "canAppendAssistantDelta s \<longleftrightarrow> (\<exists>t. turn_moves s Delta t)"
  "canFinalizeAssistantTurn s \<longleftrightarrow> (\<exists>t. turn_moves s Finalize t)"
  "isTerminalAssistantTurnStatus s \<longleftrightarrow> (\<forall>e t. \<not> turn_moves s e t)"
proof -
  show "isTerminalAssistantTurnStatus s \<longleftrightarrow> (\<forall>e t. \<not> turn_moves s e t)"
  proof
    assume "\<forall>e t. \<not> turn_moves s e t"
    then have "\<not> turn_moves s Fail Failed" by blast
    then show "isTerminalAssistantTurnStatus s" by (cases s) (auto simp: isTerminalAssistantTurnStatus_def)
  qed (use turn_moves_source in blast)
qed (auto simp: canAppendAssistantDelta_def canFinalizeAssistantTurn_def)

end
