(* ===== verification/Runtime_Store.thy ===== *)
theory Runtime_Store
  imports Assistant_Domain
begin

text \<open>
  The in-memory store of assistant conversations
  (\<^verbatim>\<open>packages/runtime-control/src/adapters/in-memory/runtime-conversation-store.ts\<close>) behind the port
  \<^verbatim>\<open>ports/runtime-conversation-store.ts\<close>: three maps and a counter that serves as clock. Every operation
  of the class is a step on \<open>runtime_store\<close>; a throw is the \<^verbatim>\<open>TypeError\<close> of a value that cannot be
  rendered. \<open>uuid\<close> is the i-th value of \<^verbatim>\<open>randomUUID()\<close>, \<open>localeCompare\<close> the collation of the host.
\<close>

section \<open>Rendering values\<close>

text \<open>
  \<^verbatim>\<open>stableJson\<close>: JSON text with sorted keys, in which everything JSON has no text for is \<^verbatim>\<open>null\<close>;
  \<open>None\<close> is the \<^verbatim>\<open>TypeError\<close> of a bigint.
\<close>

definition number_or_null :: "js_number \<Rightarrow> string" where
  "number_or_null n = (case number_json n of Some s \<Rightarrow> s | None \<Rightarrow> ''null'')"

primrec stableJson :: "js_value \<Rightarrow> string option" where
  "stableJson JUndefined = Some ''null''"
| "stableJson JNull = Some ''null''"
| "stableJson (JBool b) = Some (if b then ''true'' else ''false'')"
| "stableJson (JNumber n) = Some (number_or_null n)"
| "stableJson (JString s) = Some (json_quote s)"
| "stableJson (JArray xs) = canon_array (map stableJson xs)"
| "stableJson (JObject kvs) = canon_object (map (map_prod (\<lambda>k. k) stableJson) kvs)"
| "stableJson (JBigInt _) = None"
| "stableJson (JSymbol _) = Some ''null''"
| "stableJson (JFunction _) = Some ''null''"

definition sameJson :: "js_value \<Rightarrow> js_value \<Rightarrow> bool option" where
  "sameJson left right =
     (case (stableJson left, stableJson right) of (Some l, Some r) \<Rightarrow> Some (l = r) | _ \<Rightarrow> None)"

text \<open>
  \<^verbatim>\<open>JSON.stringify\<close>: the outer \<open>None\<close> is the throw for a bigint, the inner one the result \<^verbatim>\<open>undefined\<close>,
  which arrays render as \<^verbatim>\<open>null\<close> and objects leave out.
\<close>

definition stringify_array :: "string option option list \<Rightarrow> string option option" where
  "stringify_array xs =
     map_option (\<lambda>ss. Some (''['' @ join '','' (map (\<lambda>s. case s of Some t \<Rightarrow> t | None \<Rightarrow> ''null'') ss) @ '']'')) (those xs)"

definition stringify_object :: "(string \<times> string option option) list \<Rightarrow> string option option" where
  "stringify_object ms =
     map_option (\<lambda>ss. Some (''{'' @ join '','' (List.map_filter
       (\<lambda>(k, s). map_option (\<lambda>t. json_quote k @ '':'' @ t) s) (zip (map fst ms) ss)) @ ''}''))
     (those (map snd ms))"

primrec json_stringify :: "js_value \<Rightarrow> string option option" where
  "json_stringify JUndefined = Some None"
| "json_stringify JNull = Some (Some ''null'')"
| "json_stringify (JBool b) = Some (Some (if b then ''true'' else ''false''))"
| "json_stringify (JNumber n) = Some (Some (number_or_null n))"
| "json_stringify (JString s) = Some (Some (json_quote s))"
| "json_stringify (JArray xs) = stringify_array (map json_stringify xs)"
| "json_stringify (JObject kvs) = stringify_object (map (map_prod (\<lambda>k. k) json_stringify) kvs)"
| "json_stringify (JBigInt _) = None"
| "json_stringify (JSymbol _) = Some None"
| "json_stringify (JFunction _) = Some None"

text \<open>
  \<^verbatim>\<open>String(value)\<close>; arrays join their elements, null ones as the empty string. \<open>None\<close> is the
  \<^verbatim>\<open>TypeError\<close> of a symbol inside an array, and of an object with a member \<^verbatim>\<open>toString\<close> (which is data
  here, not a function) in place of the inherited method.
\<close>

definition number_string :: "js_number \<Rightarrow> string" where
  "number_string n =
     (case n of JInt i \<Rightarrow> int_to_string i | JDec s \<Rightarrow> s | JNaN \<Rightarrow> ''NaN''
      | JInfinity neg \<Rightarrow> if neg then ''-Infinity'' else ''Infinity'')"

fun to_string :: "js_value \<Rightarrow> string option" where
  "to_string JUndefined = Some ''undefined''"
| "to_string JNull = Some ''null''"
| "to_string (JBool b) = Some (if b then ''true'' else ''false'')"
| "to_string (JNumber n) = Some (number_string n)"
| "to_string (JString s) = Some s"
| "to_string (JArray xs) = map_option (join '','')
     (those (map (\<lambda>x. if x = JUndefined \<or> x = JNull then Some '''' else to_string x) xs))"
| "to_string (JObject kvs) = (if map_get kvs ''toString'' = None then Some ''[object Object]'' else None)"
| "to_string (JBigInt n) = Some (int_to_string n)"
| "to_string (JSymbol _) = None"
| "to_string (JFunction s) = Some s"

definition js_String :: "js_value \<Rightarrow> string option" where
  "js_String v = (case v of JSymbol s \<Rightarrow> Some s | _ \<Rightarrow> to_string v)"

text \<open>\<^verbatim>\<open>hay.includes(needle)\<close>\<close>

fun js_includes :: "string \<Rightarrow> string \<Rightarrow> bool" where
  "js_includes needle [] = (needle = [])"
| "js_includes needle (c # cs) = (take (length needle) (c # cs) = needle \<or> js_includes needle cs)"

definition serialize_error :: js_error where
  "serialize_error = TypeErr ''Do not know how to serialize a BigInt''"

definition convert_error :: js_error where
  "convert_error = TypeErr ''Cannot convert a value to a string''"

section \<open>Inputs and results of the port\<close>

record workspace_scope =
  sc_organizationId :: string
  sc_workspaceId :: string

record create_conversation = workspace_scope +
  cc_surface :: string
  cc_assistantKey :: string
  cc_createdByUserId :: string

record find_open_conversation =
  fo_surface :: string
  fo_assistantKey :: string
  fo_createdByUserId :: string

record append_user_turn = workspace_scope +
  au_conversationId :: string
  au_actorUserId :: string
  au_idempotencyKey :: string
  au_content :: js_object

record queue_assistant_turn = workspace_scope +
  qa_conversationId :: string
  qa_idempotencyKey :: string
  qa_assistantKey :: string
  qa_content :: "js_object option"
  qa_openclawSessionRef :: "string option"
  qa_openclawRunRef :: "string option"

record append_delta =
  de_turnId :: string
  de_deltaText :: string

record finalize_turn =
  fz_turnId :: string
  fz_content :: js_object
  fz_openclawSessionRef :: "string option"
  fz_openclawRunRef :: "string option"

record fail_turn =
  fl_turnId :: string
  fl_errorCode :: string
  fl_errorMessage :: string

text \<open>The optional reference of a tool outcome may be absent (\<open>None\<close>) or \<^verbatim>\<open>null\<close> (\<open>Some None\<close>).\<close>

record start_outcome = workspace_scope +
  so_turnId :: string
  so_toolName :: string
  so_toolCallId :: string
  so_idempotencyKey :: string
  so_requestSummary :: js_object
  so_targetRef :: "string option option"

datatype completion = Success | Failure

primrec completed_status :: "completion \<Rightarrow> outcome_status" where
  "completed_status Success = Succeeded"
| "completed_status Failure = OutcomeFailed"

record finish_outcome =
  fn_turnId :: string
  fn_toolName :: string
  fn_toolCallId :: string
  fn_idempotencyKey :: string
  fn_status :: completion
  fn_requestSummary :: js_object
  fn_resultSummary :: js_object
  fn_targetRef :: "string option"

datatype 'r insert_result = Inserted 'r | Replayed 'r

datatype 'r transition = Updated 'r | AlreadyFinal 'r | NotFound | InvalidState 'r

record task_run =
  tr_turn :: assistant_turn
  tr_outcomes :: "tool_outcome list"

section \<open>State and helpers\<close>

record runtime_store =
  rs_conversations :: "(string, conversation) js_map"
  rs_turns :: "(string, assistant_turn) js_map"
  rs_outcomes :: "(string, tool_outcome) js_map"
  rs_sequence :: int
  rs_uuids :: nat

type_synonym 'a rt_step = "(runtime_store, 'a result) step"

definition empty_runtime :: runtime_store where
  "empty_runtime = \<lparr>rs_conversations = [], rs_turns = [], rs_outcomes = [], rs_sequence = 0, rs_uuids = 0\<rparr>"

definition tick :: "runtime_store \<Rightarrow> runtime_store" where
  "tick st = st\<lparr>rs_sequence := rs_sequence st + 1\<rparr>"

definition drawn :: "runtime_store \<Rightarrow> runtime_store" where
  "drawn st = st\<lparr>rs_uuids := Suc (rs_uuids st)\<rparr>"

definition tenantAccessDenied :: domain_error where
  "tenantAccessDenied = failure ''tenant.accessDenied'' ''Tenant access denied.''"

definition inScope :: "string \<Rightarrow> string \<Rightarrow> 'a workspace_scope_scheme \<Rightarrow> bool" where
  "inScope org ws scope \<longleftrightarrow> org = sc_organizationId scope \<and> ws = sc_workspaceId scope"

definition assertScopedWrite :: "workspace_scope \<Rightarrow> 'a workspace_scope_scheme \<Rightarrow> unit result" where
  "assertScopedWrite scope input =
     (if inScope (sc_organizationId input) (sc_workspaceId input) scope then ok () else err tenantAccessDenied)"

definition targeted ::
  "('r \<Rightarrow> string) \<Rightarrow> ('r \<Rightarrow> string) \<Rightarrow> (string, 'r) js_map \<Rightarrow> string \<Rightarrow> workspace_scope \<Rightarrow> 'r option result" where
  "targeted org ws records rid scope =
     (case map_get records rid of
        None \<Rightarrow> ok None
      | Some r \<Rightarrow> if inScope (org r) (ws r) scope then ok (Some r) else err tenantAccessDenied)"

abbreviation targeted_conversation :: "runtime_store \<Rightarrow> string \<Rightarrow> workspace_scope \<Rightarrow> conversation option result" where
  "targeted_conversation st \<equiv> targeted cv_organizationId cv_workspaceId (rs_conversations st)"

definition turnForTransition :: "runtime_store \<Rightarrow> workspace_scope \<Rightarrow> string \<Rightarrow> assistant_turn option result" where
  "turnForTransition st scope turnId = targeted tn_organizationId tn_workspaceId (rs_turns st) turnId scope"

definition conversationForWrite :: "runtime_store \<Rightarrow> workspace_scope \<Rightarrow> string \<Rightarrow> conversation result" where
  "conversationForWrite st scope cid =
     (case targeted_conversation st cid scope of
        Inl e \<Rightarrow> err e
      | Inr None \<Rightarrow> err (failure ''runtimeControl.conversationNotFound'' ''Assistant conversation was not found.'')
      | Inr (Some c) \<Rightarrow> ok c)"

definition turnConflict :: domain_error where
  "turnConflict = failure ''runtimeControl.idempotencyConflict''
     ''Idempotency key was reused with a different assistant turn payload.''"

definition outcomeConflict :: domain_error where
  "outcomeConflict = failure ''runtimeControl.toolOutcomeConflict'' ''Tool call id was reused with a different payload.''"

text \<open>\<^verbatim>\<open>guard && sameJson(a, b) ? yes : no\<close>: the comparison runs only behind the guard.\<close>

definition whenSame :: "bool \<Rightarrow> js_object \<Rightarrow> js_object \<Rightarrow> 'a \<Rightarrow> 'a \<Rightarrow> ('s, 'a) step" where
  "whenSame guard a b yes no st =
     (if \<not> guard then (Returned no, st)
      else case sameJson (JObject a) (JObject b) of
             None \<Rightarrow> (Thrown serialize_error, st)
           | Some same \<Rightarrow> (Returned (if same then yes else no), st))"

text \<open>\<^verbatim>\<open>(a, b) => a.createdAt.getTime() - b.createdAt.getTime() || a.id.localeCompare(b.id)\<close>\<close>

definition oldest_first :: "(string \<Rightarrow> string \<Rightarrow> int) \<Rightarrow> ('r \<Rightarrow> js_date) \<Rightarrow> ('r \<Rightarrow> string) \<Rightarrow> 'r \<Rightarrow> 'r \<Rightarrow> int" where
  "oldest_first localeCompare at rid a b =
     (let difference = at a - at b in if difference \<noteq> 0 then difference else localeCompare (rid a) (rid b))"

section \<open>Operations\<close>

definition new_conversation_row :: "(nat \<Rightarrow> string) \<Rightarrow> workspace_scope \<Rightarrow> create_conversation \<Rightarrow> runtime_store \<Rightarrow> conversation" where
  "new_conversation_row uuid scope input st =
     (let now = rs_sequence st + 1 in
      \<lparr>cv_id = uuid (rs_uuids st), cv_organizationId = sc_organizationId scope,
        cv_workspaceId = sc_workspaceId scope, cv_surface = cc_surface input,
        cv_assistantKey = cc_assistantKey input, cv_status = OpenConversation,
        cv_createdByUserId = cc_createdByUserId input, cv_createdAt = now, cv_updatedAt = now\<rparr>)"

definition createConversation ::
  "(nat \<Rightarrow> string) \<Rightarrow> workspace_scope \<Rightarrow> create_conversation \<Rightarrow> conversation rt_step" where
  "createConversation uuid scope input st =
     (case assertScopedWrite scope input of
        Inl e \<Rightarrow> (Returned (err e), st)
      | Inr _ \<Rightarrow>
          let conversation = new_conversation_row uuid scope input st
          in (Returned (ok conversation),
              drawn (tick st)\<lparr>rs_conversations := map_set (cv_id conversation) conversation (rs_conversations st)\<rparr>))"

definition findOpenConversation ::
  "(string \<Rightarrow> string \<Rightarrow> int) \<Rightarrow> workspace_scope \<Rightarrow> find_open_conversation \<Rightarrow> conversation option rt_step" where
  "findOpenConversation localeCompare scope input st =
     (let matches = array_sort (oldest_first localeCompare cv_createdAt cv_id)
            (filter (\<lambda>r. inScope (cv_organizationId r) (cv_workspaceId r) scope \<and> cv_status r = OpenConversation \<and>
               cv_surface r = fo_surface input \<and> cv_assistantKey r = fo_assistantKey input \<and>
               cv_createdByUserId r = fo_createdByUserId input) (map_values (rs_conversations st)))
      in (Returned (ok (case matches of [] \<Rightarrow> None | c # _ \<Rightarrow> Some c)), st))"

definition listTurns :: "(string \<Rightarrow> string \<Rightarrow> int) \<Rightarrow> workspace_scope \<Rightarrow> string \<Rightarrow> assistant_turn list rt_step" where
  "listTurns localeCompare scope conversationId st =
     (Returned (case targeted_conversation st conversationId scope of
        Inl e \<Rightarrow> err e
      | Inr None \<Rightarrow> ok []
      | Inr (Some _) \<Rightarrow> ok (array_sort (oldest_first localeCompare tn_createdAt tn_id)
          (filter (\<lambda>t. inScope (tn_organizationId t) (tn_workspaceId t) scope \<and> tn_conversationId t = conversationId)
            (map_values (rs_turns st))))), st)"

definition turn_with_key :: "runtime_store \<Rightarrow> workspace_scope \<Rightarrow> string \<Rightarrow> string \<Rightarrow> assistant_turn option" where
  "turn_with_key st scope conversationId idempotencyKey =
     find (\<lambda>t. tn_organizationId t = sc_organizationId scope \<and> tn_conversationId t = conversationId \<and>
       tn_idempotencyKey t = idempotencyKey) (map_values (rs_turns st))"

definition user_turn_row :: "(nat \<Rightarrow> string) \<Rightarrow> workspace_scope \<Rightarrow> append_user_turn \<Rightarrow> runtime_store \<Rightarrow> assistant_turn" where
  "user_turn_row uuid scope input st =
     (let now = rs_sequence st + 1 in
      \<lparr>tn_id = uuid (rs_uuids st), tn_conversationId = au_conversationId input,
        tn_organizationId = sc_organizationId scope, tn_workspaceId = sc_workspaceId scope,
        tn_role = UserTurn, tn_status = Final, tn_actorUserId = Some (au_actorUserId input),
        tn_assistantKey = None, tn_content = au_content input, tn_idempotencyKey = au_idempotencyKey input,
        tn_openclawSessionRef = None, tn_openclawRunRef = None, tn_createdAt = now, tn_updatedAt = now,
        tn_finalizedAt = Some now\<rparr>)"

definition appendUserTurn ::
  "(nat \<Rightarrow> string) \<Rightarrow> workspace_scope \<Rightarrow> append_user_turn \<Rightarrow> assistant_turn insert_result rt_step" where
  "appendUserTurn uuid scope input st =
     (case assertScopedWrite scope input of
        Inl e \<Rightarrow> (Returned (err e), st)
      | Inr _ \<Rightarrow>
     (case conversationForWrite st scope (au_conversationId input) of
        Inl e \<Rightarrow> (Returned (err e), st)
      | Inr _ \<Rightarrow>
     (case turn_with_key st scope (au_conversationId input) (au_idempotencyKey input) of
        Some existing \<Rightarrow>
          whenSame (tn_role existing = UserTurn \<and> tn_actorUserId existing = Some (au_actorUserId input))
            (tn_content existing) (au_content input) (ok (Replayed existing)) (err turnConflict) st
      | None \<Rightarrow>
          let turn = user_turn_row uuid scope input st
          in (Returned (ok (Inserted turn)), drawn (tick st)\<lparr>rs_turns := map_set (tn_id turn) turn (rs_turns st)\<rparr>))))"

definition queued_turn_row :: "(nat \<Rightarrow> string) \<Rightarrow> workspace_scope \<Rightarrow> queue_assistant_turn \<Rightarrow> js_object \<Rightarrow> runtime_store \<Rightarrow> assistant_turn" where
  "queued_turn_row uuid scope input content st =
     (let now = rs_sequence st + 1 in
      \<lparr>tn_id = uuid (rs_uuids st), tn_conversationId = qa_conversationId input,
        tn_organizationId = sc_organizationId scope, tn_workspaceId = sc_workspaceId scope,
        tn_role = AssistantTurn, tn_status = Queued, tn_actorUserId = None,
        tn_assistantKey = Some (qa_assistantKey input), tn_content = content,
        tn_idempotencyKey = qa_idempotencyKey input, tn_openclawSessionRef = qa_openclawSessionRef input,
        tn_openclawRunRef = qa_openclawRunRef input, tn_createdAt = now, tn_updatedAt = now,
        tn_finalizedAt = None\<rparr>)"

definition queueAssistantTurn ::
  "(nat \<Rightarrow> string) \<Rightarrow> workspace_scope \<Rightarrow> queue_assistant_turn \<Rightarrow> assistant_turn insert_result rt_step" where
  "queueAssistantTurn uuid scope input st =
     (case assertScopedWrite scope input of
        Inl e \<Rightarrow> (Returned (err e), st)
      | Inr _ \<Rightarrow>
     (case conversationForWrite st scope (qa_conversationId input) of
        Inl e \<Rightarrow> (Returned (err e), st)
      | Inr _ \<Rightarrow>
     (let content = (case qa_content input of Some c \<Rightarrow> c | None \<Rightarrow> []) in
      case turn_with_key st scope (qa_conversationId input) (qa_idempotencyKey input) of
        Some existing \<Rightarrow>
          whenSame (tn_role existing = AssistantTurn \<and> tn_assistantKey existing = Some (qa_assistantKey input))
            (tn_content existing) content (ok (Replayed existing)) (err turnConflict) st
      | None \<Rightarrow>
          let turn = queued_turn_row uuid scope input content st
          in (Returned (ok (Inserted turn)), drawn (tick st)\<lparr>rs_turns := map_set (tn_id turn) turn (rs_turns st)\<rparr>))))"

text \<open>The turn a transition is about; every transition begins with it.\<close>

definition onTurn ::
  "workspace_scope \<Rightarrow> string \<Rightarrow> (assistant_turn \<Rightarrow> assistant_turn transition rt_step) \<Rightarrow> assistant_turn transition rt_step" where
  "onTurn scope turnId k st =
     (case turnForTransition st scope turnId of
        Inl e \<Rightarrow> (Returned (err e), st)
      | Inr None \<Rightarrow> (Returned (ok NotFound), st)
      | Inr (Some current) \<Rightarrow> k current st)"

definition saveTurn :: "assistant_turn \<Rightarrow> assistant_turn transition rt_step" where
  "saveTurn turn st = (Returned (ok (Updated turn)), tick st\<lparr>rs_turns := map_set (tn_id turn) turn (rs_turns st)\<rparr>)"

definition content_text :: "js_object \<Rightarrow> string" where
  "content_text content = (case map_get content ''text'' of Some (JString s) \<Rightarrow> s | _ \<Rightarrow> [])"

definition content_deltas :: "js_object \<Rightarrow> string list option" where
  "content_deltas content = (case map_get content ''deltas'' of Some (JArray xs) \<Rightarrow> those (map js_String xs) | _ \<Rightarrow> Some [])"

definition with_delta :: "js_object \<Rightarrow> string list \<Rightarrow> string \<Rightarrow> js_object" where
  "with_delta content deltas delta =
     spread content [(''text'', JString (content_text content @ delta)),
       (''deltas'', JArray (map JString (deltas @ [delta])))]"

definition appendAssistantDelta :: "workspace_scope \<Rightarrow> append_delta \<Rightarrow> assistant_turn transition rt_step" where
  "appendAssistantDelta scope input = onTurn scope (de_turnId input) (\<lambda>current st.
     if tn_role current \<noteq> AssistantTurn \<or> tn_status current \<noteq> Queued \<and> tn_status current \<noteq> Streaming
     then (Returned (ok (InvalidState current)), st)
     else case content_deltas (tn_content current) of
            None \<Rightarrow> (Thrown convert_error, st)
          | Some deltas \<Rightarrow>
              saveTurn (current\<lparr>tn_status := Streaming,
                tn_content := with_delta (tn_content current) deltas (de_deltaText input),
                tn_updatedAt := rs_sequence st + 1\<rparr>) st)"

definition finalizeAssistantTurn :: "workspace_scope \<Rightarrow> finalize_turn \<Rightarrow> assistant_turn transition rt_step" where
  "finalizeAssistantTurn scope input = onTurn scope (fz_turnId input) (\<lambda>current st.
     if tn_role current = AssistantTurn \<and> tn_status current = Final
     then (Returned (ok (AlreadyFinal current)), st)
     else if tn_role current \<noteq> AssistantTurn \<or> tn_status current \<noteq> Queued \<and> tn_status current \<noteq> Streaming
     then (Returned (ok (InvalidState current)), st)
     else saveTurn (current\<lparr>tn_status := Final, tn_content := fz_content input,
            tn_openclawSessionRef := fz_openclawSessionRef input, tn_openclawRunRef := fz_openclawRunRef input,
            tn_finalizedAt := Some (rs_sequence st + 1), tn_updatedAt := rs_sequence st + 1\<rparr>) st)"

definition failAssistantTurn :: "workspace_scope \<Rightarrow> fail_turn \<Rightarrow> assistant_turn transition rt_step" where
  "failAssistantTurn scope input = onTurn scope (fl_turnId input) (\<lambda>current st.
     if tn_role current = AssistantTurn \<and> tn_status current = Failed
     then (Returned (ok (AlreadyFinal current)), st)
     else if tn_role current \<noteq> AssistantTurn \<or> tn_status current \<notin> set [Queued, Streaming, Finalizing]
     then (Returned (ok (InvalidState current)), st)
     else saveTurn (current\<lparr>tn_status := Failed,
            tn_content := [(''error'', JObject [(''code'', JString (fl_errorCode input)),
              (''message'', JString (fl_errorMessage input))])],
            tn_finalizedAt := Some (rs_sequence st + 1), tn_updatedAt := rs_sequence st + 1\<rparr>) st)"

definition outcome_with_call :: "runtime_store \<Rightarrow> string \<Rightarrow> string \<Rightarrow> tool_outcome option" where
  "outcome_with_call st turnId toolCallId =
     find (\<lambda>c. oc_turnId c = turnId \<and> oc_toolCallId c = toolCallId) (map_values (rs_outcomes st))"

definition started_outcome_row :: "(nat \<Rightarrow> string) \<Rightarrow> workspace_scope \<Rightarrow> start_outcome \<Rightarrow> runtime_store \<Rightarrow> tool_outcome" where
  "started_outcome_row uuid scope input st =
     (let now = rs_sequence st + 1 in
      \<lparr>oc_id = uuid (rs_uuids st), oc_organizationId = sc_organizationId scope,
        oc_workspaceId = sc_workspaceId scope, oc_turnId = so_turnId input, oc_toolName = so_toolName input,
        oc_toolCallId = so_toolCallId input, oc_idempotencyKey = so_idempotencyKey input,
        oc_status = Started, oc_requestSummary = so_requestSummary input, oc_resultSummary = [],
        oc_targetRef = (case so_targetRef input of Some r \<Rightarrow> r | None \<Rightarrow> None),
        oc_createdAt = now, oc_updatedAt = now, oc_completedAt = None\<rparr>)"

text \<open>
  The comparison of the reference stands behind the one of the summaries, so a summary that cannot be
  rendered throws first.
\<close>

definition startToolOutcome ::
  "(nat \<Rightarrow> string) \<Rightarrow> workspace_scope \<Rightarrow> start_outcome \<Rightarrow> tool_outcome insert_result rt_step" where
  "startToolOutcome uuid scope input st =
     (case assertScopedWrite scope input of
        Inl e \<Rightarrow> (Returned (err e), st)
      | Inr _ \<Rightarrow>
     (case turnForTransition st scope (so_turnId input) of
        Inl e \<Rightarrow> (Returned (err e), st)
      | Inr None \<Rightarrow> (Returned (err (failure ''runtimeControl.turnNotFound'' ''Assistant turn was not found.'')), st)
      | Inr (Some turn) \<Rightarrow>
     if tn_role turn \<noteq> AssistantTurn
     then (Returned (err (failure ''runtimeControl.invalidToolOutcomeTurn''
             ''Tool outcome receipts must bind to an assistant turn.'')), st)
     else case outcome_with_call st (so_turnId input) (so_toolCallId input) of
        Some existing \<Rightarrow>
          whenSame (oc_toolName existing = so_toolName input \<and> oc_idempotencyKey existing = so_idempotencyKey input)
            (oc_requestSummary existing) (so_requestSummary input)
            (if so_targetRef input = None \<or> so_targetRef input = Some (oc_targetRef existing)
             then ok (Replayed existing) else err outcomeConflict)
            (err outcomeConflict) st
      | None \<Rightarrow>
          let outcome = started_outcome_row uuid scope input st
          in (Returned (ok (Inserted outcome)),
              drawn (tick st)\<lparr>rs_outcomes := map_set (oc_id outcome) outcome (rs_outcomes st)\<rparr>)))"

definition finished_outcome :: "finish_outcome \<Rightarrow> js_date \<Rightarrow> tool_outcome \<Rightarrow> tool_outcome" where
  "finished_outcome input now existing = existing\<lparr>oc_status := completed_status (fn_status input),
     oc_resultSummary := fn_resultSummary input,
     oc_targetRef := (case fn_targetRef input of Some r \<Rightarrow> Some r | None \<Rightarrow> oc_targetRef existing),
     oc_completedAt := Some now, oc_updatedAt := now\<rparr>"

definition finishToolOutcome :: "workspace_scope \<Rightarrow> finish_outcome \<Rightarrow> tool_outcome transition rt_step" where
  "finishToolOutcome scope input st =
     (case outcome_with_call st (fn_turnId input) (fn_toolCallId input) of
        None \<Rightarrow> (Returned (ok NotFound), st)
      | Some existing \<Rightarrow>
     if \<not> inScope (oc_organizationId existing) (oc_workspaceId existing) scope
     then (Returned (err tenantAccessDenied), st)
     else andThen (whenSame (oc_toolName existing = fn_toolName input \<and> oc_idempotencyKey existing = fn_idempotencyKey input)
            (oc_requestSummary existing) (fn_requestSummary input) True False) (\<lambda>matches.
     if \<not> matches then ret (err outcomeConflict)
     else if oc_status existing \<noteq> Started
     then whenSame (oc_status existing = completed_status (fn_status input))
            (oc_resultSummary existing) (fn_resultSummary input)
            (ok (AlreadyFinal existing)) (ok (InvalidState existing))
     else (\<lambda>st. let outcome = finished_outcome input (rs_sequence st + 1) existing in
       (Returned (ok (Updated outcome)), tick st\<lparr>rs_outcomes := map_set (oc_id outcome) outcome (rs_outcomes st)\<rparr>))) st)"

definition turn_outcomes :: "(string \<Rightarrow> string \<Rightarrow> int) \<Rightarrow> workspace_scope \<Rightarrow> runtime_store \<Rightarrow> assistant_turn \<Rightarrow> tool_outcome list" where
  "turn_outcomes localeCompare scope st turn =
     array_sort (oldest_first localeCompare oc_createdAt oc_id)
       (filter (\<lambda>c. inScope (oc_organizationId c) (oc_workspaceId c) scope \<and> oc_turnId c = tn_id turn)
         (map_values (rs_outcomes st)))"

text \<open>Whether a turn mentions the task: \<open>None\<close> when its content cannot be rendered.\<close>

definition mentions_task :: "workspace_scope \<Rightarrow> runtime_store \<Rightarrow> string \<Rightarrow> assistant_turn \<Rightarrow> bool option" where
  "mentions_task scope st taskId turn =
     (case json_stringify (JObject (tn_content turn)) of
        None \<Rightarrow> None
      | Some text \<Rightarrow> Some (js_includes taskId (case text of Some s \<Rightarrow> s | None \<Rightarrow> []) \<or>
          list_ex (\<lambda>c. inScope (oc_organizationId c) (oc_workspaceId c) scope \<and> oc_turnId c = tn_id turn \<and>
            oc_targetRef c = Some taskId) (map_values (rs_outcomes st))))"

definition listTaskAssistantRuns ::
  "(string \<Rightarrow> string \<Rightarrow> int) \<Rightarrow> workspace_scope \<Rightarrow> string \<Rightarrow> task_run list rt_step" where
  "listTaskAssistantRuns localeCompare scope taskId st =
     (let candidates = filter (\<lambda>t. inScope (tn_organizationId t) (tn_workspaceId t) scope \<and> tn_role t = AssistantTurn)
            (map_values (rs_turns st))
      in if list_ex (\<lambda>t. mentions_task scope st taskId t = None) candidates then (Thrown serialize_error, st)
         else (Returned (ok (map (\<lambda>t. \<lparr>tr_turn = t, tr_outcomes = turn_outcomes localeCompare scope st t\<rparr>)
                (array_sort (oldest_first localeCompare tn_createdAt tn_id)
                  (filter (\<lambda>t. mentions_task scope st taskId t = Some True) candidates)))), st))"

end
