(* ===== verification/Runtime_Laws.thy ===== *)
theory Runtime_Laws
  imports Runtime_Store
begin

text \<open>
  The contract of the conversation store. \<open>store_change\<close> says in one rule per kind what an operation of
  a workspace may do to the store; every operation is shown to refine it, and the invariant of the store
  is proved once, by cases on the change.
\<close>

section \<open>All operations as one step function\<close>

datatype runtime_op =
    Create create_conversation
  | FindOpen find_open_conversation
  | ListTurns string
  | AppendUser append_user_turn
  | Queue queue_assistant_turn
  | AppendDelta append_delta
  | FinalizeTurn finalize_turn
  | FailTurn fail_turn
  | StartOutcome start_outcome
  | FinishOutcome finish_outcome
  | ListRuns string

datatype answer =
    ConversationAnswer conversation
  | OpenAnswer "conversation option"
  | TurnsAnswer "assistant_turn list"
  | TurnInsert "assistant_turn insert_result"
  | TurnMove "assistant_turn transition"
  | OutcomeInsert "tool_outcome insert_result"
  | OutcomeMove "tool_outcome transition"
  | RunsAnswer "task_run list"

definition answering :: "('a \<Rightarrow> answer) \<Rightarrow> 'a rt_step \<Rightarrow> answer rt_step" where
  "answering f m st =
     (case m st of
        (Returned (Inr x), st') \<Rightarrow> (Returned (ok (f x)), st')
      | (Returned (Inl e), st') \<Rightarrow> (Returned (err e), st')
      | (Thrown e, st') \<Rightarrow> (Thrown e, st'))"

fun perform ::
  "(nat \<Rightarrow> string) \<Rightarrow> (string \<Rightarrow> string \<Rightarrow> int) \<Rightarrow> workspace_scope \<Rightarrow> runtime_op \<Rightarrow> answer rt_step" where
  "perform u lc scope (Create i) = answering ConversationAnswer (createConversation u scope i)"
| "perform u lc scope (FindOpen i) = answering OpenAnswer (findOpenConversation lc scope i)"
| "perform u lc scope (ListTurns c) = answering TurnsAnswer (listTurns lc scope c)"
| "perform u lc scope (AppendUser i) = answering TurnInsert (appendUserTurn u scope i)"
| "perform u lc scope (Queue i) = answering TurnInsert (queueAssistantTurn u scope i)"
| "perform u lc scope (AppendDelta i) = answering TurnMove (appendAssistantDelta scope i)"
| "perform u lc scope (FinalizeTurn i) = answering TurnMove (finalizeAssistantTurn scope i)"
| "perform u lc scope (FailTurn i) = answering TurnMove (failAssistantTurn scope i)"
| "perform u lc scope (StartOutcome i) = answering OutcomeInsert (startToolOutcome u scope i)"
| "perform u lc scope (FinishOutcome i) = answering OutcomeMove (finishToolOutcome scope i)"
| "perform u lc scope (ListRuns t) = answering RunsAnswer (listTaskAssistantRuns lc scope t)"

lemma snd_answering [simp]: "snd (answering f m st) = snd (m st)"
  by (simp add: answering_def split: prod.splits js_result.splits sum.splits)

section \<open>What an operation may change\<close>

abbreviation turn_in :: "workspace_scope \<Rightarrow> assistant_turn \<Rightarrow> bool" where
  "turn_in scope t \<equiv> inScope (tn_organizationId t) (tn_workspaceId t) scope"

abbreviation outcome_in :: "workspace_scope \<Rightarrow> tool_outcome \<Rightarrow> bool" where
  "outcome_in scope c \<equiv> inScope (oc_organizationId c) (oc_workspaceId c) scope"

abbreviation conversation_in :: "workspace_scope \<Rightarrow> conversation \<Rightarrow> bool" where
  "conversation_in scope c \<equiv> inScope (cv_organizationId c) (cv_workspaceId c) scope"

text \<open>The shape of a turn: who wrote it, and that it is finished exactly when it says when.\<close>

definition turn_shape :: "assistant_turn \<Rightarrow> bool" where
  "turn_shape t \<longleftrightarrow>
     (case tn_role t of
        UserTurn \<Rightarrow> tn_status t = Final \<and> tn_actorUserId t \<noteq> None \<and> tn_assistantKey t = None
      | AssistantTurn \<Rightarrow> tn_status t \<noteq> Finalizing \<and> tn_actorUserId t = None \<and> tn_assistantKey t \<noteq> None
      | _ \<Rightarrow> False) \<and>
     (tn_finalizedAt t \<noteq> None \<longleftrightarrow> isTerminalAssistantTurnStatus (tn_status t))"

definition new_turn :: "(nat \<Rightarrow> string) \<Rightarrow> workspace_scope \<Rightarrow> runtime_store \<Rightarrow> assistant_turn \<Rightarrow> bool" where
  "new_turn u scope st t \<longleftrightarrow>
     tn_id t = u (rs_uuids st) \<and> turn_in scope t \<and> turn_shape t \<and> tn_status t \<in> {Queued, Final} \<and>
     tn_createdAt t = rs_sequence st + 1 \<and> tn_updatedAt t = rs_sequence st + 1 \<and>
     (\<exists>c. map_get (rs_conversations st) (tn_conversationId t) = Some c \<and> conversation_in scope c) \<and>
     turn_with_key st scope (tn_conversationId t) (tn_idempotencyKey t) = None"

definition same_turn :: "assistant_turn \<Rightarrow> assistant_turn \<Rightarrow> bool" where
  "same_turn t t' \<longleftrightarrow>
     tn_id t' = tn_id t \<and> tn_conversationId t' = tn_conversationId t \<and> tn_organizationId t' = tn_organizationId t \<and>
     tn_workspaceId t' = tn_workspaceId t \<and> tn_role t' = tn_role t \<and> tn_actorUserId t' = tn_actorUserId t \<and>
     tn_assistantKey t' = tn_assistantKey t \<and> tn_idempotencyKey t' = tn_idempotencyKey t \<and>
     tn_createdAt t' = tn_createdAt t"

definition moved_turn :: "workspace_scope \<Rightarrow> runtime_store \<Rightarrow> assistant_turn \<Rightarrow> assistant_turn \<Rightarrow> bool" where
  "moved_turn scope st t t' \<longleftrightarrow>
     turn_in scope t \<and> tn_role t = AssistantTurn \<and> same_turn t t' \<and>
     (\<exists>e. turn_moves (tn_status t) e (tn_status t')) \<and> tn_updatedAt t' = rs_sequence st + 1 \<and>
     tn_finalizedAt t' = (if isTerminalAssistantTurnStatus (tn_status t') then Some (rs_sequence st + 1) else tn_finalizedAt t)"

definition new_outcome :: "(nat \<Rightarrow> string) \<Rightarrow> workspace_scope \<Rightarrow> runtime_store \<Rightarrow> tool_outcome \<Rightarrow> bool" where
  "new_outcome u scope st c \<longleftrightarrow>
     oc_id c = u (rs_uuids st) \<and> outcome_in scope c \<and> oc_status c = Started \<and> oc_completedAt c = None \<and>
     oc_createdAt c = rs_sequence st + 1 \<and> oc_updatedAt c = rs_sequence st + 1 \<and>
     (\<exists>t. map_get (rs_turns st) (oc_turnId c) = Some t \<and> turn_in scope t \<and> tn_role t = AssistantTurn) \<and>
     outcome_with_call st (oc_turnId c) (oc_toolCallId c) = None"

text \<open>The change of one operation in a workspace: nothing, one new record, or one record moved.\<close>

inductive store_change :: "(nat \<Rightarrow> string) \<Rightarrow> workspace_scope \<Rightarrow> runtime_store \<Rightarrow> runtime_store \<Rightarrow> bool"
  for u :: "nat \<Rightarrow> string" and scope :: workspace_scope and st :: runtime_store where
  unchanged: "store_change u scope st st"
| conversation_added:
    "cv_id c = u (rs_uuids st) \<Longrightarrow> conversation_in scope c \<Longrightarrow> cv_status c = OpenConversation \<Longrightarrow>
     cv_createdAt c = rs_sequence st + 1 \<Longrightarrow>
     store_change u scope st (drawn (tick st)\<lparr>rs_conversations := map_set (cv_id c) c (rs_conversations st)\<rparr>)"
| turn_added:
    "new_turn u scope st t \<Longrightarrow>
     store_change u scope st (drawn (tick st)\<lparr>rs_turns := map_set (tn_id t) t (rs_turns st)\<rparr>)"
| turn_moved:
    "map_get (rs_turns st) k = Some t \<Longrightarrow> moved_turn scope st t t' \<Longrightarrow>
     store_change u scope st (tick st\<lparr>rs_turns := map_set (tn_id t') t' (rs_turns st)\<rparr>)"
| outcome_added:
    "new_outcome u scope st c \<Longrightarrow>
     store_change u scope st (drawn (tick st)\<lparr>rs_outcomes := map_set (oc_id c) c (rs_outcomes st)\<rparr>)"
| outcome_finished:
    "outcome_with_call st (fn_turnId i) (fn_toolCallId i) = Some c \<Longrightarrow> outcome_in scope c \<Longrightarrow> oc_status c = Started \<Longrightarrow>
     store_change u scope st (tick st\<lparr>rs_outcomes := map_set (oc_id c) (finished_outcome i (rs_sequence st + 1) c) (rs_outcomes st)\<rparr>)"

section \<open>Every operation refines the change\<close>

lemma snd_whenSame [simp]: "snd (whenSame g a b yes no st) = st"
  by (simp add: whenSame_def split: option.splits)

lemma tick_sel [simp]:
  "rs_conversations (tick st) = rs_conversations st" "rs_turns (tick st) = rs_turns st"
  "rs_outcomes (tick st) = rs_outcomes st" "rs_sequence (tick st) = rs_sequence st + 1" "rs_uuids (tick st) = rs_uuids st"
  by (simp_all add: tick_def)

lemma drawn_sel [simp]:
  "rs_conversations (drawn st) = rs_conversations st" "rs_turns (drawn st) = rs_turns st"
  "rs_outcomes (drawn st) = rs_outcomes st" "rs_sequence (drawn st) = rs_sequence st" "rs_uuids (drawn st) = Suc (rs_uuids st)"
  by (simp_all add: drawn_def)

lemma targeted_Some: "targeted org ws m k scope = Inr (Some r) \<longleftrightarrow> map_get m k = Some r \<and> inScope (org r) (ws r) scope"
  by (auto simp: targeted_def split: option.splits if_splits)

lemma conversationForWrite_ok:
  "conversationForWrite st scope k = Inr c \<longleftrightarrow> map_get (rs_conversations st) k = Some c \<and> conversation_in scope c"
  by (auto simp: conversationForWrite_def targeted_Some[symmetric] split: sum.splits option.splits)

lemma assertScopedWrite_ok [simp]:
  "assertScopedWrite scope i = Inr x \<longleftrightarrow> inScope (sc_organizationId i) (sc_workspaceId i) scope"
  by (simp add: assertScopedWrite_def)

lemma create_refines: "store_change u scope st (snd (createConversation u scope i st))"
  using conversation_added[of "new_conversation_row u scope i st" u st scope] unchanged[of u scope st]
  by (auto simp: createConversation_def new_conversation_row_def Let_def inScope_def split: sum.splits)

lemma user_turn_refines: "store_change u scope st (snd (appendUserTurn u scope i st))"
proof -
  have "new_turn u scope st (user_turn_row u scope i st)"
    if "conversationForWrite st scope (au_conversationId i) = Inr c"
      "turn_with_key st scope (au_conversationId i) (au_idempotencyKey i) = None" for c
    using that by (simp add: conversationForWrite_ok new_turn_def user_turn_row_def Let_def turn_shape_def inScope_def
        isTerminalAssistantTurnStatus_def)
  from turn_added[OF this] show ?thesis
    by (auto simp: appendUserTurn_def Let_def unchanged split: sum.split option.split)
qed

lemma queue_refines: "store_change u scope st (snd (queueAssistantTurn u scope i st))"
proof -
  have "new_turn u scope st (queued_turn_row u scope i content st)"
    if "conversationForWrite st scope (qa_conversationId i) = Inr c"
      "turn_with_key st scope (qa_conversationId i) (qa_idempotencyKey i) = None" for c content
    using that by (simp add: conversationForWrite_ok new_turn_def queued_turn_row_def Let_def turn_shape_def inScope_def
        isTerminalAssistantTurnStatus_def)
  from turn_added[OF this] show ?thesis
    by (auto simp: queueAssistantTurn_def Let_def unchanged split: sum.split option.split)
qed

text \<open>A transition leaves the store alone or saves the turn it found, moved.\<close>

definition transits :: "workspace_scope \<Rightarrow> runtime_store \<Rightarrow> assistant_turn \<Rightarrow> runtime_store \<Rightarrow> bool" where
  "transits scope st t st' \<longleftrightarrow> st' = st \<or> (\<exists>t'. moved_turn scope st t t' \<and> st' = snd (saveTurn t' st))"

lemma transits_same: "transits scope st t st"
  by (simp add: transits_def)

lemma transits_save: "moved_turn scope st t t' \<Longrightarrow> transits scope st t (snd (saveTurn t' st))"
  by (auto simp: transits_def)

lemma onTurn_refines:
  assumes "\<And>t. turn_in scope t \<Longrightarrow> transits scope st t (snd (f t st))"
  shows "store_change u scope st (snd (onTurn scope k f st))"
proof (cases "turnForTransition st scope k")
  case (Inr r)
  show ?thesis
  proof (cases r)
    case (Some t)
    with Inr have t: "map_get (rs_turns st) k = Some t" "turn_in scope t"
      by (auto simp: turnForTransition_def targeted_Some)
    from assms[OF t(2)] turn_moved[OF t(1)] unchanged show ?thesis
      by (auto simp: onTurn_def Inr Some saveTurn_def transits_def)
  qed (simp add: onTurn_def Inr unchanged)
qed (simp add: onTurn_def unchanged)

lemmas moved_defs = moved_turn_def same_turn_def isTerminalAssistantTurnStatus_def

lemma delta_refines: "store_change u scope st (snd (appendAssistantDelta scope i st))"
  unfolding appendAssistantDelta_def
  by (rule onTurn_refines)
    (auto simp: moved_defs transits_same split: option.split intro!: transits_save exI[of _ Delta])

lemma finalize_refines: "store_change u scope st (snd (finalizeAssistantTurn scope i st))"
  unfolding finalizeAssistantTurn_def
  by (rule onTurn_refines) (auto simp: moved_defs transits_same intro!: transits_save exI[of _ Finalize])

lemma fail_refines: "store_change u scope st (snd (failAssistantTurn scope i st))"
  unfolding failAssistantTurn_def
  by (rule onTurn_refines) (auto simp: moved_defs transits_same intro!: transits_save exI[of _ Fail])

lemma start_refines: "store_change u scope st (snd (startToolOutcome u scope i st))"
proof -
  have "new_outcome u scope st (started_outcome_row u scope i st)"
    if "turnForTransition st scope (so_turnId i) = Inr (Some t)" "tn_role t = AssistantTurn"
      "outcome_with_call st (so_turnId i) (so_toolCallId i) = None" for t
    using that by (simp add: turnForTransition_def targeted_Some new_outcome_def started_outcome_row_def Let_def inScope_def)
  from outcome_added[OF this] show ?thesis
    by (auto simp: startToolOutcome_def Let_def unchanged split: sum.split option.split)
qed

lemma oc_id_finished [simp]: "oc_id (finished_outcome i n c) = oc_id c"
  by (simp add: finished_outcome_def)

lemma finish_refines: "store_change u scope st (snd (finishToolOutcome scope i st))"
proof (cases "outcome_with_call st (fn_turnId i) (fn_toolCallId i)")
  case None
  then show ?thesis by (simp add: finishToolOutcome_def unchanged)
next
  case (Some c)
  then show ?thesis
    using outcome_finished[OF Some, where scope = scope and u = u]
    by (auto simp: finishToolOutcome_def Let_def whenSame_def step_simps intro: unchanged
        split: option.splits js_result.splits if_splits)
qed

lemma perform_refines: "store_change u scope st (snd (perform u lc scope op st))"
  using create_refines user_turn_refines queue_refines delta_refines finalize_refines fail_refines start_refines finish_refines
  by (cases op) (auto simp: findOpenConversation_def listTurns_def listTaskAssistantRuns_def Let_def intro: unchanged)

end
