(* ===== verification/Runtime_Invariant.thy ===== *)
theory Runtime_Invariant
  imports Runtime_Laws
begin

text \<open>
  The invariant of the conversation store: records are stored under their own ids, turns belong to a
  conversation of their workspace and tool outcomes to an assistant turn of theirs, idempotency keys and
  tool call ids are used once, and the creation times of each kind of record are distinct. Every change
  keeps it, so every sequence of operations does.
\<close>

section \<open>Tables of records\<close>

text \<open>No two records of a map agree on \<open>f\<close>.\<close>

definition unique_on :: "('r \<Rightarrow> 'k) \<Rightarrow> (string, 'r) js_map \<Rightarrow> bool" where
  "unique_on f m \<longleftrightarrow> (\<forall>k k' r r'. map_get m k = Some r \<longrightarrow> map_get m k' = Some r' \<longrightarrow> f r = f r' \<longrightarrow> k = k')"

text \<open>
  A table whose records were created under the first \<open>n\<close> ids of \<open>u\<close> at distinct times up to \<open>s\<close>.
\<close>

definition table_ok :: "(nat \<Rightarrow> string) \<Rightarrow> nat \<Rightarrow> int \<Rightarrow> ('r \<Rightarrow> string) \<Rightarrow> ('r \<Rightarrow> js_date) \<Rightarrow> (string, 'r) js_map \<Rightarrow> bool" where
  "table_ok u n s rid created m \<longleftrightarrow> keys_distinct m \<and> unique_on created m \<and>
     (\<forall>k r. map_get m k = Some r \<longrightarrow> rid r = k \<and> k \<in> u ` {..<n} \<and> created r \<le> s)"

lemma unique_onD: "unique_on f m \<Longrightarrow> map_get m k = Some r \<Longrightarrow> map_get m k' = Some r' \<Longrightarrow> f r = f r' \<Longrightarrow> k = k'"
  unfolding unique_on_def by blast

lemma unique_on_add:
  assumes "unique_on f m" "\<And>j r. map_get m j = Some r \<Longrightarrow> f r \<noteq> f x"
  shows "unique_on f (map_set k x m)"
  unfolding unique_on_def using unique_onD[OF assms(1)] assms(2) by (simp split: if_splits) metis

lemma unique_on_change:
  assumes "unique_on f m" "map_get m k = Some r" "f x = f r"
  shows "unique_on f (map_set k x m)"
  unfolding unique_on_def using unique_onD[OF assms(1)] assms(2,3) by simp metis

lemma table_okD:
  assumes "table_ok u n s rid created m" "map_get m k = Some r"
  shows "rid r = k" "k \<in> u ` {..<n}" "created r \<le> s"
  using assms by (simp_all add: table_ok_def)

lemma table_ok_mono: "table_ok u n s rid created m \<Longrightarrow> n \<le> n' \<Longrightarrow> s \<le> s' \<Longrightarrow> table_ok u n' s' rid created m"
  unfolding table_ok_def by (meson image_mono lessThan_subset_iff order_trans subsetD)

lemma table_ok_later:
  "table_ok u n s rid created m \<Longrightarrow> table_ok u n (s + 1) rid created m"
  "table_ok u n s rid created m \<Longrightarrow> table_ok u (Suc n) (s + 1) rid created m"
  by (simp_all add: table_ok_mono[of u n s])

lemma table_fresh:
  assumes "table_ok u n s rid created m" "inj u"
  shows "map_get m (u n) = None"
proof (rule ccontr)
  assume "map_get m (u n) \<noteq> None"
  then obtain r where "map_get m (u n) = Some r" by auto
  from table_okD(2)[OF assms(1) this] assms(2) show False by (auto dest: injD)
qed

lemma table_ok_add:
  assumes t: "table_ok u n s rid created m" and x: "rid x = u n" "created x = s + 1"
  shows "table_ok u (Suc n) (s + 1) rid created (map_set (u n) x m)"
proof -
  have old: "created r \<le> s" "rid r = k" "k \<in> u ` {..<Suc n}" if "map_get m k = Some r" for k r
    using table_okD[OF t that] by (auto simp: lessThan_Suc)
  have "unique_on created (map_set (u n) x m)"
    using t old(1) x(2) by (intro unique_on_add) (force simp: table_ok_def)+
  moreover have "keys_distinct (map_set (u n) x m)" using t by (simp add: table_ok_def)
  moreover have "rid y = j \<and> j \<in> u ` {..<Suc n} \<and> created y \<le> s + 1" if "map_get (map_set (u n) x m) j = Some y" for j y
  proof (cases "j = u n")
    case False
    with that old[of j y] show ?thesis by simp
  qed (use that x in auto)
  ultimately show ?thesis unfolding table_ok_def by blast
qed

lemma table_ok_change:
  assumes t: "table_ok u n s rid created m" and r: "map_get m k = Some r" "rid x = rid r" "created x = created r"
  shows "table_ok u n (s + 1) rid created (map_set k x m)"
proof -
  have k: "rid x = k" using table_okD(1)[OF t r(1)] r(2) by simp
  have "unique_on created (map_set k x m)" using t r(1,3) by (simp add: table_ok_def unique_on_change)
  moreover have "keys_distinct (map_set k x m)" using t by (simp add: table_ok_def)
  moreover have "rid y = j \<and> j \<in> u ` {..<n} \<and> created y \<le> s + 1" if "map_get (map_set k x m) j = Some y" for j y
    using that table_okD[OF t, of j] table_okD[OF t r(1)] r k by (auto split: if_splits)
  ultimately show ?thesis unfolding table_ok_def by blast
qed

lemma find_map_values_None:
  "find P (map_values m) = None \<Longrightarrow> map_get m k = Some r \<Longrightarrow> \<not> P r"
  by (force simp: find_None_iff dest!: map_of_SomeD)

lemma find_map_values_Some:
  assumes "find P (map_values m) = Some r" "keys_distinct m"
  obtains k where "map_get m k = Some r" "P r"
proof -
  from assms(1) have r: "r \<in> set (map_values m)" "P r" by (auto simp: find_Some_iff)
  then obtain k where "(k, r) \<in> set m" by auto
  with assms(2) r(2) that show thesis by (auto simp: map_of_eq_Some_iff)
qed

section \<open>The invariant\<close>

definition turn_ok :: "runtime_store \<Rightarrow> assistant_turn \<Rightarrow> bool" where
  "turn_ok st t \<longleftrightarrow> turn_shape t \<and> tn_createdAt t \<le> tn_updatedAt t \<and> tn_updatedAt t \<le> rs_sequence st \<and>
     (\<exists>c. map_get (rs_conversations st) (tn_conversationId t) = Some c \<and>
        cv_organizationId c = tn_organizationId t \<and> cv_workspaceId c = tn_workspaceId t)"

definition outcome_ok :: "runtime_store \<Rightarrow> tool_outcome \<Rightarrow> bool" where
  "outcome_ok st c \<longleftrightarrow> oc_createdAt c \<le> oc_updatedAt c \<and> oc_updatedAt c \<le> rs_sequence st \<and>
     (oc_completedAt c \<noteq> None \<longleftrightarrow> oc_status c \<noteq> Started) \<and>
     (\<exists>t. map_get (rs_turns st) (oc_turnId c) = Some t \<and> tn_role t = AssistantTurn \<and>
        tn_organizationId t = oc_organizationId c \<and> tn_workspaceId t = oc_workspaceId c)"

abbreviation turn_key :: "assistant_turn \<Rightarrow> string \<times> string \<times> string" where
  "turn_key t \<equiv> (tn_organizationId t, tn_conversationId t, tn_idempotencyKey t)"

abbreviation call_key :: "tool_outcome \<Rightarrow> string \<times> string" where
  "call_key c \<equiv> (oc_turnId c, oc_toolCallId c)"

definition tables_ok :: "(nat \<Rightarrow> string) \<Rightarrow> runtime_store \<Rightarrow> bool" where
  "tables_ok u st \<longleftrightarrow>
     table_ok u (rs_uuids st) (rs_sequence st) cv_id cv_createdAt (rs_conversations st) \<and>
     table_ok u (rs_uuids st) (rs_sequence st) tn_id tn_createdAt (rs_turns st) \<and>
     table_ok u (rs_uuids st) (rs_sequence st) oc_id oc_createdAt (rs_outcomes st)"

definition runtime_inv :: "(nat \<Rightarrow> string) \<Rightarrow> runtime_store \<Rightarrow> bool" where
  "runtime_inv u st \<longleftrightarrow> tables_ok u st \<and>
     unique_on turn_key (rs_turns st) \<and> unique_on call_key (rs_outcomes st) \<and>
     (\<forall>k t. map_get (rs_turns st) k = Some t \<longrightarrow> turn_ok st t) \<and>
     (\<forall>k c. map_get (rs_outcomes st) k = Some c \<longrightarrow> outcome_ok st c)"

lemma runtime_invD:
  assumes "runtime_inv u st"
  shows "tables_ok u st" "unique_on turn_key (rs_turns st)" "unique_on call_key (rs_outcomes st)"
    "map_get (rs_turns st) k = Some t \<Longrightarrow> turn_ok st t" "map_get (rs_outcomes st) j = Some c \<Longrightarrow> outcome_ok st c"
  using assms by (auto simp: runtime_inv_def)

lemma runtime_inv_empty: "runtime_inv u empty_runtime"
  by (simp add: runtime_inv_def tables_ok_def table_ok_def unique_on_def empty_runtime_def)

text \<open>Records stay in order when the clock advances and the records they point to keep their scope.\<close>

lemma turn_ok_mono:
  assumes "turn_ok st t" "rs_sequence st \<le> rs_sequence st'"
    and "\<And>c. map_get (rs_conversations st) (tn_conversationId t) = Some c \<Longrightarrow>
      map_get (rs_conversations st') (tn_conversationId t) = Some c"
  shows "turn_ok st' t"
proof -
  obtain c where "map_get (rs_conversations st) (tn_conversationId t) = Some c"
      "cv_organizationId c = tn_organizationId t" "cv_workspaceId c = tn_workspaceId t"
    using assms(1) by (auto simp: turn_ok_def)
  with assms(3) show ?thesis using assms(1,2) by (simp add: turn_ok_def)
qed

lemma outcome_ok_mono:
  assumes "outcome_ok st c" "rs_sequence st \<le> rs_sequence st'"
    and "\<And>t. map_get (rs_turns st) (oc_turnId c) = Some t \<Longrightarrow>
      \<exists>t'. map_get (rs_turns st') (oc_turnId c) = Some t' \<and> same_turn t t'"
  shows "outcome_ok st' c"
proof -
  obtain t where "map_get (rs_turns st) (oc_turnId c) = Some t" and t: "tn_role t = AssistantTurn"
      "tn_organizationId t = oc_organizationId c" "tn_workspaceId t = oc_workspaceId c"
    using assms(1) by (auto simp: outcome_ok_def)
  from assms(3)[OF this(1)] t have "\<exists>t'. map_get (rs_turns st') (oc_turnId c) = Some t' \<and> tn_role t' = AssistantTurn \<and>
      tn_organizationId t' = oc_organizationId c \<and> tn_workspaceId t' = oc_workspaceId c"
    by (auto simp: same_turn_def)
  then show ?thesis using assms(1,2) by (simp add: outcome_ok_def)
qed

lemma same_turn_refl [simp]: "same_turn t t"
  by (simp add: same_turn_def)

section \<open>Every change keeps it\<close>

lemma inv_conversation_added:
  assumes inv: "runtime_inv u st" and u: "inj u"
    and c: "cv_id c = u (rs_uuids st)" "cv_createdAt c = rs_sequence st + 1"
  shows "runtime_inv u (drawn (tick st)\<lparr>rs_conversations := map_set (cv_id c) c (rs_conversations st)\<rparr>)" (is "runtime_inv u ?st")
proof -
  note tables = runtime_invD(1)[OF inv, unfolded tables_ok_def]
  have "tables_ok u ?st"
    unfolding tables_ok_def using tables c by (simp add: table_ok_add table_ok_later)
  moreover have "map_get (rs_conversations st) (cv_id c) = None" using tables u c table_fresh by auto
  then have "turn_ok ?st t" if "map_get (rs_turns st) k = Some t" for k t
    by (intro turn_ok_mono[OF runtime_invD(4)[OF inv that]]) auto
  moreover have "outcome_ok ?st d" if "map_get (rs_outcomes st) k = Some d" for k d
    by (intro outcome_ok_mono[OF runtime_invD(5)[OF inv that]]) auto
  ultimately show ?thesis using runtime_invD(2,3)[OF inv] by (simp add: runtime_inv_def)
qed

lemma inv_turn_added:
  assumes inv: "runtime_inv u st" and u: "inj u" and t: "new_turn u scope st t"
  shows "runtime_inv u (drawn (tick st)\<lparr>rs_turns := map_set (tn_id t) t (rs_turns st)\<rparr>)" (is "runtime_inv u ?st")
proof -
  note tables = runtime_invD(1)[OF inv, unfolded tables_ok_def]
  have id: "tn_id t = u (rs_uuids st)" "tn_createdAt t = rs_sequence st + 1" using t by (simp_all add: new_turn_def)
  have "tables_ok u ?st"
    unfolding tables_ok_def using tables id by (simp add: table_ok_add table_ok_later)
  moreover have fresh: "map_get (rs_turns st) (tn_id t) = None" using tables u id table_fresh by auto
  have "unique_on turn_key (rs_turns ?st)"
  proof (simp, rule unique_on_add[OF runtime_invD(2)[OF inv]])
    fix j r assume "map_get (rs_turns st) j = Some r"
    with t find_map_values_None[of _ "rs_turns st" j r] show "turn_key r \<noteq> turn_key t"
      by (auto simp: new_turn_def turn_with_key_def inScope_def)
  qed
  moreover have "turn_ok ?st t" using t by (auto simp: turn_ok_def new_turn_def inScope_def)
  moreover have "turn_ok ?st r" if "map_get (rs_turns st) k = Some r" for k r
    by (intro turn_ok_mono[OF runtime_invD(4)[OF inv that]]) auto
  moreover have "outcome_ok ?st d" if "map_get (rs_outcomes st) k = Some d" for k d
    using fresh by (intro outcome_ok_mono[OF runtime_invD(5)[OF inv that]]) auto
  ultimately show ?thesis using runtime_invD(3)[OF inv] by (simp add: runtime_inv_def)
qed

lemma moved_shape:
  assumes "moved_turn scope st t t'" "turn_shape t"
  shows "turn_shape t'"
proof -
  obtain e where e: "turn_moves (tn_status t) e (tn_status t')" using assms(1) by (auto simp: moved_turn_def)
  then have "tn_status t' \<noteq> Finalizing" by (cases e) auto
  with turn_moves_source[OF e] show ?thesis using assms by (simp add: moved_turn_def same_turn_def turn_shape_def)
qed

lemma inv_turn_moved:
  assumes inv: "runtime_inv u st" and t: "map_get (rs_turns st) k = Some t" and m: "moved_turn scope st t t'"
  shows "runtime_inv u (tick st\<lparr>rs_turns := map_set (tn_id t') t' (rs_turns st)\<rparr>)" (is "runtime_inv u ?st")
proof -
  note tables = runtime_invD(1)[OF inv, unfolded tables_ok_def]
  have same: "same_turn t t'" using m by (simp add: moved_turn_def)
  have k: "tn_id t' = k" using tables table_okD(1)[OF _ t] same by (auto simp: same_turn_def)
  have "table_ok u (rs_uuids st) (rs_sequence st + 1) tn_id tn_createdAt (map_set k t' (rs_turns st))"
    using tables same by (intro table_ok_change[OF _ t]) (simp_all add: same_turn_def)
  then have "tables_ok u ?st"
    unfolding tables_ok_def using tables k by (simp add: table_ok_later)
  moreover have "unique_on turn_key (rs_turns ?st)"
    using unique_on_change[OF runtime_invD(2)[OF inv] t, of t'] same k by (simp add: same_turn_def)
  moreover have "turn_ok st t" by (rule runtime_invD(4)[OF inv t])
  then have "turn_ok ?st t'" using moved_shape[OF m] m by (auto simp: turn_ok_def moved_turn_def same_turn_def)
  moreover have "turn_ok ?st r" if "map_get (rs_turns st) j = Some r" for j r
    by (intro turn_ok_mono[OF runtime_invD(4)[OF inv that]]) auto
  moreover have "outcome_ok ?st d" if "map_get (rs_outcomes st) j = Some d" for j d
    using same t k by (intro outcome_ok_mono[OF runtime_invD(5)[OF inv that]]) auto
  ultimately show ?thesis using runtime_invD(3)[OF inv] by (simp add: runtime_inv_def)
qed

lemma inv_outcome_added:
  assumes inv: "runtime_inv u st" and c: "new_outcome u scope st c"
  shows "runtime_inv u (drawn (tick st)\<lparr>rs_outcomes := map_set (oc_id c) c (rs_outcomes st)\<rparr>)" (is "runtime_inv u ?st")
proof -
  note tables = runtime_invD(1)[OF inv, unfolded tables_ok_def]
  have id: "oc_id c = u (rs_uuids st)" "oc_createdAt c = rs_sequence st + 1" using c by (simp_all add: new_outcome_def)
  have "tables_ok u ?st"
    unfolding tables_ok_def using tables id by (simp add: table_ok_add table_ok_later)
  moreover have "unique_on call_key (rs_outcomes ?st)"
  proof (simp, rule unique_on_add[OF runtime_invD(3)[OF inv]])
    fix j r assume "map_get (rs_outcomes st) j = Some r"
    with c find_map_values_None[of _ "rs_outcomes st" j r] show "call_key r \<noteq> call_key c"
      by (auto simp: new_outcome_def outcome_with_call_def)
  qed
  moreover have "outcome_ok ?st c" using c by (auto simp: outcome_ok_def new_outcome_def inScope_def)
  moreover have "turn_ok ?st r" if "map_get (rs_turns st) k = Some r" for k r
    by (intro turn_ok_mono[OF runtime_invD(4)[OF inv that]]) auto
  moreover have "outcome_ok ?st d" if "map_get (rs_outcomes st) k = Some d" for k d
    by (intro outcome_ok_mono[OF runtime_invD(5)[OF inv that]]) auto
  ultimately show ?thesis using runtime_invD(2)[OF inv] by (simp add: runtime_inv_def)
qed

lemma finished_sel [simp]:
  "oc_turnId (finished_outcome i n c) = oc_turnId c" "oc_toolCallId (finished_outcome i n c) = oc_toolCallId c"
  "oc_createdAt (finished_outcome i n c) = oc_createdAt c" "oc_updatedAt (finished_outcome i n c) = n"
  "oc_organizationId (finished_outcome i n c) = oc_organizationId c" "oc_workspaceId (finished_outcome i n c) = oc_workspaceId c"
  "oc_completedAt (finished_outcome i n c) = Some n" "oc_status (finished_outcome i n c) = completed_status (fn_status i)"
  by (simp_all add: finished_outcome_def)

lemma completed_not_started [simp]: "completed_status s \<noteq> Started"
  by (cases s) auto

lemma inv_outcome_finished:
  assumes inv: "runtime_inv u st" and c: "map_get (rs_outcomes st) k = Some c"
  shows "runtime_inv u (tick st\<lparr>rs_outcomes := map_set (oc_id c) (finished_outcome i (rs_sequence st + 1) c) (rs_outcomes st)\<rparr>)"
    (is "runtime_inv u ?st")
proof -
  let ?c = "finished_outcome i (rs_sequence st + 1) c"
  note tables = runtime_invD(1)[OF inv, unfolded tables_ok_def]
  have k: "oc_id c = k" using tables table_okD(1)[OF _ c] by auto
  have "tables_ok u ?st"
    unfolding tables_ok_def using tables k by (simp add: table_ok_change[OF _ c] table_ok_later)
  moreover have "unique_on call_key (rs_outcomes ?st)"
    using unique_on_change[OF runtime_invD(3)[OF inv] c, of ?c] k by simp
  moreover have "outcome_ok st c" by (rule runtime_invD(5)[OF inv c])
  then have "outcome_ok ?st ?c" by (auto simp: outcome_ok_def)
  moreover have "turn_ok ?st r" if "map_get (rs_turns st) j = Some r" for j r
    by (intro turn_ok_mono[OF runtime_invD(4)[OF inv that]]) auto
  moreover have "outcome_ok ?st d" if "map_get (rs_outcomes st) j = Some d" for j d
    by (intro outcome_ok_mono[OF runtime_invD(5)[OF inv that]]) auto
  ultimately show ?thesis using runtime_invD(2)[OF inv] by (simp add: runtime_inv_def)
qed

lemma outcome_with_call_SomeD:
  assumes "outcome_with_call st tid call = Some c" "runtime_inv u st"
  shows "map_get (rs_outcomes st) (oc_id c) = Some c" "oc_turnId c = tid" "oc_toolCallId c = call"
proof -
  have t: "table_ok u (rs_uuids st) (rs_sequence st) oc_id oc_createdAt (rs_outcomes st)"
    using runtime_invD(1)[OF assms(2)] by (simp add: tables_ok_def)
  then obtain k where "map_get (rs_outcomes st) k = Some c" "oc_turnId c = tid \<and> oc_toolCallId c = call"
    using assms(1) find_map_values_Some[of _ "rs_outcomes st" c] unfolding outcome_with_call_def table_ok_def by blast
  then show "map_get (rs_outcomes st) (oc_id c) = Some c" "oc_turnId c = tid" "oc_toolCallId c = call"
    using table_okD(1)[OF t] by auto
qed

lemma change_keeps_inv:
  assumes "store_change u scope st st'" "runtime_inv u st" "inj u"
  shows "runtime_inv u st'"
  using assms
proof (cases rule: store_change.cases)
  case (outcome_finished i c)
  then show ?thesis using inv_outcome_finished outcome_with_call_SomeD(1) assms(2) by blast
qed (use assms inv_conversation_added inv_turn_added inv_turn_moved inv_outcome_added in auto)

section \<open>Sequences of operations\<close>

text \<open>Operations of any workspaces, one after the other.\<close>

inductive operated :: "(nat \<Rightarrow> string) \<Rightarrow> (string \<Rightarrow> string \<Rightarrow> int) \<Rightarrow> runtime_store \<Rightarrow> runtime_store \<Rightarrow> bool"
  for u :: "nat \<Rightarrow> string" and lc :: "string \<Rightarrow> string \<Rightarrow> int" where
  none: "operated u lc st st"
| one_more: "operated u lc st st' \<Longrightarrow> operated u lc st (snd (perform u lc scope op st'))"

lemma operated_inv: "operated u lc st st' \<Longrightarrow> runtime_inv u st \<Longrightarrow> inj u \<Longrightarrow> runtime_inv u st'"
  by (induction rule: operated.induct) (auto intro: change_keeps_inv[OF perform_refines])

end
