(* ===== verification/Runtime_Consequences.thy ===== *)
theory Runtime_Consequences
  imports Runtime_Invariant
begin

text \<open>
  What follows from the invariant of the conversation store: what becomes of a record over any sequence
  of operations, that a record is found again by its key, that answers stay in their workspace, and that
  listings are in the order of creation.
\<close>

section \<open>What becomes of a record\<close>

lemma turn_table: "runtime_inv u st \<Longrightarrow> table_ok u (rs_uuids st) (rs_sequence st) tn_id tn_createdAt (rs_turns st)"
  by (simp add: runtime_inv_def tables_ok_def)

lemma outcome_table: "runtime_inv u st \<Longrightarrow> table_ok u (rs_uuids st) (rs_sequence st) oc_id oc_createdAt (rs_outcomes st)"
  by (simp add: runtime_inv_def tables_ok_def)

lemma conversation_table:
  "runtime_inv u st \<Longrightarrow> table_ok u (rs_uuids st) (rs_sequence st) cv_id cv_createdAt (rs_conversations st)"
  by (simp add: runtime_inv_def tables_ok_def)

lemma change_turn:
  assumes ch: "store_change u scope st st'" and inv: "runtime_inv u st" "inj u" and t: "map_get (rs_turns st) k = Some t"
  shows "\<exists>t'. map_get (rs_turns st') k = Some t' \<and> (t' = t \<or> moved_turn scope st t t')"
  using ch
proof cases
  case (turn_added t')
  then have "tn_id t' \<noteq> k" using table_fresh[OF turn_table[OF inv(1)] inv(2)] t by (auto simp: new_turn_def)
  with turn_added t show ?thesis by simp
next
  case (turn_moved j r r')
  have "tn_id r' = j" using turn_moved table_okD(1)[OF turn_table[OF inv(1)] turn_moved(2)] by (simp add: moved_turn_def same_turn_def)
  with turn_moved t show ?thesis by (cases "j = k") auto
qed (use t in auto)

lemma change_outcome:
  assumes ch: "store_change u scope st st'" and inv: "runtime_inv u st" "inj u" and c: "map_get (rs_outcomes st) k = Some c"
  shows "\<exists>c'. map_get (rs_outcomes st') k = Some c' \<and>
    (c' = c \<or> outcome_in scope c \<and> oc_status c = Started \<and> (\<exists>i. c' = finished_outcome i (rs_sequence st + 1) c))"
  using ch
proof cases
  case (outcome_added c')
  then have "oc_id c' \<noteq> k" using table_fresh[OF outcome_table[OF inv(1)] inv(2)] c by (auto simp: new_outcome_def)
  with outcome_added c show ?thesis by simp
next
  case (outcome_finished i d)
  with outcome_with_call_SomeD(1)[OF _ inv(1)] c show ?thesis by (cases "oc_id d = k") auto
qed (use c in auto)

lemma change_conversation:
  assumes ch: "store_change u scope st st'" and inv: "runtime_inv u st" "inj u"
    and c: "map_get (rs_conversations st) k = Some c"
  shows "map_get (rs_conversations st') k = Some c"
  using ch
proof cases
  case (conversation_added d)
  then have "cv_id d \<noteq> k" using table_fresh[OF conversation_table[OF inv(1)] inv(2)] c by auto
  with conversation_added c show ?thesis by simp
qed (use c in auto)

text \<open>What is new or different after a change belongs to the workspace that made it.\<close>

lemma change_in_scope:
  assumes ch: "store_change u scope st st'" and inv: "runtime_inv u st"
  shows "map_get (rs_conversations st') k = Some c \<Longrightarrow> map_get (rs_conversations st) k \<noteq> Some c \<Longrightarrow> conversation_in scope c"
    and "map_get (rs_turns st') k = Some t \<Longrightarrow> map_get (rs_turns st) k \<noteq> Some t \<Longrightarrow> turn_in scope t"
    and "map_get (rs_outcomes st') k = Some d \<Longrightarrow> map_get (rs_outcomes st) k \<noteq> Some d \<Longrightarrow> outcome_in scope d"
  using ch
  by (cases rule: store_change.cases;
      auto simp: new_turn_def new_outcome_def moved_turn_def same_turn_def split: if_splits)+

section \<open>Life cycle\<close>

definition advanced :: "runtime_store \<Rightarrow> runtime_store \<Rightarrow> bool" where
  "advanced st st' \<longleftrightarrow>
     (\<forall>k c. map_get (rs_conversations st) k = Some c \<longrightarrow> map_get (rs_conversations st') k = Some c) \<and>
     (\<forall>k t. map_get (rs_turns st) k = Some t \<longrightarrow> (\<exists>t'. map_get (rs_turns st') k = Some t' \<and> same_turn t t' \<and>
        turn_progress (tn_status t) (tn_status t') \<and> (isTerminalAssistantTurnStatus (tn_status t) \<longrightarrow> t' = t))) \<and>
     (\<forall>k c. map_get (rs_outcomes st) k = Some c \<longrightarrow> (\<exists>c'. map_get (rs_outcomes st') k = Some c' \<and>
        oc_id c' = oc_id c \<and> call_key c' = call_key c \<and> (oc_status c \<noteq> Started \<longrightarrow> c' = c)))"

lemma advanced_refl: "advanced st st"
  by (simp add: advanced_def)

lemma same_turn_trans: "same_turn a b \<Longrightarrow> same_turn b c \<Longrightarrow> same_turn a c"
  by (simp add: same_turn_def)

lemma advanced_trans:
  assumes "advanced a b" "advanced b c"
  shows "advanced a c"
proof -
  have "\<exists>t'. map_get (rs_turns c) k = Some t' \<and> same_turn t t' \<and> turn_progress (tn_status t) (tn_status t') \<and>
      (isTerminalAssistantTurnStatus (tn_status t) \<longrightarrow> t' = t)" if t: "map_get (rs_turns a) k = Some t" for k t
  proof -
    obtain t1 where t1: "map_get (rs_turns b) k = Some t1" "same_turn t t1" "turn_progress (tn_status t) (tn_status t1)"
        "isTerminalAssistantTurnStatus (tn_status t) \<longrightarrow> t1 = t"
      using assms(1) t unfolding advanced_def by blast
    obtain t2 where "map_get (rs_turns c) k = Some t2" "same_turn t1 t2" "turn_progress (tn_status t1) (tn_status t2)"
        "isTerminalAssistantTurnStatus (tn_status t1) \<longrightarrow> t2 = t1"
      using assms(2) t1(1) unfolding advanced_def by blast
    with t1 show ?thesis using same_turn_trans turn_progress_trans by metis
  qed
  moreover have "\<exists>c'. map_get (rs_outcomes c) k = Some c' \<and> oc_id c' = oc_id d \<and> call_key c' = call_key d \<and>
      (oc_status d \<noteq> Started \<longrightarrow> c' = d)" if d: "map_get (rs_outcomes a) k = Some d" for k d
  proof -
    obtain d1 where d1: "map_get (rs_outcomes b) k = Some d1" "oc_id d1 = oc_id d" "call_key d1 = call_key d"
        "oc_status d \<noteq> Started \<longrightarrow> d1 = d"
      using assms(1) d unfolding advanced_def by blast
    obtain d2 where "map_get (rs_outcomes c) k = Some d2" "oc_id d2 = oc_id d1" "call_key d2 = call_key d1"
        "oc_status d1 \<noteq> Started \<longrightarrow> d2 = d1"
      using assms(2) d1(1) unfolding advanced_def by blast
    with d1 show ?thesis by auto
  qed
  ultimately show ?thesis using assms unfolding advanced_def by blast
qed

lemma moved_progress:
  assumes "moved_turn scope st t t'"
  shows "same_turn t t'" "turn_progress (tn_status t) (tn_status t')" "\<not> isTerminalAssistantTurnStatus (tn_status t)"
proof -
  obtain e where e: "turn_moves (tn_status t) e (tn_status t')" using assms by (auto simp: moved_turn_def)
  show "turn_progress (tn_status t) (tn_status t')" "\<not> isTerminalAssistantTurnStatus (tn_status t)"
    using turn_progress_move[OF e] turn_moves_source[OF e] by simp_all
qed (use assms in \<open>simp add: moved_turn_def\<close>)

lemma change_advances:
  assumes ch: "store_change u scope st st'" and inv: "runtime_inv u st" "inj u"
  shows "advanced st st'"
proof -
  have "\<exists>t'. map_get (rs_turns st') k = Some t' \<and> same_turn t t' \<and> turn_progress (tn_status t) (tn_status t') \<and>
      (isTerminalAssistantTurnStatus (tn_status t) \<longrightarrow> t' = t)" if "map_get (rs_turns st) k = Some t" for k t
    using change_turn[OF ch inv that] moved_progress by fastforce
  moreover have "\<exists>c'. map_get (rs_outcomes st') k = Some c' \<and> oc_id c' = oc_id c \<and> call_key c' = call_key c \<and>
      (oc_status c \<noteq> Started \<longrightarrow> c' = c)" if "map_get (rs_outcomes st) k = Some c" for k c
    using change_outcome[OF ch inv that] by auto
  ultimately show ?thesis using change_conversation[OF ch inv] unfolding advanced_def by blast
qed

lemma operated_advances:
  assumes "operated u lc st st'" "runtime_inv u st" "inj u"
  shows "advanced st st'"
  using assms
proof (induction rule: operated.induct)
  case (one_more st st' scope op)
  then have "runtime_inv u st'" by (simp add: operated_inv)
  with one_more show ?case
    by (blast intro: advanced_trans change_advances perform_refines)
qed (rule advanced_refl)

section \<open>Finding records again\<close>

lemma turn_with_key_found:
  assumes inv: "runtime_inv u st" and t: "map_get (rs_turns st) k = Some t" "tn_organizationId t = sc_organizationId scope"
  shows "turn_with_key st scope (tn_conversationId t) (tn_idempotencyKey t) = Some t"
proof -
  let ?P = "\<lambda>r. tn_organizationId r = sc_organizationId scope \<and> tn_conversationId r = tn_conversationId t \<and>
    tn_idempotencyKey r = tn_idempotencyKey t"
  have kd: "keys_distinct (rs_turns st)" using turn_table[OF inv] by (simp add: table_ok_def)
  have "find ?P (map_values (rs_turns st)) \<noteq> None" using find_map_values_None[OF _ t(1), of ?P] t(2) by auto
  then obtain r where r: "find ?P (map_values (rs_turns st)) = Some r" by auto
  from find_map_values_Some[OF this kd] obtain j where j: "map_get (rs_turns st) j = Some r" "?P r" by blast
  then have "j = k" using unique_onD[OF runtime_invD(2)[OF inv] j(1) t(1)] t(2) by simp
  with j t r show ?thesis by (simp add: turn_with_key_def)
qed

lemma turn_with_key_SomeD:
  assumes inv: "runtime_inv u st" and t: "turn_with_key st scope cid key = Some t"
  shows "map_get (rs_turns st) (tn_id t) = Some t" "tn_organizationId t = sc_organizationId scope"
    "tn_conversationId t = cid" "tn_idempotencyKey t = key"
proof -
  have kd: "keys_distinct (rs_turns st)" using turn_table[OF inv] by (simp add: table_ok_def)
  from find_map_values_Some[OF t[unfolded turn_with_key_def] kd] obtain k where
    k: "map_get (rs_turns st) k = Some t" "tn_organizationId t = sc_organizationId scope"
      "tn_conversationId t = cid" "tn_idempotencyKey t = key"
    by blast
  with table_okD(1)[OF turn_table[OF inv] k(1)] show "map_get (rs_turns st) (tn_id t) = Some t"
    "tn_organizationId t = sc_organizationId scope" "tn_conversationId t = cid" "tn_idempotencyKey t = key"
    by simp_all
qed

lemma outcome_with_call_found:
  assumes inv: "runtime_inv u st" and c: "map_get (rs_outcomes st) k = Some c"
  shows "outcome_with_call st (oc_turnId c) (oc_toolCallId c) = Some c"
proof -
  let ?P = "\<lambda>r. oc_turnId r = oc_turnId c \<and> oc_toolCallId r = oc_toolCallId c"
  have kd: "keys_distinct (rs_outcomes st)" using outcome_table[OF inv] by (simp add: table_ok_def)
  have "find ?P (map_values (rs_outcomes st)) \<noteq> None" using find_map_values_None[OF _ c, of ?P] by auto
  then obtain r where r: "find ?P (map_values (rs_outcomes st)) = Some r" by auto
  from find_map_values_Some[OF this kd] obtain j where j: "map_get (rs_outcomes st) j = Some r" "?P r" by blast
  then have "j = k" using unique_onD[OF runtime_invD(3)[OF inv] j(1) c] by simp
  with j c r show ?thesis by (simp add: outcome_with_call_def)
qed

text \<open>A turn found by its key in a conversation of the workspace belongs to the workspace.\<close>

lemma keyed_turn_in_scope:
  assumes inv: "runtime_inv u st" and c: "map_get (rs_conversations st) cid = Some c" "conversation_in scope c"
    and t: "turn_with_key st scope cid key = Some t"
  shows "turn_in scope t"
proof -
  note found = turn_with_key_SomeD[OF inv t]
  have "turn_ok st t" by (rule runtime_invD(4)[OF inv found(1)])
  with c found(3) show ?thesis by (auto simp: turn_ok_def inScope_def)
qed

lemma called_outcome_in_scope:
  assumes inv: "runtime_inv u st" and t: "map_get (rs_turns st) tid = Some t" "turn_in scope t"
    and c: "outcome_with_call st tid call = Some c"
  shows "outcome_in scope c"
proof -
  note found = outcome_with_call_SomeD[OF c inv]
  have "outcome_ok st c" by (rule runtime_invD(5)[OF inv found(1)])
  with t found(2) show ?thesis by (auto simp: outcome_ok_def inScope_def)
qed

section \<open>Answers stay in the workspace\<close>

fun insert_record :: "'r insert_result \<Rightarrow> 'r" where
  "insert_record (Inserted r) = r"
| "insert_record (Replayed r) = r"

fun transition_records :: "'r transition \<Rightarrow> 'r list" where
  "transition_records (Updated r) = [r]"
| "transition_records (AlreadyFinal r) = [r]"
| "transition_records (InvalidState r) = [r]"
| "transition_records NotFound = []"

definition turn_scope :: "assistant_turn \<Rightarrow> string \<times> string" where
  "turn_scope t = (tn_organizationId t, tn_workspaceId t)"

definition outcome_scope :: "tool_outcome \<Rightarrow> string \<times> string" where
  "outcome_scope c = (oc_organizationId c, oc_workspaceId c)"

definition conversation_scope :: "conversation \<Rightarrow> string \<times> string" where
  "conversation_scope c = (cv_organizationId c, cv_workspaceId c)"

fun answer_scopes :: "answer \<Rightarrow> (string \<times> string) set" where
  "answer_scopes (ConversationAnswer c) = {conversation_scope c}"
| "answer_scopes (OpenAnswer c) = conversation_scope ` set_option c"
| "answer_scopes (TurnsAnswer ts) = turn_scope ` set ts"
| "answer_scopes (TurnInsert r) = {turn_scope (insert_record r)}"
| "answer_scopes (TurnMove r) = turn_scope ` set (transition_records r)"
| "answer_scopes (OutcomeInsert r) = {outcome_scope (insert_record r)}"
| "answer_scopes (OutcomeMove r) = outcome_scope ` set (transition_records r)"
| "answer_scopes (RunsAnswer rs) = turn_scope ` tr_turn ` set rs \<union> outcome_scope ` (\<Union>r\<in>set rs. set (tr_outcomes r))"

definition scope_of :: "workspace_scope \<Rightarrow> string \<times> string" where
  "scope_of scope = (sc_organizationId scope, sc_workspaceId scope)"

lemma scope_eqs:
  "turn_scope t = scope_of scope \<longleftrightarrow> turn_in scope t" "outcome_scope c = scope_of scope \<longleftrightarrow> outcome_in scope c"
  "conversation_scope d = scope_of scope \<longleftrightarrow> conversation_in scope d"
  by (auto simp: turn_scope_def outcome_scope_def conversation_scope_def scope_of_def inScope_def)

lemma answering_Returned:
  "answering f m st = (Returned (Inr a), st') \<longleftrightarrow> (\<exists>x. m st = (Returned (Inr x), st') \<and> a = f x)"
  by (auto simp: answering_def split: prod.splits js_result.splits sum.splits)

lemma whenSame_Returned:
  "whenSame g a b yes no st = (Returned r, st') \<Longrightarrow> st' = st \<and> (r = yes \<or> r = no)"
  by (auto simp: whenSame_def split: if_splits option.splits)

lemma append_answer:
  assumes "runtime_inv u st" "appendUserTurn u scope i st = (Returned (Inr r), st')"
  shows "turn_in scope (insert_record r)"
  using assms(2) keyed_turn_in_scope[OF assms(1)]
  by (auto simp: appendUserTurn_def conversationForWrite_ok Let_def user_turn_row_def inScope_def
      split: sum.splits option.splits dest!: whenSame_Returned)

lemma queue_answer:
  assumes "runtime_inv u st" "queueAssistantTurn u scope i st = (Returned (Inr r), st')"
  shows "turn_in scope (insert_record r)"
  using assms(2) keyed_turn_in_scope[OF assms(1)]
  by (auto simp: queueAssistantTurn_def conversationForWrite_ok Let_def queued_turn_row_def inScope_def
      split: sum.splits option.splits dest!: whenSame_Returned)

lemma start_answer:
  assumes "runtime_inv u st" "startToolOutcome u scope i st = (Returned (Inr r), st')"
  shows "outcome_in scope (insert_record r)"
  using assms(2) called_outcome_in_scope[OF assms(1)]
  by (auto simp: startToolOutcome_def turnForTransition_def targeted_Some Let_def started_outcome_row_def inScope_def
      split: sum.splits option.splits if_splits dest!: whenSame_Returned)

lemma finish_answer:
  assumes "finishToolOutcome scope i st = (Returned (Inr r), st')"
  shows "\<forall>c\<in>set (transition_records r). outcome_in scope c"
  using assms
  by (auto simp: finishToolOutcome_def step_simps whenSame_def Let_def
      split: option.splits if_splits prod.splits js_result.splits)

lemma onTurn_answer:
  assumes "onTurn scope k f st = (Returned (Inr r), st')"
    and "\<And>t x st'. turn_in scope t \<Longrightarrow> f t st = (Returned (Inr x), st') \<Longrightarrow> \<forall>t'\<in>set (transition_records x). turn_in scope t'"
  shows "\<forall>t\<in>set (transition_records r). turn_in scope t"
  using assms
  by (auto simp: onTurn_def turnForTransition_def targeted_Some split: sum.splits option.splits)

lemma move_answers:
  "appendAssistantDelta scope i st = (Returned (Inr r), st') \<Longrightarrow> \<forall>t\<in>set (transition_records r). turn_in scope t"
  "finalizeAssistantTurn scope j st = (Returned (Inr r), st') \<Longrightarrow> \<forall>t\<in>set (transition_records r). turn_in scope t"
  "failAssistantTurn scope l st = (Returned (Inr r), st') \<Longrightarrow> \<forall>t\<in>set (transition_records r). turn_in scope t"
  unfolding appendAssistantDelta_def finalizeAssistantTurn_def failAssistantTurn_def
  by (erule onTurn_answer; force simp: saveTurn_def split: if_splits option.splits)+

lemma perform_answer:
  assumes inv: "runtime_inv u st" and r: "perform u lc scope op st = (Returned (Inr a), st')"
  shows "answer_scopes a \<subseteq> {scope_of scope}"
proof (cases op)
  case (Create i)
  with r show ?thesis
    by (auto simp: answering_Returned createConversation_def new_conversation_row_def Let_def scope_eqs inScope_def
        split: sum.splits)
next
  case (FindOpen i)
  with r show ?thesis
    by (auto simp: answering_Returned findOpenConversation_def Let_def scope_eqs split: list.splits)
      (metis (no_types, lifting) list.set_intros(1) mem_Collect_eq set_filter set_array_sort)
next
  case (ListRuns i)
  with r show ?thesis
    by (auto simp: answering_Returned listTaskAssistantRuns_def turn_outcomes_def Let_def scope_eqs split: if_splits)
next
  case (AppendDelta i)
  with r show ?thesis using move_answers(1)[of scope i st] by (fastforce simp: answering_Returned image_subset_iff scope_eqs)
next
  case (FinalizeTurn i)
  with r show ?thesis using move_answers(2)[of scope i st] by (fastforce simp: answering_Returned image_subset_iff scope_eqs)
next
  case (FailTurn i)
  with r show ?thesis using move_answers(3)[of scope i st] by (fastforce simp: answering_Returned image_subset_iff scope_eqs)
next
  case (FinishOutcome i)
  with r show ?thesis using finish_answer[of scope i st] by (fastforce simp: answering_Returned image_subset_iff scope_eqs)
qed (use r inv in \<open>auto simp: answering_Returned listTurns_def scope_eqs
       dest: append_answer queue_answer start_answer split: sum.splits option.splits\<close>)

section \<open>Listings\<close>

lemma insort_oldest:
  "sorted_wrt (\<lambda>a b. at a \<le> at b) xs \<Longrightarrow> sorted_wrt (\<lambda>a b. at a \<le> at b) (insort_by (oldest_first lc at rid) x xs)"
  by (induction xs) (auto simp: oldest_first_def Let_def split: if_splits)

lemma array_sort_oldest: "sorted_wrt (\<lambda>a b. at a \<le> at b) (array_sort (oldest_first lc at rid) xs)"
  by (induction xs) (simp_all add: insort_oldest)

lemma insort_by_cong:
  "(\<And>y. y \<in> set ys \<Longrightarrow> (cmp x y \<le> 0) = (cmp' x y \<le> 0)) \<Longrightarrow> insort_by cmp x ys = insort_by cmp' x ys"
  by (induction ys) auto

text \<open>With distinct times the collation of ids plays no role.\<close>

lemma array_sort_oldest_cong:
  "distinct (map at xs) \<Longrightarrow> array_sort (oldest_first lc at rid) xs = array_sort (oldest_first lc' at rid) xs"
proof (induction xs)
  case (Cons x xs)
  have "insort_by (oldest_first lc at rid) x ys = insort_by (oldest_first lc' at rid) x ys" if "set ys = set xs" for ys
    using Cons.prems that by (intro insort_by_cong) (auto simp: oldest_first_def Let_def)
  with Cons show ?case by simp
qed simp

lemma strictly_oldest:
  assumes "distinct (map at xs)"
  shows "sorted_wrt (\<lambda>a b. at a < at b) (array_sort (oldest_first lc at rid) xs)"
proof -
  let ?ys = "array_sort (oldest_first lc at rid) xs"
  have "distinct (map at ?ys)" using assms by (simp add: distinct_map)
  then have "at (?ys ! i) \<noteq> at (?ys ! j)" if "i < j" "j < length ?ys" for i j
    using that nth_eq_iff_index_eq[of "map at ?ys" i j] by simp
  with array_sort_oldest[of at lc rid xs] show ?thesis
    by (simp add: sorted_wrt_iff_nth_less less_le)
qed

lemma distinct_values:
  assumes "unique_on f m" "keys_distinct m"
  shows "distinct (map f (map_values m))"
proof -
  have "inj_on (f \<circ> snd) (set m)"
  proof (rule inj_onI)
    fix x y assume "x \<in> set m" "y \<in> set m" "(f \<circ> snd) x = (f \<circ> snd) y"
    then have "map_get m (fst x) = Some (snd x)" "map_get m (fst y) = Some (snd y)" "f (snd x) = f (snd y)"
      using assms(2) by simp_all
    with unique_onD[OF assms(1) this] show "x = y" by (simp add: prod_eq_iff)
  qed
  moreover have "distinct m" using assms(2) by (simp add: distinct_map)
  ultimately show ?thesis by (simp add: distinct_map)
qed

lemma distinct_filtered_values:
  "unique_on f m \<Longrightarrow> keys_distinct m \<Longrightarrow> distinct (map f (filter P (map_values m)))"
  by (rule distinct_map_filter) (rule distinct_values)

lemma map_values_iff: "keys_distinct m \<Longrightarrow> r \<in> set (map_values m) \<longleftrightarrow> (\<exists>k. map_get m k = Some r)"
  by (force simp: map_of_eq_Some_iff)

end
