(* ===== verification/Assistant_Properties.thy ===== *)
theory Assistant_Properties
  imports Runtime_Consequences
begin

text \<open>
  The properties of the assistant runtime: its records belong together, a turn lives through its life
  cycle once, workspaces are isolated, repeated requests replay, tool outcomes are finished once, streamed
  text is the concatenation of its deltas, and listings are complete and in the order of creation. The
  witnesses run on a small store with one conversation.
\<close>

section \<open>A store to run on\<close>

definition demo_uuid :: "nat \<Rightarrow> string" where
  "demo_uuid n = replicate (Suc n) CHR ''a''"

definition rt_scope :: workspace_scope where
  "rt_scope = \<lparr>sc_organizationId = ''org'', sc_workspaceId = ''ws''\<rparr>"

definition other_scope :: workspace_scope where
  "other_scope = \<lparr>sc_organizationId = ''org'', sc_workspaceId = ''other''\<rparr>"

definition run_ops :: "(workspace_scope \<times> runtime_op) list \<Rightarrow> runtime_store \<Rightarrow> runtime_store" where
  "run_ops ops st = fold (\<lambda>(scope, op) st. snd (perform demo_uuid (\<lambda>_ _. 0) scope op st)) ops st"

definition demo_conversation :: create_conversation where
  "demo_conversation = \<lparr>sc_organizationId = ''org'', sc_workspaceId = ''ws'', cc_surface = ''web'',
     cc_assistantKey = ''helper'', cc_createdByUserId = ''ann''\<rparr>"

definition demo_message :: append_user_turn where
  "demo_message = \<lparr>sc_organizationId = ''org'', sc_workspaceId = ''ws'', au_conversationId = ''a'',
     au_actorUserId = ''ann'', au_idempotencyKey = ''k1'', au_content = [(''text'', JString ''hi'')]\<rparr>"

definition demo_queue :: queue_assistant_turn where
  "demo_queue = \<lparr>sc_organizationId = ''org'', sc_workspaceId = ''ws'', qa_conversationId = ''a'',
     qa_idempotencyKey = ''k2'', qa_assistantKey = ''helper'', qa_content = None, qa_openclawSessionRef = None,
     qa_openclawRunRef = None\<rparr>"

definition demo_delta :: append_delta where
  "demo_delta = \<lparr>de_turnId = ''aa'', de_deltaText = ''x''\<rparr>"

definition demo_tool_start :: start_outcome where
  "demo_tool_start = \<lparr>sc_organizationId = ''org'', sc_workspaceId = ''ws'', so_turnId = ''aa'', so_toolName = ''tool'',
     so_toolCallId = ''call'', so_idempotencyKey = ''k3'', so_requestSummary = [], so_targetRef = None\<rparr>"

definition demo_finish :: finish_outcome where
  "demo_finish = \<lparr>fn_turnId = ''aa'', fn_toolName = ''tool'', fn_toolCallId = ''call'', fn_idempotencyKey = ''k3'',
     fn_status = Success, fn_requestSummary = [], fn_resultSummary = [(''ok'', JBool True)], fn_targetRef = None\<rparr>"

definition opened_store :: runtime_store where
  "opened_store = run_ops [(rt_scope, Create demo_conversation)] empty_runtime"

definition asked_store :: runtime_store where
  "asked_store = run_ops [(rt_scope, Queue demo_queue)] opened_store"

definition started_store :: runtime_store where
  "started_store = run_ops [(rt_scope, StartOutcome demo_tool_start)] asked_store"

lemma inj_demo_uuid: "inj demo_uuid"
  by (rule injI) (metis demo_uuid_def length_replicate nat.inject)

lemma operated_trans: "operated u lc b c \<Longrightarrow> operated u lc a b \<Longrightarrow> operated u lc a c"
  by (induction rule: operated.induct) (auto intro: operated.one_more)

lemma operated_run: "operated demo_uuid (\<lambda>_ _. 0) st (run_ops ops st)"
proof (induction ops arbitrary: st)
  case (Cons o' ops)
  obtain scope op where "o' = (scope, op)" by fastforce
  with Cons[of "snd (perform demo_uuid (\<lambda>_ _. 0) scope op st)"] show ?case
    using operated_trans operated.one_more[OF operated.none] by (fastforce simp: run_ops_def)
qed (simp add: run_ops_def operated.none)

lemma demo_operated:
  "operated demo_uuid (\<lambda>_ _. 0) empty_runtime opened_store"
  "operated demo_uuid (\<lambda>_ _. 0) empty_runtime asked_store"
  "operated demo_uuid (\<lambda>_ _. 0) empty_runtime started_store"
  using operated_run operated_trans unfolding opened_store_def asked_store_def started_store_def by blast+

lemma reachable_inv: "operated u lc empty_runtime st \<Longrightarrow> inj u \<Longrightarrow> runtime_inv u st"
  using operated_inv runtime_inv_empty by blast

section \<open>Contract\<close>

text \<open>
  C30. Refinement of the store contract: whatever an operation is given and answers, it changes the store
  as \<open>store_change\<close> allows: not at all, by one new record of its workspace that is due (a turn whose
  idempotency key is unused in a conversation of the workspace, a tool outcome for an assistant turn and
  an unused call id), or by moving one of its turns along the life cycle or finishing one started outcome.
\<close>

theorem store_operations_refine_their_contract:
  "store_change u scope st (snd (perform u lc scope op st))"
  by (rule perform_refines)

text \<open>
  C31. Invariant of the conversation store: after any operations of any workspaces, every turn stands
  under its id, has the shape of its role, and belongs to a conversation of its workspace; every tool
  outcome belongs to an assistant turn of its workspace and is completed exactly when it is no longer
  started; no idempotency key of a conversation and no call id of a turn is used twice.
\<close>

theorem conversation_records_belong_together:
  assumes "inj u" and "operated u lc empty_runtime st"
  shows "(\<forall>k t. map_get (rs_turns st) k = Some t \<longrightarrow> tn_id t = k \<and> turn_shape t \<and>
           (\<exists>c. map_get (rs_conversations st) (tn_conversationId t) = Some c \<and> conversation_scope c = turn_scope t)) \<and>
         (\<forall>k c. map_get (rs_outcomes st) k = Some c \<longrightarrow> oc_id c = k \<and> (oc_completedAt c \<noteq> None \<longleftrightarrow> oc_status c \<noteq> Started) \<and>
           (\<exists>t. map_get (rs_turns st) (oc_turnId c) = Some t \<and> tn_role t = AssistantTurn \<and> turn_scope t = outcome_scope c)) \<and>
         unique_on turn_key (rs_turns st) \<and> unique_on call_key (rs_outcomes st)"
proof -
  have inv: "runtime_inv u st" using assms by (simp add: reachable_inv)
  have "tn_id t = k \<and> turn_shape t \<and>
      (\<exists>c. map_get (rs_conversations st) (tn_conversationId t) = Some c \<and> conversation_scope c = turn_scope t)"
    if "map_get (rs_turns st) k = Some t" for k t
    using table_okD(1)[OF turn_table[OF inv] that] runtime_invD(4)[OF inv that]
    by (auto simp: turn_ok_def conversation_scope_def turn_scope_def)
  moreover have "oc_id c = k \<and> (oc_completedAt c \<noteq> None \<longleftrightarrow> oc_status c \<noteq> Started) \<and>
      (\<exists>t. map_get (rs_turns st) (oc_turnId c) = Some t \<and> tn_role t = AssistantTurn \<and> turn_scope t = outcome_scope c)"
    if "map_get (rs_outcomes st) k = Some c" for k c
    using table_okD(1)[OF outcome_table[OF inv] that] runtime_invD(5)[OF inv that]
    by (auto simp: outcome_ok_def outcome_scope_def turn_scope_def)
  ultimately show ?thesis using runtime_invD(2,3)[OF inv] by blast
qed

theorem conversation_records_belong_together_witness:
  "rs_turns asked_store \<noteq> [] \<and> unique_on turn_key (rs_turns asked_store) \<and> unique_on call_key (rs_outcomes asked_store)"
proof -
  have "rs_turns asked_store \<noteq> []" by code_simp
  then show ?thesis using conversation_records_belong_together[OF inj_demo_uuid demo_operated(2)] by blast
qed

text \<open>
  Life cycle of a turn: whatever operations follow, a turn stays in the store under its id with its
  conversation, author and key, its status only moves along the life cycle (queued, streaming, final or
  failed), and a finished turn is never changed again.
\<close>

theorem turns_follow_their_life_cycle:
  assumes "inj u" and "operated u lc empty_runtime st" and "operated u lc st st'" and "map_get (rs_turns st) k = Some t"
  shows "\<exists>t'. map_get (rs_turns st') k = Some t' \<and> same_turn t t' \<and> turn_progress (tn_status t) (tn_status t') \<and>
    (\<not> isTerminalAssistantTurnStatus (tn_status t) \<or> t' = t)"
  using operated_advances[OF assms(3) reachable_inv[OF assms(2,1)] assms(1)] assms(4) unfolding advanced_def by blast

definition streaming_store :: runtime_store where
  "streaming_store = run_ops [(rt_scope, AppendDelta demo_delta), (other_scope, FailTurn \<lparr>fl_turnId = ''aa'', fl_errorCode = [], fl_errorMessage = []\<rparr>)] asked_store"

theorem turns_follow_their_life_cycle_witness:
  "\<exists>t'. map_get (rs_turns streaming_store) ''aa'' = Some t' \<and> turn_progress Queued (tn_status t')"
proof -
  have "map_get (rs_turns asked_store) ''aa'' \<noteq> None" by code_simp
  then obtain t where t: "map_get (rs_turns asked_store) ''aa'' = Some t" by blast
  have "map_option tn_status (map_get (rs_turns asked_store) ''aa'') = Some Queued" by code_simp
  with t have "tn_status t = Queued" by simp
  moreover have "operated demo_uuid (\<lambda>_ _. 0) asked_store streaming_store"
    unfolding streaming_store_def by (rule operated_run)
  ultimately show ?thesis
    using turns_follow_their_life_cycle[OF inj_demo_uuid demo_operated(2) _ t, of streaming_store] by auto
qed

text \<open>
  C33. Isolation of workspaces: an operation of one workspace leaves every conversation, turn and tool
  outcome of all others as they are and adds none to them, and every record in its answer belongs to the
  workspace it was called for.
\<close>

theorem workspaces_are_isolated:
  assumes "inj u" and "operated u lc empty_runtime st" and "perform u lc scope op st = (r, st')"
  shows "(\<forall>k c. conversation_scope c \<noteq> scope_of scope \<longrightarrow>
            (map_get (rs_conversations st') k = Some c \<longleftrightarrow> map_get (rs_conversations st) k = Some c)) \<and>
         (\<forall>k t. turn_scope t \<noteq> scope_of scope \<longrightarrow> (map_get (rs_turns st') k = Some t \<longleftrightarrow> map_get (rs_turns st) k = Some t)) \<and>
         (\<forall>k c. outcome_scope c \<noteq> scope_of scope \<longrightarrow>
            (map_get (rs_outcomes st') k = Some c \<longleftrightarrow> map_get (rs_outcomes st) k = Some c)) \<and>
         (\<forall>a. r = Returned (ok a) \<longrightarrow> answer_scopes a \<subseteq> {scope_of scope})"
proof -
  have inv: "runtime_inv u st" using assms by (simp add: reachable_inv)
  have ch: "store_change u scope st st'" using perform_refines[of u scope st lc op] assms(3) by simp
  have "map_get (rs_turns st') k = Some t \<longleftrightarrow> map_get (rs_turns st) k = Some t" if "\<not> turn_in scope t" for k t
    using change_in_scope(2)[OF ch inv] change_turn[OF ch inv assms(1), of k t] that by (auto simp: moved_turn_def)
  moreover have "map_get (rs_outcomes st') k = Some c \<longleftrightarrow> map_get (rs_outcomes st) k = Some c" if "\<not> outcome_in scope c" for k c
    using change_in_scope(3)[OF ch inv] change_outcome[OF ch inv assms(1), of k c] that by auto
  moreover have "map_get (rs_conversations st') k = Some c \<longleftrightarrow> map_get (rs_conversations st) k = Some c"
    if "\<not> conversation_in scope c" for k c
    using change_in_scope(1)[OF ch inv] change_conversation[OF ch inv assms(1)] that by blast
  ultimately show ?thesis using perform_answer[OF inv] assms(3) by (simp add: scope_eqs) blast
qed

theorem workspaces_are_isolated_witness:
  "map_get (rs_turns (snd (perform demo_uuid (\<lambda>_ _. 0) other_scope (AppendDelta demo_delta) asked_store))) ''aa''
     = map_get (rs_turns asked_store) ''aa''"
proof -
  have "map_get (rs_turns asked_store) ''aa'' \<noteq> None" by code_simp
  then obtain t where t: "map_get (rs_turns asked_store) ''aa'' = Some t" by blast
  have "map_option turn_scope (map_get (rs_turns asked_store) ''aa'') = Some (''org'', ''ws'')" by code_simp
  with t have "turn_scope t \<noteq> scope_of other_scope" by (simp add: scope_of_def other_scope_def)
  with t workspaces_are_isolated[OF inj_demo_uuid demo_operated(2) surjective_pairing, of other_scope "AppendDelta demo_delta"]
  show ?thesis by metis
qed

section \<open>Repeated requests\<close>

lemma sameJson_refl: "stableJson v \<noteq> None \<Longrightarrow> sameJson v v = Some True"
  by (auto simp: sameJson_def)

lemma inserted_turn:
  assumes "appendUserTurn u scope i st = (Returned (ok (Inserted t)), st')"
  shows "t = user_turn_row u scope i st" "st' = drawn (tick st)\<lparr>rs_turns := map_set (tn_id t) t (rs_turns st)\<rparr>"
    "inScope (sc_organizationId i) (sc_workspaceId i) scope"
    "\<exists>c. map_get (rs_conversations st) (au_conversationId i) = Some c \<and> conversation_in scope c"
  using assms
  by (auto simp: appendUserTurn_def conversationForWrite_ok Let_def split: sum.splits option.splits dest!: whenSame_Returned)

text \<open>
  Exactly-once user turns: once a message was inserted, sending it again answers with the turn that
  was inserted and changes nothing, however many operations of any workspaces lie between. (A content that
  JSON cannot render makes the repetition throw, and is excluded.)
\<close>

theorem repeated_user_turns_replay:
  assumes "inj u" and "operated u lc empty_runtime st"
    and "appendUserTurn u scope i st = (Returned (ok (Inserted t)), st1)" and "operated u lc st1 st2"
    and "stableJson (JObject (au_content i)) \<noteq> None"
  shows "appendUserTurn u scope i st2 = (Returned (ok (Replayed t)), st2)"
proof -
  note ins = inserted_turn[OF assms(3)]
  have "operated u lc st (snd (perform u lc scope (AppendUser i) st))" by (rule operated.one_more[OF operated.none])
  then have "operated u lc st st1" using assms(3) by simp
  then have inv1: "runtime_inv u st1" using assms(1,2) by (simp add: operated_inv reachable_inv)
  have inv2: "runtime_inv u st2" and adv: "advanced st1 st2"
    using operated_inv[OF assms(4) inv1 assms(1)] operated_advances[OF assms(4) inv1 assms(1)] by simp_all
  have t: "tn_status t = Final" "tn_role t = UserTurn" "tn_actorUserId t = Some (au_actorUserId i)" "tn_content t = au_content i"
      "tn_conversationId t = au_conversationId i" "tn_idempotencyKey t = au_idempotencyKey i"
      "tn_organizationId t = sc_organizationId scope"
    by (simp_all add: ins(1) user_turn_row_def Let_def)
  have "map_get (rs_turns st1) (tn_id t) = Some t" by (simp add: ins(2))
  with adv t(1) have "map_get (rs_turns st2) (tn_id t) = Some t"
    unfolding advanced_def by (metis isTerminalAssistantTurnStatus_def)
  then have found: "turn_with_key st2 scope (au_conversationId i) (au_idempotencyKey i) = Some t"
    using turn_with_key_found[OF inv2, of "tn_id t" t scope] t by simp
  obtain c where "map_get (rs_conversations st) (au_conversationId i) = Some c" "conversation_in scope c" using ins(4) by blast
  then have "map_get (rs_conversations st1) (au_conversationId i) = Some c" by (simp add: ins(2))
  with adv have "map_get (rs_conversations st2) (au_conversationId i) = Some c" unfolding advanced_def by blast
  with \<open>conversation_in scope c\<close> have "conversationForWrite st2 scope (au_conversationId i) = Inr c"
    by (simp add: conversationForWrite_ok)
  with found ins(3) t(2-4) sameJson_refl[OF assms(5)] show ?thesis
    by (simp add: appendUserTurn_def assertScopedWrite_def whenSame_def)
qed

definition demo_turn :: assistant_turn where
  "demo_turn = user_turn_row demo_uuid rt_scope demo_message opened_store"

definition answered_store :: runtime_store where
  "answered_store = run_ops [(rt_scope, Queue demo_queue)] (run_ops [(rt_scope, AppendUser demo_message)] opened_store)"

theorem repeated_user_turns_replay_witness:
  "appendUserTurn demo_uuid rt_scope demo_message answered_store = (Returned (ok (Replayed demo_turn)), answered_store)"
proof -
  let ?st1 = "run_ops [(rt_scope, AppendUser demo_message)] opened_store"
  have "appendUserTurn demo_uuid rt_scope demo_message opened_store = (Returned (ok (Inserted demo_turn)), ?st1)" by code_simp
  moreover have "stableJson (JObject (au_content demo_message)) \<noteq> None" by code_simp
  moreover have "operated demo_uuid (\<lambda>_ _. 0) ?st1 answered_store" unfolding answered_store_def by (rule operated_run)
  ultimately show ?thesis by (intro repeated_user_turns_replay[OF inj_demo_uuid demo_operated(1)])
qed

lemma finished_updated:
  assumes "finishToolOutcome scope i st = (Returned (ok (Updated c)), st')" "runtime_inv u st"
  obtains d where "map_get (rs_outcomes st) (oc_id d) = Some d" "c = finished_outcome i (rs_sequence st + 1) d"
    "st' = tick st\<lparr>rs_outcomes := map_set (oc_id d) c (rs_outcomes st)\<rparr>" "outcome_in scope d"
    "oc_turnId d = fn_turnId i" "oc_toolCallId d = fn_toolCallId i"
    "oc_toolName d = fn_toolName i" "oc_idempotencyKey d = fn_idempotencyKey i"
    "sameJson (JObject (oc_requestSummary d)) (JObject (fn_requestSummary i)) = Some True"
proof -
  obtain d where d: "outcome_with_call st (fn_turnId i) (fn_toolCallId i) = Some d"
    using assms(1) by (auto simp: finishToolOutcome_def split: option.splits)
  note found = outcome_with_call_SomeD[OF d assms(2)]
  show thesis
    using assms(1) d found
    by (intro that[of d])
      (auto simp: finishToolOutcome_def step_simps whenSame_def Let_def split: option.splits if_splits prod.splits js_result.splits)
qed

text \<open>
  Tool outcomes are finished once: after an outcome was finished, finishing it again, at any later
  time and from its workspace, changes nothing; the same result is acknowledged with the recorded outcome
  and any other result is refused as an invalid state.
\<close>

theorem tool_outcomes_finish_once:
  assumes "inj u" and "operated u lc empty_runtime st"
    and "finishToolOutcome scope i st = (Returned (ok (Updated c)), st1)" and "operated u lc st1 st2"
    and "stableJson (JObject (fn_resultSummary i)) \<noteq> None" and "stableJson (JObject result) \<noteq> None"
  shows "finishToolOutcome scope (i\<lparr>fn_status := s, fn_resultSummary := result\<rparr>) st2 =
    (Returned (ok (if s = fn_status i \<and> stableJson (JObject (fn_resultSummary i)) = stableJson (JObject result)
       then AlreadyFinal c else InvalidState c)), st2)"
proof -
  have inv: "runtime_inv u st" using assms by (simp add: reachable_inv)
  obtain d where d: "map_get (rs_outcomes st) (oc_id d) = Some d" "c = finished_outcome i (rs_sequence st + 1) d"
      "st1 = tick st\<lparr>rs_outcomes := map_set (oc_id d) c (rs_outcomes st)\<rparr>" "outcome_in scope d"
      "oc_turnId d = fn_turnId i" "oc_toolCallId d = fn_toolCallId i" "oc_toolName d = fn_toolName i"
      "oc_idempotencyKey d = fn_idempotencyKey i"
      "sameJson (JObject (oc_requestSummary d)) (JObject (fn_requestSummary i)) = Some True"
    using finished_updated[OF assms(3) inv] by blast
  have "operated u lc st (snd (perform u lc scope (FinishOutcome i) st))" by (rule operated.one_more[OF operated.none])
  then have "runtime_inv u st1" using assms(1,3) operated_inv[OF _ inv] by simp
  then have inv2: "runtime_inv u st2" and adv: "advanced st1 st2"
    using operated_inv[OF assms(4)] operated_advances[OF assms(4)] assms(1) by simp_all
  have "map_get (rs_outcomes st1) (oc_id d) = Some c" by (simp add: d(3))
  moreover have "oc_status c \<noteq> Started" by (simp add: d(2))
  ultimately have "map_get (rs_outcomes st2) (oc_id d) = Some c" using adv unfolding advanced_def by metis
  from outcome_with_call_found[OF inv2 this] have "outcome_with_call st2 (fn_turnId i) (fn_toolCallId i) = Some c"
    by (simp add: d(2,5,6))
  moreover have "oc_toolName c = fn_toolName i" "oc_idempotencyKey c = fn_idempotencyKey i" "outcome_in scope c"
      "oc_requestSummary c = oc_requestSummary d" "oc_resultSummary c = fn_resultSummary i" "oc_status c = completed_status (fn_status i)"
    using d(4,7,8) by (simp_all add: d(2)) (simp_all add: finished_outcome_def)
  moreover have "completed_status (fn_status i) = completed_status s \<longleftrightarrow> s = fn_status i" by (cases s; cases "fn_status i") auto
  ultimately show ?thesis using d(9) assms(5,6)
    by (auto simp: finishToolOutcome_def step_simps whenSame_def sameJson_def)
qed

definition finished_store :: runtime_store where
  "finished_store = run_ops [(rt_scope, FinishOutcome demo_finish)] started_store"

theorem tool_outcomes_finish_once_witness:
  "\<exists>c. finishToolOutcome rt_scope (demo_finish\<lparr>fn_status := Failure, fn_resultSummary := []\<rparr>) finished_store =
     (Returned (ok (InvalidState c)), finished_store)"
proof -
  let ?d = "finished_outcome demo_finish 4 (started_outcome_row demo_uuid rt_scope demo_tool_start asked_store)"
  have "finishToolOutcome rt_scope demo_finish started_store = (Returned (ok (Updated ?d)), finished_store)" by code_simp
  moreover have "stableJson (JObject (fn_resultSummary demo_finish)) \<noteq> None" "stableJson (JObject []) \<noteq> None" by code_simp+
  moreover have "fn_status demo_finish = Success" by (simp add: demo_finish_def)
  ultimately show ?thesis
    using tool_outcomes_finish_once[OF inj_demo_uuid demo_operated(3) _ operated.none, of rt_scope demo_finish ?d finished_store "[]" Failure]
    by auto
qed

section \<open>Streaming\<close>

text \<open>A queue of deltas for one turn, appended one after the other.\<close>

fun stream :: "workspace_scope \<Rightarrow> string \<Rightarrow> string list \<Rightarrow> runtime_store \<Rightarrow> runtime_store" where
  "stream scope k [] st = st"
| "stream scope k (d # ds) st = stream scope k ds (snd (appendAssistantDelta scope \<lparr>de_turnId = k, de_deltaText = d\<rparr> st))"

lemma those_map_Some_id: "those (map (\<lambda>x. Some (f x)) xs) = Some (map f xs)"
  by (induction xs) simp_all

lemma delta_content:
  assumes "content_deltas content = Some deltas"
  shows "content_text (with_delta content deltas d) = content_text content @ d"
    "content_deltas (with_delta content deltas d) = Some (deltas @ [d])"
  using those_map_Some_id[of id "deltas @ [d]"]
  by (simp_all add: content_text_def content_deltas_def with_delta_def spread_def js_String_def comp_def)

lemma delta_step:
  assumes inv: "runtime_inv u st" and t: "map_get (rs_turns st) k = Some t" "turn_in scope t" "tn_role t = AssistantTurn"
    "canAppendAssistantDelta (tn_status t)" "content_deltas (tn_content t) = Some deltas"
  shows "snd (appendAssistantDelta scope \<lparr>de_turnId = k, de_deltaText = d\<rparr> st) =
    tick st\<lparr>rs_turns := map_set k (t\<lparr>tn_status := Streaming, tn_content := with_delta (tn_content t) deltas d,
      tn_updatedAt := rs_sequence st + 1\<rparr>) (rs_turns st)\<rparr>"
proof -
  have "turnForTransition st scope k = Inr (Some t)" using t(1,2) by (simp add: turnForTransition_def targeted_Some)
  moreover have "tn_id t = k" using table_okD(1)[OF turn_table[OF inv] t(1)] .
  ultimately show ?thesis using t(3-5)
    by (auto simp: appendAssistantDelta_def onTurn_def saveTurn_def canAppendAssistantDelta_def)
qed

lemma stream_content:
  assumes "runtime_inv u st" "inj u" "map_get (rs_turns st) k = Some t" "turn_in scope t" "tn_role t = AssistantTurn"
    "canAppendAssistantDelta (tn_status t)" "content_deltas (tn_content t) = Some deltas"
  shows "\<exists>t'. map_get (rs_turns (stream scope k ds st)) k = Some t' \<and> same_turn t t' \<and>
    content_text (tn_content t') = content_text (tn_content t) @ concat ds \<and>
    content_deltas (tn_content t') = Some (deltas @ ds) \<and> canAppendAssistantDelta (tn_status t')"
  using assms
proof (induction ds arbitrary: st t deltas)
  case (Cons d ds)
  let ?st = "snd (appendAssistantDelta scope \<lparr>de_turnId = k, de_deltaText = d\<rparr> st)"
  let ?t = "t\<lparr>tn_status := Streaming, tn_content := with_delta (tn_content t) deltas d, tn_updatedAt := rs_sequence st + 1\<rparr>"
  have t: "map_get (rs_turns ?st) k = Some ?t" using delta_step[OF Cons.prems(1,3-7)] by simp
  have "runtime_inv u ?st" by (rule change_keeps_inv[OF delta_refines Cons.prems(1,2)])
  from Cons.IH[OF this Cons.prems(2) t, of "deltas @ [d]"] Cons.prems(4,5) delta_content[OF Cons.prems(7)]
  obtain t' where "map_get (rs_turns (stream scope k ds ?st)) k = Some t'" "same_turn ?t t'"
      "content_text (tn_content t') = content_text (tn_content t) @ d @ concat ds"
      "content_deltas (tn_content t') = Some (deltas @ d # ds)" "canAppendAssistantDelta (tn_status t')"
    by (auto simp: canAppendAssistantDelta_def)
  then show ?case by (auto simp: same_turn_def)
qed auto

text \<open>
  Streaming: appending deltas one by one to an open assistant turn of the workspace extends its text
  by exactly their concatenation, records them in order behind the earlier ones, and leaves the turn open.
\<close>

theorem streamed_text_is_the_concatenation:
  assumes "inj u" and "operated u lc empty_runtime st" and "map_get (rs_turns st) k = Some t" and "turn_scope t = scope_of scope"
    and "tn_role t = AssistantTurn" and "canAppendAssistantDelta (tn_status t)" and "content_deltas (tn_content t) = Some deltas"
  shows "\<exists>t'. map_get (rs_turns (stream scope k ds st)) k = Some t' \<and> same_turn t t' \<and>
    content_text (tn_content t') = content_text (tn_content t) @ concat ds \<and>
    content_deltas (tn_content t') = Some (deltas @ ds) \<and> canAppendAssistantDelta (tn_status t')"
  using stream_content[OF reachable_inv[OF assms(2,1)] assms(1,3)] assms(4-7) by (simp add: scope_eqs)

theorem streamed_text_is_the_concatenation_witness:
  "map_option (\<lambda>t. content_text (tn_content t)) (map_get (rs_turns (stream rt_scope ''aa'' [''Hel'', ''lo''] asked_store)) ''aa'')
     = Some ''Hello''"
proof -
  let ?t = "queued_turn_row demo_uuid rt_scope demo_queue [] opened_store"
  have "map_get (rs_turns asked_store) ''aa'' = Some ?t" by code_simp
  moreover have "turn_scope ?t = scope_of rt_scope" "tn_role ?t = AssistantTurn" "canAppendAssistantDelta (tn_status ?t)"
      "content_deltas (tn_content ?t) = Some []" "content_text (tn_content ?t) = []"
    by code_simp+
  ultimately show ?thesis
    using streamed_text_is_the_concatenation[OF inj_demo_uuid demo_operated(2), of "''aa''" ?t rt_scope "[]" "[''Hel'', ''lo'']"]
    by auto
qed


section \<open>Listings\<close>

text \<open>
  The turns of a conversation: for a conversation of the workspace the listing holds exactly its
  turns, each once, in the strict order of their creation, whatever collation the host uses for ids.
\<close>

theorem turn_listing_is_complete_and_in_order:
  assumes "inj u" and "operated u lc empty_runtime st" and "map_get (rs_conversations st) cid = Some c"
    and "conversation_scope c = scope_of scope"
  shows "\<exists>ts. listTurns coll scope cid st = (Returned (ok ts), st) \<and> listTurns coll' scope cid st = (Returned (ok ts), st) \<and>
    set ts = {t. tn_conversationId t = cid \<and> map_get (rs_turns st) (tn_id t) = Some t} \<and>
    sorted_wrt (\<lambda>a b. tn_createdAt a < tn_createdAt b) ts"
proof -
  have inv: "runtime_inv u st" using assms by (simp add: reachable_inv)
  let ?P = "\<lambda>t. turn_in scope t \<and> tn_conversationId t = cid"
  let ?ts = "\<lambda>coll. array_sort (oldest_first coll tn_createdAt tn_id) (filter ?P (map_values (rs_turns st)))"
  have tab: "keys_distinct (rs_turns st)" "unique_on tn_createdAt (rs_turns st)"
    using turn_table[OF inv] by (simp_all add: table_ok_def)
  note dist = distinct_filtered_values[OF tab(2,1), of ?P]
  have "listTurns coll scope cid st = (Returned (ok (?ts coll)), st)" for coll
    using assms(3,4) by (simp add: listTurns_def targeted_def scope_eqs)
  moreover have "?ts coll' = ?ts coll" by (rule array_sort_oldest_cong[OF dist])
  moreover have "set (?ts coll) = {t. tn_conversationId t = cid \<and> map_get (rs_turns st) (tn_id t) = Some t}"
  proof -
    have "turn_in scope t" if "map_get (rs_turns st) k = Some t" "tn_conversationId t = cid" for k t
      using runtime_invD(4)[OF inv that(1)] that(2) assms(3,4) by (auto simp: turn_ok_def conversation_scope_def scope_of_def inScope_def)
    then show ?thesis using table_okD(1)[OF turn_table[OF inv]] by (force simp: map_values_iff[OF tab(1)] simp del: set_map)
  qed
  ultimately show ?thesis using strictly_oldest[OF dist] by (intro exI[of _ "?ts coll"]) simp
qed

theorem turn_listing_is_complete_and_in_order_witness:
  "\<exists>ts. listTurns (\<lambda>_ _. 1) rt_scope ''a'' answered_store = (Returned (ok ts), answered_store) \<and>
     listTurns (\<lambda>_ _. 0) rt_scope ''a'' answered_store = (Returned (ok ts), answered_store) \<and>
     sorted_wrt (\<lambda>a b. tn_createdAt a < tn_createdAt b) ts"
proof -
  have "map_get (rs_conversations answered_store) ''a'' = Some (new_conversation_row demo_uuid rt_scope demo_conversation empty_runtime)"
    by code_simp
  moreover have "conversation_scope (new_conversation_row demo_uuid rt_scope demo_conversation empty_runtime) = scope_of rt_scope"
    by code_simp
  moreover have "operated demo_uuid (\<lambda>_ _. 0) empty_runtime answered_store"
    using operated_trans[OF operated_run operated_trans[OF operated_run demo_operated(1)]] unfolding answered_store_def .
  ultimately show ?thesis using turn_listing_is_complete_and_in_order[OF inj_demo_uuid] by blast
qed

section \<open>Equality of payloads\<close>

text \<open>What \<^verbatim>\<open>stableJson\<close> cannot tell from \<^verbatim>\<open>null\<close>.\<close>

primrec jsonify :: "js_value \<Rightarrow> js_value" where
  "jsonify JUndefined = JNull"
| "jsonify JNull = JNull"
| "jsonify (JBool b) = JBool b"
| "jsonify (JNumber n) = (if number_json n = None then JNull else JNumber n)"
| "jsonify (JString s) = JString s"
| "jsonify (JArray xs) = JArray (map jsonify xs)"
| "jsonify (JObject kvs) = JObject (map (map_prod (\<lambda>k. k) jsonify) kvs)"
| "jsonify (JBigInt n) = JBigInt n"
| "jsonify (JSymbol _) = JNull"
| "jsonify (JFunction _) = JNull"

lemma stableJson_jsonify: "stableJson v = canonicalJson (jsonify v)"
proof (induction v)
  case (JArray xs)
  then have "map stableJson xs = map (canonicalJson \<circ> jsonify) xs" by simp
  from arg_cong[OF this, of canon_array] show ?case by (simp add: comp_def)
next
  case (JObject kvs)
  then have "map (map_prod (\<lambda>k. k) stableJson) kvs = map (map_prod (\<lambda>k. k) (canonicalJson \<circ> jsonify)) kvs" by (auto simp: snds.simps)
  from arg_cong[OF this, of canon_object] show ?case by (simp add: comp_def map_prod.compositionality[unfolded comp_def])
qed (auto simp: number_or_null_def split: option.splits)

lemma value_wf_jsonify: "value_wf v \<Longrightarrow> value_wf (jsonify v)"
proof (induction v)
  case (JObject kvs)
  then show ?case by (auto simp: value_wf_object list_all_iff comp_def simp del: value_wf.simps(7))
qed (auto simp: list_all_iff)

text \<open>
  Equality of payloads: two payloads that JSON can render count as the same exactly when they are the
  same JSON content up to the order of object members, with undefined values, symbols, functions and
  non-finite numbers read as null.
\<close>

theorem same_json_identifies_contents:
  assumes "value_wf l" and "value_wf r" and "stableJson l \<noteq> None" and "stableJson r \<noteq> None"
  shows "sameJson l r = Some (sort_keys (jsonify l) = sort_keys (jsonify r))"
proof -
  obtain s t where st: "canonicalJson (jsonify l) = Some s" "canonicalJson (jsonify r) = Some t"
    using assms(3,4) by (auto simp: stableJson_jsonify)
  have "sort_keys (jsonify l) = sort_keys (jsonify r)" if "s = t"
    using canonical_unique[OF st value_wf_jsonify[OF assms(1)] value_wf_jsonify[OF assms(2)], of "[]" "[]"] that
    by (simp add: stops_def)
  moreover have "s = t" if "sort_keys (jsonify l) = sort_keys (jsonify r)"
    using that st canonicalJson_sort_keys by (metis option.inject)
  ultimately show ?thesis using st by (auto simp: sameJson_def stableJson_jsonify)
qed

theorem same_json_identifies_contents_witness:
  "sameJson (JObject [(''a'', JUndefined)]) (JObject [(''a'', JNull)]) = Some True"
  using same_json_identifies_contents[of "JObject [(''a'', JUndefined)]" "JObject [(''a'', JNull)]"]
  by (simp add: canon_object_def)

end
