(* ===== verification/Authorization.thy ===== *)
theory Authorization
  imports Assistant_Domain Shared_Kernel
begin

text \<open>
  Authorization: the port \<^verbatim>\<open>packages/ports/src/authorization.ts\<close> with the contract cases of
  \<^verbatim>\<open>authorization-contract.ts\<close>, its two implementations by role keys (\<^verbatim>\<open>application/authorization.ts\<close> of
  the packages \<^verbatim>\<open>runtime-control\<close> and \<^verbatim>\<open>project-management\<close>), and the client code of the assistant
  services that every request passes first (\<^verbatim>\<open>validateCommonInput\<close> and
  \<^verbatim>\<open>toolExecutionContextFromSessionPrincipal\<close> in \<^verbatim>\<open>assistant-conversation-lifecycle.ts\<close>). What the client
  relies on is the locale \<open>authorization_port\<close>, which both implementations satisfy.
\<close>

section \<open>The port\<close>

record authorization_subject =
  su_userId :: string
  su_tenantId :: string
  su_orgId :: string
  su_workspaceIds :: "string list"
  su_roleKeys :: "string list option"

datatype authorization_action = ReadAction | CreateAction | UpdateAction | DeleteAction | AdminAction | ApproveAction | ExecuteAction

datatype resource_type =
    TenantResource | OrganizationResource | WorkspaceResource | ProjectResource
  | TaskResource | AgentResource | GatewayResource | SecretResource

record authorization_resource =
  rc_type :: resource_type
  rc_tenantId :: string
  rc_orgId :: "string option"
  rc_workspaceId :: "string option"
  rc_projectId :: "string option"
  rc_id :: "string option"

record authorization_decision =
  dc_allowed :: bool
  dc_reason :: "string option"

datatype tenant_grant = OwnerGrant | AdminGrant | MemberGrant | GuestGrant

datatype project_grant = ProjectAdmin | ProjectWrite | ProjectRead

record tenant_grant_check =
  tg_subject :: authorization_subject
  tg_tenantId :: string
  tg_grant :: tenant_grant

record project_grant_check =
  pg_subject :: authorization_subject
  pg_tenantId :: string
  pg_projectId :: string
  pg_grant :: project_grant

type_synonym can_function =
  "authorization_subject \<Rightarrow> authorization_action \<Rightarrow> authorization_resource \<Rightarrow> authorization_decision result"

section \<open>Two implementations by role keys\<close>

definition decision :: "bool \<Rightarrow> string option \<Rightarrow> authorization_decision result" where
  "decision allowed reason = ok \<lparr>dc_allowed = allowed, dc_reason = reason\<rparr>"

definition roleDecision :: "bool \<Rightarrow> string \<Rightarrow> authorization_decision result" where
  "roleDecision allowed reason = (if allowed then decision True None else decision False (Some reason))"

text \<open>The two files differ in the name of the set of roles that count as members.\<close>

definition roleAllows :: "string list \<Rightarrow> tenant_grant \<Rightarrow> string list \<Rightarrow> bool" where
  "roleAllows memberRoles required roleKeys =
     (if required = GuestGrant then ''guest'' \<in> set roleKeys
      else if required = MemberGrant then list_ex (\<lambda>k. k \<in> set memberRoles) roleKeys
      else if required = AdminGrant then ''owner'' \<in> set roleKeys \<or> ''admin'' \<in> set roleKeys
      else ''owner'' \<in> set roleKeys)"

abbreviation role_keys :: "authorization_subject \<Rightarrow> string list" where
  "role_keys s \<equiv> (case su_roleKeys s of Some ks \<Rightarrow> ks | None \<Rightarrow> [])"

definition runtimeControlRoles :: "string list" where
  "runtimeControlRoles = [''owner'', ''admin'', ''member'']"

definition taskManagerRoles :: "string list" where
  "taskManagerRoles = [''owner'', ''admin'', ''member'']"

definition runtime_can :: can_function where
  "runtime_can subject action resource =
     (if rc_type resource \<noteq> AgentResource \<and> rc_type resource \<noteq> WorkspaceResource
      then decision False (Some ''unsupported-resource'')
      else if rc_tenantId resource \<noteq> su_tenantId subject then decision False (Some ''tenant-mismatch'')
      else if rc_orgId resource \<noteq> None \<and> rc_orgId resource \<noteq> Some (su_orgId subject)
      then decision False (Some ''organization-mismatch'')
      else if rc_workspaceId resource \<noteq> None \<and> the (rc_workspaceId resource) \<notin> set (su_workspaceIds subject)
      then decision False (Some ''workspace-mismatch'')
      else if action \<noteq> ReadAction \<and> action \<noteq> CreateAction \<and> action \<noteq> UpdateAction \<and> action \<noteq> ExecuteAction
      then decision False (Some ''unsupported-action'')
      else roleDecision (roleAllows runtimeControlRoles MemberGrant (role_keys subject)) ''missing-runtime-control-role'')"

definition runtime_hasTenantGrant :: "tenant_grant_check \<Rightarrow> authorization_decision result" where
  "runtime_hasTenantGrant input =
     (if tg_tenantId input \<noteq> su_tenantId (tg_subject input) then decision False (Some ''tenant-mismatch'')
      else roleDecision (roleAllows runtimeControlRoles (tg_grant input) (role_keys (tg_subject input))) ''missing-tenant-grant'')"

definition runtime_hasProjectGrant :: "project_grant_check \<Rightarrow> authorization_decision result" where
  "runtime_hasProjectGrant input =
     (if pg_tenantId input \<noteq> su_tenantId (pg_subject input) then decision False (Some ''tenant-mismatch'')
      else roleDecision (roleAllows runtimeControlRoles MemberGrant (role_keys (pg_subject input))) ''missing-project-grant'')"

definition task_can :: can_function where
  "task_can subject action resource =
     (if rc_type resource \<noteq> TaskResource \<and> rc_type resource \<noteq> WorkspaceResource
      then decision False (Some ''unsupported-resource'')
      else if rc_tenantId resource \<noteq> su_tenantId subject then decision False (Some ''tenant-mismatch'')
      else if rc_orgId resource \<noteq> None \<and> rc_orgId resource \<noteq> Some (su_orgId subject)
      then decision False (Some ''organization-mismatch'')
      else if rc_workspaceId resource \<noteq> None \<and> the (rc_workspaceId resource) \<notin> set (su_workspaceIds subject)
      then decision False (Some ''workspace-mismatch'')
      else if action \<noteq> ReadAction \<and> action \<noteq> CreateAction \<and> action \<noteq> UpdateAction \<and> action \<noteq> DeleteAction
      then decision False (Some ''unsupported-action'')
      else roleDecision (roleAllows taskManagerRoles MemberGrant (role_keys subject)) ''missing-task-role'')"

definition task_hasTenantGrant :: "tenant_grant_check \<Rightarrow> authorization_decision result" where
  "task_hasTenantGrant input =
     (if tg_tenantId input \<noteq> su_tenantId (tg_subject input) then decision False (Some ''tenant-mismatch'')
      else roleDecision (roleAllows taskManagerRoles (tg_grant input) (role_keys (tg_subject input))) ''missing-tenant-grant'')"

definition task_hasProjectGrant :: "project_grant_check \<Rightarrow> authorization_decision result" where
  "task_hasProjectGrant input =
     (if pg_tenantId input \<noteq> su_tenantId (pg_subject input) then decision False (Some ''tenant-mismatch'')
      else roleDecision (roleAllows taskManagerRoles MemberGrant (role_keys (pg_subject input))) ''missing-project-grant'')"

section \<open>Contract cases\<close>

record contract_case =
  ct_name :: string
  ct_subject :: authorization_subject
  ct_action :: authorization_action
  ct_resource :: authorization_resource
  ct_expected :: bool

definition contract_subject :: "string list \<Rightarrow> authorization_subject" where
  "contract_subject roleKeys =
     \<lparr>su_userId = ''authz-contract-'' @ (let j = join ''-'' roleKeys in if j = [] then ''none'' else j) @ ''-user'',
      su_tenantId = ''authz-contract-tenant'', su_orgId = ''authz-contract-org'',
      su_workspaceIds = [''authz-contract-workspace''], su_roleKeys = Some roleKeys\<rparr>"

definition workspaceResource :: authorization_resource where
  "workspaceResource = \<lparr>rc_type = WorkspaceResource, rc_tenantId = ''authz-contract-tenant'',
     rc_orgId = Some ''authz-contract-org'', rc_workspaceId = Some ''authz-contract-workspace'',
     rc_projectId = Some ''authz-contract-project'', rc_id = None\<rparr>"

definition authorizationContractCases :: "contract_case list" where
  "authorizationContractCases =
     [\<lparr>ct_name = ''owner can update a workspace in their tenant and workspace set'', ct_subject = contract_subject [''owner''],
       ct_action = UpdateAction, ct_resource = workspaceResource, ct_expected = True\<rparr>,
      \<lparr>ct_name = ''member can read a workspace in their tenant and workspace set'', ct_subject = contract_subject [''member''],
       ct_action = ReadAction, ct_resource = workspaceResource, ct_expected = True\<rparr>,
      \<lparr>ct_name = ''guest cannot create in a workspace'', ct_subject = contract_subject [''guest''],
       ct_action = CreateAction, ct_resource = workspaceResource, ct_expected = False\<rparr>,
      \<lparr>ct_name = ''owner cannot act across workspaces'', ct_subject = contract_subject [''owner''],
       ct_action = ReadAction, ct_resource = workspaceResource\<lparr>rc_workspaceId := Some ''authz-contract-other-workspace''\<rparr>,
       ct_expected = False\<rparr>,
      \<lparr>ct_name = ''owner cannot act across tenants'', ct_subject = contract_subject [''owner''],
       ct_action = ReadAction, ct_resource = workspaceResource\<lparr>rc_tenantId := ''authz-contract-other-tenant''\<rparr>, ct_expected = False\<rparr>,
      \<lparr>ct_name = ''owner cannot act across organizations'', ct_subject = contract_subject [''owner''],
       ct_action = ReadAction, ct_resource = workspaceResource\<lparr>rc_orgId := Some ''authz-contract-other-org''\<rparr>, ct_expected = False\<rparr>,
      \<lparr>ct_name = ''owner cannot use an unsupported shared action'', ct_subject = contract_subject [''owner''],
       ct_action = ApproveAction, ct_resource = workspaceResource, ct_expected = False\<rparr>,
      \<lparr>ct_name = ''owner cannot use an unsupported shared resource'', ct_subject = contract_subject [''owner''],
       ct_action = ReadAction, ct_resource = workspaceResource\<lparr>rc_type := TenantResource\<rparr>, ct_expected = False\<rparr>]"

text \<open>The first case a port fails, by name; \<open>None\<close> when the assertion passes.\<close>

fun assertAuthorizationPortContract :: "can_function \<Rightarrow> contract_case list \<Rightarrow> string option" where
  "assertAuthorizationPortContract can [] = None"
| "assertAuthorizationPortContract can (c # cs) =
     (case can (ct_subject c) (ct_action c) (ct_resource c) of
        Inl e \<Rightarrow> Some (''AuthorizationPort contract case failed with error: '' @ ct_name c)
      | Inr d \<Rightarrow> if dc_allowed d \<noteq> ct_expected c then Some (''AuthorizationPort contract case failed: '' @ ct_name c)
                 else assertAuthorizationPortContract can cs)"

section \<open>The client\<close>

record runtime_actor =
  ra_userId :: string
  ra_roleKeys :: "string list"

record runtime_context =
  cx_orgId :: string
  cx_workspaceId :: string
  cx_actor :: runtime_actor

record session_principal = runtime_context +
  sp_sessionId :: string

record tool_context = session_principal +
  tc_conversationId :: string
  tc_assistantTurnId :: string
  tc_commandIdempotencyKey :: string

record tool_context_input =
  ti_principal :: session_principal
  ti_conversationId :: string
  ti_assistantTurnId :: string
  ti_commandIdempotencyKey :: string

definition invalidContext :: domain_error where
  "invalidContext = failure ''runtimeControl.invalidContext''
     ''Runtime-Control context contains an invalid organization, workspace, or actor id.''"

text \<open>The four constructors run in order; the first that throws is caught.\<close>

definition assertKnownContext :: "'a runtime_context_scheme \<Rightarrow> unit result" where
  "assertKnownContext input =
     (case makeId TenantId (cx_orgId input) of Inl _ \<Rightarrow> err invalidContext | Inr _ \<Rightarrow>
     (case makeId OrgId (cx_orgId input) of Inl _ \<Rightarrow> err invalidContext | Inr _ \<Rightarrow>
     (case makeId WorkspaceId (cx_workspaceId input) of Inl _ \<Rightarrow> err invalidContext | Inr _ \<Rightarrow>
     (case makeId UserId (ra_userId (cx_actor input)) of Inl _ \<Rightarrow> err invalidContext | Inr _ \<Rightarrow> ok ()))))"

definition authorizationSubject :: "'a runtime_context_scheme \<Rightarrow> authorization_subject" where
  "authorizationSubject input =
     \<lparr>su_userId = ra_userId (cx_actor input), su_tenantId = cx_orgId input, su_orgId = cx_orgId input,
      su_workspaceIds = [cx_workspaceId input], su_roleKeys = Some (ra_roleKeys (cx_actor input))\<rparr>"

definition forbidden :: domain_error where
  "forbidden = failure ''runtimeControl.forbidden'' ''You are not allowed to use Runtime-Control.''"

definition authorizeRuntimeControl :: "can_function \<Rightarrow> 'a runtime_context_scheme \<Rightarrow> authorization_action \<Rightarrow> unit result" where
  "authorizeRuntimeControl can input action =
     (case can (authorizationSubject input) action
        \<lparr>rc_type = AgentResource, rc_tenantId = cx_orgId input, rc_orgId = Some (cx_orgId input),
         rc_workspaceId = Some (cx_workspaceId input), rc_projectId = None, rc_id = None\<rparr> of
        Inl e \<Rightarrow> err e
      | Inr d \<Rightarrow> if \<not> dc_allowed d then err forbidden else ok ())"

definition validateCommonInput ::
  "can_function option \<Rightarrow> 'a runtime_context_scheme \<Rightarrow> authorization_action \<Rightarrow> unit result" where
  "validateCommonInput authorizationPort input action =
     (case assertKnownContext input of
        Inl e \<Rightarrow> err e
      | Inr _ \<Rightarrow> authorizeRuntimeControl (case authorizationPort of Some can \<Rightarrow> can | None \<Rightarrow> runtime_can) input action)"

definition toolExecutionContextFromSessionPrincipal :: "tool_context_input \<Rightarrow> tool_context result" where
  "toolExecutionContextFromSessionPrincipal input =
     (case assertKnownContext (ti_principal input) of
        Inl e \<Rightarrow> err e
      | Inr _ \<Rightarrow>
     (case normalizeRuntimeKey (ti_conversationId input) ''conversationId'' of
        Inl e \<Rightarrow> err e
      | Inr conversationId \<Rightarrow>
     (case normalizeRuntimeKey (ti_assistantTurnId input) ''assistantTurnId'' of
        Inl e \<Rightarrow> err e
      | Inr assistantTurnId \<Rightarrow>
     (case normalizeRuntimeKey (ti_commandIdempotencyKey input) ''commandIdempotencyKey'' of
        Inl e \<Rightarrow> err e
      | Inr idempotencyKey \<Rightarrow>
          ok \<lparr>cx_orgId = cx_orgId (ti_principal input), cx_workspaceId = cx_workspaceId (ti_principal input),
              cx_actor = cx_actor (ti_principal input), sp_sessionId = sp_sessionId (ti_principal input),
              tc_conversationId = conversationId, tc_assistantTurnId = assistantTurnId,
              tc_commandIdempotencyKey = idempotencyKey\<rparr>))))"

section \<open>What the client relies on\<close>

text \<open>The rule both ports implement: which resources and actions they know, and who counts as a member.\<close>

definition port_allows ::
  "resource_type list \<Rightarrow> authorization_action list \<Rightarrow> string list \<Rightarrow>
   authorization_subject \<Rightarrow> authorization_action \<Rightarrow> authorization_resource \<Rightarrow> bool" where
  "port_allows types actions members s a r \<longleftrightarrow>
     rc_type r \<in> set types \<and> rc_tenantId r = su_tenantId s \<and> set_option (rc_orgId r) \<subseteq> {su_orgId s} \<and>
     set_option (rc_workspaceId r) \<subseteq> set (su_workspaceIds s) \<and> a \<in> set actions \<and> set (role_keys s) \<inter> set members \<noteq> {}"

locale authorization_port =
  fixes can :: can_function
    and types :: "resource_type list"
    and actions :: "authorization_action list"
    and members :: "string list"
  assumes decides: "\<exists>d. can s a r = ok d \<and> (dc_allowed d \<longleftrightarrow> port_allows types actions members s a r) \<and> (dc_reason d = None \<longleftrightarrow> dc_allowed d)"
begin

lemma allowed_iff: "(\<exists>d. can s a r = ok d \<and> dc_allowed d) \<longleftrightarrow> port_allows types actions members s a r"
  using decides[of s a r] by auto

lemma authorize_eq:
  "authorizeRuntimeControl can input a =
     (if AgentResource \<in> set types \<and> a \<in> set actions \<and> set (ra_roleKeys (cx_actor input)) \<inter> set members \<noteq> {}
      then ok () else err forbidden)"
proof -
  let ?r = "\<lparr>rc_type = AgentResource, rc_tenantId = cx_orgId input, rc_orgId = Some (cx_orgId input),
    rc_workspaceId = Some (cx_workspaceId input), rc_projectId = None, rc_id = None\<rparr>"
  obtain d where d: "can (authorizationSubject input) a ?r = ok d"
      "dc_allowed d \<longleftrightarrow> port_allows types actions members (authorizationSubject input) a ?r"
    using decides by blast
  have "port_allows types actions members (authorizationSubject input) a ?r \<longleftrightarrow>
      AgentResource \<in> set types \<and> a \<in> set actions \<and> set (ra_roleKeys (cx_actor input)) \<inter> set members \<noteq> {}"
    by (simp add: port_allows_def authorizationSubject_def)
  with d show ?thesis by (simp add: authorizeRuntimeControl_def)
qed

end

lemma list_ex_inter: "list_ex (\<lambda>k. k \<in> set ms) ks \<longleftrightarrow> set ks \<inter> set ms \<noteq> {}"
  by (auto simp: list_ex_iff)

interpretation runtime_port: authorization_port runtime_can "[AgentResource, WorkspaceResource]"
    "[ReadAction, CreateAction, UpdateAction, ExecuteAction]" runtimeControlRoles
  by unfold_locales
    (auto simp: runtime_can_def port_allows_def decision_def roleDecision_def roleAllows_def list_ex_inter)

interpretation task_port: authorization_port task_can "[TaskResource, WorkspaceResource]"
    "[ReadAction, CreateAction, UpdateAction, DeleteAction]" taskManagerRoles
  by unfold_locales
    (auto simp: task_can_def port_allows_def decision_def roleDecision_def roleAllows_def list_ex_inter)

lemma makeId_cases: "(case makeId k s of Inl _ \<Rightarrow> a | Inr _ \<Rightarrow> b) = (if opaqueIdPattern s then b else a)"
  by (simp add: makeId_def makeOpaqueId_def parseOpaqueId_def)

lemma assertKnownContext_eq:
  "assertKnownContext input =
     (if opaqueIdPattern (cx_orgId input) \<and> opaqueIdPattern (cx_workspaceId input) \<and> opaqueIdPattern (ra_userId (cx_actor input))
      then ok () else err invalidContext)"
  by (simp add: assertKnownContext_def makeId_cases)

section \<open>Properties\<close>

text \<open>
  C40. The two authorization ports decide by one rule: a request is allowed exactly when the port knows
  the resource and the action, tenant, organization and workspace are the subject's own, and one of its
  roles is a member role; otherwise, and only then, a reason is given. Both pass the shared contract.
\<close>

theorem authorization_ports_follow_the_rule:
  "\<exists>d d'. runtime_can s a r = ok d \<and> (dc_reason d = None \<longleftrightarrow> dc_allowed d) \<and>
     (dc_allowed d \<longleftrightarrow> port_allows [AgentResource, WorkspaceResource] [ReadAction, CreateAction, UpdateAction, ExecuteAction]
        runtimeControlRoles s a r) \<and>
   task_can s a r = ok d' \<and> (dc_reason d' = None \<longleftrightarrow> dc_allowed d') \<and>
     (dc_allowed d' \<longleftrightarrow> port_allows [TaskResource, WorkspaceResource] [ReadAction, CreateAction, UpdateAction, DeleteAction]
        taskManagerRoles s a r) \<and>
   assertAuthorizationPortContract runtime_can authorizationContractCases = None \<and>
   assertAuthorizationPortContract task_can authorizationContractCases = None"
proof -
  have "assertAuthorizationPortContract runtime_can authorizationContractCases = None" by code_simp
  moreover have "assertAuthorizationPortContract task_can authorizationContractCases = None" by code_simp
  ultimately show ?thesis using runtime_port.decides[of s a r] task_port.decides[of s a r] by metis
qed

text \<open>
  The gate of the assistant services, without a port of the caller's own: a request passes exactly when organization,
  workspace and actor ids are well-formed identifiers, the action is one of read, create, update and
  execute, and the actor has a member role; the two refusals are told apart by their code.
\<close>

theorem common_input_gate:
  "validateCommonInput None input action =
     (if \<not> (opaqueIdPattern (cx_orgId input) \<and> opaqueIdPattern (cx_workspaceId input) \<and> opaqueIdPattern (ra_userId (cx_actor input)))
      then err invalidContext
      else if action \<in> {ReadAction, CreateAction, UpdateAction, ExecuteAction} \<and>
        set (ra_roleKeys (cx_actor input)) \<inter> {''owner'', ''admin'', ''member''} \<noteq> {}
      then ok () else err forbidden)"
  by (simp add: validateCommonInput_def assertKnownContext_eq runtime_port.authorize_eq runtimeControlRoles_def)

end
