(* ===== verification/Task_Domain.thy ===== *)
theory Task_Domain
  imports Js_Prelude
begin

text \<open>
  The domain of the project-management package (\<^verbatim>\<open>packages/project-management/src/domain/task.ts\<close>): task
  statuses and priorities with their parsers, and the normalisation of titles, descriptions and labels.
\<close>

section \<open>Tasks\<close>

datatype task_status = TaskTodo | TaskInProgress | TaskBlocked | TaskDone

datatype task_priority = LowPriority | NormalPriority | HighPriority | UrgentPriority

primrec show_task_status :: "task_status \<Rightarrow> string" where
  "show_task_status TaskTodo = ''todo''"
| "show_task_status TaskInProgress = ''in_progress''"
| "show_task_status TaskBlocked = ''blocked''"
| "show_task_status TaskDone = ''done''"

primrec show_task_priority :: "task_priority \<Rightarrow> string" where
  "show_task_priority LowPriority = ''low''"
| "show_task_priority NormalPriority = ''normal''"
| "show_task_priority HighPriority = ''high''"
| "show_task_priority UrgentPriority = ''urgent''"

definition taskStatuses :: "task_status list" where
  "taskStatuses = [TaskTodo, TaskInProgress, TaskBlocked, TaskDone]"

definition taskPriorities :: "task_priority list" where
  "taskPriorities = [LowPriority, NormalPriority, HighPriority, UrgentPriority]"

definition isTerminalTaskStatus :: "task_status \<Rightarrow> bool" where
  "isTerminalTaskStatus s \<longleftrightarrow> s = TaskDone"

record task =
  tk_id :: string
  tk_organizationId :: string
  tk_workspaceId :: string
  tk_cardNumber :: int
  tk_title :: string
  tk_description :: string
  tk_status :: task_status
  tk_priority :: task_priority
  tk_assigneeUserId :: "string option"
  tk_labels :: "string list"
  tk_position :: int
  tk_dueAt :: "js_date option"
  tk_provenanceSource :: string
  tk_provenanceExternalRef :: "string option"
  tk_createdAt :: js_date
  tk_updatedAt :: js_date

definition parseTaskStatus :: "js_value \<Rightarrow> task_status result" where
  "parseTaskStatus = parseEnum show_task_status taskStatuses
     (failure ''projectManagement.invalidTaskStatus'' ''Task status must be todo, in_progress, blocked, or done.'')"

definition parseTaskPriority :: "js_value \<Rightarrow> task_priority result" where
  "parseTaskPriority = parseEnum show_task_priority taskPriorities
     (failure ''projectManagement.invalidTaskPriority'' ''Task priority must be low, normal, high, or urgent.'')"

interpretation task_status_enum: string_enum show_task_status taskStatuses
proof unfold_locales
  fix x y show "show_task_status x = show_task_status y \<Longrightarrow> x = y" by (cases x; cases y) auto
  fix x show "x \<in> set taskStatuses" by (cases x) (auto simp: taskStatuses_def)
qed

interpretation task_priority_enum: string_enum show_task_priority taskPriorities
proof unfold_locales
  fix x y show "show_task_priority x = show_task_priority y \<Longrightarrow> x = y" by (cases x; cases y) auto
  fix x show "x \<in> set taskPriorities" by (cases x) (auto simp: taskPriorities_def)
qed

section \<open>Normalisation\<close>

definition normalizeTaskTitle :: "string \<Rightarrow> string result" where
  "normalizeTaskTitle v =
     (let title = squish v in
      if length title = 0 then err (failure ''projectManagement.taskTitleRequired'' ''Task title is required.'')
      else if length title > 180
      then err (failure ''projectManagement.taskTitleTooLong'' ''Task title must be 180 characters or fewer.'')
      else ok title)"

definition normalizeTaskDescription :: "string \<Rightarrow> string result" where
  "normalizeTaskDescription v =
     (let description = trim v in
      if length description > 4000
      then err (failure ''projectManagement.taskDescriptionTooLong'' ''Task description must be 4000 characters or fewer.'')
      else ok description)"

definition normalizeTaskLabels :: "string list \<Rightarrow> string list result" where
  "normalizeTaskLabels vs =
     (let uniqueLabels = js_set (filter (\<lambda>v. length v > 0) (map (\<lambda>v. to_lower (trim v)) vs)) in
      if length uniqueLabels > 8
      then err (failure ''projectManagement.tooManyTaskLabels'' ''A task can have at most 8 labels.'')
      else if find (\<lambda>l. length l > 32) uniqueLabels \<noteq> None
      then err (failure ''projectManagement.taskLabelTooLong'' ''Task labels must be 32 characters or fewer.'')
      else ok uniqueLabels)"

lemma lower_char_idem [simp]: "lower_char (lower_char c) = lower_char c"
proof (cases "(65 \<le> (of_char c :: nat) \<and> (of_char c :: nat) \<le> 90) \<or> (192 \<le> (of_char c :: nat) \<and> (of_char c :: nat) \<le> 222 \<and> (of_char c :: nat) \<noteq> 215)")
  case True
  then have "(of_char (lower_char c) :: nat) = of_char c + 32" by (auto simp: lower_char_def Let_def)
  then show ?thesis using True by (subst lower_char_def) (auto simp: Let_def)
next
  case False
  then have "lower_char c = c" by (auto simp: lower_char_def Let_def)
  then show ?thesis by simp
qed

lemma js_space_lower [simp]: "js_space (lower_char c) = js_space c"
  by (auto simp: lower_char_def js_space_def Let_def)

lemma trim_lower: "trim (to_lower s) = to_lower (trim s)"
proof -
  have "js_space \<circ> lower_char = js_space" by (auto simp: fun_eq_iff)
  then show ?thesis by (simp add: trim_def to_lower_def dropWhile_map rev_map)
qed

lemma lower_idem [simp]: "to_lower (to_lower s) = to_lower s"
  by (simp add: to_lower_def)

text \<open>A label as it is stored: not empty, at most 32 characters, trimmed and in lower case.\<close>

definition label_ok :: "string \<Rightarrow> bool" where
  "label_ok l \<longleftrightarrow> l \<noteq> [] \<and> length l \<le> 32 \<and> trim l = l \<and> to_lower l = l"

lemma find_long_None: "find (\<lambda>l. length l > 32) ls = None \<longleftrightarrow> (\<forall>l\<in>set ls. length l \<le> 32)"
  by (auto simp: find_None_iff linorder_not_less)

text \<open>
  Task labels have a normal form: an accepted list has at most eight distinct labels, each non-empty,
  of at most 32 characters, trimmed and in lower case; it holds exactly the given labels so written; and
  normalising it again returns it.
\<close>

theorem task_labels_have_a_normal_form:
  assumes "normalizeTaskLabels vs = ok ls"
  shows "distinct ls \<and> length ls \<le> 8 \<and> list_all label_ok ls \<and>
    set ls = (\<lambda>v. to_lower (trim v)) ` set vs - {[]} \<and> normalizeTaskLabels ls = ok ls"
proof -
  let ?n = "\<lambda>v. to_lower (trim v)"
  have ls: "ls = js_set (filter (\<lambda>v. length v > 0) (map ?n vs))" "length ls \<le> 8" "\<forall>l\<in>set ls. length l \<le> 32"
    using assms by (auto simp: normalizeTaskLabels_def Let_def find_long_None split: if_splits)
  have set: "set ls = ?n ` set vs - {[]}" by (auto simp: ls(1))
  have ok: "label_ok l" if "l \<in> set ls" for l
  proof -
    from that set obtain v where "l = ?n v" "l \<noteq> []" by auto
    with ls(3) that show ?thesis by (simp add: label_ok_def trim_lower)
  qed
  have "map ?n ls = ls" using ok by (auto simp: label_ok_def intro!: map_idI)
  moreover have "filter (\<lambda>v. length v > 0) ls = ls" using ok by (auto simp: label_ok_def filter_id_conv)
  moreover have "distinct ls" by (simp add: ls(1))
  ultimately have "js_set (filter (\<lambda>v. length v > 0) (map ?n ls)) = ls" by simp
  then have "normalizeTaskLabels ls = ok ls" using ls(2,3) by (simp add: normalizeTaskLabels_def find_long_None)
  with \<open>distinct ls\<close> ls(2) ok set show ?thesis by (auto simp: list_all_iff)
qed

theorem task_labels_have_a_normal_form_witness:
  "normalizeTaskLabels [''ui'', ''api''] = ok [''ui'', ''api'']"
proof -
  have "normalizeTaskLabels ['' UI'', '''', ''api'', ''ui ''] = ok [''ui'', ''api'']" by code_simp
  from task_labels_have_a_normal_form[OF this] show ?thesis by simp
qed

text \<open>The normal forms of titles and descriptions, and the parsers of the two enumerations.\<close>

lemma task_title_normal_form:
  "normalizeTaskTitle v = ok t \<longleftrightarrow> t = squish v \<and> 1 \<le> length t \<and> length t \<le> 180"
  by (auto simp: normalizeTaskTitle_def Let_def Suc_le_eq)

lemma task_title_stable: "normalizeTaskTitle v = ok t \<Longrightarrow> squished t \<and> normalizeTaskTitle t = ok t"
  by (auto simp: task_title_normal_form squished_squish)

lemma task_description_normal_form:
  "normalizeTaskDescription v = ok d \<longleftrightarrow> d = trim v \<and> length d \<le> 4000"
  by (auto simp: normalizeTaskDescription_def Let_def)

lemma task_enums_exact:
  "parseTaskStatus v = ok s \<longleftrightarrow> v = JString (show_task_status s)"
  "parseTaskPriority v = ok p \<longleftrightarrow> v = JString (show_task_priority p)"
  by (simp_all add: parseTaskStatus_def parseTaskPriority_def task_status_enum.parse_ok_iff task_priority_enum.parse_ok_iff)

end
