(* ===== verification/Tool_Values.thy ===== *)
theory Tool_Values
  imports Runtime_Store
begin

text \<open>
  The values a tool execution records and reads
  (\<^verbatim>\<open>packages/runtime-control/src/application/tool-execution-harness.ts\<close>, the helpers): arguments that did
  not parse are cut down by \<^verbatim>\<open>sanitizeValue\<close> before they are stored, and the HTTP status of a failure is
  looked up along its chain of causes by \<^verbatim>\<open>errorStatus\<close>.
\<close>

section \<open>Objects built member by member\<close>

text \<open>
  The own members of an object are enumerated with the array-index keys first, in numeric order, then the
  other keys in the order of their creation. Assigning to \<^verbatim>\<open>__proto__\<close> creates no member.
\<close>

definition digits_value :: "string \<Rightarrow> nat" where
  "digits_value s = foldl (\<lambda>a c. 10 * a + ((of_char c :: nat) - 48)) 0 s"

definition index_key :: "string \<Rightarrow> bool" where
  "index_key s \<longleftrightarrow> s \<noteq> [] \<and> list_all is_digit s \<and> (hd s \<noteq> CHR ''0'' \<or> length s = 1) \<and> digits_value s < 4294967295"

definition enumeration_order :: "js_object \<Rightarrow> js_object" where
  "enumeration_order ms =
     sort_key (\<lambda>m. digits_value (fst m)) (filter (\<lambda>m. index_key (fst m)) ms) @ filter (\<lambda>m. \<not> index_key (fst m)) ms"

definition assigned_object :: "js_object \<Rightarrow> js_value" where
  "assigned_object ms = JObject (enumeration_order (filter (\<lambda>m. fst m \<noteq> ''__proto__'') ms))"

section \<open>Sanitizing\<close>

definition object_keys :: "js_object \<Rightarrow> string list" where
  "object_keys kvs = map fst kvs"

definition object_value :: "js_object \<Rightarrow> string \<Rightarrow> js_value" where
  "object_value kvs k = (case map_get kvs k of Some v \<Rightarrow> v | None \<Rightarrow> JUndefined)"

definition rendered :: "js_value \<Rightarrow> string" where
  "rendered v = (case js_String v of Some s \<Rightarrow> s | None \<Rightarrow> [])"

function sanitizeValue :: "js_value \<Rightarrow> nat \<Rightarrow> js_value" where
  "sanitizeValue v depth =
     (if depth > 3 then JString ''[truncated]''
      else case v of
        JNull \<Rightarrow> v
      | JString _ \<Rightarrow> v
      | JNumber _ \<Rightarrow> v
      | JBool _ \<Rightarrow> v
      | JArray xs \<Rightarrow> JArray (map (\<lambda>x. sanitizeValue x (depth + 1)) (take 20 xs))
      | JObject kvs \<Rightarrow> assigned_object (map (\<lambda>k. (k, sanitizeValue (object_value kvs k) (depth + 1)))
          (take 20 (sort (object_keys kvs))))
      | _ \<Rightarrow> JString (rendered v))"
  by pat_completeness auto
termination
  by (relation "measure (\<lambda>(v, depth). 4 - depth)") auto

declare sanitizeValue.simps [simp del]

definition malformedRequestSummary :: "string \<Rightarrow> js_value \<Rightarrow> domain_error \<Rightarrow> js_object" where
  "malformedRequestSummary toolName args e =
     [(''toolName'', JString toolName), (''malformedArgs'', sanitizeValue args 0), (''errorCode'', JString (err_code e))]"

record tool_failure =
  tf_code :: string
  tf_message :: string

definition failureFromMalformedArgs :: "domain_error \<Rightarrow> tool_failure" where
  "failureFromMalformedArgs e = \<lparr>tf_code = ''malformed_args'', tf_message = err_message e\<rparr>"

definition failureSummary :: "tool_failure \<Rightarrow> js_object" where
  "failureSummary f = [(''ok'', JBool False), (''code'', JString (tf_code f)), (''message'', JString (tf_message f))]"

text \<open>Values nested at most \<open>n\<close> deep, with at most twenty entries at each level, of JSON kinds only.\<close>

fun small_json :: "nat \<Rightarrow> js_value \<Rightarrow> bool" where
  "small_json n JNull = True"
| "small_json n (JBool _) = True"
| "small_json n (JNumber _) = True"
| "small_json n (JString _) = True"
| "small_json 0 v = False"
| "small_json (Suc n) (JArray xs) = (length xs \<le> 20 \<and> list_all (small_json n) xs)"
| "small_json (Suc n) (JObject kvs) = (length kvs \<le> 20 \<and> list_all (\<lambda>kv. small_json n (snd kv)) kvs)"
| "small_json n v = False"

lemma set_enumeration_order [simp]: "set (enumeration_order ms) = set ms"
  by (auto simp: enumeration_order_def)

lemma length_enumeration_order [simp]: "length (enumeration_order ms) = length ms"
  by (simp add: enumeration_order_def sum_length_filter_compl)

lemma sanitize_small: "depth \<le> 4 \<Longrightarrow> small_json (4 - depth) (sanitizeValue v depth)"
proof (induction v depth rule: sanitizeValue.induct)
  case (1 v depth)
  show ?case
  proof (cases "depth > 3")
    case False
    then obtain n where n: "4 - depth = Suc n" by (cases "4 - depth") auto
    then have n': "4 - (depth + 1) = n" by simp
    show ?thesis
    proof (cases v)
      case (JArray xs)
      have "small_json n (sanitizeValue x (depth + 1))" if "x \<in> set (take 20 xs)" for x
        using "1.IH"(1)[OF False JArray that] False unfolding n' by simp
      then have "small_json (Suc n) (JArray (map (\<lambda>x. sanitizeValue x (depth + 1)) (take 20 xs)))"
        by (simp add: list_all_iff)
      then show ?thesis unfolding n sanitizeValue.simps[of v depth] using False JArray by simp
    next
      case (JObject kvs)
      let ?ms = "map (\<lambda>k. (k, sanitizeValue (object_value kvs k) (depth + 1))) (take 20 (sort (object_keys kvs)))"
      have "small_json n (sanitizeValue (object_value kvs k) (depth + 1))" if "k \<in> set (take 20 (sort (object_keys kvs)))" for k
        using "1.IH"(2)[OF False JObject that] False unfolding n' by simp
      moreover have "length (filter (\<lambda>m. fst m \<noteq> ''__proto__'') ?ms) \<le> 20"
        using length_filter_le[of "\<lambda>m. fst m \<noteq> ''__proto__''" ?ms] by (simp add: min_def split: if_splits)
      ultimately have "small_json (Suc n) (assigned_object ?ms)" by (auto simp: assigned_object_def list_all_iff)
      then show ?thesis unfolding n sanitizeValue.simps[of v depth] using False JObject by simp
    qed (use False in \<open>subst sanitizeValue.simps, simp\<close>)+
  qed (simp add: sanitizeValue.simps[of v depth])
qed

lemma small_json_stringify: "small_json n v \<Longrightarrow> json_stringify v \<noteq> None"
proof (induction n v rule: small_json.induct)
  case (6 n xs)
  then have "those (map json_stringify xs) \<noteq> None"
    by (induction xs) (auto split: option.splits)
  then show ?case by (auto simp: stringify_array_def)
next
  case (7 n kvs)
  then have "those (map (\<lambda>kv. json_stringify (snd kv)) kvs) \<noteq> None"
    by (induction kvs) (auto split: option.splits)
  then show ?case by (auto simp: stringify_object_def comp_def)
qed auto

section \<open>Status of an error\<close>

text \<open>
  Errors are objects on a heap, since a chain of causes may run into itself. \<open>er_status\<close> and \<open>er_cause\<close>
  are the properties read from an object; what is not an object is \<open>NoObject\<close>.
\<close>

datatype error_ref = NoObject | ErrorAt nat

record error_object =
  er_status :: js_value
  er_cause :: error_ref

function errorStatus :: "(nat \<Rightarrow> error_object) \<Rightarrow> error_ref \<Rightarrow> nat \<Rightarrow> js_number option" where
  "errorStatus heap e depth =
     (if depth > 5 then None
      else case e of
        NoObject \<Rightarrow> None
      | ErrorAt a \<Rightarrow> (case er_status (heap a) of
          JNumber n \<Rightarrow> Some n
        | _ \<Rightarrow> errorStatus heap (er_cause (heap a)) (depth + 1)))"
  by pat_completeness auto
termination
  by (relation "measure (\<lambda>(heap, e, depth). 6 - depth)") auto

declare errorStatus.simps [simp del]

text \<open>The first \<open>n\<close> objects along the chain of causes.\<close>

fun cause_chain :: "nat \<Rightarrow> (nat \<Rightarrow> error_object) \<Rightarrow> error_ref \<Rightarrow> error_object list" where
  "cause_chain (Suc n) heap (ErrorAt a) = heap a # cause_chain n heap (er_cause (heap a))"
| "cause_chain _ heap _ = []"

fun number_of :: "js_value \<Rightarrow> js_number option" where
  "number_of (JNumber n) = Some n"
| "number_of _ = None"

lemma errorStatus_chain:
  "depth \<le> 6 \<Longrightarrow> errorStatus heap e depth =
     (case find (\<lambda>x. number_of (er_status x) \<noteq> None) (cause_chain (6 - depth) heap e) of
        Some x \<Rightarrow> number_of (er_status x) | None \<Rightarrow> None)"
proof (induction heap e depth rule: errorStatus.induct)
  case (1 heap e depth)
  show ?case
  proof (cases "depth > 5")
    case False
    then have n: "6 - depth = Suc (6 - (depth + 1))" by simp
    show ?thesis
    proof (cases e)
      case (ErrorAt a)
      show ?thesis
        using "1.IH"[OF False ErrorAt] False n unfolding errorStatus.simps[of heap e depth] unfolding ErrorAt
        by (cases "er_status (heap a)") simp_all
    qed (use False n in \<open>subst errorStatus.simps, simp\<close>)
  qed (use 1 in \<open>simp add: errorStatus.simps[of heap e depth]\<close>)
qed

section \<open>Properties\<close>

text \<open>
  Sanitized arguments are small and can be stored: whatever a tool was called with, the recorded
  summary of malformed arguments is nested at most four levels deep, holds at most twenty entries per
  level, consists of JSON kinds only, and JSON renders it.
\<close>

theorem malformed_arguments_are_recordable:
  "small_json 4 (sanitizeValue args 0) \<and> json_stringify (JObject (malformedRequestSummary toolName args e)) \<noteq> None"
proof -
  have small: "small_json 4 (sanitizeValue args 0)" using sanitize_small[of 0 args] by simp
  from small_json_stringify[OF this] obtain s where "json_stringify (sanitizeValue args 0) = Some s" by auto
  with small show ?thesis by (simp add: malformedRequestSummary_def stringify_object_def)
qed

text \<open>
  C39. The search for an error status ends, also on causes that run in a circle: it is the first numeric
  status among the first six errors of the chain of causes, and nothing beyond them is read.
\<close>

theorem error_status_search_ends:
  "errorStatus heap e 0 =
     (case find (\<lambda>x. number_of (er_status x) \<noteq> None) (cause_chain 6 heap e) of
        Some x \<Rightarrow> number_of (er_status x) | None \<Rightarrow> None) \<and>
   length (cause_chain 6 heap e) \<le> 6"
proof -
  have "length (cause_chain n heap e) \<le> n" for n by (induction n heap e rule: cause_chain.induct) auto
  then show ?thesis using errorStatus_chain[of 0 heap e] by simp
qed

end
