(* ===== verification/Outcome_Service.thy ===== *)
theory Outcome_Service
  imports Authorization Tenant Runtime_Store
begin

text \<open>
  The service that records tool outcomes in the database
  (\<^verbatim>\<open>packages/runtime-control/src/application/assistant-conversation-outcomes.ts\<close>, with
  \<^verbatim>\<open>selectTurnInScope\<close> and \<^verbatim>\<open>validateToolOutcomeReplay\<close> of \<^verbatim>\<open>assistant-conversation-lifecycle.ts\<close>).
  The SQL statements, with the decoding of their rows, are the fields of \<open>outcome_tx\<close>, a parameter of the
  model: the database is not part of the program. What the service relies on is the locale
  \<open>outcome_statements\<close>.
\<close>

section \<open>Inputs\<close>

datatype outcome_report = ReportStarted | ReportFinished completion js_object

record record_outcome_input = runtime_context +
  ro_turnId :: string
  ro_toolName :: string
  ro_toolCallId :: string
  ro_idempotencyKey :: string
  ro_requestSummary :: js_object
  ro_targetRef :: "string option option"

record started_receipt =
  sr_outcome :: tool_outcome
  sr_inserted :: bool

text \<open>
  The statements: the turn in the scope of the request; the insert that does nothing on a conflict of turn
  and call id; the row of a turn and call id; the same in a scope and locked; the completion of a started
  row by its id. Each returns the first row of its answer.
\<close>

record 's outcome_tx =
  tx_selectTurn :: "string \<Rightarrow> string \<Rightarrow> string \<Rightarrow> ('s, assistant_turn option) step"
  tx_insertStarted :: "record_outcome_input \<Rightarrow> ('s, tool_outcome option) step"
  tx_findOutcome :: "string \<Rightarrow> string \<Rightarrow> ('s, tool_outcome option) step"
  tx_lockOutcome :: "string \<Rightarrow> string \<Rightarrow> string \<Rightarrow> string \<Rightarrow> ('s, tool_outcome option) step"
  tx_complete :: "string \<Rightarrow> completion \<Rightarrow> js_object \<Rightarrow> string option \<Rightarrow> ('s, tool_outcome option) step"

text \<open>What surrounds the service: the database session, the rollback, and the caller's authorization port.\<close>

record 's service_env =
  sv_database :: database
  sv_undo :: "'s \<Rightarrow> 's \<Rightarrow> 's"
  sv_authorizationPort :: "can_function option"
  sv_tx :: "'s outcome_tx"

section \<open>Steps of the service\<close>

abbreviation ifOk :: "'a result \<Rightarrow> ('a \<Rightarrow> ('s, 'b result) step) \<Rightarrow> ('s, 'b result) step" where
  "ifOk r k \<equiv> (case r of Inl e \<Rightarrow> ret (err e) | Inr x \<Rightarrow> k x)"

text \<open>\<^verbatim>\<open>try\<close> \<open>\<dots>\<close> \<^verbatim>\<open>catch\<close> that answers with an error.\<close>

definition catching :: "domain_error \<Rightarrow> ('s, 'a result) step \<Rightarrow> ('s, 'a result) step" where
  "catching e m s = (case m s of (Returned r, s') \<Rightarrow> (Returned r, s') | (Thrown _, s') \<Rightarrow> (Returned (err e), s'))"

definition recordFailed :: domain_error where
  "recordFailed = failure ''runtimeControl.toolOutcomeRecordFailed'' ''Tool outcome could not be recorded.''"

definition selectTurnInScope :: "'s outcome_tx \<Rightarrow> 'a runtime_context_scheme \<Rightarrow> string \<Rightarrow> ('s, assistant_turn result) step" where
  "selectTurnInScope tx input turnId =
     andThen (tx_selectTurn tx turnId (cx_orgId input) (cx_workspaceId input)) (\<lambda>row.
       ret (case row of
              None \<Rightarrow> err (failure ''runtimeControl.turnNotFound'' ''Assistant turn was not found.'')
            | Some t \<Rightarrow> ok t))"

text \<open>The comparison of the summaries comes last, so it can throw only when all else agrees.\<close>

definition validateToolOutcomeReplay ::
  "tool_outcome \<Rightarrow> string \<Rightarrow> string \<Rightarrow> js_object \<Rightarrow> string option option \<Rightarrow> ('s, tool_outcome result) step" where
  "validateToolOutcomeReplay existing toolName idempotencyKey requestSummary targetRef =
     whenSame (oc_toolName existing = toolName \<and> oc_idempotencyKey existing = idempotencyKey \<and>
         \<not> (targetRef \<noteq> None \<and> targetRef \<noteq> Some (oc_targetRef existing)))
       (oc_requestSummary existing) requestSummary (ok existing) (err outcomeConflict)"

definition insertStartedToolOutcome :: "'s outcome_tx \<Rightarrow> record_outcome_input \<Rightarrow> ('s, started_receipt result) step" where
  "insertStartedToolOutcome tx input =
     andThen (selectTurnInScope tx input (ro_turnId input)) (\<lambda>turn.
     ifOk turn (\<lambda>t.
     if tn_role t \<noteq> AssistantTurn
     then ret (err (failure ''runtimeControl.invalidToolOutcomeTurn'' ''Tool outcome receipts must bind to an assistant turn.''))
     else if json_stringify (JObject (ro_requestSummary input)) = None then throw serialize_error
     else andThen (tx_insertStarted tx input) (\<lambda>insertedRow.
     case insertedRow of
       Some outcome \<Rightarrow> ret (ok \<lparr>sr_outcome = outcome, sr_inserted = True\<rparr>)
     | None \<Rightarrow>
     andThen (tx_findOutcome tx (ro_turnId input) (ro_toolCallId input)) (\<lambda>existingRow.
     case existingRow of
       None \<Rightarrow> ret (err (failure ''runtimeControl.toolOutcomeNotFound'' ''Tool outcome was not found.''))
     | Some existing \<Rightarrow>
     andThen (validateToolOutcomeReplay existing (ro_toolName input) (ro_idempotencyKey input) (ro_requestSummary input)
        (ro_targetRef input)) (\<lambda>replay.
     ifOk replay (\<lambda>outcome. ret (ok \<lparr>sr_outcome = outcome, sr_inserted = False\<rparr>)))))))"

definition sql_finishToolOutcome ::
  "'s outcome_tx \<Rightarrow> record_outcome_input \<Rightarrow> completion \<Rightarrow> js_object \<Rightarrow> ('s, tool_outcome result) step" where
  "sql_finishToolOutcome tx input status resultSummary =
     andThen (tx_lockOutcome tx (ro_turnId input) (ro_toolCallId input) (cx_orgId input) (cx_workspaceId input)) (\<lambda>row.
     case row of
       None \<Rightarrow> ret (err (failure ''runtimeControl.toolOutcomeReceiptMissing''
         ''Tool outcome receipt must be recorded before a tool mutation.''))
     | Some current \<Rightarrow>
     andThen (validateToolOutcomeReplay current (ro_toolName input) (ro_idempotencyKey input) (ro_requestSummary input)
        (if oc_status current = Started then Some (oc_targetRef current) else ro_targetRef input)) (\<lambda>replay.
     ifOk replay (\<lambda>_.
     if oc_status current \<noteq> Started
     then whenSame (oc_status current = completed_status status) (oc_resultSummary current) resultSummary (ok current)
       (err (failure ''runtimeControl.toolOutcomeConflict'' ''Tool outcome was already completed with a different result.''))
     else if json_stringify (JObject resultSummary) = None then throw serialize_error
     else andThen (tx_complete tx (oc_id current) status resultSummary
        (case ro_targetRef input of Some (Some r) \<Rightarrow> Some r | _ \<Rightarrow> oc_targetRef current)) (\<lambda>updatedRow.
     case updatedRow of
       None \<Rightarrow> ret (err (failure ''runtimeControl.toolOutcomeConflict'' ''Tool outcome completion lost its single-writer claim.''))
     | Some updated \<Rightarrow> ret (ok updated)))))"

text \<open>What both entry points do first: authorize, then normalise the three keys, all before the first error is returned.\<close>

definition withOutcomeKeys ::
  "'s service_env \<Rightarrow> record_outcome_input \<Rightarrow> (record_outcome_input \<Rightarrow> ('s, 'b result) step) \<Rightarrow> ('s, 'b result) step" where
  "withOutcomeKeys env input k =
     ifOk (validateCommonInput (sv_authorizationPort env) input ExecuteAction) (\<lambda>_.
     ifOk (normalizeRuntimeKey (ro_toolName input) ''toolName'') (\<lambda>toolName.
     ifOk (normalizeRuntimeKey (ro_toolCallId input) ''toolCallId'') (\<lambda>toolCallId.
     ifOk (normalizeRuntimeKey (ro_idempotencyKey input) ''idempotencyKey'') (\<lambda>idempotencyKey.
     k (input\<lparr>ro_toolName := toolName, ro_toolCallId := toolCallId, ro_idempotencyKey := idempotencyKey\<rparr>)))))"

definition recordStartedToolOutcome :: "'s service_env \<Rightarrow> record_outcome_input \<Rightarrow> ('s, started_receipt result) step" where
  "recordStartedToolOutcome env input =
     withOutcomeKeys env input (\<lambda>normalizedInput.
       catching recordFailed
         (withTenant (sv_database env) (sv_undo env) (cx_orgId input) (insertStartedToolOutcome (sv_tx env) normalizedInput)))"

definition recordToolOutcome ::
  "'s service_env \<Rightarrow> record_outcome_input \<Rightarrow> outcome_report \<Rightarrow> ('s, tool_outcome result) step" where
  "recordToolOutcome env input report =
     withOutcomeKeys env input (\<lambda>normalizedInput.
       catching recordFailed
         (case report of
            ReportStarted \<Rightarrow>
              andThen (withTenant (sv_database env) (sv_undo env) (cx_orgId input)
                (insertStartedToolOutcome (sv_tx env) normalizedInput)) (\<lambda>receipt.
              ifOk receipt (\<lambda>r. ret (ok (sr_outcome r))))
          | ReportFinished status resultSummary \<Rightarrow>
              withTenant (sv_database env) (sv_undo env) (cx_orgId input)
                (sql_finishToolOutcome (sv_tx env) normalizedInput status resultSummary)))"

section \<open>What the service relies on\<close>

text \<open>
  The receipts as a partial function of turn and call id, over the states the database can be in. An insert
  succeeds only for a free pair and fills exactly that pair with a started row; a completion finishes the
  started row it names; everything else leaves the receipts alone, and a rollback restores them. Each law is
  the meaning of a clause of the statement it is about.
\<close>

locale outcome_statements =
  fixes tx :: "'s outcome_tx"
    and undo :: "'s \<Rightarrow> 's \<Rightarrow> 's"
    and valid :: "'s \<Rightarrow> bool"
    and receipts :: "'s \<Rightarrow> string \<times> string \<rightharpoonup> tool_outcome"
  assumes selectTurn_reads: "valid s \<Longrightarrow> tx_selectTurn tx turnId org ws s = (q, s') \<Longrightarrow> valid s' \<and> receipts s' = receipts s"
    and insert_fills: "valid s \<Longrightarrow> tx_insertStarted tx i s = (Returned (Some c), s') \<Longrightarrow>
      valid s' \<and> receipts s (ro_turnId i, ro_toolCallId i) = None \<and> oc_status c = Started \<and>
      receipts s' = (receipts s)((ro_turnId i, ro_toolCallId i) \<mapsto> c)"
    and insert_keeps: "valid s \<Longrightarrow> tx_insertStarted tx i s = (r, s') \<Longrightarrow> \<forall>c. r \<noteq> Returned (Some c) \<Longrightarrow>
      valid s' \<and> receipts s' = receipts s"
    and find_reads: "valid s \<Longrightarrow> tx_findOutcome tx turnId callId s = (r, s') \<Longrightarrow>
      valid s' \<and> receipts s' = receipts s \<and> (\<forall>c. r = Returned (Some c) \<longrightarrow> receipts s (turnId, callId) = Some c)"
    and lock_reads: "valid s \<Longrightarrow> tx_lockOutcome tx turnId callId org ws s = (r, s') \<Longrightarrow>
      valid s' \<and> receipts s' = receipts s \<and> (\<forall>c. r = Returned (Some c) \<longrightarrow> receipts s (turnId, callId) = Some c)"
    and complete_finishes: "valid s \<Longrightarrow> receipts s k = Some c \<Longrightarrow> tx_complete tx (oc_id c) status summary target s = (r, s') \<Longrightarrow>
      valid s' \<and> (case r of
        Returned (Some c') \<Rightarrow> oc_status c' = completed_status status \<and> receipts s' = (receipts s)(k \<mapsto> c')
      | _ \<Rightarrow> receipts s' = receipts s)"
    and undone: "valid s \<Longrightarrow> valid s' \<Longrightarrow> valid (undo s s') \<and> receipts (undo s s') = receipts s"
begin

text \<open>Receipts are never lost.\<close>

definition grows :: "'s \<Rightarrow> 's \<Rightarrow> bool" where
  "grows s s' \<longleftrightarrow> (valid s \<longrightarrow> valid s' \<and> dom (receipts s) \<subseteq> dom (receipts s'))"

sublocale growth: frame_relation grows
  by unfold_locales (auto simp: grows_def)

lemma growsI: "(valid s \<Longrightarrow> valid s' \<and> receipts s' = receipts s) \<Longrightarrow> grows s s'"
  by (auto simp: grows_def)

lemma grows_whenSame: "keeps grows (whenSame g a b y n)"
  by (auto simp: keeps_def whenSame_def growth.frame_refl split: option.splits)

lemma grows_selectTurn: "keeps grows (tx_selectTurn tx turnId org ws)"
  by (auto simp: keeps_def intro!: growsI dest: selectTurn_reads[OF _ surjective_pairing])

lemma grows_find: "keeps grows (tx_findOutcome tx turnId callId)"
  by (auto simp: keeps_def intro!: growsI dest: find_reads[OF _ surjective_pairing])

lemma grows_insert: "keeps grows (tx_insertStarted tx i)"
  unfolding keeps_def
proof
  fix s show "grows s (snd (tx_insertStarted tx i s))"
  proof (cases "\<exists>c. fst (tx_insertStarted tx i s) = Returned (Some c)")
    case True
    then obtain c where "tx_insertStarted tx i s = (Returned (Some c), snd (tx_insertStarted tx i s))" by (metis prod.collapse)
    with insert_fills[of s i c] show ?thesis by (auto simp: grows_def)
  next
    case False
    then show ?thesis using insert_keeps[OF _ surjective_pairing, of s i] by (auto intro: growsI)
  qed
qed

lemma grows_select: "keeps grows (selectTurnInScope tx input turnId)"
  unfolding selectTurnInScope_def by (intro growth.keeps_andThen grows_selectTurn growth.keeps_ret)

lemmas grows_rules = growth.keeps_rules grows_whenSame grows_find grows_insert grows_select

lemma grows_insertStarted: "keeps grows (insertStartedToolOutcome tx input)"
  unfolding insertStartedToolOutcome_def validateToolOutcomeReplay_def by (intro grows_rules)

lemma lock_Returned:
  assumes "valid s" "tx_lockOutcome tx turnId callId org ws s = (Returned (Some c), s')"
  shows "valid s'" "receipts s' = receipts s" "receipts s (turnId, callId) = Some c"
  using lock_reads[OF assms] by auto

lemma grows_finish: "keeps grows (sql_finishToolOutcome tx input status summary)"
  unfolding keeps_def
proof
  fix s show "grows s (snd (sql_finishToolOutcome tx input status summary s))"
  proof (cases "valid s")
    case v: True
    let ?lock = "tx_lockOutcome tx (ro_turnId input) (ro_toolCallId input) (cx_orgId input) (cx_workspaceId input) s"
    obtain r s1 where lock: "?lock = (r, s1)" by fastforce
    have s1: "valid s1" "receipts s1 = receipts s" using lock_reads[OF v lock] by auto
    have same: "grows s s1" using s1 by (auto simp: grows_def)
    show ?thesis
    proof (cases "\<exists>c. r = Returned (Some c)")
      case False
      then have "snd (sql_finishToolOutcome tx input status summary s) = s1"
        using lock by (auto simp: sql_finishToolOutcome_def step_simps split: js_result.splits option.splits)
      with same show ?thesis by simp
    next
      case True
      then obtain c where c: "r = Returned (Some c)" by blast
      have rc: "receipts s1 (ro_turnId input, ro_toolCallId input) = Some c" using lock_Returned[OF v] lock c s1 by auto
      have "grows s1 (snd (tx_complete tx (oc_id c) status summary target s1))" for target
        using complete_finishes[OF s1(1) rc surjective_pairing, of status summary target]
        by (auto simp: grows_def split: js_result.splits option.splits)
      then have "keeps (\<lambda>_. grows s1) (\<lambda>_. tx_complete tx (oc_id c) status summary target s1)" for target
        by (simp add: keeps_def)
      then have "grows s1 (snd (sql_finishToolOutcome tx input status summary s))"
        using lock c growth.frame_refl[of s1]
        by (auto simp: sql_finishToolOutcome_def validateToolOutcomeReplay_def whenSame_def step_simps keeps_def
            split: js_result.split option.split sum.split prod.split) (metis snd_conv)+
      with same show ?thesis by (rule growth.frame_trans)
    qed
  qed (simp add: grows_def)
qed

lemma grows_undo: "grows s s' \<Longrightarrow> grows s (undo s s')"
  using undone[of s s'] by (auto simp: grows_def)

lemma grows_withTenant:
  assumes "keeps grows fn"
  shows "keeps grows (withTenant db undo org fn)"
  unfolding keeps_def
proof
  fix s
  have fn: "grows s (snd (fn s))" using assms by (simp add: keeps_def)
  show "grows s (snd (withTenant db undo org fn s))"
  proof (cases "is_uuid org \<and> session_ok db org")
    case True
    then have "withTenant db undo org fn s =
        (case fn s of (Returned x, s') \<Rightarrow> (Returned x, s')
         | (Thrown e, s') \<Rightarrow> (Thrown (mapDatabaseError e), if db_rollsBack db then undo s s' else s'))"
      by (simp add: withTenant_entry)
    with fn grows_undo show ?thesis by (auto split: prod.splits js_result.splits)
  next
    case False
    with withTenant_refused[of org db undo fn s] obtain e where
      "withTenant db undo org fn s = (Thrown e, if is_uuid org \<and> db_rollsBack db then undo s s else s)" by blast
    with growth.frame_refl grows_undo[OF growth.frame_refl] show ?thesis by simp
  qed
qed

lemma grows_catching: "keeps grows m \<Longrightarrow> keeps grows (catching e m)"
  by (auto simp: keeps_def catching_def split: prod.splits js_result.splits) (metis snd_conv)+

lemma grows_withOutcomeKeys:
  "(\<And>i. keeps grows (k i)) \<Longrightarrow> keeps grows (withOutcomeKeys env input k)"
  unfolding withOutcomeKeys_def by (intro growth.keeps_rules)

lemma grows_recordStarted:
  assumes "sv_tx env = tx" "sv_undo env = undo"
  shows "keeps grows (recordStartedToolOutcome env input)"
  unfolding recordStartedToolOutcome_def assms
  by (intro grows_withOutcomeKeys grows_catching grows_withTenant grows_insertStarted)

lemma grows_recordTool:
  assumes "sv_tx env = tx" "sv_undo env = undo"
  shows "keeps grows (recordToolOutcome env input report)"
proof (cases report)
  case ReportStarted
  then show ?thesis unfolding recordToolOutcome_def assms
    by (simp, intro grows_withOutcomeKeys grows_catching growth.keeps_rules grows_withTenant grows_insertStarted)
next
  case (ReportFinished status summary)
  then show ?thesis unfolding recordToolOutcome_def assms
    by (simp, intro grows_withOutcomeKeys grows_catching grows_withTenant grows_finish)
qed

text \<open>A receipt is inserted only where there is none, and then stands.\<close>

lemma select_Returned:
  assumes "valid s" "selectTurnInScope tx input turnId s = (Returned r, s')"
  shows "valid s'" "receipts s' = receipts s"
  using assms(2) selectTurn_reads[OF assms(1) surjective_pairing]
  by (auto simp: selectTurnInScope_def step_simps split: prod.splits js_result.splits) (metis snd_conv)+

lemma insertStarted_ok:
  assumes "valid s" "insertStartedToolOutcome tx input s = (Returned (ok r), s')"
  shows "sr_inserted r \<longleftrightarrow> receipts s (ro_turnId input, ro_toolCallId input) = None"
    "sr_inserted r \<Longrightarrow> valid s' \<and> receipts s' (ro_turnId input, ro_toolCallId input) = Some (sr_outcome r)"
    "\<not> sr_inserted r \<Longrightarrow> receipts s (ro_turnId input, ro_toolCallId input) = Some (sr_outcome r)"
proof -
  let ?k = "(ro_turnId input, ro_toolCallId input)"
  obtain t s1 where sel: "selectTurnInScope tx input (ro_turnId input) s = (Returned (ok t), s1)"
    using assms(2) by (auto simp: insertStartedToolOutcome_def step_simps split: prod.splits js_result.splits sum.splits)
  note s1 = select_Returned[OF assms(1) sel]
  obtain row s2 where ins: "tx_insertStarted tx input s1 = (Returned row, s2)"
    using assms(2) sel
    by (auto simp: insertStartedToolOutcome_def step_simps split: prod.splits js_result.splits if_splits)
  have "(sr_inserted r \<longleftrightarrow> receipts s ?k = None) \<and> (sr_inserted r \<longrightarrow> valid s' \<and> receipts s' ?k = Some (sr_outcome r)) \<and>
      (\<not> sr_inserted r \<longrightarrow> receipts s ?k = Some (sr_outcome r))"
  proof (cases row)
    case (Some c)
    then have "r = \<lparr>sr_outcome = c, sr_inserted = True\<rparr>" "s' = s2"
      using assms(2) sel ins by (auto simp: insertStartedToolOutcome_def step_simps split: if_splits)
    with insert_fills[OF s1(1), of input c s2] ins Some s1(2) show ?thesis by simp
  next
    case None
    have s2: "valid s2" "receipts s2 = receipts s1" using insert_keeps[OF s1(1) ins] None by auto
    obtain c s3 where find: "tx_findOutcome tx (ro_turnId input) (ro_toolCallId input) s2 = (Returned (Some c), s3)"
      using assms(2) sel ins None
      by (auto simp: insertStartedToolOutcome_def step_simps split: prod.splits js_result.splits option.splits if_splits)
    then have "\<not> sr_inserted r \<and> sr_outcome r = c"
      using assms(2) sel ins None
      by (auto simp: insertStartedToolOutcome_def validateToolOutcomeReplay_def whenSame_def step_simps
          split: prod.splits js_result.splits option.splits if_splits)
    with find_reads[OF s2(1) find] s1 s2 show ?thesis by simp
  qed
  then show "sr_inserted r \<longleftrightarrow> receipts s ?k = None" "sr_inserted r \<Longrightarrow> valid s' \<and> receipts s' ?k = Some (sr_outcome r)"
    "\<not> sr_inserted r \<Longrightarrow> receipts s ?k = Some (sr_outcome r)"
    by auto
qed

lemma finish_ok:
  assumes "valid s" "sql_finishToolOutcome tx input status summary s = (Returned (ok c), s')"
  shows "receipts s' (ro_turnId input, ro_toolCallId input) = Some c \<and> oc_status c = completed_status status"
proof -
  let ?k = "(ro_turnId input, ro_toolCallId input)"
  obtain d s1 where lock: "tx_lockOutcome tx (ro_turnId input) (ro_toolCallId input) (cx_orgId input) (cx_workspaceId input) s =
      (Returned (Some d), s1)"
    using assms(2) by (auto simp: sql_finishToolOutcome_def step_simps split: prod.splits js_result.splits option.splits)
  have s1: "valid s1" "receipts s1 ?k = Some d" using lock_Returned[OF assms(1) lock] by auto
  show ?thesis
  proof (cases "oc_status d = Started")
    case False
    then have "c = d \<and> s' = s1 \<and> oc_status d = completed_status status"
      using assms(2) lock
      by (auto simp: sql_finishToolOutcome_def validateToolOutcomeReplay_def whenSame_def step_simps
          split: prod.splits js_result.splits option.splits if_splits)
    with s1 show ?thesis by simp
  next
    case True
    then obtain target where "tx_complete tx (oc_id d) status summary target s1 = (Returned (Some c), s')"
      using assms(2) lock
      by (auto simp: sql_finishToolOutcome_def validateToolOutcomeReplay_def whenSame_def step_simps
          split: prod.splits js_result.splits option.splits if_splits)
    from complete_finishes[OF s1 this] show ?thesis by simp
  qed
qed

end

lemma withTenant_Returned:
  assumes "withTenant db undo org fn s = (Returned x, s')"
  shows "fn s = (Returned x, s')"
proof (cases "is_uuid org \<and> session_ok db org")
  case True
  then show ?thesis using assms by (auto simp: withTenant_entry split: prod.splits js_result.splits)
next
  case False
  with withTenant_refused[of org db undo fn s] assms show ?thesis by auto
qed

lemma catching_ok: "catching e m s = (Returned (ok x), s') \<longleftrightarrow> m s = (Returned (ok x), s')"
  by (auto simp: catching_def split: prod.splits js_result.splits)

lemma withOutcomeKeys_ok:
  assumes "withOutcomeKeys env input k s = (Returned (ok x), s')"
  shows "k (input\<lparr>ro_toolName := trim (ro_toolName input), ro_toolCallId := trim (ro_toolCallId input),
      ro_idempotencyKey := trim (ro_idempotencyKey input)\<rparr>) s = (Returned (ok x), s')"
  using assms
  by (auto simp: withOutcomeKeys_def ret_def normalizeRuntimeKey_ok_iff split: sum.splits)

end
