(* ===== verification/Tool_Harness.thy ===== *)
theory Tool_Harness
  imports Outcome_Service Tool_Values Runtime_Consequences
begin

text \<open>
  The execution of an assistant's tool call
  (\<^verbatim>\<open>packages/runtime-control/src/application/tool-execution-harness.ts\<close>): a receipt is claimed before the
  tool runs, and the claim is settled with the tool's answer. The callbacks of the options are the fields
  of \<open>run_options\<close>; the state the tool may change is the state of the database.
\<close>

section \<open>Executions\<close>

datatype 'o tool_execution =
  is_ExecSucceeded: ExecSucceeded (ex_toolName: string) (ex_toolCallId: string) (ex_output: 'o) (ex_outcome: tool_outcome)
| ExecFailed (ex_toolName: string) (ex_toolCallId: string) (ex_code: string) (ex_message: string) (ex_outcome: tool_outcome)

record ('s, 'p, 'o) run_options =
  op_context :: tool_context
  op_toolName :: string
  op_toolCallId :: js_value
  op_args :: js_value
  op_parseToolName :: "string \<Rightarrow> string result"
  op_parseArgs :: "string \<Rightarrow> js_value \<Rightarrow> 'p result"
  op_requestSummary :: "'p \<Rightarrow> js_object"
  op_malformedRequestSummary :: "string \<Rightarrow> js_value \<Rightarrow> domain_error \<Rightarrow> js_object"
  op_contextForOutcome :: "tool_context \<Rightarrow> runtime_context"
  op_completedExecutionFromOutcome :: "string \<Rightarrow> string \<Rightarrow> started_receipt \<Rightarrow> 'o tool_execution result"
  op_performTool :: "'p \<Rightarrow> tool_context \<Rightarrow> ('s, 'o result) step"
  op_failureFromMalformedArgs :: "domain_error \<Rightarrow> tool_failure"
  op_failureFromError :: "domain_error \<Rightarrow> tool_failure"
  op_resultSummary :: "'o \<Rightarrow> js_object"
  op_targetRef :: "'o \<Rightarrow> string option"

definition outcome_input ::
  "runtime_context \<Rightarrow> tool_context \<Rightarrow> string \<Rightarrow> string \<Rightarrow> js_object \<Rightarrow> string option option \<Rightarrow> record_outcome_input" where
  "outcome_input cx context toolName toolCallId requestSummary targetRef =
     \<lparr>cx_orgId = cx_orgId cx, cx_workspaceId = cx_workspaceId cx, cx_actor = cx_actor cx,
      ro_turnId = tc_assistantTurnId context, ro_toolName = toolName, ro_toolCallId = toolCallId,
      ro_idempotencyKey = tc_commandIdempotencyKey context, ro_requestSummary = requestSummary, ro_targetRef = targetRef\<rparr>"

definition finishFailure ::
  "'s service_env \<Rightarrow> ('s, 'p, 'o) run_options \<Rightarrow> string \<Rightarrow> string \<Rightarrow> js_object \<Rightarrow> tool_failure \<Rightarrow> ('s, 'o tool_execution result) step" where
  "finishFailure env options toolName toolCallId requestSummary fail =
     andThen (recordToolOutcome env
        (outcome_input (op_contextForOutcome options (op_context options)) (op_context options) toolName toolCallId
          requestSummary None)
        (ReportFinished Failure (failureSummary fail))) (\<lambda>outcome.
     ifOk outcome (\<lambda>c. ret (ok (ExecFailed toolName toolCallId (tf_code fail) (tf_message fail) c))))"

definition call_id :: "js_value \<Rightarrow> string option" where
  "call_id v = (case v of JString s \<Rightarrow> (if trim s \<noteq> [] then Some (trim s) else None) | _ \<Rightarrow> None)"

text \<open>The part of \<open>runToolExecution\<close> behind the claim of a receipt.\<close>

definition after_claim ::
  "'s service_env \<Rightarrow> ('s, 'p, 'o) run_options \<Rightarrow> string \<Rightarrow> string \<Rightarrow> js_object \<Rightarrow> ('s, 'o tool_execution result) step" where
  "after_claim env options toolName toolCallId requestSummary =
     (case op_parseArgs options toolName (op_args options) of
       Inl e \<Rightarrow> finishFailure env options toolName toolCallId requestSummary (op_failureFromMalformedArgs options e)
     | Inr p \<Rightarrow>
     andThen (op_performTool options p (op_context options)) (\<lambda>performed.
     case performed of
       Inl e \<Rightarrow> finishFailure env options toolName toolCallId requestSummary (op_failureFromError options e)
     | Inr output \<Rightarrow>
     andThen (recordToolOutcome env
        (outcome_input (op_contextForOutcome options (op_context options)) (op_context options) toolName toolCallId
          requestSummary (Some (op_targetRef options output)))
        (ReportFinished Success (op_resultSummary options output))) (\<lambda>outcome.
     ifOk outcome (\<lambda>c. ret (ok (ExecSucceeded toolName toolCallId output c))))))"

definition request_summary :: "('s, 'p, 'o) run_options \<Rightarrow> string \<Rightarrow> js_object" where
  "request_summary options toolName =
     (case op_parseArgs options toolName (op_args options) of
        Inr p \<Rightarrow> op_requestSummary options p
      | Inl e \<Rightarrow> op_malformedRequestSummary options toolName (op_args options) e)"

definition runToolExecution :: "'s service_env \<Rightarrow> ('s, 'p, 'o) run_options \<Rightarrow> ('s, 'o tool_execution result) step" where
  "runToolExecution env options =
     ifOk (op_parseToolName options (op_toolName options)) (\<lambda>toolName.
     case call_id (op_toolCallId options) of
       None \<Rightarrow> ret (err (failure ''runtimeControl.invalidToolCallId'' ''Tool call id is required.''))
     | Some toolCallId \<Rightarrow>
     let requestSummary = request_summary options toolName
     in andThen (recordStartedToolOutcome env
        (outcome_input (op_contextForOutcome options (op_context options)) (op_context options) toolName toolCallId
          requestSummary None)) (\<lambda>started.
     ifOk started (\<lambda>receipt.
     if \<not> sr_inserted receipt then ret (op_completedExecutionFromOutcome options toolName toolCallId receipt)
     else after_claim env options toolName toolCallId requestSummary)))"

section \<open>Claims and settlements\<close>

lemma trim_call_id: "call_id v = Some c \<Longrightarrow> trim c = c"
  by (auto simp: call_id_def split: js_value.splits if_splits)

lemma request_summary_perform [simp]: "request_summary (opts\<lparr>op_performTool := p\<rparr>) = request_summary opts"
  by (rule ext) (simp add: request_summary_def cong: sum.case_cong)

lemma outcome_input_sel [simp]:
  "ro_turnId (outcome_input cx context n c q t) = tc_assistantTurnId context"
  "ro_toolCallId (outcome_input cx context n c q t) = c"
  by (simp_all add: outcome_input_def)

text \<open>A run consults its tool on the parsed arguments only.\<close>

lemma finishFailure_perform [simp]: "finishFailure env (opts\<lparr>op_performTool := q\<rparr>) = finishFailure env opts"
  by (intro ext) (simp add: finishFailure_def)

lemma run_perform_cong:
  assumes "\<And>name p. op_parseToolName opts (op_toolName opts) = ok name \<Longrightarrow> op_parseArgs opts name (op_args opts) = ok p \<Longrightarrow>
    q p (op_context opts) = op_performTool opts p (op_context opts)"
  shows "runToolExecution env (opts\<lparr>op_performTool := q\<rparr>) = runToolExecution env opts"
proof (cases "op_parseToolName opts (op_toolName opts)")
  case (Inr name)
  have "after_claim env (opts\<lparr>op_performTool := q\<rparr>) name call rs = after_claim env opts name call rs" for call rs
    using assms[OF Inr] by (cases "op_parseArgs opts name (op_args opts)") (simp_all add: after_claim_def cong: sum.case_cong)
  with Inr show ?thesis by (simp add: runToolExecution_def Let_def cong: sum.case_cong option.case_cong if_cong)
qed (simp add: runToolExecution_def)

text \<open>The outcome of an execution agrees with the execution.\<close>

fun settled :: "'o tool_execution \<Rightarrow> bool" where
  "settled (ExecSucceeded _ _ _ c) \<longleftrightarrow> oc_status c = Succeeded"
| "settled (ExecFailed _ _ _ _ c) \<longleftrightarrow> oc_status c = OutcomeFailed"

context outcome_statements
begin

lemma recordStarted_ok:
  assumes "valid s" "sv_tx env = tx" "recordStartedToolOutcome env i s = (Returned (ok r), s')"
  shows "sr_inserted r \<longleftrightarrow> receipts s (ro_turnId i, trim (ro_toolCallId i)) = None"
    "sr_inserted r \<Longrightarrow> valid s' \<and> receipts s' (ro_turnId i, trim (ro_toolCallId i)) = Some (sr_outcome r)"
    "\<not> sr_inserted r \<Longrightarrow> receipts s (ro_turnId i, trim (ro_toolCallId i)) = Some (sr_outcome r)"
proof -
  let ?i = "i\<lparr>ro_toolName := trim (ro_toolName i), ro_toolCallId := trim (ro_toolCallId i),
      ro_idempotencyKey := trim (ro_idempotencyKey i)\<rparr>"
  have "insertStartedToolOutcome tx ?i s = (Returned (ok r), s')"
    using withOutcomeKeys_ok[OF assms(3)[unfolded recordStartedToolOutcome_def]]
    unfolding catching_ok assms(2) by (rule withTenant_Returned)
  from insertStarted_ok[OF assms(1) this]
  show "sr_inserted r \<longleftrightarrow> receipts s (ro_turnId i, trim (ro_toolCallId i)) = None"
    "sr_inserted r \<Longrightarrow> valid s' \<and> receipts s' (ro_turnId i, trim (ro_toolCallId i)) = Some (sr_outcome r)"
    "\<not> sr_inserted r \<Longrightarrow> receipts s (ro_turnId i, trim (ro_toolCallId i)) = Some (sr_outcome r)"
    by simp_all
qed

lemma recordFinished_ok:
  assumes "valid s" "sv_tx env = tx" "recordToolOutcome env i (ReportFinished status summary) s = (Returned (ok c), s')"
  shows "receipts s' (ro_turnId i, trim (ro_toolCallId i)) = Some c \<and> oc_status c = completed_status status"
proof -
  let ?i = "i\<lparr>ro_toolName := trim (ro_toolName i), ro_toolCallId := trim (ro_toolCallId i),
      ro_idempotencyKey := trim (ro_idempotencyKey i)\<rparr>"
  have "sql_finishToolOutcome tx ?i status summary s = (Returned (ok c), s')"
    using withOutcomeKeys_ok[OF assms(3)[unfolded recordToolOutcome_def]]
    unfolding catching_ok assms(2) outcome_report.case by (rule withTenant_Returned)
  from finish_ok[OF assms(1) this] show ?thesis by simp
qed

lemma finishFailure_ok:
  assumes "valid s" "sv_tx env = tx" "call_id v = Some call"
    "finishFailure env opts name call q f s = (Returned (ok ex), s')"
  shows "receipts s' (tc_assistantTurnId (op_context opts), call) = Some (ex_outcome ex) \<and> settled ex"
  using assms(4) recordFinished_ok[OF assms(1,2)] trim_call_id[OF assms(3)]
  by (fastforce simp: finishFailure_def step_simps split: prod.splits js_result.splits sum.splits)

lemma run_claims:
  assumes "valid s" "sv_tx env = tx" "receipts s (tc_assistantTurnId (op_context opts), call) \<noteq> None"
    "call_id (op_toolCallId opts) = Some call"
  shows "runToolExecution env (opts\<lparr>op_performTool := p\<rparr>) s = runToolExecution env opts s"
proof -
  have "\<not> sr_inserted r" if "recordStartedToolOutcome env (outcome_input cx (op_context opts) n call q t) s = (Returned (ok r), s')"
    for cx n q t r s'
    using recordStarted_ok(1)[OF assms(1,2) that] assms(3) trim_call_id[OF assms(4)] by simp
  then show ?thesis
    by (auto simp: runToolExecution_def Let_def assms(4) step_simps
        split: sum.split prod.split js_result.split)
qed

text \<open>What follows the claim of a receipt: the part of the run that may consult the tool.\<close>

lemma run_after_claim:
  assumes name: "op_parseToolName opts (op_toolName opts) = Inr name" and call: "call_id (op_toolCallId opts) = Some call"
    and claim: "recordStartedToolOutcome env (outcome_input (op_contextForOutcome opts (op_context opts)) (op_context opts)
      name call (request_summary opts name) None) s = (Returned (ok r), s1)" "sr_inserted r"
  shows "runToolExecution env opts s = after_claim env opts name call (request_summary opts name) s1"
  using claim by (simp add: runToolExecution_def name call Let_def step_simps)

lemma grows_finishFailure:
  assumes "sv_tx env = tx" "sv_undo env = undo"
  shows "keeps grows (finishFailure env opts name call q f)"
  unfolding finishFailure_def by (intro growth.keeps_rules grows_recordTool assms)

lemma grows_after_claim:
  assumes "sv_tx env = tx" "sv_undo env = undo" "\<And>p. keeps grows (op_performTool opts p (op_context opts))"
  shows "keeps grows (after_claim env opts name call q)"
  unfolding after_claim_def by (intro growth.keeps_rules grows_recordTool grows_finishFailure assms)

lemma after_claim_settles:
  assumes "valid s" "sv_tx env = tx" "call_id v = Some call" "\<And>p. keeps grows (op_performTool opts p (op_context opts))"
    and run: "after_claim env opts name call q s = (Returned (ok ex), s')"
  shows "receipts s' (tc_assistantTurnId (op_context opts), call) = Some (ex_outcome ex) \<and> settled ex"
proof (cases "op_parseArgs opts name (op_args opts)")
  case (Inl e)
  then show ?thesis using run finishFailure_ok[OF assms(1-3)] by (simp add: after_claim_def)
next
  case (Inr p)
  obtain r s1 where perform: "op_performTool opts p (op_context opts) s = (Returned r, s1)"
    using run Inr by (auto simp: after_claim_def step_simps split: prod.splits js_result.splits)
  then have s1: "valid s1" using assms(1) assms(4)[of p] by (auto simp: keeps_def grows_def)
  show ?thesis
  proof (cases r)
    case (Inl e)
    with Inr run perform show ?thesis
      using finishFailure_ok[OF s1 assms(2,3)] by (simp add: after_claim_def step_simps)
  next
    case out: (Inr answered)
    with Inr run perform show ?thesis
      using recordFinished_ok[OF s1 assms(2)] trim_call_id[OF assms(3)]
      by (fastforce simp: after_claim_def step_simps split: prod.splits js_result.splits sum.splits)
  qed
qed

lemma run_settles:
  assumes "valid s" "sv_tx env = tx" and call: "call_id (op_toolCallId opts) = Some call"
    and "\<And>p. keeps grows (op_performTool opts p (op_context opts))"
    and fresh: "receipts s (tc_assistantTurnId (op_context opts), call) = None"
    and run: "runToolExecution env opts s = (Returned (ok ex), s')"
  shows "receipts s' (tc_assistantTurnId (op_context opts), call) = Some (ex_outcome ex) \<and> settled ex"
proof -
  obtain name where name: "op_parseToolName opts (op_toolName opts) = Inr name"
    using run by (auto simp: runToolExecution_def ret_def split: sum.splits)
  let ?q = "request_summary opts name"
  let ?i = "outcome_input (op_contextForOutcome opts (op_context opts)) (op_context opts) name call ?q None"
  obtain r s1 where claim: "recordStartedToolOutcome env ?i s = (Returned (ok r), s1)"
    using run name call
    by (auto simp: runToolExecution_def Let_def step_simps split: prod.splits js_result.splits sum.splits)
  note started = recordStarted_ok[OF assms(1,2) claim, simplified trim_call_id[OF call] outcome_input_sel]
  then have "sr_inserted r" "valid s1" using fresh by auto
  then have "after_claim env opts name call ?q s1 = (Returned (ok ex), s')"
    using run_after_claim[OF name call claim] run by simp
  from after_claim_settles[OF \<open>valid s1\<close> assms(2) call assms(4) this] show ?thesis .
qed

lemma consulted_claims:
  assumes "valid s" and env: "sv_tx env = tx" "sv_undo env = undo" and call: "call_id (op_toolCallId opts) = Some call"
    and tool: "\<And>p. keeps grows (op_performTool opts p (op_context opts))"
    and consulted: "runToolExecution env (opts\<lparr>op_performTool := p\<rparr>) s \<noteq> runToolExecution env opts s"
  shows "(tc_assistantTurnId (op_context opts), call) \<in> dom (receipts (snd (runToolExecution env opts s)))"
proof -
  obtain name where name: "op_parseToolName opts (op_toolName opts) = Inr name"
    using consulted by (cases "op_parseToolName opts (op_toolName opts)") (auto simp: runToolExecution_def)
  let ?q = "request_summary opts name"
  let ?i = "outcome_input (op_contextForOutcome opts (op_context opts)) (op_context opts) name call ?q None"
  have "\<exists>r s1. recordStartedToolOutcome env ?i s = (Returned (ok r), s1) \<and> sr_inserted r"
  proof (rule ccontr)
    assume "\<not> ?thesis"
    then have "runToolExecution env (opts\<lparr>op_performTool := p\<rparr>) s = runToolExecution env opts s"
      by (auto simp: runToolExecution_def name call Let_def step_simps split: sum.split prod.split js_result.split)
    with consulted show False by simp
  qed
  then obtain r s1 where claim: "recordStartedToolOutcome env ?i s = (Returned (ok r), s1)" "sr_inserted r" by blast
  note started = recordStarted_ok(2)[OF assms(1) env(1) claim, simplified trim_call_id[OF call] outcome_input_sel]
  have "grows s1 (snd (after_claim env opts name call ?q s1))" using grows_after_claim[OF env tool] by (simp add: keeps_def)
  with started run_after_claim[OF name call claim] show ?thesis by (auto simp: grows_def)
qed

lemma grows_run:
  assumes "sv_tx env = tx" "sv_undo env = undo" "\<And>p. keeps grows (op_performTool opts p (op_context opts))"
  shows "keeps grows (runToolExecution env opts)"
  unfolding runToolExecution_def Let_def by (intro growth.keeps_rules grows_recordStarted grows_after_claim assms)

lemma run_again:
  assumes "sv_tx env = tx" "valid s"
    "\<And>call. call_id (op_toolCallId opts) = Some call \<Longrightarrow> receipts s (tc_assistantTurnId (op_context opts), call) \<noteq> None"
  shows "runToolExecution env (opts\<lparr>op_performTool := p\<rparr>) s = runToolExecution env opts s"
proof (cases "call_id (op_toolCallId opts)")
  case None
  then show ?thesis by (simp add: runToolExecution_def split: sum.split)
next
  case (Some call)
  then show ?thesis by (intro run_claims assms)
qed

lemma run_gives_recorded:
  assumes "valid s" "sv_tx env = tx" and call: "call_id (op_toolCallId opts) = Some call"
    and held: "receipts s (tc_assistantTurnId (op_context opts), call) = Some c"
    and run: "runToolExecution env opts s = (Returned (ok ex), s')"
  shows "\<exists>name i. op_completedExecutionFromOutcome opts name call \<lparr>sr_outcome = c, sr_inserted = i\<rparr> = ok ex"
proof -
  obtain name where name: "op_parseToolName opts (op_toolName opts) = Inr name"
    using run by (auto simp: runToolExecution_def ret_def split: sum.splits)
  let ?i = "outcome_input (op_contextForOutcome opts (op_context opts)) (op_context opts) name call (request_summary opts name) None"
  obtain r s1 where claim: "recordStartedToolOutcome env ?i s = (Returned (ok r), s1)"
    using run name call
    by (auto simp: runToolExecution_def Let_def step_simps split: prod.splits js_result.splits sum.splits)
  note started = recordStarted_ok[OF assms(1,2) claim, simplified trim_call_id[OF call] outcome_input_sel]
  then have r: "\<not> sr_inserted r" "sr_outcome r = c" using held by auto
  then have "op_completedExecutionFromOutcome opts name call r = ok ex"
    using run name call claim by (simp add: runToolExecution_def Let_def step_simps)
  with r show ?thesis by (cases r) auto
qed

end

end
