(* ===== verification/Task_Tools.thy ===== *)
theory Task_Tools
  imports Task_Domain Tool_Harness
begin

text \<open>
  The task tools of the assistant (\<^verbatim>\<open>packages/runtime-control/src/application/task-tools.ts\<close>): the parsers of
  their arguments, what each tool asks of the task services, the rendering of outcomes and their replay, and
  the tool call as a client of the execution harness. The task services, which the caller may replace, are
  the fields of \<open>task_services\<close>.
\<close>

section \<open>Tools, arguments and outputs\<close>

definition runtimeControlTaskToolNames :: "string list" where
  "runtimeControlTaskToolNames = [''opzava_tasks_list'', ''opzava_tasks_create'', ''opzava_tasks_update'']"

record list_args =
  la_status :: "task_status option"
  la_limit :: int

record create_args =
  ca_title :: string
  ca_description :: "string option"
  ca_status :: "task_status option"
  ca_priority :: "task_priority option"
  ca_labels :: "string list option"

record update_args =
  ua_taskId :: string
  ua_title :: "string option"
  ua_description :: "string option"
  ua_status :: "task_status option"
  ua_priority :: "task_priority option"
  ua_labels :: "string list option"

datatype parsed_args = ListArgs list_args | CreateArgs create_args | UpdateArgs update_args

record task_dto =
  td_id :: string
  td_organizationId :: string
  td_workspaceId :: string
  td_cardNumber :: js_number
  td_title :: string
  td_description :: string
  td_status :: task_status
  td_priority :: task_priority
  td_assigneeUserId :: "string option"
  td_assigneeName :: "string option"
  td_labels :: "string list"
  td_position :: js_number
  td_dueAt :: "string option"
  td_provenanceSource :: string
  td_provenanceExternalRef :: "string option"
  td_createdAt :: string
  td_updatedAt :: string

definition nullable :: "string option \<Rightarrow> js_value" where
  "nullable x = (case x of Some s \<Rightarrow> JString s | None \<Rightarrow> JNull)"

definition string_array :: "string list \<Rightarrow> js_value" where
  "string_array xs = JArray (map JString xs)"

text \<open>A task as the object it is.\<close>

definition dto_object :: "task_dto \<Rightarrow> js_object" where
  "dto_object t =
     [(''id'', JString (td_id t)), (''organizationId'', JString (td_organizationId t)),
      (''workspaceId'', JString (td_workspaceId t)), (''cardNumber'', JNumber (td_cardNumber t)),
      (''title'', JString (td_title t)), (''description'', JString (td_description t)),
      (''status'', JString (show_task_status (td_status t))), (''priority'', JString (show_task_priority (td_priority t))),
      (''assigneeUserId'', nullable (td_assigneeUserId t)), (''assigneeName'', nullable (td_assigneeName t)),
      (''labels'', string_array (td_labels t)), (''position'', JNumber (td_position t)), (''dueAt'', nullable (td_dueAt t)),
      (''provenanceSource'', JString (td_provenanceSource t)),
      (''provenanceExternalRef'', nullable (td_provenanceExternalRef t)), (''createdAt'', JString (td_createdAt t)),
      (''updatedAt'', JString (td_updatedAt t))]"

text \<open>A replayed output is what the receipt holds, so tasks are plain objects in an output.\<close>

datatype task_tool_output = TasksList "js_value list" | TasksCreate js_object | TasksUpdate js_object

record update_task_input =
  ut_taskId :: string
  ut_title :: string
  ut_description :: string
  ut_priority :: task_priority
  ut_assigneeUserId :: "string option"
  ut_labels :: "string list"

record move_task_input =
  mt_taskId :: string
  mt_status :: task_status
  mt_position :: js_number

record 's task_services =
  ts_createTask :: "runtime_context \<Rightarrow> create_args \<Rightarrow> can_function option \<Rightarrow> ('s, task_dto result) step"
  ts_getTask :: "runtime_context \<Rightarrow> string \<Rightarrow> can_function option \<Rightarrow> ('s, task_dto result) step"
  ts_listTasks :: "runtime_context \<Rightarrow> can_function option \<Rightarrow> ('s, task_dto list result) step"
  ts_moveTask :: "runtime_context \<Rightarrow> move_task_input \<Rightarrow> can_function option \<Rightarrow> ('s, task_dto result) step"
  ts_updateTask :: "runtime_context \<Rightarrow> update_task_input \<Rightarrow> can_function option \<Rightarrow> ('s, task_dto result) step"

text \<open>
  The dependencies of a task tool; \<open>tt_errorObjects\<close> and \<open>tt_errorAt\<close> are the heap of error objects in which
  \<^verbatim>\<open>errorStatus\<close> follows the causes of an error.
\<close>

record 's task_tool_dependencies =
  tt_env :: "'s service_env"
  tt_taskAuthorizationPort :: "can_function option"
  tt_taskServices :: "'s task_services"
  tt_errorObjects :: "nat \<Rightarrow> error_object"
  tt_errorAt :: "domain_error \<Rightarrow> error_ref"

record task_tool_input =
  ei_context :: tool_context
  ei_toolName :: string
  ei_toolCallId :: js_value
  ei_args :: js_value

section \<open>Parsers\<close>

definition writableTaskStatuses :: "task_status list" where
  "writableTaskStatuses = [TaskTodo, TaskInProgress, TaskBlocked]"

definition malformed :: "string \<Rightarrow> domain_error" where
  "malformed message = failure ''runtimeControl.toolMalformedArgs'' message"

definition quoted :: "string \<Rightarrow> string" where
  "quoted s = CHR 0x22 # s @ [CHR 0x22]"

abbreviation okThen :: "'a result \<Rightarrow> ('a \<Rightarrow> 'b result) \<Rightarrow> 'b result" where
  "okThen r k \<equiv> (case r of Inl e \<Rightarrow> err e | Inr x \<Rightarrow> k x)"

definition rejectUnknownKeys :: "js_object \<Rightarrow> string list \<Rightarrow> unit result" where
  "rejectUnknownKeys v allowedKeys =
     (case find (\<lambda>key. key \<notin> set allowedKeys) (object_keys v) of
        None \<Rightarrow> ok ()
      | Some unknownKey \<Rightarrow> err (malformed (''Tool argument '' @ quoted unknownKey @ '' is not allowed.'')))"

definition requiredString :: "js_value \<Rightarrow> string \<Rightarrow> nat \<Rightarrow> string result" where
  "requiredString v field maxLength =
     (case v of
        JString s \<Rightarrow>
          let normalized = squish s in
          if length normalized = 0 \<or> length normalized > maxLength
          then err (malformed (''Tool argument '' @ quoted field @ '' must be 1-'' @ int_to_string (int maxLength) @ '' characters.''))
          else ok normalized
      | _ \<Rightarrow> err (malformed (''Tool argument '' @ quoted field @ '' must be a string.'')))"

definition optionalString :: "js_value \<Rightarrow> string \<Rightarrow> nat \<Rightarrow> string option result" where
  "optionalString v field maxLength =
     (case v of
        JUndefined \<Rightarrow> ok None
      | JString s \<Rightarrow>
          let normalized = trim s in
          if length normalized > maxLength
          then err (malformed (''Tool argument '' @ quoted field @ '' must be '' @ int_to_string (int maxLength) @
            '' characters or fewer.''))
          else ok (Some normalized)
      | _ \<Rightarrow> err (malformed (''Tool argument '' @ quoted field @ '' must be a string.'')))"

text \<open>The pattern of task ids asks for no version and no variant.\<close>

definition task_uuidPattern :: "(char \<Rightarrow> bool) list" where
  "task_uuidPattern = replicate 8 hex_digit @ [dash] @ replicate 4 hex_digit @ [dash] @ replicate 4 hex_digit @ [dash] @
     replicate 4 hex_digit @ [dash] @ replicate 12 hex_digit"

definition requiredTaskId :: "js_value \<Rightarrow> string result" where
  "requiredTaskId v =
     okThen (requiredString v ''taskId'' 180) (\<lambda>parsed.
       if \<not> list_all2 (\<lambda>p c. p c) task_uuidPattern parsed
       then err (malformed (''Tool argument '' @ quoted ''taskId'' @ '' must be a task id.'')) else ok parsed)"

definition optionalTitle :: "js_value \<Rightarrow> string option result" where
  "optionalTitle v = (if v = JUndefined then ok None else okThen (requiredString v ''title'' 180) (\<lambda>t. ok (Some t)))"

text \<open>\<^verbatim>\<open>undefined\<close>, or a member of an enumeration.\<close>

definition optionalEnum :: "('a \<Rightarrow> string) \<Rightarrow> 'a list \<Rightarrow> string \<Rightarrow> js_value \<Rightarrow> 'a option result" where
  "optionalEnum show_enum members message v =
     (if v = JUndefined then ok None
      else okThen (parseEnum show_enum members (malformed message) v) (\<lambda>x. ok (Some x)))"

definition optionalStatus :: "js_value \<Rightarrow> task_status option result" where
  "optionalStatus = optionalEnum show_task_status taskStatuses
     (''Tool argument '' @ quoted ''status'' @ '' must be todo, in_progress, blocked, or done.'')"

definition doneRequiresHuman :: domain_error where
  "doneRequiresHuman = failure ''projectManagement.taskDoneRequiresHumanAttestation''
     ''Marking a task Done requires the confirmed human Done action.''"

definition optionalWritableStatus :: "js_value \<Rightarrow> task_status option result" where
  "optionalWritableStatus v =
     (if v = JUndefined then ok None
      else if v = JString ''done'' then err doneRequiresHuman
      else optionalEnum show_task_status writableTaskStatuses
        (''Tool argument '' @ quoted ''status'' @ '' must be todo, in_progress, or blocked.'') v)"

definition optionalPriority :: "js_value \<Rightarrow> task_priority option result" where
  "optionalPriority = optionalEnum show_task_priority taskPriorities
     (''Tool argument '' @ quoted ''priority'' @ '' must be low, normal, high, or urgent.'')"

fun string_entries :: "js_value list \<Rightarrow> string list option" where
  "string_entries [] = Some []"
| "string_entries (JString s # vs) = (case string_entries vs of Some ss \<Rightarrow> Some (s # ss) | None \<Rightarrow> None)"
| "string_entries (_ # vs) = None"

definition optionalLabels :: "js_value \<Rightarrow> string list option result" where
  "optionalLabels v =
     (let bad = err (malformed (''Tool argument '' @ quoted ''labels'' @ '' must be an array of strings.'')) in
      case v of
        JUndefined \<Rightarrow> ok None
      | JArray xs \<Rightarrow> (case string_entries xs of Some ls \<Rightarrow> ok (Some ls) | None \<Rightarrow> bad)
      | _ \<Rightarrow> bad)"

definition optionalLimit :: "js_value \<Rightarrow> int result" where
  "optionalLimit v =
     (let bad = err (malformed (''Tool argument '' @ quoted ''limit'' @ '' must be an integer from 1 to 50.'')) in
      case v of
        JUndefined \<Rightarrow> ok 20
      | JNumber (JInt n) \<Rightarrow> if n < 1 \<or> n > 50 then bad else ok n
      | _ \<Rightarrow> bad)"

definition parseToolName :: "string \<Rightarrow> string result" where
  "parseToolName v =
     (if v \<in> set runtimeControlTaskToolNames then ok v
      else err (failure ''runtimeControl.unknownTool'' ''Requested task tool is not registered.''))"

definition parseListArgs :: "js_value \<Rightarrow> parsed_args result" where
  "parseListArgs v =
     (case v of
        JObject fs \<Rightarrow>
          okThen (rejectUnknownKeys fs [''status'', ''limit'']) (\<lambda>_.
          okThen (optionalStatus (object_value fs ''status'')) (\<lambda>status.
          okThen (optionalLimit (object_value fs ''limit'')) (\<lambda>limit.
          ok (ListArgs \<lparr>la_status = status, la_limit = limit\<rparr>))))
      | _ \<Rightarrow> err (malformed ''Task list tool arguments must be an object.''))"

definition parseCreateArgs :: "js_value \<Rightarrow> parsed_args result" where
  "parseCreateArgs v =
     (case v of
        JObject fs \<Rightarrow>
          okThen (rejectUnknownKeys fs [''title'', ''description'', ''status'', ''priority'', ''labels'']) (\<lambda>_.
          okThen (requiredString (object_value fs ''title'') ''title'' 180) (\<lambda>title.
          okThen (optionalString (object_value fs ''description'') ''description'' 4000) (\<lambda>description.
          okThen (optionalWritableStatus (object_value fs ''status'')) (\<lambda>status.
          okThen (optionalPriority (object_value fs ''priority'')) (\<lambda>priority.
          okThen (optionalLabels (object_value fs ''labels'')) (\<lambda>labels.
          ok (CreateArgs \<lparr>ca_title = title, ca_description = description, ca_status = status, ca_priority = priority,
            ca_labels = labels\<rparr>)))))))
      | _ \<Rightarrow> err (malformed ''Task create tool arguments must be an object.''))"

definition parseUpdateArgs :: "js_value \<Rightarrow> parsed_args result" where
  "parseUpdateArgs v =
     (case v of
        JObject fs \<Rightarrow>
          okThen (rejectUnknownKeys fs [''taskId'', ''title'', ''description'', ''status'', ''priority'', ''labels'']) (\<lambda>_.
          okThen (requiredTaskId (object_value fs ''taskId'')) (\<lambda>taskId.
          okThen (optionalTitle (object_value fs ''title'')) (\<lambda>title.
          okThen (optionalString (object_value fs ''description'') ''description'' 4000) (\<lambda>description.
          okThen (optionalWritableStatus (object_value fs ''status'')) (\<lambda>status.
          okThen (optionalPriority (object_value fs ''priority'')) (\<lambda>priority.
          okThen (optionalLabels (object_value fs ''labels'')) (\<lambda>labels.
          if title = None \<and> description = None \<and> status = None \<and> priority = None \<and> labels = None
          then err (malformed ''Task update tool requires at least one field to change.'')
          else ok (UpdateArgs \<lparr>ua_taskId = taskId, ua_title = title, ua_description = description, ua_status = status,
            ua_priority = priority, ua_labels = labels\<rparr>))))))))
      | _ \<Rightarrow> err (malformed ''Task update tool arguments must be an object.''))"

definition parseArgs :: "string \<Rightarrow> js_value \<Rightarrow> parsed_args result" where
  "parseArgs toolName v =
     (if toolName = ''opzava_tasks_list'' then parseListArgs v
      else if toolName = ''opzava_tasks_create'' then parseCreateArgs v
      else parseUpdateArgs v)"

definition given_member :: "string \<Rightarrow> ('a \<Rightarrow> js_value) \<Rightarrow> 'a option \<Rightarrow> js_object" where
  "given_member k f x = (case x of Some y \<Rightarrow> [(k, f y)] | None \<Rightarrow> [])"

fun args_object :: "parsed_args \<Rightarrow> js_object" where
  "args_object (ListArgs a) =
     given_member ''status'' (\<lambda>s. JString (show_task_status s)) (la_status a) @ [(''limit'', JNumber (JInt (la_limit a)))]"
| "args_object (CreateArgs a) =
     [(''title'', JString (ca_title a))] @ given_member ''description'' JString (ca_description a) @
     given_member ''status'' (\<lambda>s. JString (show_task_status s)) (ca_status a) @
     given_member ''priority'' (\<lambda>p. JString (show_task_priority p)) (ca_priority a) @ given_member ''labels'' string_array (ca_labels a)"
| "args_object (UpdateArgs a) =
     [(''taskId'', JString (ua_taskId a))] @ given_member ''title'' JString (ua_title a) @ given_member ''description'' JString (ua_description a) @
     given_member ''status'' (\<lambda>s. JString (show_task_status s)) (ua_status a) @
     given_member ''priority'' (\<lambda>p. JString (show_task_priority p)) (ua_priority a) @ given_member ''labels'' string_array (ua_labels a)"

primrec args_toolName :: "parsed_args \<Rightarrow> string" where
  "args_toolName (ListArgs _) = ''opzava_tasks_list''"
| "args_toolName (CreateArgs _) = ''opzava_tasks_create''"
| "args_toolName (UpdateArgs _) = ''opzava_tasks_update''"

definition task_requestSummary :: "parsed_args \<Rightarrow> js_object" where
  "task_requestSummary p = [(''toolName'', JString (args_toolName p)), (''args'', JObject (args_object p))]"

section \<open>Failures and outputs\<close>

definition failureFromError :: "(nat \<Rightarrow> error_object) \<Rightarrow> (domain_error \<Rightarrow> error_ref) \<Rightarrow> domain_error \<Rightarrow> tool_failure" where
  "failureFromError heap errorAt e =
     (if err_code e = ''projectManagement.taskNotFound''
      then \<lparr>tf_code = ''not_found'', tf_message = ''Task was not found.''\<rparr>
      else if err_code e = ''projectManagement.forbidden'' \<or>
        err_code e = ''projectManagement.taskDoneRequiresHumanAttestation'' \<or>
        err_code e = ''projectManagement.taskDoneRequiresApprovedReview'' \<or>
        errorStatus heap (errorAt e) 0 = Some (JInt 403)
      then \<lparr>tf_code = ''forbidden'', tf_message = ''Task tool execution is not allowed.''\<rparr>
      else if take (length ''projectManagement.invalid'') (err_code e) = ''projectManagement.invalid''
      then \<lparr>tf_code = ''malformed_args'', tf_message = err_message e\<rparr>
      else \<lparr>tf_code = ''failed'', tf_message = err_message e\<rparr>)"

definition failureFromTaskMalformedArgs :: "domain_error \<Rightarrow> tool_failure" where
  "failureFromTaskMalformedArgs e =
     (if err_code e = ''projectManagement.taskDoneRequiresHumanAttestation''
      then \<lparr>tf_code = ''forbidden'', tf_message = err_message e\<rparr> else failureFromMalformedArgs e)"

definition taskContext :: "tool_context \<Rightarrow> runtime_context" where
  "taskContext context = \<lparr>cx_orgId = cx_orgId context, cx_workspaceId = cx_workspaceId context, cx_actor = cx_actor context\<rparr>"

definition taskDependencies :: "'s task_tool_dependencies \<Rightarrow> can_function option" where
  "taskDependencies dependencies =
     (case tt_taskAuthorizationPort dependencies of
        Some can \<Rightarrow> Some can
      | None \<Rightarrow> sv_authorizationPort (tt_env dependencies))"

fun task_resultSummary :: "task_tool_output \<Rightarrow> js_object" where
  "task_resultSummary (TasksList ts) = [(''ok'', JBool True), (''kind'', JString ''tasks.list''), (''tasks'', JArray ts)]"
| "task_resultSummary (TasksCreate t) = [(''ok'', JBool True), (''kind'', JString ''tasks.create''), (''task'', JObject t)]"
| "task_resultSummary (TasksUpdate t) = [(''ok'', JBool True), (''kind'', JString ''tasks.update''), (''task'', JObject t)]"

text \<open>The id of a task, a string of every task a service returns.\<close>

definition string_member :: "js_object \<Rightarrow> string \<Rightarrow> string option" where
  "string_member t k = (case object_value t k of JString s \<Rightarrow> Some s | _ \<Rightarrow> None)"

fun task_targetRef :: "task_tool_output \<Rightarrow> string option" where
  "task_targetRef (TasksList _) = None"
| "task_targetRef (TasksCreate t) = string_member t ''id''"
| "task_targetRef (TasksUpdate t) = string_member t ''id''"

definition outputFromOutcome :: "tool_outcome \<Rightarrow> task_tool_output option" where
  "outputFromOutcome outcome =
     (let kind = object_value (oc_resultSummary outcome) ''kind'' in
      case (kind, object_value (oc_resultSummary outcome) ''tasks'', object_value (oc_resultSummary outcome) ''task'') of
        (JString k, tasks, task) \<Rightarrow>
          if k = ''tasks.list'' then (case tasks of JArray ts \<Rightarrow> Some (TasksList ts) | _ \<Rightarrow> None)
          else if k = ''tasks.create'' then (case task of JObject t \<Rightarrow> Some (TasksCreate t) | _ \<Rightarrow> None)
          else if k = ''tasks.update'' then (case task of JObject t \<Rightarrow> Some (TasksUpdate t) | _ \<Rightarrow> None)
          else None
      | _ \<Rightarrow> None)"

definition failureFromOutcome :: "tool_outcome \<Rightarrow> tool_failure" where
  "failureFromOutcome outcome =
     \<lparr>tf_code = (case object_value (oc_resultSummary outcome) ''code'' of JString s \<Rightarrow> s | _ \<Rightarrow> ''failed''),
      tf_message = (case object_value (oc_resultSummary outcome) ''message'' of JString s \<Rightarrow> s | _ \<Rightarrow> ''Task tool execution failed.'')\<rparr>"

definition completedExecutionFromOutcome ::
  "string \<Rightarrow> string \<Rightarrow> started_receipt \<Rightarrow> task_tool_output tool_execution result" where
  "completedExecutionFromOutcome toolName toolCallId receipt =
     (let outcome = sr_outcome receipt in
      case oc_status outcome of
        Started \<Rightarrow> err (failure ''runtimeControl.toolOutcomeInProgress'' ''Tool call is already in progress for this assistant turn.'')
      | OutcomeFailed \<Rightarrow> (let fail = failureFromOutcome outcome
          in ok (ExecFailed toolName toolCallId (tf_code fail) (tf_message fail) outcome))
      | Succeeded \<Rightarrow> (case outputFromOutcome outcome of
          None \<Rightarrow> err (failure ''runtimeControl.toolOutcomeInvalidReplay'' ''Recorded task tool outcome cannot be replayed.'')
        | Some out \<Rightarrow> ok (ExecSucceeded toolName toolCallId out outcome)))"

section \<open>The tools\<close>

abbreviation orElse :: "'a option \<Rightarrow> 'a \<Rightarrow> 'a" where
  "orElse x d \<equiv> (case x of Some y \<Rightarrow> y | None \<Rightarrow> d)"

definition list_tool :: "'s task_tool_dependencies \<Rightarrow> runtime_context \<Rightarrow> list_args \<Rightarrow> ('s, task_tool_output result) step" where
  "list_tool dependencies appContext args =
     andThen (ts_listTasks (tt_taskServices dependencies) appContext (taskDependencies dependencies)) (\<lambda>result.
     ifOk result (\<lambda>tasks.
     let filtered = (case la_status args of None \<Rightarrow> tasks | Some s \<Rightarrow> filter (\<lambda>t. td_status t = s) tasks)
     in ret (ok (TasksList (map (\<lambda>t. JObject (dto_object t)) (take (nat (la_limit args)) filtered))))))"

definition field_update ::
  "'s task_services \<Rightarrow> can_function option \<Rightarrow> runtime_context \<Rightarrow> update_args \<Rightarrow> task_dto \<Rightarrow> ('s, task_dto result) step" where
  "field_update services deps appContext args current =
     (if ua_title args \<noteq> None \<or> ua_description args \<noteq> None \<or> ua_priority args \<noteq> None \<or> ua_labels args \<noteq> None
      then ts_updateTask services appContext
        \<lparr>ut_taskId = ua_taskId args, ut_title = orElse (ua_title args) (td_title current),
         ut_description = orElse (ua_description args) (td_description current),
         ut_priority = orElse (ua_priority args) (td_priority current), ut_assigneeUserId = td_assigneeUserId current,
         ut_labels = orElse (ua_labels args) (td_labels current)\<rparr> deps
      else ret (ok current))"

definition status_update ::
  "'s task_services \<Rightarrow> can_function option \<Rightarrow> runtime_context \<Rightarrow> update_args \<Rightarrow> task_dto \<Rightarrow> ('s, task_dto result) step" where
  "status_update services deps appContext args updated =
     (case ua_status args of
        None \<Rightarrow> ret (ok updated)
      | Some s \<Rightarrow>
          if s = td_status updated then ret (ok updated)
          else ts_moveTask services appContext
            \<lparr>mt_taskId = ua_taskId args, mt_status = s, mt_position = td_position updated\<rparr> deps)"

definition update_tool :: "'s task_tool_dependencies \<Rightarrow> runtime_context \<Rightarrow> update_args \<Rightarrow> ('s, task_tool_output result) step" where
  "update_tool dependencies appContext args =
     (let services = tt_taskServices dependencies; deps = taskDependencies dependencies in
     andThen (ts_getTask services appContext (ua_taskId args) deps) (\<lambda>current.
     ifOk current (\<lambda>cur.
     andThen (field_update services deps appContext args cur) (\<lambda>fieldUpdate.
     ifOk fieldUpdate (\<lambda>updated.
     andThen (status_update services deps appContext args updated) (\<lambda>statusUpdate.
     ifOk statusUpdate (\<lambda>moved. ret (ok (TasksUpdate (dto_object moved))))))))))"

definition performTool ::
  "'s task_tool_dependencies \<Rightarrow> parsed_args \<Rightarrow> tool_context \<Rightarrow> ('s, task_tool_output result) step" where
  "performTool dependencies parsed context =
     (let appContext = taskContext context in
      case parsed of
        ListArgs args \<Rightarrow> list_tool dependencies appContext args
      | CreateArgs args \<Rightarrow>
          andThen (ts_createTask (tt_taskServices dependencies) appContext args (taskDependencies dependencies)) (\<lambda>result.
          ifOk result (\<lambda>t. ret (ok (TasksCreate (dto_object t)))))
      | UpdateArgs args \<Rightarrow> update_tool dependencies appContext args)"

definition task_options ::
  "'s task_tool_dependencies \<Rightarrow> task_tool_input \<Rightarrow> ('s, parsed_args, task_tool_output) run_options" where
  "task_options dependencies input =
     \<lparr>op_context = ei_context input, op_toolName = ei_toolName input, op_toolCallId = ei_toolCallId input,
      op_args = ei_args input, op_parseToolName = parseToolName, op_parseArgs = parseArgs,
      op_requestSummary = task_requestSummary, op_malformedRequestSummary = malformedRequestSummary,
      op_contextForOutcome = taskContext, op_completedExecutionFromOutcome = completedExecutionFromOutcome,
      op_performTool = performTool dependencies, op_failureFromMalformedArgs = failureFromTaskMalformedArgs,
      op_failureFromError = failureFromError (tt_errorObjects dependencies) (tt_errorAt dependencies),
      op_resultSummary = task_resultSummary, op_targetRef = task_targetRef\<rparr>"

definition executeRuntimeControlTaskTool ::
  "'s task_tool_dependencies \<Rightarrow> task_tool_input \<Rightarrow> ('s, task_tool_output tool_execution result) step" where
  "executeRuntimeControlTaskTool dependencies input = runToolExecution (tt_env dependencies) (task_options dependencies input)"

section \<open>Parsed arguments\<close>

lemma okThen_ok: "okThen r k = ok y \<longleftrightarrow> (\<exists>x. r = ok x \<and> k x = ok y)"
  by (cases r) auto

lemma optionalEnum_ok:
  assumes "\<And>x. parseEnum sh ms (malformed m) v = ok x \<longleftrightarrow> x \<in> S \<and> v = JString (sh x)"
  shows "optionalEnum sh ms m v = ok r \<longleftrightarrow>
     (case r of None \<Rightarrow> v = JUndefined | Some x \<Rightarrow> x \<in> S \<and> v = JString (sh x))"
  by (cases "v = JUndefined"; cases r) (simp_all add: optionalEnum_def okThen_ok assms)

lemma parse_writable:
  "parseEnum show_task_status writableTaskStatuses e v = ok x \<longleftrightarrow> x \<noteq> TaskDone \<and> v = JString (show_task_status x)"
proof
  assume "parseEnum show_task_status writableTaskStatuses e v = ok x"
  then show "x \<noteq> TaskDone \<and> v = JString (show_task_status x)"
    by (auto simp: parseEnum_def writableTaskStatuses_def split: js_value.splits option.splits if_splits)
next
  assume "x \<noteq> TaskDone \<and> v = JString (show_task_status x)"
  then show "parseEnum show_task_status writableTaskStatuses e v = ok x"
    by (cases x) (auto simp: parseEnum_def writableTaskStatuses_def)
qed

lemma optionalStatus_ok:
  "optionalStatus v = ok r \<longleftrightarrow> (case r of None \<Rightarrow> v = JUndefined | Some x \<Rightarrow> v = JString (show_task_status x))"
  unfolding optionalStatus_def by (subst optionalEnum_ok[where S = UNIV]) (auto simp: task_status_enum.parse_ok_iff split: option.splits)

lemma optionalPriority_ok:
  "optionalPriority v = ok r \<longleftrightarrow> (case r of None \<Rightarrow> v = JUndefined | Some x \<Rightarrow> v = JString (show_task_priority x))"
  unfolding optionalPriority_def by (subst optionalEnum_ok[where S = UNIV]) (auto simp: task_priority_enum.parse_ok_iff split: option.splits)

lemma optionalWritableStatus_ok:
  "optionalWritableStatus v = ok r \<longleftrightarrow>
     (case r of None \<Rightarrow> v = JUndefined | Some x \<Rightarrow> x \<noteq> TaskDone \<and> v = JString (show_task_status x))"
proof -
  have "x = TaskDone" if "show_task_status x = ''done''" for x using that by (cases x) auto
  moreover have "optionalEnum show_task_status writableTaskStatuses m v = ok r \<longleftrightarrow>
     (case r of None \<Rightarrow> v = JUndefined | Some x \<Rightarrow> x \<in> - {TaskDone} \<and> v = JString (show_task_status x))" for m
    by (rule optionalEnum_ok) (simp add: parse_writable)
  ultimately show ?thesis by (auto simp: optionalWritableStatus_def split: option.splits)
qed

lemma requiredString_ok:
  "requiredString v field n = ok r \<longleftrightarrow> (\<exists>s. v = JString s \<and> r = squish s \<and> r \<noteq> [] \<and> length r \<le> n)"
  by (auto simp: requiredString_def Let_def split: js_value.splits)

lemma optionalString_ok:
  "optionalString v field n = ok r \<longleftrightarrow>
     (case r of None \<Rightarrow> v = JUndefined | Some d \<Rightarrow> \<exists>s. v = JString s \<and> d = trim s \<and> length d \<le> n)"
  by (auto simp: optionalString_def Let_def split: js_value.splits option.splits)

lemma optionalTitle_ok:
  "optionalTitle v = ok r \<longleftrightarrow>
     (case r of None \<Rightarrow> v = JUndefined | Some d \<Rightarrow> \<exists>s. v = JString s \<and> d = squish s \<and> d \<noteq> [] \<and> length d \<le> 180)"
  by (cases "v = JUndefined"; cases r) (auto simp: optionalTitle_def okThen_ok requiredString_ok)

lemma string_entries_map: "string_entries (map JString ss) = Some ss"
  by (induction ss) auto

lemma string_entries_iff: "string_entries vs = Some ss \<longleftrightarrow> vs = map JString ss"
proof
  show "string_entries vs = Some ss \<Longrightarrow> vs = map JString ss"
    by (induction vs arbitrary: ss rule: string_entries.induct) (auto split: option.splits)
qed (simp add: string_entries_map)

lemma optionalLabels_ok:
  "optionalLabels v = ok r \<longleftrightarrow> (case r of None \<Rightarrow> v = JUndefined | Some ls \<Rightarrow> v = string_array ls)"
proof (cases v)
  case (JArray xs)
  then show ?thesis
    by (cases "string_entries xs"; cases r)
      (auto simp: optionalLabels_def string_array_def Let_def string_entries_map string_entries_iff[symmetric])
qed (auto simp: optionalLabels_def string_array_def Let_def split: option.splits)

lemma optionalLimit_ok:
  "optionalLimit v = ok n \<longleftrightarrow> (v = JUndefined \<and> n = 20) \<or> (v = JNumber (JInt n) \<and> 1 \<le> n \<and> n \<le> 50)"
  by (auto simp: optionalLimit_def Let_def split: js_value.splits js_number.splits)

lemma squish_squish [simp]: "squish (squish s) = squish s"
  using squished_squish squish_id by blast

lemma rejectUnknownKeys_ok: "rejectUnknownKeys fs ks = ok u \<longleftrightarrow> fst ` set fs \<subseteq> set ks"
  by (induction fs) (auto simp: rejectUnknownKeys_def object_keys_def)

lemma object_value_simps:
  "object_value [] k = JUndefined"
  "object_value ((j, v) # fs) k = (if j = k then v else object_value fs k)"
  "object_value (given_member j f x @ fs) k = (if j = k \<and> x \<noteq> None then f (the x) else object_value fs k)"
  "object_value (given_member j f x) k = (if j = k \<and> x \<noteq> None then f (the x) else JUndefined)"
  by (auto simp: object_value_def given_member_def split: option.splits)

lemma fst_given_member: "(a, b) \<in> set (given_member k f x) \<Longrightarrow> a = k"
  by (auto simp: given_member_def split: option.splits)

lemmas parser_oks = optionalStatus_ok optionalPriority_ok optionalWritableStatus_ok requiredString_ok optionalString_ok
  optionalTitle_ok optionalLabels_ok optionalLimit_ok

text \<open>The form of what the parsers accept.\<close>

fun args_ok :: "parsed_args \<Rightarrow> bool" where
  "args_ok (ListArgs a) \<longleftrightarrow> 1 \<le> la_limit a \<and> la_limit a \<le> 50"
| "args_ok (CreateArgs a) \<longleftrightarrow>
     squished (ca_title a) \<and> ca_title a \<noteq> [] \<and> length (ca_title a) \<le> 180 \<and>
     pred_option (\<lambda>d. trim d = d \<and> length d \<le> 4000) (ca_description a) \<and> ca_status a \<noteq> Some TaskDone"
| "args_ok (UpdateArgs a) \<longleftrightarrow>
     list_all2 (\<lambda>p c. p c) task_uuidPattern (ua_taskId a) \<and>
     pred_option (\<lambda>t. squished t \<and> t \<noteq> [] \<and> length t \<le> 180) (ua_title a) \<and>
     pred_option (\<lambda>d. trim d = d \<and> length d \<le> 4000) (ua_description a) \<and> ua_status a \<noteq> Some TaskDone \<and>
     (ua_title a, ua_description a, ua_status a, ua_priority a, ua_labels a) \<noteq> (None, None, None, None, None)"

lemma parse_list:
  assumes "parseListArgs v = ok p"
  shows "args_ok p \<and> args_toolName p = ''opzava_tasks_list''"
  using assms by (auto simp: parseListArgs_def okThen_ok optionalLimit_ok split: js_value.splits)

lemma parse_create:
  assumes "parseCreateArgs v = ok p"
  shows "args_ok p \<and> args_toolName p = ''opzava_tasks_create''"
proof -
  obtain fs where fs: "v = JObject fs" using assms by (cases v) (auto simp: parseCreateArgs_def)
  obtain t d st pr ls where "requiredString (object_value fs ''title'') ''title'' 180 = ok t"
      "optionalString (object_value fs ''description'') ''description'' 4000 = ok d"
      "optionalWritableStatus (object_value fs ''status'') = ok st"
      "p = CreateArgs \<lparr>ca_title = t, ca_description = d, ca_status = st, ca_priority = pr, ca_labels = ls\<rparr>"
    using assms unfolding fs parseCreateArgs_def by (auto simp: okThen_ok)
  then show ?thesis
    by (auto simp: requiredString_ok optionalString_ok optionalWritableStatus_ok squished_squish split: option.splits)
qed

lemma parse_update:
  assumes "parseUpdateArgs v = ok p"
  shows "args_ok p \<and> args_toolName p = ''opzava_tasks_update''"
proof -
  obtain fs where fs: "v = JObject fs" using assms by (cases v) (auto simp: parseUpdateArgs_def)
  obtain i t d st pr ls where "requiredTaskId (object_value fs ''taskId'') = ok i"
      "optionalTitle (object_value fs ''title'') = ok t"
      "optionalString (object_value fs ''description'') ''description'' 4000 = ok d"
      "optionalWritableStatus (object_value fs ''status'') = ok st"
      "\<not> (t = None \<and> d = None \<and> st = None \<and> pr = None \<and> ls = None)"
      "p = UpdateArgs \<lparr>ua_taskId = i, ua_title = t, ua_description = d, ua_status = st, ua_priority = pr, ua_labels = ls\<rparr>"
    using assms unfolding fs parseUpdateArgs_def by (simp add: okThen_ok del: not_None_eq split: if_splits) blast
  then show ?thesis
    by (auto simp: requiredTaskId_def okThen_ok optionalTitle_ok optionalString_ok optionalWritableStatus_ok squished_squish
        split: option.splits if_splits)
qed

lemma reparse_list:
  assumes "args_ok (ListArgs a)"
  shows "parseListArgs (JObject (args_object (ListArgs a))) = ok (ListArgs a)"
proof -
  let ?fs = "args_object (ListArgs a)"
  have "rejectUnknownKeys ?fs [''status'', ''limit''] = ok ()" by (auto simp: rejectUnknownKeys_ok dest: fst_given_member)
  moreover have "optionalStatus (object_value ?fs ''status'') = ok (la_status a)"
    by (auto simp: object_value_simps optionalStatus_ok split: option.splits)
  moreover have "optionalLimit (object_value ?fs ''limit'') = ok (la_limit a)"
    using assms by (simp add: object_value_simps optionalLimit_ok)
  ultimately show ?thesis by (simp add: parseListArgs_def)
qed

lemma reparse_create:
  assumes "args_ok (CreateArgs a)"
  shows "parseCreateArgs (JObject (args_object (CreateArgs a))) = ok (CreateArgs a)"
proof -
  let ?fs = "args_object (CreateArgs a)"
  have "rejectUnknownKeys ?fs [''title'', ''description'', ''status'', ''priority'', ''labels''] = ok ()"
    by (auto simp: rejectUnknownKeys_ok dest: fst_given_member)
  moreover have "requiredString (object_value ?fs ''title'') ''title'' 180 = ok (ca_title a)"
    using assms by (simp add: object_value_simps requiredString_ok squish_id)
  moreover have "optionalString (object_value ?fs ''description'') ''description'' 4000 = ok (ca_description a)"
    using assms by (auto simp: object_value_simps optionalString_ok split: option.splits)
  moreover have "optionalWritableStatus (object_value ?fs ''status'') = ok (ca_status a)"
    using assms by (auto simp: object_value_simps optionalWritableStatus_ok split: option.splits)
  moreover have "optionalPriority (object_value ?fs ''priority'') = ok (ca_priority a)"
    by (auto simp: object_value_simps optionalPriority_ok split: option.splits)
  moreover have "optionalLabels (object_value ?fs ''labels'') = ok (ca_labels a)"
    by (auto simp: object_value_simps optionalLabels_ok split: option.splits)
  ultimately show ?thesis by (simp add: parseCreateArgs_def)
qed

lemma uuid_squished:
  assumes "list_all2 (\<lambda>p c. p c) task_uuidPattern s"
  shows "squished s" "s \<noteq> []" "length s = 36"
proof -
  have ps: "\<forall>p\<in>set task_uuidPattern. \<forall>c. p c \<longrightarrow> \<not> js_space c"
    by (auto simp: task_uuidPattern_def hex_digit_def dash_def js_space_def)
  have "\<forall>c\<in>set s. \<not> js_space c"
    using assms ps by (metis (no_types, lifting) in_set_conv_nth list_all2_conv_all_nth)
  moreover have "squished_tail t" if "\<forall>c\<in>set t. \<not> js_space c" for t
    using that by (induction t rule: squished_tail.induct) auto
  ultimately show "squished s" by (simp add: squished_def)
  show "length s = 36" using list_all2_lengthD[OF assms] by (simp add: task_uuidPattern_def)
  then show "s \<noteq> []" by auto
qed

lemma reparse_update:
  assumes "args_ok (UpdateArgs a)"
  shows "parseUpdateArgs (JObject (args_object (UpdateArgs a))) = ok (UpdateArgs a)"
proof -
  let ?fs = "args_object (UpdateArgs a)"
  have "rejectUnknownKeys ?fs [''taskId'', ''title'', ''description'', ''status'', ''priority'', ''labels''] = ok ()"
    by (auto simp: rejectUnknownKeys_ok dest: fst_given_member)
  moreover have "requiredTaskId (object_value ?fs ''taskId'') = ok (ua_taskId a)"
    using assms uuid_squished[of "ua_taskId a"] by (simp add: object_value_simps requiredTaskId_def okThen_ok requiredString_ok squish_id)
  moreover have "optionalTitle (object_value ?fs ''title'') = ok (ua_title a)"
    using assms by (auto simp: object_value_simps optionalTitle_ok squish_id split: option.splits intro!: exI)
  moreover have "optionalString (object_value ?fs ''description'') ''description'' 4000 = ok (ua_description a)"
    using assms by (auto simp: object_value_simps optionalString_ok split: option.splits)
  moreover have "optionalWritableStatus (object_value ?fs ''status'') = ok (ua_status a)"
    using assms by (auto simp: object_value_simps optionalWritableStatus_ok split: option.splits)
  moreover have "optionalPriority (object_value ?fs ''priority'') = ok (ua_priority a)"
    by (auto simp: object_value_simps optionalPriority_ok split: option.splits)
  moreover have "optionalLabels (object_value ?fs ''labels'') = ok (ua_labels a)"
    by (auto simp: object_value_simps optionalLabels_ok split: option.splits)
  ultimately show ?thesis using assms by (simp add: parseUpdateArgs_def)
qed

lemma parse_ok:
  assumes "parseArgs name v = ok p" "name \<in> set runtimeControlTaskToolNames"
  shows "args_ok p \<and> args_toolName p = name"
  using assms parse_list parse_create parse_update by (auto simp: parseArgs_def runtimeControlTaskToolNames_def split: if_splits)

lemma reparse:
  assumes "args_ok p"
  shows "parseArgs (args_toolName p) (JObject (args_object p)) = ok p"
proof (cases p)
  case (ListArgs a) then show ?thesis using reparse_list assms by (simp add: parseArgs_def)
next
  case (CreateArgs a) then show ?thesis using reparse_create assms by (simp add: parseArgs_def)
next
  case (UpdateArgs a) then show ?thesis using reparse_update assms by (simp add: parseArgs_def)
qed

end
