(* ===== verification/Tool_Properties.thy ===== *)
theory Tool_Properties
  imports Tool_Harness Assistant_Properties
begin

text \<open>
  The statements of the tool outcome service over the in-memory runtime store, and the properties of a tool
  execution: a tool is consulted at most once for a call of a turn, and an execution that succeeds or fails
  has settled its receipt.
\<close>

section \<open>The statements over the in-memory store\<close>

definition start_input :: "record_outcome_input \<Rightarrow> start_outcome" where
  "start_input i = \<lparr>sc_organizationId = cx_orgId i, sc_workspaceId = cx_workspaceId i, so_turnId = ro_turnId i,
     so_toolName = ro_toolName i, so_toolCallId = ro_toolCallId i, so_idempotencyKey = ro_idempotencyKey i,
     so_requestSummary = ro_requestSummary i, so_targetRef = ro_targetRef i\<rparr>"

definition input_scope :: "record_outcome_input \<Rightarrow> workspace_scope" where
  "input_scope i = \<lparr>sc_organizationId = cx_orgId i, sc_workspaceId = cx_workspaceId i\<rparr>"

definition memory_insert :: "(nat \<Rightarrow> string) \<Rightarrow> record_outcome_input \<Rightarrow> (runtime_store, tool_outcome option) step" where
  "memory_insert uuid i st =
     (case outcome_with_call st (ro_turnId i) (ro_toolCallId i) of
        Some _ \<Rightarrow> (Returned None, st)
      | None \<Rightarrow> (case startToolOutcome uuid (input_scope i) (start_input i) st of
            (Returned (Inr (Inserted c)), st') \<Rightarrow> (Returned (Some c), st')
          | _ \<Rightarrow> (Thrown (SqlState ''23503''), st)))"

definition memory_complete ::
  "string \<Rightarrow> completion \<Rightarrow> js_object \<Rightarrow> string option \<Rightarrow> (runtime_store, tool_outcome option) step" where
  "memory_complete rid status summary target st =
     (case map_get (rs_outcomes st) rid of
        None \<Rightarrow> (Returned None, st)
      | Some c \<Rightarrow>
          if oc_status c \<noteq> Started then (Returned None, st)
          else let c' = finished_outcome \<lparr>fn_turnId = oc_turnId c, fn_toolName = oc_toolName c, fn_toolCallId = oc_toolCallId c,
                   fn_idempotencyKey = oc_idempotencyKey c, fn_status = status, fn_requestSummary = oc_requestSummary c,
                   fn_resultSummary = summary, fn_targetRef = target\<rparr> (rs_sequence st + 1) c
               in (Returned (Some c'), tick st\<lparr>rs_outcomes := map_set (oc_id c) c' (rs_outcomes st)\<rparr>))"

definition memory_tx :: "(nat \<Rightarrow> string) \<Rightarrow> runtime_store outcome_tx" where
  "memory_tx uuid =
     \<lparr>tx_selectTurn = (\<lambda>turnId org ws st. (Returned (case map_get (rs_turns st) turnId of
          Some t \<Rightarrow> (if tn_organizationId t = org \<and> tn_workspaceId t = ws then Some t else None) | None \<Rightarrow> None), st)),
      tx_insertStarted = memory_insert uuid,
      tx_findOutcome = (\<lambda>turnId callId st. (Returned (outcome_with_call st turnId callId), st)),
      tx_lockOutcome = (\<lambda>turnId callId org ws st. (Returned (case outcome_with_call st turnId callId of
          Some c \<Rightarrow> (if oc_organizationId c = org \<and> oc_workspaceId c = ws then Some c else None) | None \<Rightarrow> None), st)),
      tx_complete = memory_complete\<rparr>"

definition memory_undo :: "runtime_store \<Rightarrow> runtime_store \<Rightarrow> runtime_store" where
  "memory_undo before after = before"

definition memory_valid :: "(nat \<Rightarrow> string) \<Rightarrow> runtime_store \<Rightarrow> bool" where
  "memory_valid uuid st \<longleftrightarrow> inj uuid \<and> runtime_inv uuid st"

definition memory_receipts :: "runtime_store \<Rightarrow> string \<times> string \<rightharpoonup> tool_outcome" where
  "memory_receipts st k = outcome_with_call st (fst k) (snd k)"

lemma option_eqI: "(\<And>d. x = Some d \<longleftrightarrow> y = Some d) \<Longrightarrow> x = y"
  by (cases y) auto

lemma receipts_set:
  assumes inv: "runtime_inv u st'" and rows: "rs_outcomes st' = map_set (oc_id c) c (rs_outcomes st)"
    and old: "\<And>j d. map_get (rs_outcomes st) j = Some d \<Longrightarrow> j = oc_id c \<Longrightarrow> call_key d = call_key c" and st: "runtime_inv u st"
  shows "memory_receipts st' = (memory_receipts st)((oc_turnId c, oc_toolCallId c) \<mapsto> c)"
proof
  fix k :: "string \<times> string"
  have c: "map_get (rs_outcomes st') (oc_id c) = Some c" by (simp add: rows)
  have iff: "memory_receipts s k = Some d \<longleftrightarrow> map_get (rs_outcomes s) (oc_id d) = Some d \<and> (oc_turnId d, oc_toolCallId d) = k"
    if "runtime_inv u s" for s d
    using outcome_with_call_SomeD[OF _ that, of "fst k" "snd k" d] outcome_with_call_found[OF that, of "oc_id d" d]
    by (cases k) (auto simp: memory_receipts_def)
  show "memory_receipts st' k = ((memory_receipts st)((oc_turnId c, oc_toolCallId c) \<mapsto> c)) k"
  proof (cases "k = (oc_turnId c, oc_toolCallId c)")
    case True
    then show ?thesis using iff[OF inv, of c] c by simp
  next
    case False
    have "memory_receipts st' k = Some d \<longleftrightarrow> memory_receipts st k = Some d" for d
      using False old[of "oc_id c" d] by (auto simp: iff[OF inv] iff[OF st] rows split: if_splits)
    with False show ?thesis by (simp add: option_eqI)
  qed
qed

lemma memory_insert_cases:
  assumes "memory_insert u i st = (r, st')"
  obtains (fresh) c where "r = Returned (Some c)" "outcome_with_call st (ro_turnId i) (ro_toolCallId i) = None"
      "startToolOutcome u (input_scope i) (start_input i) st = (Returned (Inr (Inserted c)), st')"
  | (other) "\<forall>c. r \<noteq> Returned (Some c)" "st' = st"
  using assms
  by (auto simp: memory_insert_def split: option.splits prod.splits js_result.splits sum.splits insert_result.splits)

lemma start_Inserted:
  assumes "startToolOutcome u scope i st = (Returned (Inr (Inserted c)), st')"
  shows "c = started_outcome_row u scope i st" "st' = drawn (tick st)\<lparr>rs_outcomes := map_set (oc_id c) c (rs_outcomes st)\<rparr>"
  using assms
  by (auto simp: startToolOutcome_def Let_def whenSame_def split: sum.splits option.splits if_splits)

interpretation memory: outcome_statements "memory_tx u" memory_undo "memory_valid u" memory_receipts
proof
  fix s s' i c
  assume v: "memory_valid u s" and ins: "tx_insertStarted (memory_tx u) i s = (Returned (Some c), s')"
  have inv: "inj u" "runtime_inv u s" using v by (simp_all add: memory_valid_def)
  from ins have "memory_insert u i s = (Returned (Some c), s')" by (simp add: memory_tx_def)
  then show "memory_valid u s' \<and> memory_receipts s (ro_turnId i, ro_toolCallId i) = None \<and> oc_status c = Started \<and>
      memory_receipts s' = (memory_receipts s)((ro_turnId i, ro_toolCallId i) \<mapsto> c)"
  proof (cases rule: memory_insert_cases)
    case (fresh d)
    note row = start_Inserted[OF fresh(3)]
    have inv': "runtime_inv u s'"
      using change_keeps_inv[OF start_refines[of u "input_scope i" s "start_input i"] inv(2,1)] fresh(3) by simp
    have fields: "oc_turnId d = ro_turnId i" "oc_toolCallId d = ro_toolCallId i" "oc_status d = Started" "oc_id d = u (rs_uuids s)"
      using row(1) by (simp_all add: started_outcome_row_def start_input_def Let_def)
    have "memory_receipts s' = (memory_receipts s)((oc_turnId d, oc_toolCallId d) \<mapsto> d)"
      using table_fresh[OF outcome_table[OF inv(2)] inv(1)] fields(4) row(2)
      by (intro receipts_set[OF inv' _ _ inv(2)]) auto
    with fresh inv inv' fields show ?thesis by (simp add: memory_valid_def memory_receipts_def)
  qed auto
next
  fix s s' i r
  assume "memory_valid u s" "tx_insertStarted (memory_tx u) i s = (r, s')" "\<forall>c. r \<noteq> Returned (Some c)"
  then show "memory_valid u s' \<and> memory_receipts s' = memory_receipts s"
    by (auto simp: memory_tx_def elim: memory_insert_cases)
next
  fix s k c status summary target r s'
  assume v: "memory_valid u s" and c: "memory_receipts s k = Some c"
    and run: "tx_complete (memory_tx u) (oc_id c) status summary target s = (r, s')"
  have inv: "inj u" "runtime_inv u s" using v by (simp_all add: memory_valid_def)
  have row: "map_get (rs_outcomes s) (oc_id c) = Some c" "k = (oc_turnId c, oc_toolCallId c)"
    using outcome_with_call_SomeD[OF c[unfolded memory_receipts_def] inv(2)] by (simp_all add: prod_eq_iff)
  show "memory_valid u s' \<and> (case r of
        Returned (Some c') \<Rightarrow> oc_status c' = completed_status status \<and> memory_receipts s' = (memory_receipts s)(k \<mapsto> c')
      | _ \<Rightarrow> memory_receipts s' = memory_receipts s)"
  proof (cases "oc_status c = Started")
    case False
    then show ?thesis using run row v by (auto simp: memory_tx_def memory_complete_def)
  next
    case True
    let ?i = "\<lparr>fn_turnId = oc_turnId c, fn_toolName = oc_toolName c, fn_toolCallId = oc_toolCallId c,
       fn_idempotencyKey = oc_idempotencyKey c, fn_status = status, fn_requestSummary = oc_requestSummary c,
       fn_resultSummary = summary, fn_targetRef = target\<rparr>"
    let ?c = "finished_outcome ?i (rs_sequence s + 1) c"
    have r: "r = Returned (Some ?c)" "s' = tick s\<lparr>rs_outcomes := map_set (oc_id c) ?c (rs_outcomes s)\<rparr>"
      using run row True by (auto simp: memory_tx_def memory_complete_def Let_def)
    have inv': "runtime_inv u s'" using inv_outcome_finished[OF inv(2) row(1), of ?i] r(2) by simp
    have "memory_receipts s' = (memory_receipts s)((oc_turnId ?c, oc_toolCallId ?c) \<mapsto> ?c)"
      using row(1) r(2) by (intro receipts_set[OF inv' _ _ inv(2)]) auto
    with r inv inv' row show ?thesis by (simp add: memory_valid_def)
  qed
qed (auto simp: memory_tx_def memory_undo_def memory_receipts_def split: option.splits if_splits)

section \<open>A tool call to run\<close>

definition tool_org :: string where
  "tool_org = ''11111111-1111-4111-8111-111111111111''"

definition tool_database :: database where
  "tool_database = \<lparr>db_executeRole = Returned (JArray [JObject [(''session_role'', JString ''opzava_app'')]]),
     db_executeSetConfig = (\<lambda>_. Returned ()),
     db_executeTenant = (\<lambda>org. Returned (JArray [JObject [(''current_org_id'', JString org)]])), db_rollsBack = True\<rparr>"

definition tool_env :: "runtime_store service_env" where
  "tool_env = \<lparr>sv_database = tool_database, sv_undo = memory_undo, sv_authorizationPort = None, sv_tx = memory_tx demo_uuid\<rparr>"

definition call_context :: tool_context where
  "call_context = \<lparr>cx_orgId = tool_org, cx_workspaceId = tool_org, cx_actor = \<lparr>ra_userId = tool_org, ra_roleKeys = [''owner'']\<rparr>,
     sp_sessionId = ''s'', tc_conversationId = ''a'', tc_assistantTurnId = ''aa'', tc_commandIdempotencyKey = ''k''\<rparr>"

definition tool_scope :: workspace_scope where
  "tool_scope = \<lparr>sc_organizationId = tool_org, sc_workspaceId = tool_org\<rparr>"

definition turn_store :: runtime_store where
  "turn_store = run_ops
     [(tool_scope, Create (demo_conversation\<lparr>sc_organizationId := tool_org, sc_workspaceId := tool_org\<rparr>)),
      (tool_scope, Queue (demo_queue\<lparr>sc_organizationId := tool_org, sc_workspaceId := tool_org\<rparr>))] empty_runtime"

definition call_options :: "(runtime_store, unit, nat) run_options" where
  "call_options = \<lparr>op_context = call_context, op_toolName = ''tool'', op_toolCallId = JString '' call '', op_args = JNull,
     op_parseToolName = ok, op_parseArgs = (\<lambda>_ _. ok ()), op_requestSummary = (\<lambda>_. []),
     op_malformedRequestSummary = malformedRequestSummary,
     op_contextForOutcome = (\<lambda>c. \<lparr>cx_orgId = cx_orgId c, cx_workspaceId = cx_workspaceId c, cx_actor = cx_actor c\<rparr>),
     op_completedExecutionFromOutcome = (\<lambda>n c r. err outcomeConflict), op_performTool = (\<lambda>_ _. ret (ok 7)),
     op_failureFromMalformedArgs = failureFromMalformedArgs,
     op_failureFromError = (\<lambda>e. \<lparr>tf_code = ''failed'', tf_message = err_message e\<rparr>), op_resultSummary = (\<lambda>_. []),
     op_targetRef = (\<lambda>_. None)\<rparr>"

lemma turn_store_valid: "memory_valid demo_uuid turn_store"
  unfolding memory_valid_def turn_store_def by (intro conjI inj_demo_uuid reachable_inv[OF operated_run])

definition runs_to :: "('s, 'o tool_execution result) step \<Rightarrow> 's \<Rightarrow> 'o option" where
  "runs_to m s = (case m s of (Returned (Inr (ExecSucceeded _ _ out _)), _) \<Rightarrow> Some out | _ \<Rightarrow> None)"

lemma tool_session: "is_uuid tool_org" "session_ok tool_database tool_org"
  by code_simp+

lemma tool_demo: "runs_to (runToolExecution tool_env call_options) turn_store = Some 7"
  by code_simp

lemma tool_demo_other: "runs_to (runToolExecution tool_env (call_options\<lparr>op_performTool := \<lambda>_ _. ret (ok 8)\<rparr>)) turn_store = Some 8"
  by code_simp

lemma tool_demo_fresh: "memory_receipts turn_store (''aa'', ''call'') = None"
  by code_simp

section \<open>Properties\<close>

text \<open>
  C16. At most once: let the statements of the outcome table mean what \<open>outcome_statements\<close> says, and let
  the tool itself not delete receipts. If a run consulted its tool (with another tool in its place it would
  have gone differently), then no later run for the same turn and the same call id consults a tool, however
  different its request is, whatever happened in between, and even when the first run failed or threw.
\<close>

theorem tool_is_consulted_at_most_once:
  assumes statements: "outcome_statements tx undo valid receipts" and env: "sv_tx env = tx" "sv_undo env = undo"
    and state: "valid s"
    and tool: "\<And>p t. valid t \<Longrightarrow> valid (snd (op_performTool opts p (op_context opts) t)) \<and>
      dom (receipts t) \<subseteq> dom (receipts (snd (op_performTool opts p (op_context opts) t)))"
    and consulted: "runToolExecution env (opts\<lparr>op_performTool := other\<rparr>) s \<noteq> runToolExecution env opts s"
    and later: "valid s'" "dom (receipts (snd (runToolExecution env opts s))) \<subseteq> dom (receipts s')"
    and again: "tc_assistantTurnId (op_context again) = tc_assistantTurnId (op_context opts)"
      "call_id (op_toolCallId again) = call_id (op_toolCallId opts)"
  shows "runToolExecution env (again\<lparr>op_performTool := any\<rparr>) s' = runToolExecution env again s'"
proof (rule outcome_statements.run_again[OF statements])
  show "sv_tx env = tx" "valid s'" by fact+
next
  fix call assume call: "call_id (op_toolCallId again) = Some call"
  have "(tc_assistantTurnId (op_context opts), call) \<in> dom (receipts (snd (runToolExecution env opts s)))"
    using call again tool state env consulted
    by (intro outcome_statements.consulted_claims[OF statements]) (auto simp: keeps_def outcome_statements.grows_def[OF statements])
  with later again show "receipts s' (tc_assistantTurnId (op_context again), call) \<noteq> None" by auto
qed

theorem tool_is_consulted_at_most_once_witness:
  "runToolExecution tool_env (call_options\<lparr>op_performTool := \<lambda>_ _. ret (ok 9)\<rparr>) (snd (runToolExecution tool_env call_options turn_store))
     = runToolExecution tool_env call_options (snd (runToolExecution tool_env call_options turn_store))"
proof (rule tool_is_consulted_at_most_once[OF memory.outcome_statements_axioms _ _ turn_store_valid])
  show "sv_tx tool_env = memory_tx demo_uuid" "sv_undo tool_env = memory_undo" by (simp_all add: tool_env_def)
  show "runToolExecution tool_env (call_options\<lparr>op_performTool := \<lambda>_ _. ret (ok 8)\<rparr>) turn_store
      \<noteq> runToolExecution tool_env call_options turn_store"
    using tool_demo tool_demo_other by (auto simp: runs_to_def)
  have "keeps (memory.grows demo_uuid) (runToolExecution tool_env call_options)"
    by (intro memory.grows_run) (simp_all add: tool_env_def call_options_def memory.growth.keeps_ret)
  with turn_store_valid show "memory_valid demo_uuid (snd (runToolExecution tool_env call_options turn_store))"
    by (simp add: keeps_def memory.grows_def)
qed (simp_all add: call_options_def ret_def)

text \<open>
  C17. Settled receipts: a run for a fresh call that answers with an execution has left, under the turn and
  the trimmed call id, the very outcome it answers with, succeeded for a succeeded execution and failed for
  a failed one.
\<close>

theorem execution_settles_its_receipt:
  assumes statements: "outcome_statements tx undo valid receipts" and env: "sv_tx env = tx" and state: "valid s"
    and tool: "\<And>p t. valid t \<Longrightarrow> valid (snd (op_performTool opts p (op_context opts) t)) \<and>
      dom (receipts t) \<subseteq> dom (receipts (snd (op_performTool opts p (op_context opts) t)))"
    and call: "call_id (op_toolCallId opts) = Some call"
    and fresh: "receipts s (tc_assistantTurnId (op_context opts), call) = None"
    and run: "runToolExecution env opts s = (Returned (ok ex), s')"
  shows "receipts s' (tc_assistantTurnId (op_context opts), call) = Some (ex_outcome ex) \<and>
    oc_status (ex_outcome ex) = (if is_ExecSucceeded ex then Succeeded else OutcomeFailed)"
  using outcome_statements.run_settles[OF statements state env call _ fresh run] tool
  by (cases ex) (auto simp: keeps_def outcome_statements.grows_def[OF statements])

theorem execution_settles_its_receipt_witness:
  "\<exists>ex s'. runToolExecution tool_env call_options turn_store = (Returned (ok ex), s') \<and>
     memory_receipts s' (''aa'', ''call'') = Some (ex_outcome ex) \<and> oc_status (ex_outcome ex) = Succeeded"
proof -
  obtain ex s' where run: "runToolExecution tool_env call_options turn_store = (Returned (ok ex), s')" "is_ExecSucceeded ex"
    using tool_demo by (auto simp: runs_to_def split: prod.splits js_result.splits sum.splits tool_execution.splits)
  have "memory_receipts s' (tc_assistantTurnId (op_context call_options), ''call'') = Some (ex_outcome ex) \<and>
      oc_status (ex_outcome ex) = (if is_ExecSucceeded ex then Succeeded else OutcomeFailed)"
  proof (rule execution_settles_its_receipt[OF memory.outcome_statements_axioms _ turn_store_valid _ _ _ run(1)])
    show "call_id (op_toolCallId call_options) = Some ''call''" by code_simp
    show "memory_receipts turn_store (tc_assistantTurnId (op_context call_options), ''call'') = None"
      using tool_demo_fresh by (simp add: call_options_def call_context_def)
  qed (simp_all add: tool_env_def call_options_def ret_def)
  with run show ?thesis by (auto simp: call_options_def call_context_def)
qed

end
