(* ===== verification/Task_Tool_Properties.thy ===== *)
theory Task_Tool_Properties
  imports Task_Tools Tool_Properties
begin

text \<open>
  The properties of the assistant's task tools: they cannot complete a task, repeated calls give the recorded
  execution, and the recorded arguments are a normal form.
\<close>

section \<open>Task services to run on\<close>

definition demo_task :: task_dto where
  "demo_task = \<lparr>td_id = ''t'', td_organizationId = tool_org, td_workspaceId = tool_org, td_cardNumber = JInt 1, td_title = ''Ship'',
     td_description = [], td_status = TaskTodo, td_priority = NormalPriority, td_assigneeUserId = None, td_assigneeName = None,
     td_labels = [], td_position = JInt 1, td_dueAt = None, td_provenanceSource = ''web'', td_provenanceExternalRef = None,
     td_createdAt = ''c'', td_updatedAt = ''u''\<rparr>"

definition demo_services :: "runtime_store task_services" where
  "demo_services = \<lparr>ts_createTask = (\<lambda>_ i _. ret (ok (demo_task\<lparr>td_title := ca_title i\<rparr>))), ts_getTask = (\<lambda>_ _ _. ret (ok demo_task)),
     ts_listTasks = (\<lambda>_ _. ret (ok [demo_task])), ts_moveTask = (\<lambda>_ i _. ret (ok (demo_task\<lparr>td_status := mt_status i\<rparr>))),
     ts_updateTask = (\<lambda>_ _ _. ret (ok demo_task))\<rparr>"

definition no_done_services :: "runtime_store task_services" where
  "no_done_services = demo_services\<lparr>ts_moveTask := \<lambda>cx i p.
     if mt_status i = TaskDone then throw (SqlState ''42501'') else ts_moveTask demo_services cx i p\<rparr>"

definition demo_dependencies :: "runtime_store task_tool_dependencies" where
  "demo_dependencies = \<lparr>tt_env = tool_env, tt_taskAuthorizationPort = None, tt_taskServices = demo_services,
     tt_errorObjects = (\<lambda>_. \<lparr>er_status = JUndefined, er_cause = NoObject\<rparr>), tt_errorAt = (\<lambda>_. NoObject)\<rparr>"

definition create_call :: task_tool_input where
  "create_call = \<lparr>ei_context = call_context, ei_toolName = ''opzava_tasks_create'', ei_toolCallId = JString ''call'',
     ei_args = JObject [(''title'', JString '' Ship  it '')]\<rparr>"

section \<open>Properties\<close>

text \<open>Services that behave alike, except when they are asked to create a Done task or to move one to Done.\<close>

definition alike_unless_done :: "'s task_services \<Rightarrow> 's task_services \<Rightarrow> bool" where
  "alike_unless_done a b \<longleftrightarrow>
     ts_listTasks a = ts_listTasks b \<and> ts_getTask a = ts_getTask b \<and> ts_updateTask a = ts_updateTask b \<and>
     (\<forall>cx i p. ca_status i \<noteq> Some TaskDone \<longrightarrow> ts_createTask a cx i p = ts_createTask b cx i p) \<and>
     (\<forall>cx i p. mt_status i \<noteq> TaskDone \<longrightarrow> ts_moveTask a cx i p = ts_moveTask b cx i p)"

lemma taskDependencies_services [simp]: "taskDependencies (d\<lparr>tt_taskServices := a\<rparr>) = taskDependencies d"
  by (simp add: taskDependencies_def split: option.split)

lemma perform_alike:
  assumes "alike_unless_done a b" "args_ok p"
  shows "performTool (d\<lparr>tt_taskServices := a\<rparr>) p cx = performTool (d\<lparr>tt_taskServices := b\<rparr>) p cx"
proof (cases p)
  case (ListArgs i)
  with assms show ?thesis by (simp add: performTool_def list_tool_def alike_unless_done_def)
next
  case (CreateArgs i)
  with assms show ?thesis by (simp add: performTool_def alike_unless_done_def)
next
  case (UpdateArgs i)
  have "status_update a q c i u = status_update b q c i u" "field_update a q c i u = field_update b q c i u" for q c u
    using assms UpdateArgs by (auto simp: status_update_def field_update_def alike_unless_done_def split: option.split)
  with assms UpdateArgs show ?thesis
    by (simp add: performTool_def update_tool_def alike_unless_done_def Let_def cong: sum.case_cong)
qed

text \<open>
  C18. Tools cannot complete a task: whatever an assistant passes to a task tool, the services are never
  asked to create a task as Done or to move one to Done. Services that differ only in how they would answer
  such a request give the same execution, the same error and the same state.
\<close>

theorem task_tools_never_complete_a_task:
  assumes "alike_unless_done a b"
  shows "executeRuntimeControlTaskTool (d\<lparr>tt_taskServices := a\<rparr>) input = executeRuntimeControlTaskTool (d\<lparr>tt_taskServices := b\<rparr>) input"
proof -
  have perform: "performTool (d\<lparr>tt_taskServices := a\<rparr>) p cx = performTool (d\<lparr>tt_taskServices := b\<rparr>) p cx"
    if "parseArgs name (ei_args input) = ok p" "parseToolName (ei_toolName input) = ok name" for name p cx
    using that parse_ok[OF that(1)] perform_alike[OF assms] by (auto simp: parseToolName_def split: if_splits)
  have "task_options (d\<lparr>tt_taskServices := a\<rparr>) input =
      (task_options (d\<lparr>tt_taskServices := b\<rparr>) input)\<lparr>op_performTool := performTool (d\<lparr>tt_taskServices := a\<rparr>)\<rparr>"
    by (simp add: task_options_def)
  then show ?thesis
    unfolding executeRuntimeControlTaskTool_def
    by (simp add: run_perform_cong) (rule run_perform_cong, simp add: task_options_def perform)
qed

theorem task_tools_never_complete_a_task_witness:
  "executeRuntimeControlTaskTool (demo_dependencies\<lparr>tt_taskServices := demo_services\<rparr>) create_call =
     executeRuntimeControlTaskTool (demo_dependencies\<lparr>tt_taskServices := no_done_services\<rparr>) create_call"
  by (rule task_tools_never_complete_a_task) (simp add: alike_unless_done_def no_done_services_def)

text \<open>
  C19. A repeated call gives the recorded execution: let a task tool be called for a fresh call id and answer
  with an execution, and let the same turn and call id be used again while its receipt stands. If that call
  answers with an execution at all, it carries the same outcome and is succeeded or failed as the first was.
\<close>

theorem repeated_calls_give_the_recorded_execution:
  assumes statements: "outcome_statements tx undo valid receipts" and env: "sv_tx (tt_env d) = tx" "sv_tx (tt_env d') = tx"
    and state: "valid s"
    and tool: "\<And>p t. valid t \<Longrightarrow> valid (snd (performTool d p (ei_context input) t)) \<and>
      dom (receipts t) \<subseteq> dom (receipts (snd (performTool d p (ei_context input) t)))"
    and call: "call_id (ei_toolCallId input) = Some call"
    and fresh: "receipts s (tc_assistantTurnId (ei_context input), call) = None"
    and run: "executeRuntimeControlTaskTool d input s = (Returned (ok ex), s')"
    and later: "valid t" "receipts t (tc_assistantTurnId (ei_context input), call) = receipts s' (tc_assistantTurnId (ei_context input), call)"
    and again: "tc_assistantTurnId (ei_context input') = tc_assistantTurnId (ei_context input)"
      "call_id (ei_toolCallId input') = Some call"
    and rerun: "executeRuntimeControlTaskTool d' input' t = (Returned (ok ex'), t')"
  shows "ex_outcome ex' = ex_outcome ex \<and> is_ExecSucceeded ex' = is_ExecSucceeded ex"
proof -
  have "receipts s' (tc_assistantTurnId (ei_context input), call) = Some (ex_outcome ex) \<and> settled ex"
    using outcome_statements.run_settles[OF statements state env(1), of "task_options d input" call ex s'] tool call fresh run
    by (auto simp: executeRuntimeControlTaskTool_def task_options_def keeps_def outcome_statements.grows_def[OF statements])
  then have held: "receipts t (tc_assistantTurnId (ei_context input'), call) = Some (ex_outcome ex)" "settled ex"
    using later(2) again(1) by auto
  obtain name i where "completedExecutionFromOutcome name call \<lparr>sr_outcome = ex_outcome ex, sr_inserted = i\<rparr> = ok ex'"
    using outcome_statements.run_gives_recorded[OF statements later(1) env(2), of "task_options d' input'" call "ex_outcome ex" ex' t'] held again rerun
    by (auto simp: executeRuntimeControlTaskTool_def task_options_def)
  with held(2) show ?thesis
    by (cases ex) (auto simp: completedExecutionFromOutcome_def Let_def split: outcome_status.splits option.splits)
qed

definition created_store :: runtime_store where
  "created_store = snd (executeRuntimeControlTaskTool demo_dependencies create_call turn_store)"

lemma create_call_answers: "runs_to (executeRuntimeControlTaskTool demo_dependencies create_call) turn_store \<noteq> None"
  by code_simp

definition created_outcome :: tool_outcome where
  "created_outcome = \<lparr>oc_id = ''aaa'', oc_organizationId = tool_org, oc_workspaceId = tool_org, oc_turnId = ''aa'',
     oc_toolName = ''opzava_tasks_create'', oc_toolCallId = ''call'', oc_idempotencyKey = ''k'', oc_status = Succeeded,
     oc_requestSummary = [(''toolName'', JString ''opzava_tasks_create''), (''args'', JObject [(''title'', JString ''Ship it'')])],
     oc_resultSummary = task_resultSummary (TasksCreate (dto_object (demo_task\<lparr>td_title := ''Ship it''\<rparr>))),
     oc_targetRef = Some ''t'', oc_createdAt = 3, oc_updatedAt = 4, oc_completedAt = Some 4\<rparr>"

lemma created_store_eq:
  "created_store = turn_store\<lparr>rs_outcomes := [(''aaa'', created_outcome)], rs_sequence := 4, rs_uuids := 3\<rparr>"
  by code_simp

lemma create_call_replays: "runs_to (executeRuntimeControlTaskTool demo_dependencies create_call) created_store \<noteq> None"
  unfolding created_store_eq by code_simp

lemma demo_tool_state: "snd (performTool demo_dependencies p cx st) = st"
  by (cases p) (auto simp: performTool_def list_tool_def update_tool_def field_update_def status_update_def demo_dependencies_def
      demo_services_def Let_def step_simps split: option.splits)

lemma created_store_valid: "memory_valid demo_uuid created_store"
proof -
  have "keeps (memory.grows demo_uuid) (executeRuntimeControlTaskTool demo_dependencies create_call)"
    unfolding executeRuntimeControlTaskTool_def
  proof (rule memory.grows_run)
    show "keeps (memory.grows demo_uuid) (op_performTool (task_options demo_dependencies create_call) p
        (op_context (task_options demo_dependencies create_call)))" for p
      by (simp add: task_options_def keeps_def demo_tool_state memory.growth.frame_refl)
  qed (simp_all add: demo_dependencies_def tool_env_def)
  with turn_store_valid show ?thesis by (simp add: keeps_def memory.grows_def created_store_def)
qed

theorem repeated_calls_give_the_recorded_execution_witness:
  "\<exists>ex ex' t'. executeRuntimeControlTaskTool demo_dependencies create_call turn_store = (Returned (ok ex), created_store) \<and>
     executeRuntimeControlTaskTool demo_dependencies create_call created_store = (Returned (ok ex'), t') \<and>
     ex_outcome ex' = ex_outcome ex \<and> is_ExecSucceeded ex' = is_ExecSucceeded ex"
proof -
  obtain ex where run: "executeRuntimeControlTaskTool demo_dependencies create_call turn_store = (Returned (ok ex), created_store)"
    using create_call_answers by (auto simp: runs_to_def created_store_def split: prod.splits js_result.splits sum.splits)
  obtain ex' t' where rerun: "executeRuntimeControlTaskTool demo_dependencies create_call created_store = (Returned (ok ex'), t')"
    using create_call_replays by (auto simp: runs_to_def split: prod.splits js_result.splits sum.splits)
  have call: "call_id (ei_toolCallId create_call) = Some ''call''" by code_simp
  have "memory_receipts turn_store (tc_assistantTurnId (ei_context create_call), ''call'') = None"
    using tool_demo_fresh by (simp add: create_call_def call_context_def)
  from repeated_calls_give_the_recorded_execution[OF memory.outcome_statements_axioms _ _ turn_store_valid _ call this run
      created_store_valid refl refl call rerun]
  have "ex_outcome ex' = ex_outcome ex \<and> is_ExecSucceeded ex' = is_ExecSucceeded ex"
    by (simp add: demo_dependencies_def tool_env_def demo_tool_state[unfolded demo_dependencies_def tool_env_def])
  with run rerun show ?thesis by blast
qed

text \<open>
  What a task tool has recorded it replays: the receipt of a succeeded or failed execution, with the
  summary that the execution stored, gives back the same output or the same failure.
\<close>

theorem recorded_executions_replay:
  "completedExecutionFromOutcome name call
     \<lparr>sr_outcome = c\<lparr>oc_status := Succeeded, oc_resultSummary := task_resultSummary out\<rparr>, sr_inserted = i\<rparr> =
     ok (ExecSucceeded name call out (c\<lparr>oc_status := Succeeded, oc_resultSummary := task_resultSummary out\<rparr>)) \<and>
   completedExecutionFromOutcome name call
     \<lparr>sr_outcome = c\<lparr>oc_status := OutcomeFailed, oc_resultSummary := failureSummary f\<rparr>, sr_inserted = i\<rparr> =
     ok (ExecFailed name call (tf_code f) (tf_message f) (c\<lparr>oc_status := OutcomeFailed, oc_resultSummary := failureSummary f\<rparr>))"
  by (cases out) (simp_all add: completedExecutionFromOutcome_def outputFromOutcome_def failureFromOutcome_def failureSummary_def
      object_value_def)

text \<open>
  C37. The recorded request of an accepted tool call is its normal form: it has the form \<open>args_ok\<close> (limits
  and lengths in bounds, texts trimmed, a task id of UUID shape, a status other than Done, at least one change
  in an update), it names its tool, and parsing the recorded arguments again gives the same request.
\<close>

theorem tool_arguments_have_a_normal_form:
  assumes "parseToolName name = ok tool" "parseArgs tool v = ok p"
  shows "args_ok p \<and> object_value (task_requestSummary p) ''toolName'' = JString tool \<and>
    parseArgs tool (object_value (task_requestSummary p) ''args'') = ok p"
proof -
  have "tool \<in> set runtimeControlTaskToolNames" using assms(1) by (auto simp: parseToolName_def split: if_splits)
  from parse_ok[OF assms(2) this] have p: "args_ok p" "args_toolName p = tool" by auto
  with reparse[OF p(1)] show ?thesis by (simp add: task_requestSummary_def object_value_def)
qed

theorem tool_arguments_have_a_normal_form_witness:
  "args_ok (CreateArgs \<lparr>ca_title = ''Ship it'', ca_description = None, ca_status = None, ca_priority = None, ca_labels = None\<rparr>)"
proof -
  have "parseToolName ''opzava_tasks_create'' = ok ''opzava_tasks_create''" by code_simp
  moreover have "parseArgs ''opzava_tasks_create'' (ei_args create_call) =
      ok (CreateArgs \<lparr>ca_title = ''Ship it'', ca_description = None, ca_status = None, ca_priority = None, ca_labels = None\<rparr>)"
    by code_simp
  ultimately show ?thesis using tool_arguments_have_a_normal_form by blast
qed

end
