(* ===== verification/Done_Command.thy ===== *)
theory Done_Command
  imports Outcome_Service Task_Tools
begin

text \<open>
  The governed end of a task (\<^verbatim>\<open>packages/project-management/src/application/tasks.ts\<close>): \<^verbatim>\<open>moveTask\<close>, which never
  moves a task to Done, and \<^verbatim>\<open>markTaskDone\<close>, which does so only with an attested human command, an approved
  quality review and an unused confirmation. The context of a request has the fields of \<open>runtime_context\<close>.
  The SQL statements, with the decoding of their rows, are the fields of \<open>done_tx\<close>; the audit port and the
  operational log are parameters too.
\<close>

section \<open>Inputs and audit records\<close>

datatype attempt_surface = WebSurface | RuntimeControlTool | McpSurface | OtherSurface

datatype attempt_action = AttemptCreate | AttemptMove | AttemptMarkDone

datatype hard_reason =
    CreateWithTerminalStatus
  | TerminalTransitionRequiresGovernedAdmission
  | AttestationInvalid
  | AttestationPrincipalMismatch
  | NonceNotFound
  | NonceExpired
  | NonceConflict
  | NonceBoundToOtherTask
  | NonceScopeMismatch
  | ReviewMissing
  | ReviewScopeMismatch
  | ReviewNotApproved

record terminal_attempt =
  at_organizationId :: string
  at_workspaceId :: string
  at_surface :: attempt_surface
  at_attemptedAction :: attempt_action
  at_targetTaskId :: "string option"
  at_actorUserId :: string
  at_hardReason :: hard_reason
  at_nonceConfirmationId :: "js_value option"

record mark_done_input = runtime_context +
  md_taskId :: string
  md_position :: js_number
  md_humanCommand :: js_value
  md_surface :: "attempt_surface option"

record move_input = runtime_context +
  mv_taskId :: string
  mv_status :: js_value
  mv_position :: js_number
  mv_surface :: "attempt_surface option"

datatype review_status = ReviewOpen | ReviewApproved | ReviewChangesRequested

record quality_review =
  qr_id :: string
  qr_workspaceId :: string
  qr_status :: review_status

record done_outcome =
  do_result :: "task_dto result"
  do_hardReason :: "hard_reason option"

text \<open>
  The statements: the review of a task; the update that consumes the confirmation of the command and says
  whether it matched a row; the row of a confirmation; the update to Done; the update of status and
  position; the insert of a confirmation; the deletion of spent and expired ones, with their number.
\<close>

record 's done_tx =
  dx_selectReview :: "string \<Rightarrow> ('s, quality_review option) step"
  dx_consume :: "mark_done_input \<Rightarrow> string \<Rightarrow> ('s, bool) step"
  dx_confirmation :: "mark_done_input \<Rightarrow> ('s, js_object option) step"
  dx_setDone :: "mark_done_input \<Rightarrow> ('s, task_dto option) step"
  dx_move :: "move_input \<Rightarrow> task_status \<Rightarrow> ('s, task_dto option) step"
  dx_issue :: "runtime_context \<Rightarrow> string \<Rightarrow> ('s, js_value) step"
  dx_cleanup :: "('s, nat) step"

record 's done_env =
  dv_database :: database
  dv_undo :: "'s \<Rightarrow> 's \<Rightarrow> 's"
  dv_authorizationPort :: "can_function option"
  dv_auditPort :: "terminal_attempt \<Rightarrow> ('s, unit result) step"
  dv_warn :: "terminal_attempt \<Rightarrow> ('s, unit) step"
  dv_tx :: "'s done_tx"

section \<open>Guards\<close>

definition taskError :: "string \<Rightarrow> string \<Rightarrow> domain_error" where
  "taskError code message = failure (''projectManagement.'' @ code) message"

definition taskDoneRequiresApprovedReview :: domain_error where
  "taskDoneRequiresApprovedReview = taskError ''taskDoneRequiresApprovedReview''
     ''A task can only be marked Done after its quality review is approved.''"

definition taskNotFound :: domain_error where
  "taskNotFound = taskError ''taskNotFound'' ''Task was not found.''"

definition databaseError :: domain_error where
  "databaseError = taskError ''databaseError'' ''Database operation failed.''"

definition invalidTaskContext :: domain_error where
  "invalidTaskContext = taskError ''invalidTaskContext''
     ''Task context contains an invalid organization, workspace, or actor id.''"

definition assertKnownIds :: "'a runtime_context_scheme \<Rightarrow> unit result" where
  "assertKnownIds input =
     (case makeId TenantId (cx_orgId input) of Inl _ \<Rightarrow> err invalidTaskContext | Inr _ \<Rightarrow>
     (case makeId OrgId (cx_orgId input) of Inl _ \<Rightarrow> err invalidTaskContext | Inr _ \<Rightarrow>
     (case makeId WorkspaceId (cx_workspaceId input) of Inl _ \<Rightarrow> err invalidTaskContext | Inr _ \<Rightarrow>
     (case makeId UserId (ra_userId (cx_actor input)) of Inl _ \<Rightarrow> err invalidTaskContext | Inr _ \<Rightarrow> ok ()))))"

definition assertKnownTaskId :: "string \<Rightarrow> unit result" where
  "assertKnownTaskId taskId =
     (case makeId TaskId taskId of Inl _ \<Rightarrow> err (taskError ''invalidTaskId'' ''Task id is invalid.'') | Inr _ \<Rightarrow> ok ())"

definition authorizeTask :: "can_function \<Rightarrow> 'a runtime_context_scheme \<Rightarrow> authorization_action \<Rightarrow> unit result" where
  "authorizeTask can input action =
     (case can (authorizationSubject input) action
        \<lparr>rc_type = TaskResource, rc_tenantId = cx_orgId input, rc_orgId = Some (cx_orgId input),
         rc_workspaceId = Some (cx_workspaceId input), rc_projectId = None, rc_id = None\<rparr> of
        Inl e \<Rightarrow> err e
      | Inr d \<Rightarrow> if \<not> dc_allowed d then err (taskError ''forbidden'' ''You are not allowed to manage tasks.'') else ok ())"

text \<open>
  \<^verbatim>\<open>Number.isInteger(position) && position >= 0\<close>: a number of exponential notation with a positive exponent
  is an integer.
\<close>

definition valid_position :: "js_number \<Rightarrow> bool" where
  "valid_position n = (case n of JInt i \<Rightarrow> i \<ge> 0 | JDec s \<Rightarrow> js_includes ''e+'' s \<and> take 1 s \<noteq> ''-'' | _ \<Rightarrow> False)"

definition invalidTaskPosition :: domain_error where
  "invalidTaskPosition = taskError ''invalidTaskPosition'' ''Task position must be a non-negative integer.''"

text \<open>The members of a value that is an object; an array has none of the names that are read.\<close>

definition object_fields :: "js_value \<Rightarrow> js_object option" where
  "object_fields v = (case v of JObject fs \<Rightarrow> Some fs | JArray _ \<Rightarrow> Some [] | _ \<Rightarrow> None)"

definition is_nonce :: "js_value \<Rightarrow> bool" where
  "is_nonce v = (case v of JString s \<Rightarrow> is_uuid s | _ \<Rightarrow> False)"

definition hasValidHumanCommandAttestation :: "mark_done_input \<Rightarrow> bool" where
  "hasValidHumanCommandAttestation input =
     (case object_fields (md_humanCommand input) of
        None \<Rightarrow> False
      | Some fs \<Rightarrow>
          object_value fs ''confirmedByUserId'' = JString (ra_userId (cx_actor input)) \<and>
          object_value fs ''confirmSource'' = JString ''admin-web'' \<and>
          is_nonce (object_value fs ''confirmNonce''))"

definition invalidAttestationReason :: "mark_done_input \<Rightarrow> hard_reason" where
  "invalidAttestationReason input =
     (case object_fields (md_humanCommand input) of
        None \<Rightarrow> AttestationInvalid
      | Some fs \<Rightarrow>
          if object_value fs ''confirmSource'' = JString ''admin-web'' \<and> is_nonce (object_value fs ''confirmNonce'') \<and>
            (\<exists>u \<in> set_option (string_member fs ''confirmedByUserId''). u \<noteq> ra_userId (cx_actor input))
          then AttestationPrincipalMismatch else AttestationInvalid)"

definition confirmNonce :: "mark_done_input \<Rightarrow> js_value" where
  "confirmNonce input =
     (case object_fields (md_humanCommand input) of Some fs \<Rightarrow> object_value fs ''confirmNonce'' | None \<Rightarrow> JUndefined)"

definition surface_or_web :: "attempt_surface option \<Rightarrow> attempt_surface" where
  "surface_or_web s = (case s of Some x \<Rightarrow> x | None \<Rightarrow> WebSurface)"

section \<open>Audit\<close>

definition appendTerminalAttempt :: "'s done_env \<Rightarrow> terminal_attempt \<Rightarrow> ('s, unit) step" where
  "appendTerminalAttempt env a s =
     (case dv_auditPort env a s of
        (Returned (Inr _), s') \<Rightarrow> (Returned (), s')
      | (_, s') \<Rightarrow> dv_warn env a s')"

definition mark_done_attempt :: "mark_done_input \<Rightarrow> hard_reason \<Rightarrow> js_value option \<Rightarrow> terminal_attempt" where
  "mark_done_attempt input reason nonce =
     \<lparr>at_organizationId = cx_orgId input, at_workspaceId = cx_workspaceId input, at_surface = surface_or_web (md_surface input),
      at_attemptedAction = AttemptMarkDone, at_targetTaskId = Some (md_taskId input), at_actorUserId = ra_userId (cx_actor input),
      at_hardReason = reason, at_nonceConfirmationId = nonce\<rparr>"

section \<open>Commands\<close>

definition prepareMarkTaskDone :: "'s done_env \<Rightarrow> mark_done_input \<Rightarrow> ('s, unit result) step" where
  "prepareMarkTaskDone env input =
     ifOk (assertKnownIds input) (\<lambda>_.
     ifOk (assertKnownTaskId (md_taskId input)) (\<lambda>_.
     if \<not> valid_position (md_position input) then ret (err invalidTaskPosition)
     else ifOk (authorizeTask (case dv_authorizationPort env of Some can \<Rightarrow> can | None \<Rightarrow> task_can) input UpdateAction) (\<lambda>_.
     if \<not> hasValidHumanCommandAttestation input
     then andThen (appendTerminalAttempt env (mark_done_attempt input (invalidAttestationReason input) None)) (\<lambda>_.
       ret (err doneRequiresHuman))
     else ret (ok ()))))"

definition appendMarkTaskDoneRejectionAttempt :: "'s done_env \<Rightarrow> mark_done_input \<Rightarrow> done_outcome \<Rightarrow> ('s, unit) step" where
  "appendMarkTaskDoneRejectionAttempt env input outcome =
     (case do_hardReason outcome of
        None \<Rightarrow> ret ()
      | Some reason \<Rightarrow> appendTerminalAttempt env (mark_done_attempt input reason (Some (confirmNonce input))))"

text \<open>\<^verbatim>\<open>String(row[k]) !== expected\<close>, which throws where the conversion does.\<close>

definition unless_string :: "js_value \<Rightarrow> string \<Rightarrow> ('s, 'a) step \<Rightarrow> ('s, 'a) step \<Rightarrow> ('s, 'a) step" where
  "unless_string v expected differs k =
     (case js_String v of None \<Rightarrow> throw convert_error | Some x \<Rightarrow> if x \<noteq> expected then differs else k)"

definition classifyRejectedDoneConfirmation :: "'s done_tx \<Rightarrow> mark_done_input \<Rightarrow> ('s, hard_reason) step" where
  "classifyRejectedDoneConfirmation tx input =
     andThen (dx_confirmation tx input) (\<lambda>found.
     case found of
       None \<Rightarrow> ret NonceNotFound
     | Some row \<Rightarrow>
         if object_value row ''is_consumed'' = JBool True then ret NonceConflict
         else if object_value row ''is_expired'' = JBool True then ret NonceExpired
         else unless_string (object_value row ''task_id'') (md_taskId input) (ret NonceBoundToOtherTask)
           (unless_string (object_value row ''workspace_id'') (cx_workspaceId input) (ret NonceScopeMismatch)
             (unless_string (object_value row ''issued_for_user_id'') (ra_userId (cx_actor input)) (ret AttestationPrincipalMismatch)
               (ret NonceConflict))))"

definition refuse_review :: "hard_reason \<Rightarrow> done_outcome" where
  "refuse_review reason = \<lparr>do_result = err taskDoneRequiresApprovedReview, do_hardReason = Some reason\<rparr>"

definition refuse_attestation :: "'s done_tx \<Rightarrow> mark_done_input \<Rightarrow> ('s, done_outcome) step" where
  "refuse_attestation tx input s =
     (case classifyRejectedDoneConfirmation tx input s of
        (Returned reason, s') \<Rightarrow> (Returned \<lparr>do_result = err doneRequiresHuman, do_hardReason = Some reason\<rparr>, s')
      | (Thrown _, s') \<Rightarrow> (Returned \<lparr>do_result = err doneRequiresHuman, do_hardReason = None\<rparr>, s'))"

definition markTaskDoneInTransaction :: "'s done_tx \<Rightarrow> mark_done_input \<Rightarrow> ('s, done_outcome) step" where
  "markTaskDoneInTransaction tx input =
     andThen (dx_selectReview tx (md_taskId input)) (\<lambda>found.
     case found of
       None \<Rightarrow> ret (refuse_review ReviewMissing)
     | Some review \<Rightarrow>
     if qr_workspaceId review \<noteq> cx_workspaceId input then ret (refuse_review ReviewScopeMismatch)
     else if qr_status review \<noteq> ReviewApproved then ret (refuse_review ReviewNotApproved)
     else andThen (dx_consume tx input (qr_id review)) (\<lambda>consumed.
     if \<not> consumed then refuse_attestation tx input
     else andThen (dx_setDone tx input) (\<lambda>row.
     case row of
       None \<Rightarrow> throw (RollbackError taskNotFound)
     | Some t \<Rightarrow> ret \<lparr>do_result = ok t, do_hardReason = None\<rparr>)))"

definition taskDoneFailed :: domain_error where
  "taskDoneFailed = taskError ''taskDoneFailed'' ''Task could not be marked Done.''"

text \<open>The \<^verbatim>\<open>catch\<close> of the command, around the transaction and the audit of its refusal.\<close>

definition catchRollback :: "domain_error \<Rightarrow> ('s, 'a result) step \<Rightarrow> ('s, 'a result) step" where
  "catchRollback e m s =
     (case m s of
        (Returned r, s') \<Rightarrow> (Returned r, s')
      | (Thrown (RollbackError d), s') \<Rightarrow> (Returned (err d), s')
      | (Thrown _, s') \<Rightarrow> (Returned (err e), s'))"

definition markTaskDone :: "'s done_env \<Rightarrow> mark_done_input \<Rightarrow> ('s, task_dto result) step" where
  "markTaskDone env input =
     andThen (prepareMarkTaskDone env input) (\<lambda>prepared.
     ifOk prepared (\<lambda>_.
     catchRollback taskDoneFailed
       (andThen (withTenant (dv_database env) (dv_undo env) (cx_orgId input) (markTaskDoneInTransaction (dv_tx env) input)) (\<lambda>outcome.
        andThen (appendMarkTaskDoneRejectionAttempt env input outcome) (\<lambda>_.
        ret (do_result outcome))))))"

definition move_attempt :: "move_input \<Rightarrow> terminal_attempt" where
  "move_attempt input =
     \<lparr>at_organizationId = cx_orgId input, at_workspaceId = cx_workspaceId input, at_surface = surface_or_web (mv_surface input),
      at_attemptedAction = AttemptMove, at_targetTaskId = Some (mv_taskId input), at_actorUserId = ra_userId (cx_actor input),
      at_hardReason = TerminalTransitionRequiresGovernedAdmission, at_nonceConfirmationId = None\<rparr>"

definition moveTask :: "'s done_env \<Rightarrow> move_input \<Rightarrow> ('s, task_dto result) step" where
  "moveTask env input =
     ifOk (assertKnownIds input) (\<lambda>_.
     ifOk (assertKnownTaskId (mv_taskId input)) (\<lambda>_.
     ifOk (parseTaskStatus (mv_status input)) (\<lambda>status.
     if isTerminalTaskStatus status
     then andThen (appendTerminalAttempt env (move_attempt input)) (\<lambda>_. ret (err doneRequiresHuman))
     else if \<not> valid_position (mv_position input) then ret (err invalidTaskPosition)
     else ifOk (authorizeTask (case dv_authorizationPort env of Some can \<Rightarrow> can | None \<Rightarrow> task_can) input UpdateAction) (\<lambda>_.
     catching (taskError ''taskMoveFailed'' ''Task could not be moved.'')
       (withTenant (dv_database env) (dv_undo env) (cx_orgId input)
         (andThen (dx_move (dv_tx env) input status) (\<lambda>row.
          ret (case row of None \<Rightarrow> err taskNotFound | Some t \<Rightarrow> ok t))))))))"

definition issueDoneConfirmation :: "'s done_env \<Rightarrow> 'a runtime_context_scheme \<Rightarrow> string \<Rightarrow> ('s, string result) step" where
  "issueDoneConfirmation env input taskId =
     ifOk (assertKnownIds input) (\<lambda>_.
     ifOk (assertKnownTaskId taskId) (\<lambda>_.
     ifOk (authorizeTask (case dv_authorizationPort env of Some can \<Rightarrow> can | None \<Rightarrow> task_can) input UpdateAction) (\<lambda>_.
     catching databaseError
       (withTenant (dv_database env) (dv_undo env) (cx_orgId input)
         (andThen (dx_issue (dv_tx env) (runtime_context.truncate input) taskId) (\<lambda>nonce.
          ret (case nonce of JString n \<Rightarrow> ok n | _ \<Rightarrow> err taskNotFound)))))))"

definition assertKnownUuid :: "string \<Rightarrow> string \<Rightarrow> unit result" where
  "assertKnownUuid v field =
     (if is_uuid v then ok () else err (taskError ''invalidTaskCardId'' (field @ '' must be a valid id.'')))"

definition cleanupDoneConfirmations :: "'s done_env \<Rightarrow> string \<Rightarrow> ('s, nat result) step" where
  "cleanupDoneConfirmations env orgId =
     ifOk (assertKnownUuid orgId ''Organization ID'') (\<lambda>_.
     catching databaseError
       (withTenant (dv_database env) (dv_undo env) orgId (andThen (dx_cleanup (dv_tx env)) (\<lambda>n. ret (ok n)))))"

section \<open>What the commands rely on\<close>

text \<open>
  Confirmations by their id, with what binds them, and the status of tasks. Consuming a confirmation matches
  only an unused one that is not expired and bound to the task, organization, workspace and user of the
  command, and marks it; the update to Done sets the status of the task of the command and nothing else; the move sets the
  given status; issuing adds an unused confirmation under an id that was never issued; the cleanup only
  deletes; reads, the audit and a rollback leave the tables alone. Each law is the meaning of a clause of the statement it is about.
\<close>

record confirmation =
  cf_taskId :: string
  cf_organizationId :: string
  cf_workspaceId :: string
  cf_userId :: string
  cf_expiresAt :: js_date
  cf_consumed :: bool

definition bound_to :: "mark_done_input \<Rightarrow> confirmation \<Rightarrow> bool" where
  "bound_to i c \<longleftrightarrow> cf_taskId c = md_taskId i \<and> cf_organizationId c = cx_orgId i \<and> cf_workspaceId c = cx_workspaceId i \<and>
     cf_userId c = ra_userId (cx_actor i)"

definition same_views :: "('s \<Rightarrow> 'a) \<Rightarrow> ('s \<Rightarrow> 'b) \<Rightarrow> ('s \<Rightarrow> 'c) \<Rightarrow> 's \<Rightarrow> 's \<Rightarrow> bool" where
  "same_views f g h s s' \<longleftrightarrow> f s' = f s \<and> g s' = g s \<and> h s' = h s"

locale done_statements =
  fixes env :: "'s done_env"
    and now :: "'s \<Rightarrow> js_date"
    and confirmations :: "'s \<Rightarrow> js_value \<rightharpoonup> confirmation"
    and issued :: "'s \<Rightarrow> js_value set"
    and tasks :: "'s \<Rightarrow> string \<rightharpoonup> task_status"
  assumes rolls_back: "db_rollsBack (dv_database env)"
    and recorded: "dom (confirmations s) \<subseteq> issued s"
    and undone: "same_views confirmations issued tasks s (dv_undo env s s')"
    and review_reads: "same_views confirmations issued tasks s (snd (dx_selectReview (dv_tx env) tid s))"
    and confirmation_reads: "same_views confirmations issued tasks s (snd (dx_confirmation (dv_tx env) i s))"
    and audit_apart: "same_views confirmations issued tasks s (snd (dv_auditPort env a s))"
    and warn_apart: "\<exists>s'. dv_warn env a s = (Returned (), s') \<and> same_views confirmations issued tasks s s'"
    and consume_marks: "dx_consume (dv_tx env) i q s = (Returned True, s') \<Longrightarrow>
      \<exists>c. confirmations s (confirmNonce i) = Some c \<and> \<not> cf_consumed c \<and> now s < cf_expiresAt c \<and> bound_to i c \<and>
        tasks s' = tasks s \<and> issued s' = issued s \<and> confirmations s' = (confirmations s)(confirmNonce i \<mapsto> c\<lparr>cf_consumed := True\<rparr>)"
    and consume_misses: "dx_consume (dv_tx env) i q s = (Returned False, s') \<Longrightarrow> same_views confirmations issued tasks s s'"
    and done_sets: "dx_setDone (dv_tx env) i s = (Returned (Some t), s') \<Longrightarrow>
      td_id t = md_taskId i \<and> td_status t = TaskDone \<and> tasks s' = (tasks s)(md_taskId i \<mapsto> TaskDone) \<and>
      confirmations s' = confirmations s \<and> issued s' = issued s"
    and move_sets: "dx_move (dv_tx env) m st s = (Returned r, s') \<Longrightarrow> confirmations s' = confirmations s \<and> issued s' = issued s \<and>
      tasks s' = (case r of Some t \<Rightarrow> (tasks s)(mv_taskId m \<mapsto> st) | None \<Rightarrow> tasks s)"
    and issue_adds: "dx_issue (dv_tx env) cx tid s = (Returned v, s') \<Longrightarrow> same_views confirmations issued tasks s s' \<or>
      tasks s' = tasks s \<and> v \<notin> issued s \<and> issued s' = insert v (issued s) \<and>
      (\<exists>c. confirmations s' = (confirmations s)(v \<mapsto> c) \<and> cf_taskId c = tid \<and> cf_workspaceId c = cx_workspaceId cx \<and>
        cf_userId c = ra_userId (cx_actor cx) \<and> cf_expiresAt c = now s + 300000 \<and> \<not> cf_consumed c)"
    and cleanup_deletes: "dx_cleanup (dv_tx env) s = (Returned n, s') \<Longrightarrow>
      tasks s' = tasks s \<and> issued s' = issued s \<and> confirmations s' \<subseteq>\<^sub>m confirmations s"
begin

abbreviation same_tables :: "'s \<Rightarrow> 's \<Rightarrow> bool" where
  "same_tables \<equiv> same_views confirmations issued tasks"

sublocale still: frame_relation same_tables
  by unfold_locales (auto simp: same_views_def)

lemma still_append: "keeps same_tables (appendTerminalAttempt env a)"
  unfolding keeps_def
proof
  fix s
  obtain r s1 where a: "dv_auditPort env a s = (r, s1)" by fastforce
  have s1: "same_tables s s1" using audit_apart[of s a] a by (simp add: same_views_def)
  obtain s2 where w: "dv_warn env a s1 = (Returned (), s2)" "same_tables s1 s2" using warn_apart[of a s1] by (auto simp: same_views_def)
  show "same_tables s (snd (appendTerminalAttempt env a s))"
    using a s1 w still.frame_trans[OF s1 w(2)]
    by (auto simp: appendTerminalAttempt_def split: js_result.splits sum.splits)
qed

lemma append_returns: "\<exists>s'. appendTerminalAttempt env a s = (Returned (), s')"
  using warn_apart by (fastforce simp: appendTerminalAttempt_def split: prod.splits js_result.splits sum.splits)

lemma still_prepare: "keeps same_tables (prepareMarkTaskDone env input)"
  unfolding prepareMarkTaskDone_def by (intro still.keeps_rules still_append)

lemma prepare_returns: "\<exists>r s'. prepareMarkTaskDone env input s = (Returned r, s')"
proof -
  obtain s1 where "appendTerminalAttempt env (mark_done_attempt input (invalidAttestationReason input) None) s = (Returned (), s1)"
    using append_returns by blast
  then show ?thesis by (auto simp: prepareMarkTaskDone_def step_simps split: sum.split)
qed

lemma prepare_ok:
  assumes "prepareMarkTaskDone env input s = (Returned (ok u), s')"
  shows "hasValidHumanCommandAttestation input"
    "authorizeTask (case dv_authorizationPort env of Some can \<Rightarrow> can | None \<Rightarrow> task_can) input UpdateAction = ok ()"
  using assms
  by (auto simp: prepareMarkTaskDone_def step_simps split: sum.splits prod.splits js_result.splits if_splits)

lemma still_rejection: "keeps same_tables (appendMarkTaskDoneRejectionAttempt env input outcome)"
  unfolding appendMarkTaskDoneRejectionAttempt_def by (intro still.keeps_rules still_append)

lemma still_unless:
  "keeps same_tables a \<Longrightarrow> keeps same_tables b \<Longrightarrow> keeps same_tables (unless_string v x a b)"
  unfolding unless_string_def by (intro still.keeps_rules)

lemma still_confirmation: "keeps same_tables (dx_confirmation (dv_tx env) i)"
  using confirmation_reads by (simp add: keeps_def same_views_def)

lemma still_classify: "keeps same_tables (classifyRejectedDoneConfirmation (dv_tx env) input)"
  unfolding classifyRejectedDoneConfirmation_def by (intro still.keeps_rules still_unless still_confirmation)

lemma refuse_attestation_refuses:
  "\<exists>h s'. refuse_attestation (dv_tx env) input s = (Returned \<lparr>do_result = err doneRequiresHuman, do_hardReason = h\<rparr>, s') \<and> same_tables s s'"
  using still_classify[of input]
  by (auto simp: refuse_attestation_def keeps_def split: prod.splits js_result.splits) (metis snd_conv)+

text \<open>The transaction: refused without a change, thrown, or the confirmation spent and the task done.\<close>

lemma transaction_cases:
  assumes "markTaskDoneInTransaction (dv_tx env) input s = (Returned out, s')"
  obtains (refused) e where "do_result out = err e" "same_tables s s'"
  | (finished) t c q where "do_result out = ok t" "do_hardReason out = None" "td_id t = md_taskId input" "td_status t = TaskDone"
      "confirmations s (confirmNonce input) = Some c" "\<not> cf_consumed c" "bound_to input c" "issued s' = issued s"
      "confirmations s' = (confirmations s)(confirmNonce input \<mapsto> c\<lparr>cf_consumed := True\<rparr>)"
      "tasks s' = (tasks s)(md_taskId input \<mapsto> TaskDone)"
      "fst (dx_selectReview (dv_tx env) (md_taskId input) s) = Returned (Some q)"
      "qr_status q = ReviewApproved" "qr_workspaceId q = cx_workspaceId input"
proof -
  obtain f s1 where rev: "dx_selectReview (dv_tx env) (md_taskId input) s = (Returned f, s1)"
    using assms by (auto simp: markTaskDoneInTransaction_def step_simps split: prod.splits js_result.splits)
  have s1: "same_tables s s1" using review_reads[of s "md_taskId input"] rev by (simp add: same_views_def)
  show thesis
  proof (cases "\<exists>q. f = Some q \<and> qr_workspaceId q = cx_workspaceId input \<and> qr_status q = ReviewApproved")
    case False
    then have "\<exists>e. do_result out = err e" "s' = s1"
      using assms rev
      by (auto simp: markTaskDoneInTransaction_def step_simps refuse_review_def split: option.splits if_splits)
    with s1 refused show thesis by blast
  next
    case True
    then obtain q where q: "f = Some q" "qr_workspaceId q = cx_workspaceId input" "qr_status q = ReviewApproved" by blast
    obtain b s2 where con: "dx_consume (dv_tx env) input (qr_id q) s1 = (Returned b, s2)"
      using assms rev q by (auto simp: markTaskDoneInTransaction_def step_simps split: prod.splits js_result.splits)
    show thesis
    proof (cases b)
      case False
      have "same_tables s1 s2" using consume_misses con False by (simp add: same_views_def)
      moreover obtain h s3 where "refuse_attestation (dv_tx env) input s2 = (Returned \<lparr>do_result = err doneRequiresHuman, do_hardReason = h\<rparr>, s3)"
          "same_tables s2 s3" using refuse_attestation_refuses by blast
      ultimately have "do_result out = err doneRequiresHuman" "same_tables s s'"
        using assms rev q con False s1
        by (auto simp: markTaskDoneInTransaction_def step_simps same_views_def)
      then show thesis by (rule refused)
    next
      case True
      then have "dx_consume (dv_tx env) input (qr_id q) s1 = (Returned True, s2)" using con by simp
      from consume_marks[OF this] obtain c where c: "confirmations s1 (confirmNonce input) = Some c" "\<not> cf_consumed c"
          "bound_to input c" "tasks s2 = tasks s1" "issued s2 = issued s1" "confirmations s2 = (confirmations s1)(confirmNonce input \<mapsto> c\<lparr>cf_consumed := True\<rparr>)"
        by blast
      obtain t where set: "dx_setDone (dv_tx env) input s2 = (Returned (Some t), s')" "out = \<lparr>do_result = ok t, do_hardReason = None\<rparr>"
        using assms rev q con True
        by (auto simp: markTaskDoneInTransaction_def step_simps split: prod.splits js_result.splits option.splits)
      note d = done_sets[OF set(1)]
      show thesis by (rule finished[of t c q]) (use c d set(2) s1 rev q in \<open>auto simp: same_views_def\<close>)
    qed
  qed
qed

lemma tenant_cases:
  assumes "withTenant (dv_database env) (dv_undo env) org fn s = (r, s')"
  obtains (returned) x where "r = Returned x" "fn s = (Returned x, s')"
  | (thrown) e where "r = Thrown e" "same_tables s s'"
proof (cases r)
  case (Returned x)
  then show thesis using assms withTenant_Returned by (intro returned) auto
next
  case (Thrown e)
  have "same_tables s s'"
  proof (cases "is_uuid org \<and> session_ok (dv_database env) org")
    case True
    then show ?thesis using assms Thrown undone rolls_back
      by (auto simp: withTenant_entry same_views_def split: prod.splits js_result.splits)
  next
    case False
    with withTenant_refused[of org "dv_database env" "dv_undo env" fn s] obtain d where
      "withTenant (dv_database env) (dv_undo env) org fn s =
        (Thrown d, if is_uuid org \<and> db_rollsBack (dv_database env) then dv_undo env s s else s)" by blast
    with assms undone[of s s] show ?thesis by (simp add: same_views_def split: if_splits)
  qed
  with Thrown show thesis by (rule thrown)
qed

lemma rejection_returns: "\<exists>s'. appendMarkTaskDoneRejectionAttempt env input outcome s = (Returned (), s') \<and> same_tables s s'"
proof -
  have "\<exists>s'. appendMarkTaskDoneRejectionAttempt env input outcome s = (Returned (), s')"
    using append_returns by (auto simp: appendMarkTaskDoneRejectionAttempt_def ret_def split: option.split)
  then show ?thesis using still_rejection[of input outcome] by (auto simp: keeps_def) (metis snd_conv)
qed

lemma markTaskDone_cases:
  obtains (refused) e s' where "markTaskDone env input s = (Returned (err e), s')" "same_tables s s'"
  | (finished) t c q s0 s' where "markTaskDone env input s = (Returned (ok t), s')" "hasValidHumanCommandAttestation input"
      "authorizeTask (case dv_authorizationPort env of Some can \<Rightarrow> can | None \<Rightarrow> task_can) input UpdateAction = ok ()"
      "td_id t = md_taskId input" "td_status t = TaskDone"
      "confirmations s (confirmNonce input) = Some c" "\<not> cf_consumed c" "bound_to input c" "issued s' = issued s"
      "confirmations s' = (confirmations s)(confirmNonce input \<mapsto> c\<lparr>cf_consumed := True\<rparr>)"
      "tasks s' = (tasks s)(md_taskId input \<mapsto> TaskDone)"
      "fst (dx_selectReview (dv_tx env) (md_taskId input) s0) = Returned (Some q)" "same_tables s s0"
      "qr_status q = ReviewApproved" "qr_workspaceId q = cx_workspaceId input"
proof -
  obtain r s1 where prep: "prepareMarkTaskDone env input s = (Returned r, s1)" using prepare_returns by blast
  have s1: "same_tables s s1" using still_prepare[of input] prep by (auto simp: keeps_def) (metis snd_conv)
  show thesis
  proof (cases r)
    case (Inl e)
    then have "markTaskDone env input s = (Returned (err e), s1)" using prep by (simp add: markTaskDone_def step_simps)
    from refused[OF this s1] show thesis .
  next
    case (Inr u)
    let ?tx = "withTenant (dv_database env) (dv_undo env) (cx_orgId input) (markTaskDoneInTransaction (dv_tx env) input)"
    obtain x s2 where tx: "?tx s1 = (x, s2)" by fastforce
    then show thesis
    proof (cases rule: tenant_cases)
      case (thrown e)
      then have "\<exists>d. markTaskDone env input s = (Returned (err d), s2)"
        using prep Inr tx by (cases e) (simp_all add: markTaskDone_def catchRollback_def step_simps)
      with thrown(2) s1 still.frame_trans refused show thesis by blast
    next
      case (returned out)
      obtain s3 where s3: "appendMarkTaskDoneRejectionAttempt env input out s2 = (Returned (), s3)" "same_tables s2 s3"
        using rejection_returns by blast
      have run: "markTaskDone env input s = (Returned (do_result out), s3)"
        using prep Inr tx returned(1) s3 by (simp add: markTaskDone_def catchRollback_def step_simps)
      from returned(2) show thesis
      proof (cases rule: transaction_cases)
        case (refused e)
        then show thesis using run s1 s3(2) still.frame_trans that(1) by metis
      next
        case (finished t c q)
        then show thesis using run s1 s3(2) prepare_ok[OF prep[unfolded Inr]]
          by (intro that(2)[of t s3 c s1 q]) (simp_all add: same_views_def)
      qed
    qed
  qed
qed

text \<open>A confirmation that can no longer be used: issued, and spent or deleted.\<close>

definition spent :: "js_value \<Rightarrow> 's \<Rightarrow> bool" where
  "spent n s \<longleftrightarrow> n \<in> issued s \<and> (\<forall>c. confirmations s n = Some c \<longrightarrow> cf_consumed c)"

lemma spent_same: "same_tables s s' \<Longrightarrow> spent n s \<Longrightarrow> spent n s'"
  by (simp add: spent_def same_views_def)

lemma spent_mark: "spent n s \<Longrightarrow> spent n (snd (markTaskDone env i s))"
  by (rule markTaskDone_cases[of i s]) (auto simp: spent_def same_views_def)

lemma mark_spends: "markTaskDone env i s = (Returned (ok t), s') \<Longrightarrow> spent (confirmNonce i) s'"
  using recorded[of s] by (rule_tac markTaskDone_cases[of i s]) (auto simp: spent_def)

lemma spent_refused: "spent (confirmNonce i) s \<Longrightarrow> markTaskDone env i s \<noteq> (Returned (ok t), s')"
  by (rule markTaskDone_cases[of i s]) (auto simp: spent_def)

lemma catching_state: "snd (catching e m s) = snd (m s)"
  by (auto simp: catching_def split: prod.splits js_result.splits)

text \<open>A transaction changes the tables as its body does, or not at all.\<close>

lemma tenant_change:
  "same_tables s (snd (withTenant (dv_database env) (dv_undo env) org fn s)) \<or>
   (\<exists>x s'. fn s = (Returned x, s') \<and> snd (withTenant (dv_database env) (dv_undo env) org fn s) = s')"
proof -
  obtain r s' where run: "withTenant (dv_database env) (dv_undo env) org fn s = (r, s')" by fastforce
  then show ?thesis by (cases rule: tenant_cases) (auto simp: run)
qed

lemma move_change:
  "same_tables s (snd (moveTask env i s)) \<or>
   (\<exists>st. st \<noteq> TaskDone \<and> tasks (snd (moveTask env i s)) = (tasks s)(mv_taskId i \<mapsto> st) \<and>
      confirmations (snd (moveTask env i s)) = confirmations s \<and> issued (snd (moveTask env i s)) = issued s)"
proof (cases "\<exists>st. parseTaskStatus (mv_status i) = ok st \<and> \<not> isTerminalTaskStatus st")
  case False
  have "keeps same_tables (moveTask env i)"
  proof (cases "parseTaskStatus (mv_status i)")
    case (Inl e)
    then show ?thesis by (simp add: moveTask_def cong: sum.case_cong) (intro still.keeps_rules)
  next
    case (Inr st)
    with False have "isTerminalTaskStatus st" by simp
    with Inr show ?thesis by (simp add: moveTask_def cong: sum.case_cong) (intro still.keeps_rules still_append)
  qed
  then show ?thesis by (simp add: keeps_def)
next
  case True
  then obtain st where st: "parseTaskStatus (mv_status i) = ok st" "st \<noteq> TaskDone" by (auto simp: isTerminalTaskStatus_def)
  let ?fn = "andThen (dx_move (dv_tx env) i st) (\<lambda>row. ret (case row of None \<Rightarrow> err taskNotFound | Some t \<Rightarrow> ok t))"
  let ?run = "withTenant (dv_database env) (dv_undo env) (cx_orgId i) ?fn"
  have "snd (moveTask env i s) = s \<or> snd (moveTask env i s) = snd (?run s)"
    using st by (auto simp: moveTask_def isTerminalTaskStatus_def catching_state ret_def split: sum.split)
  moreover have "same_tables s s' \<or> (tasks s' = (tasks s)(mv_taskId i \<mapsto> st) \<and> confirmations s' = confirmations s \<and> issued s' = issued s)"
    if fn: "?fn s = (Returned x, s')" for x s'
  proof -
    obtain r where "dx_move (dv_tx env) i st s = (Returned r, s')"
      using fn by (auto simp: step_simps split: prod.splits js_result.splits)
    from move_sets[OF this] show ?thesis by (auto simp: same_views_def split: option.splits)
  qed
  ultimately show ?thesis using tenant_change[of s "cx_orgId i" ?fn] st(2) still.frame_refl[of s] by metis
qed

lemma issue_change:
  "tasks (snd (issueDoneConfirmation env cx tid s)) = tasks s \<and> (spent n s \<longrightarrow> spent n (snd (issueDoneConfirmation env cx tid s)))"
proof -
  let ?fn = "andThen (dx_issue (dv_tx env) (runtime_context.truncate cx) tid) (\<lambda>nonce. ret (case nonce of JString n \<Rightarrow> ok n | _ \<Rightarrow> err taskNotFound))"
  let ?run = "withTenant (dv_database env) (dv_undo env) (cx_orgId cx) ?fn"
  let ?Q = "\<lambda>s'. tasks s' = tasks s \<and> (spent n s \<longrightarrow> spent n s')"
  have same: "?Q s'" if "same_tables s s'" for s' using that spent_same by (auto simp: same_views_def)
  have "snd (issueDoneConfirmation env cx tid s) = s \<or> snd (issueDoneConfirmation env cx tid s) = snd (?run s)"
    by (auto simp: issueDoneConfirmation_def catching_state ret_def split: sum.split)
  moreover have "?Q s'" if fn: "?fn s = (Returned x, s')" for x s'
  proof -
    obtain v where "dx_issue (dv_tx env) (runtime_context.truncate cx) tid s = (Returned v, s')"
      using fn by (auto simp: step_simps split: prod.splits js_result.splits)
    from issue_adds[OF this] show ?thesis using same by (auto simp: spent_def split: if_splits)
  qed
  ultimately show ?thesis using tenant_change[of s "cx_orgId cx" ?fn] same still.frame_refl[of s] by metis
qed

lemma cleanup_change:
  "tasks (snd (cleanupDoneConfirmations env org s)) = tasks s \<and> (spent n s \<longrightarrow> spent n (snd (cleanupDoneConfirmations env org s)))"
proof -
  let ?fn = "andThen (dx_cleanup (dv_tx env)) (\<lambda>n. ret (ok n))"
  let ?run = "withTenant (dv_database env) (dv_undo env) org ?fn"
  let ?Q = "\<lambda>s'. tasks s' = tasks s \<and> (spent n s \<longrightarrow> spent n s')"
  have same: "?Q s'" if "same_tables s s'" for s' using that spent_same by (auto simp: same_views_def)
  have "snd (cleanupDoneConfirmations env org s) = s \<or> snd (cleanupDoneConfirmations env org s) = snd (?run s)"
    by (auto simp: cleanupDoneConfirmations_def catching_state ret_def split: sum.split)
  moreover have "?Q s'" if fn: "?fn s = (Returned x, s')" for x s'
  proof -
    obtain k where "dx_cleanup (dv_tx env) s = (Returned k, s')"
      using fn by (auto simp: step_simps split: prod.splits js_result.splits)
    from cleanup_deletes[OF this] show ?thesis by (auto simp: spent_def map_le_def dom_def) 
  qed
  ultimately show ?thesis using tenant_change[of s org ?fn] same still.frame_refl[of s] by metis
qed

end

section \<open>Sequences of commands\<close>

inductive task_step :: "'s done_env \<Rightarrow> 's \<Rightarrow> 's \<Rightarrow> bool" for env :: "'s done_env" where
  mark: "task_step env s (snd (markTaskDone env i s))"
| move: "task_step env s (snd (moveTask env m s))"
| issue: "task_step env s (snd (issueDoneConfirmation env (cx :: runtime_context) tid s))"
| cleanup: "task_step env s (snd (cleanupDoneConfirmations env org s))"

context done_statements
begin

lemma step_spent: "task_step env s s' \<Longrightarrow> spent n s \<Longrightarrow> spent n s'"
proof (induction rule: task_step.cases)
  case (move s m)
  then show ?case using move_change[of s m] by (auto simp: spent_def same_views_def)
qed (simp_all add: spent_mark issue_change cleanup_change)

lemma steps_spent: "(task_step env)\<^sup>*\<^sup>* s s' \<Longrightarrow> spent n s \<Longrightarrow> spent n s'"
  by (induction rule: rtranclp_induct) (auto intro: step_spent)

lemma completion_spends:
  assumes "task_step env s s'" "tasks s tid \<noteq> Some TaskDone" "tasks s' tid = Some TaskDone"
  shows "\<exists>n c. confirmations s n = Some c \<and> \<not> cf_consumed c \<and> cf_taskId c = tid \<and> spent n s'"
  using assms(1)
proof cases
  case (mark i)
  show ?thesis
  proof (rule markTaskDone_cases[of i s])
    fix e t assume "markTaskDone env i s = (Returned (err e), t)" "same_tables s t"
    then show ?thesis using mark assms(2,3) by (simp add: same_views_def)
  next
    fix t c s1 assume run: "markTaskDone env i s = (Returned (ok t), s1)" and c: "confirmations s (confirmNonce i) = Some c"
      "\<not> cf_consumed c" "bound_to i c" "tasks s1 = (tasks s)(md_taskId i \<mapsto> TaskDone)"
    then have "md_taskId i = tid" using mark assms(2,3) by (auto split: if_splits)
    with run c mark mark_spends[OF run] show ?thesis by (auto simp: bound_to_def)
  qed
next
  case (move m)
  then show ?thesis using move_change[of s m] assms(2,3) by (auto simp: same_views_def split: if_splits)
qed (use assms in \<open>simp_all add: issue_change cleanup_change\<close>)

end

end
