(* ===== verification/Done_Properties.thy ===== *)
theory Done_Properties
  imports Done_Command Tool_Properties
begin

text \<open>
  The tables of the Done command with its SQL statements, as an instance of what the commands rely on, and
  the properties of the governed end of a task.
\<close>

section \<open>Tables and statements\<close>

text \<open>
  Tasks are rows with a unique id, so an update by id is an update of the first such row. \<open>tb_issued\<close> are the
  ids that were ever given to a confirmation; a confirmation is looked up among them.
\<close>

record done_db =
  tb_confirmations :: "(string, confirmation) js_map"
  tb_issued :: "string list"
  tb_reviews :: "(string, quality_review) js_map"
  tb_tasks :: "task_dto list"
  tb_now :: js_date
  tb_attempts :: "terminal_attempt list"

definition lookup :: "done_db \<Rightarrow> js_value \<Rightarrow> confirmation option" where
  "lookup db v = (case v of
     JString n \<Rightarrow> if n \<in> set (tb_issued db) then map_get (tb_confirmations db) n else None
   | _ \<Rightarrow> None)"

definition select_review :: "string \<Rightarrow> (done_db, quality_review option) step" where
  "select_review taskId db = (Returned (map_get (tb_reviews db) taskId), db)"

definition consume_confirmation :: "mark_done_input \<Rightarrow> string \<Rightarrow> (done_db, bool) step" where
  "consume_confirmation i reviewId db =
     (case (confirmNonce i, lookup db (confirmNonce i)) of
        (JString n, Some c) \<Rightarrow>
          if bound_to i c \<and> \<not> cf_consumed c \<and> cf_expiresAt c > tb_now db
          then (Returned True, db\<lparr>tb_confirmations := map_set n (c\<lparr>cf_consumed := True\<rparr>) (tb_confirmations db)\<rparr>)
          else (Returned False, db)
      | _ \<Rightarrow> (Returned False, db))"

definition select_confirmation :: "mark_done_input \<Rightarrow> (done_db, js_object option) step" where
  "select_confirmation i db =
     (Returned (case lookup db (confirmNonce i) of
        Some c \<Rightarrow>
          if cf_organizationId c = cx_orgId i
          then Some [(''task_id'', JString (cf_taskId c)), (''workspace_id'', JString (cf_workspaceId c)),
            (''issued_for_user_id'', JString (cf_userId c)), (''is_consumed'', JBool (cf_consumed c)),
            (''is_expired'', JBool (cf_expiresAt c \<le> tb_now db))]
          else None
      | None \<Rightarrow> None), db)"

fun update_row :: "string \<Rightarrow> string \<Rightarrow> (task_dto \<Rightarrow> task_dto) \<Rightarrow> task_dto list \<Rightarrow> task_dto option \<times> task_dto list" where
  "update_row tid ws f [] = (None, [])"
| "update_row tid ws f (r # rs) =
     (if td_id r = tid
      then if td_workspaceId r = ws then (Some (f r), f r # rs) else (None, r # rs)
      else let (out, rs') = update_row tid ws f rs in (out, r # rs'))"

definition update_tasks :: "string \<Rightarrow> string \<Rightarrow> task_status \<Rightarrow> js_number \<Rightarrow> (done_db, task_dto option) step" where
  "update_tasks tid ws status position db =
     (let (out, rows) = update_row tid ws (\<lambda>r. r\<lparr>td_status := status, td_position := position\<rparr>) (tb_tasks db)
      in (Returned out, db\<lparr>tb_tasks := rows\<rparr>))"

definition insert_confirmation :: "(nat \<Rightarrow> string) \<Rightarrow> runtime_context \<Rightarrow> string \<Rightarrow> (done_db, js_value) step" where
  "insert_confirmation gen cx taskId db =
     (case find (\<lambda>t. td_id t = taskId \<and> td_workspaceId t = cx_workspaceId cx) (tb_tasks db) of
        None \<Rightarrow> (Returned JUndefined, db)
      | Some t \<Rightarrow>
          let n = gen (length (tb_issued db)) in
          if n \<in> set (tb_issued db) then (Thrown (SqlState ''23505''), db)
          else (Returned (JString n), db\<lparr>tb_issued := n # tb_issued db, tb_confirmations := map_set n
            \<lparr>cf_taskId = td_id t, cf_organizationId = td_organizationId t, cf_workspaceId = td_workspaceId t,
             cf_userId = ra_userId (cx_actor cx), cf_expiresAt = tb_now db + 300000, cf_consumed = False\<rparr>
            (tb_confirmations db)\<rparr>))"

definition dead :: "done_db \<Rightarrow> string \<Rightarrow> bool" where
  "dead db n = (case map_get (tb_confirmations db) n of
     Some c \<Rightarrow> cf_consumed c \<or> cf_expiresAt c < tb_now db | None \<Rightarrow> False)"

definition delete_confirmations :: "(done_db, nat) step" where
  "delete_confirmations db =
     (Returned (length (filter (\<lambda>r. dead db (fst r)) (tb_confirmations db))),
      db\<lparr>tb_confirmations := filter (\<lambda>r. \<not> dead db (fst r)) (tb_confirmations db)\<rparr>)"

definition table_tx :: "(nat \<Rightarrow> string) \<Rightarrow> done_db done_tx" where
  "table_tx gen = \<lparr>dx_selectReview = select_review, dx_consume = consume_confirmation, dx_confirmation = select_confirmation,
     dx_setDone = (\<lambda>i. update_tasks (md_taskId i) (cx_workspaceId i) TaskDone (md_position i)),
     dx_move = (\<lambda>m status. update_tasks (mv_taskId m) (cx_workspaceId m) status (mv_position m)),
     dx_issue = insert_confirmation gen, dx_cleanup = delete_confirmations\<rparr>"

text \<open>The audit of attempts is a table of its own, outside the transaction.\<close>

definition table_env :: "(nat \<Rightarrow> string) \<Rightarrow> done_db done_env" where
  "table_env gen = \<lparr>dv_database = tool_database, dv_undo = (\<lambda>before after. before), dv_authorizationPort = None,
     dv_auditPort = (\<lambda>a db. (Returned (ok ()), db\<lparr>tb_attempts := tb_attempts db @ [a]\<rparr>)), dv_warn = (\<lambda>a. ret ()),
     dv_tx = table_tx gen\<rparr>"

definition task_status_of :: "done_db \<Rightarrow> string \<Rightarrow> task_status option" where
  "task_status_of db tid = map_option td_status (find (\<lambda>t. td_id t = tid) (tb_tasks db))"

lemma update_row_find:
  assumes "update_row tid ws f rs = (out, rs')" "\<And>r. td_id (f r) = td_id r"
  shows "find (\<lambda>t. td_id t = x) rs' = (case out of Some r \<Rightarrow> if x = tid then Some r else find (\<lambda>t. td_id t = x) rs
    | None \<Rightarrow> find (\<lambda>t. td_id t = x) rs) \<and> (\<forall>r. out = Some r \<longrightarrow> td_id r = tid \<and> (\<exists>q. r = f q))"
  using assms by (induction tid ws f rs arbitrary: out rs' rule: update_row.induct) (auto split: if_splits option.splits prod.splits)

lemma update_tasks_effect:
  assumes "update_tasks tid ws st pos db = (Returned out, db')"
  shows "task_status_of db' = (case out of Some r \<Rightarrow> (task_status_of db)(tid \<mapsto> st) | None \<Rightarrow> task_status_of db) \<and>
    tb_confirmations db' = tb_confirmations db \<and> tb_issued db' = tb_issued db \<and>
    (\<forall>r. out = Some r \<longrightarrow> td_id r = tid \<and> td_status r = st)"
proof -
  let ?f = "\<lambda>r. r\<lparr>td_status := st, td_position := pos\<rparr>"
  obtain rows where u: "update_row tid ws ?f (tb_tasks db) = (out, rows)" and db': "db' = db\<lparr>tb_tasks := rows\<rparr>"
    using assms by (auto simp: update_tasks_def split: prod.splits)
  note found = update_row_find[OF u]
  have "td_id r = tid \<and> td_status r = st" if o: "out = Some r" for r using found[of tid] o by auto
  moreover have "task_status_of db' x = (case out of Some r \<Rightarrow> ((task_status_of db)(tid \<mapsto> st)) x | None \<Rightarrow> task_status_of db x)" for x
    using found[of x] by (cases out) (auto simp: task_status_of_def db')
  ultimately show ?thesis by (cases out) (simp_all add: fun_eq_iff db')
qed

lemma lookup_cong: "tb_confirmations a = tb_confirmations b \<Longrightarrow> tb_issued a = tb_issued b \<Longrightarrow> lookup a = lookup b"
  by (rule ext) (simp add: lookup_def split: js_value.split)

lemma map_get_filter_keys: "map_get (filter (\<lambda>r. P (fst r)) m) k = (if P k then map_get m k else None)"
  by (induction m) auto

interpretation done_tables: done_statements "table_env gen" tb_now lookup "\<lambda>db. JString ` set (tb_issued db)" task_status_of
proof
  show "db_rollsBack (dv_database (table_env gen))" by (simp add: table_env_def tool_database_def)
  fix s :: done_db
  show "dom (lookup s) \<subseteq> JString ` set (tb_issued s)"
    by (auto simp: lookup_def split: js_value.splits if_splits)
next
  fix i q and s s' :: done_db
  assume "dx_consume (dv_tx (table_env gen)) i q s = (Returned True, s')"
  then obtain n c where c: "confirmNonce i = JString n" "lookup s (JString n) = Some c" "bound_to i c" "\<not> cf_consumed c" "tb_now s < cf_expiresAt c"
      "s' = s\<lparr>tb_confirmations := map_set n (c\<lparr>cf_consumed := True\<rparr>) (tb_confirmations s)\<rparr>"
    by (auto simp: table_env_def table_tx_def consume_confirmation_def split: js_value.splits option.splits if_splits)
  then have "lookup s' = (lookup s)(JString n \<mapsto> c\<lparr>cf_consumed := True\<rparr>)"
    by (auto simp: lookup_def fun_eq_iff split: js_value.splits if_splits)
  with c show "\<exists>c. lookup s (confirmNonce i) = Some c \<and> \<not> cf_consumed c \<and> tb_now s < cf_expiresAt c \<and> bound_to i c \<and>
      task_status_of s' = task_status_of s \<and> JString ` set (tb_issued s') = JString ` set (tb_issued s) \<and>
      lookup s' = (lookup s)(confirmNonce i \<mapsto> c\<lparr>cf_consumed := True\<rparr>)"
    by (auto simp: task_status_of_def)
next
  fix i q and s s' :: done_db
  assume "dx_consume (dv_tx (table_env gen)) i q s = (Returned False, s')"
  then show "same_views lookup (\<lambda>db. JString ` set (tb_issued db)) task_status_of s s'"
    by (auto simp: table_env_def table_tx_def consume_confirmation_def same_views_def split: js_value.splits option.splits if_splits)
next
  fix i t and s s' :: done_db
  assume "dx_setDone (dv_tx (table_env gen)) i s = (Returned (Some t), s')"
  then have u: "update_tasks (md_taskId i) (cx_workspaceId i) TaskDone (md_position i) s = (Returned (Some t), s')"
    by (simp add: table_env_def table_tx_def)
  show "td_id t = md_taskId i \<and> td_status t = TaskDone \<and> task_status_of s' = (task_status_of s)(md_taskId i \<mapsto> TaskDone) \<and>
      lookup s' = lookup s \<and> JString ` set (tb_issued s') = JString ` set (tb_issued s)"
    using update_tasks_effect[OF u] lookup_cong[of s' s] by simp
next
  fix m st r and s s' :: done_db
  assume "dx_move (dv_tx (table_env gen)) m st s = (Returned r, s')"
  then have u: "update_tasks (mv_taskId m) (cx_workspaceId m) st (mv_position m) s = (Returned r, s')"
    by (simp add: table_env_def table_tx_def)
  show "lookup s' = lookup s \<and> JString ` set (tb_issued s') = JString ` set (tb_issued s) \<and>
      task_status_of s' = (case r of Some t \<Rightarrow> (task_status_of s)(mv_taskId m \<mapsto> st) | None \<Rightarrow> task_status_of s)"
    using update_tasks_effect[OF u] lookup_cong[of s' s] by simp
next
  fix cx tid v and s s' :: done_db
  assume "dx_issue (dv_tx (table_env gen)) cx tid s = (Returned v, s')"
  then have ins: "insert_confirmation gen cx tid s = (Returned v, s')" by (simp add: table_env_def table_tx_def)
  show "same_views lookup (\<lambda>db. JString ` set (tb_issued db)) task_status_of s s' \<or>
      task_status_of s' = task_status_of s \<and> v \<notin> JString ` set (tb_issued s) \<and>
      JString ` set (tb_issued s') = insert v (JString ` set (tb_issued s)) \<and>
      (\<exists>c. lookup s' = (lookup s)(v \<mapsto> c) \<and> cf_taskId c = tid \<and> cf_workspaceId c = cx_workspaceId cx \<and>
        cf_userId c = ra_userId (cx_actor cx) \<and> cf_expiresAt c = tb_now s + 300000 \<and> \<not> cf_consumed c)"
  proof (cases "find (\<lambda>t. td_id t = tid \<and> td_workspaceId t = cx_workspaceId cx) (tb_tasks s)")
    case None
    with ins show ?thesis by (simp add: insert_confirmation_def same_views_def)
  next
    case (Some t)
    define c where "c = \<lparr>cf_taskId = td_id t, cf_organizationId = td_organizationId t, cf_workspaceId = td_workspaceId t,
      cf_userId = ra_userId (cx_actor cx), cf_expiresAt = tb_now s + 300000, cf_consumed = False\<rparr>"
    define n where "n = gen (length (tb_issued s))"
    have t: "td_id t = tid" "td_workspaceId t = cx_workspaceId cx" using Some by (auto simp: find_Some_iff)
    have s': "v = JString n" "n \<notin> set (tb_issued s)"
        "s' = s\<lparr>tb_issued := n # tb_issued s, tb_confirmations := map_set n c (tb_confirmations s)\<rparr>"
      using ins Some by (auto simp: insert_confirmation_def Let_def c_def n_def split: if_splits)
    then have "lookup s' = (lookup s)(v \<mapsto> c)" by (auto simp: lookup_def fun_eq_iff split: js_value.splits)
    with s' t show ?thesis by (auto simp: task_status_of_def c_def)
  qed
next
  fix n and s s' :: done_db
  assume "dx_cleanup (dv_tx (table_env gen)) s = (Returned n, s')"
  then have s': "s' = s\<lparr>tb_confirmations := filter (\<lambda>r. \<not> dead s (fst r)) (tb_confirmations s)\<rparr>"
    by (simp add: table_env_def table_tx_def delete_confirmations_def)
  show "task_status_of s' = task_status_of s \<and> JString ` set (tb_issued s') = JString ` set (tb_issued s) \<and> lookup s' \<subseteq>\<^sub>m lookup s"
    using map_get_filter_keys[of "\<lambda>k. \<not> dead s k" "tb_confirmations s"]
    by (auto simp: s' task_status_of_def lookup_def map_le_def split: js_value.splits if_splits)
qed (auto simp: same_views_def table_env_def table_tx_def select_review_def select_confirmation_def task_status_of_def ret_def intro: lookup_cong)

section \<open>A task to complete\<close>

definition done_request :: mark_done_input where
  "done_request = \<lparr>cx_orgId = tool_org, cx_workspaceId = tool_org, cx_actor = \<lparr>ra_userId = tool_org, ra_roleKeys = [''owner'']\<rparr>,
     md_taskId = ''task'', md_position = JInt 0, md_humanCommand = JObject [(''confirmedByUserId'', JString tool_org),
       (''confirmSource'', JString ''admin-web''), (''confirmNonce'', JString tool_org)], md_surface = None\<rparr>"

definition open_confirmation :: confirmation where
  "open_confirmation = \<lparr>cf_taskId = ''task'', cf_organizationId = tool_org, cf_workspaceId = tool_org, cf_userId = tool_org,
     cf_expiresAt = 1, cf_consumed = False\<rparr>"

definition reviewed_db :: done_db where
  "reviewed_db = \<lparr>tb_confirmations = [(tool_org, open_confirmation)], tb_issued = [tool_org],
     tb_reviews = [(''task'', \<lparr>qr_id = ''r'', qr_workspaceId = tool_org, qr_status = ReviewApproved\<rparr>)],
     tb_tasks = [\<lparr>td_id = ''task'', td_organizationId = tool_org, td_workspaceId = tool_org, td_cardNumber = JInt 1, td_title = ''t'',
       td_description = [], td_status = TaskBlocked, td_priority = NormalPriority, td_assigneeUserId = None, td_assigneeName = None,
       td_labels = [], td_position = JInt 1, td_dueAt = None, td_provenanceSource = ''m'', td_provenanceExternalRef = None,
       td_createdAt = ''c'', td_updatedAt = ''u''\<rparr>], tb_now = 0, tb_attempts = []\<rparr>"

definition completes :: "('s, task_dto result) step \<Rightarrow> 's \<Rightarrow> bool" where
  "completes m s = (case m s of (Returned (Inr _), _) \<Rightarrow> True | _ \<Rightarrow> False)"

lemma done_request_completes: "completes (markTaskDone (table_env demo_uuid) done_request) reviewed_db"
  by code_simp

section \<open>Properties\<close>



text \<open>
  C14. A confirmation completes at most one task: after a completion, no later command with the same nonce
  completes a task again, for whatever task, actor or workspace, and whatever commands (completions, moves,
  new confirmations, cleanups) ran in between.
\<close>

theorem confirmation_completes_at_most_once:
  assumes statements: "done_statements env now confirmations issued tasks"
    and first: "markTaskDone env input s = (Returned (ok t), s1)"
    and later: "(task_step env)\<^sup>*\<^sup>* s1 s2"
    and nonce: "confirmNonce input' = confirmNonce input"
  shows "markTaskDone env input' s2 \<noteq> (Returned (ok t'), s3)"
proof -
  have "done_statements.spent confirmations issued (confirmNonce input') s2"
    unfolding nonce
    by (rule done_statements.steps_spent[OF statements later done_statements.mark_spends[OF statements first]])
  then show ?thesis by (rule done_statements.spent_refused[OF statements])
qed

theorem confirmation_completes_at_most_once_witness:
  "let s1 = snd (markTaskDone (table_env demo_uuid) done_request reviewed_db);
       s2 = snd (cleanupDoneConfirmations (table_env demo_uuid) tool_org s1)
   in \<not> completes (markTaskDone (table_env demo_uuid) done_request) s2"
proof -
  obtain t s1 where run: "markTaskDone (table_env demo_uuid) done_request reviewed_db = (Returned (ok t), s1)"
    using done_request_completes by (auto simp: completes_def split: prod.splits js_result.splits sum.splits)
  let ?s2 = "snd (cleanupDoneConfirmations (table_env demo_uuid) tool_org s1)"
  have "(task_step (table_env demo_uuid))\<^sup>*\<^sup>* s1 ?s2" by (rule r_into_rtranclp) (rule task_step.cleanup)
  from confirmation_completes_at_most_once[OF done_tables.done_statements_axioms run this refl]
  show ?thesis by (auto simp: run completes_def split: prod.splits js_result.splits sum.splits)
qed

text \<open>
  C15. Every completion spends a confirmation: when a command (a completion, a move, the issue of a
  confirmation, a cleanup) turns a task that was not Done into a Done one, then an unused confirmation bound to
  that task stood before it, and can never be used after it.
\<close>

theorem every_completion_spends_a_confirmation:
  assumes statements: "done_statements env now confirmations issued tasks"
    and step: "task_step env s s'" and task: "tasks s tid \<noteq> Some TaskDone" "tasks s' tid = Some TaskDone"
  shows "\<exists>n c. confirmations s n = Some c \<and> \<not> cf_consumed c \<and> cf_taskId c = tid \<and>
    n \<in> issued s' \<and> (\<forall>d. confirmations s' n = Some d \<longrightarrow> cf_consumed d)"
  using done_statements.completion_spends[OF statements step task] by (auto simp: done_statements.spent_def[OF statements])

theorem every_completion_spends_a_confirmation_witness:
  "\<exists>n c. lookup reviewed_db n = Some c \<and> \<not> cf_consumed c \<and> cf_taskId c = ''task''"
proof -
  let ?s' = "snd (markTaskDone (table_env demo_uuid) done_request reviewed_db)"
  have "task_status_of reviewed_db ''task'' \<noteq> Some TaskDone" by code_simp
  moreover have "task_status_of ?s' ''task'' = Some TaskDone" by code_simp
  ultimately show ?thesis
    using every_completion_spends_a_confirmation[OF done_tables.done_statements_axioms task_step.mark] by blast
qed

end
