(* ===== verification/Turn_Service.thy ===== *)
theory Turn_Service
  imports Outcome_Service
begin

text \<open>
  The services for conversations and turns
  (\<^verbatim>\<open>packages/runtime-control/src/application/assistant-conversation-lifecycle.ts\<close>): the decoding of database
  rows, and the six services that open a conversation, append a message, and start, stream, finalise or
  fail an assistant's turn. The SQL statements are the fields of \<open>turn_tx\<close>, a parameter that answers with
  undecoded rows; the locale \<open>turn_statements\<close> says what the services rely on of them.
\<close>

section \<open>Rows\<close>

text \<open>A column holds a JavaScript value or a \<^verbatim>\<open>Date\<close> of the driver; a missing column reads as \<^verbatim>\<open>undefined\<close>.\<close>

datatype sql_value = SqlJs js_value | SqlDate js_date

type_synonym query_row = "(string \<times> sql_value) list"

datatype execute_result = RowArray "query_row list" | RowsObject "query_row list" | OtherResult

text \<open>
  The reading and the rendering of dates are the host's: \<^verbatim>\<open>new Date(text)\<close>, \<open>None\<close> for an invalid date,
  and \<^verbatim>\<open>String(date)\<close>.
\<close>

record date_host =
  dh_parse :: "string \<Rightarrow> js_date option"
  dh_string :: "js_date \<Rightarrow> string"

definition queryRows :: "execute_result \<Rightarrow> query_row list" where
  "queryRows r = (case r of RowArray rows \<Rightarrow> rows | RowsObject rows \<Rightarrow> rows | OtherResult \<Rightarrow> [])"

definition first_row :: "execute_result \<Rightarrow> query_row option" where
  "first_row r = (case queryRows r of [] \<Rightarrow> None | row # _ \<Rightarrow> Some row)"

definition column :: "query_row \<Rightarrow> string \<Rightarrow> sql_value" where
  "column row name = (case map_get row name of Some v \<Rightarrow> v | None \<Rightarrow> SqlJs JUndefined)"

text \<open>To the tests of the decoders a date is an object without members of its own.\<close>

definition as_js :: "sql_value \<Rightarrow> js_value" where
  "as_js v = (case v of SqlJs x \<Rightarrow> x | SqlDate _ \<Rightarrow> JObject [])"

definition is_nullish :: "sql_value \<Rightarrow> bool" where
  "is_nullish v \<longleftrightarrow> v = SqlJs JNull \<or> v = SqlJs JUndefined"

definition decoding :: "'a js_result \<Rightarrow> ('a \<Rightarrow> 'b js_result) \<Rightarrow> 'b js_result" where
  "decoding q k = (case q of Returned x \<Rightarrow> k x | Thrown e \<Rightarrow> Thrown e)"

definition or_throw :: "'a result \<Rightarrow> 'a js_result" where
  "or_throw r = (case r of Inl e \<Rightarrow> Thrown (DomainThrow e) | Inr x \<Rightarrow> Returned x)"

definition parseDate :: "date_host \<Rightarrow> sql_value \<Rightarrow> js_date js_result" where
  "parseDate host v =
     (let invalid = Thrown (DomainThrow (failure ''runtimeControl.invalidTimestamp''
            ''Runtime-Control record contains an invalid timestamp.''))
      in case v of
           SqlDate d \<Rightarrow> Returned d
         | SqlJs (JString s) \<Rightarrow> (case dh_parse host s of Some d \<Rightarrow> Returned d | None \<Rightarrow> invalid)
         | _ \<Rightarrow> invalid)"

definition optionalDate :: "date_host \<Rightarrow> sql_value \<Rightarrow> js_date option js_result" where
  "optionalDate host v = (if is_nullish v then Returned None else decoding (parseDate host v) (\<lambda>d. Returned (Some d)))"

definition sql_String :: "date_host \<Rightarrow> sql_value \<Rightarrow> string js_result" where
  "sql_String host v =
     (case v of
        SqlDate d \<Rightarrow> Returned (dh_string host d)
      | SqlJs x \<Rightarrow> (case js_String x of Some s \<Rightarrow> Returned s | None \<Rightarrow> Thrown convert_error))"

definition sql_id :: "date_host \<Rightarrow> id_kind \<Rightarrow> sql_value \<Rightarrow> string js_result" where
  "sql_id host kind v = decoding (sql_String host v) (\<lambda>s. or_throw (makeId kind s))"

definition optionalId :: "date_host \<Rightarrow> id_kind \<Rightarrow> sql_value \<Rightarrow> string option js_result" where
  "optionalId host kind v = (if is_nullish v then Returned None else decoding (sql_id host kind v) (\<lambda>i. Returned (Some i)))"

definition stringOrNull :: "sql_value \<Rightarrow> string option" where
  "stringOrNull v = (case as_js v of JString s \<Rightarrow> if trim s \<noteq> [] then Some s else None | _ \<Rightarrow> None)"

definition jsonRecord :: "sql_value \<Rightarrow> js_object" where
  "jsonRecord v = (case as_js v of JObject kvs \<Rightarrow> kvs | _ \<Rightarrow> [])"

definition rowToConversation :: "date_host \<Rightarrow> query_row \<Rightarrow> conversation js_result" where
  "rowToConversation host row =
     decoding (or_throw (parseAssistantConversationStatus (as_js (column row ''status'')))) (\<lambda>status.
     decoding (sql_String host (column row ''id'')) (\<lambda>rid.
     decoding (sql_id host OrgId (column row ''organization_id'')) (\<lambda>org.
     decoding (sql_id host WorkspaceId (column row ''workspace_id'')) (\<lambda>ws.
     decoding (sql_String host (column row ''surface'')) (\<lambda>surface.
     decoding (sql_String host (column row ''assistant_key'')) (\<lambda>assistantKey.
     decoding (sql_id host UserId (column row ''created_by_user_id'')) (\<lambda>user.
     decoding (parseDate host (column row ''created_at'')) (\<lambda>createdAt.
     decoding (parseDate host (column row ''updated_at'')) (\<lambda>updatedAt.
     Returned \<lparr>cv_id = rid, cv_organizationId = org, cv_workspaceId = ws, cv_surface = surface,
       cv_assistantKey = assistantKey, cv_status = status, cv_createdByUserId = user, cv_createdAt = createdAt,
       cv_updatedAt = updatedAt\<rparr>)))))))))"

definition rowToTurn :: "date_host \<Rightarrow> query_row \<Rightarrow> assistant_turn js_result" where
  "rowToTurn host row =
     decoding (or_throw (parseAssistantTurnRole (as_js (column row ''role'')))) (\<lambda>role.
     decoding (or_throw (parseAssistantTurnStatus (as_js (column row ''status'')))) (\<lambda>status.
     decoding (sql_String host (column row ''id'')) (\<lambda>rid.
     decoding (sql_String host (column row ''conversation_id'')) (\<lambda>conversationId.
     decoding (sql_id host OrgId (column row ''organization_id'')) (\<lambda>org.
     decoding (sql_id host WorkspaceId (column row ''workspace_id'')) (\<lambda>ws.
     decoding (optionalId host UserId (column row ''actor_user_id'')) (\<lambda>actor.
     decoding (sql_String host (column row ''idempotency_key'')) (\<lambda>idempotencyKey.
     decoding (parseDate host (column row ''created_at'')) (\<lambda>createdAt.
     decoding (parseDate host (column row ''updated_at'')) (\<lambda>updatedAt.
     decoding (optionalDate host (column row ''finalized_at'')) (\<lambda>finalizedAt.
     Returned \<lparr>tn_id = rid, tn_conversationId = conversationId, tn_organizationId = org, tn_workspaceId = ws,
       tn_role = role, tn_status = status, tn_actorUserId = actor,
       tn_assistantKey = stringOrNull (column row ''assistant_key''), tn_content = jsonRecord (column row ''content''),
       tn_idempotencyKey = idempotencyKey, tn_openclawSessionRef = stringOrNull (column row ''openclaw_session_ref''),
       tn_openclawRunRef = stringOrNull (column row ''openclaw_run_ref''), tn_createdAt = createdAt,
       tn_updatedAt = updatedAt, tn_finalizedAt = finalizedAt\<rparr>)))))))))))"

definition rowToToolOutcome :: "date_host \<Rightarrow> query_row \<Rightarrow> tool_outcome js_result" where
  "rowToToolOutcome host row =
     decoding (or_throw (parseAssistantToolOutcomeStatus (as_js (column row ''status'')))) (\<lambda>status.
     decoding (sql_String host (column row ''id'')) (\<lambda>rid.
     decoding (sql_id host OrgId (column row ''organization_id'')) (\<lambda>org.
     decoding (sql_id host WorkspaceId (column row ''workspace_id'')) (\<lambda>ws.
     decoding (sql_String host (column row ''turn_id'')) (\<lambda>turnId.
     decoding (sql_String host (column row ''tool_name'')) (\<lambda>toolName.
     decoding (sql_String host (column row ''tool_call_id'')) (\<lambda>toolCallId.
     decoding (sql_String host (column row ''idempotency_key'')) (\<lambda>idempotencyKey.
     decoding (parseDate host (column row ''created_at'')) (\<lambda>createdAt.
     decoding (parseDate host (column row ''updated_at'')) (\<lambda>updatedAt.
     decoding (optionalDate host (column row ''completed_at'')) (\<lambda>completedAt.
     Returned \<lparr>oc_id = rid, oc_organizationId = org, oc_workspaceId = ws, oc_turnId = turnId, oc_toolName = toolName,
       oc_toolCallId = toolCallId, oc_idempotencyKey = idempotencyKey, oc_status = status,
       oc_requestSummary = jsonRecord (column row ''request_summary''),
       oc_resultSummary = jsonRecord (column row ''result_summary''), oc_targetRef = stringOrNull (column row ''target_ref''),
       oc_createdAt = createdAt, oc_updatedAt = updatedAt, oc_completedAt = completedAt\<rparr>)))))))))))"

section \<open>Inputs and statements\<close>

record create_conversation_input = runtime_context +
  ci_surface :: string
  ci_assistantKey :: string

record user_turn_input = runtime_context +
  ui_conversationId :: string
  ui_idempotencyKey :: string
  ui_content :: js_object

record start_turn_input = runtime_context +
  si_conversationId :: string
  si_idempotencyKey :: string
  si_assistantKey :: string
  si_content :: "js_object option"
  si_openclawSessionRef :: "string option"
  si_openclawRunRef :: "string option"

record delta_input = runtime_context +
  di_turnId :: string
  di_deltaText :: string

record finalize_turn_input = runtime_context +
  zi_turnId :: string
  zi_content :: js_object
  zi_openclawSessionRef :: "string option"
  zi_openclawRunRef :: "string option"

record fail_input = runtime_context +
  xi_turnId :: string
  xi_errorCode :: string
  xi_errorMessage :: string

text \<open>The values of an inserted turn; \<open>nt_finalized\<close> tells that \<^verbatim>\<open>finalized_at\<close> is set to \<^verbatim>\<open>now()\<close>.\<close>

record turn_values =
  nt_conversationId :: string
  nt_organizationId :: string
  nt_workspaceId :: string
  nt_role :: turn_role
  nt_status :: turn_status
  nt_actorUserId :: "string option"
  nt_assistantKey :: "string option"
  nt_content :: js_object
  nt_idempotencyKey :: string
  nt_openclawSessionRef :: "string option"
  nt_openclawRunRef :: "string option"
  nt_finalized :: bool

text \<open>
  The statements, each with its arguments in the order of the text: \<open>org\<close>, \<open>ws\<close>, surface, assistant and user
  of a conversation; id and scope of a conversation; the values of a turn, inserted unless its key is
  taken; organization, conversation and key of a turn; lock, id and scope of a turn; and the four updates
  of a turn by id and scope.
\<close>

record 's turn_tx =
  ls_insertConversation :: "string \<Rightarrow> string \<Rightarrow> string \<Rightarrow> string \<Rightarrow> string \<Rightarrow> ('s, execute_result) step"
  ls_selectConversation :: "string \<Rightarrow> string \<Rightarrow> string \<Rightarrow> ('s, execute_result) step"
  ls_insertTurn :: "turn_values \<Rightarrow> ('s, execute_result) step"
  ls_findTurn :: "string \<Rightarrow> string \<Rightarrow> string \<Rightarrow> ('s, execute_result) step"
  ls_selectTurn :: "bool \<Rightarrow> string \<Rightarrow> string \<Rightarrow> string \<Rightarrow> ('s, execute_result) step"
  ls_streamTurn :: "string \<Rightarrow> string \<Rightarrow> string \<Rightarrow> js_object \<Rightarrow> ('s, execute_result) step"
  ls_claimTurn :: "string \<Rightarrow> string \<Rightarrow> string \<Rightarrow> ('s, execute_result) step"
  ls_finishTurn :: "string \<Rightarrow> string \<Rightarrow> string \<Rightarrow> js_object \<Rightarrow> string option \<Rightarrow> string option \<Rightarrow> ('s, execute_result) step"
  ls_failTurn :: "string \<Rightarrow> string \<Rightarrow> string \<Rightarrow> js_object \<Rightarrow> ('s, execute_result) step"

record 's turn_env =
  tv_database :: database
  tv_undo :: "'s \<Rightarrow> 's \<Rightarrow> 's"
  tv_authorizationPort :: "can_function option"
  tv_dates :: date_host
  tv_tx :: "'s turn_tx"

section \<open>The services\<close>

definition turnNotFound :: domain_error where
  "turnNotFound = failure ''runtimeControl.turnNotFound'' ''Assistant turn was not found.''"

definition conversationNotFound :: domain_error where
  "conversationNotFound = failure ''runtimeControl.conversationNotFound'' ''Assistant conversation was not found.''"

definition invalidTurnTransition :: "string \<Rightarrow> domain_error" where
  "invalidTurnTransition = failure ''runtimeControl.invalidTurnTransition''"

text \<open>\<^verbatim>\<open>ok(rowToTurn(row))\<close>\<close>

definition answerTurn :: "'s turn_env \<Rightarrow> query_row \<Rightarrow> ('s, assistant_turn result) step" where
  "answerTurn env row = andThen (raw (rowToTurn (tv_dates env) row)) (\<lambda>t. ret (ok t))"

definition loadConversationInScope ::
  "'s turn_env \<Rightarrow> 'a runtime_context_scheme \<Rightarrow> string \<Rightarrow> ('s, conversation result) step" where
  "loadConversationInScope env input conversationId =
     andThen (ls_selectConversation (tv_tx env) conversationId (cx_orgId input) (cx_workspaceId input)) (\<lambda>result.
     case first_row result of
       None \<Rightarrow> ret (err conversationNotFound)
     | Some row \<Rightarrow> andThen (raw (rowToConversation (tv_dates env) row)) (\<lambda>c. ret (ok c)))"

definition turnInScope ::
  "'s turn_env \<Rightarrow> bool \<Rightarrow> 'a runtime_context_scheme \<Rightarrow> string \<Rightarrow> ('s, assistant_turn result) step" where
  "turnInScope env lock input turnId =
     andThen (ls_selectTurn (tv_tx env) lock turnId (cx_orgId input) (cx_workspaceId input)) (\<lambda>result.
     case first_row result of None \<Rightarrow> ret (err turnNotFound) | Some row \<Rightarrow> answerTurn env row)"

text \<open>An expectation of \<open>None\<close> is an omitted one.\<close>

definition validateIdempotentTurnReplay ::
  "assistant_turn \<Rightarrow> turn_role \<Rightarrow> string option \<Rightarrow> string option \<Rightarrow> js_object \<Rightarrow> ('s, assistant_turn result) step" where
  "validateIdempotentTurnReplay existing role actorUserId assistantKey content =
     (let actorMatches = actorUserId = None \<or> tn_actorUserId existing = actorUserId;
          assistantMatches = assistantKey = None \<or> tn_assistantKey existing = assistantKey
      in whenSame (tn_role existing = role \<and> actorMatches \<and> assistantMatches) (tn_content existing) content
           (ok existing) (err turnConflict))"

text \<open>
  What both services that insert a turn do in their transaction: load the conversation, insert, and on a
  conflict of the key compare with the turn that has it.
\<close>

definition insertOrReplayTurn ::
  "'s turn_env \<Rightarrow> 'a runtime_context_scheme \<Rightarrow> turn_values \<Rightarrow> ('s, assistant_turn result) step" where
  "insertOrReplayTurn env input turn =
     andThen (loadConversationInScope env input (nt_conversationId turn)) (\<lambda>conversation.
     ifOk conversation (\<lambda>_.
     if json_stringify (JObject (nt_content turn)) = None then throw serialize_error
     else andThen (ls_insertTurn (tv_tx env) turn) (\<lambda>inserted.
     case first_row inserted of
       Some row \<Rightarrow> answerTurn env row
     | None \<Rightarrow>
     andThen (ls_findTurn (tv_tx env) (cx_orgId input) (nt_conversationId turn) (nt_idempotencyKey turn)) (\<lambda>existing.
     case first_row existing of
       None \<Rightarrow> ret (err turnNotFound)
     | Some row \<Rightarrow>
     andThen (raw (rowToTurn (tv_dates env) row)) (\<lambda>t.
     validateIdempotentTurnReplay t (nt_role turn) (nt_actorUserId turn) (nt_assistantKey turn) (nt_content turn))))))"

definition serviceTransaction :: "'s turn_env \<Rightarrow> 'a runtime_context_scheme \<Rightarrow> domain_error \<Rightarrow> ('s, 'b result) step \<Rightarrow> ('s, 'b result) step" where
  "serviceTransaction env input failed body = catching failed (withTenant (tv_database env) (tv_undo env) (cx_orgId input) body)"

definition sql_createConversation :: "'s turn_env \<Rightarrow> create_conversation_input \<Rightarrow> ('s, conversation result) step" where
  "sql_createConversation env input =
     (let failed = failure ''runtimeControl.conversationCreateFailed'' ''Assistant conversation could not be created.'' in
     ifOk (validateCommonInput (tv_authorizationPort env) input CreateAction) (\<lambda>_.
     ifOk (normalizeRuntimeKey (ci_surface input) ''surface'') (\<lambda>surface.
     ifOk (normalizeRuntimeKey (ci_assistantKey input) ''assistantKey'') (\<lambda>assistantKey.
     serviceTransaction env input failed
       (andThen (ls_insertConversation (tv_tx env) (cx_orgId input) (cx_workspaceId input) surface assistantKey
          (ra_userId (cx_actor input))) (\<lambda>result.
        case first_row result of
          None \<Rightarrow> ret (err failed)
        | Some row \<Rightarrow> andThen (raw (rowToConversation (tv_dates env) row)) (\<lambda>c. ret (ok c))))))))"

definition user_turn_values :: "user_turn_input \<Rightarrow> string \<Rightarrow> turn_values" where
  "user_turn_values input idempotencyKey =
     \<lparr>nt_conversationId = ui_conversationId input, nt_organizationId = cx_orgId input,
      nt_workspaceId = cx_workspaceId input, nt_role = UserTurn, nt_status = Final,
      nt_actorUserId = Some (ra_userId (cx_actor input)), nt_assistantKey = None, nt_content = ui_content input,
      nt_idempotencyKey = idempotencyKey, nt_openclawSessionRef = None, nt_openclawRunRef = None, nt_finalized = True\<rparr>"

definition sql_appendUserTurn :: "'s turn_env \<Rightarrow> user_turn_input \<Rightarrow> ('s, assistant_turn result) step" where
  "sql_appendUserTurn env input =
     ifOk (validateCommonInput (tv_authorizationPort env) input CreateAction) (\<lambda>_.
     ifOk (normalizeRuntimeKey (ui_idempotencyKey input) ''idempotencyKey'') (\<lambda>idempotencyKey.
     serviceTransaction env input (failure ''runtimeControl.userTurnAppendFailed'' ''User turn could not be appended.'')
       (insertOrReplayTurn env input (user_turn_values input idempotencyKey))))"

definition start_turn_values :: "start_turn_input \<Rightarrow> string \<Rightarrow> string \<Rightarrow> turn_values" where
  "start_turn_values input idempotencyKey assistantKey =
     \<lparr>nt_conversationId = si_conversationId input, nt_organizationId = cx_orgId input,
      nt_workspaceId = cx_workspaceId input, nt_role = AssistantTurn, nt_status = Queued, nt_actorUserId = None,
      nt_assistantKey = Some assistantKey, nt_content = (case si_content input of Some c \<Rightarrow> c | None \<Rightarrow> []),
      nt_idempotencyKey = idempotencyKey, nt_openclawSessionRef = si_openclawSessionRef input,
      nt_openclawRunRef = si_openclawRunRef input, nt_finalized = False\<rparr>"

definition sql_startAssistantTurn :: "'s turn_env \<Rightarrow> start_turn_input \<Rightarrow> ('s, assistant_turn result) step" where
  "sql_startAssistantTurn env input =
     ifOk (validateCommonInput (tv_authorizationPort env) input ExecuteAction) (\<lambda>_.
     ifOk (normalizeRuntimeKey (si_idempotencyKey input) ''idempotencyKey'') (\<lambda>idempotencyKey.
     ifOk (normalizeRuntimeKey (si_assistantKey input) ''assistantKey'') (\<lambda>assistantKey.
     serviceTransaction env input (failure ''runtimeControl.assistantTurnStartFailed'' ''Assistant turn could not be started.'')
       (insertOrReplayTurn env input (start_turn_values input idempotencyKey assistantKey)))))"

text \<open>\<^verbatim>\<open>contentWithDelta\<close>, which throws where a recorded delta has no string.\<close>

definition contentWithDelta :: "js_object \<Rightarrow> string \<Rightarrow> js_object js_result" where
  "contentWithDelta content deltaText =
     (case content_deltas content of
        None \<Rightarrow> Thrown convert_error
      | Some deltas \<Rightarrow> Returned (with_delta content deltas deltaText))"

text \<open>The bodies of the transactions of the three services on a turn.\<close>

definition appendDeltaInTransaction :: "'s turn_env \<Rightarrow> delta_input \<Rightarrow> ('s, assistant_turn result) step" where
  "appendDeltaInTransaction env input =
     andThen (turnInScope env True input (di_turnId input)) (\<lambda>current.
     ifOk current (\<lambda>turn.
     if tn_role turn \<noteq> AssistantTurn \<or> \<not> canAppendAssistantDelta (tn_status turn)
     then ret (err (invalidTurnTransition ''Assistant delta cannot be appended in the current turn state.''))
     else andThen (raw (contentWithDelta (tn_content turn) (di_deltaText input))) (\<lambda>content.
     if json_stringify (JObject content) = None then throw serialize_error
     else andThen (ls_streamTurn (tv_tx env) (di_turnId input) (cx_orgId input) (cx_workspaceId input) content) (\<lambda>updated.
     case first_row updated of
       None \<Rightarrow> ret (err (invalidTurnTransition ''Assistant delta could not be appended in the current turn state.''))
     | Some row \<Rightarrow> answerTurn env row))))"

definition sql_appendAssistantDelta :: "'s turn_env \<Rightarrow> delta_input \<Rightarrow> ('s, assistant_turn result) step" where
  "sql_appendAssistantDelta env input =
     ifOk (validateCommonInput (tv_authorizationPort env) input UpdateAction) (\<lambda>_.
     serviceTransaction env input (failure ''runtimeControl.assistantDeltaAppendFailed'' ''Assistant delta could not be appended.'')
       (appendDeltaInTransaction env input))"

definition finalizeInTransaction :: "'s turn_env \<Rightarrow> finalize_turn_input \<Rightarrow> ('s, assistant_turn result) step" where
  "finalizeInTransaction env input =
     andThen (ls_claimTurn (tv_tx env) (zi_turnId input) (cx_orgId input) (cx_workspaceId input)) (\<lambda>claimed.
     case first_row claimed of
       None \<Rightarrow>
         andThen (turnInScope env False input (zi_turnId input)) (\<lambda>existing.
         ifOk existing (\<lambda>turn.
         ret (if tn_role turn = AssistantTurn \<and> tn_status turn = Final then ok turn
              else err (invalidTurnTransition ''Assistant turn cannot be finalized in the current state.''))))
     | Some _ \<Rightarrow>
         if json_stringify (JObject (zi_content input)) = None then throw serialize_error
         else andThen (ls_finishTurn (tv_tx env) (zi_turnId input) (cx_orgId input) (cx_workspaceId input)
             (zi_content input) (zi_openclawSessionRef input) (zi_openclawRunRef input)) (\<lambda>finalized.
         case first_row finalized of
           None \<Rightarrow> ret (err (invalidTurnTransition ''Assistant turn finalization lost its single-writer claim.''))
         | Some row \<Rightarrow> answerTurn env row))"

definition sql_finalizeAssistantTurn :: "'s turn_env \<Rightarrow> finalize_turn_input \<Rightarrow> ('s, assistant_turn result) step" where
  "sql_finalizeAssistantTurn env input =
     ifOk (validateCommonInput (tv_authorizationPort env) input UpdateAction) (\<lambda>_.
     serviceTransaction env input (failure ''runtimeControl.assistantTurnFinalizeFailed'' ''Assistant turn could not be finalized.'')
       (finalizeInTransaction env input))"

definition failedContent :: "fail_input \<Rightarrow> js_object" where
  "failedContent input =
     [(''error'', JObject [(''code'', JString (xi_errorCode input)), (''message'', JString (xi_errorMessage input))])]"

definition failInTransaction :: "'s turn_env \<Rightarrow> fail_input \<Rightarrow> ('s, assistant_turn result) step" where
  "failInTransaction env input =
     andThen (ls_failTurn (tv_tx env) (xi_turnId input) (cx_orgId input) (cx_workspaceId input) (failedContent input)) (\<lambda>updated.
     case first_row updated of
       Some row \<Rightarrow> answerTurn env row
     | None \<Rightarrow>
         andThen (turnInScope env False input (xi_turnId input)) (\<lambda>existing.
         ifOk existing (\<lambda>turn.
         ret (if tn_role turn = AssistantTurn \<and> tn_status turn = Failed then ok turn
              else err (invalidTurnTransition ''Assistant turn cannot be failed in the current state.'')))))"

definition sql_failAssistantTurn :: "'s turn_env \<Rightarrow> fail_input \<Rightarrow> ('s, assistant_turn result) step" where
  "sql_failAssistantTurn env input =
     ifOk (validateCommonInput (tv_authorizationPort env) input UpdateAction) (\<lambda>_.
     serviceTransaction env input (failure ''runtimeControl.assistantTurnFailFailed'' ''Assistant turn could not be marked failed.'')
       (failInTransaction env input))"

end
