(* ===== verification/Turn_Laws.thy ===== *)
theory Turn_Laws
  imports Turn_Service
begin

text \<open>
  What the turn services rely on of their SQL statements (the locale \<open>turn_statements\<close>), the abstract machine
  of turns they implement (\<open>turn_machine\<close>), and the proof that every service refines it.
\<close>

section \<open>The machine of turns\<close>

definition same_identity :: "assistant_turn \<Rightarrow> assistant_turn \<Rightarrow> bool" where
  "same_identity t u \<longleftrightarrow> tn_id u = tn_id t \<and> tn_conversationId u = tn_conversationId t \<and>
     tn_organizationId u = tn_organizationId t \<and> tn_workspaceId u = tn_workspaceId t \<and> tn_role u = tn_role t \<and>
     tn_actorUserId u = tn_actorUserId t \<and> tn_assistantKey u = tn_assistantKey t \<and>
     tn_idempotencyKey u = tn_idempotencyKey t \<and> tn_createdAt u = tn_createdAt t"

definition has_key :: "string \<Rightarrow> string \<Rightarrow> string \<Rightarrow> assistant_turn \<Rightarrow> bool" where
  "has_key org conversation k t \<longleftrightarrow> tn_organizationId t = org \<and> tn_conversationId t = conversation \<and> tn_idempotencyKey t = k"

abbreviation same_key :: "assistant_turn \<Rightarrow> assistant_turn \<Rightarrow> bool" where
  "same_key t \<equiv> has_key (tn_organizationId t) (tn_conversationId t) (tn_idempotencyKey t)"

type_synonym turn_map = "string \<rightharpoonup> assistant_turn"

text \<open>
  A service refuses and changes nothing, answers with a turn that is there, inserts a message or a queued
  turn under a fresh key, or moves an assistant's turn along its life cycle.
\<close>

inductive turn_machine :: "turn_map \<Rightarrow> assistant_turn result \<Rightarrow> turn_map \<Rightarrow> bool" where
  refused: "turn_machine m (err e) m"
| present: "m (tn_id t) = Some t \<Longrightarrow> turn_machine m (ok t) m"
| inserted: "m (tn_id t) = None \<Longrightarrow> \<forall>u \<in> ran m. \<not> same_key t u \<Longrightarrow> (tn_role t, tn_status t) \<in> {(UserTurn, Final), (AssistantTurn, Queued)} \<Longrightarrow>
    turn_machine m (ok t) (m(tn_id t \<mapsto> t))"
| moved: "m (tn_id t) = Some u \<Longrightarrow> tn_role u = AssistantTurn \<Longrightarrow> same_identity u t \<Longrightarrow> turn_moves (tn_status u) event (tn_status t) \<Longrightarrow>
    turn_machine m (ok t) (m(tn_id t \<mapsto> t))"

inductive_cases turn_machine_errE: "turn_machine m (err e) m'"
inductive_cases turn_machine_okE: "turn_machine m (ok t) m'"

lemma same_identity_refl [simp]: "same_identity t t"
  by (simp add: same_identity_def)

lemma same_identity_trans: "same_identity t u \<Longrightarrow> same_identity u v \<Longrightarrow> same_identity t v"
  by (simp add: same_identity_def)

text \<open>What any step of the machine leaves of a turn.\<close>

definition turn_kept :: "assistant_turn \<Rightarrow> assistant_turn \<Rightarrow> bool" where
  "turn_kept t u \<longleftrightarrow> same_identity t u \<and> turn_progress (tn_status t) (tn_status u) \<and>
     (isTerminalAssistantTurnStatus (tn_status t) \<or> tn_role t \<noteq> AssistantTurn \<longrightarrow> u = t)"

lemma turn_kept_refl [simp]: "turn_kept t t"
  by (simp add: turn_kept_def)

lemma turn_kept_trans: "turn_kept t u \<Longrightarrow> turn_kept u v \<Longrightarrow> turn_kept t v"
  unfolding turn_kept_def by (blast intro: same_identity_trans turn_progress_trans)

lemma machine_keeps_turns:
  assumes "turn_machine m r m'" "m k = Some t"
  shows "\<exists>u. m' k = Some u \<and> turn_kept t u"
  using assms
proof (cases rule: turn_machine.cases)
  case (moved u v event)
  have "\<not> isTerminalAssistantTurnStatus (tn_status v)" using moved(6) by (rule turn_moves_source)
  then have "turn_kept v u" using moved by (simp add: turn_kept_def turn_progress_move)
  with moved assms(2) show ?thesis by auto
qed (auto intro: exI[of _ t])

definition keys_unique :: "turn_map \<Rightarrow> bool" where
  "keys_unique m \<longleftrightarrow> (\<forall>j k t u. m j = Some t \<longrightarrow> m k = Some u \<longrightarrow> same_key t u \<longrightarrow> j = k)"

lemma keys_uniqueD: "keys_unique m \<Longrightarrow> m j = Some t \<Longrightarrow> m k = Some u \<Longrightarrow> same_key t u \<Longrightarrow> j = k"
  unfolding keys_unique_def by blast

lemma has_key_sym: "same_key t u \<longleftrightarrow> same_key u t"
  by (auto simp: has_key_def)

lemma machine_keeps_keys:
  assumes "turn_machine m r m'" "keys_unique m"
  shows "keys_unique m'"
  using assms(1)
proof (cases rule: turn_machine.cases)
  case (inserted t)
  have fresh: "\<not> same_key t u" "\<not> same_key u t" if "m k = Some u" for k u
    using inserted(4) ranI[of m k u] that has_key_sym[of t u] by blast+
  show ?thesis unfolding keys_unique_def inserted(2) using fresh keys_uniqueD[OF assms(2)] by (auto split: if_splits)
next
  case (moved t u event)
  have "same_key t v \<longleftrightarrow> same_key u v" "same_key v t \<longleftrightarrow> same_key v u" for v
    using moved(5) by (auto simp: same_identity_def has_key_def)
  then show ?thesis unfolding keys_unique_def moved(2) using keys_uniqueD[OF assms(2)] moved(3) by (auto split: if_splits)
qed (use assms(2) in simp_all)

lemma machine_leaves_no_claim:
  assumes "turn_machine m r m'" "\<forall>t \<in> ran m. tn_status t \<noteq> Finalizing"
  shows "\<forall>t \<in> ran m'. tn_status t \<noteq> Finalizing"
  using assms
proof (cases rule: turn_machine.cases)
  case (inserted t)
  with assms(2) show ?thesis by (auto simp: ran_def split: if_splits)
next
  case (moved t u event)
  have "tn_status t \<noteq> Finalizing" using moved(6) by (cases event) auto
  with assms(2) moved(2) show ?thesis by (auto simp: ran_def split: if_splits)
qed simp_all

section \<open>Calls of the services\<close>

datatype turn_call =
    AppendUserTurn user_turn_input
  | StartAssistantTurn start_turn_input
  | AppendAssistantDelta delta_input
  | FinalizeAssistantTurn finalize_turn_input
  | FailAssistantTurn fail_input

primrec runTurnCall :: "'s turn_env \<Rightarrow> turn_call \<Rightarrow> ('s, assistant_turn result) step" where
  "runTurnCall env (AppendUserTurn i) = sql_appendUserTurn env i"
| "runTurnCall env (StartAssistantTurn i) = sql_startAssistantTurn env i"
| "runTurnCall env (AppendAssistantDelta i) = sql_appendAssistantDelta env i"
| "runTurnCall env (FinalizeAssistantTurn i) = sql_finalizeAssistantTurn env i"
| "runTurnCall env (FailAssistantTurn i) = sql_failAssistantTurn env i"

inductive turn_service_step :: "'s turn_env \<Rightarrow> 's \<Rightarrow> 's \<Rightarrow> bool" for env :: "'s turn_env" where
  conversation: "sql_createConversation env i s = (q, s') \<Longrightarrow> turn_service_step env s s'"
| turn: "runTurnCall env c s = (q, s') \<Longrightarrow> turn_service_step env s s'"

section \<open>What the services rely on\<close>

lemma withTenant_Thrown:
  assumes "withTenant db undo org fn s = (Thrown e, t)" "db_rollsBack db"
  shows "t = s \<or> (\<exists>u. t = undo s u)"
proof (cases "is_uuid org \<and> session_ok db org")
  case True
  then show ?thesis using assms by (auto simp: withTenant_entry split: prod.splits js_result.splits)
next
  case False
  obtain e' where "withTenant db undo org fn s = (Thrown e', if is_uuid org \<and> db_rollsBack db then undo s s else s)"
    by (rule withTenant_refused[OF False])
  with assms show ?thesis by (auto split: if_splits)
qed

definition nonblank :: "string option \<Rightarrow> string option" where
  "nonblank r = (case r of Some s \<Rightarrow> if trim s \<noteq> [] then Some s else None | None \<Rightarrow> None)"

definition of_assistant :: "string \<Rightarrow> string \<Rightarrow> turn_status set \<Rightarrow> assistant_turn \<Rightarrow> bool" where
  "of_assistant org ws statuses t \<longleftrightarrow>
     tn_organizationId t = org \<and> tn_workspaceId t = ws \<and> tn_role t = AssistantTurn \<and> tn_status t \<in> statuses"

text \<open>
  An \<^verbatim>\<open>update ... where id = k and ... returning\<close>: it changes the row with that id if the condition holds and
  answers with the changed row, and otherwise changes nothing and answers with no row.
\<close>

definition updates_turn ::
  "(query_row \<Rightarrow> assistant_turn js_result) \<Rightarrow> ('s \<Rightarrow> bool) \<Rightarrow> ('s \<Rightarrow> turn_map) \<Rightarrow> string \<Rightarrow> (assistant_turn \<Rightarrow> bool) \<Rightarrow>
   (js_date \<Rightarrow> assistant_turn \<Rightarrow> assistant_turn) \<Rightarrow> ('s, execute_result) step \<Rightarrow> bool" where
  "updates_turn decode valid turns k guard change stmt \<longleftrightarrow>
     (\<forall>s r s'. valid s \<longrightarrow> stmt s = (Returned r, s') \<longrightarrow> valid s' \<and>
       (case first_row r of
          None \<Rightarrow> turns s' = turns s \<and> (\<forall>t. turns s k = Some t \<longrightarrow> \<not> guard t)
        | Some row \<Rightarrow> \<exists>t at. turns s k = Some t \<and> guard t \<and> turns s' = (turns s)(k \<mapsto> change at t) \<and>
            (\<forall>d. decode row = Returned d \<longrightarrow> d = change at t)))"

definition streamed_turn :: "js_object \<Rightarrow> js_date \<Rightarrow> assistant_turn \<Rightarrow> assistant_turn" where
  "streamed_turn content at t = t\<lparr>tn_status := Streaming, tn_content := content, tn_updatedAt := at\<rparr>"

definition claimed_turn :: "js_date \<Rightarrow> assistant_turn \<Rightarrow> assistant_turn" where
  "claimed_turn at t = t\<lparr>tn_status := Finalizing, tn_updatedAt := at\<rparr>"

definition finalized_turn :: "js_object \<Rightarrow> string option \<Rightarrow> string option \<Rightarrow> js_date \<Rightarrow> assistant_turn \<Rightarrow> assistant_turn" where
  "finalized_turn content sessionRef runRef at t = t\<lparr>tn_status := Final, tn_content := content,
     tn_openclawSessionRef := nonblank sessionRef, tn_openclawRunRef := nonblank runRef, tn_finalizedAt := Some at, tn_updatedAt := at\<rparr>"

definition failed_turn :: "js_object \<Rightarrow> js_date \<Rightarrow> assistant_turn \<Rightarrow> assistant_turn" where
  "failed_turn content at t = t\<lparr>tn_status := Failed, tn_content := content, tn_finalizedAt := Some at, tn_updatedAt := at\<rparr>"

definition inserted_as :: "(js_object \<Rightarrow> js_object) \<Rightarrow> turn_values \<Rightarrow> assistant_turn \<Rightarrow> bool" where
  "inserted_as stored n t \<longleftrightarrow>
     tn_conversationId t = nt_conversationId n \<and> tn_organizationId t = nt_organizationId n \<and>
     tn_workspaceId t = nt_workspaceId n \<and> tn_role t = nt_role n \<and> tn_status t = nt_status n \<and>
     tn_actorUserId t = nt_actorUserId n \<and> tn_assistantKey t = nonblank (nt_assistantKey n) \<and>
     tn_content t = stored (nt_content n) \<and> tn_idempotencyKey t = nt_idempotencyKey n \<and>
     tn_openclawSessionRef t = nonblank (nt_openclawSessionRef n) \<and> tn_openclawRunRef t = nonblank (nt_openclawRunRef n) \<and>
     (tn_finalizedAt t \<noteq> None \<longleftrightarrow> nt_finalized n)"

text \<open>
  The turns as they decode, by id, over the states the database can be in; \<open>stored\<close> is what a content reads
  as after it was written as JSON. Each law is the meaning of the clauses of its statement.
\<close>

locale turn_statements =
  fixes env :: "'s turn_env"
    and valid :: "'s \<Rightarrow> bool"
    and turns :: "'s \<Rightarrow> turn_map"
    and stored :: "js_object \<Rightarrow> js_object"
  assumes rolls_back: "db_rollsBack (tv_database env)"
    and undone: "valid s \<Longrightarrow> valid (tv_undo env s s') \<and> turns (tv_undo env s s') = turns s"
    and by_id: "valid s \<Longrightarrow> turns s k = Some t \<Longrightarrow> tn_id t = k"
    and insertConversation_frame: "valid s \<Longrightarrow> ls_insertConversation (tv_tx env) org ws surface assistant user s = (Returned r, s') \<Longrightarrow>
      valid s' \<and> turns s' = turns s"
    and selectConversation_reads: "valid s \<Longrightarrow> ls_selectConversation (tv_tx env) cid org ws s = (Returned r, s') \<Longrightarrow>
      valid s' \<and> turns s' = turns s"
    and selectTurn_reads: "valid s \<Longrightarrow> ls_selectTurn (tv_tx env) lock k org ws s = (Returned r, s') \<Longrightarrow>
      valid s' \<and> turns s' = turns s \<and>
      (\<forall>row t. first_row r = Some row \<longrightarrow> rowToTurn (tv_dates env) row = Returned t \<longrightarrow>
        turns s k = Some t \<and> tn_organizationId t = org \<and> tn_workspaceId t = ws)"
    and findTurn_reads: "valid s \<Longrightarrow> ls_findTurn (tv_tx env) org cid ik s = (Returned r, s') \<Longrightarrow>
      valid s' \<and> turns s' = turns s \<and>
      (\<forall>row t. first_row r = Some row \<longrightarrow> rowToTurn (tv_dates env) row = Returned t \<longrightarrow>
        turns s (tn_id t) = Some t \<and> has_key org cid ik t)"
    and insertTurn_taken: "valid s \<Longrightarrow> ls_insertTurn (tv_tx env) n s = (Returned r, s') \<Longrightarrow> first_row r = None \<Longrightarrow>
      valid s' \<and> turns s' = turns s \<and> (\<exists>t \<in> ran (turns s). has_key (nt_organizationId n) (nt_conversationId n) (nt_idempotencyKey n) t)"
    and insertTurn_fresh: "valid s \<Longrightarrow> ls_insertTurn (tv_tx env) n s = (Returned r, s') \<Longrightarrow> first_row r = Some row \<Longrightarrow>
      rowToTurn (tv_dates env) row = Returned t \<Longrightarrow>
      valid s' \<and> inserted_as stored n t \<and> turns s (tn_id t) = None \<and> (\<forall>u \<in> ran (turns s). \<not> same_key t u) \<and>
      turns s' = (turns s)(tn_id t \<mapsto> t)"
    and stream_updates: "updates_turn (rowToTurn (tv_dates env)) valid turns k (of_assistant org ws {Queued, Streaming})
      (streamed_turn (stored c)) (ls_streamTurn (tv_tx env) k org ws c)"
    and claim_updates: "updates_turn (rowToTurn (tv_dates env)) valid turns k (of_assistant org ws {Queued, Streaming})
      claimed_turn (ls_claimTurn (tv_tx env) k org ws)"
    and finish_updates: "updates_turn (rowToTurn (tv_dates env)) valid turns k (of_assistant org ws {Finalizing})
      (finalized_turn (stored c) sr rr) (ls_finishTurn (tv_tx env) k org ws c sr rr)"
    and fail_updates: "updates_turn (rowToTurn (tv_dates env)) valid turns k (of_assistant org ws {Queued, Streaming, Finalizing})
      (failed_turn (stored c)) (ls_failTurn (tv_tx env) k org ws c)"
begin

lemma updates_None:
  assumes "updates_turn dec valid turns k guard change stmt" "valid s" "stmt s = (Returned r, s')" "first_row r = None"
  shows "valid s'" "turns s' = turns s" "turns s k = Some t \<Longrightarrow> \<not> guard t"
  using assms unfolding updates_turn_def by (fastforce+)

lemma updates_Some:
  assumes "updates_turn dec valid turns k guard change stmt" "valid s" "stmt s = (Returned r, s')" "first_row r = Some row"
  obtains t at where "valid s'" "turns s k = Some t" "guard t" "turns s' = (turns s)(k \<mapsto> change at t)"
    "\<And>d. dec row = Returned d \<Longrightarrow> d = change at t"
  using assms unfolding updates_turn_def by fastforce

lemma answerTurn_Returned: "answerTurn env row s = (Returned r, s') \<longleftrightarrow> (\<exists>t. rowToTurn (tv_dates env) row = Returned t \<and> r = ok t \<and> s' = s)"
  by (auto simp: answerTurn_def raw_def step_simps split: js_result.splits)

text \<open>A service returns; either its transaction did, or nothing has changed.\<close>

lemma serviceTransaction_cases:
  assumes "valid s" "serviceTransaction env input fl body s = (q, s')"
  obtains (body) r where "q = Returned r" "body s = (Returned r, s')"
  | (not) "q = Returned (err fl)" "valid s'" "turns s' = turns s"
proof (cases "withTenant (tv_database env) (tv_undo env) (cx_orgId input) body s")
  case (Pair p t)
  show ?thesis
  proof (cases p)
    case (Returned r)
    then have "q = Returned r" "s' = t" using Pair assms(2) by (simp_all add: serviceTransaction_def catching_def)
    moreover have "body s = (Returned r, t)" by (rule withTenant_Returned[OF Pair[unfolded Returned]])
    ultimately show ?thesis using body by simp
  next
    case (Thrown e)
    have "t = s \<or> (\<exists>u. t = tv_undo env s u)" by (rule withTenant_Thrown[OF Pair[unfolded Thrown] rolls_back])
    then have "valid t" "turns t = turns s" using assms(1) undone by auto
    with Pair Thrown assms(2) not show ?thesis by (simp add: serviceTransaction_def catching_def)
  qed
qed

lemma turnInScope_Returned:
  assumes "valid s" "turnInScope env lock input k s = (Returned r, s')"
  shows "valid s'" "turns s' = turns s"
    "r = ok t \<Longrightarrow> turns s k = Some t \<and> tn_id t = k \<and> tn_organizationId t = cx_orgId input \<and> tn_workspaceId t = cx_workspaceId input"
proof -
  obtain q where q: "ls_selectTurn (tv_tx env) lock k (cx_orgId input) (cx_workspaceId input) s = (Returned q, s')"
      "r = err turnNotFound \<or> (\<exists>row t. first_row q = Some row \<and> rowToTurn (tv_dates env) row = Returned t \<and> r = ok t)"
    using assms(2)
    by (auto simp: turnInScope_def andThen_def ret_def answerTurn_Returned split: prod.splits js_result.splits option.splits)
  note law = selectTurn_reads[OF assms(1) q(1)]
  show "valid s'" "turns s' = turns s" using law by auto
  assume "r = ok t"
  then show "turns s k = Some t \<and> tn_id t = k \<and> tn_organizationId t = cx_orgId input \<and> tn_workspaceId t = cx_workspaceId input"
    using law q(2) by_id[OF assms(1)] by auto
qed

lemma delta_body:
  assumes "valid s" "appendDeltaInTransaction env i s = (Returned r, s')"
  shows "valid s' \<and> (case r of Inl e \<Rightarrow> turns s' = turns s
    | Inr t \<Rightarrow> \<exists>u c at. turns s (di_turnId i) = Some u \<and> of_assistant (cx_orgId i) (cx_workspaceId i) {Queued, Streaming} u \<and>
        contentWithDelta (tn_content u) (di_deltaText i) = Returned c \<and> t = streamed_turn (stored c) at u \<and>
        turns s' = (turns s)(di_turnId i \<mapsto> t))"
proof -
  obtain q s1 where sel: "turnInScope env True i (di_turnId i) s = (Returned q, s1)"
    using assms(2) by (auto simp: appendDeltaInTransaction_def andThen_def split: prod.splits js_result.splits)
  note scope = turnInScope_Returned[OF assms(1) sel]
  show ?thesis
  proof (cases "\<exists>u. q = ok u \<and> tn_role u = AssistantTurn \<and> canAppendAssistantDelta (tn_status u)")
    case False
    then have "s' = s1 \<and> (\<exists>e. r = err e)"
      using assms(2) sel by (auto simp: appendDeltaInTransaction_def step_simps split: sum.splits if_splits)
    with scope show ?thesis by auto
  next
    case True
    then obtain u where u: "q = ok u" "tn_role u = AssistantTurn" "canAppendAssistantDelta (tn_status u)" by blast
    obtain c w where c: "contentWithDelta (tn_content u) (di_deltaText i) = Returned c"
        and w: "ls_streamTurn (tv_tx env) (di_turnId i) (cx_orgId i) (cx_workspaceId i) c s1 = (Returned w, s')"
        and ans: "case first_row w of None \<Rightarrow> (\<exists>e. r = err e) | Some row \<Rightarrow> \<exists>t. rowToTurn (tv_dates env) row = Returned t \<and> r = ok t"
      using assms(2) sel u
      by (auto simp: appendDeltaInTransaction_def andThen_def raw_def ret_def throw_def answerTurn_Returned
          split: prod.splits js_result.splits option.splits if_splits)
    show ?thesis
    proof (cases "first_row w")
      case None
      with updates_None[OF stream_updates scope(1) w] ans scope(2) show ?thesis by auto
    next
      case (Some row)
      from updates_Some[OF stream_updates scope(1) w Some] obtain t at where t: "valid s'" "turns s1 (di_turnId i) = Some t"
          "of_assistant (cx_orgId i) (cx_workspaceId i) {Queued, Streaming} t" "turns s' = (turns s1)(di_turnId i \<mapsto> streamed_turn (stored c) at t)"
          "\<And>d. rowToTurn (tv_dates env) row = Returned d \<Longrightarrow> d = streamed_turn (stored c) at t" by blast
      have "t = u" using t(2) scope(2,3) u(1) by auto
      with t c ans Some scope(2) show ?thesis by auto
    qed
  qed
qed

lemma settled_body:
  assumes "valid s" "turnInScope env False i k s = (Returned q, s')"
    and "(case q of Inl e \<Rightarrow> r = err e | Inr t \<Rightarrow> r = (if tn_role t = AssistantTurn \<and> tn_status t = st then ok t else err e))"
  shows "valid s' \<and> turns s' = turns s \<and> (\<forall>t. r = ok t \<longrightarrow> turns s k = Some t \<and> of_assistant (cx_orgId i) (cx_workspaceId i) {st} t)"
  using turnInScope_Returned[OF assms(1,2)] assms(3) by (auto simp: of_assistant_def split: sum.splits if_splits)

lemma finalize_body:
  assumes "valid s" "finalizeInTransaction env i s = (Returned r, s')"
  shows "valid s' \<and> (case r of Inl e \<Rightarrow> turns s' = turns s
    | Inr t \<Rightarrow> (\<exists>u at. turns s (zi_turnId i) = Some u \<and> of_assistant (cx_orgId i) (cx_workspaceId i) {Queued, Streaming} u \<and>
          t = finalized_turn (stored (zi_content i)) (zi_openclawSessionRef i) (zi_openclawRunRef i) at u \<and>
          turns s' = (turns s)(zi_turnId i \<mapsto> t)) \<or>
        turns s (zi_turnId i) = Some t \<and> of_assistant (cx_orgId i) (cx_workspaceId i) {Final} t \<and> turns s' = turns s)"
proof -
  let ?k = "zi_turnId i" and ?org = "cx_orgId i" and ?ws = "cx_workspaceId i"
  obtain w s1 where w: "ls_claimTurn (tv_tx env) ?k ?org ?ws s = (Returned w, s1)"
    using assms(2) by (auto simp: finalizeInTransaction_def andThen_def split: prod.splits js_result.splits)
  show ?thesis
  proof (cases "first_row w")
    case None
    note unclaimed = updates_None[OF claim_updates assms(1) w None]
    obtain q where "turnInScope env False i ?k s1 = (Returned q, s')"
        "case q of Inl e \<Rightarrow> r = err e | Inr t \<Rightarrow> r = (if tn_role t = AssistantTurn \<and> tn_status t = Final then ok t
          else err (invalidTurnTransition ''Assistant turn cannot be finalized in the current state.''))"
      using assms(2) w None
      by (auto simp: finalizeInTransaction_def andThen_def ret_def split: prod.splits js_result.splits sum.splits)
    from settled_body[OF unclaimed(1) this] unclaimed(2) show ?thesis by (auto split: sum.splits)
  next
    case (Some row)
    from updates_Some[OF claim_updates assms(1) w Some] obtain u at where u: "valid s1" "turns s ?k = Some u"
        "of_assistant ?org ?ws {Queued, Streaming} u" "turns s1 = (turns s)(?k \<mapsto> claimed_turn at u)" by blast
    obtain v where v: "ls_finishTurn (tv_tx env) ?k ?org ?ws (zi_content i) (zi_openclawSessionRef i) (zi_openclawRunRef i) s1 = (Returned v, s')"
        "case first_row v of None \<Rightarrow> True | Some row \<Rightarrow> \<exists>t. rowToTurn (tv_dates env) row = Returned t \<and> r = ok t"
      using assms(2) w Some
      by (auto simp: finalizeInTransaction_def andThen_def ret_def throw_def answerTurn_Returned
          split: prod.splits js_result.splits option.splits if_splits)
    have claim: "turns s1 ?k = Some (claimed_turn at u)" "of_assistant ?org ?ws {Finalizing} (claimed_turn at u)"
      using u by (simp_all add: of_assistant_def claimed_turn_def)
    then obtain row' where row': "first_row v = Some row'" using updates_None(3)[OF finish_updates u(1) v(1)] by (cases "first_row v") auto
    from updates_Some[OF finish_updates u(1) v(1) row'] obtain t at' where t: "valid s'" "turns s1 ?k = Some t"
        "turns s' = (turns s1)(?k \<mapsto> finalized_turn (stored (zi_content i)) (zi_openclawSessionRef i) (zi_openclawRunRef i) at' t)"
        "\<And>d. rowToTurn (tv_dates env) row' = Returned d \<Longrightarrow>
          d = finalized_turn (stored (zi_content i)) (zi_openclawSessionRef i) (zi_openclawRunRef i) at' t" by blast
    have "finalized_turn (stored (zi_content i)) (zi_openclawSessionRef i) (zi_openclawRunRef i) at' t =
        finalized_turn (stored (zi_content i)) (zi_openclawSessionRef i) (zi_openclawRunRef i) at' u"
      using t(2) claim(1) by (auto simp: finalized_turn_def claimed_turn_def)
    with t u v(2) row' show ?thesis by auto
  qed
qed

lemma fail_body:
  assumes "valid s" "failInTransaction env i s = (Returned r, s')"
  shows "valid s' \<and> (case r of Inl e \<Rightarrow> turns s' = turns s
    | Inr t \<Rightarrow> (\<exists>u at. turns s (xi_turnId i) = Some u \<and> of_assistant (cx_orgId i) (cx_workspaceId i) {Queued, Streaming, Finalizing} u \<and>
          t = failed_turn (stored (failedContent i)) at u \<and> turns s' = (turns s)(xi_turnId i \<mapsto> t)) \<or>
        turns s (xi_turnId i) = Some t \<and> of_assistant (cx_orgId i) (cx_workspaceId i) {Failed} t \<and> turns s' = turns s)"
proof -
  let ?k = "xi_turnId i" and ?org = "cx_orgId i" and ?ws = "cx_workspaceId i"
  obtain w s1 where w: "ls_failTurn (tv_tx env) ?k ?org ?ws (failedContent i) s = (Returned w, s1)"
    using assms(2) by (auto simp: failInTransaction_def andThen_def split: prod.splits js_result.splits)
  show ?thesis
  proof (cases "first_row w")
    case None
    note unfit = updates_None[OF fail_updates assms(1) w None]
    obtain q where "turnInScope env False i ?k s1 = (Returned q, s')"
        "case q of Inl e \<Rightarrow> r = err e | Inr t \<Rightarrow> r = (if tn_role t = AssistantTurn \<and> tn_status t = Failed then ok t
          else err (invalidTurnTransition ''Assistant turn cannot be failed in the current state.''))"
      using assms(2) w None
      by (auto simp: failInTransaction_def andThen_def ret_def split: prod.splits js_result.splits sum.splits)
    from settled_body[OF unfit(1) this] unfit(2) show ?thesis by (auto split: sum.splits)
  next
    case (Some row)
    then obtain t where "rowToTurn (tv_dates env) row = Returned t" "r = ok t" "s' = s1"
      using assms(2) w by (auto simp: failInTransaction_def andThen_def answerTurn_Returned)
    moreover from updates_Some[OF fail_updates assms(1) w Some] obtain u at where "valid s1" "turns s ?k = Some u"
        "of_assistant ?org ?ws {Queued, Streaming, Finalizing} u" "turns s1 = (turns s)(?k \<mapsto> failed_turn (stored (failedContent i)) at u)"
        "\<And>d. rowToTurn (tv_dates env) row = Returned d \<Longrightarrow> d = failed_turn (stored (failedContent i)) at u" by blast
    ultimately show ?thesis by auto
  qed
qed

lemma insert_body:
  assumes "valid s" "insertOrReplayTurn env i n s = (Returned r, s')" "nt_organizationId n = cx_orgId i"
  shows "valid s' \<and> (case r of Inl e \<Rightarrow> turns s' = turns s
    | Inr t \<Rightarrow> (turns s (tn_id t) = None \<and> (\<forall>u \<in> ran (turns s). \<not> same_key t u) \<and> inserted_as stored n t \<and> turns s' = (turns s)(tn_id t \<mapsto> t)) \<or>
        (turns s (tn_id t) = Some t \<and> has_key (nt_organizationId n) (nt_conversationId n) (nt_idempotencyKey n) t \<and>
         tn_role t = nt_role n \<and> sameJson (JObject (tn_content t)) (JObject (nt_content n)) = Some True \<and> turns s' = turns s \<and>
         (\<exists>u \<in> ran (turns s). has_key (nt_organizationId n) (nt_conversationId n) (nt_idempotencyKey n) u)))"
proof -
  obtain c s1 where load: "loadConversationInScope env i (nt_conversationId n) s = (Returned c, s1)"
    using assms(2) by (auto simp: insertOrReplayTurn_def andThen_def split: prod.splits js_result.splits)
  obtain q where "ls_selectConversation (tv_tx env) (nt_conversationId n) (cx_orgId i) (cx_workspaceId i) s = (Returned q, s1)"
    using load by (auto simp: loadConversationInScope_def andThen_def raw_def ret_def split: prod.splits js_result.splits option.splits)
  note s1 = selectConversation_reads[OF assms(1) this]
  show ?thesis
  proof (cases c)
    case (Inl e)
    then show ?thesis using assms(2) load s1 by (auto simp: insertOrReplayTurn_def step_simps)
  next
    case (Inr conv)
    then obtain w s2 where w: "ls_insertTurn (tv_tx env) n s1 = (Returned w, s2)"
      using assms(2) load by (auto simp: insertOrReplayTurn_def step_simps split: prod.splits js_result.splits if_splits)
    show ?thesis
    proof (cases "first_row w")
      case (Some row)
      then obtain t where t: "rowToTurn (tv_dates env) row = Returned t" "r = ok t" "s' = s2"
        using assms(2) load Inr w
        by (auto simp: insertOrReplayTurn_def andThen_def throw_def answerTurn_Returned split: if_splits)
      with insertTurn_fresh[OF _ w Some t(1)] s1 show ?thesis by auto
    next
      case None
      have s2: "valid s2" "turns s2 = turns s" "\<exists>t \<in> ran (turns s). has_key (nt_organizationId n) (nt_conversationId n) (nt_idempotencyKey n) t"
        using insertTurn_taken[OF _ w None] s1 by auto
      obtain v s3 where v: "ls_findTurn (tv_tx env) (cx_orgId i) (nt_conversationId n) (nt_idempotencyKey n) s2 = (Returned v, s3)"
        using assms(2) load Inr w None
        by (auto simp: insertOrReplayTurn_def step_simps split: prod.splits js_result.splits if_splits)
      note s3 = findTurn_reads[OF s2(1) v]
      have "s' = s3 \<and> (\<forall>t. r = ok t \<longrightarrow> tn_role t = nt_role n \<and> sameJson (JObject (tn_content t)) (JObject (nt_content n)) = Some True \<and>
          (\<exists>row. first_row v = Some row \<and> rowToTurn (tv_dates env) row = Returned t))"
        using assms(2) load Inr w None v
        by (auto simp: insertOrReplayTurn_def step_simps raw_def validateIdempotentTurnReplay_def Let_def whenSame_def
            split: js_result.splits if_splits option.splits)
      with s2 s3 assms(3) show ?thesis by (auto split: sum.splits)
    qed
  qed
qed

section \<open>The services refine the machine\<close>

definition refines_machine :: "('s, assistant_turn result) step \<Rightarrow> bool" where
  "refines_machine m \<longleftrightarrow> (\<forall>s q s'. valid s \<longrightarrow> m s = (q, s') \<longrightarrow> valid s' \<and> (\<exists>r. q = Returned r \<and> turn_machine (turns s) r (turns s')))"

lemma refines_ifOk: "(\<And>x. refines_machine (k x)) \<Longrightarrow> refines_machine (ifOk r k)"
  by (cases r) (auto simp: refines_machine_def ret_def intro: turn_machine.refused)

lemma refines_transaction:
  assumes "\<And>s r s'. valid s \<Longrightarrow> body s = (Returned r, s') \<Longrightarrow> valid s' \<and> turn_machine (turns s) r (turns s')"
  shows "refines_machine (serviceTransaction env input fl body)"
  unfolding refines_machine_def
proof (intro allI impI)
  fix s q s' assume v: "valid s" and run: "serviceTransaction env input fl body s = (q, s')"
  from v run show "valid s' \<and> (\<exists>r. q = Returned r \<and> turn_machine (turns s) r (turns s'))"
    by (cases rule: serviceTransaction_cases) (use assms v turn_machine.refused in auto)
qed

lemma insert_machine:
  assumes "valid s" "insertOrReplayTurn env i n s = (Returned r, s')" "nt_organizationId n = cx_orgId i"
    and "(nt_role n, nt_status n) \<in> {(UserTurn, Final), (AssistantTurn, Queued)}"
  shows "valid s' \<and> turn_machine (turns s) r (turns s')"
proof (cases r)
  case (Inl e)
  then show ?thesis using insert_body[OF assms(1-3)] by (simp add: turn_machine.refused)
next
  case (Inr t)
  have "inserted_as stored n t \<Longrightarrow> (tn_role t, tn_status t) \<in> {(UserTurn, Final), (AssistantTurn, Queued)}"
    using assms(4) by (simp add: inserted_as_def)
  then show ?thesis using insert_body[OF assms(1-3)] Inr turn_machine.inserted[of "turns s" t] turn_machine.present[of "turns s" t]
    by auto
qed

lemma moved_machine:
  assumes "valid s" "turns s k = Some u" "tn_role u = AssistantTurn" "turn_moves (tn_status u) event (tn_status t)" "same_identity u t"
  shows "turn_machine (turns s) (ok t) ((turns s)(k \<mapsto> t))"
proof -
  have "tn_id t = k" using by_id[OF assms(1,2)] assms(5) by (simp add: same_identity_def)
  with assms show ?thesis using turn_machine.moved[of "turns s" t u event] by simp
qed

lemma present_machine: "valid s \<Longrightarrow> turns s k = Some t \<Longrightarrow> turn_machine (turns s) (ok t) (turns s)"
  using by_id turn_machine.present by metis

lemmas moved_simps = of_assistant_def same_identity_def streamed_turn_def finalized_turn_def failed_turn_def

lemma delta_machine:
  assumes "valid s" "appendDeltaInTransaction env i s = (Returned r, s')"
  shows "valid s' \<and> turn_machine (turns s) r (turns s')"
  using delta_body[OF assms] moved_machine[OF assms(1), of _ _ Delta]
  by (auto simp: moved_simps split: sum.splits intro: turn_machine.refused)

lemma finalize_machine:
  assumes "valid s" "finalizeInTransaction env i s = (Returned r, s')"
  shows "valid s' \<and> turn_machine (turns s) r (turns s')"
  using finalize_body[OF assms] moved_machine[OF assms(1), of _ _ Finalize] present_machine[OF assms(1)]
  by (auto simp: moved_simps split: sum.splits intro: turn_machine.refused)

lemma fail_machine:
  assumes "valid s" "failInTransaction env i s = (Returned r, s')"
  shows "valid s' \<and> turn_machine (turns s) r (turns s')"
  using fail_body[OF assms] moved_machine[OF assms(1), of _ _ Fail] present_machine[OF assms(1)]
  by (auto simp: moved_simps split: sum.splits intro: turn_machine.refused)

lemma services_refine:
  "refines_machine (sql_appendUserTurn env ui)" "refines_machine (sql_startAssistantTurn env si)"
  "refines_machine (sql_appendAssistantDelta env di)" "refines_machine (sql_finalizeAssistantTurn env zi)"
  "refines_machine (sql_failAssistantTurn env xi)"
  unfolding sql_appendUserTurn_def sql_startAssistantTurn_def sql_appendAssistantDelta_def sql_finalizeAssistantTurn_def
    sql_failAssistantTurn_def
  by (intro refines_ifOk refines_transaction insert_machine delta_machine finalize_machine fail_machine; assumption?;
      simp add: user_turn_values_def start_turn_values_def)+

lemma create_keeps:
  assumes "valid s" "sql_createConversation env i s = (q, s')"
  shows "valid s' \<and> turns s' = turns s \<and> (\<exists>r. q = Returned r)"
proof -
  have frame: "valid t \<and> turns t = turns s \<and> (\<exists>r. p = Returned r)"
    if "serviceTransaction env i fl (andThen (ls_insertConversation (tv_tx env) (cx_orgId i) (cx_workspaceId i) a b (ra_userId (cx_actor i))) (\<lambda>result.
        case first_row result of None \<Rightarrow> ret (err fl)
        | Some row \<Rightarrow> andThen (raw (rowToConversation (tv_dates env) row)) (\<lambda>c. ret (ok c)))) s = (p, t)" for fl a b p t
    using assms(1) that
  proof (cases rule: serviceTransaction_cases)
    case (body r)
    then obtain w where "ls_insertConversation (tv_tx env) (cx_orgId i) (cx_workspaceId i) a b (ra_userId (cx_actor i)) s = (Returned w, t)"
      by (auto simp: andThen_def raw_def ret_def split: prod.splits js_result.splits option.splits)
    with insertConversation_frame[OF assms(1) this] body show ?thesis by simp
  qed simp
  show ?thesis using assms frame by (auto simp: sql_createConversation_def Let_def ret_def split: sum.splits)
qed

lemma call_refines:
  assumes "valid s" "runTurnCall env c s = (q, s')"
  shows "valid s' \<and> (\<exists>r. q = Returned r \<and> turn_machine (turns s) r (turns s'))"
proof -
  have "refines_machine (runTurnCall env c)" by (cases c) (simp_all add: services_refine)
  with assms show ?thesis unfolding refines_machine_def by blast
qed

lemma step_machine:
  assumes "turn_service_step env s s'" "valid s"
  shows "valid s' \<and> (\<exists>r. turn_machine (turns s) r (turns s'))"
  using assms
proof cases
  case (conversation i q)
  have "turn_machine (turns s) (err turnNotFound) (turns s)" by (rule turn_machine.refused)
  with create_keeps[OF assms(2) conversation] show ?thesis by auto
next
  case (turn c q)
  with call_refines[OF assms(2)] show ?thesis by blast
qed

lemma steps_keep:
  assumes "(turn_service_step env)\<^sup>*\<^sup>* s s'" "valid s"
  shows "valid s'" "turns s k = Some t \<Longrightarrow> \<exists>u. turns s' k = Some u \<and> turn_kept t u"
    "keys_unique (turns s) \<Longrightarrow> keys_unique (turns s')"
    "\<forall>t \<in> ran (turns s). tn_status t \<noteq> Finalizing \<Longrightarrow> \<forall>t \<in> ran (turns s'). tn_status t \<noteq> Finalizing"
proof -
  have "valid s' \<and> (\<forall>k t. turns s k = Some t \<longrightarrow> (\<exists>u. turns s' k = Some u \<and> turn_kept t u)) \<and>
      (keys_unique (turns s) \<longrightarrow> keys_unique (turns s')) \<and>
      ((\<forall>t \<in> ran (turns s). tn_status t \<noteq> Finalizing) \<longrightarrow> (\<forall>t \<in> ran (turns s'). tn_status t \<noteq> Finalizing))"
    using assms(1)
  proof (induction rule: rtranclp_induct)
    case base
    with assms(2) show ?case by simp
  next
    case (step s1 s2)
    then obtain r where r: "valid s2" "turn_machine (turns s1) r (turns s2)" using step_machine by blast
    note kept = machine_keeps_turns[OF r(2)] machine_keeps_keys[OF r(2)] machine_leaves_no_claim[OF r(2)]
    have "\<exists>u. turns s2 k = Some u \<and> turn_kept t u" if "turns s k = Some t" for k t
      using step.IH kept(1) that turn_kept_trans by meson
    with step.IH r(1) kept(2,3) show ?case by simp
  qed
  then show "valid s'" "turns s k = Some t \<Longrightarrow> \<exists>u. turns s' k = Some u \<and> turn_kept t u" "keys_unique (turns s) \<Longrightarrow> keys_unique (turns s')"
    "\<forall>t \<in> ran (turns s). tn_status t \<noteq> Finalizing \<Longrightarrow> \<forall>t \<in> ran (turns s'). tn_status t \<noteq> Finalizing"
    by blast+
qed

lemma user_turn_answer:
  assumes "valid s" "sql_appendUserTurn env i s = (Returned (ok t), s')"
  shows "insertOrReplayTurn env i (user_turn_values i (trim (ui_idempotencyKey i))) s = (Returned (ok t), s')"
proof -
  let ?fl = "failure ''runtimeControl.userTurnAppendFailed'' ''User turn could not be appended.''"
  let ?body = "insertOrReplayTurn env i (user_turn_values i (trim (ui_idempotencyKey i)))"
  have "serviceTransaction env i ?fl ?body s = (Returned (ok t), s')"
    using assms(2) by (auto simp: sql_appendUserTurn_def ret_def normalizeRuntimeKey_ok_iff split: sum.splits)
  with assms(1) show ?thesis by (cases rule: serviceTransaction_cases) auto
qed

lemma user_turn_stored:
  assumes "valid s" "sql_appendUserTurn env i s = (Returned (ok t), s')"
  shows "turns s' (tn_id t) = Some t" "tn_role t = UserTurn" "has_key (cx_orgId i) (ui_conversationId i) (trim (ui_idempotencyKey i)) t"
    "(\<exists>u \<in> ran (turns s). has_key (cx_orgId i) (ui_conversationId i) (trim (ui_idempotencyKey i)) u) \<Longrightarrow> turns s' = turns s"
  using insert_body[OF assms(1) user_turn_answer[OF assms]]
  by (auto simp: user_turn_values_def inserted_as_def has_key_def)

lemma user_turn_again:
  assumes "valid s" "sql_appendUserTurn env i s = (Returned (ok t), s1)" "keys_unique (turns s)"
    and "(turn_service_step env)\<^sup>*\<^sup>* s1 s2" "sql_appendUserTurn env i s2 = (q, s3)"
  shows "turns s3 = turns s2 \<and> (\<forall>t'. q = Returned (ok t') \<longrightarrow> t' = t)"
proof -
  have first: "turn_service_step env s s1" using assms(2) turn_service_step.turn[of env "AppendUserTurn i" s] by simp
  then have v1: "valid s1" "keys_unique (turns s1)"
    using steps_keep[OF r_into_rtranclp, OF first assms(1)] assms(3) by auto
  note t = user_turn_stored[OF assms(1,2)]
  note kept = steps_keep[OF assms(4) v1(1)]
  have t2: "turns s2 (tn_id t) = Some t" using kept(2)[OF t(1)] t(2) by (auto simp: turn_kept_def)
  have keys: "keys_unique (turns s2)" by (rule kept(3)[OF v1(2)])
  obtain r where r: "q = Returned r" "turn_machine (turns s2) r (turns s3)"
    using call_refines[OF kept(1), of "AppendUserTurn i"] assms(5) by auto
  show ?thesis
  proof (cases r)
    case (Inl e)
    with r show ?thesis by (auto elim: turn_machine_errE)
  next
    case (Inr t')
    with r assms(5) have run: "sql_appendUserTurn env i s2 = (Returned (ok t'), s3)" by simp
    note t' = user_turn_stored[OF kept(1) run]
    have same: "turns s3 = turns s2" using t'(4) t(3) t2 by (auto intro: ranI)
    then have "turns s2 (tn_id t') = Some t'" using t'(1) by simp
    moreover have "same_key t t'" using t(3) t'(3) by (simp add: has_key_def)
    ultimately have "tn_id t = tn_id t'" using keys_uniqueD[OF keys t2] by simp
    then have "t' = t" using t2 \<open>turns s2 (tn_id t') = Some t'\<close> by (metis option.inject)
    then show ?thesis using same r(1) Inr by simp
  qed
qed

lemma serviceTransaction_ok:
  assumes "valid s" "serviceTransaction env input fl body s = (Returned (ok x), s')"
  shows "body s = (Returned (ok x), s')"
  using assms by (cases rule: serviceTransaction_cases) auto

lemma delta_answer:
  "valid s \<Longrightarrow> sql_appendAssistantDelta env i s = (Returned (ok t), s') \<Longrightarrow> appendDeltaInTransaction env i s = (Returned (ok t), s')"
  by (auto simp: sql_appendAssistantDelta_def ret_def split: sum.splits intro: serviceTransaction_ok)

lemma finalize_answer:
  "valid s \<Longrightarrow> sql_finalizeAssistantTurn env i s = (Returned (ok t), s') \<Longrightarrow> finalizeInTransaction env i s = (Returned (ok t), s')"
  by (auto simp: sql_finalizeAssistantTurn_def ret_def split: sum.splits intro: serviceTransaction_ok)

lemma fail_answer:
  "valid s \<Longrightarrow> sql_failAssistantTurn env i s = (Returned (ok t), s') \<Longrightarrow> failInTransaction env i s = (Returned (ok t), s')"
  by (auto simp: sql_failAssistantTurn_def ret_def split: sum.splits intro: serviceTransaction_ok)

end

end
