(* ===== verification/Turn_Properties.thy ===== *)
theory Turn_Properties
  imports Turn_Laws Tool_Properties
begin

text \<open>
  The statements of the turn services over the tables of the in-memory store, with rows that the services
  decode, as an instance of \<open>turn_statements\<close>; and the properties of the services.
\<close>

section \<open>Rows of the tables\<close>

definition nullable_column :: "string option \<Rightarrow> sql_value" where
  "nullable_column r = SqlJs (case r of Some s \<Rightarrow> JString s | None \<Rightarrow> JNull)"

definition conversation_columns :: "conversation \<Rightarrow> query_row" where
  "conversation_columns c =
     [(''id'', SqlJs (JString (cv_id c))), (''organization_id'', SqlJs (JString (cv_organizationId c))),
      (''workspace_id'', SqlJs (JString (cv_workspaceId c))), (''surface'', SqlJs (JString (cv_surface c))),
      (''assistant_key'', SqlJs (JString (cv_assistantKey c))),
      (''status'', SqlJs (JString (show_conversation_status (cv_status c)))),
      (''created_by_user_id'', SqlJs (JString (cv_createdByUserId c))), (''created_at'', SqlDate (cv_createdAt c)),
      (''updated_at'', SqlDate (cv_updatedAt c))]"

definition turn_columns :: "assistant_turn \<Rightarrow> query_row" where
  "turn_columns t =
     [(''id'', SqlJs (JString (tn_id t))), (''conversation_id'', SqlJs (JString (tn_conversationId t))),
      (''organization_id'', SqlJs (JString (tn_organizationId t))), (''workspace_id'', SqlJs (JString (tn_workspaceId t))),
      (''role'', SqlJs (JString (show_turn_role (tn_role t)))), (''status'', SqlJs (JString (show_turn_status (tn_status t)))),
      (''actor_user_id'', nullable_column (tn_actorUserId t)), (''assistant_key'', nullable_column (tn_assistantKey t)),
      (''content'', SqlJs (JObject (tn_content t))), (''idempotency_key'', SqlJs (JString (tn_idempotencyKey t))),
      (''openclaw_session_ref'', nullable_column (tn_openclawSessionRef t)), (''openclaw_run_ref'', nullable_column (tn_openclawRunRef t)),
      (''created_at'', SqlDate (tn_createdAt t)), (''updated_at'', SqlDate (tn_updatedAt t)),
      (''finalized_at'', case tn_finalizedAt t of Some d \<Rightarrow> SqlDate d | None \<Rightarrow> SqlJs JNull)]"

definition outcome_columns :: "tool_outcome \<Rightarrow> query_row" where
  "outcome_columns c =
     [(''id'', SqlJs (JString (oc_id c))), (''organization_id'', SqlJs (JString (oc_organizationId c))),
      (''workspace_id'', SqlJs (JString (oc_workspaceId c))), (''turn_id'', SqlJs (JString (oc_turnId c))),
      (''tool_name'', SqlJs (JString (oc_toolName c))), (''tool_call_id'', SqlJs (JString (oc_toolCallId c))),
      (''idempotency_key'', SqlJs (JString (oc_idempotencyKey c))),
      (''status'', SqlJs (JString (show_outcome_status (oc_status c)))),
      (''request_summary'', SqlJs (JObject (oc_requestSummary c))), (''result_summary'', SqlJs (JObject (oc_resultSummary c))),
      (''target_ref'', nullable_column (oc_targetRef c)), (''created_at'', SqlDate (oc_createdAt c)),
      (''updated_at'', SqlDate (oc_updatedAt c)),
      (''completed_at'', case oc_completedAt c of Some d \<Rightarrow> SqlDate d | None \<Rightarrow> SqlJs JNull)]"

text \<open>What decoding makes of a row: blank optional texts are read as absent.\<close>

definition turn_seen :: "assistant_turn \<Rightarrow> assistant_turn" where
  "turn_seen t = t\<lparr>tn_assistantKey := nonblank (tn_assistantKey t), tn_openclawSessionRef := nonblank (tn_openclawSessionRef t),
     tn_openclawRunRef := nonblank (tn_openclawRunRef t)\<rparr>"

definition turn_ids_ok :: "assistant_turn \<Rightarrow> bool" where
  "turn_ids_ok t \<longleftrightarrow> opaqueIdPattern (tn_organizationId t) \<and> opaqueIdPattern (tn_workspaceId t) \<and>
     (case tn_actorUserId t of Some u \<Rightarrow> opaqueIdPattern u | None \<Rightarrow> True)"

lemma decoding_simps [simp]:
  "decoding (Returned x) k = k x" "decoding (Thrown e) k = Thrown e"
  by (simp_all add: decoding_def)

lemma sql_text [simp]: "sql_String host (SqlJs (JString s)) = Returned s"
  by (simp add: sql_String_def js_String_def)

lemma sql_id_text: "sql_id host kind (SqlJs (JString s)) = (if opaqueIdPattern s then Returned s else Thrown (DomainThrow (invalidIdError (id_kind_name kind) (JString s))))"
  by (simp add: sql_id_def or_throw_def makeId_def makeOpaqueId_def parseOpaqueId_def)

lemma parse_shown [simp]:
  "parseAssistantConversationStatus (JString (show_conversation_status cs)) = ok cs"
  "parseAssistantTurnRole (JString (show_turn_role r)) = ok r"
  "parseAssistantTurnStatus (JString (show_turn_status ts)) = ok ts"
  "parseAssistantToolOutcomeStatus (JString (show_outcome_status os)) = ok os"
  unfolding parseAssistantConversationStatus_def parseAssistantTurnRole_def parseAssistantTurnStatus_def parseAssistantToolOutcomeStatus_def
  by (simp_all add: conversation_status_enum.parse_ok_iff turn_role_enum.parse_ok_iff turn_status_enum.parse_ok_iff
      outcome_status_enum.parse_ok_iff)

lemma decode_simps [simp]:
  "or_throw (ok x) = Returned x" "as_js (SqlJs v) = v" "parseDate host (SqlDate d) = Returned d"
  "stringOrNull (nullable_column r) = nonblank r" "jsonRecord (SqlJs (JObject kvs)) = kvs"
  "optionalDate host (case fa of Some d \<Rightarrow> SqlDate d | None \<Rightarrow> SqlJs JNull) = Returned fa"
  by (auto simp: or_throw_def as_js_def parseDate_def stringOrNull_def nullable_column_def nonblank_def jsonRecord_def optionalDate_def
      is_nullish_def Let_def split: option.splits)

lemma nullable_column_id:
  "optionalId host kind (nullable_column r) =
     (case r of Some u \<Rightarrow> if opaqueIdPattern u then Returned r else Thrown (DomainThrow (invalidIdError (id_kind_name kind) (JString u)))
      | None \<Rightarrow> Returned r)"
  by (auto simp: optionalId_def nullable_column_def is_nullish_def sql_id_text split: option.splits)

lemma rowToTurn_columns:
  "rowToTurn host (turn_columns t) = Returned u \<longleftrightarrow> turn_ids_ok t \<and> u = turn_seen t"
  by (cases t) (auto simp: rowToTurn_def turn_columns_def column_def sql_id_text turn_ids_ok_def turn_seen_def nullable_column_id
      split: option.splits if_splits)

lemma rowToConversation_columns:
  "rowToConversation host (conversation_columns c) = Returned d \<longleftrightarrow>
     opaqueIdPattern (cv_organizationId c) \<and> opaqueIdPattern (cv_workspaceId c) \<and> opaqueIdPattern (cv_createdByUserId c) \<and> d = c"
  by (auto simp: rowToConversation_def conversation_columns_def column_def sql_id_text split: if_splits)

lemma rowToToolOutcome_columns:
  "rowToToolOutcome host (outcome_columns c) = Returned d \<longleftrightarrow>
     opaqueIdPattern (oc_organizationId c) \<and> opaqueIdPattern (oc_workspaceId c) \<and> d = c\<lparr>oc_targetRef := nonblank (oc_targetRef c)\<rparr>"
  by (cases c) (auto simp: rowToToolOutcome_def outcome_columns_def column_def sql_id_text split: if_splits)

section \<open>The statements over the tables\<close>

text \<open>The clock of a transaction is the counter of the store; an insert draws an id, which must be free.\<close>

definition insert_conversation_row :: "(nat \<Rightarrow> string) \<Rightarrow> string \<Rightarrow> string \<Rightarrow> string \<Rightarrow> string \<Rightarrow> string \<Rightarrow> (runtime_store, execute_result) step" where
  "insert_conversation_row uuid org ws surface assistant user st =
     (let c = \<lparr>cv_id = uuid (rs_uuids st), cv_organizationId = org, cv_workspaceId = ws, cv_surface = surface,
            cv_assistantKey = assistant, cv_status = OpenConversation, cv_createdByUserId = user,
            cv_createdAt = rs_sequence st, cv_updatedAt = rs_sequence st\<rparr>
      in if map_get (rs_conversations st) (cv_id c) \<noteq> None then (Thrown (SqlState ''23505''), st)
         else (Returned (RowArray [conversation_columns c]),
               drawn st\<lparr>rs_conversations := map_set (cv_id c) c (rs_conversations st)\<rparr>))"

definition rows_where :: "('r \<Rightarrow> query_row) \<Rightarrow> ('r \<Rightarrow> bool) \<Rightarrow> (string, 'r) js_map \<Rightarrow> execute_result" where
  "rows_where columns p m = RowArray (map columns (filter p (map_values m)))"

definition inserted_turn_row :: "(nat \<Rightarrow> string) \<Rightarrow> turn_values \<Rightarrow> runtime_store \<Rightarrow> assistant_turn" where
  "inserted_turn_row uuid n st =
     \<lparr>tn_id = uuid (rs_uuids st), tn_conversationId = nt_conversationId n, tn_organizationId = nt_organizationId n,
      tn_workspaceId = nt_workspaceId n, tn_role = nt_role n, tn_status = nt_status n, tn_actorUserId = nt_actorUserId n,
      tn_assistantKey = nt_assistantKey n, tn_content = nt_content n, tn_idempotencyKey = nt_idempotencyKey n,
      tn_openclawSessionRef = nt_openclawSessionRef n, tn_openclawRunRef = nt_openclawRunRef n,
      tn_createdAt = rs_sequence st, tn_updatedAt = rs_sequence st,
      tn_finalizedAt = (if nt_finalized n then Some (rs_sequence st) else None)\<rparr>"

definition insert_turn_row :: "(nat \<Rightarrow> string) \<Rightarrow> turn_values \<Rightarrow> (runtime_store, execute_result) step" where
  "insert_turn_row uuid n st =
     (let t = inserted_turn_row uuid n st in
      if map_get (rs_conversations st) (nt_conversationId n) = None then (Thrown (SqlState ''23503''), st)
      else if filter (same_key t) (map_values (rs_turns st)) \<noteq> [] then (Returned (RowArray []), st)
      else if map_get (rs_turns st) (tn_id t) \<noteq> None then (Thrown (SqlState ''23505''), st)
      else (Returned (RowArray [turn_columns t]), drawn st\<lparr>rs_turns := map_set (tn_id t) t (rs_turns st)\<rparr>))"

definition update_turn_row ::
  "string \<Rightarrow> (assistant_turn \<Rightarrow> bool) \<Rightarrow> (js_date \<Rightarrow> assistant_turn \<Rightarrow> assistant_turn) \<Rightarrow> (runtime_store, execute_result) step" where
  "update_turn_row k guard change st =
     (case map_get (rs_turns st) k of
        Some t \<Rightarrow>
          if guard t
          then (Returned (RowsObject [turn_columns (change (rs_sequence st) t)]),
                st\<lparr>rs_turns := map_set k (change (rs_sequence st) t) (rs_turns st)\<rparr>)
          else (Returned (RowsObject []), st)
      | None \<Rightarrow> (Returned (RowsObject []), st))"

definition turn_tables :: "(nat \<Rightarrow> string) \<Rightarrow> runtime_store turn_tx" where
  "turn_tables uuid =
     \<lparr>ls_insertConversation = insert_conversation_row uuid,
      ls_selectConversation = (\<lambda>cid org ws st. (Returned (rows_where conversation_columns
        (\<lambda>c. cv_id c = cid \<and> cv_organizationId c = org \<and> cv_workspaceId c = ws) (rs_conversations st)), st)),
      ls_insertTurn = insert_turn_row uuid,
      ls_findTurn = (\<lambda>org cid ik st. (Returned (rows_where turn_columns (has_key org cid ik) (rs_turns st)), st)),
      ls_selectTurn = (\<lambda>lock k org ws st. (Returned (rows_where turn_columns
        (\<lambda>t. tn_id t = k \<and> tn_organizationId t = org \<and> tn_workspaceId t = ws) (rs_turns st)), st)),
      ls_streamTurn = (\<lambda>k org ws c. update_turn_row k (of_assistant org ws {Queued, Streaming}) (streamed_turn c)),
      ls_claimTurn = (\<lambda>k org ws. update_turn_row k (of_assistant org ws {Queued, Streaming}) claimed_turn),
      ls_finishTurn = (\<lambda>k org ws c sr rr. update_turn_row k (of_assistant org ws {Finalizing})
        (\<lambda>at t. (finalized_turn c sr rr at t)\<lparr>tn_openclawSessionRef := sr, tn_openclawRunRef := rr\<rparr>)),
      ls_failTurn = (\<lambda>k org ws c. update_turn_row k (of_assistant org ws {Queued, Streaming, Finalizing}) (failed_turn c))\<rparr>"

definition tables_env :: "(nat \<Rightarrow> string) \<Rightarrow> date_host \<Rightarrow> runtime_store turn_env" where
  "tables_env uuid host = \<lparr>tv_database = tool_database, tv_undo = memory_undo, tv_authorizationPort = None, tv_dates = host,
     tv_tx = turn_tables uuid\<rparr>"

definition turns_valid :: "runtime_store \<Rightarrow> bool" where
  "turns_valid st \<longleftrightarrow> keys_distinct (rs_turns st) \<and> (\<forall>k t. map_get (rs_turns st) k = Some t \<longrightarrow> tn_id t = k \<and> turn_ids_ok t)"

definition table_turns :: "runtime_store \<Rightarrow> turn_map" where
  "table_turns st k = map_option turn_seen (map_get (rs_turns st) k)"

lemma turn_seen_sel [simp]:
  "tn_id (turn_seen t) = tn_id t" "tn_conversationId (turn_seen t) = tn_conversationId t" "tn_organizationId (turn_seen t) = tn_organizationId t"
  "tn_workspaceId (turn_seen t) = tn_workspaceId t" "tn_role (turn_seen t) = tn_role t" "tn_status (turn_seen t) = tn_status t"
  "tn_idempotencyKey (turn_seen t) = tn_idempotencyKey t"
  by (simp_all add: turn_seen_def)

lemma nonblank_idem [simp]: "nonblank (nonblank r) = nonblank r"
  by (simp add: nonblank_def split: option.splits)

lemma has_key_seen [simp]: "has_key org cid ik (turn_seen t) = has_key org cid ik t" "of_assistant org ws S (turn_seen t) = of_assistant org ws S t"
  by (simp_all add: has_key_def of_assistant_def)

lemma first_row_simps [simp]:
  "first_row (RowArray []) = None" "first_row (RowsObject []) = None" "first_row (RowArray (x # xs)) = Some x" "first_row (RowsObject (x # xs)) = Some x"
  by (simp_all add: first_row_def queryRows_def)

lemma update_turn_law:
  assumes "\<And>t. guard t \<longleftrightarrow> guard (turn_seen t)" "\<And>at t. turn_seen (change at t) = change' at (turn_seen t)"
    and "\<And>at t. tn_id (change at t) = tn_id t \<and> turn_ids_ok (change at t) = turn_ids_ok t"
  shows "updates_turn (rowToTurn host) turns_valid table_turns k guard change' (update_turn_row k guard change)"
  unfolding updates_turn_def
proof (intro allI impI)
  fix s r s' assume v: "turns_valid s" and run: "update_turn_row k guard change s = (Returned r, s')"
  show "turns_valid s' \<and> (case first_row r of
          None \<Rightarrow> table_turns s' = table_turns s \<and> (\<forall>t. table_turns s k = Some t \<longrightarrow> \<not> guard t)
        | Some row \<Rightarrow> \<exists>t at. table_turns s k = Some t \<and> guard t \<and> table_turns s' = (table_turns s)(k \<mapsto> change' at t) \<and>
            (\<forall>d. rowToTurn host row = Returned d \<longrightarrow> d = change' at t))"
  proof (cases "\<exists>t. map_get (rs_turns s) k = Some t \<and> guard t")
    case False
    then have "s' = s" "first_row r = None" using run by (auto simp: update_turn_row_def split: option.splits)
    with v False assms(1) show ?thesis by (auto simp: table_turns_def)
  next
    case True
    then obtain t where t: "map_get (rs_turns s) k = Some t" "guard t" by blast
    let ?u = "change (rs_sequence s) t"
    have s': "s' = s\<lparr>rs_turns := map_set k ?u (rs_turns s)\<rparr>" "r = RowsObject [turn_columns ?u]"
      using run t by (auto simp: update_turn_row_def)
    have "turns_valid s'" using v t assms(3) by (auto simp: turns_valid_def s' keys_distinct_set)
    moreover have "table_turns s' = (table_turns s)(k \<mapsto> change' (rs_sequence s) (turn_seen t))"
      by (auto simp: table_turns_def fun_eq_iff s' assms(2))
    ultimately show ?thesis using t assms(1,2) by (auto simp: s' table_turns_def rowToTurn_columns)
  qed
qed

lemma first_row_where:
  assumes "first_row (rows_where columns p m) = Some row"
  obtains r where "r \<in> set (map_values m)" "p r" "row = columns r"
proof -
  have "row \<in> set (map columns (filter p (map_values m)))"
    using assms by (cases "map columns (filter p (map_values m))") (auto simp: rows_where_def)
  with that show ?thesis by auto
qed

lemma stored_turn: "turns_valid s \<Longrightarrow> t \<in> set (map_values (rs_turns s)) \<Longrightarrow> map_get (rs_turns s) (tn_id t) = Some t"
  by (auto simp: turns_valid_def)

lemma ran_table_turns: "turns_valid s \<Longrightarrow> ran (table_turns s) = turn_seen ` set (map_values (rs_turns s))"
proof -
  assume "turns_valid s"
  then have "ran (map_of (rs_turns s)) = set (map_values (rs_turns s))" by (simp add: turns_valid_def ran_distinct)
  moreover have "ran (table_turns s) = turn_seen ` ran (map_of (rs_turns s))" by (auto simp: ran_def table_turns_def)
  ultimately show ?thesis by simp
qed

lemma seen_row:
  assumes "turns_valid s" "first_row (rows_where turn_columns p (rs_turns s)) = Some row" "rowToTurn host row = Returned t"
  shows "table_turns s (tn_id t) = Some t \<and> (\<exists>u. p u \<and> t = turn_seen u)"
proof -
  obtain u where "u \<in> set (map_values (rs_turns s))" "p u" "row = turn_columns u" by (rule first_row_where[OF assms(2)])
  with assms(3) show ?thesis by (auto simp: rowToTurn_columns table_turns_def stored_turn[OF assms(1)])
qed

lemma insert_turn_cases:
  assumes "insert_turn_row uuid n s = (Returned r, s')"
  obtains (taken) u where "u \<in> set (map_values (rs_turns s))" "has_key (nt_organizationId n) (nt_conversationId n) (nt_idempotencyKey n) u"
      "first_row r = None" "s' = s"
  | (fresh) t where "t = inserted_turn_row uuid n s" "\<forall>u \<in> set (map_values (rs_turns s)). \<not> same_key t u" "map_get (rs_turns s) (tn_id t) = None"
      "first_row r = Some (turn_columns t)" "s' = drawn s\<lparr>rs_turns := map_set (tn_id t) t (rs_turns s)\<rparr>"
proof (cases "filter (same_key (inserted_turn_row uuid n s)) (map_values (rs_turns s))")
  case Nil
  then show ?thesis using assms fresh[OF refl]
    by (auto simp: insert_turn_row_def Let_def filter_empty_conv split: if_splits)
next
  case (Cons u us)
  then have "u \<in> set (map_values (rs_turns s))" "same_key (inserted_turn_row uuid n s) u"
    using list.set_intros(1)[of u us] by (auto simp flip: Cons)
  then show ?thesis using assms taken[of u] Cons
    by (auto simp: insert_turn_row_def Let_def inserted_turn_row_def split: if_splits)
qed

interpretation turn_rows: turn_statements "tables_env uuid host" turns_valid table_turns "\<lambda>c. c"
proof
  fix s r s' n row t
  assume v: "turns_valid s" and run: "ls_insertTurn (tv_tx (tables_env uuid host)) n s = (Returned r, s')"
    and row: "first_row r = Some row" "rowToTurn (tv_dates (tables_env uuid host)) row = Returned t"
  from run have "insert_turn_row uuid n s = (Returned r, s')" by (simp add: tables_env_def turn_tables_def)
  then show "turns_valid s' \<and> inserted_as (\<lambda>c. c) n t \<and> table_turns s (tn_id t) = None \<and> (\<forall>u \<in> ran (table_turns s). \<not> same_key t u) \<and>
      table_turns s' = (table_turns s)(tn_id t \<mapsto> t)"
  proof (cases rule: insert_turn_cases)
    case (fresh u)
    have "row = turn_columns u" using row(1) fresh(4) by simp
    then have t: "turn_ids_ok u" "t = turn_seen u" using row(2) rowToTurn_columns by blast+
    have "inserted_as (\<lambda>c. c) n t" using t fresh(1) by (simp add: inserted_as_def inserted_turn_row_def turn_seen_def)
    moreover have "turns_valid s'" using v t fresh by (auto simp: turns_valid_def drawn_def)
    moreover have "table_turns s' = (table_turns s)(tn_id t \<mapsto> t)" using fresh t by (auto simp: table_turns_def drawn_def fun_eq_iff)
    ultimately show ?thesis using fresh t ran_table_turns[OF v] by (auto simp: table_turns_def)
  qed (use row in simp)
next
  fix s r s' n
  assume v: "turns_valid s" and run: "ls_insertTurn (tv_tx (tables_env uuid host)) n s = (Returned r, s')" and none: "first_row r = None"
  from run have "insert_turn_row uuid n s = (Returned r, s')" by (simp add: tables_env_def turn_tables_def)
  then show "turns_valid s' \<and> table_turns s' = table_turns s \<and>
      (\<exists>t \<in> ran (table_turns s). has_key (nt_organizationId n) (nt_conversationId n) (nt_idempotencyKey n) t)"
    by (cases rule: insert_turn_cases) (use v none ran_table_turns[OF v] in auto)
next
  fix s r s' k org ws lock
  assume "turns_valid s" "ls_selectTurn (tv_tx (tables_env uuid host)) lock k org ws s = (Returned r, s')"
  then show "turns_valid s' \<and> table_turns s' = table_turns s \<and> (\<forall>row t. first_row r = Some row \<longrightarrow>
      rowToTurn (tv_dates (tables_env uuid host)) row = Returned t \<longrightarrow> table_turns s k = Some t \<and> tn_organizationId t = org \<and> tn_workspaceId t = ws)"
    by (auto simp: tables_env_def turn_tables_def dest!: seen_row)
next
  fix s r s' org cid ik
  assume "turns_valid s" "ls_findTurn (tv_tx (tables_env uuid host)) org cid ik s = (Returned r, s')"
  then show "turns_valid s' \<and> table_turns s' = table_turns s \<and> (\<forall>row t. first_row r = Some row \<longrightarrow>
      rowToTurn (tv_dates (tables_env uuid host)) row = Returned t \<longrightarrow> table_turns s (tn_id t) = Some t \<and> has_key org cid ik t)"
    by (auto simp: tables_env_def turn_tables_def dest!: seen_row)
next
  fix s r s' org ws surface assistant user
  assume "turns_valid s" "ls_insertConversation (tv_tx (tables_env uuid host)) org ws surface assistant user s = (Returned r, s')"
  then show "turns_valid s' \<and> table_turns s' = table_turns s"
    by (auto simp: tables_env_def turn_tables_def insert_conversation_row_def Let_def turns_valid_def table_turns_def fun_eq_iff drawn_def
        split: if_splits)
qed (auto simp: tables_env_def turn_tables_def tool_database_def memory_undo_def turns_valid_def table_turns_def turn_ids_ok_def turn_seen_def
    streamed_turn_def claimed_turn_def finalized_turn_def failed_turn_def of_assistant_def intro!: update_turn_law)

section \<open>A conversation to run\<close>

definition demo_host :: date_host where
  "demo_host = \<lparr>dh_parse = (\<lambda>_. None), dh_string = (\<lambda>_. [])\<rparr>"

definition chat_env :: "runtime_store turn_env" where
  "chat_env = tables_env demo_uuid demo_host"

definition chat_message :: user_turn_input where
  "chat_message = \<lparr>cx_orgId = tool_org, cx_workspaceId = tool_org, cx_actor = \<lparr>ra_userId = tool_org, ra_roleKeys = [''owner'']\<rparr>,
     ui_conversationId = ''a'', ui_idempotencyKey = '' m '', ui_content = [(''text'', JString ''hi'')]\<rparr>"

definition chat_delta :: delta_input where
  "chat_delta = \<lparr>cx_orgId = tool_org, cx_workspaceId = tool_org, cx_actor = \<lparr>ra_userId = tool_org, ra_roleKeys = [''owner'']\<rparr>,
     di_turnId = ''aa'', di_deltaText = ''x''\<rparr>"

definition chat_final :: finalize_turn_input where
  "chat_final = \<lparr>cx_orgId = tool_org, cx_workspaceId = tool_org, cx_actor = \<lparr>ra_userId = tool_org, ra_roleKeys = [''owner'']\<rparr>,
     zi_turnId = ''aa'', zi_content = [(''text'', JString ''x'')], zi_openclawSessionRef = None, zi_openclawRunRef = Some '' ''\<rparr>"

definition answer_of :: "('s, 'a result) step \<Rightarrow> 's \<Rightarrow> 'a option" where
  "answer_of m s = (case m s of (Returned (Inr x), _) \<Rightarrow> Some x | _ \<Rightarrow> None)"

lemma answer_ofD: "answer_of m s = Some x \<Longrightarrow> m s = (Returned (ok x), snd (m s))"
  by (auto simp: answer_of_def split: prod.splits js_result.splits sum.splits)

lemma turns_valid_check:
  "distinct (map fst (rs_turns st)) \<Longrightarrow> list_all (\<lambda>(k, t). tn_id t = k \<and> turn_ids_ok t) (rs_turns st) \<Longrightarrow> turns_valid st"
  by (fastforce simp: turns_valid_def list_all_iff dest: map_of_SomeD)

lemma turn_store_turns: "turns_valid turn_store" "keys_unique (table_turns turn_store)"
proof -
  have "distinct (map fst (rs_turns turn_store))" by code_simp
  moreover have "list_all (\<lambda>(k, t). tn_id t = k \<and> turn_ids_ok t) (rs_turns turn_store)" by code_simp
  ultimately show "turns_valid turn_store" by (rule turns_valid_check)
  have "map fst (rs_turns turn_store) = [''aa'']" by code_simp
  then show "keys_unique (table_turns turn_store)"
    by (auto simp: keys_unique_def table_turns_def dest!: map_of_SomeD)
qed

lemma chat_answers:
  "map_option tn_status (answer_of (sql_finalizeAssistantTurn chat_env chat_final) turn_store) = Some Final"
  "map_option (\<lambda>t. content_text (tn_content t)) (answer_of (sql_appendAssistantDelta chat_env chat_delta) turn_store) = Some ''x''"
  "map_option tn_status (answer_of (sql_appendUserTurn chat_env chat_message) turn_store) = Some Final"
  by code_simp+

section \<open>Properties\<close>

text \<open>
  C20. The turn services implement the machine of turns: let the statements mean what \<open>turn_statements\<close> says.
  Every call of a service returns, whatever the database throws. An error leaves all turns as they were; an
  answer is a turn that was there already, a message or a queued turn that was inserted under a fresh key, or
  an assistant's turn that was moved along its life cycle, and the turns change by exactly that one.
\<close>

theorem turn_services_refine_the_machine:
  assumes "turn_statements env valid turns stored" "valid s" "runTurnCall env c s = (q, s')"
  shows "valid s' \<and> (\<exists>r. q = Returned r \<and> turn_machine (turns s) r (turns s'))"
  using turn_statements.call_refines[OF assms] .

theorem turn_services_refine_the_machine_witness:
  "\<exists>t. fst (runTurnCall chat_env (FinalizeAssistantTurn chat_final) turn_store) = Returned (ok t) \<and>
     turn_machine (table_turns turn_store) (ok t) (table_turns (snd (runTurnCall chat_env (FinalizeAssistantTurn chat_final) turn_store)))"
proof -
  obtain t where t: "answer_of (sql_finalizeAssistantTurn chat_env chat_final) turn_store = Some t" using chat_answers(1) by auto
  from turn_services_refine_the_machine[OF turn_rows.turn_statements_axioms[of demo_uuid demo_host] turn_store_turns(1), of "FinalizeAssistantTurn chat_final"]
  show ?thesis using answer_ofD[OF t] by (auto simp: chat_env_def prod_eq_iff)
qed

text \<open>
  C32. Over any sequence of calls (new conversations, messages, starts, deltas, finalisations, failures), every
  turn stays, with its identity; its status only advances along the life cycle; messages and finished turns
  are not altered at all; no idempotency key comes to be used twice in a conversation; and no turn is ever
  left behind in the intermediate state of a finalisation.
\<close>

theorem service_turns_follow_their_life_cycle:
  assumes "turn_statements env valid turns stored" "valid s" "(turn_service_step env)\<^sup>*\<^sup>* s s'"
  shows "(\<forall>k t. turns s k = Some t \<longrightarrow> (\<exists>u. turns s' k = Some u \<and> same_identity t u \<and>
        turn_progress (tn_status t) (tn_status u) \<and>
        (isTerminalAssistantTurnStatus (tn_status t) \<or> tn_role t \<noteq> AssistantTurn \<longrightarrow> u = t))) \<and>
    (keys_unique (turns s) \<longrightarrow> keys_unique (turns s')) \<and>
    ((\<forall>t \<in> ran (turns s). tn_status t \<noteq> Finalizing) \<longrightarrow> (\<forall>t \<in> ran (turns s'). tn_status t \<noteq> Finalizing))"
  using turn_statements.steps_keep[OF assms(1,3,2)] unfolding turn_kept_def by blast

theorem service_turns_follow_their_life_cycle_witness:
  "\<exists>t u. table_turns turn_store ''aa'' = Some t \<and>
     table_turns (snd (sql_finalizeAssistantTurn chat_env chat_final turn_store)) ''aa'' = Some u \<and>
     same_identity t u \<and> turn_progress (tn_status t) (tn_status u)"
proof -
  let ?s' = "snd (sql_finalizeAssistantTurn chat_env chat_final turn_store)"
  have "turn_service_step chat_env turn_store ?s'"
    using turn_service_step.turn[of chat_env "FinalizeAssistantTurn chat_final" turn_store] by (simp add: prod_eq_iff)
  then have "(turn_service_step (tables_env demo_uuid demo_host))\<^sup>*\<^sup>* turn_store ?s'" by (simp add: chat_env_def)
  note kept = service_turns_follow_their_life_cycle[OF turn_rows.turn_statements_axioms turn_store_turns(1) this]
  have "map_get (rs_turns turn_store) ''aa'' \<noteq> None" by code_simp
  then obtain t where "table_turns turn_store ''aa'' = Some t" by (auto simp: table_turns_def)
  with kept show ?thesis by blast
qed





text \<open>
  C38. Rows and records correspond: a row of the turns, of the conversations or of the tool outcomes decodes
  exactly when its organization, workspace and user ids are well-formed identifiers, and then to the record it
  was made of, with blank optional texts read as absent.
\<close>

theorem rows_decode_to_their_records:
  "(rowToTurn host (turn_columns t) = Returned u \<longleftrightarrow> turn_ids_ok t \<and> u = turn_seen t) \<and>
   (rowToConversation host (conversation_columns c) = Returned d \<longleftrightarrow>
      opaqueIdPattern (cv_organizationId c) \<and> opaqueIdPattern (cv_workspaceId c) \<and> opaqueIdPattern (cv_createdByUserId c) \<and> d = c) \<and>
   (rowToToolOutcome host (outcome_columns o') = Returned p \<longleftrightarrow>
      opaqueIdPattern (oc_organizationId o') \<and> opaqueIdPattern (oc_workspaceId o') \<and> p = o'\<lparr>oc_targetRef := nonblank (oc_targetRef o')\<rparr>)"
  by (simp add: rowToTurn_columns rowToConversation_columns rowToToolOutcome_columns)

end
