(* ===== verification/Spec2Isabelle.thy ===== *)
theory Spec2Isabelle
  imports Shared_Kernel Board_Refinement Scenario Command_Properties Store_Properties Assistant_Properties Authorization Task_Domain Tool_Values
    Task_Tool_Properties Done_Properties Turn_Properties
begin

text \<open>
  A verification development of three bounded contexts of Opzava: the Dev Board (\<^verbatim>\<open>src/packages/dev-board\<close>), the
  assistant runtime with its task tools (\<^verbatim>\<open>src/packages/runtime-control\<close>) and the governed completion of tasks
  (\<^verbatim>\<open>src/packages/project-management\<close>), over the shared kernel (\<^verbatim>\<open>src/packages/shared-kernel\<close>), the authorization
  ports (\<^verbatim>\<open>src/packages/ports\<close>) and the tenant boundary of the PostgreSQL adapter
  (\<^verbatim>\<open>src/packages/adapters/src/postgres/tenant-context.ts\<close> and \<^verbatim>\<open>errors.ts\<close>).

  \<^bold>\<open>The Dev Board.\<close> A Dev Board holds, per organization and workspace, proposals, DevTickets in lanes, a Todo
  queue with integer ranks, dependencies between tickets, and the records of tasks imported from an older
  system. It changes only through the twenty commands of \<^verbatim>\<open>DevBoardPlanningCommands\<close>. A command runs in a
  tenant transaction (\<^verbatim>\<open>withTenant\<close>), reserves or replays a receipt under its idempotency key
  (\<^verbatim>\<open>CommandReceiptStore\<close>), reads rows of the planning store, checks versions and permissions, makes its one
  mutation behind a savepoint (\<^verbatim>\<open>executeRiskyMutation\<close>), appends to the planning and activity ledgers, and
  finalises the receipt with the result it returns. A rejection is a value and is recorded in the receipt; an
  exception leaves the transaction.

  \<^bold>\<open>The assistant runtime.\<close> A conversation of a workspace holds turns; an assistant's turn is queued, streams
  deltas, and is finalised or fails. While it runs, the assistant calls tools. A tool call
  (\<^verbatim>\<open>executeRuntimeControlTaskTool\<close>) is parsed, claims a receipt for its turn and call id
  (\<^verbatim>\<open>recordStartedToolOutcome\<close>), consults the task services only when the claim was its own, and settles the
  receipt with the result (\<^verbatim>\<open>recordToolOutcome\<close>); a repeated call replays the receipt.

  \<^bold>\<open>The end of a task.\<close> A task is completed only by the Done command (\<^verbatim>\<open>markTaskDone\<close>): it needs the attestation
  of a person, an approved quality review, and a confirmation issued for that task, user and workspace
  (\<^verbatim>\<open>issueDoneConfirmation\<close>), which it consumes in the transaction that completes the task. Moving a task
  (\<^verbatim>\<open>moveTask\<close>) never completes one. Refused attempts are audited.

  \<^bold>\<open>Theories and sources\<close>, in the order of the imports.
  \<^item> \<open>Js_Prelude\<close>: the part of TypeScript that the code uses. JavaScript values, insertion-ordered maps, stable
    sort, results and errors, state-passing steps with exceptions, and the shared lemmas and collections.
  \<^item> \<open>Shared_Kernel\<close>: \<^verbatim>\<open>shared-kernel/src\<close> \<^verbatim>\<open>result\<close>, \<^verbatim>\<open>ids\<close>, \<^verbatim>\<open>money\<close>, \<^verbatim>\<open>refs\<close>.
  \<^item> \<open>Canonical_Json\<close>, \<open>Classification\<close>, \<open>Planning_Domain\<close>: \<^verbatim>\<open>dev-board/src/domain\<close>. Canonical JSON and content
    hashes, the enumerations and their parsers, the Change Risk policy, envelopes, lanes, proposals.
  \<^item> \<open>Planning_Store\<close>, \<open>Todo_Queue\<close>, \<open>Dependency_Graph\<close>, \<open>Legacy_Records\<close>, \<open>Receipts\<close>, \<open>Ledger\<close>: the ports of
    \<^verbatim>\<open>dev-board/src/application\<close> with the in-memory implementations of \<^verbatim>\<open>dev-board/src/adapters\<close>. One record per
    store, one definition per operation. The locale \<open>versioned_row\<close> is the contract of the compare-and-set
    updates, \<open>append_ledger\<close> the one of the ledgers, \<open>keyed_map\<close> the one of maps; each is interpreted on the
    model's own operations.
  \<^item> \<open>Tenant\<close>: \<^verbatim>\<open>withTenant\<close>, its session checks and \<^verbatim>\<open>mapDatabaseError\<close>.
  \<^item> \<open>Command_Spine\<close>: the state of the whole system (\<open>world\<close>: store, receipts, ledger, clock, source of ids), the
    parameters from outside (\<open>runtime\<close>), and the helpers all commands share. \<open>Command_Laws\<close>: the laws of that
    spine, proved once for any command body (locales \<open>frame_relation\<close>, \<open>store_relation\<close>).
  \<^item> \<open>Proposal_Commands\<close>, \<open>Ticket_Commands\<close>, \<open>Dependency_Commands\<close>, \<open>Queue_Commands\<close>, \<open>Legacy_Commands\<close>: every
    command of \<^verbatim>\<open>dev-board-planning-commands.ts\<close>, statement by statement, with every rejection and throw.
  \<^item> \<open>Board_Invariant\<close>, \<open>Queue_Laws\<close> and the theories named \<open>_Preservation\<close>: the invariant of the board and its
    preservation by every command. \<open>Board\<close>: the commands as one datatype, the step relation \<open>board_step\<close>
    (commands, and the grants and legacy tasks that come from outside), reachable worlds.
  \<^item> \<open>Effects\<close> and the theories named \<open>_Effects\<close>: weakest preconditions for command bodies and, per command, the
    relation between the store before and after it. \<open>Board_Refinement\<close> collects these relations into the
    abstract board \<open>command_effect\<close> and proves that every command refines it.
  \<^item> \<open>Scenario\<close>: concrete boards, and commands that are accepted on them, evaluated by the simplifier.
    \<open>Command_Properties\<close>, \<open>Store_Properties\<close> and this theory state the properties.
  \<^item> \<open>Assistant_Domain\<close>, \<open>Runtime_Store\<close>: \<^verbatim>\<open>runtime-control/src/domain/assistant.ts\<close> and the in-memory conversation
    store, one definition per operation. \<open>Runtime_Laws\<close>: the contract of the store (\<open>store_change\<close>) and that every
    operation refines it. \<open>Runtime_Invariant\<close>, \<open>Runtime_Consequences\<close>: the invariant, its preservation and what follows
    from it. \<open>Assistant_Properties\<close> states the properties.
  \<^item> \<open>Authorization\<close>: the authorization ports, their shared contract, and the gate of the assistant services. The
    locale \<open>authorization_port\<close> is the rule both ports implement.
  \<^item> \<open>Task_Domain\<close>: \<^verbatim>\<open>project-management/src/domain/task.ts\<close>.
  \<^item> \<open>Outcome_Service\<close>: \<^verbatim>\<open>assistant-conversation-outcomes.ts\<close>. Its SQL statements are a parameter; the locale
    \<open>outcome_statements\<close> says what the service relies on of them.
  \<^item> \<open>Tool_Values\<close>, \<open>Tool_Harness\<close>: \<^verbatim>\<open>tool-execution-harness.ts\<close>. \<open>Tool_Properties\<close> interprets \<open>outcome_statements\<close>
    on the in-memory conversation store and states the properties of a run.
  \<^item> \<open>Task_Tools\<close>, \<open>Task_Tool_Properties\<close>: \<^verbatim>\<open>task-tools.ts\<close>, over the injected task services.
  \<^item> \<open>Turn_Service\<close>: \<^verbatim>\<open>assistant-conversation-lifecycle.ts\<close>, the decoding of rows and the six services for conversations and
    turns, over SQL statements that are a parameter. \<open>Turn_Laws\<close>: what the services rely on (locale \<open>turn_statements\<close>), the
    abstract machine of turns and the proof that every service refines it. \<open>Turn_Properties\<close> interprets the locale on
    statements over the tables of the in-memory store and states the properties.
  \<^item> \<open>Done_Command\<close>: the Done command, moves, confirmations and the audit of \<^verbatim>\<open>project-management/src/application/tasks.ts\<close>,
    with the step relation \<open>task_step\<close>. Its SQL statements are a parameter under the locale \<open>done_statements\<close>, which
    \<open>Done_Properties\<close> interprets on tables that execute the statements, and where the properties are stated.

  \<^bold>\<open>What is shown.\<close> For every reachable board: a ticket is in Todo exactly when it is in the queue, and then its
  approval names its present contract; hashes are right; the dependency graph is acyclic with live blockers;
  accepted proposals and their tickets name each other; ledgers are gap-free and append-only; no receipt stays
  open. For every command: it keeps the invariant and rows only advance; accepted, it does what its
  specification says; rejected, it writes nothing; thrown, it is undone; repeated, it replays; under a reused
  key it conflicts; outside a fit session it does not run. For the single commands: what reorder, approval,
  acceptance, rejection, archive, classification, dependency changes and import do, and that a well-formed draft
  is accepted. For the parts: the cycle search decides reachability, the rank arithmetic fits and stays within
  64 bits, optimistic locking loses no update, savepoints restore the store, canonical JSON identifies contents,
  the Change Risk policy is its declarative specification, money arithmetic is exact or refused, parsers accept
  exactly what they print. For the assistant runtime: after any operations turns and tool outcomes belong together
  and use their keys once; turns follow their life cycle; workspaces are isolated; repeated messages replay; tool
  outcomes finish once; a tool is consulted at most once per turn and call id, an answered execution has settled its
  receipt, and a repeated call gives the recorded execution; task tools never complete a task; tool arguments have a
  normal form; malformed arguments are recorded in bounded size; the search for an error status ends. For the
  services over the database: every call returns and refines the machine of turns, errors change nothing, a repeated
  message replays, no turn is left half finalised, and rows decode to the records they were made of. For
  tasks: a completion has passed its guards and its review, a confirmation completes at most one task once, and over
  any sequence of task commands every task that became done spent a confirmation of its own.

  \<^bold>\<open>Bounds.\<close> No fuel is used: the loops that are not structural terminate by a measure, the search for a cycle on
  the tickets not yet visited, \<open>sanitizeValue\<close> and \<open>errorStatus\<close> on the depth that the code itself bounds. Integers are unbounded as the code's \<^verbatim>\<open>bigint\<close> ranks and counters are, with the
  64-bit limit of ranks and the safe-integer limit of numbers written out where the code tests them. Keys of the
  store are colon-separated as in the code; the theorems that depend on keys being unambiguous assume a workspace
  id without a colon, and the tenant check gives the same for the organization id.

  \<^bold>\<open>Not modelled.\<close> The PostgreSQL adapters of the Dev Board are SQL whose meaning is the database server's; what
  they implement is the port modelled here. Row locks are void in the in-memory store; transactions of different
  commands are sequential. The creation and editing of tasks and the issue services are left out. Strings cover the Latin-1 part of UTF-16. SHA-256, the collation, the reading of dates, the clock, random ids
  and the database session are parameters. The other packages, the web application, the workers, the gateway and
  the vendored \<^verbatim>\<open>src/mainframe\<close> are outside this development.
\<close>

section \<open>Worlds of the examples\<close>

lemma demo_start_reachable: "reachable demo_runtime demo_start"
proof -
  let ?w = "empty_world\<lparr>w_store := grantActiveMembership demo_org ''u'' (w_store empty_world)\<rparr>"
  have "board_step demo_runtime empty_world ?w" by (rule board_step.membership)
  moreover have "board_step demo_runtime ?w demo_start"
    using board_step.role[of demo_runtime ?w demo_org "''u''" OwnerRole] by (simp add: demo_start_def)
  ultimately show ?thesis unfolding reachable_def by simp
qed

lemma legacy_board_reachable: "reachable demo_runtime legacy_board"
proof -
  let ?src = "\<lparr>l_id = ''l'', l_organizationId = demo_org, l_workspaceId = ''w'', l_status = ''todo'', l_assigneeUserId = None,
    l_cardNumber = 1, l_createdAt = 0, l_updatedAt = 0, l_row = [], l_evidenceRefs = []\<rparr>"
  have "legacy_board = demo_start\<lparr>w_store := (w_store demo_start)\<lparr>legacyTaskSources :=
      map_set ''l'' ?src (legacyTaskSources (w_store demo_start))\<rparr>\<rparr>"
    by (simp add: legacy_board_def demo_world_def demo_start_def empty_world_def empty_store_def grantActiveMembership_def
        grantOrganizationRole_def)
  then have "board_step demo_runtime demo_start legacy_board" using board_step.legacy_task[of demo_runtime demo_start "''l''" ?src] by simp
  with demo_start_reachable show ?thesis unfolding reachable_def by (rule rtranclp.rtrancl_into_rtrancl)
qed

definition imported_board :: world where
  "imported_board = snd (runCommand demo_runtime import_envelope (ImportLegacyDevTicket import_request) legacy_board)"

lemma demo_envelope_simps [simp]: "env_organizationId (demo_envelope n p vs) = demo_org" "env_workspaceId (demo_envelope n p vs) = ''w''"
  by (simp_all add: demo_envelope_def)

lemma demo_runtime_simps [simp]: "rt_database demo_runtime = demo_database" "db_rollsBack demo_database"
  by (simp_all add: demo_runtime_def demo_database_def)

lemma reachable_run:
  assumes "reachable rt w" "colon_free (env_workspaceId e)"
  shows "reachable rt (snd (runCommand rt e c w))"
proof -
  have "board_step rt w (snd (runCommand rt e c w))" using assms(2) by (rule board_step.command) (rule surjective_pairing)
  with assms(1) show ?thesis unfolding reachable_def by (rule rtranclp.rtrancl_into_rtrancl)
qed

lemma imported_board_reachable: "reachable demo_runtime imported_board"
  unfolding imported_board_def
  by (rule reachable_run[OF legacy_board_reachable]) (use demo_scope(2) in \<open>simp add: import_envelope_def\<close>)

lemma imported_ticket:
  obtains h where "selectDevTicket (w_store imported_board) demo_org ''w'' ''l'' =
    Some (legacy_ticket import_envelope \<lparr>l_id = ''l'', l_organizationId = demo_org, l_workspaceId = ''w'', l_status = ''todo'',
      l_assigneeUserId = None, l_cardNumber = 1, l_createdAt = 0, l_updatedAt = 0, l_row = [], l_evidenceRefs = []\<rparr> ''u'' h)"
proof -
  note run = is_okD[OF import_accepted]
  have "command_effect demo_runtime import_envelope (ImportLegacyDevTicket import_request) (w_store legacy_board)
      (the_ok (runCommand demo_runtime import_envelope (ImportLegacyDevTicket import_request) legacy_board)) (w_store imported_board)"
    unfolding imported_board_def
    by (rule run_accepted[OF legacy_inv _ _ run]) (use demo_scope(2) in \<open>simp_all add: import_envelope_def legacy_board_def\<close>)
  moreover have "isActiveMember (w_store legacy_board) demo_org ''u''" by code_simp
  ultimately show ?thesis using that
    by (auto simp: imported_def first_import_def import_envelope_def import_request_def legacy_board_def demo_world_def empty_world_def
        selectLegacyTaskSource_def selectLegacyTaskAliasForUpdate_def empty_store_def importDisposition_def with_ticket_def
        selectDevTicket_def legacy_ticket_def)
qed

section \<open>What holds of every reachable board\<close>

text \<open>
  C3. In every reachable world a DevTicket is in the Todo lane exactly when it stands in the Todo queue of its
  workspace. A ticket in Todo is not archived and carries an approval of exactly the contract version and
  content hash it has now; every other ticket is in Backlog and carries no approval. The stored hash is the
  hash of the stored contract.
\<close>

theorem tickets_of_reachable_boards:
  assumes "reachable rt w" "colon_free org" "colon_free ws" "selectDevTicket (w_store w) org ws tid = Some t"
  shows "(t_lane t = Todo \<longleftrightarrow> tid \<in> set (todo_order (rt_localeCompare rt) (w_store w) org ws)) \<and>
    (if t_lane t = Todo
     then t_archivedAt t = None \<and> t_readyState t = Approved \<and> t_readyApprovalContractVersion t = Some (t_readyContractVersion t) \<and>
       t_readyApprovalContentHash t = Some (t_readyContractContentHash t)
     else t_lane t = Backlog \<and> t_readyState t = Draft \<and> t_readyApprovalContentHash t = None) \<and>
    computeReadyContractContentHash (rt_sha256 rt) (t_readyContractContent t) = Some (t_readyContractContentHash t)"
proof -
  let ?st = "w_store w"
  have inv: "board_inv (rt_sha256 rt) ?st" by (rule reachable_board_inv[OF assms(1)])
  have at: "map_get (devTickets ?st) (key org ws tid) = Some t" using assms(4) by (simp add: selectDevTicket_def)
  have "tid \<in> set (todo_order (rt_localeCompare rt) ?st org ws) \<longleftrightarrow> map_get (todoQueueMemberships ?st) (key org ws tid) \<noteq> None"
    using todo_order_distinct(2)[of ?st org ws "rt_localeCompare rt"] inv assms(2,3)
    by (simp add: board_inv_def dom_def band_def todoQueueMembership_def)
  also have "\<dots> \<longleftrightarrow> t_lane t = Todo" using inv at by (simp add: board_inv_def lanes_match_def)
  finally have lane: "t_lane t = Todo \<longleftrightarrow> tid \<in> set (todo_order (rt_localeCompare rt) ?st org ws)" by simp
  have "ticket_ok (rt_sha256 rt) t" using inv at by (auto simp: board_inv_def tickets_ok_def)
  then show ?thesis unfolding lane[symmetric] by (auto simp: ticket_ok_def hash_ok_def approved_def unapproved_def)
qed

theorem tickets_of_reachable_boards_witness:
  "\<exists>t. selectDevTicket (w_store imported_board) demo_org ''w'' ''l'' = Some t \<and> t_lane t = Backlog \<and>
     ''l'' \<notin> set (todo_order (rt_localeCompare demo_runtime) (w_store imported_board) demo_org ''w'')"
proof -
  obtain h where t: "selectDevTicket (w_store imported_board) demo_org ''w'' ''l'' =
    Some (legacy_ticket import_envelope \<lparr>l_id = ''l'', l_organizationId = demo_org, l_workspaceId = ''w'', l_status = ''todo'',
      l_assigneeUserId = None, l_cardNumber = 1, l_createdAt = 0, l_updatedAt = 0, l_row = [], l_evidenceRefs = []\<rparr> ''u'' h)"
    by (rule imported_ticket)
  then show ?thesis using tickets_of_reachable_boards[OF imported_board_reachable demo_scope t] by (simp add: legacy_ticket_def)
qed

text \<open>
  C2. Every command, accepted or rejected or thrown, keeps the whole invariant of the board: hashes, approvals,
  queue, acyclic dependencies with live blockers, and the links between accepted proposals and their tickets.
  No row is lost and every row only advances: its identity and origin stay, its version does not decrease, a
  proposal moves along its lifecycle.
\<close>

theorem commands_keep_the_board:
  assumes "board_inv (rt_sha256 rt) (w_store w)" "colon_free (env_workspaceId e)" "runCommand rt e c w = (r, w')"
  shows "board_inv (rt_sha256 rt) (w_store w') \<and> rows_advance (w_store w) (w_store w')"
  using run_leads[OF assms(2), of rt w c] assms(1,3) by (simp add: leads_def board_rel_def)

theorem commands_keep_the_board_witness:
  "let w' = snd (runCommand demo_runtime depend_envelope (AddDependency depend_request) queued_board)
   in board_inv (rt_sha256 demo_runtime) (w_store queued_board) \<and> board_inv (rt_sha256 demo_runtime) (w_store w') \<and>
      rows_advance (w_store queued_board) (w_store w')"
  using commands_keep_the_board[OF queued_inv, of depend_envelope "AddDependency depend_request"] queued_inv demo_scope(2)
  by (simp add: Let_def depend_envelope_def prod_eq_iff)

text \<open>
  C7. In every reachable world the active dependencies of a workspace form an acyclic graph, the dependent and
  the blocker of each exist, and no blocker is archived.
\<close>

theorem dependencies_of_reachable_boards:
  assumes "reachable rt w"
  shows "acyclic (depends_on (w_store w) org ws) \<and>
    (\<forall>d b. (d, b) \<in> depends_on (w_store w) org ws \<longrightarrow> selectDevTicket (w_store w) org ws d \<noteq> None \<and>
       (\<exists>t. selectDevTicket (w_store w) org ws b = Some t \<and> t_archivedAt t = None))"
proof -
  have inv: "graph_wf (w_store w)" "blockers_live (w_store w)" using reachable_board_inv[OF assms] by (auto simp: board_inv_def)
  have "selectDevTicket (w_store w) org ws d \<noteq> None \<and> (\<exists>t. selectDevTicket (w_store w) org ws b = Some t \<and> t_archivedAt t = None)"
    if edge: "(d, b) \<in> depends_on (w_store w) org ws" for d b
  proof -
    obtain g where g: "g \<in> set (map_values (dependencyEdges (w_store w)))" "edge_in org ws g" "e_dependentDevTicketId g = d" "e_blockerDevTicketId g = b"
      using edge unfolding waits_on_iff by blast
    then have "e_organizationId g = org" "e_workspaceId g = ws" "e_lifecycleState g = Active" by (auto simp: edge_in_def)
    then show ?thesis using inv(2) g by (auto simp: blockers_live_def selectDevTicket_def)
  qed
  then show ?thesis using inv(1) by (simp add: graph_wf_def graph_acyclic_def)
qed

theorem dependencies_of_reachable_boards_witness:
  "reachable demo_runtime imported_board \<and> acyclic (depends_on (w_store imported_board) demo_org ''w'')"
  using dependencies_of_reachable_boards[OF imported_board_reachable, of demo_org "''w''"] imported_board_reachable by simp

text \<open>
  C21. In every reachable world the declared Change Risk of a ticket in Todo reaches the minimum that the policy
  gives for its type, its work areas and the dependencies it has now; the same holds after any command on a
  board that satisfies the invariant.
\<close>

theorem todo_tickets_meet_the_risk_policy:
  assumes "board_inv (rt_sha256 rt) (w_store w)" "colon_free (env_workspaceId e)" "runCommand rt e c w = (r, w')"
    and "selectDevTicket (w_store w') org ws tid = Some t" "t_lane t = Todo"
  shows "\<exists>ty d. t_devTicketType t = Some ty \<and> t_declaredChangeRisk t = Some d \<and> t_workAreas t \<noteq> [] \<and>
    minimumChangeRisk (evaluateChangeRisk (rt_sha256 rt) ty (t_workAreas t)
      (hasActiveDependencies (w_store w') (t_organizationId t) (t_workspaceId t) (t_id t))) \<le> d"
proof -
  have "board_inv (rt_sha256 rt) (w_store w')"
    using run_leads[OF assms(2), of rt w c] assms(1,3) by (simp add: leads_def board_rel_def)
  then have "ticket_ok (rt_sha256 rt) t" "policy_ok (rt_sha256 rt) (w_store w') t"
    using assms(4) by (auto simp: board_inv_def tickets_ok_def selectDevTicket_def)
  then show ?thesis using assms(5) by (auto simp: policy_ok_def ticket_ok_def approved_def)
qed

theorem todo_tickets_meet_the_risk_policy_witness:
  "\<exists>t ty d. selectDevTicket (w_store (snd (runCommand demo_runtime depend_envelope (AddDependency depend_request) queued_board))) demo_org ''w'' ''b'' = Some t \<and>
     t_lane t = Todo \<and> t_devTicketType t = Some ty \<and> t_declaredChangeRisk t = Some d"
proof -
  let ?w = "snd (runCommand demo_runtime depend_envelope (AddDependency depend_request) queued_board)"
  have "map_option t_lane (selectDevTicket (w_store ?w) demo_org ''w'' ''b'') = Some Todo"
    unfolding depend_envelope_def take_session by code_simp
  then obtain t where t: "selectDevTicket (w_store ?w) demo_org ''w'' ''b'' = Some t" "t_lane t = Todo" by auto
  show ?thesis
    using todo_tickets_meet_the_risk_policy[OF queued_inv _ surjective_pairing t] t demo_scope(2) by (auto simp: depend_envelope_def)
qed

text \<open>
  C22. In every reachable world an accepted proposal names a DevTicket that exists and names it back; a proposal
  in any other state names none; and a ticket that came from a proposal is the ticket of that accepted proposal.
\<close>

theorem acceptance_links_of_reachable_boards:
  assumes "reachable rt w"
  shows "(\<forall>k p. map_get (proposals (w_store w)) k = Some p \<longrightarrow>
      (if p_lifecycleState p = Accepted
       then \<exists>tid t. p_acceptedDevTicketId p = Some tid \<and> t_sourceProposalId t = Some (p_id p) \<and>
         selectDevTicket (w_store w) (p_organizationId p) (p_workspaceId p) tid = Some t
       else p_acceptedDevTicketId p = None)) \<and>
    (\<forall>k t pid. map_get (devTickets (w_store w)) k = Some t \<longrightarrow> t_sourceProposalId t = Some pid \<longrightarrow>
       (\<exists>p. map_get (proposals (w_store w)) (key (t_organizationId t) (t_workspaceId t) pid) = Some p \<and>
          p_lifecycleState p = Accepted \<and> p_acceptedDevTicketId p = Some (t_id t)))"
proof -
  have links: "acceptance_links (w_store w)" using reachable_board_inv[OF assms] by (simp add: board_inv_def)
  have "if p_lifecycleState p = Accepted
       then \<exists>tid t. p_acceptedDevTicketId p = Some tid \<and> t_sourceProposalId t = Some (p_id p) \<and>
         selectDevTicket (w_store w) (p_organizationId p) (p_workspaceId p) tid = Some t
       else p_acceptedDevTicketId p = None" if "map_get (proposals (w_store w)) k = Some p" for k p
  proof -
    have "accepted_proposal_link (w_store w) p" using links that by (auto simp: acceptance_links_def)
    then show ?thesis by (auto simp: accepted_proposal_link_def selectDevTicket_def)
  qed
  moreover have "source_proposal_link (w_store w) t" if "map_get (devTickets (w_store w)) k = Some t" for k t
    using links that by (auto simp: acceptance_links_def)
  ultimately show ?thesis unfolding source_proposal_link_def by blast
qed

theorem acceptance_links_of_reachable_boards_witness:
  "let w = snd (runCommand demo_runtime draft_envelope (DraftProposal draft_request) demo_start)
   in \<exists>p. map_get (proposals (w_store w)) (key demo_org ''w'' ''p'') = Some p \<and> p_lifecycleState p = ProposalDraft \<and>
     p_acceptedDevTicketId p = None"
proof -
  let ?w = "snd (runCommand demo_runtime draft_envelope (DraftProposal draft_request) demo_start)"
  have "map_option p_lifecycleState (map_get (proposals (w_store ?w)) (key demo_org ''w'' ''p'')) = Some ProposalDraft"
    unfolding draft_envelope_def take_session by code_simp
  then obtain p where p: "map_get (proposals (w_store ?w)) (key demo_org ''w'' ''p'') = Some p" "p_lifecycleState p = ProposalDraft" by auto
  have "reachable demo_runtime ?w"
    by (rule reachable_run[OF demo_start_reachable]) (use demo_scope(2) in \<open>simp add: draft_envelope_def\<close>)
  then show ?thesis using conjunct1[OF acceptance_links_of_reachable_boards, rule_format, OF _ p(1)] p by (auto simp: Let_def)
qed

text \<open>
  C23. The ledgers of a reachable world number the planning entries and the activity events of each workspace 1,
  2, 3 and so on without a gap, and whatever happens later only appends to them. Every receipt is terminal: no
  reservation is left open.
\<close>

theorem ledgers_and_receipts_of_reachable_boards:
  assumes "reachable rt w" "db_rollsBack (rt_database rt)" "(board_step rt)\<^sup>*\<^sup>* w w'"
  shows "(\<forall>ws. entry_numbers (w_ledger w') ws = map int [1..<length (entry_numbers (w_ledger w') ws) + 1] \<and>
        event_numbers (w_ledger w') ws = map int [1..<length (event_numbers (w_ledger w') ws) + 1]) \<and>
    ledger_extends (w_ledger w) (w_ledger w') \<and>
    (\<forall>k r. map_get (w_receipts w') k = Some r \<longrightarrow> rr_state r \<noteq> Reserved)"
proof -
  have r: "reachable rt w'" using assms(1,3) unfolding reachable_def by (rule rtranclp_trans)
  have "ledger_extends (w_ledger w) (w_ledger w')" using steps_trail[OF assms(3)] by (simp add: trail_def)
  moreover have "\<forall>k r. map_get (w_receipts w') k = Some r \<longrightarrow> rr_state r \<noteq> Reserved"
    using reachable_quiescent[OF r assms(2)] by (auto simp: quiescent_def all_terminal_def dest: map_of_SomeD)
  ultimately show ?thesis using reachable_ledger_wf[OF r] by (simp add: ledger_wf_def)
qed

theorem ledgers_and_receipts_of_reachable_boards_witness:
  "ledger_extends (w_ledger legacy_board) (w_ledger imported_board) \<and>
   entry_numbers (w_ledger imported_board) ''w'' = map int [1..<length (entry_numbers (w_ledger imported_board) ''w'') + 1]"
proof -
  have "board_step demo_runtime legacy_board imported_board" unfolding imported_board_def
    by (rule board_step.command[OF _ surjective_pairing]) (use demo_scope(2) in \<open>simp add: import_envelope_def\<close>)
  then show ?thesis
    using ledgers_and_receipts_of_reachable_boards[OF legacy_board_reachable _ r_into_rtranclp]
    by simp
qed

section \<open>What holds of every command\<close>

text \<open>
  C1. A command that is accepted for the first time (no receipt under its idempotency key) changes the store
  exactly as the specification of that command says.
\<close>

theorem accepted_commands_refine_their_specification:
  assumes "board_inv (rt_sha256 rt) (w_store w)" "colon_free (env_workspaceId e)"
    and "map_get (w_receipts w) (receiptKey (envelope_lookup e)) = None" "runCommand rt e c w = (Returned (ok x), w')"
  shows "command_effect rt e c (w_store w) x (w_store w')"
  using run_accepted assms by blast

theorem accepted_commands_refine_their_specification_witness:
  "command_effect demo_runtime depend_envelope (AddDependency depend_request) (w_store queued_board)
     (the_ok (runCommand demo_runtime depend_envelope (AddDependency depend_request) queued_board))
     (w_store (snd (runCommand demo_runtime depend_envelope (AddDependency depend_request) queued_board)))"
  by (rule accepted_commands_refine_their_specification[OF queued_inv _ _ is_okD[OF depend_accepted]])
    (use demo_scope(2) in \<open>simp_all add: depend_envelope_def queued_board_def\<close>)

text \<open>
  C5. A rejected command writes nothing to the planning store but the header, at its initial version, of a Todo
  queue that was never read before.
\<close>

theorem rejected_commands_write_nothing:
  assumes "board_inv (rt_sha256 rt) (w_store w)" "colon_free (env_workspaceId e)" "runCommand rt e c w = (Returned (err d), w')"
  shows "devTickets (w_store w') = devTickets (w_store w) \<and> proposals (w_store w') = proposals (w_store w) \<and>
    dependencyEdges (w_store w') = dependencyEdges (w_store w) \<and> todoQueueMemberships (w_store w') = todoQueueMemberships (w_store w) \<and>
    historicalRecords (w_store w') = historicalRecords (w_store w) \<and> legacyTaskAliases (w_store w') = legacyTaskAliases (w_store w) \<and>
    (\<forall>org ws. q_version (fst (getOrLockTodoQueueHeader org ws (w_store w'))) = q_version (fst (getOrLockTodoQueueHeader org ws (w_store w))))"
proof -
  have only: "headers_only (w_store w) (w_store w')" using run_refines[OF assms] by simp
  then obtain hs where "w_store w' = (w_store w)\<lparr>todoQueueHeaders := hs\<rparr>" by (auto simp: headers_only_def)
  then show ?thesis using only by (simp add: headers_only_def)
qed

theorem rejected_commands_write_nothing_witness:
  "let (r, w') = runCommand demo_runtime depend_envelope Claim queued_board
   in (\<exists>d. r = Returned (err d)) \<and> devTickets (w_store w') = devTickets (w_store queued_board)"
proof -
  let ?r = "runCommand demo_runtime depend_envelope Claim queued_board"
  have "case fst ?r of Returned (Inl _) \<Rightarrow> True | _ \<Rightarrow> False"
    unfolding depend_envelope_def take_session by code_simp
  then obtain d where "?r = (Returned (err d), snd ?r)" by (cases ?r) (auto split: js_result.splits sum.splits)
  moreover from rejected_commands_write_nothing[OF queued_inv _ this] demo_scope(2)
  have "devTickets (w_store (snd ?r)) = devTickets (w_store queued_board)" by (simp add: depend_envelope_def)
  ultimately show ?thesis by (metis (mono_tags, lifting) case_prod_conv)
qed




text \<open>
  C4. Exactly once: when a command has returned a result, sending it again, in any later world, returns the
  same result and changes nothing. For the two migration commands the caller must still be authorized.
\<close>

theorem repeated_commands_replay:
  assumes "reachable rt w" "db_rollsBack (rt_database rt)" "runCommand rt e c w = (Returned r, w')" "admitted c e w"
    and "(board_step rt)\<^sup>*\<^sup>* w' w''" "admitted c e w''"
  shows "runCommand rt e c w'' = (Returned r, w'')"
  by (rule run_replays[OF reachable_quiescent[OF assms(1,2)] assms(3,4) steps_trail[OF assms(5)] assms(6)])

theorem repeated_commands_replay_witness:
  "let (r, w') = runCommand demo_runtime draft_envelope (DraftProposal draft_request) demo_start;
       w'' = w'\<lparr>w_store := grantActiveMembership demo_org ''v'' (w_store w')\<rparr>
   in (\<exists>x. r = Returned (ok x)) \<and> runCommand demo_runtime draft_envelope (DraftProposal draft_request) w'' = (r, w'')"
proof -
  let ?r = "runCommand demo_runtime draft_envelope (DraftProposal draft_request) demo_start"
  let ?w = "(snd ?r)\<lparr>w_store := grantActiveMembership demo_org ''v'' (w_store (snd ?r))\<rparr>"
  have "(board_step demo_runtime)\<^sup>*\<^sup>* (snd ?r) ?w" by (rule r_into_rtranclp) (rule board_step.membership)
  from repeated_commands_replay[OF demo_start_reachable _ is_okD[OF draft_accepted] _ this]
  have "runCommand demo_runtime draft_envelope (DraftProposal draft_request) ?w = (Returned (ok (the_ok ?r)), ?w)"
    by (simp add: admitted_def migrates_def)
  moreover have "fst ?r = Returned (ok (the_ok ?r))" using is_okD[OF draft_accepted] by (metis fst_conv)
  ultimately show ?thesis by (simp only: Let_def case_prod_beta) blast
qed

text \<open>
  An idempotency key that was used with another request hash is refused with the conflict error, and the
  world stays exactly as it is.
\<close>

theorem reused_keys_conflict:
  assumes "reachable rt w" "db_rollsBack (rt_database rt)"
    and "is_uuid (env_organizationId e)" "session_ok (rt_database rt) (env_organizationId e)" "admitted c e w"
    and "map_get (w_receipts w) (receiptKey (envelope_lookup e)) = Some receipt" "rk_requestHash receipt \<noteq> env_requestHash e"
  shows "runCommand rt e c w = (Returned (err idempotencyConflict), w)"
proof -
  have "rr_state receipt \<noteq> Reserved"
    using reachable_quiescent[OF assms(1,2)] map_of_SomeD[OF assms(6)] by (auto simp: quiescent_def all_terminal_def)
  then have r: "reserved e body w = (Returned (err idempotencyConflict), w)" for body
    using reserved_terminal[OF assms(6)] assms(7) by simp
  obtain body msg where shape: "runCommand rt e c = inTenant rt e (guarded e c msg body)" by (rule runCommand_shape)
  show ?thesis using assms(3,4) by (simp add: shape inTenant_def withTenant_entry admitted_reserved[OF assms(5)] r)
qed

theorem reused_keys_conflict_witness:
  "let w = snd (runCommand demo_runtime draft_envelope (DraftProposal draft_request) demo_start)
   in runCommand demo_runtime (draft_envelope\<lparr>env_requestHash := ''other''\<rparr>) (DraftProposal draft_request) w = (Returned (err idempotencyConflict), w)"
proof -
  let ?w = "snd (runCommand demo_runtime draft_envelope (DraftProposal draft_request) demo_start)"
  let ?e = "draft_envelope\<lparr>env_requestHash := ''other''\<rparr>"
  have "map_option rk_requestHash (map_get (w_receipts ?w) (receiptKey (envelope_lookup ?e))) = Some ''1''"
    unfolding draft_envelope_def take_session by code_simp
  then obtain receipt where rec: "map_get (w_receipts ?w) (receiptKey (envelope_lookup ?e)) = Some receipt" "rk_requestHash receipt = ''1''" by auto
  have "reachable demo_runtime ?w"
    by (rule reachable_run[OF demo_start_reachable]) (use demo_scope(2) in \<open>simp add: draft_envelope_def\<close>)
  then show ?thesis unfolding Let_def
    by (rule reused_keys_conflict[OF _ _ _ _ _ rec(1)])
      (use rec(2) demo_session in \<open>simp_all add: draft_envelope_def admitted_def migrates_def\<close>)
qed



text \<open>
  The gate commands (claim, start, submit for review, admit done) accept nothing and touch no row, on any
  board, as long as no receipt of an accepted command stands under their key.
\<close>

theorem gates_stay_closed:
  assumes "c \<in> {Claim, Start, SubmitForReview, AdmitDone}" "board_inv (rt_sha256 rt) (w_store w)" "colon_free (env_workspaceId e)"
    and "map_get (w_receipts w) (receiptKey (envelope_lookup e)) = None" "runCommand rt e c w = (Returned r, w')"
  shows "(\<exists>d. r = err d) \<and> devTickets (w_store w') = devTickets (w_store w)"
proof (cases r)
  case (Inl d)
  then have "headers_only (w_store w) (w_store w')" using run_refines[OF assms(2,3,5)] by simp
  then show ?thesis using Inl by (auto simp: headers_only_def)
next
  case (Inr x)
  then have "command_effect rt e c (w_store w) x (w_store w')" using run_accepted[OF assms(2,3,4)] assms(5) by blast
  then show ?thesis using assms(1) by auto
qed

theorem gates_stay_closed_witness:
  "\<exists>d. fst (runCommand demo_runtime depend_envelope Claim queued_board) = Returned (err d)"
proof -
  let ?r = "runCommand demo_runtime depend_envelope Claim queued_board"
  have "case fst ?r of Returned _ \<Rightarrow> True | _ \<Rightarrow> False"
    unfolding depend_envelope_def take_session by code_simp
  then obtain x where "?r = (Returned x, snd ?r)" by (cases ?r) (auto split: js_result.splits)
  from gates_stay_closed[OF _ queued_inv _ _ this] demo_scope(2) this show ?thesis
    by (auto simp: depend_envelope_def queued_board_def prod_eq_iff)
qed

text \<open>
  Without an owner or admin role of the organization, or for an actor that is not a user, the two migration
  commands answer with an authorization error before they look at any receipt, and change nothing.
\<close>

theorem migration_requires_authorization:
  assumes "c = ImportLegacyDevTicket i \<or> c = ReconcileHistoricalCompletion j"
    and "is_uuid (env_organizationId e)" "session_ok (rt_database rt) (env_organizationId e)"
    and "\<not> authorizedLegacyImportActor (w_store w) e"
  shows "\<exists>d. runCommand rt e c w = (Returned (err d), w) \<and>
    err_code d \<in> {err_code invalid_actor, ''dev_board.import_authorization_required''}"
  using assms parseCommandActorRef_err[of "env_actorRef e"]
  by (auto simp: importLegacyDevTicket_def reconcileHistoricalCompletion_def inTenant_def withTenant_entry authorizedFirst_def
      fromStore_def ret_def failure_def split: sum.splits)

theorem migration_requires_authorization_witness:
  "\<exists>d. runCommand demo_runtime import_envelope (ImportLegacyDevTicket import_request) empty_world = (Returned (err d), empty_world)"
proof -
  have "\<not> authorizedLegacyImportActor (w_store empty_world) import_envelope" by code_simp
  then show ?thesis
    using migration_requires_authorization[of "ImportLegacyDevTicket import_request" import_request undefined import_envelope demo_runtime empty_world]
      demo_session by (auto simp: import_envelope_def)
qed

end
